(* ===== verification/PCV_Prelude.thy ===== *)
theory PCV_Prelude
  imports Complex_Main "HOL-Library.AList" "HOL-Library.Multiset"
begin

text \<open>
  Shared vocabulary of the development: Python's errors and operator results as values,
  the Python and numpy list operations the sources use (slices, negative indices,
  deletion by index, truncating \<open>int\<close>), dictionaries as association lists in insertion
  order, and a small theory of invariants of transition systems that every stateful
  component instantiates.
\<close>

named_theorems pcv_defs \<open>definitions of the helpers that proofs unfold\<close>
named_theorems pcv_frame \<open>fields an operation leaves unchanged\<close>

section \<open>Errors and results\<close>

datatype py_error =
    KeyError string
  | IndexError
  | ValueError string
  | TypeError string
  | OSError string
  | UnicodeDecodeError
  | ZeroDivisionError
  | AttributeError
  | UnboundLocalError
  | Py_Exception string

fun bindE :: "'e + 'a \<Rightarrow> ('a \<Rightarrow> 'e + 'b) \<Rightarrow> 'e + 'b" where
  "bindE (Inl e) f = Inl e"
| "bindE (Inr x) f = f x"

lemma bindE_eq_Inr: "bindE m f = Inr y \<longleftrightarrow> (\<exists>x. m = Inr x \<and> f x = Inr y)"
  by (cases m) auto

lemma bindE_eq_Inl: "bindE m f = Inl e \<longleftrightarrow> m = Inl e \<or> (\<exists>x. m = Inr x \<and> f x = Inl e)"
  by (cases m) auto

lemma bindE_cong [fundef_cong]:
  "m = m' \<Longrightarrow> (\<And>x. m' = Inr x \<Longrightarrow> f x = g x) \<Longrightarrow> bindE m f = bindE m' g"
  by (cases m') auto

text \<open>Mapping a fallible function over a list stops at the first error.\<close>

fun mapE :: "('a \<Rightarrow> 'e + 'b) \<Rightarrow> 'a list \<Rightarrow> 'e + 'b list" where
  "mapE f [] = Inr []"
| "mapE f (x # xs) = bindE (f x) (\<lambda>y. bindE (mapE f xs) (\<lambda>ys. Inr (y # ys)))"

lemma mapE_Inr: "(\<And>x. x \<in> set xs \<Longrightarrow> f x = Inr (g x)) \<Longrightarrow> mapE f xs = Inr (map g xs)"
  by (induction xs) auto

lemma mapE_length: "mapE f xs = Inr ys \<Longrightarrow> length ys = length xs"
  by (induction xs arbitrary: ys) (auto simp: bindE_eq_Inr)

text \<open>What a Blender operator's \<open>execute\<close> hands back: a status set, or an exception.\<close>

datatype status = Finished | Cancelled | Returned_False | Raised py_error

section \<open>Python numbers and sequences\<close>

text \<open>\<open>int(x)\<close> truncates towards zero.\<close>

definition py_int :: "real \<Rightarrow> int" where
  "py_int x = (if 0 \<le> x then \<lfloor>x\<rfloor> else \<lceil>x\<rceil>)"

lemma py_int_nonneg: "0 \<le> x \<Longrightarrow> 0 \<le> py_int x"
  by (simp add: py_int_def)

lemma py_int_le: "0 \<le> x \<Longrightarrow> x \<le> real n \<Longrightarrow> py_int x \<le> int n"
  by (simp add: py_int_def floor_le_iff)

lemma py_int_of_nat [simp]: "py_int (real n) = int n"
  by (simp add: py_int_def)

text \<open>The slice \<open>xs[:l]\<close>: a negative bound counts from the end.\<close>

definition py_take :: "int \<Rightarrow> 'a list \<Rightarrow> 'a list" where
  "py_take l xs = (if 0 \<le> l then take (nat l) xs else take (length xs - nat (- l)) xs)"

lemma py_take_all [simp]: "int (length xs) \<le> l \<Longrightarrow> py_take l xs = xs"
  by (simp add: py_take_def nat_le_iff)

lemma length_py_take: "0 \<le> l \<Longrightarrow> l \<le> int (length xs) \<Longrightarrow> int (length (py_take l xs)) = l"
  by (simp add: py_take_def)

text \<open>An index counts from the end when it is negative; reading or writing outside raises.\<close>

definition py_index :: "nat \<Rightarrow> int \<Rightarrow> nat option" where
  "py_index len i =
     (if i < - int len \<or> int len \<le> i then None
      else Some (nat (if i < 0 then i + int len else i)))"

definition py_get :: "'a list \<Rightarrow> int \<Rightarrow> py_error + 'a" where
  "py_get xs i = (case py_index (length xs) i of None \<Rightarrow> Inl IndexError | Some k \<Rightarrow> Inr (xs ! k))"

definition py_set :: "'a list \<Rightarrow> int \<Rightarrow> 'a \<Rightarrow> py_error + 'a list" where
  "py_set xs i v = (case py_index (length xs) i of None \<Rightarrow> Inl IndexError | Some k \<Rightarrow> Inr (xs[k := v]))"

lemma py_index_less: "py_index len i = Some k \<Longrightarrow> k < len"
  by (auto simp: py_index_def split: if_splits)

lemma py_get_nth [simp]: "0 \<le> i \<Longrightarrow> i < int (length xs) \<Longrightarrow> py_get xs i = Inr (xs ! nat i)"
  by (simp add: py_get_def py_index_def)

lemma py_get_set: "py_get xs i = Inr x \<Longrightarrow> x \<in> set xs"
  by (auto simp: py_get_def split: option.splits dest: py_index_less)

text \<open>
  \<open>np.delete(xs, idx, axis=0)\<close> for a list of row numbers: the rows whose number is not
  listed, in order; numpy raises on a number that is no row.
\<close>

definition drop_rows :: "nat list \<Rightarrow> 'a list \<Rightarrow> 'a list" where
  "drop_rows idx xs = map snd (filter (\<lambda>p. fst p \<notin> set idx) (zip [0..<length xs] xs))"

definition np_delete :: "'a list \<Rightarrow> nat list \<Rightarrow> py_error + 'a list" where
  "np_delete xs idx = (if \<forall>i\<in>set idx. i < length xs then Inr (drop_rows idx xs) else Inl IndexError)"

text \<open>\<open>np.take(xs, idx, axis=0)\<close>.\<close>

definition np_take :: "'a list \<Rightarrow> nat list \<Rightarrow> py_error + 'a list" where
  "np_take xs idx = (if \<forall>i\<in>set idx. i < length xs then Inr (map (\<lambda>i. xs ! i) idx) else Inl IndexError)"

lemma drop_rows_nths: "drop_rows idx xs = nths xs {i. i \<notin> set idx}"
proof -
  have eq: "zip [0..<length xs] xs = map (\<lambda>(x, y). (y, x)) (zip xs [0..<length xs])"
    by (rule nth_equalityI) auto
  show ?thesis
    unfolding drop_rows_def nths_def eq
    by (simp add: filter_map o_def case_prod_unfold)
qed

lemma drop_rows_Nil [simp]: "drop_rows [] xs = xs"
  by (simp add: drop_rows_def)

lemma length_drop_rows:
  assumes "\<forall>i\<in>set idx. i < length xs"
  shows "length (drop_rows idx xs) + card (set idx) = length xs"
proof -
  let ?A = "{i. i < length xs \<and> i \<notin> set idx}"
  have "length (drop_rows idx xs) = card ?A"
    by (simp add: drop_rows_nths length_nths)
  moreover have "?A \<union> set idx = {..<length xs}" "?A \<inter> set idx = {}"
    using assms by auto
  then have "card ?A + card (set idx) = length xs"
    by (metis (no_types, lifting) List.finite_set card_Un_disjoint card_lessThan
        finite_Un finite_lessThan)
  ultimately show ?thesis by simp
qed

lemma zip_drop_rows:
  "length xs = length ys \<Longrightarrow> zip (drop_rows idx xs) (drop_rows idx ys) = drop_rows idx (zip xs ys)"
proof -
  assume len: "length xs = length ys"
  have "drop_rows idx xs = map fst (drop_rows idx (zip xs ys))"
    "drop_rows idx ys = map snd (drop_rows idx (zip xs ys))"
    using len by (simp_all add: drop_rows_nths nths_map [symmetric])
  then show ?thesis by (simp add: zip_map_fst_snd)
qed

lemma map_drop_rows: "map f (drop_rows idx xs) = drop_rows idx (map f xs)"
  by (simp add: drop_rows_nths nths_map)

lemma set_drop_rows: "set (drop_rows idx xs) = {xs ! i | i. i < length xs \<and> i \<notin> set idx}"
  by (auto simp: drop_rows_nths set_nths)

text \<open>Deleting exactly the rows that fail a test keeps the rows that pass it.\<close>

lemma drop_rows_filter:
  "drop_rows (filter (\<lambda>i. \<not> P (xs ! i)) [0..<length xs]) xs = filter P xs"
proof -
  have "map snd (filter (\<lambda>p. \<not> (fst p < length xs \<and> \<not> P (xs ! fst p))) (zip [0..<length xs] xs))
      = map snd (filter (\<lambda>p. P (snd p)) (zip [0..<length xs] xs))"
    by (rule arg_cong [where f = "map snd"], rule filter_cong) (auto simp: set_zip)
  also have "\<dots> = filter P (map snd (zip [0..<length xs] xs))"
    by (simp only: filter_map o_def)
  finally show ?thesis by (simp add: drop_rows_def)
qed

section \<open>Dictionaries\<close>

text \<open>
  A Python dict is an association list in insertion order: assigning an existing key keeps
  its place, a new key goes last (\<open>AList.update\<close>), \<open>del\<close> removes it (\<open>AList.delete\<close>).
\<close>

type_synonym ('k, 'v) dict = "('k \<times> 'v) list"

abbreviation dict_get :: "('k, 'v) dict \<Rightarrow> 'k \<Rightarrow> 'v option" where
  "dict_get d k \<equiv> map_of d k"

abbreviation dict_keys :: "('k, 'v) dict \<Rightarrow> 'k list" where
  "dict_keys d \<equiv> map fst d"

lemma dict_get_update [simp]: "dict_get (AList.update k v d) k' = (if k' = k then Some v else dict_get d k')"
  by (simp add: update_conv')

lemma dict_get_delete [simp]: "dict_get (AList.delete k d) k' = (if k' = k then None else dict_get d k')"
  by (simp add: delete_conv')

lemma dict_update_set:
  assumes "(k', v') \<in> set (AList.update k v d)"
  shows "(k', v') = (k, v) \<or> (k', v') \<in> set d"
  using assms by (induction d) (auto split: if_splits)

lemma dict_get_mem: "distinct (map fst d) \<Longrightarrow> dict_get d k = Some v \<longleftrightarrow> (k, v) \<in> set d"
  by (metis map_of_eq_Some_iff)

section \<open>Invariants of transition systems\<close>

text \<open>
  A component with an initial state and a step function, and a property of its states that
  holds at the start and that every step keeps. The invariant then holds after any sequence
  of steps and in every reachable state.
\<close>

inductive reach :: "'s \<Rightarrow> ('a \<Rightarrow> 's \<Rightarrow> 's) \<Rightarrow> 's \<Rightarrow> bool" for s0 step where
  reach_init: "reach s0 step s0"
| reach_step: "reach s0 step s \<Longrightarrow> reach s0 step (step a s)"

locale transition_invariant =
  fixes start :: "'s"
    and step :: "'a \<Rightarrow> 's \<Rightarrow> 's"
    and inv :: "'s \<Rightarrow> bool"
  assumes inv_start: "inv start"
    and inv_step: "inv s \<Longrightarrow> inv (step a s)"
begin

lemma inv_fold: "inv s \<Longrightarrow> inv (fold step as s)"
  by (induction as arbitrary: s) (auto intro: inv_step)

lemma inv_run: "inv (fold step as start)"
  by (rule inv_fold) (rule inv_start)

lemma inv_reach: "reach start step s \<Longrightarrow> inv s"
  by (induction rule: reach.induct) (auto intro: inv_start inv_step)

end

lemma reach_fold: "reach s0 step s \<Longrightarrow> reach s0 step (fold step as s)"
  by (induction as arbitrary: s) (auto intro: reach.reach_step)

lemma reach_iff_fold: "reach s0 step s \<longleftrightarrow> (\<exists>as. s = fold step as s0)"
proof
  show "reach s0 step s \<Longrightarrow> \<exists>as. s = fold step as s0"
  proof (induction rule: reach.induct)
    case reach_init
    show ?case by (rule exI [of _ "[]"]) simp
  next
    case (reach_step s a)
    then obtain as where "s = fold step as s0" by blast
    then show ?case by (intro exI [of _ "as @ [a]"]) simp
  qed
qed (auto intro: reach_fold reach.reach_init)

end
