(* ===== verification/PCV_State.thy ===== *)
theory PCV_State
  imports PCV_Prelude
begin

text \<open>
  The state the add-on works on: the properties of an object (\<open>PCV_properties\<close>), the
  items of \<open>PCVManager.cache\<close>, the class attributes of \<open>PCVManager\<close> and \<open>PCVSequence\<close>,
  the add-on preferences and the part of Blender's own data the code reads and writes.
  Floating point numbers are modelled as exact reals.
\<close>

type_synonym v3 = "real \<times> real \<times> real"
type_synonym v4 = "real \<times> real \<times> real \<times> real"
type_synonym mat4 = "v4 list"

section \<open>Arrays of points and GPU batches\<close>

text \<open>
  A numpy structured array: its fields (name, byte order and type character) and its
  rows, each field as the bytes the array's buffer holds. \<open>num_env\<close> bundles numpy's
  conversions between those bytes and numbers, which the code only calls, and the
  machine's byte order (\<open>sys.byteorder\<close>).
\<close>

type_synonym np_type = "char \<times> char"

record parray =
  pa_dtype :: "(string \<times> np_type) list"
  pa_rows :: "string list list"

record num_env =
  ne_val :: "np_type \<Rightarrow> string \<Rightarrow> real"
  ne_enc :: "np_type \<Rightarrow> real \<Rightarrow> string"
  ne_little :: bool

definition pa_names :: "parray \<Rightarrow> string list" where
  "pa_names a = map fst (pa_dtype a)"

definition has_fields :: "string list \<Rightarrow> parray \<Rightarrow> bool" where
  "has_fields fs a \<longleftrightarrow> set fs \<subseteq> set (pa_names a)"

fun field_of :: "(string \<times> np_type) list \<Rightarrow> string list \<Rightarrow> string \<Rightarrow> (np_type \<times> string) option" where
  "field_of ((n, t) # dt) (c # cs) f = (if n = f then Some (t, c) else field_of dt cs f)"
| "field_of _ _ f = None"

definition pa_column :: "num_env \<Rightarrow> parray \<Rightarrow> string \<Rightarrow> real list" where
  "pa_column ne a f =
     map (\<lambda>r. case field_of (pa_dtype a) r f of None \<Rightarrow> 0 | Some (t, c) \<Rightarrow> ne_val ne t c) (pa_rows a)"

text \<open>\<open>np.column_stack((points['x'], points['y'], points['z'], ))\<close>.\<close>

definition column_stack3 :: "real list \<Rightarrow> real list \<Rightarrow> real list \<Rightarrow> v3 list" where
  "column_stack3 xs ys zs = zip xs (zip ys zs)"

definition column_stack4 :: "real list \<Rightarrow> real list \<Rightarrow> real list \<Rightarrow> real list \<Rightarrow> v4 list" where
  "column_stack4 xs ys zs ws = zip xs (zip ys (zip zs ws))"

lemma length_column_stack [simp]:
  "length (column_stack3 xs ys zs) = min (length xs) (min (length ys) (length zs))"
  "length (column_stack4 xs ys zs ws) = min (length xs) (min (length ys) (min (length zs) (length ws)))"
  by (simp_all add: column_stack3_def column_stack4_def)

lemma length_pa_column [simp]: "length (pa_column ne a f) = length (pa_rows a)"
  by (simp add: pa_column_def)

text \<open>
  \<open>GPUShader\<close> and \<open>batch_for_shader\<close> are Blender's: a shader is the pair of source names
  it was made from, a batch records the shader and the attribute arrays it was given.
\<close>

type_synonym shader = "string \<times> string"

record batch =
  b_shader :: shader
  b_position :: "v3 list"
  b_color :: "v4 list option"
  b_normal :: "v3 list option"

definition shader_simple :: shader where
  "shader_simple = (''vertex_shader_simple'', ''fragment_shader_simple'')"

definition shader_illumination :: shader where
  "shader_illumination = (''vertex_shader_illumination'', ''fragment_shader_illumination'')"

definition shader_selection :: shader where
  "shader_selection = (''selection_vertex_shader'', ''selection_fragment_shader'')"

section \<open>Properties of an object\<close>

datatype shader_flag =
    Dev_depth | Dev_normal_colors | Dev_position_colors | Color_adjustment
  | Minimal_shader | Minimal_variable_size | Minimal_variable_size_and_depth
  | Billboard | Rich_billboard | Rich_billboard_no_depth | Phong_shader
  | Clip_shader | Billboard_phong | Skip_point

record color_adjust =
  ca_exposure :: real
  ca_gamma :: real
  ca_brightness :: real
  ca_contrast :: real
  ca_hue :: real
  ca_saturation :: real
  ca_value :: real
  ca_invert :: bool

text \<open>The settings of the single tools, grouped by the prefix of their property names.\<close>

record remove_color_settings =
  rc_color :: v3
  rc_delta_hue :: real
  rc_delta_hue_use :: bool
  rc_delta_saturation :: real
  rc_delta_saturation_use :: bool
  rc_delta_value :: real
  rc_delta_value_use :: bool

record project_settings =
  fp_object :: "string option"
  fp_search_distance :: real
  fp_positive :: bool
  fp_negative :: bool
  fp_discard :: bool
  fp_colorize :: bool
  fp_colorize_from :: string
  fp_shift :: real

record export_settings =
  ex_use_viewport :: bool
  ex_apply_transformation :: bool
  ex_convert_axes :: bool
  ex_visible_only :: bool

record mesh_settings =
  ms_type :: string
  ms_size :: real
  ms_normal_align :: bool
  ms_vcols :: bool
  ms_all :: bool
  ms_percentage :: real
  ms_sphere_subdivisions :: int
  ms_use_instancer2 :: bool

record render_settings =
  rn_point_size :: int
  rn_display_percent :: real
  rn_path :: string
  rn_resolution_x :: int
  rn_resolution_y :: int
  rn_resolution_percentage :: int
  rn_resolution_linked :: bool
  rn_smoothstep :: bool
  rn_supersampling :: int

record generate_settings =
  gn_source :: string
  gn_source_psys :: string
  gn_algorithm :: string
  gn_number_of_points :: int
  gn_seed :: int
  gn_colors :: string
  gn_constant_color :: v3
  gn_exact_number_of_points :: bool
  gn_minimal_distance :: real
  gn_sampling_exponent :: int

text \<open>What is drawn besides the points: their normals, all of them as selected, the bounding box.\<close>

record display_settings =
  ds_vertex_normals :: bool
  ds_selection :: bool
  ds_bbox :: bool
  ds_bbox_size :: real
  ds_circles :: bool

record pcv =
  p_filepath :: string
  p_uuid :: string
  p_runtime :: bool
  p_point_size :: int
  p_display_percent :: real
  p_global_alpha :: real
  p_has_normals :: bool
  p_has_vcols :: bool
  p_illumination :: bool
  p_flags :: "shader_flag \<Rightarrow> bool"
  p_override_default_shader :: bool
  p_dev_depth_false_colors :: bool
  p_edit_initialized :: bool
  p_edit_is_edit_mesh :: bool
  p_edit_is_edit_uuid :: string
  p_edit_pre_edit_alpha :: real
  p_edit_pre_edit_display :: real
  p_edit_pre_edit_size :: int
  p_edit_overlay_alpha :: real
  p_edit_overlay_size :: int
  p_filter_remove_color_selection :: bool
  p_filter_join_object :: "string option"
  p_filter_boolean_object :: "string option"
  p_sequence_use_cyclic :: bool
  p_color_adjust :: color_adjust
  p_clip_planes :: "v4 list"
  p_clip_planes_enabled :: "bool list"
  p_clip_planes_from_bbox_object :: "string option"
  p_simplify_num_samples :: int
  p_simplify_num_candidates :: int
  p_remove_color :: remove_color_settings
  p_project :: project_settings
  p_export :: export_settings
  p_mesh :: mesh_settings
  p_render :: render_settings
  p_generate :: generate_settings
  p_display :: display_settings

section \<open>Cache items\<close>

text \<open>
  A batch that is kept in an item's \<open>extra\<close> dict, with what it was made for. Of the random
  sizes some shaders use only whether they are stored is recorded.
\<close>

record extra_entry =
  xe_batch :: batch
  xe_length :: "int option"
  xe_illumination :: bool
  xe_false_colors :: bool
  xe_circles :: bool
  xe_sizes :: bool
  xe_sizesf :: bool

text \<open>
  One value of \<open>PCVManager.cache\<close>. The keys \<open>new\<close> fills with \<open>None\<close>, and the keys that
  only some items have, are options.
\<close>

record cache_item =
  ci_uuid :: "string option"
  ci_filepath :: "string option"
  ci_points :: "parray option"
  ci_vertices :: "v3 list option"
  ci_normals :: "v3 list option"
  ci_colors :: "v4 list option"
  ci_colors_original :: "v4 list option"
  ci_display_length :: "int option"
  ci_current_display_length :: "int option"
  ci_illumination :: bool
  ci_shader :: "shader option"
  ci_batch :: "batch option"
  ci_ready :: bool
  ci_draw :: bool
  ci_kill :: bool
  ci_stats :: "nat option"
  ci_length :: "nat option"
  ci_name :: "string option"
  ci_object :: "string option"
  ci_selection_indexes :: "nat list option"
  ci_vertex_normals :: "(batch \<times> int) option"
  ci_extra :: "(string, extra_entry) dict option"

section \<open>Blender's side and the whole state\<close>

text \<open>
  Objects are identified by their name; \<open>ob_verts\<close> is the vertex data of a helper mesh,
  each vertex with its \<open>pcv_indexes\<close> layer value.
\<close>

record object =
  ob_pcv :: pcv
  ob_visible :: bool
  ob_type :: string
  ob_parent :: "string option"
  ob_matrix_world :: mat4
  ob_verts :: "(v3 \<times> int) list"

record preferences =
  pr_default_vertex_color :: v3
  pr_convert_16bit_colors :: bool
  pr_gamma_correct_16bit_colors :: bool
  pr_shuffle_points :: bool

text \<open>
  The sequence cache: the loaded frames of a cloud, and the object whose properties the entry
  refers to.
\<close>

record seq_frame =
  sf_index :: nat
  sf_vs :: "v3 list"
  sf_ns :: "v3 list option"
  sf_cs :: "v4 list option"

record seq_item =
  si_data :: "seq_frame list"
  si_uuid :: string
  si_owner :: string

record world =
  cache :: "(string, cache_item) dict"
  handle :: bool
  initialized :: bool
  draw_handlers :: nat
  load_pre :: nat
  seq_cache :: "(string, seq_item) dict"
  seq_initialized :: bool
  frame_change_post :: nat
  frame_current :: int
  objects :: "(string, object) dict"
  context_object :: "string option"
  context_mode :: string
  prefs :: preferences
  reports :: "(string \<times> string) list"
  redraw :: bool

text \<open>\<open>operator.report\<close> and the redraw requests.\<close>

definition report :: "string \<Rightarrow> string \<Rightarrow> world \<Rightarrow> world" where
  "report level msg w = w\<lparr>reports := reports w @ [(level, msg)]\<rparr>"

definition tag_redraw :: "world \<Rightarrow> world" where
  "tag_redraw w = w\<lparr>redraw := True\<rparr>"

definition upd_pcv :: "string \<Rightarrow> (pcv \<Rightarrow> pcv) \<Rightarrow> world \<Rightarrow> world" where
  "upd_pcv o' f w =
     (case dict_get (objects w) o' of
        None \<Rightarrow> w
      | Some ob \<Rightarrow> w\<lparr>objects := AList.update o' (ob\<lparr>ob_pcv := f (ob_pcv ob)\<rparr>) (objects w)\<rparr>)"

definition get_pcv :: "world \<Rightarrow> string \<Rightarrow> pcv option" where
  "get_pcv w o' = map_option ob_pcv (dict_get (objects w) o')"

definition upd_item :: "string \<Rightarrow> (cache_item \<Rightarrow> cache_item) \<Rightarrow> world \<Rightarrow> world" where
  "upd_item u f w =
     (case dict_get (cache w) u of
        None \<Rightarrow> w
      | Some c \<Rightarrow> w\<lparr>cache := AList.update u (f c) (cache w)\<rparr>)"

lemma report_frame [simp, pcv_frame]:
  "cache (report l m w) = cache w" "objects (report l m w) = objects w"
  "initialized (report l m w) = initialized w" "handle (report l m w) = handle w"
  "draw_handlers (report l m w) = draw_handlers w" "load_pre (report l m w) = load_pre w"
  "prefs (report l m w) = prefs w" "context_object (report l m w) = context_object w"
  "seq_cache (report l m w) = seq_cache w"
  by (simp_all add: report_def)

lemma tag_redraw_frame [simp, pcv_frame]:
  "cache (tag_redraw w) = cache w" "objects (tag_redraw w) = objects w"
  "initialized (tag_redraw w) = initialized w" "handle (tag_redraw w) = handle w"
  "draw_handlers (tag_redraw w) = draw_handlers w" "load_pre (tag_redraw w) = load_pre w"
  "prefs (tag_redraw w) = prefs w" "context_object (tag_redraw w) = context_object w"
  "seq_cache (tag_redraw w) = seq_cache w" "reports (tag_redraw w) = reports w"
  by (simp_all add: tag_redraw_def)

lemma upd_pcv_frame [simp, pcv_frame]:
  "cache (upd_pcv o' f w) = cache w" "initialized (upd_pcv o' f w) = initialized w"
  "handle (upd_pcv o' f w) = handle w" "draw_handlers (upd_pcv o' f w) = draw_handlers w"
  "load_pre (upd_pcv o' f w) = load_pre w" "prefs (upd_pcv o' f w) = prefs w"
  "context_object (upd_pcv o' f w) = context_object w" "seq_cache (upd_pcv o' f w) = seq_cache w"
  "reports (upd_pcv o' f w) = reports w"
  by (simp_all add: upd_pcv_def split: option.splits)

lemma upd_item_frame [simp, pcv_frame]:
  "objects (upd_item u f w) = objects w" "initialized (upd_item u f w) = initialized w"
  "handle (upd_item u f w) = handle w" "draw_handlers (upd_item u f w) = draw_handlers w"
  "load_pre (upd_item u f w) = load_pre w" "prefs (upd_item u f w) = prefs w"
  "context_object (upd_item u f w) = context_object w" "seq_cache (upd_item u f w) = seq_cache w"
  "reports (upd_item u f w) = reports w"
  by (simp_all add: upd_item_def split: option.splits)

lemma get_pcv_upd_pcv:
  "get_pcv (upd_pcv o' f w) x = (if x = o' then map_option f (get_pcv w x) else get_pcv w x)"
  by (auto simp: get_pcv_def upd_pcv_def split: option.splits)

lemma get_pcv_frame [simp]:
  "get_pcv (upd_item u f w) x = get_pcv w x" "get_pcv (report l m w) x = get_pcv w x"
  "get_pcv (tag_redraw w) x = get_pcv w x" "get_pcv (w\<lparr>cache := c\<rparr>) x = get_pcv w x"
  by (simp_all add: get_pcv_def)

lemma dict_get_upd_item:
  "dict_get (cache (upd_item u f w)) x =
     (if x = u then map_option f (dict_get (cache w) x) else dict_get (cache w) x)"
  by (auto simp: upd_item_def split: option.splits)

end
