(* ===== verification/PCV_Extra.thy ===== *)
theory PCV_Extra
  imports PCV_State
begin

text \<open>
  The other shaders of \<open>PCVManager.render\<close>: the normals, the development shaders and the
  bounding box. Their batches are kept in the item's \<open>extra\<close> dict and made again only when
  what they were made for has changed.
\<close>

section \<open>Drawing steps\<close>

text \<open>
  One block of \<open>render\<close> maps an item to the batches it draws and the item with what it has
  stored; an exception keeps what was stored before it.
\<close>

type_synonym draw_step = "cache_item \<Rightarrow> (py_error + batch list) \<times> cache_item"

fun run_steps :: "draw_step list \<Rightarrow> draw_step" where
  "run_steps [] ci = (Inr [], ci)"
| "run_steps (f # fs) ci =
     (case f ci of
        (Inl e, c1) \<Rightarrow> (Inl e, c1)
      | (Inr bs, c1) \<Rightarrow>
          (case run_steps fs c1 of
             (Inl e, c2) \<Rightarrow> (Inl e, c2)
           | (Inr bs', c2) \<Rightarrow> (Inr (bs @ bs'), c2)))"

definition extra_get :: "string \<Rightarrow> cache_item \<Rightarrow> extra_entry option" where
  "extra_get t ci = Option.bind (ci_extra ci) (\<lambda>d. dict_get d t)"

definition extra_set :: "string \<Rightarrow> extra_entry \<Rightarrow> cache_item \<Rightarrow> cache_item" where
  "extra_set t v ci =
     ci\<lparr>ci_extra := Some (AList.update t v (case ci_extra ci of None \<Rightarrow> [] | Some d \<Rightarrow> d))\<rparr>"

text \<open>The stored batch when it is still valid, otherwise a new one that is stored.\<close>

definition stored_batch :: "string \<Rightarrow> (extra_entry \<Rightarrow> bool) \<Rightarrow> extra_entry \<Rightarrow> cache_item \<Rightarrow> batch \<times> cache_item" where
  "stored_batch t valid fresh ci =
     (case extra_get t ci of
        Some v \<Rightarrow> if valid v then (xe_batch v, ci) else (xe_batch fresh, extra_set t fresh ci)
      | None \<Rightarrow> (xe_batch fresh, extra_set t fresh ci))"

definition draw_stored :: "bool \<Rightarrow> string \<Rightarrow> (extra_entry \<Rightarrow> bool) \<Rightarrow> extra_entry \<Rightarrow> draw_step" where
  "draw_stored on t valid fresh ci =
     (if on then (case stored_batch t valid fresh ci of (b, c1) \<Rightarrow> (Inr [b], c1)) else (Inr [], ci))"

definition entry :: "batch \<Rightarrow> int option \<Rightarrow> extra_entry" where
  "entry b l = \<lparr>xe_batch = b, xe_length = l, xe_illumination = False, xe_false_colors = False,
     xe_circles = False, xe_sizes = False, xe_sizesf = False\<rparr>"

text \<open>
  Batches are made from the first \<open>l\<close> points. A shader is named by its vertex source (with
  the geometry source after a plus sign) and its fragment source.
\<close>

definition colored :: "shader \<Rightarrow> int \<Rightarrow> v3 list \<Rightarrow> v4 list \<Rightarrow> batch" where
  "colored s l vs cs = \<lparr>b_shader = s, b_position = py_take l vs, b_color = Some (py_take l cs), b_normal = None\<rparr>"

definition with_normals :: "shader \<Rightarrow> int \<Rightarrow> v3 list \<Rightarrow> v3 list \<Rightarrow> batch" where
  "with_normals s l vs ns = \<lparr>b_shader = s, b_position = py_take l vs, b_color = None, b_normal = Some (py_take l ns)\<rparr>"

definition positions :: "shader \<Rightarrow> int \<Rightarrow> v3 list \<Rightarrow> batch" where
  "positions s l vs = \<lparr>b_shader = s, b_position = py_take l vs, b_color = None, b_normal = None\<rparr>"

definition lit :: "shader \<Rightarrow> int \<Rightarrow> v3 list \<Rightarrow> v3 list \<Rightarrow> v4 list \<Rightarrow> batch" where
  "lit s l vs ns cs =
     \<lparr>b_shader = s, b_position = py_take l vs, b_color = Some (py_take l cs), b_normal = Some (py_take l ns)\<rparr>"

section \<open>The blocks of render\<close>

definition draw_vertex_normals :: "pcv \<Rightarrow> int \<Rightarrow> v3 list \<Rightarrow> v3 list \<Rightarrow> draw_step" where
  "draw_vertex_normals p l vs ns ci =
     (let b = with_normals (''normals_vertex_shader+normals_geometry_shader'', ''normals_fragment_shader'') l vs ns;
          make = (Inr [b], ci\<lparr>ci_vertex_normals := Some (b, l)\<rparr>)
      in if ds_vertex_normals (p_display p) \<and> p_has_normals p
         then (case ci_vertex_normals ci of
                 None \<Rightarrow> make
               | Some (b0, l0) \<Rightarrow> if l = l0 then (Inr [b0], ci) else make)
         else (Inr [], ci))"

text \<open>
  The depth shaders need the centre of the cloud and its largest coordinate; numpy has no
  maximum of an empty array.
\<close>

definition coordinates :: "v3 list \<Rightarrow> real list" where
  "coordinates vs = concat (map (\<lambda>(x, y, z). [x, y, z]) vs)"

definition depth_range :: "v3 list \<Rightarrow> py_error + real" where
  "depth_range vs =
     (if vs = [] then Inl (ValueError ''zero-size array to reduction operation maximum which has no identity'')
      else (let maxd = \<bar>Max (set (coordinates vs))\<bar>; mind = \<bar>Min (set (coordinates vs))\<bar>
            in Inr (if maxd < mind then mind else maxd)))"

definition draw_depth :: "pcv \<Rightarrow> int \<Rightarrow> v3 list \<Rightarrow> v3 list \<Rightarrow> draw_step" where
  "draw_depth p l vs ns ci =
     (if \<not> p_flags p Dev_depth then (Inr [], ci)
      else
        (let b = (if p_illumination p
                  then with_normals (''depth_vertex_shader_illumination'', ''depth_fragment_shader_illumination'') l vs ns
                  else if p_dev_depth_false_colors p
                  then positions (''depth_vertex_shader_false_colors'', ''depth_fragment_shader_false_colors'') l vs
                  else positions (''depth_vertex_shader_simple'', ''depth_fragment_shader_simple'') l vs);
             fresh = (entry b (Some l))\<lparr>xe_illumination := p_illumination p,
                        xe_false_colors := p_dev_depth_false_colors p\<rparr>
         in case stored_batch ''DEPTH''
                   (\<lambda>v. xe_length v = Some l \<and> xe_illumination v = p_illumination p \<and>
                        xe_false_colors v = p_dev_depth_false_colors p) fresh ci of
              (b', c1) \<Rightarrow> (case depth_range vs of Inl e \<Rightarrow> (Inl e, c1) | Inr _ \<Rightarrow> (Inr [b'], c1))))"

definition draw_normal_colors :: "pcv \<Rightarrow> int \<Rightarrow> v3 list \<Rightarrow> v3 list \<Rightarrow> draw_step" where
  "draw_normal_colors p l vs ns =
     draw_stored (p_flags p Dev_normal_colors) ''NORMAL'' (\<lambda>v. xe_length v = Some l)
       (entry (with_normals (''normal_colors_vertex_shader'', ''normal_colors_fragment_shader'') l vs ns) (Some l))"

definition draw_position_colors :: "pcv \<Rightarrow> int \<Rightarrow> v3 list \<Rightarrow> draw_step" where
  "draw_position_colors p l vs =
     draw_stored (p_flags p Dev_position_colors) ''POSITION'' (\<lambda>v. xe_length v = Some l)
       (entry (positions (''position_colors_vertex_shader'', ''position_colors_fragment_shader'') l vs) (Some l))"

definition draw_selection_display :: "pcv \<Rightarrow> int \<Rightarrow> v3 list \<Rightarrow> draw_step" where
  "draw_selection_display p l vs ci =
     (Inr (if ds_selection (p_display p) then [positions shader_selection l vs] else []), ci)"

definition draw_color_adjustment :: "pcv \<Rightarrow> int \<Rightarrow> v3 list \<Rightarrow> v4 list \<Rightarrow> draw_step" where
  "draw_color_adjustment p l vs cs =
     draw_stored (p_flags p Color_adjustment) ''COLOR_ADJUSTMENT'' (\<lambda>v. xe_length v = Some l)
       (entry (colored (''vertex_shader_color_adjustment'', ''fragment_shader_color_adjustment'') l vs cs) (Some l))"

text \<open>The size and the centre of the bounding box, and the length of the lines at its corners.\<close>

definition bbox_side :: "real \<Rightarrow> real \<Rightarrow> real" where
  "bbox_side mini maxi =
     (if mini \<le> 0 \<and> maxi \<le> 0 then \<bar>mini\<bar> - \<bar>maxi\<bar>
      else if mini \<le> 0 \<and> 0 \<le> maxi then \<bar>mini\<bar> + maxi
      else maxi - mini)"

definition bbox_uniforms :: "real \<Rightarrow> v3 list \<Rightarrow> py_error + v3 \<times> v3 \<times> real" where
  "bbox_uniforms len vs =
     (if vs = [] then Inl (ValueError ''zero-size array to reduction operation minimum which has no identity'')
      else
        (let xs = map fst vs; ys = map (\<lambda>v. fst (snd v)) vs; zs = map (\<lambda>v. snd (snd v)) vs;
             side = (\<lambda>as. bbox_side (Min (set as)) (Max (set as)));
             mid = (\<lambda>as. (Min (set as) + Max (set as)) / 2)
         in Inr ((side xs, side ys, side zs), (mid xs, mid ys, mid zs),
                 \<bar>min (side xs) (min (side ys) (side zs))\<bar> / 2 * len)))"

definition draw_bbox :: "pcv \<Rightarrow> v3 list \<Rightarrow> draw_step" where
  "draw_bbox p vs ci =
     (if \<not> ds_bbox (p_display p) then (Inr [], ci)
      else
        (case stored_batch ''BOUNDING_BOX'' (\<lambda>_. True)
                (entry \<lparr>b_shader = (''bbox_vertex_shader+bbox_geometry_shader'', ''bbox_fragment_shader''),
                        b_position = [(0, 0, 0)], b_color = None, b_normal = None\<rparr> None) ci of
           (b, c1) \<Rightarrow>
             (case bbox_uniforms (ds_bbox_size (p_display p)) vs of Inl e \<Rightarrow> (Inl e, c1) | Inr _ \<Rightarrow> (Inr [b], c1))))"

definition draw_minimal :: "pcv \<Rightarrow> int \<Rightarrow> v3 list \<Rightarrow> v4 list \<Rightarrow> draw_step" where
  "draw_minimal p l vs cs =
     draw_stored (p_flags p Minimal_shader) ''MINIMAL'' (\<lambda>v. xe_length v = Some l)
       (entry (colored (''vertex_shader_minimal'', ''fragment_shader_minimal'') l vs cs) (Some l))"

text \<open>
  The shaders with a size per point look for sizes that are stored already: the first stored
  entry of any of the four is asked for both \<open>sizes\<close> and \<open>sizesf\<close>, of which each has one.
\<close>

definition sized_keys :: "string list" where
  "sized_keys = [''MINIMAL_VARIABLE_SIZE'', ''MINIMAL_VARIABLE_SIZE_AND_DEPTH'', ''RICH_BILLBOARD'', ''RICH_BILLBOARD_NO_DEPTH'']"

definition recover_sizes :: "cache_item \<Rightarrow> py_error + unit" where
  "recover_sizes ci =
     (case find (\<lambda>(k, v). k \<in> set sized_keys) (case ci_extra ci of None \<Rightarrow> [] | Some d \<Rightarrow> d) of
        None \<Rightarrow> Inr ()
      | Some (k, v) \<Rightarrow>
          if \<not> xe_sizes v then Inl (KeyError ''sizes'')
          else if \<not> xe_sizesf v then Inl (KeyError ''sizesf'') else Inr ())"

definition draw_sized :: "bool \<Rightarrow> string \<Rightarrow> int \<Rightarrow> extra_entry \<Rightarrow> draw_step" where
  "draw_sized on t l fresh ci =
     (if \<not> on then (Inr [], ci)
      else
        (case extra_get t ci of
           Some v \<Rightarrow>
             if xe_length v = Some l then (Inr [xe_batch v], ci)
             else (case recover_sizes ci of
                     Inl e \<Rightarrow> (Inl e, ci)
                   | Inr _ \<Rightarrow> (Inr [xe_batch fresh], extra_set t fresh ci))
         | None \<Rightarrow>
             (case recover_sizes ci of
                Inl e \<Rightarrow> (Inl e, ci)
              | Inr _ \<Rightarrow> (Inr [xe_batch fresh], extra_set t fresh ci))))"

definition draw_minimal_variable_size :: "pcv \<Rightarrow> int \<Rightarrow> v3 list \<Rightarrow> v4 list \<Rightarrow> draw_step" where
  "draw_minimal_variable_size p l vs cs =
     draw_sized (p_flags p Minimal_variable_size) ''MINIMAL_VARIABLE_SIZE'' l
       ((entry (colored (''vertex_shader_minimal_variable_size'', ''fragment_shader_minimal_variable_size'') l vs cs)
          (Some l))\<lparr>xe_sizes := True\<rparr>)"

definition draw_minimal_variable_size_and_depth :: "pcv \<Rightarrow> int \<Rightarrow> v3 list \<Rightarrow> v4 list \<Rightarrow> draw_step" where
  "draw_minimal_variable_size_and_depth p l vs cs =
     draw_sized (p_flags p Minimal_variable_size_and_depth) ''MINIMAL_VARIABLE_SIZE_AND_DEPTH'' l
       ((entry (colored (''vertex_shader_minimal_variable_size_and_depth'', ''fragment_shader_minimal_variable_size_and_depth'')
          l vs cs) (Some l))\<lparr>xe_sizes := True\<rparr>)"

definition draw_billboard :: "pcv \<Rightarrow> int \<Rightarrow> v3 list \<Rightarrow> v4 list \<Rightarrow> draw_step" where
  "draw_billboard p l vs cs =
     draw_stored (p_flags p Billboard) ''BILLBOARD'' (\<lambda>v. xe_length v = Some l)
       (entry (colored (''billboard_vertex+billboard_geometry'', ''billboard_fragment'') l vs cs) (Some l))"

definition draw_rich_billboard :: "pcv \<Rightarrow> int \<Rightarrow> v3 list \<Rightarrow> v4 list \<Rightarrow> draw_step" where
  "draw_rich_billboard p l vs cs =
     draw_sized (p_flags p Rich_billboard) ''RICH_BILLBOARD'' l
       ((entry (colored (''billboard_vertex_with_depth_and_size+billboard_geometry_with_depth_and_size'',
                         ''billboard_fragment_with_depth_and_size'') l vs cs) (Some l))\<lparr>xe_sizesf := True\<rparr>)"

definition draw_rich_billboard_no_depth :: "pcv \<Rightarrow> int \<Rightarrow> v3 list \<Rightarrow> v4 list \<Rightarrow> draw_step" where
  "draw_rich_billboard_no_depth p l vs cs =
     draw_sized (p_flags p Rich_billboard_no_depth) ''RICH_BILLBOARD_NO_DEPTH'' l
       ((entry (colored (''billboard_vertex_with_no_depth_and_size+billboard_geometry_with_no_depth_and_size'',
                         ''billboard_fragment_with_no_depth_and_size'') l vs cs) (Some l))\<lparr>xe_sizesf := True\<rparr>)"

definition draw_phong :: "pcv \<Rightarrow> int \<Rightarrow> v3 list \<Rightarrow> v3 list \<Rightarrow> v4 list \<Rightarrow> draw_step" where
  "draw_phong p l vs ns cs =
     draw_stored (p_flags p Phong_shader) ''PHONG'' (\<lambda>v. xe_length v = Some l)
       (entry (lit (''phong_vs'', ''phong_fs'') l vs ns cs) (Some l))"

definition draw_clip :: "pcv \<Rightarrow> int \<Rightarrow> v3 list \<Rightarrow> v4 list \<Rightarrow> draw_step" where
  "draw_clip p l vs cs =
     draw_stored (p_flags p Clip_shader) ''CLIP'' (\<lambda>v. xe_length v = Some l)
       (entry (colored (''vertex_shader_simple_clip'', ''fragment_shader_simple_clip'') l vs cs) (Some l))"

definition draw_billboard_phong :: "pcv \<Rightarrow> int \<Rightarrow> v3 list \<Rightarrow> v3 list \<Rightarrow> v4 list \<Rightarrow> draw_step" where
  "draw_billboard_phong p l vs ns cs =
     (let geometry = (if ds_circles (p_display p) then ''billboard_phong_circles_gs'' else ''billboard_phong_fast_gs'')
      in draw_stored (p_flags p Billboard_phong) ''BILLBOARD_PHONG''
           (\<lambda>v. xe_circles v = ds_circles (p_display p) \<and> xe_length v = Some l)
           ((entry (lit (''billboard_phong_vs+'' @ geometry, ''billboard_phong_fs'') l vs ns cs) (Some l))
              \<lparr>xe_circles := ds_circles (p_display p)\<rparr>))"

text \<open>Skipping points always draws the whole cloud; the shader is told how many to leave out.\<close>

definition draw_skip :: "pcv \<Rightarrow> v3 list \<Rightarrow> v4 list \<Rightarrow> draw_step" where
  "draw_skip p vs cs =
     draw_stored (p_flags p Skip_point) ''SKIP'' (\<lambda>_. True)
       (entry \<lparr>b_shader = (''vertex_shader_simple_skip_point_vertices'', ''fragment_shader_simple_skip_point_vertices''),
               b_position = vs, b_color = Some cs, b_normal = None\<rparr> None)"

text \<open>All of them, in the order of \<open>render\<close>; arrays are only read by what is switched on.\<close>

definition extras_on :: "pcv \<Rightarrow> bool" where
  "extras_on p \<longleftrightarrow>
     ds_vertex_normals (p_display p) \<and> p_has_normals p \<or> ds_selection (p_display p) \<or> ds_bbox (p_display p) \<or>
     list_ex (p_flags p)
       [Dev_depth, Dev_normal_colors, Dev_position_colors, Color_adjustment, Minimal_shader,
        Minimal_variable_size, Minimal_variable_size_and_depth, Billboard, Rich_billboard,
        Rich_billboard_no_depth, Phong_shader, Clip_shader, Billboard_phong, Skip_point]"

definition render_extras :: "pcv \<Rightarrow> draw_step" where
  "render_extras p ci =
     (case (ci_vertices ci, ci_normals ci, ci_colors ci, ci_current_display_length ci) of
        (Some vs, Some ns, Some cs, Some l) \<Rightarrow>
          run_steps
            [draw_vertex_normals p l vs ns, draw_depth p l vs ns, draw_normal_colors p l vs ns,
             draw_position_colors p l vs, draw_selection_display p l vs, draw_color_adjustment p l vs cs,
             draw_bbox p vs, draw_minimal p l vs cs, draw_minimal_variable_size p l vs cs,
             draw_minimal_variable_size_and_depth p l vs cs, draw_billboard p l vs cs,
             draw_rich_billboard p l vs cs, draw_rich_billboard_no_depth p l vs cs, draw_phong p l vs ns cs,
             draw_clip p l vs cs, draw_billboard_phong p l vs ns cs, draw_skip p vs cs] ci
      | _ \<Rightarrow> (if extras_on p then Inl (TypeError ''NoneType'') else Inr [], ci))"

section \<open>Facts\<close>

text \<open>What the steps leave alone: everything but the stored batches.\<close>

definition strip :: "cache_item \<Rightarrow> cache_item" where
  "strip c = c\<lparr>ci_extra := None, ci_vertex_normals := None\<rparr>"

lemma strip_extra_set [simp]: "strip (extra_set t v c) = strip c" "strip (c\<lparr>ci_vertex_normals := y\<rparr>) = strip c"
  by (simp_all add: strip_def extra_set_def)

lemma stripD:
  assumes "strip c = strip d"
  shows "ci_uuid c = ci_uuid d" "ci_name c = ci_name d" "ci_kill c = ci_kill d" "ci_object c = ci_object d"
    "ci_vertices c = ci_vertices d" "ci_normals c = ci_normals d" "ci_colors c = ci_colors d"
    "ci_display_length c = ci_display_length d" "ci_current_display_length c = ci_current_display_length d"
    "ci_batch c = ci_batch d" "ci_ready c = ci_ready d" "ci_draw c = ci_draw d"
  using assms by (cases c; cases d; simp add: strip_def)+

text \<open>The stored entries of the shaders with sizes, and those of the four that are on.\<close>

definition sized_view :: "cache_item \<Rightarrow> (string \<times> extra_entry) list" where
  "sized_view ci = filter (\<lambda>(k, v). k \<in> set sized_keys) (case ci_extra ci of None \<Rightarrow> [] | Some d \<Rightarrow> d)"

definition sized_on :: "pcv \<Rightarrow> string list" where
  "sized_on p = map snd (filter (\<lambda>(f, t). p_flags p f)
     (zip [Minimal_variable_size, Minimal_variable_size_and_depth, Rich_billboard, Rich_billboard_no_depth] sized_keys))"

text \<open>
  When \<open>render\<close> does not raise: depth and bounding box need a point, and of the shaders with
  sizes at most one is on, with no entry stored but its own for the displayed length.
\<close>

definition sized_ok :: "pcv \<Rightarrow> int \<Rightarrow> cache_item \<Rightarrow> bool" where
  "sized_ok p l ci \<longleftrightarrow>
     sized_on p = [] \<or> (\<exists>t. sized_on p = [t] \<and> (\<forall>(k, v)\<in>set (sized_view ci). k = t \<and> xe_length v = Some l))"

definition extras_ok :: "pcv \<Rightarrow> cache_item \<Rightarrow> bool" where
  "extras_ok p ci \<longleftrightarrow>
     (p_flags p Dev_depth \<or> ds_bbox (p_display p) \<longrightarrow> ci_vertices ci \<noteq> Some []) \<and>
     (\<exists>l. ci_display_length ci = Some l \<and> sized_ok p l ci)"

lemma filter_update_other:
  "\<not> P t \<Longrightarrow> filter (\<lambda>(k, v). P k) (AList.update t v d) = filter (\<lambda>(k, v). P k) d"
  by (induction d) auto

lemma sized_view_set:
  "t \<notin> set sized_keys \<Longrightarrow> sized_view (extra_set t v ci) = sized_view ci"
  by (simp add: sized_view_def extra_set_def filter_update_other split: option.splits)

lemma sized_view_normals [simp]: "sized_view (ci\<lparr>ci_vertex_normals := y\<rparr>) = sized_view ci"
  by (simp add: sized_view_def)

lemma sized_view_get:
  assumes "t \<in> set sized_keys"
  shows "extra_get t ci = map_of (sized_view ci) t"
proof -
  have "map_of d t = map_of (filter (\<lambda>(k, v). k \<in> set sized_keys) d) t" for d :: "(string, extra_entry) dict"
    using assms by (induction d) auto
  then show ?thesis by (simp add: extra_get_def sized_view_def split: option.splits)
qed

lemma recover_sizes_empty:
  "sized_view ci = [] \<Longrightarrow> recover_sizes ci = Inr ()"
proof -
  assume e: "sized_view ci = []"
  have "find P xs = None" if "filter P xs = []" for P and xs :: "(string \<times> extra_entry) list"
    using that by (induction xs) (auto split: if_splits)
  then show ?thesis using e by (simp add: recover_sizes_def sized_view_def)
qed

text \<open>A step that does not raise and keeps what the following steps rely on.\<close>

definition fine_step :: "pcv \<Rightarrow> int \<Rightarrow> draw_step \<Rightarrow> bool" where
  "fine_step p l f \<longleftrightarrow>
     (\<forall>ci. sized_ok p l ci \<longrightarrow> (\<exists>bs ci'. f ci = (Inr bs, ci') \<and> sized_ok p l ci' \<and> strip ci' = strip ci))"

lemma run_steps_fine:
  assumes "\<forall>f\<in>set fs. fine_step p l f" "sized_ok p l ci"
  shows "\<exists>bs ci'. run_steps fs ci = (Inr bs, ci') \<and> sized_ok p l ci' \<and> strip ci' = strip ci"
  using assms
proof (induction fs arbitrary: ci)
  case (Cons f fs)
  then obtain bs c1 where f: "f ci = (Inr bs, c1)" "sized_ok p l c1" "strip c1 = strip ci"
    by (auto simp: fine_step_def)
  with Cons.IH [OF _ f(2)] Cons.prems(1) show ?case by fastforce
qed simp

lemma stored_batch_fine:
  assumes "t \<notin> set sized_keys" "sized_ok p l ci" "stored_batch t valid fresh ci = (b, ci')"
  shows "sized_ok p l ci'" "strip ci' = strip ci"
  using assms by (auto simp: stored_batch_def sized_ok_def sized_view_set split: option.splits if_splits)

lemma draw_stored_fine:
  assumes "t \<notin> set sized_keys"
  shows "fine_step p l (draw_stored on t valid fresh)"
  using stored_batch_fine [OF assms]
  by (auto simp: fine_step_def draw_stored_def split: prod.splits)

lemma sized_keys_mem: "sized_on p = [t] \<Longrightarrow> t \<in> set sized_keys"
  by (auto simp: sized_on_def sized_keys_def split: if_splits)

lemma draw_sized_fine:
  assumes on: "on \<longleftrightarrow> t \<in> set (sized_on p)" and t: "t \<in> set sized_keys" and fresh: "xe_length fresh = Some l"
  shows "fine_step p l (draw_sized on t l fresh)"
  unfolding fine_step_def
proof (intro allI impI)
  fix ci assume ok: "sized_ok p l ci"
  show "\<exists>bs ci'. draw_sized on t l fresh ci = (Inr bs, ci') \<and> sized_ok p l ci' \<and> strip ci' = strip ci"
  proof (cases on)
    case True
    then have one: "sized_on p = [t]" and view: "\<forall>(k, v)\<in>set (sized_view ci). k = t \<and> xe_length v = Some l"
      using ok on by (auto simp: sized_ok_def)
    show ?thesis
    proof (cases "extra_get t ci")
      case (Some v)
      then have "(t, v) \<in> set (sized_view ci)" using sized_view_get [OF t] by (simp add: map_of_SomeD)
      then have "xe_length v = Some l" using view by auto
      then show ?thesis using True Some ok by (simp add: draw_sized_def)
    next
      case None
      then have "sized_view ci = []"
        using view sized_view_get [OF t, of ci] by (cases "sized_view ci") (auto split: if_splits)
      moreover from this have "sized_view (extra_set t fresh ci) = [(t, fresh)]"
      proof -
        have "filter (\<lambda>(k, v). k \<in> set sized_keys) (AList.update t fresh d) = [(t, fresh)]"
          if "filter (\<lambda>(k, v). k \<in> set sized_keys) d = []" for d :: "(string, extra_entry) dict"
          using that t by (induction d) (auto split: if_splits)
        with \<open>sized_view ci = []\<close> t show ?thesis
          by (simp add: sized_view_def extra_set_def split: option.splits)
      qed
      ultimately show ?thesis
        using True None one fresh recover_sizes_empty [of ci] by (simp add: draw_sized_def sized_ok_def)
    qed
  qed (use ok in \<open>simp add: draw_sized_def\<close>)
qed

lemma reading_step_fine:
  assumes "t \<notin> set sized_keys" "on \<Longrightarrow> r = Inr y"
    and "\<And>ci. f ci = (if \<not> on then (Inr [], ci) else case stored_batch t valid fresh ci of
      (b, c1) \<Rightarrow> (case r of Inl e \<Rightarrow> (Inl e, c1) | Inr _ \<Rightarrow> (Inr [b], c1)))"
  shows "fine_step p l f"
  using assms(2) stored_batch_fine [OF assms(1), of p l _ valid fresh]
  by (auto simp: fine_step_def assms(3) split: prod.splits)

lemma draw_dev_fine:
  assumes "p_flags p Dev_depth \<or> ds_bbox (p_display p) \<longrightarrow> vs \<noteq> []"
  shows "fine_step p l (draw_depth p l vs ns)" "fine_step p l (draw_bbox p vs)"
proof -
  show "fine_step p l (draw_depth p l vs ns)"
    by (rule reading_step_fine [where t = "''DEPTH''", OF _ _ draw_depth_def [unfolded Let_def]])
      (use assms in \<open>simp_all add: sized_keys_def depth_range_def Let_def\<close>)
  show "fine_step p l (draw_bbox p vs)"
    by (rule reading_step_fine [where t = "''BOUNDING_BOX''", OF _ _ draw_bbox_def])
      (use assms in \<open>simp_all add: sized_keys_def bbox_uniforms_def Let_def\<close>)
qed

lemma draw_plain_fine:
  "fine_step p l (draw_vertex_normals p l vs ns)" "fine_step p l (draw_selection_display p l vs)"
  by (auto simp: fine_step_def draw_vertex_normals_def draw_selection_display_def Let_def sized_ok_def
      split: option.splits)

lemma draw_shader_fine:
  "fine_step p l (draw_normal_colors p l vs ns)" "fine_step p l (draw_position_colors p l vs)"
  "fine_step p l (draw_color_adjustment p l vs cs)" "fine_step p l (draw_minimal p l vs cs)"
  "fine_step p l (draw_billboard p l vs cs)" "fine_step p l (draw_phong p l vs ns cs)"
  "fine_step p l (draw_clip p l vs cs)" "fine_step p l (draw_billboard_phong p l vs ns cs)"
  "fine_step p l (draw_skip p vs cs)"
  unfolding draw_normal_colors_def draw_position_colors_def draw_color_adjustment_def draw_minimal_def
    draw_billboard_def draw_phong_def draw_clip_def draw_billboard_phong_def draw_skip_def Let_def
  by (rule draw_stored_fine, simp add: sized_keys_def)+

lemma draw_sized_shader_fine:
  "fine_step p l (draw_minimal_variable_size p l vs cs)"
  "fine_step p l (draw_minimal_variable_size_and_depth p l vs cs)"
  "fine_step p l (draw_rich_billboard p l vs cs)" "fine_step p l (draw_rich_billboard_no_depth p l vs cs)"
  unfolding draw_minimal_variable_size_def draw_minimal_variable_size_and_depth_def
    draw_rich_billboard_def draw_rich_billboard_no_depth_def
  by (rule draw_sized_fine; simp add: sized_on_def sized_keys_def entry_def)+

lemmas draw_fine = draw_plain_fine draw_shader_fine draw_sized_shader_fine

lemma render_extras_fine:
  assumes ok: "sized_ok p l ci" and arr: "ci_vertices ci = Some vs" "ci_normals ci = Some ns" "ci_colors ci = Some cs"
    "ci_current_display_length ci = Some l"
    and ne: "p_flags p Dev_depth \<or> ds_bbox (p_display p) \<longrightarrow> vs \<noteq> []"
  shows "\<exists>bs ci'. render_extras p ci = (Inr bs, ci') \<and> strip ci' = strip ci"
proof -
  note fine = draw_fine draw_dev_fine [OF ne]
  have "\<exists>bs ci'. run_steps
      [draw_vertex_normals p l vs ns, draw_depth p l vs ns, draw_normal_colors p l vs ns,
       draw_position_colors p l vs, draw_selection_display p l vs, draw_color_adjustment p l vs cs,
       draw_bbox p vs, draw_minimal p l vs cs, draw_minimal_variable_size p l vs cs,
       draw_minimal_variable_size_and_depth p l vs cs, draw_billboard p l vs cs,
       draw_rich_billboard p l vs cs, draw_rich_billboard_no_depth p l vs cs, draw_phong p l vs ns cs,
       draw_clip p l vs cs, draw_billboard_phong p l vs ns cs, draw_skip p vs cs] ci = (Inr bs, ci') \<and>
      sized_ok p l ci' \<and> strip ci' = strip ci"
    using ok by (intro run_steps_fine) (simp_all only: set_simps ball_simps fine simp_thms)
  then show ?thesis using arr by (auto simp: render_extras_def simp del: run_steps.simps)
qed

section \<open>Two shaders with sizes, or two display lengths\<close>

definition only_flag :: "shader_flag \<Rightarrow> pcv \<Rightarrow> bool" where
  "only_flag f p \<longleftrightarrow> p_flags p = (\<lambda>g. g = f) \<and> \<not> ds_vertex_normals (p_display p) \<and>
     \<not> ds_selection (p_display p) \<and> \<not> ds_bbox (p_display p)"

definition sized_flags :: "(shader_flag \<times> string) list" where
  "sized_flags = zip [Minimal_variable_size, Minimal_variable_size_and_depth, Rich_billboard, Rich_billboard_no_depth] sized_keys"

text \<open>Steps that are switched off can be left out.\<close>

definition idle :: "draw_step \<Rightarrow> bool" where
  "idle f \<longleftrightarrow> (\<forall>ci. f ci = (Inr [], ci))"

lemma run_steps_idle:
  "idle f \<Longrightarrow> run_steps (f # fs) = run_steps fs"
  "idle g \<Longrightarrow> run_steps (f # g # fs) = run_steps (f # fs)"
  "run_steps [f] = f"
  by (rule ext, auto simp: idle_def split: prod.splits sum.splits)+

lemma idle_steps:
  "\<not> (ds_vertex_normals (p_display p) \<and> p_has_normals p) \<Longrightarrow> idle (draw_vertex_normals p l vs ns)"
  "\<not> p_flags p Dev_depth \<Longrightarrow> idle (draw_depth p l vs ns)"
  "\<not> p_flags p Dev_normal_colors \<Longrightarrow> idle (draw_normal_colors p l vs ns)"
  "\<not> p_flags p Dev_position_colors \<Longrightarrow> idle (draw_position_colors p l vs)"
  "\<not> ds_selection (p_display p) \<Longrightarrow> idle (draw_selection_display p l vs)"
  "\<not> p_flags p Color_adjustment \<Longrightarrow> idle (draw_color_adjustment p l vs cs)"
  "\<not> ds_bbox (p_display p) \<Longrightarrow> idle (draw_bbox p vs)"
  "\<not> p_flags p Minimal_shader \<Longrightarrow> idle (draw_minimal p l vs cs)"
  "\<not> p_flags p Minimal_variable_size \<Longrightarrow> idle (draw_minimal_variable_size p l vs cs)"
  "\<not> p_flags p Minimal_variable_size_and_depth \<Longrightarrow> idle (draw_minimal_variable_size_and_depth p l vs cs)"
  "\<not> p_flags p Billboard \<Longrightarrow> idle (draw_billboard p l vs cs)"
  "\<not> p_flags p Rich_billboard \<Longrightarrow> idle (draw_rich_billboard p l vs cs)"
  "\<not> p_flags p Rich_billboard_no_depth \<Longrightarrow> idle (draw_rich_billboard_no_depth p l vs cs)"
  "\<not> p_flags p Phong_shader \<Longrightarrow> idle (draw_phong p l vs ns cs)"
  "\<not> p_flags p Clip_shader \<Longrightarrow> idle (draw_clip p l vs cs)"
  "\<not> p_flags p Billboard_phong \<Longrightarrow> idle (draw_billboard_phong p l vs ns cs)"
  "\<not> p_flags p Skip_point \<Longrightarrow> idle (draw_skip p vs cs)"
  by (auto simp: idle_def draw_vertex_normals_def draw_depth_def draw_normal_colors_def
      draw_position_colors_def draw_selection_display_def draw_color_adjustment_def draw_bbox_def draw_minimal_def
      draw_minimal_variable_size_def draw_minimal_variable_size_and_depth_def draw_billboard_def
      draw_rich_billboard_def draw_rich_billboard_no_depth_def draw_phong_def draw_clip_def
      draw_billboard_phong_def draw_skip_def draw_stored_def draw_sized_def Let_def)

lemma only_flagD:
  assumes "only_flag f p"
  shows "p_flags p g = (g = f)" "\<not> ds_vertex_normals (p_display p)" "\<not> ds_selection (p_display p)"
    "\<not> ds_bbox (p_display p)"
  using assms by (simp_all add: only_flag_def)

definition drawable_arrays where
  "drawable_arrays ci vs ns cs l \<longleftrightarrow> ci_vertices ci = Some vs \<and> ci_normals ci = Some ns \<and>
     ci_colors ci = Some cs \<and> ci_current_display_length ci = Some (l :: int)"

lemma only_minimal_variable_size:
  "only_flag Minimal_variable_size p \<Longrightarrow> drawable_arrays ci vs ns cs l \<Longrightarrow>
     render_extras p ci = draw_minimal_variable_size p l vs cs ci \<and> p_flags p Minimal_variable_size"
  by (simp add: only_flagD drawable_arrays_def render_extras_def run_steps_idle idle_steps del: run_steps.simps)

lemma only_minimal_variable_size_and_depth:
  "only_flag Minimal_variable_size_and_depth p \<Longrightarrow> drawable_arrays ci vs ns cs l \<Longrightarrow>
     render_extras p ci = draw_minimal_variable_size_and_depth p l vs cs ci \<and> p_flags p Minimal_variable_size_and_depth"
  by (simp add: only_flagD drawable_arrays_def render_extras_def run_steps_idle idle_steps del: run_steps.simps)

lemma only_rich_billboard:
  "only_flag Rich_billboard p \<Longrightarrow> drawable_arrays ci vs ns cs l \<Longrightarrow>
     render_extras p ci = draw_rich_billboard p l vs cs ci \<and> p_flags p Rich_billboard"
  by (simp add: only_flagD drawable_arrays_def render_extras_def run_steps_idle idle_steps del: run_steps.simps)

lemma only_rich_billboard_no_depth:
  "only_flag Rich_billboard_no_depth p \<Longrightarrow> drawable_arrays ci vs ns cs l \<Longrightarrow>
     render_extras p ci = draw_rich_billboard_no_depth p l vs cs ci \<and> p_flags p Rich_billboard_no_depth"
  by (simp add: only_flagD drawable_arrays_def render_extras_def run_steps_idle idle_steps del: run_steps.simps)

lemma only_sized:
  assumes "only_flag f p" "(f, t) \<in> set sized_flags"
    and "ci_vertices ci = Some vs" "ci_normals ci = Some ns" "ci_colors ci = Some cs" "ci_current_display_length ci = Some l"
  obtains fresh where "render_extras p ci = draw_sized True t l fresh ci" "xe_length fresh = Some l"
    "xe_sizes fresh \<noteq> xe_sizesf fresh"
proof -
  have arr: "drawable_arrays ci vs ns cs l" using assms(3-6) by (simp add: drawable_arrays_def)
  consider "f = Minimal_variable_size" "t = ''MINIMAL_VARIABLE_SIZE''"
    | "f = Minimal_variable_size_and_depth" "t = ''MINIMAL_VARIABLE_SIZE_AND_DEPTH''"
    | "f = Rich_billboard" "t = ''RICH_BILLBOARD''" | "f = Rich_billboard_no_depth" "t = ''RICH_BILLBOARD_NO_DEPTH''"
    using assms(2) by (auto simp: sized_flags_def sized_keys_def)
  then show thesis
  proof cases
    case 1
    then show thesis using only_minimal_variable_size [OF _ arr, of p] assms(1)
      by (intro that) (simp add: draw_minimal_variable_size_def, simp_all add: entry_def)
  next
    case 2
    then show thesis using only_minimal_variable_size_and_depth [OF _ arr, of p] assms(1)
      by (intro that) (simp add: draw_minimal_variable_size_and_depth_def, simp_all add: entry_def)
  next
    case 3
    then show thesis using only_rich_billboard [OF _ arr, of p] assms(1)
      by (intro that) (simp add: draw_rich_billboard_def, simp_all add: entry_def)
  next
    case 4
    then show thesis using only_rich_billboard_no_depth [OF _ arr, of p] assms(1)
      by (intro that) (simp add: draw_rich_billboard_no_depth_def, simp_all add: entry_def)
  qed
qed

text \<open>
  Once one of the four has stored its batch, another one, or the same one at another display
  length, finds that entry and asks it for both kinds of sizes.
\<close>

lemma second_sized_raises:
  assumes ci: "ci_vertices ci = Some vs" "ci_normals ci = Some ns" "ci_colors ci = Some cs"
    "ci_current_display_length ci = Some l" "ci_extra ci = None"
    and on: "only_flag f p" "(f, t) \<in> set sized_flags" "only_flag f' p'" "(f', t') \<in> set sized_flags"
    and other: "t' \<noteq> t \<or> l' \<noteq> l"
  shows "\<exists>b c1 key. render_extras p ci = (Inr [b], c1) \<and>
     fst (render_extras p' (c1\<lparr>ci_current_display_length := Some l'\<rparr>)) = Inl (KeyError key)"
proof -
  obtain fresh where fresh: "render_extras p ci = draw_sized True t l fresh ci" "xe_length fresh = Some l"
    "xe_sizes fresh \<noteq> xe_sizesf fresh"
    using only_sized [OF on(1,2) ci(1-4)] .
  have t: "t \<in> set sized_keys" using on(2) by (auto simp: sized_flags_def dest: set_zip_rightD)
  let ?c = "(extra_set t fresh ci)\<lparr>ci_current_display_length := Some l'\<rparr>"
  have c: "ci_extra ?c = Some [(t, fresh)]" using ci(5) by (simp add: extra_set_def)
  have first: "render_extras p ci = (Inr [xe_batch fresh], extra_set t fresh ci)"
    using fresh(1) ci(5) by (simp add: draw_sized_def extra_get_def recover_sizes_def)
  have "ci_vertices ?c = Some vs" "ci_normals ?c = Some ns" "ci_colors ?c = Some cs"
    "ci_current_display_length ?c = Some l'"
    using ci by (simp_all add: extra_set_def)
  from only_sized [OF on(3,4) this] obtain fresh' where
    second: "render_extras p' ?c = draw_sized True t' l' fresh' ?c" by blast
  have rec: "\<exists>key. recover_sizes ?c = Inl (KeyError key)"
    using c t fresh(3) by (auto simp: recover_sizes_def)
  have "extra_get t' ?c = None \<or> t' = t \<and> extra_get t' ?c = Some fresh"
    using c by (auto simp: extra_get_def)
  then have "\<exists>key. fst (render_extras p' ?c) = Inl (KeyError key)"
    using second rec other fresh(2) by (auto simp: draw_sized_def)
  then show ?thesis using first by auto
qed

section \<open>A stored batch stays\<close>

lemma only_minimal:
  assumes "only_flag Minimal_shader p"
    and "ci_vertices ci = Some vs" "ci_normals ci = Some ns" "ci_colors ci = Some cs" "ci_current_display_length ci = Some l"
  shows "render_extras p ci = draw_minimal p l vs cs ci" "p_flags p Minimal_shader"
proof -
  have p: "p_flags p g = (g = Minimal_shader)" "\<not> ds_vertex_normals (p_display p)" "\<not> ds_selection (p_display p)"
    "\<not> ds_bbox (p_display p)" for g
    using assms(1) by (simp_all add: only_flag_def)
  show "render_extras p ci = draw_minimal p l vs cs ci"
    by (simp add: render_extras_def assms(2-5) run_steps_idle idle_steps [of p] p del: run_steps.simps)
qed (use assms(1) in \<open>simp add: only_flag_def\<close>)

end
