(* ===== verification/PCV_Manager.thy ===== *)
theory PCV_Manager
  imports PCV_Extra
begin

text \<open>
  \<open>PCVManager\<close>: the cache of loaded clouds, its garbage collection, the draw handler with
  \<open>render\<close> (whose further shaders are in \<open>PCV_Extra\<close>), and \<open>update\<close>,
  through which every filter stores its result. The invariant \<open>item_ok\<close> is what the
  other operators rely on when they read an item.
\<close>

section \<open>Operations\<close>

text \<open>\<open>int((len / 100) * percent)\<close>, and all points from 99 percent on.\<close>

definition display_count :: "nat \<Rightarrow> real \<Rightarrow> int" where
  "display_count n dp = (if 99 \<le> dp then int n else py_int (real n / 100 * dp))"

text \<open>The colour given to points without one, from the preferences, gamma corrected.\<close>

definition default_color :: "preferences \<Rightarrow> v4" where
  "default_color pr =
     (case pr_default_vertex_color pr of (r, g, b) \<Rightarrow>
        (r powr (1 / 2.2), g powr (1 / 2.2), b powr (1 / 2.2), 1))"

definition make_batch :: "bool \<Rightarrow> int \<Rightarrow> v3 list \<Rightarrow> v3 list \<Rightarrow> v4 list \<Rightarrow> batch" where
  "make_batch ill l vs ns cs =
     (if ill
      then \<lparr>b_shader = shader_illumination, b_position = py_take l vs,
            b_color = Some (py_take l cs), b_normal = Some (py_take l ns)\<rparr>
      else \<lparr>b_shader = shader_simple, b_position = py_take l vs,
            b_color = Some (py_take l cs), b_normal = None\<rparr>)"

definition PCVManager_new :: cache_item where
  "PCVManager_new =
     \<lparr>ci_uuid = None, ci_filepath = None, ci_points = None, ci_vertices = None,
      ci_normals = None, ci_colors = None, ci_colors_original = None,
      ci_display_length = None, ci_current_display_length = None, ci_illumination = False,
      ci_shader = None, ci_batch = None, ci_ready = False, ci_draw = False, ci_kill = False,
      ci_stats = None, ci_length = None, ci_name = None, ci_object = None,
      ci_selection_indexes = None, ci_vertex_normals = None, ci_extra = None\<rparr>"

definition PCVManager_add :: "cache_item \<Rightarrow> world \<Rightarrow> (py_error + unit) \<times> world" where
  "PCVManager_add d w =
     (case ci_uuid d of
        None \<Rightarrow> (Inl (TypeError ''uuid''), w)
      | Some u \<Rightarrow> (Inr (), w\<lparr>cache := AList.update u d (cache w)\<rparr>))"

definition PCVManager_gc :: "world \<Rightarrow> world" where
  "PCVManager_gc w =
     (let l = map fst (filter (\<lambda>(k, v). ci_kill v) (cache w))
      in w\<lparr>cache := fold AList.delete l (cache w)\<rparr>)"

definition PCVManager_init :: "world \<Rightarrow> world" where
  "PCVManager_init w =
     (if initialized w then w
      else w\<lparr>handle := True, draw_handlers := Suc (draw_handlers w),
             load_pre := Suc (load_pre w), initialized := True\<rparr>)"

text \<open>
  \<open>list.remove\<close> raises when the watcher is not registered; the handle is gone by then.
\<close>

definition PCVManager_deinit :: "world \<Rightarrow> (py_error + unit) \<times> world" where
  "PCVManager_deinit w =
     (if \<not> initialized w then (Inr (), w)
      else
        (let w1 = PCVManager_gc (w\<lparr>cache := map (\<lambda>(k, v). (k, v\<lparr>ci_kill := True\<rparr>)) (cache w)\<rparr>);
             w2 = w1\<lparr>draw_handlers := draw_handlers w1 - 1, handle := False\<rparr>
         in if load_pre w2 = 0 then (Inl (ValueError ''list.remove(x): x not in list''), w2)
            else (Inr (), w2\<lparr>load_pre := load_pre w2 - 1, initialized := False\<rparr>)))"

definition PCVManager_update ::
    "string \<Rightarrow> v3 list \<Rightarrow> v3 list option \<Rightarrow> v4 list option \<Rightarrow> world \<Rightarrow> (py_error + unit) \<times> world" where
  "PCVManager_update u vs ns cs w =
     (case dict_get (cache w) u of
        None \<Rightarrow> (Inl (KeyError u), w)
      | Some c \<Rightarrow>
          (let l = length vs;
               ns' = (case ns of None \<Rightarrow> replicate l (0, 0, 1) | Some n \<Rightarrow> n);
               cs' = (case cs of None \<Rightarrow> replicate l (default_color (prefs w)) | Some x \<Rightarrow> x);
               c1 = c\<lparr>ci_vertices := Some vs, ci_normals := Some ns', ci_colors := Some cs',
                      ci_length := Some l, ci_stats := Some l\<rparr>;
               w1 = w\<lparr>cache := AList.update u c1 (cache w)\<rparr>
           in case Option.bind (ci_object c1) (get_pcv w) of
                None \<Rightarrow> (Inl AttributeError, w1)
              | Some p \<Rightarrow>
                  (let nl = display_count l (p_display_percent p);
                       b = make_batch (ci_illumination c1) nl vs ns' cs';
                       c2 = c1\<lparr>ci_display_length := Some nl, ci_current_display_length := Some nl,
                               ci_shader := Some (b_shader b), ci_batch := Some b\<rparr>
                   in (Inr (), tag_redraw (w1\<lparr>cache := AList.update u c2 (cache w1)\<rparr>)))))"

text \<open>Reading an item's arrays: a \<open>None\<close> array raises as soon as the code uses it.\<close>

definition ci_arrays :: "cache_item \<Rightarrow> py_error + v3 list \<times> v3 list \<times> v4 list" where
  "ci_arrays c =
     (case (ci_vertices c, ci_normals c, ci_colors c) of
        (Some vs, Some ns, Some cs) \<Rightarrow> Inr (vs, ns, cs)
      | _ \<Rightarrow> Inl (TypeError ''NoneType''))"

text \<open>
  The first part of \<open>render\<close>: the batch is rebuilt when the number of displayed points has
  changed, or (once the object is known to be there and visible) when illumination has been
  switched.
\<close>

definition render_length :: "cache_item \<Rightarrow> py_error + cache_item" where
  "render_length ci =
     (if ci_current_display_length ci \<noteq> ci_display_length ci
      then (case ci_display_length ci of
              None \<Rightarrow> Inl (TypeError ''NoneType'')
            | Some l \<Rightarrow>
                bindE (ci_arrays ci) (\<lambda>(vs, ns, cs).
                  Inr (ci\<lparr>ci_current_display_length := Some l,
                          ci_batch := Some ((make_batch (ci_illumination ci) l vs ns cs)
                            \<lparr>b_shader := (case ci_shader ci of None \<Rightarrow> ('''', '''') | Some s \<Rightarrow> s)\<rparr>)\<rparr>)))
      else Inr ci)"

definition render_illumination :: "pcv \<Rightarrow> cache_item \<Rightarrow> py_error + cache_item" where
  "render_illumination p ci =
     (if ci_illumination ci \<noteq> p_illumination p
      then (case ci_current_display_length ci of
              None \<Rightarrow> Inl (TypeError ''NoneType'')
            | Some l \<Rightarrow>
                bindE (ci_arrays ci) (\<lambda>(vs, ns, cs).
                  let b = make_batch (p_illumination p) l vs ns cs
                  in Inr (ci\<lparr>ci_illumination := p_illumination p,
                             ci_shader := Some (b_shader b), ci_batch := Some b\<rparr>)))
      else Inr ci)"

text \<open>
  After undo the stored object reference is dead: the object is looked up by name and gets
  its uuid and path back.
\<close>

definition render_object :: "string \<Rightarrow> cache_item \<Rightarrow> world \<Rightarrow> py_error + string \<times> world" where
  "render_object u ci w =
     (case Option.bind (ci_object ci) (dict_get (objects w)) of
        Some ob \<Rightarrow> Inr (the (ci_object ci), w)
      | None \<Rightarrow>
          (case ci_name ci of
             None \<Rightarrow> Inl (TypeError ''name'')
           | Some n \<Rightarrow>
               (case dict_get (objects w) n of
                  None \<Rightarrow> Inl (KeyError n)
                | Some ob \<Rightarrow>
                    Inr (n, upd_pcv n (\<lambda>p. p\<lparr>p_uuid := u,
                              p_filepath := (case ci_filepath ci of None \<Rightarrow> '''' | Some f \<Rightarrow> f)\<rparr>)
                          (upd_item u (\<lambda>c. c\<lparr>ci_object := Some n\<rparr>) w)))))"

text \<open>
  The last step of \<open>render\<close>: the selected points are drawn over the cloud. Indexes that no
  longer fit the cloud drop the selection, and then every point is drawn once as selected.
\<close>

definition render_selection :: "string \<Rightarrow> string \<Rightarrow> world \<Rightarrow> (py_error + batch list) \<times> world" where
  "render_selection u n w =
     (case (get_pcv w n, dict_get (cache w) u) of
        (Some p, Some ci) \<Rightarrow>
          (if \<not> p_filter_remove_color_selection p then (Inr [], w)
           else
             (case ci_selection_indexes ci of
                None \<Rightarrow> (Inr [], w)
              | Some idx \<Rightarrow>
                  (let gone = upd_pcv n (\<lambda>p. p\<lparr>p_filter_remove_color_selection := False\<rparr>)
                                (upd_item u (\<lambda>c. c\<lparr>ci_selection_indexes := None\<rparr>) w);
                       sel = (\<lambda>vs. [\<lparr>b_shader = shader_selection, b_position = vs,
                                     b_color = None, b_normal = None\<rparr>])
                   in case ci_vertices ci of
                        None \<Rightarrow> (Inl (TypeError ''NoneType''), gone)
                      | Some vs \<Rightarrow>
                          (case np_take vs idx of
                             Inr vs' \<Rightarrow> (Inr (sel vs'), w)
                           | Inl e \<Rightarrow> (Inr (sel vs), gone)))))
      | _ \<Rightarrow> (Inl (KeyError u), w))"

definition PCVManager_render :: "string \<Rightarrow> world \<Rightarrow> (py_error + batch list) \<times> world" where
  "PCVManager_render u w =
     (case dict_get (cache w) u of
        None \<Rightarrow> (Inl (KeyError u), w)
      | Some ci \<Rightarrow>
          (case render_length ci of
             Inl e \<Rightarrow> (Inl e, w)
           | Inr ci1 \<Rightarrow>
               (let w1 = upd_item u (\<lambda>_. ci1) w
                in case render_object u ci1 w1 of
                     Inl e \<Rightarrow> (Inl e, w1)
                   | Inr (n, w2) \<Rightarrow>
                       (case (dict_get (objects w2) n, dict_get (cache w2) u) of
                          (Some ob, Some ci2) \<Rightarrow>
                            (if \<not> ob_visible ob then (Inr [], w2)
                             else
                               (case render_illumination (ob_pcv ob) ci2 of
                                  Inl e \<Rightarrow> (Inl e, w2)
                                | Inr ci3 \<Rightarrow>
                                    (let drawn = (if p_override_default_shader (ob_pcv ob) then []
                                                  else (case ci_batch ci3 of None \<Rightarrow> [] | Some b \<Rightarrow> [b]))
                                     in case render_extras (ob_pcv ob) ci3 of
                                          (Inl e, ci4) \<Rightarrow> (Inl e, upd_item u (\<lambda>_. ci4) w2)
                                        | (Inr extra, ci4) \<Rightarrow>
                                            (case render_selection u n (upd_item u (\<lambda>_. ci4) w2) of
                                               (Inl e, w3) \<Rightarrow> (Inl e, w3)
                                             | (Inr sel, w3) \<Rightarrow> (Inr (drawn @ extra @ sel), w3)))))
                        | _ \<Rightarrow> (Inl (KeyError n), w2)))))"

text \<open>
  The draw handler walks the items in the dict's order; an item whose object is gone is
  marked, and the marked ones are collected at the end.
\<close>

fun handler_loop :: "string list \<Rightarrow> world \<Rightarrow> (py_error + batch list) \<times> world" where
  "handler_loop [] w = (Inr [], w)"
| "handler_loop (k # ks) w =
     (case dict_get (cache w) k of
        None \<Rightarrow> (Inl (KeyError k), w)
      | Some v \<Rightarrow>
          (let gone = (Option.bind (ci_name v) (dict_get (objects w)) = None);
               v' = (if gone then v\<lparr>ci_kill := True\<rparr> else v);
               w1 = upd_item k (\<lambda>_. v') w
           in if ci_ready v' \<and> ci_draw v' \<and> \<not> ci_kill v'
              then (case ci_uuid v' of
                      None \<Rightarrow> (Inl (KeyError ''None''), w1)
                    | Some u \<Rightarrow>
                        (case PCVManager_render u w1 of
                           (Inl e, w2) \<Rightarrow> (Inl e, w2)
                         | (Inr bs, w2) \<Rightarrow>
                             (case handler_loop ks w2 of
                                (Inl e, w3) \<Rightarrow> (Inl e, w3)
                              | (Inr bs', w3) \<Rightarrow> (Inr (bs @ bs'), w3))))
              else handler_loop ks w1))"

definition PCVManager_handler :: "world \<Rightarrow> (py_error + batch list) \<times> world" where
  "PCVManager_handler w =
     (let run_gc = (\<exists>(k, v)\<in>set (cache w). Option.bind (ci_name v) (dict_get (objects w)) = None)
      in case handler_loop (dict_keys (cache w)) w of
           (Inl e, w1) \<Rightarrow> (Inl e, w1)
         | (Inr bs, w1) \<Rightarrow> (Inr bs, if run_gc then PCVManager_gc w1 else w1))"

end
