(* ===== verification/PCV_Manager_Facts.thy ===== *)
theory PCV_Manager_Facts
  imports PCV_Manager
begin

text \<open>
  Facts about \<open>PCVManager\<close>: the display count stays within the cloud, \<open>update\<close> stores a
  consistent item, the collector removes exactly the marked items, the handler never raises
  on a well-formed cache and drops the items whose object is gone, and the draw handler and
  the load watcher are registered at most once.
\<close>

section \<open>Well-formed items and caches\<close>

definition item_ok :: "cache_item \<Rightarrow> bool" where
  "item_ok c \<longleftrightarrow>
     (\<exists>vs ns cs dl cl b n.
        ci_vertices c = Some vs \<and> ci_normals c = Some ns \<and> ci_colors c = Some cs \<and>
        length ns = length vs \<and> length cs = length vs \<and>
        ci_length c = Some (length vs) \<and> ci_stats c = Some (length vs) \<and>
        ci_display_length c = Some dl \<and> 0 \<le> dl \<and> dl \<le> int (length vs) \<and>
        ci_current_display_length c = Some cl \<and> 0 \<le> cl \<and> cl \<le> int (length vs) \<and>
        ci_batch c = Some b \<and> b_position b = py_take cl vs \<and>
        ci_object c = Some n \<and> ci_name c = Some n)"

definition cache_wf :: "world \<Rightarrow> bool" where
  "cache_wf w \<longleftrightarrow>
     distinct (map fst (cache w)) \<and>
     (\<forall>(k, c)\<in>set (cache w). ci_uuid c = Some k \<and> item_ok c)"

definition objects_ok :: "world \<Rightarrow> bool" where
  "objects_ok w \<longleftrightarrow>
     (\<forall>(n, ob)\<in>set (objects w). 0 \<le> p_display_percent (ob_pcv ob) \<and> p_display_percent (ob_pcv ob) \<le> 100)"

lemma item_okE:
  assumes "item_ok c"
  obtains vs ns cs dl cl b n where
    "ci_vertices c = Some vs" "ci_normals c = Some ns" "ci_colors c = Some cs"
    "length ns = length vs" "length cs = length vs"
    "ci_length c = Some (length vs)" "ci_stats c = Some (length vs)"
    "ci_display_length c = Some dl" "0 \<le> dl" "dl \<le> int (length vs)"
    "ci_current_display_length c = Some cl" "0 \<le> cl" "cl \<le> int (length vs)"
    "ci_batch c = Some b" "b_position b = py_take cl vs"
    "ci_object c = Some n" "ci_name c = Some n"
  using assms unfolding item_ok_def by blast

lemma item_ok_arrays:
  "item_ok c \<Longrightarrow> \<exists>vs ns cs. ci_arrays c = Inr (vs, ns, cs) \<and> ci_vertices c = Some vs
     \<and> ci_normals c = Some ns \<and> ci_colors c = Some cs \<and> length ns = length vs \<and> length cs = length vs"
  by (auto simp: ci_arrays_def elim!: item_okE)

lemma item_ok_strip: "strip c = strip d \<Longrightarrow> item_ok c = item_ok d"
  using stripD [of c d] unfolding item_ok_def strip_def by (cases c; cases d) simp

lemma item_ok_flags [simp]:
  "item_ok (c\<lparr>ci_draw := b\<rparr>) = item_ok c" "item_ok (c\<lparr>ci_kill := b\<rparr>) = item_ok c"
  "item_ok (c\<lparr>ci_selection_indexes := s\<rparr>) = item_ok c" "item_ok (c\<lparr>ci_extra := x\<rparr>) = item_ok c"
  "item_ok (c\<lparr>ci_points := p\<rparr>) = item_ok c" "item_ok (c\<lparr>ci_colors_original := q\<rparr>) = item_ok c"
  "item_ok (c\<lparr>ci_vertex_normals := y\<rparr>) = item_ok c" "item_ok (c\<lparr>ci_uuid := u\<rparr>) = item_ok c"
  by (simp_all add: item_ok_def)

lemma cache_wf_get:
  assumes "cache_wf w" "dict_get (cache w) u = Some c"
  shows "ci_uuid c = Some u" "item_ok c"
  using assms by (auto simp: cache_wf_def dest!: map_of_SomeD)

lemma cache_wf_update:
  assumes "cache_wf w" "ci_uuid c = Some u" "item_ok c"
  shows "cache_wf (w\<lparr>cache := AList.update u c (cache w)\<rparr>)"
  using assms by (auto simp: cache_wf_def distinct_update dest!: dict_update_set)

lemma cache_wf_upd_item:
  assumes "cache_wf w"
    and "\<And>c. dict_get (cache w) u = Some c \<Longrightarrow> ci_uuid (f c) = Some u \<and> item_ok (f c)"
  shows "cache_wf (upd_item u f w)"
proof (cases "dict_get (cache w) u")
  case None
  then show ?thesis using assms(1) by (simp add: upd_item_def)
next
  case (Some c)
  then show ?thesis
    using assms cache_wf_update [of w "f c" u] by (simp add: upd_item_def)
qed

lemma cache_wf_cong: "cache w = cache w' \<Longrightarrow> cache_wf w = cache_wf w'"
  by (simp add: cache_wf_def)

lemma cache_wf_frame [simp]:
  "cache_wf (tag_redraw w) = cache_wf w" "cache_wf (report l m w) = cache_wf w"
  "cache_wf (upd_pcv o' f w) = cache_wf w"
  by (simp_all add: cache_wf_def)

lemma objects_ok_get:
  "objects_ok w \<Longrightarrow> dict_get (objects w) n = Some ob \<Longrightarrow>
     0 \<le> p_display_percent (ob_pcv ob) \<and> p_display_percent (ob_pcv ob) \<le> 100"
  by (auto simp: objects_ok_def dest!: map_of_SomeD)

section \<open>The number of displayed points\<close>

lemma display_count_bounds:
  assumes "0 \<le> dp" "dp \<le> 100"
  shows "0 \<le> display_count n dp" "display_count n dp \<le> int n"
proof -
  have "real n / 100 * dp \<le> real n / 100 * 100"
    using assms by (intro mult_left_mono) auto
  then have le: "real n / 100 * dp \<le> real n" by simp
  show "0 \<le> display_count n dp"
    using assms by (auto simp: display_count_def intro!: py_int_nonneg)
  show "display_count n dp \<le> int n"
    using assms le by (auto simp: display_count_def intro!: py_int_le)
qed

lemma display_count_mono:
  assumes "0 \<le> dp" "dp \<le> dp'" "dp' \<le> 100"
  shows "display_count n dp \<le> display_count n dp'"
proof (cases "99 \<le> dp'")
  case True
  then show ?thesis
    using display_count_bounds(2) [of dp n] assms by (simp add: display_count_def)
next
  case False
  have "real n / 100 * dp \<le> real n / 100 * dp'"
    using assms by (intro mult_left_mono) auto
  with False assms show ?thesis
    by (simp add: display_count_def py_int_def floor_mono)
qed

lemma make_batch_position [simp]: "b_position (make_batch ill l vs ns cs) = py_take l vs"
  by (simp add: make_batch_def)

section \<open>update\<close>

lemma update_missing:
  "dict_get (cache w) u = None \<Longrightarrow> PCVManager_update u vs ns cs w = (Inl (KeyError u), w)"
  by (simp add: PCVManager_update_def)

text \<open>The item \<open>update\<close> leaves behind when it succeeds.\<close>

definition updated_item :: "world \<Rightarrow> pcv \<Rightarrow> v3 list \<Rightarrow> v3 list option \<Rightarrow> v4 list option \<Rightarrow> cache_item \<Rightarrow> cache_item" where
  "updated_item w p vs ns cs c =
     (let l = length vs;
          ns' = (case ns of None \<Rightarrow> replicate l (0, 0, 1) | Some n \<Rightarrow> n);
          cs' = (case cs of None \<Rightarrow> replicate l (default_color (prefs w)) | Some x \<Rightarrow> x);
          nl = display_count l (p_display_percent p);
          b = make_batch (ci_illumination c) nl vs ns' cs'
      in c\<lparr>ci_vertices := Some vs, ci_normals := Some ns', ci_colors := Some cs',
           ci_length := Some l, ci_stats := Some l, ci_display_length := Some nl,
           ci_current_display_length := Some nl, ci_shader := Some (b_shader b),
           ci_batch := Some b\<rparr>)"

lemma update_some:
  assumes "dict_get (cache w) u = Some c" "ci_object c = Some n" "get_pcv w n = Some p"
  shows "PCVManager_update u vs ns cs w =
     (Inr (), tag_redraw (w\<lparr>cache := AList.update u (updated_item w p vs ns cs c) (cache w)\<rparr>))"
proof -
  have "AList.update u x (AList.update u y d) = AList.update u x d" for x y and d :: "(string, cache_item) dict"
    by (induction d) auto
  then show ?thesis
    using assms by (simp add: PCVManager_update_def updated_item_def Let_def)
qed

lemma updated_item_ok:
  assumes "item_ok c" "0 \<le> p_display_percent p" "p_display_percent p \<le> 100"
    and "case ns of None \<Rightarrow> True | Some n \<Rightarrow> length n = length vs"
    and "case cs of None \<Rightarrow> True | Some x \<Rightarrow> length x = length vs"
  shows "item_ok (updated_item w p vs ns cs c)"
proof -
  obtain n where "ci_object c = Some n" "ci_name c = Some n"
    using assms(1) by (auto elim: item_okE)
  then show ?thesis
    unfolding item_ok_def updated_item_def Let_def
    using assms(4,5) display_count_bounds [OF assms(2,3), of "length vs"]
    by (auto split: option.splits)
qed

lemma updated_item_frame [simp]:
  "ci_uuid (updated_item w p vs ns cs c) = ci_uuid c"
  "ci_object (updated_item w p vs ns cs c) = ci_object c"
  "ci_name (updated_item w p vs ns cs c) = ci_name c"
  "ci_ready (updated_item w p vs ns cs c) = ci_ready c"
  "ci_draw (updated_item w p vs ns cs c) = ci_draw c"
  "ci_kill (updated_item w p vs ns cs c) = ci_kill c"
  "ci_selection_indexes (updated_item w p vs ns cs c) = ci_selection_indexes c"
  "ci_points (updated_item w p vs ns cs c) = ci_points c"
  "ci_colors_original (updated_item w p vs ns cs c) = ci_colors_original c"
  "ci_vertices (updated_item w p vs ns cs c) = Some vs"
  "ci_normals (updated_item w p vs (Some ns') cs c) = Some ns'"
  "ci_colors (updated_item w p vs ns (Some cs') c) = Some cs'"
  by (simp_all add: updated_item_def Let_def)

lemma update_cache_wf:
  assumes "cache_wf w" "objects_ok w" "dict_get (cache w) u = Some c"
    and "ci_object c = Some n" "get_pcv w n = Some p"
    and "case ns of None \<Rightarrow> True | Some x \<Rightarrow> length x = length vs"
    and "case cs of None \<Rightarrow> True | Some x \<Rightarrow> length x = length vs"
  shows "cache_wf (snd (PCVManager_update u vs ns cs w))"
proof -
  obtain ob where "dict_get (objects w) n = Some ob" "p = ob_pcv ob"
    using assms(5) by (auto simp: get_pcv_def)
  then have "0 \<le> p_display_percent p" "p_display_percent p \<le> 100"
    using objects_ok_get [OF assms(2)] by auto
  then have "item_ok (updated_item w p vs ns cs c)"
    using updated_item_ok cache_wf_get(2) [OF assms(1,3)] assms(6,7) by blast
  then show ?thesis
    using cache_wf_update [OF assms(1)] cache_wf_get(1) [OF assms(1,3)]
    by (simp add: update_some [OF assms(3-5)])
qed

section \<open>The collector\<close>

lemma fold_delete: "fold AList.delete ks d = filter (\<lambda>(k, v). k \<notin> set ks) d"
proof (induction ks arbitrary: d)
  case (Cons k ks)
  then show ?case
    by (auto simp: AList.delete_eq case_prod_unfold intro!: filter_cong)
qed (simp add: case_prod_unfold)

lemma gc_cache:
  assumes "distinct (map fst (cache w))"
  shows "cache (PCVManager_gc w) = filter (\<lambda>(k, v). \<not> ci_kill v) (cache w)"
proof -
  have "k \<in> set (map fst (filter (\<lambda>(k, v). ci_kill v) (cache w))) \<longleftrightarrow> ci_kill v"
    if "(k, v) \<in> set (cache w)" for k v
    using assms that by (auto simp: image_iff dest: eq_key_imp_eq_value)
  then show ?thesis
    by (auto simp: PCVManager_gc_def fold_delete intro!: filter_cong)
qed

lemma gc_frame [simp]:
  "objects (PCVManager_gc w) = objects w" "initialized (PCVManager_gc w) = initialized w"
  "handle (PCVManager_gc w) = handle w" "draw_handlers (PCVManager_gc w) = draw_handlers w"
  "load_pre (PCVManager_gc w) = load_pre w" "get_pcv (PCVManager_gc w) x = get_pcv w x"
  "seq_cache (PCVManager_gc w) = seq_cache w" "prefs (PCVManager_gc w) = prefs w"
  "context_object (PCVManager_gc w) = context_object w"
  by (simp_all add: PCVManager_gc_def get_pcv_def Let_def)

lemma gc_cache_wf: "cache_wf w \<Longrightarrow> cache_wf (PCVManager_gc w)"
  by (auto simp: cache_wf_def gc_cache distinct_map_filter)

lemma gc_cache_mem:
  "distinct (map fst (cache w)) \<Longrightarrow>
     (k, v) \<in> set (cache (PCVManager_gc w)) \<longleftrightarrow> (k, v) \<in> set (cache w) \<and> \<not> ci_kill v"
  by (auto simp: gc_cache)


section \<open>Registration\<close>

lemma deinit_not_initialized: "\<not> initialized w \<Longrightarrow> PCVManager_deinit w = (Inr (), w)"
  by (simp add: PCVManager_deinit_def)

lemma gc_all_killed:
  "cache (PCVManager_gc (w\<lparr>cache := map (\<lambda>(k, v). (k, v\<lparr>ci_kill := True\<rparr>)) d\<rparr>)) = []"
proof -
  have "filter (\<lambda>(k, v). k \<notin> fst ` set d) (map (\<lambda>(k, v). (k, v\<lparr>ci_kill := True\<rparr>)) d) = []"
    by (force simp: filter_empty_conv)
  then show ?thesis
    by (simp add: PCVManager_gc_def Let_def fold_delete filter_map o_def case_prod_unfold image_iff)
qed

lemma deinit_initialized:
  assumes "initialized w" "load_pre w \<noteq> 0"
  shows "fst (PCVManager_deinit w) = Inr ()"
    and "cache (snd (PCVManager_deinit w)) = []"
    and "\<not> initialized (snd (PCVManager_deinit w))"
    and "\<not> handle (snd (PCVManager_deinit w))"
    and "draw_handlers (snd (PCVManager_deinit w)) = draw_handlers w - 1"
    and "load_pre (snd (PCVManager_deinit w)) = load_pre w - 1"
  using assms by (simp_all add: PCVManager_deinit_def Let_def gc_all_killed)

datatype registration_op = Reg_init | Reg_deinit | Reg_gc

fun registration_step :: "registration_op \<Rightarrow> world \<Rightarrow> world" where
  "registration_step Reg_init w = PCVManager_init w"
| "registration_step Reg_deinit w = snd (PCVManager_deinit w)"
| "registration_step Reg_gc w = PCVManager_gc w"

definition registered_once :: "world \<Rightarrow> bool" where
  "registered_once w \<longleftrightarrow>
     (if initialized w then handle w \<and> draw_handlers w = 1 \<and> load_pre w = 1
      else \<not> handle w \<and> draw_handlers w = 0 \<and> load_pre w = 0)"

lemma registered_once_init: "registered_once w \<Longrightarrow> registered_once (PCVManager_init w)"
  by (auto simp: registered_once_def PCVManager_init_def)

lemma registered_once_deinit:
  assumes "registered_once w"
  shows "registered_once (snd (PCVManager_deinit w)) \<and> fst (PCVManager_deinit w) = Inr ()"
proof (cases "initialized w")
  case True
  then show ?thesis
    using assms deinit_initialized [of w] by (simp add: registered_once_def)
next
  case False
  then show ?thesis using assms by (simp add: deinit_not_initialized)
qed

lemma registered_once_step: "registered_once w \<Longrightarrow> registered_once (registration_step a w)"
proof (cases a)
  case Reg_gc
  assume "registered_once w"
  then show ?thesis by (simp add: Reg_gc registered_once_def)
qed (simp_all add: registered_once_init registered_once_deinit)

interpretation registration: transition_invariant
    "w0\<lparr>handle := False, initialized := False, draw_handlers := 0, load_pre := 0\<rparr>"
    registration_step registered_once for w0
  by unfold_locales (simp_all add: registered_once_step, simp add: registered_once_def)

section \<open>The draw handler\<close>

lemma render_length_ok:
  assumes "item_ok c"
  shows "\<exists>c'. render_length c = Inr c' \<and> item_ok c' \<and> ci_uuid c' = ci_uuid c \<and>
     ci_name c' = ci_name c \<and> ci_object c' = ci_object c \<and> ci_kill c' = ci_kill c \<and>
     ci_display_length c' = ci_display_length c \<and>
     ci_current_display_length c' = ci_display_length c \<and> ci_extra c' = ci_extra c \<and>
     ci_vertices c' = ci_vertices c"
  using assms
  by (auto simp: render_length_def ci_arrays_def item_ok_def elim!: item_okE)

lemma render_illumination_ok:
  assumes "item_ok c"
  shows "\<exists>c'. render_illumination p c = Inr c' \<and> item_ok c' \<and> ci_uuid c' = ci_uuid c \<and>
     ci_name c' = ci_name c \<and> ci_kill c' = ci_kill c \<and>
     ci_display_length c' = ci_display_length c \<and>
     ci_current_display_length c' = ci_current_display_length c \<and> ci_extra c' = ci_extra c \<and>
     ci_vertices c' = ci_vertices c"
  using assms
  by (auto simp: render_illumination_def ci_arrays_def item_ok_def Let_def elim!: item_okE)


text \<open>What a pass over the items leaves alone: objects, keys, and each item's name and mark.\<close>

definition item_tag :: "cache_item \<Rightarrow> string option \<times> bool" where
  "item_tag c = (ci_name c, ci_kill c)"

definition object_tag :: "object \<Rightarrow> object" where
  "object_tag ob = ob\<lparr>ob_pcv := (ob_pcv ob)\<lparr>p_filter_remove_color_selection := False\<rparr>\<rparr>"

definition same_objects :: "world \<Rightarrow> world \<Rightarrow> bool" where
  "same_objects w w' \<longleftrightarrow>
     (\<forall>n. map_option object_tag (dict_get (objects w') n) = map_option object_tag (dict_get (objects w) n))"

lemma same_objects_refl: "same_objects w w"
  by (simp add: same_objects_def)

lemma same_objects_trans: "same_objects a b \<Longrightarrow> same_objects b c \<Longrightarrow> same_objects a c"
  by (simp add: same_objects_def)

lemma same_objects_eq: "objects w' = objects w \<Longrightarrow> same_objects w w'"
  by (simp add: same_objects_def)

lemma same_objects_None:
  assumes "same_objects w w'"
  shows "dict_get (objects w') n = None \<longleftrightarrow> dict_get (objects w) n = None"
proof -
  have "map_option object_tag (dict_get (objects w') n) = None \<longleftrightarrow>
      map_option object_tag (dict_get (objects w) n) = None"
    using assms by (simp add: same_objects_def)
  then show ?thesis by simp
qed

definition same_items :: "world \<Rightarrow> world \<Rightarrow> bool" where
  "same_items w w' \<longleftrightarrow> same_objects w w' \<and> dict_keys (cache w') = dict_keys (cache w) \<and>
     (\<forall>k. map_option item_tag (dict_get (cache w') k) = map_option item_tag (dict_get (cache w) k))"

lemma same_items_refl: "same_items w w"
  by (simp add: same_items_def same_objects_refl)

lemma same_items_trans: "same_items a b \<Longrightarrow> same_items b c \<Longrightarrow> same_items a c"
  by (auto simp: same_items_def intro: same_objects_trans)

lemma dict_keys_upd_item [simp]: "dict_keys (cache (upd_item u f w)) = dict_keys (cache w)"
proof (cases "dict_get (cache w) u")
  case (Some c)
  then have "u \<in> set (dict_keys (cache w))"
    by (force dest: map_of_SomeD)
  with Some show ?thesis by (simp add: upd_item_def update_keys)
qed (simp add: upd_item_def)

lemma same_items_upd_item:
  assumes "\<And>c. dict_get (cache w) u = Some c \<Longrightarrow> item_tag (f c) = item_tag c"
  shows "same_items w (upd_item u f w)"
  using assms by (cases "dict_get (cache w) u") (auto simp: same_items_def dict_get_upd_item same_objects_eq)

lemma same_items_upd_pcv_selection:
  "same_items w (upd_pcv n (\<lambda>p. p\<lparr>p_filter_remove_color_selection := False\<rparr>) w)"
  by (auto simp: same_items_def same_objects_def upd_pcv_def object_tag_def split: option.splits)

text \<open>Rendering an item leaves the others as they are.\<close>

definition other_items :: "string \<Rightarrow> world \<Rightarrow> world \<Rightarrow> bool" where
  "other_items u w w' \<longleftrightarrow> (\<forall>j. j \<noteq> u \<longrightarrow> dict_get (cache w') j = dict_get (cache w) j)"

lemma render_selection_ok:
  assumes wf: "cache_wf w" and get: "dict_get (cache w) u = Some c" and ob: "dict_get (objects w) n = Some ob"
  shows "\<exists>bs w'. render_selection u n w = (Inr bs, w') \<and> cache_wf w' \<and> same_items w w' \<and> other_items u w w'"
proof -
  let ?w1 = "upd_item u (\<lambda>c. c\<lparr>ci_selection_indexes := None\<rparr>) w"
  let ?w2 = "upd_pcv n (\<lambda>p. p\<lparr>p_filter_remove_color_selection := False\<rparr>) ?w1"
  have ok: "ci_uuid c = Some u" "item_ok c"
    using cache_wf_get [OF wf get] by auto
  have w1: "cache_wf ?w1" "same_items w ?w1"
    using wf get ok by (auto intro!: cache_wf_upd_item same_items_upd_item simp: item_tag_def)
  have w2: "cache_wf ?w2" "same_items w ?w2"
    using w1 same_items_trans [OF w1(2) same_items_upd_pcv_selection] by (simp_all add: cache_wf_def)
  have other: "other_items u w ?w2" "other_items u w w"
    by (simp_all add: other_items_def dict_get_upd_item)
  obtain vs where "ci_vertices c = Some vs"
    using ok(2) by (auto elim: item_okE)
  then show ?thesis
    using get ob wf w2 other same_items_refl
    by (auto simp: render_selection_def get_pcv_def Let_def split: option.splits sum.splits)
qed

lemma sized_ok_cong: "ci_extra c = ci_extra d \<Longrightarrow> sized_ok p l c = sized_ok p l d"
  by (simp add: sized_ok_def sized_view_def)

lemma PCVManager_render_ok:
  assumes wf: "cache_wf w" and get: "dict_get (cache w) u = Some c"
    and name: "ci_name c = Some n" and ob: "dict_get (objects w) n = Some ob"
    and extras: "extras_ok (ob_pcv ob) c"
  shows "\<exists>bs w'. PCVManager_render u w = (Inr bs, w') \<and> cache_wf w' \<and> same_items w w' \<and> other_items u w w'"
proof -
  have uuid: "ci_uuid c = Some u" and ok: "item_ok c"
    using cache_wf_get [OF wf get] by auto
  obtain c1 where c1: "render_length c = Inr c1" "item_ok c1" "ci_uuid c1 = Some u"
      "ci_name c1 = Some n" "ci_object c1 = ci_object c" "ci_kill c1 = ci_kill c"
      "ci_display_length c1 = ci_display_length c"
      "ci_current_display_length c1 = ci_display_length c" "ci_extra c1 = ci_extra c" "ci_vertices c1 = ci_vertices c"
    using render_length_ok [OF ok] uuid name by auto
  have obj: "ci_object c1 = Some n"
    using c1(2,4) by (auto elim: item_okE)
  obtain c3 where c3: "render_illumination (ob_pcv ob) c1 = Inr c3" "item_ok c3"
      "ci_uuid c3 = Some u" "ci_name c3 = Some n" "ci_kill c3 = ci_kill c"
      "ci_current_display_length c3 = ci_display_length c" "ci_extra c3 = ci_extra c" "ci_vertices c3 = ci_vertices c"
    using render_illumination_ok [OF c1(2)] c1 by (metis (no_types, lifting))
  obtain l where l: "ci_display_length c = Some l" "sized_ok (ob_pcv ob) l c3"
    using extras sized_ok_cong [OF c3(7)] by (auto simp: extras_ok_def)
  obtain vs ns cs where arr: "ci_vertices c3 = Some vs" "ci_normals c3 = Some ns" "ci_colors c3 = Some cs"
    using c3(2) by (auto elim: item_okE)
  have "p_flags (ob_pcv ob) Dev_depth \<or> ds_bbox (p_display (ob_pcv ob)) \<longrightarrow> vs \<noteq> []"
    using extras arr(1) c3(8) by (auto simp: extras_ok_def)
  with render_extras_fine [OF l(2) arr] c3(6) l(1) obtain ex c4 where
    c4: "render_extras (ob_pcv ob) c3 = (Inr ex, c4)" "strip c4 = strip c3" by auto
  note same = stripD [OF c4(2)] and ok4 = c3(2) [folded item_ok_strip [OF c4(2)]]
  let ?w1 = "upd_item u (\<lambda>_. c1) w"
  have w1: "cache_wf ?w1" "same_items w ?w1"
    using wf c1 get name by (auto intro!: cache_wf_upd_item same_items_upd_item simp: item_tag_def)
  have w3: "cache_wf (upd_item u (\<lambda>_. c4) ?w1)" "same_items w (upd_item u (\<lambda>_. c4) ?w1)"
    using w1 c1 c3 get name same ok4
    by (auto intro!: cache_wf_upd_item same_items_trans [OF w1(2)] same_items_upd_item
        simp: item_tag_def dict_get_upd_item)
  obtain sel w4 where sel: "render_selection u n (upd_item u (\<lambda>_. c4) ?w1) = (Inr sel, w4)"
      "cache_wf w4" "same_items (upd_item u (\<lambda>_. c4) ?w1) w4" "other_items u (upd_item u (\<lambda>_. c4) ?w1) w4"
    using render_selection_ok [OF w3(1), of u c4 n ob] get ob by (auto simp: dict_get_upd_item)
  moreover have "same_items w w4"
    by (rule same_items_trans [OF w3(2) sel(3)])
  moreover have "other_items u w w4" "other_items u w w" "other_items u w ?w1"
    using sel(4) by (simp_all add: other_items_def dict_get_upd_item)
  ultimately show ?thesis
    using w1 get ob obj c1(1) c3(1) c4(1)
    by (auto simp: PCVManager_render_def Let_def render_object_def dict_get_upd_item split: option.splits)
qed


text \<open>
  One pass: no error on a well-formed cache, the visited items whose object is gone are
  marked, everything else keeps its mark, and nothing drawn has more points than its item
  displays.
\<close>

definition object_gone :: "world \<Rightarrow> cache_item \<Rightarrow> bool" where
  "object_gone w c \<longleftrightarrow> Option.bind (ci_name c) (dict_get (objects w)) = None"

definition marks_gone :: "string list \<Rightarrow> world \<Rightarrow> world \<Rightarrow> bool" where
  "marks_gone ks w w' \<longleftrightarrow> same_objects w w' \<and> dict_keys (cache w') = dict_keys (cache w) \<and>
     (\<forall>k c. dict_get (cache w) k = Some c \<longrightarrow>
        (\<exists>c'. dict_get (cache w') k = Some c' \<and> ci_name c' = ci_name c \<and>
           ci_kill c' = (ci_kill c \<or> k \<in> set ks \<and> object_gone w c)))"

lemma same_itemsD:
  assumes "same_items w w'" "dict_get (cache w) k = Some c"
  obtains c' where "dict_get (cache w') k = Some c'" "ci_name c' = ci_name c" "ci_kill c' = ci_kill c"
proof -
  have "map_option item_tag (dict_get (cache w') k) = Some (item_tag c)"
    using assms by (simp add: same_items_def)
  then show ?thesis using that by (auto simp: item_tag_def)
qed

lemma marks_gone_step:
  assumes mark: "objects w1 = objects w" "dict_keys (cache w1) = dict_keys (cache w)"
    and upd: "\<And>j. dict_get (cache w1) j =
       (if j = k then Some (v\<lparr>ci_kill := ci_kill v \<or> object_gone w v\<rparr>) else dict_get (cache w) j)"
    and v: "dict_get (cache w) k = Some v"
    and same: "same_items w1 w2" and rest: "marks_gone ks w2 w3"
  shows "marks_gone (k # ks) w w3"
proof -
  have obj: "same_objects w w2"
    using same_objects_trans [OF same_objects_eq [OF mark(1)]] same by (simp add: same_items_def)
  moreover have "same_objects w2 w3" "dict_keys (cache w3) = dict_keys (cache w)"
    using mark same rest by (auto simp: same_items_def marks_gone_def)
  ultimately have obj3: "same_objects w w3" "dict_keys (cache w3) = dict_keys (cache w)"
    by (auto intro: same_objects_trans)
  have "\<exists>c'. dict_get (cache w3) j = Some c' \<and> ci_name c' = ci_name c \<and>
      ci_kill c' = (ci_kill c \<or> j \<in> set (k # ks) \<and> object_gone w c)"
    if c: "dict_get (cache w) j = Some c" for j c
  proof -
    obtain c1 where c1: "dict_get (cache w1) j = Some c1" "ci_name c1 = ci_name c"
        "ci_kill c1 = (ci_kill c \<or> j = k \<and> object_gone w c)"
      using upd [of j] c v by (cases "j = k") auto
    obtain c2 where c2: "dict_get (cache w2) j = Some c2" "ci_name c2 = ci_name c"
        "ci_kill c2 = ci_kill c1"
      using same_itemsD [OF same c1(1)] c1(2) by metis
    have "object_gone w2 c2 = object_gone w c"
      using c2(2) same_objects_None [OF obj] by (cases "ci_name c") (auto simp: object_gone_def)
    then show ?thesis
      using rest c1 c2 by (fastforce simp: marks_gone_def)
  qed
  with obj3 show ?thesis by (simp add: marks_gone_def)
qed

text \<open>What is drawn can be drawn: each shown item satisfies \<open>extras_ok\<close>.\<close>

definition drawable :: "string list \<Rightarrow> world \<Rightarrow> bool" where
  "drawable ks w \<longleftrightarrow>
     (\<forall>k\<in>set ks. \<forall>c n ob. dict_get (cache w) k = Some c \<and> ci_ready c \<and> ci_draw c \<and> \<not> ci_kill c \<and>
        ci_name c = Some n \<and> dict_get (objects w) n = Some ob \<longrightarrow> extras_ok (ob_pcv ob) c)"

lemma drawable_mono:
  assumes "drawable (k # ks) w" "k \<notin> set ks" "same_objects w w'" "other_items k w w'"
  shows "drawable ks w'"
  unfolding drawable_def
proof (intro ballI allI impI, elim conjE)
  fix j c n ob
  assume j: "j \<in> set ks" and c: "dict_get (cache w') j = Some c" "ci_ready c" "ci_draw c" "\<not> ci_kill c" "ci_name c = Some n"
    and ob: "dict_get (objects w') n = Some ob"
  have c': "dict_get (cache w) j = Some c" using assms(2,4) j c(1) by (auto simp: other_items_def)
  have "map_option object_tag (dict_get (objects w) n) = Some (object_tag ob)"
    using assms(3) ob unfolding same_objects_def by (metis option.simps(9))
  then obtain ob' where ob': "dict_get (objects w) n = Some ob'" "object_tag ob' = object_tag ob" by auto
  then have "ob_pcv (object_tag ob') = ob_pcv (object_tag ob)" by simp
  then have "(ob_pcv ob')\<lparr>p_filter_remove_color_selection := False\<rparr> = (ob_pcv ob)\<lparr>p_filter_remove_color_selection := False\<rparr>"
    by (simp add: object_tag_def)
  note eq = this
  have "p_flags (ob_pcv ob') = p_flags (ob_pcv ob)" "p_display (ob_pcv ob') = p_display (ob_pcv ob)"
    using arg_cong [OF eq, of p_flags] arg_cong [OF eq, of p_display] by simp_all
  moreover have "extras_ok (ob_pcv ob') c"
    using assms(1) j c c' ob'(1) by (auto simp: drawable_def)
  ultimately show "extras_ok (ob_pcv ob) c"
    by (simp add: extras_ok_def sized_ok_def sized_on_def)
qed

lemma handler_loop_ok:
  assumes "cache_wf w" "set ks \<subseteq> set (dict_keys (cache w))" "distinct ks" "drawable ks w"
  shows "\<exists>bs w'. handler_loop ks w = (Inr bs, w') \<and> cache_wf w' \<and> marks_gone ks w w'"
  using assms
proof (induction ks arbitrary: w)
  case Nil
  then show ?case by (simp add: marks_gone_def same_objects_refl)
next
  case (Cons k ks)
  then obtain v where v: "dict_get (cache w) k = Some v"
    by (metis (no_types, lifting) dom_map_of_conv_image_fst domD list.set_intros(1) list.set_map subsetD)
  have uv: "ci_uuid v = Some k" "item_ok v"
    using cache_wf_get [OF Cons.prems(1) v] by auto
  define v' where "v' = v\<lparr>ci_kill := ci_kill v \<or> object_gone w v\<rparr>"
  have v'_if: "(if Option.bind (ci_name v) (dict_get (objects w)) = None then v\<lparr>ci_kill := True\<rparr> else v) = v'"
    by (auto simp: v'_def object_gone_def)
  define w1 where "w1 = upd_item k (\<lambda>_. v') w"
  have w1: "cache_wf w1" "objects w1 = objects w" "dict_keys (cache w1) = dict_keys (cache w)"
      "\<And>j. dict_get (cache w1) j = (if j = k then Some v' else dict_get (cache w) j)"
    using Cons.prems(1) uv v
    by (auto simp: w1_def v'_def dict_get_upd_item intro!: cache_wf_upd_item)
  have step: "handler_loop (k # ks) w =
      (if ci_ready v' \<and> ci_draw v' \<and> \<not> ci_kill v'
       then (case PCVManager_render k w1 of
               (Inl e, w2) \<Rightarrow> (Inl e, w2)
             | (Inr bs, w2) \<Rightarrow> (case handler_loop ks w2 of
                   (Inl e, w3) \<Rightarrow> (Inl e, w3) | (Inr bs', w3) \<Rightarrow> (Inr (bs @ bs'), w3)))
       else handler_loop ks w1)"
    using v uv v'_if by (simp add: Let_def w1_def v'_def)
  have "\<exists>bs w2. (if ci_ready v' \<and> ci_draw v' \<and> \<not> ci_kill v' then PCVManager_render k w1 else (Inr [], w1))
      = (Inr bs, w2) \<and> cache_wf w2 \<and> same_items w1 w2 \<and> other_items k w1 w2"
  proof (cases "ci_ready v' \<and> ci_draw v' \<and> \<not> ci_kill v'")
    case True
    then obtain n ob where n: "ci_name v' = Some n" "dict_get (objects w1) n = Some ob"
      using w1(2) by (auto simp: v'_def object_gone_def bind_eq_None_conv)
    have "v' = v" using True by (simp add: v'_def)
    then have "extras_ok (ob_pcv ob) v'"
      using Cons.prems(4) True n v w1(2) by (auto simp: drawable_def)
    then show ?thesis
      using True n PCVManager_render_ok [OF w1(1), of k v' n ob] w1(4) by auto
  qed (use w1(1) same_items_refl in \<open>auto simp: other_items_def\<close>)
  then obtain bs w2 where r: "(if ci_ready v' \<and> ci_draw v' \<and> \<not> ci_kill v' then PCVManager_render k w1
      else (Inr [], w1)) = (Inr bs, w2)" "cache_wf w2" "same_items w1 w2" "other_items k w1 w2"
    by blast
  then have keys: "set ks \<subseteq> set (dict_keys (cache w2))"
    using Cons.prems(2) w1(3) by (simp add: same_items_def)
  have "same_objects w w2" "other_items k w w2"
    using same_objects_trans [OF same_objects_eq [OF w1(2)]] r(3,4) w1(4)
    by (simp_all add: same_items_def other_items_def)
  then have "drawable ks w2" using drawable_mono [OF Cons.prems(4)] Cons.prems(3) by simp
  moreover have "distinct ks" using Cons.prems(3) by simp
  ultimately obtain bs' w3 where
    l: "handler_loop ks w2 = (Inr bs', w3)" "cache_wf w3" "marks_gone ks w2 w3"
    using Cons.IH [OF r(2) keys] by blast
  have "marks_gone (k # ks) w w3"
    by (rule marks_gone_step [OF w1(2,3) w1(4) [unfolded v'_def] v r(3) l(3)])
  then show ?case
    unfolding step using r(1) l(1,2) by (auto simp del: handler_loop.simps split: if_splits)
qed

lemma dict_keys_get: "k \<in> set (dict_keys d) \<longleftrightarrow> (\<exists>c. dict_get d k = Some c)"
  by (metis list.set_map map_of_eq_None_iff not_None_eq)

lemma gc_get:
  assumes "distinct (dict_keys (cache w))"
  shows "dict_get (cache (PCVManager_gc w)) k = Some c \<longleftrightarrow> dict_get (cache w) k = Some c \<and> \<not> ci_kill c"
proof -
  have "distinct (dict_keys (cache (PCVManager_gc w)))"
    using assms by (simp add: gc_cache distinct_map_filter)
  then show ?thesis
    using gc_cache_mem [OF assms, of k c] by (simp add: dict_get_mem assms)
qed

lemma marks_gone_get:
  assumes "marks_gone (dict_keys (cache w)) w w'" "dict_get (cache w') k = Some c'"
  obtains c where "dict_get (cache w) k = Some c" "ci_kill c' = (ci_kill c \<or> object_gone w c)"
proof -
  have "k \<in> set (dict_keys (cache w))"
    using assms dict_keys_get [of k "cache w'"] by (auto simp: marks_gone_def)
  then obtain c where c: "dict_get (cache w) k = Some c"
    using dict_keys_get by metis
  with assms show ?thesis
    using that dict_keys_get [of k "cache w"] by (fastforce simp: marks_gone_def)
qed

lemma gc_objects: "objects (PCVManager_gc w) = objects w"
  by (simp add: PCVManager_gc_def Let_def)

text \<open>
  The handler on a well-formed cache: it does not raise, keeps the cache well-formed and
  leaves no item whose object is gone; an unmarked item whose object is there stays.
\<close>

lemma handler_ok:
  assumes "cache_wf w" "drawable (dict_keys (cache w)) w"
  shows "\<exists>bs w'. PCVManager_handler w = (Inr bs, w') \<and> cache_wf w' \<and> same_objects w w'"
    and "dict_get (cache (snd (PCVManager_handler w))) k = Some c' \<Longrightarrow>
       \<exists>c. dict_get (cache w) k = Some c \<and> \<not> object_gone w c"
    and "dict_get (cache w) k = Some c \<Longrightarrow> \<not> object_gone w c \<Longrightarrow> \<not> ci_kill c \<Longrightarrow>
       \<exists>c'. dict_get (cache (snd (PCVManager_handler w))) k = Some c'"
proof -
  obtain bs w1 where l: "handler_loop (dict_keys (cache w)) w = (Inr bs, w1)" "cache_wf w1"
      "marks_gone (dict_keys (cache w)) w w1"
    using handler_loop_ok [OF assms(1) _ _ assms(2)] assms(1) by (auto simp: cache_wf_def)
  have dist: "distinct (dict_keys (cache w1))"
    using l(2) by (simp add: cache_wf_def)
  let ?gc = "\<exists>(k, v)\<in>set (cache w). object_gone w v"
  have snd: "PCVManager_handler w = (Inr bs, if ?gc then PCVManager_gc w1 else w1)"
    using l(1) by (simp add: PCVManager_handler_def object_gone_def)
  show "\<exists>bs w'. PCVManager_handler w = (Inr bs, w') \<and> cache_wf w' \<and> same_objects w w'"
    using l(2,3) gc_cache_wf [OF l(2)] same_objects_trans [OF _ same_objects_eq [OF gc_objects]]
    by (simp add: snd marks_gone_def)
  show "\<exists>c. dict_get (cache w) k = Some c \<and> \<not> object_gone w c"
    if k: "dict_get (cache (snd (PCVManager_handler w))) k = Some c'"
  proof (cases ?gc)
    case True
    then have "dict_get (cache w1) k = Some c'" "\<not> ci_kill c'"
      using k by (simp_all add: snd gc_get [OF dist])
    then show ?thesis using marks_gone_get [OF l(3)] by metis
  next
    case False
    then have "dict_get (cache w1) k = Some c'"
      using k by (simp add: snd)
    then obtain c where "dict_get (cache w) k = Some c"
      using marks_gone_get [OF l(3)] by metis
    with False show ?thesis by (auto dest: map_of_SomeD)
  qed
  show "\<exists>c'. dict_get (cache (snd (PCVManager_handler w))) k = Some c'"
    if k: "dict_get (cache w) k = Some c" "\<not> object_gone w c" "\<not> ci_kill c"
  proof -
    obtain c1 where "dict_get (cache w1) k = Some c1" "\<not> ci_kill c1"
      using l(3) k unfolding marks_gone_def by blast
    then show ?thesis using gc_get [OF dist] by (auto simp: snd)
  qed
qed

end
