(* ===== verification/PCV_Control.thy ===== *)
theory PCV_Control
  imports PCV_Manager_Facts
begin

text \<open>
  \<open>PCVControl\<close>, the interface for scripts and for the generators: \<open>draw\<close> shows arrays on
  an object (creating its cache item, or updating it when the object has been used before),
  \<open>erase\<close> hides it and \<open>reset\<close> forgets it.
\<close>

section \<open>Operations\<close>

definition non_empty :: "'a list option \<Rightarrow> 'a list option" where
  "non_empty xs = (case xs of Some [] \<Rightarrow> None | _ \<Rightarrow> xs)"

definition le_f4 :: np_type where
  "le_f4 = (CHR ''<'', CHR ''f'')"

definition u1 :: np_type where
  "u1 = (CHR ''|'', CHR ''B'')"

definition control_dtype :: "(string \<times> np_type) list" where
  "control_dtype =
     [(''x'', le_f4), (''y'', le_f4), (''z'', le_f4),
      (''nx'', le_f4), (''ny'', le_f4), (''nz'', le_f4),
      (''red'', u1), (''green'', u1), (''blue'', u1)]"

text \<open>One row of the structured array, colours as 8 bit values.\<close>

definition control_row :: "num_env \<Rightarrow> v3 \<Rightarrow> v3 \<Rightarrow> v4 \<Rightarrow> string list" where
  "control_row ne v n c =
     (case (v, n, c) of ((x, y, z), (nx, ny, nz), (r, g, b, a)) \<Rightarrow>
        map (ne_enc ne le_f4) [x, y, z, nx, ny, nz] @
        map (\<lambda>k. ne_enc ne u1 (real_of_int (py_int (k * 255)))) [r, g, b])"

definition with_alpha :: "v3 \<Rightarrow> v4" where
  "with_alpha c = (case c of (r, g, b) \<Rightarrow> (r, g, b, 1))"

text \<open>
  Missing or empty arrays become the defaults; numpy refuses colours of another length when
  it stacks the columns, and normals of another length (a single one is broadcast) when it
  fills the structured array.
\<close>

definition PCVControl_prepare ::
    "num_env \<Rightarrow> preferences \<Rightarrow> v3 list option \<Rightarrow> v3 list option \<Rightarrow> v3 list option
       \<Rightarrow> py_error + (v3 list \<times> v3 list \<times> v4 list \<times> parray \<times> bool \<times> bool)" where
  "PCVControl_prepare ne pr vs ns cs =
     (let vs' = (case non_empty vs of None \<Rightarrow> [] | Some v \<Rightarrow> v);
          n = length vs';
          has_normals = (non_empty ns \<noteq> None);
          ns' = (case non_empty ns of None \<Rightarrow> replicate n (0, 0, 1) | Some x \<Rightarrow> x);
          has_colors = (non_empty cs \<noteq> None);
          cs' = (case non_empty cs of None \<Rightarrow> replicate n (default_color pr) | Some x \<Rightarrow> map with_alpha x)
      in if has_colors \<and> length cs' \<noteq> n then Inl (ValueError ''column_stack'')
         else if length ns' \<noteq> n \<and> length ns' \<noteq> 1 then Inl (ValueError ''broadcast'')
         else
           (let nsb = (if length ns' = n then ns' else replicate n (hd ns'))
            in Inr (vs', ns', cs',
                    \<lparr>pa_dtype = control_dtype,
                     pa_rows = map (\<lambda>(v, n, c). control_row ne v n c) (zip vs' (zip nsb cs'))\<rparr>,
                    has_normals, has_colors)))"

definition colors_original :: "v4 list \<Rightarrow> v4 list" where
  "colors_original cs = map (\<lambda>(r, g, b, a). (r, g, b, 1)) cs"

definition PCVControl_init :: "world \<Rightarrow> world" where
  "PCVControl_init w = PCVManager_init w"

text \<open>
  The item \<open>_update\<close> leaves (the arrays and everything computed from them; the stored
  normals' batch goes), and the dict \<open>draw\<close> builds.
\<close>

definition control_updated_item ::
    "pcv \<Rightarrow> v3 list \<Rightarrow> v3 list \<Rightarrow> v4 list \<Rightarrow> parray \<Rightarrow> cache_item \<Rightarrow> cache_item" where
  "control_updated_item p vs ns cs points d =
     (let n = length vs;
          l = display_count n (p_display_percent p);
          b = make_batch (p_illumination p) l vs ns cs
      in d\<lparr>ci_points := Some points, ci_vertex_normals := None,
           ci_colors_original := Some (colors_original cs),
           ci_stats := Some n, ci_vertices := Some vs, ci_colors := Some cs,
           ci_normals := Some ns, ci_length := Some n,
           ci_display_length := Some l, ci_current_display_length := Some l,
           ci_illumination := p_illumination p,
           ci_shader := Some (b_shader b), ci_batch := Some b\<rparr>)"

definition control_new_item ::
    "string \<Rightarrow> string \<Rightarrow> pcv \<Rightarrow> v3 list \<Rightarrow> v3 list \<Rightarrow> v4 list \<Rightarrow> parray \<Rightarrow> cache_item" where
  "control_new_item u n0 p vs ns cs points =
     (let n = length vs;
          l = display_count n (p_display_percent p);
          b = make_batch (p_illumination p) l vs ns cs
      in \<lparr>ci_uuid = Some u, ci_filepath = Some u, ci_points = Some points,
          ci_vertices = Some vs, ci_normals = Some ns, ci_colors = Some cs,
          ci_colors_original = Some (colors_original cs),
          ci_display_length = Some l, ci_current_display_length = Some l,
          ci_illumination = p_illumination p, ci_shader = Some (b_shader b),
          ci_batch = Some b, ci_ready = True, ci_draw = False, ci_kill = False,
          ci_stats = Some n, ci_length = Some n, ci_name = Some n0,
          ci_object = Some n0, ci_selection_indexes = None,
          ci_vertex_normals = None, ci_extra = None\<rparr>)"

definition PCVControl_update ::
    "num_env \<Rightarrow> string \<Rightarrow> v3 list option \<Rightarrow> v3 list option \<Rightarrow> v3 list option \<Rightarrow> world
       \<Rightarrow> (py_error + unit) \<times> world" where
  "PCVControl_update ne n0 vs ns cs w =
     (case get_pcv w n0 of
        None \<Rightarrow> (Inl AttributeError, w)
      | Some p \<Rightarrow>
          (case PCVControl_prepare ne (prefs w) vs ns cs of
             Inl e \<Rightarrow> (Inl e, w)
           | Inr (vs', ns', cs', points, has_normals, has_colors) \<Rightarrow>
               (case dict_get (cache w) (p_uuid p) of
                  None \<Rightarrow> (Inl (KeyError (p_uuid p)), w)
                | Some d \<Rightarrow>
                    (Inr (), tag_redraw
                       (upd_pcv n0 (\<lambda>q. q\<lparr>p_has_normals := has_normals, p_has_vcols := has_colors\<rparr>)
                          (upd_item (p_uuid p)
                             (\<lambda>_. (control_updated_item p vs' ns' cs' points d)\<lparr>ci_draw := True\<rparr>) w))))))"

definition PCVControl_draw ::
    "num_env \<Rightarrow> string \<Rightarrow> string \<Rightarrow> v3 list option \<Rightarrow> v3 list option \<Rightarrow> v3 list option \<Rightarrow> world
       \<Rightarrow> (py_error + unit) \<times> world" where
  "PCVControl_draw ne u n0 vs ns cs w =
     (case get_pcv w n0 of
        None \<Rightarrow> (Inl AttributeError, w)
      | Some p \<Rightarrow>
          if p_uuid p \<noteq> '''' \<and> p_runtime p \<and> dict_get (cache w) (p_uuid p) \<noteq> None
          then PCVControl_update ne n0 vs ns cs w
          else
            (case PCVControl_prepare ne (prefs w) vs ns cs of
               Inl e \<Rightarrow> (Inl e, w)
             | Inr (vs', ns', cs', points, has_normals, has_colors) \<Rightarrow>
                 (let d = control_new_item u n0 p vs' ns' cs' points;
                      w1 = upd_pcv n0 (\<lambda>q. q\<lparr>p_uuid := u, p_filepath := u,
                             p_has_normals := has_normals, p_has_vcols := has_colors, p_runtime := True\<rparr>) w
                  in case PCVManager_add d w1 of
                       (Inl e, w2) \<Rightarrow> (Inl e, w2)
                     | (Inr _, w2) \<Rightarrow>
                         (Inr (), tag_redraw (upd_item u (\<lambda>c. c\<lparr>ci_draw := True\<rparr>) w2)))))"

definition PCVControl_erase :: "string \<Rightarrow> world \<Rightarrow> (py_error + unit) \<times> world" where
  "PCVControl_erase n0 w =
     (case get_pcv w n0 of
        None \<Rightarrow> (Inl AttributeError, w)
      | Some p \<Rightarrow>
          if p_uuid p = '''' then (Inr (), w)
          else if \<not> p_runtime p then (Inr (), w)
          else if dict_get (cache w) (p_uuid p) = None then (Inr (), w)
          else (Inr (), tag_redraw (upd_item (p_uuid p) (\<lambda>c. c\<lparr>ci_draw := False\<rparr>) w)))"

definition PCVControl_reset :: "string \<Rightarrow> world \<Rightarrow> (py_error + unit) \<times> world" where
  "PCVControl_reset n0 w =
     (case get_pcv w n0 of
        None \<Rightarrow> (Inl AttributeError, w)
      | Some p \<Rightarrow>
          if p_uuid p = '''' then (Inr (), w)
          else if \<not> p_runtime p then (Inr (), w)
          else if dict_get (cache w) (p_uuid p) = None then (Inr (), w)
          else
            (let w1 = PCVManager_gc (upd_item (p_uuid p) (\<lambda>c. c\<lparr>ci_kill := True\<rparr>) w)
             in (Inr (), tag_redraw (upd_pcv n0 (\<lambda>q. q\<lparr>p_uuid := '''', p_filepath := '''',
                   p_has_normals := False, p_has_vcols := False, p_runtime := False\<rparr>) w1))))"

section \<open>Facts\<close>

lemma prepare_lengths:
  assumes "PCVControl_prepare ne pr vs ns cs = Inr (vs', ns', cs', points, hn, hc)"
  shows "length cs' = length vs'" "length ns' = length vs' \<or> length ns' = 1"
    "length (pa_rows points) = length vs'" "pa_dtype points = control_dtype"
  using assms by (auto simp: PCVControl_prepare_def Let_def split: if_splits option.splits)

lemma prepare_some:
  assumes "vs \<noteq> []" "length ns = length vs" "length cs = length vs"
  shows "\<exists>points. PCVControl_prepare ne pr (Some vs) (Some ns) (Some cs)
     = Inr (vs, ns, map with_alpha cs, points, True, True)"
proof -
  have "ns \<noteq> []" "cs \<noteq> []" using assms by auto
  with assms show ?thesis
    by (auto simp: PCVControl_prepare_def non_empty_def Let_def split: list.splits)
qed

lemma get_pcv_objects_ok:
  assumes "objects_ok w" "get_pcv w n = Some p"
  shows "0 \<le> p_display_percent p" "p_display_percent p \<le> 100"
  using assms objects_ok_get by (auto simp: get_pcv_def)

text \<open>The items are consistent, and what the two branches of \<open>draw\<close> do to the state.\<close>

lemma control_items_ok:
  assumes "length ns = length vs" "length cs = length vs"
    and "0 \<le> p_display_percent p" "p_display_percent p \<le> 100"
  shows "item_ok (control_new_item u n0 p vs ns cs points)"
    and "item_ok d \<Longrightarrow> item_ok (control_updated_item p vs ns cs points d)"
  using assms display_count_bounds [OF assms(3,4), of "length vs"]
  by (auto simp: item_ok_def control_new_item_def control_updated_item_def Let_def)

lemma control_items_frame [simp]:
  "ci_uuid (control_new_item u n0 p vs ns cs points) = Some u"
  "ci_ready (control_new_item u n0 p vs ns cs points)"
  "\<not> ci_kill (control_new_item u n0 p vs ns cs points)"
  "ci_vertices (control_new_item u n0 p vs ns cs points) = Some vs"
  "ci_normals (control_new_item u n0 p vs ns cs points) = Some ns"
  "ci_colors (control_new_item u n0 p vs ns cs points) = Some cs"
  "ci_uuid (control_updated_item p vs ns cs points d) = ci_uuid d"
  "ci_ready (control_updated_item p vs ns cs points d) = ci_ready d"
  "ci_kill (control_updated_item p vs ns cs points d) = ci_kill d"
  "ci_vertices (control_updated_item p vs ns cs points d) = Some vs"
  "ci_normals (control_updated_item p vs ns cs points d) = Some ns"
  "ci_colors (control_updated_item p vs ns cs points d) = Some cs"
  by (simp_all add: control_new_item_def control_updated_item_def Let_def)

lemma dict_update_update [simp]: "AList.update k x (AList.update k y d) = AList.update k x d"
  by (induction d) auto

lemma PCVControl_draw_new:
  assumes p: "get_pcv w n0 = Some p"
    and fresh: "\<not> (p_uuid p \<noteq> '''' \<and> p_runtime p \<and> dict_get (cache w) (p_uuid p) \<noteq> None)"
    and prep: "PCVControl_prepare ne (prefs w) vs ns cs = Inr (vs', ns', cs', points, hn, hc)"
  shows "\<exists>w'. PCVControl_draw ne u n0 vs ns cs w = (Inr (), w') \<and>
     cache w' = AList.update u ((control_new_item u n0 p vs' ns' cs' points)\<lparr>ci_draw := True\<rparr>) (cache w) \<and>
     get_pcv w' n0 = Some (p\<lparr>p_uuid := u, p_filepath := u, p_has_normals := hn,
                             p_has_vcols := hc, p_runtime := True\<rparr>)"
  using assms
  by (auto simp: PCVControl_draw_def Let_def PCVManager_add_def upd_item_def get_pcv_upd_pcv
      simp del: not_None_eq)

lemma PCVControl_draw_again:
  assumes "get_pcv w n0 = Some p" "p_uuid p \<noteq> ''''" "p_runtime p"
    and "dict_get (cache w) (p_uuid p) = Some d"
    and "PCVControl_prepare ne (prefs w) vs ns cs = Inr (vs', ns', cs', points, hn, hc)"
  shows "\<exists>w'. PCVControl_draw ne u n0 vs ns cs w = (Inr (), w') \<and>
     cache w' = AList.update (p_uuid p)
       ((control_updated_item p vs' ns' cs' points d)\<lparr>ci_draw := True\<rparr>) (cache w) \<and>
     get_pcv w' n0 = Some (p\<lparr>p_has_normals := hn, p_has_vcols := hc\<rparr>)"
  using assms
  by (auto simp: PCVControl_draw_def PCVControl_update_def upd_item_def get_pcv_upd_pcv)

text \<open>Both branches together: which item is written, and what it holds.\<close>

lemma PCVControl_draw_some:
  assumes "get_pcv w n0 = Some p"
    and "PCVControl_prepare ne (prefs w) vs ns cs = Inr (vs', ns', cs', points, hn, hc)"
  shows "\<exists>w' k c. PCVControl_draw ne u n0 vs ns cs w = (Inr (), w') \<and>
     k = (if p_uuid p \<noteq> '''' \<and> p_runtime p \<and> dict_get (cache w) (p_uuid p) \<noteq> None then p_uuid p else u) \<and>
     dict_get (cache w') k = Some c \<and> ci_draw c \<and> ci_vertices c = Some vs' \<and> ci_normals c = Some ns' \<and>
     ci_colors c = Some cs' \<and> map_option p_uuid (get_pcv w' n0) = Some k \<and>
     (\<forall>j. j \<noteq> k \<longrightarrow> dict_get (cache w') j = dict_get (cache w) j)"
proof (cases "p_uuid p \<noteq> '''' \<and> p_runtime p \<and> dict_get (cache w) (p_uuid p) \<noteq> None")
  case True
  then obtain d where d: "dict_get (cache w) (p_uuid p) = Some d" by blast
  show ?thesis
    using PCVControl_draw_again [OF assms(1) _ _ d assms(2)] True by fastforce
next
  case False
  then show ?thesis
    using PCVControl_draw_new [OF assms(1) False assms(2), of u] by fastforce
qed

lemma PCVControl_reset_some:
  assumes "get_pcv w n0 = Some p" "p_uuid p \<noteq> ''''" "p_runtime p"
    and "dict_get (cache w) (p_uuid p) = Some d" "cache_wf w"
  shows "\<exists>w'. PCVControl_reset n0 w = (Inr (), w') \<and> cache_wf w' \<and>
     cache w' = filter (\<lambda>(k, v). k \<noteq> p_uuid p \<and> \<not> ci_kill v) (cache w) \<and>
     get_pcv w' n0 = Some (p\<lparr>p_uuid := '''', p_filepath := '''', p_has_normals := False,
                             p_has_vcols := False, p_runtime := False\<rparr>)"
proof -
  let ?w1 = "upd_item (p_uuid p) (\<lambda>c. c\<lparr>ci_kill := True\<rparr>) w"
  have wf: "cache_wf ?w1"
    using assms(5) cache_wf_get [OF assms(5)] by (auto intro!: cache_wf_upd_item)
  have gen: "filter (\<lambda>(k, v). \<not> ci_kill v) (AList.update u (c\<lparr>ci_kill := True\<rparr>) xs) =
      filter (\<lambda>(k, v). k \<noteq> u \<and> \<not> ci_kill v) xs" if "distinct (map fst xs)"
    for u c and xs :: "(string, cache_item) dict"
    using that by (induction xs) (auto intro!: filter_cong simp: image_iff)
  have "cache (PCVManager_gc ?w1) = filter (\<lambda>(k, v). k \<noteq> p_uuid p \<and> \<not> ci_kill v) (cache w)"
    using wf assms(4,5) gen by (subst gc_cache) (auto simp: cache_wf_def upd_item_def)
  then show ?thesis
    using assms(1-4) gc_cache_wf [OF wf]
    by (auto simp: PCVControl_reset_def Let_def get_pcv_upd_pcv)
qed

end
