(* ===== verification/PCV_Path.thy ===== *)
theory PCV_Path
  imports PCV_Prelude
begin

text \<open>
  The string operations of Python's standard library that the sources use: lines of a file,
  \<open>rstrip\<close>, \<open>split\<close>, \<open>startswith\<close>, \<open>int\<close> and decimal printing, and \<open>os.path\<close> (POSIX). A
  string is a list of characters; the bytes of a file are characters, too.
\<close>

abbreviation newline :: char where "newline \<equiv> CHR 0x0A"
abbreviation space :: char where "space \<equiv> CHR '' ''"
abbreviation slash :: char where "slash \<equiv> CHR ''/''"
abbreviation dot :: char where "dot \<equiv> CHR ''.''"

section \<open>Lines\<close>

fun read_line :: "string \<Rightarrow> string \<times> string" where
  "read_line [] = ([], [])"
| "read_line (c # cs) =
     (if c = newline then ([c], cs) else (let (l, r) = read_line cs in (c # l, r)))"

lemma read_line_length: "length (snd (read_line s)) \<le> length s"
  by (induction s) (auto simp: case_prod_unfold Let_def)

lemma read_line_append: "fst (read_line s) @ snd (read_line s) = s"
  by (induction s) (auto simp: case_prod_unfold Let_def)

lemma read_line_terminated:
  "newline \<notin> set l \<Longrightarrow> read_line (l @ newline # r) = (l @ [newline], r)"
  by (induction l) auto

text \<open>Iterating over a file opened in binary mode: the lines, each with its newline.\<close>

function lines_keep :: "string \<Rightarrow> string list" where
  "lines_keep [] = []"
| "lines_keep (c # cs) = fst (read_line (c # cs)) # lines_keep (snd (read_line (c # cs)))"
  by pat_completeness auto
termination
proof (relation "measure length")
  fix c and cs :: string
  show "(snd (read_line (c # cs)), c # cs) \<in> measure length"
    using read_line_length [of cs] by (auto simp: case_prod_unfold Let_def)
qed simp

lemma lines_keep_terminated:
  "newline \<notin> set l \<Longrightarrow> lines_keep (l @ newline # r) = (l @ [newline]) # lines_keep r"
  by (cases l) (auto simp: read_line_terminated)

lemma concat_lines_keep: "concat (lines_keep s) = s"
proof (induction s rule: lines_keep.induct)
  case (2 c cs)
  then show ?case using read_line_append [of "c # cs"] by simp
qed simp

section \<open>Stripping, splitting, prefixes\<close>

definition py_isspace :: "char \<Rightarrow> bool" where
  "py_isspace c \<longleftrightarrow> (let n = of_char c :: nat in 9 \<le> n \<and> n \<le> 13 \<or> 28 \<le> n \<and> n \<le> 32)"

definition is_ascii :: "string \<Rightarrow> bool" where
  "is_ascii s \<longleftrightarrow> (\<forall>c\<in>set s. (of_char c :: nat) < 128)"

definition rstrip :: "string \<Rightarrow> string" where
  "rstrip s = rev (dropWhile py_isspace (rev s))"

definition lstrip :: "string \<Rightarrow> string" where
  "lstrip s = dropWhile py_isspace s"

definition startswith :: "string \<Rightarrow> string \<Rightarrow> bool" where
  "startswith s p \<longleftrightarrow> take (length p) s = p"

fun split_on :: "char \<Rightarrow> string \<Rightarrow> string list" where
  "split_on d [] = [[]]"
| "split_on d (c # cs) =
     (if c = d then [] # split_on d cs
      else (case split_on d cs of [] \<Rightarrow> [[c]] | w # ws \<Rightarrow> (c # w) # ws))"

lemma split_on_nonempty [simp]: "split_on d s \<noteq> []"
  by (induction s) (auto split: list.splits)

lemma split_on_none: "d \<notin> set s \<Longrightarrow> split_on d s = [s]"
  by (induction s) auto

lemma split_on_append: "d \<notin> set a \<Longrightarrow> split_on d (a @ d # b) = a # split_on d b"
  by (induction a) auto

lemma rstrip_id: "s = [] \<or> \<not> py_isspace (last s) \<Longrightarrow> rstrip s = s"
  by (cases s rule: rev_cases) (auto simp: rstrip_def)

lemma rstrip_newline:
  assumes "s = [] \<or> \<not> py_isspace (last s)"
  shows "rstrip (s @ [newline]) = s"
proof -
  have nl: "py_isspace newline" by (simp add: py_isspace_def)
  show ?thesis
    using assms nl by (cases s rule: rev_cases) (auto simp: rstrip_def)
qed

lemma startswith_append: "startswith (p @ s) p"
  by (simp add: startswith_def)

section \<open>Decimal numbers\<close>

definition digit_char :: "nat \<Rightarrow> char" where
  "digit_char d = char_of (48 + d)"

definition is_digit :: "char \<Rightarrow> bool" where
  "is_digit c \<longleftrightarrow> (let n = of_char c :: nat in 48 \<le> n \<and> n \<le> 57)"

definition digit_val :: "char \<Rightarrow> nat" where
  "digit_val c = (of_char c :: nat) - 48"

fun show_nat :: "nat \<Rightarrow> string" where
  "show_nat n = (if n < 10 then [digit_char n] else show_nat (n div 10) @ [digit_char (n mod 10)])"

declare show_nat.simps [simp del]

definition digits_val :: "nat \<Rightarrow> string \<Rightarrow> nat" where
  "digits_val a s = foldl (\<lambda>n c. 10 * n + digit_val c) a s"

text \<open>
  \<open>int(s)\<close>: surrounding white space, a sign, digits with single underscores between them.
\<close>

fun drop_underscores :: "bool \<Rightarrow> string \<Rightarrow> string option" where
  "drop_underscores after_digit [] = (if after_digit then Some [] else None)"
| "drop_underscores after_digit (c # cs) =
     (if is_digit c then map_option (Cons c) (drop_underscores True cs)
      else if c = CHR ''_'' \<and> after_digit then drop_underscores False cs
      else None)"

definition py_parse_int :: "string \<Rightarrow> py_error + int" where
  "py_parse_int s0 =
     (let s = rstrip (lstrip s0);
          (sign, ds) = (case s of
              [] \<Rightarrow> (1, [])
            | c # cs \<Rightarrow> if c = CHR ''-'' then (- 1, cs) else if c = CHR ''+'' then (1, cs) else (1, s))
      in case drop_underscores False ds of
           None \<Rightarrow> Inl (ValueError ''int'')
         | Some digits \<Rightarrow> Inr (sign * int (digits_val 0 digits)))"

lemma digit_char_props:
  assumes "d < 10"
  shows "is_digit (digit_char d)" "digit_val (digit_char d) = d"
  using assms by (simp_all add: digit_char_def is_digit_def digit_val_def of_char_of Let_def)

lemma is_digit_not_space: "is_digit c \<Longrightarrow> \<not> py_isspace c"
  by (auto simp: is_digit_def py_isspace_def Let_def)

lemma is_digit_ascii: "is_digit c \<Longrightarrow> (of_char c :: nat) < 128"
  by (auto simp: is_digit_def Let_def)

lemma show_nat_digits: "show_nat n \<noteq> [] \<and> (\<forall>c\<in>set (show_nat n). is_digit c)"
proof (induction n rule: show_nat.induct)
  case (1 n)
  then show ?case
    by (cases "n < 10") (auto simp: show_nat.simps [of n] digit_char_props)
qed

lemma digits_val_append: "digits_val a (s @ t) = digits_val (digits_val a s) t"
  by (simp add: digits_val_def)

lemma digits_val_show: "digits_val 0 (show_nat n) = n"
proof (induction n rule: show_nat.induct)
  case (1 n)
  show ?case
  proof (cases "n < 10")
    case True
    then show ?thesis by (simp add: show_nat.simps [of n] digits_val_def digit_char_props)
  next
    case False
    then have "digits_val 0 (show_nat (n div 10)) = n div 10" by (rule "1.IH")
    with False show ?thesis
      by (simp add: show_nat.simps [of n] digits_val_append)
        (simp add: digits_val_def digit_char_props)
  qed
qed

lemma drop_underscores_digits:
  "\<forall>c\<in>set s. is_digit c \<Longrightarrow> drop_underscores b s = (if s = [] \<and> \<not> b then None else Some s)"
  by (induction s arbitrary: b) auto

lemma py_parse_int_show [simp]: "py_parse_int (show_nat n) = Inr (int n)"
proof -
  have ds: "show_nat n \<noteq> []" "\<forall>c\<in>set (show_nat n). is_digit c"
    using show_nat_digits by auto
  obtain c cs where c: "show_nat n = c # cs" using ds(1) by (cases "show_nat n") auto
  have "\<not> py_isspace c" "\<not> py_isspace (last (show_nat n))"
    using ds c is_digit_not_space last_in_set [OF ds(1)] by auto
  then have strip: "rstrip (lstrip (show_nat n)) = show_nat n"
    using c by (simp add: lstrip_def rstrip_id)
  have "c \<noteq> CHR ''-''" "c \<noteq> CHR ''+''"
    using ds(2) c by (auto simp: is_digit_def Let_def)
  moreover have "drop_underscores False (c # cs) = Some (c # cs)"
    using ds(2) drop_underscores_digits [of "c # cs" False] by (simp add: c)
  moreover have "digits_val 0 (c # cs) = n"
    using digits_val_show [of n] by (simp add: c)
  ultimately show ?thesis
    unfolding py_parse_int_def strip Let_def
    by (simp add: c del: drop_underscores.simps)
qed

section \<open>Paths\<close>

text \<open>
  \<open>os.path.split\<close>: everything up to the last slash, without trailing slashes unless it is
  nothing but slashes, and the rest.
\<close>

definition path_split :: "string \<Rightarrow> string \<times> string" where
  "path_split p =
     (let tail = rev (takeWhile (\<lambda>c. c \<noteq> slash) (rev p));
          head = take (length p - length tail) p;
          head' = rev (dropWhile (\<lambda>c. c = slash) (rev head))
      in (if head' = [] then head else head', tail))"

text \<open>
  \<open>os.path.splitext\<close> of a name: the extension starts at the last dot, unless only dots come
  before it.
\<close>

definition path_splitext :: "string \<Rightarrow> string \<times> string" where
  "path_splitext t =
     (let ext = rev (takeWhile (\<lambda>c. c \<noteq> dot \<and> c \<noteq> slash) (rev t));
          root = take (length t - length ext) t
      in if root = [] \<or> last root = slash then (t, [])
         else (let name = rev (takeWhile (\<lambda>c. c \<noteq> slash) (rev (butlast root)))
               in if \<forall>c\<in>set name. c = dot then (t, []) else (butlast root, dot # ext)))"

definition path_join :: "string \<Rightarrow> string \<Rightarrow> string" where
  "path_join h t =
     (if t \<noteq> [] \<and> hd t = slash then t
      else if h = [] \<or> last h = slash then h @ t else h @ [slash] @ t)"

lemma path_split_tail: "slash \<notin> set (snd (path_split p))"
  by (auto simp: path_split_def Let_def dest: set_takeWhileD)

lemma path_splitext_append: "fst (path_splitext t) @ snd (path_splitext t) = t"
proof -
  define ext where "ext = rev (takeWhile (\<lambda>c. c \<noteq> dot \<and> c \<noteq> slash) (rev t))"
  define root where "root = rev (dropWhile (\<lambda>c. c \<noteq> dot \<and> c \<noteq> slash) (rev t))"
  have t: "t = root @ ext"
    unfolding root_def ext_def by (metis rev_append rev_rev_ident takeWhile_dropWhile_id)
  have take: "take (length t - length ext) t = root"
    by (simp add: t)
  have "butlast root @ dot # ext = t" if "root \<noteq> []" "last root \<noteq> slash"
  proof -
    have "last root = hd (dropWhile (\<lambda>c. c \<noteq> dot \<and> c \<noteq> slash) (rev t))"
      by (simp add: root_def last_rev)
    then have "last root = dot"
      using hd_dropWhile [of "\<lambda>c. c \<noteq> dot \<and> c \<noteq> slash" "rev t"] that by (auto simp: root_def)
    then show ?thesis using that(1) by (metis append_Cons append_Nil append_assoc append_butlast_last_id t)
  qed
  then show ?thesis
    unfolding path_splitext_def Let_def ext_def [symmetric] take by auto
qed

end
