(* ===== verification/PCV_Ply.thy ===== *)
theory PCV_Ply
  imports PCV_State PCV_Path
begin

text \<open>
  Reading and writing PLY files: the header parsers of \<open>PlyPointCloudReader\<close> and
  \<open>BinPlyPointCloudReader\<close>, the binary data, the clean-up of the columns, and
  \<open>BinPlyPointCloudWriter\<close> with the file system it goes through. A file is the string of its
  bytes; a file system maps paths to files.
\<close>

type_synonym file_system = "string \<Rightarrow> string option"

section \<open>Tables\<close>

definition PlyPointCloudReader_types :: "(string \<times> char) list" where
  "PlyPointCloudReader_types =
     [(''char'', CHR ''b''), (''uchar'', CHR ''B''), (''int8'', CHR ''b''), (''uint8'', CHR ''B''),
      (''int16'', CHR ''h''), (''uint16'', CHR ''H''), (''short'', CHR ''h''), (''ushort'', CHR ''H''),
      (''int'', CHR ''i''), (''int32'', CHR ''i''), (''uint'', CHR ''I''), (''uint32'', CHR ''I''),
      (''float'', CHR ''f''), (''float32'', CHR ''f''), (''float64'', CHR ''d''), (''double'', CHR ''d''),
      (''string'', CHR ''s'')]"

definition BinPlyPointCloudReader_types :: "(string \<times> char) list" where
  "BinPlyPointCloudReader_types =
     [(''char'', CHR ''c''), (''uchar'', CHR ''B''), (''short'', CHR ''h''), (''ushort'', CHR ''H''),
      (''int'', CHR ''i''), (''uint'', CHR ''I''), (''float'', CHR ''f''), (''double'', CHR ''d'')]"

definition BinPlyPointCloudWriter_types :: "(char \<times> string) list" where
  "BinPlyPointCloudWriter_types =
     [(CHR ''c'', ''char''), (CHR ''B'', ''uchar''), (CHR ''h'', ''short''), (CHR ''H'', ''ushort''),
      (CHR ''i'', ''int''), (CHR ''I'', ''uint''), (CHR ''f'', ''float''), (CHR ''d'', ''double'')]"

definition ply_byte_order :: "(string \<times> char option) list" where
  "ply_byte_order =
     [(''binary_little_endian'', Some (CHR ''<'')), (''binary_big_endian'', Some (CHR ''>'')),
      (''ascii'', None)]"

definition supported_formats :: "string list" where
  "supported_formats = [''binary_little_endian'', ''binary_big_endian'', ''ascii'']"

definition supported_versions :: "string list" where
  "supported_versions = [''1.0'']"

definition lookupE :: "('k \<times> 'v) list \<Rightarrow> 'k \<Rightarrow> py_error \<Rightarrow> py_error + 'v" where
  "lookupE m k e = (case map_of m k of None \<Rightarrow> Inl e | Some v \<Rightarrow> Inr v)"

section \<open>The header\<close>

text \<open>Lines up to and including \<open>end_header\<close>: as bytes, and stripped.\<close>

fun header_lines :: "string list \<Rightarrow> py_error + string list \<times> string list" where
  "header_lines [] = Inr ([], [])"
| "header_lines (l # ls) =
     (if \<not> is_ascii l then Inl UnicodeDecodeError
      else (let a = rstrip l
            in if a = ''end_header'' then Inr ([l], [a])
               else bindE (header_lines ls) (\<lambda>(raw, h). Inr (l # raw, a # h))))"

definition unpack3 :: "string list \<Rightarrow> py_error + string \<times> string \<times> string" where
  "unpack3 ws = (case ws of [a, b, c] \<Rightarrow> Inr (a, b, c) | _ \<Rightarrow> Inl (ValueError ''unpack''))"

definition unpack5 :: "string list \<Rightarrow> py_error + string \<times> string \<times> string \<times> string \<times> string" where
  "unpack5 ws = (case ws of [a, b, c, d, e] \<Rightarrow> Inr (a, b, c, d, e) | _ \<Rightarrow> Inl (ValueError ''unpack''))"

fun header_format :: "string list \<Rightarrow> (string \<times> string) option \<Rightarrow> py_error + (string \<times> string) option" where
  "header_format [] acc = Inr acc"
| "header_format (l # ls) acc =
     (if startswith l ''format''
      then bindE (unpack3 (split_on space l)) (\<lambda>(_, f, v).
             if f \<notin> set supported_formats then Inl (TypeError ''unsupported ply format'')
             else if v \<notin> set supported_versions then Inl (TypeError ''unsupported ply file version'')
             else header_format ls (Some (f, v)))
      else header_format ls acc)"

datatype ply_prop = Prop string char | Prop_list string char char

record ply_element =
  el_type :: string
  el_count :: int
  el_props :: "ply_prop list"

text \<open>\<open>current_element\<close> is the element appended last; before the first one it is \<open>None\<close>.\<close>

definition add_prop :: "ply_element list \<Rightarrow> (py_error + ply_prop) \<Rightarrow> py_error + ply_element list" where
  "add_prop es p =
     (if es = [] then Inl (TypeError ''NoneType'')
      else bindE p (\<lambda>q. Inr (butlast es @ [(last es)\<lparr>el_props := el_props (last es) @ [q]\<rparr>])))"

fun header_elements ::
    "(string \<times> string) option \<Rightarrow> string list \<Rightarrow> ply_element list \<Rightarrow> py_error + ply_element list" where
  "header_elements fmt [] es = Inr es"
| "header_elements fmt (l # ls) es =
     (if startswith l ''ply'' \<or> startswith l ''format'' \<or> startswith l ''comment''
      then header_elements fmt ls es
      else if startswith l ''element''
      then bindE (unpack3 (split_on space l)) (\<lambda>(_, t, c).
             bindE (py_parse_int c) (\<lambda>n.
               header_elements fmt ls (es @ [\<lparr>el_type = t, el_count = n, el_props = []\<rparr>])))
      else if startswith l ''property''
      then (if startswith l ''property list''
            then bindE (unpack5 (split_on space l)) (\<lambda>(_, _, c, t, n).
                   if fmt = None then Inl AttributeError
                   else bindE (add_prop es
                          (bindE (lookupE PlyPointCloudReader_types c (KeyError c)) (\<lambda>c'.
                             bindE (lookupE PlyPointCloudReader_types t (KeyError t)) (\<lambda>t'.
                               Inr (Prop_list n c' t')))))
                        (header_elements fmt ls))
            else bindE (unpack3 (split_on space l)) (\<lambda>(_, t, n).
                   if fmt = None then Inl AttributeError
                   else bindE (add_prop es
                          (bindE (lookupE PlyPointCloudReader_types t (KeyError t)) (\<lambda>t'. Inr (Prop n t'))))
                        (header_elements fmt ls)))
      else header_elements fmt ls es)"

record ply_header =
  ph_format :: string
  ph_version :: string
  ph_elements :: "ply_element list"
  ph_header_length :: nat
  ph_file_length :: nat

text \<open>
  For an ascii file the lengths count lines: those up to the first line that strips to
  \<open>end_header\<close>, and all of them. For a binary file the header's bytes are counted.
\<close>

fun header_line_count :: "string list \<Rightarrow> nat" where
  "header_line_count [] = 0"
| "header_line_count (l # ls) = (if rstrip l = ''end_header'' then 1 else Suc (header_line_count ls))"

definition PlyPointCloudReader_header :: "string \<Rightarrow> py_error + ply_header" where
  "PlyPointCloudReader_header file =
     bindE (header_lines (lines_keep file)) (\<lambda>(raw, h).
       case h of
         [] \<Rightarrow> Inl IndexError
       | h0 # _ \<Rightarrow>
           if h0 \<noteq> ''ply'' then Inl (TypeError ''not a ply file'')
           else bindE (header_format h None) (\<lambda>fmt.
             bindE (header_elements fmt h []) (\<lambda>es.
               case fmt of
                 None \<Rightarrow> Inl AttributeError
               | Some (f, v) \<Rightarrow>
                   Inr (if f = ''ascii''
                        then \<lparr>ph_format = f, ph_version = v, ph_elements = es,
                              ph_header_length = header_line_count (lines_keep file),
                              ph_file_length = length (lines_keep file)\<rparr>
                        else \<lparr>ph_format = f, ph_version = v, ph_elements = es,
                              ph_header_length = sum_list (map length raw), ph_file_length = 0\<rparr>))))"

section \<open>The data\<close>

text \<open>numpy's item sizes, the byte order it keeps for one-byte types, and \<open>np.dtype\<close>.\<close>

definition np_itemsize :: "char \<Rightarrow> nat option" where
  "np_itemsize c =
     map_of [(CHR ''c'', 1), (CHR ''b'', 1), (CHR ''B'', 1), (CHR ''h'', 2), (CHR ''H'', 2),
             (CHR ''i'', 4), (CHR ''I'', 4), (CHR ''f'', 4), (CHR ''d'', 8)] c"

definition np_norm :: "np_type \<Rightarrow> np_type" where
  "np_norm t = (case t of (ord, c) \<Rightarrow> if np_itemsize c = Some 1 then (CHR ''|'', c) else t)"

definition np_dtype :: "(string \<times> np_type) list \<Rightarrow> py_error + (string \<times> np_type) list" where
  "np_dtype fs =
     (if \<exists>(n, ord, c)\<in>set fs. np_itemsize c = None then Inl (TypeError ''data type not understood'')
      else if \<not> distinct (map fst fs) then Inl (ValueError ''field occurs more than once'')
      else Inr (map (\<lambda>(n, t). (n, np_norm t)) fs))"

definition np_sizes :: "(string \<times> np_type) list \<Rightarrow> nat list" where
  "np_sizes dt = map (\<lambda>(n, ord, c). case np_itemsize c of None \<Rightarrow> 0 | Some k \<Rightarrow> k) dt"

fun split_sizes :: "nat list \<Rightarrow> string \<Rightarrow> string list" where
  "split_sizes [] s = []"
| "split_sizes (k # ks) s = take k s # split_sizes ks (drop k s)"

fun chunks :: "nat \<Rightarrow> nat \<Rightarrow> string \<Rightarrow> string list" where
  "chunks 0 k s = []"
| "chunks (Suc n) k s = (if length s < k then [] else take k s # chunks n k (drop k s))"

text \<open>
  \<open>np.fromfile(f, dtype, count)\<close>: at most \<open>count\<close> whole records (all of them for a negative
  count), fewer when the file ends.
\<close>

definition np_fromfile :: "(string \<times> np_type) list \<Rightarrow> int \<Rightarrow> string \<Rightarrow> py_error + parray" where
  "np_fromfile dt cnt s =
     (let k = sum_list (np_sizes dt);
          n = (if cnt < 0 then length s div k else nat cnt)
      in if k = 0 then Inl (ValueError ''The elements are 0-sized.'')
         else Inr \<lparr>pa_dtype = dt, pa_rows = map (split_sizes (np_sizes dt)) (chunks n k s)\<rparr>)"

fun binary_props :: "char \<Rightarrow> ply_prop list \<Rightarrow> py_error + (string \<times> np_type) list" where
  "binary_props e [] = Inr []"
| "binary_props e (Prop n t # ps) = bindE (binary_props e ps) (\<lambda>r. Inr ((n, (e, t)) # r))"
| "binary_props e (Prop_list n c t # ps) = Inl (ValueError ''unpack'')"

text \<open>
  Every vertex element is read from the current offset, and the last one stays. The offset
  advances by the element's count.
\<close>

fun data_binary ::
    "char \<Rightarrow> string \<Rightarrow> ply_element list \<Rightarrow> int \<Rightarrow> parray option \<Rightarrow> py_error + parray option" where
  "data_binary e file [] off acc = Inr acc"
| "data_binary e file (el # es) off acc =
     (if el_type el \<noteq> ''vertex'' then data_binary e file es off acc
      else bindE (binary_props e (el_props el)) (\<lambda>fs.
        bindE (np_dtype fs) (\<lambda>dt.
          if off < 0 then Inl (OSError ''Invalid argument'')
          else bindE (np_fromfile dt (el_count el) (drop (nat off) file)) (\<lambda>a.
            data_binary e file es (off + el_count el) (Some a)))))"

text \<open>\<open>np.genfromtxt\<close> is a parameter: dtype, lines to skip at both ends, file.\<close>

type_synonym genfromtxt = "(string \<times> char) list \<Rightarrow> int \<Rightarrow> int \<Rightarrow> string \<Rightarrow> py_error + parray"

fun ascii_props :: "ply_prop list \<Rightarrow> py_error + (string \<times> char) list" where
  "ascii_props [] = Inr []"
| "ascii_props (Prop n t # ps) = bindE (ascii_props ps) (\<lambda>r. Inr ((n, t) # r))"
| "ascii_props (Prop_list n c t # ps) = Inl (TypeError ''shape'')"

fun data_ascii ::
    "genfromtxt \<Rightarrow> string \<Rightarrow> ply_element list \<Rightarrow> int \<Rightarrow> int \<Rightarrow> parray option \<Rightarrow> py_error + parray option" where
  "data_ascii gen file [] skip_header skip_footer acc = Inr acc"
| "data_ascii gen file (el # es) skip_header skip_footer acc =
     (if el_type el \<noteq> ''vertex'' then data_ascii gen file es skip_header skip_footer acc
      else bindE (ascii_props (el_props el)) (\<lambda>dt.
        bindE (gen dt skip_header (skip_footer - el_count el) file) (\<lambda>a.
          data_ascii gen file es (skip_header + el_count el) (skip_footer - el_count el) (Some a))))"

section \<open>The reader\<close>

text \<open>
  \<open>points[[...]]\<close>, the columns of the listed fields; an empty list selects no row instead.
\<close>

definition select_fields :: "(string \<Rightarrow> bool) \<Rightarrow> parray \<Rightarrow> parray" where
  "select_fields P a =
     (if \<exists>f\<in>set (pa_dtype a). P (fst f)
      then \<lparr>pa_dtype = filter (\<lambda>f. P (fst f)) (pa_dtype a),
            pa_rows = map (\<lambda>r. map snd (filter (\<lambda>(f, c). P (fst f)) (zip (pa_dtype a) r))) (pa_rows a)\<rparr>
      else a\<lparr>pa_rows := []\<rparr>)"

definition user_rgb :: "string list" where
  "user_rgb = [''diffuse_red'', ''diffuse_green'', ''diffuse_blue'']"

definition rename_diffuse :: "string list \<Rightarrow> string list" where
  "rename_diffuse ls = map (\<lambda>v. if v \<in> set user_rgb then drop 8 v else v) ls"

definition set_names :: "string list \<Rightarrow> parray \<Rightarrow> py_error + parray" where
  "set_names ns a =
     (if \<not> distinct ns then Inl (ValueError ''Duplicate field names given.'')
      else Inr (a\<lparr>pa_dtype := zip ns (map snd (pa_dtype a))\<rparr>))"

definition known_names :: "string list" where
  "known_names = [''x'', ''y'', ''z'', ''nx'', ''ny'', ''nz'', ''red'', ''green'', ''blue'']"

definition xyz :: "string list" where "xyz = [''x'', ''y'', ''z'']"
definition nxyz :: "string list" where "nxyz = [''nx'', ''ny'', ''nz'']"
definition rgb :: "string list" where "rgb = [''red'', ''green'', ''blue'']"

record ply_points =
  pp_points :: parray
  pp_has_vertices :: bool
  pp_has_normals :: bool
  pp_has_colors :: bool

definition PlyPointCloudReader_columns :: "parray \<Rightarrow> py_error + ply_points" where
  "PlyPointCloudReader_columns a0 =
     (let a1 = select_fields (\<lambda>b. b \<noteq> ''alpha'') a0;
          names = pa_names a1;
          ls = (if set user_rgb \<subseteq> set names then rename_diffuse names else names)
      in bindE (set_names ls a1) (\<lambda>a2.
           let a3 = select_fields (\<lambda>b. b \<in> set known_names) a2
           in Inr \<lparr>pp_points = a3, pp_has_vertices = has_fields xyz a3,
                   pp_has_normals = has_fields nxyz a3, pp_has_colors = has_fields rgb a3\<rparr>))"

definition PlyPointCloudReader :: "genfromtxt \<Rightarrow> file_system \<Rightarrow> string \<Rightarrow> py_error + ply_points" where
  "PlyPointCloudReader gen fs path =
     (case fs path of
        None \<Rightarrow> Inl (OSError ''did you point me to an imaginary file?'')
      | Some file \<Rightarrow>
          bindE (PlyPointCloudReader_header file) (\<lambda>h.
            bindE (if ph_format h = ''ascii''
                   then data_ascii gen file (ph_elements h) (int (ph_header_length h))
                          (int (ph_file_length h) - int (ph_header_length h)) None
                   else (case map_of ply_byte_order (ph_format h) of
                           Some (Some e) \<Rightarrow>
                             data_binary e file (ph_elements h) (int (ph_header_length h)) None
                         | _ \<Rightarrow> Inl AttributeError))
              (\<lambda>acc. case acc of None \<Rightarrow> Inl AttributeError
                     | Some a \<Rightarrow> PlyPointCloudReader_columns a)))"

section \<open>The writer\<close>

definition np_byteorder :: "num_env \<Rightarrow> np_type \<Rightarrow> char" where
  "np_byteorder ne t =
     (if fst t = (if ne_little ne then CHR ''<'' else CHR ''>'') then CHR ''='' else fst t)"

definition writer_format :: "num_env \<Rightarrow> np_type \<Rightarrow> string" where
  "writer_format ne t =
     (let bo = np_byteorder ne t
      in if bo \<noteq> CHR ''=''
         then (if bo = CHR ''>'' then ''binary_big_endian'' else ''binary_little_endian'')
         else (if ne_little ne then ''binary_little_endian'' else ''binary_big_endian''))"

definition property_line :: "string \<times> np_type \<Rightarrow> py_error + string" where
  "property_line f =
     (case f of (n, ord, c) \<Rightarrow>
        bindE (lookupE BinPlyPointCloudWriter_types c (KeyError [c])) (\<lambda>t.
          Inr (''property '' @ t @ [space] @ n)))"

definition comment_text :: string where
  "comment_text = ''created with Point Cloud Visualizer''"

definition writer_header :: "num_env \<Rightarrow> parray \<Rightarrow> py_error + string" where
  "writer_header ne a =
     (case map_of (pa_dtype a) ''x'' of
        None \<Rightarrow> Inl (KeyError ''x'')
      | Some t \<Rightarrow>
          bindE (mapE property_line (pa_dtype a)) (\<lambda>ps.
            let h = concat (map (\<lambda>l. l @ [newline])
                      ([''ply'', ''format '' @ writer_format ne t @ '' 1.0'',
                        ''element vertex '' @ show_nat (length (pa_rows a))] @ ps @
                       [''comment '' @ comment_text, ''end_header'']))
            in if is_ascii h then Inr h else Inl (ValueError ''ascii'')))"

text \<open>\<open>points.tobytes()\<close> is the buffer, record after record.\<close>

definition np_tobytes :: "parray \<Rightarrow> string" where
  "np_tobytes a = concat (map concat (pa_rows a))"

definition temp_path :: "string \<Rightarrow> string" where
  "temp_path path =
     path_join (fst (path_split path)) (fst (path_splitext (snd (path_split path))) @ ''.temp.ply'')"

text \<open>
  The file systems \<open>BinPlyPointCloudWriter\<close> goes through: the temporary file is opened and
  filled, an existing file is removed, the temporary file is moved into its place. A failing
  header leaves the empty temporary file behind.
\<close>

definition BinPlyPointCloudWriter ::
    "num_env \<Rightarrow> string \<Rightarrow> parray \<Rightarrow> file_system \<Rightarrow> (py_error + unit) \<times> file_system list" where
  "BinPlyPointCloudWriter ne path a fs =
     (let p = temp_path path;
          fs0 = fs(p := Some [])
      in case writer_header ne a of
           Inl e \<Rightarrow> (Inl e, [fs0])
         | Inr h \<Rightarrow>
             (let fs1 = fs(p := Some h);
                  fs2 = fs(p := Some (h @ np_tobytes a));
                  fs3 = (if fs2 path \<noteq> None then fs2(path := None) else fs2);
                  fs4 = fs3(path := fs3 p, p := None)
              in (Inr (), [fs0, fs1, fs2, fs3, fs4])))"

end
