(* ===== verification/PCV_Load.thy ===== *)
theory PCV_Load
  imports PCV_Control PCV_Ply
begin

text \<open>
  Loading a file into the cache (\<open>PCVManager.load_ply_to_cache\<close>) and the operators of the
  main panel: init, deinit, gc, draw, erase, load, reload and reset runtime, with their
  \<open>poll\<close> methods. An operator maps the state to a status and a state.
\<close>

section \<open>Context, operators called from operators\<close>

definition context_pcv :: "world \<Rightarrow> (string \<times> pcv) option" where
  "context_pcv w =
     (case context_object w of None \<Rightarrow> None | Some n \<Rightarrow> map_option (Pair n) (get_pcv w n))"

text \<open>The condition of most \<open>poll\<close> methods: the object's cloud is loaded and drawn.\<close>

definition shown :: "world \<Rightarrow> string \<Rightarrow> bool" where
  "shown w u \<longleftrightarrow> (\<exists>(k, v)\<in>set (cache w). ci_uuid v = Some u \<and> ci_ready v \<and> ci_draw v)"

text \<open>
  \<open>bpy.ops\<close>: a failing \<open>poll\<close>, an exception and a report of type ERROR all raise
  \<open>RuntimeError\<close> in the caller.
\<close>

definition bpy_op :: "(world \<Rightarrow> bool) \<Rightarrow> (world \<Rightarrow> status \<times> world) \<Rightarrow> world \<Rightarrow> status \<times> world" where
  "bpy_op poll op w =
     (if \<not> poll w then (Raised (Py_Exception ''RuntimeError''), w)
      else (case op w of (s, w') \<Rightarrow>
              if (\<exists>e. s = Raised e) \<or> (\<exists>(l, m)\<in>set (drop (length (reports w)) (reports w')). l = ''ERROR'')
              then (Raised (Py_Exception ''RuntimeError''), w')
              else (s, w')))"

fun status_of :: "(py_error + 'a) \<times> world \<Rightarrow> status \<times> world" where
  "status_of (Inl e, w) = (Raised e, w)"
| "status_of (Inr x, w) = (Finished, w)"

definition error_text :: "py_error \<Rightarrow> string" where
  "error_text e =
     (case e of KeyError s \<Rightarrow> s | ValueError s \<Rightarrow> s | TypeError s \<Rightarrow> s | OSError s \<Rightarrow> s
      | Py_Exception s \<Rightarrow> s | ZeroDivisionError \<Rightarrow> ''float division by zero'' | _ \<Rightarrow> '''')"

section \<open>From file to arrays\<close>

text \<open>
  What loading takes from outside: numpy's number formats and text reader, the file system,
  the permutation \<open>np.random.shuffle\<close> applies to \<open>n\<close> rows, and the new uuid.
\<close>

record load_env =
  le_num :: num_env
  le_gen :: genfromtxt
  le_fs :: file_system
  le_perm :: "nat \<Rightarrow> nat list"
  le_uuid :: string

definition np_shuffle :: "(nat \<Rightarrow> nat list) \<Rightarrow> 'a list \<Rightarrow> 'a list" where
  "np_shuffle perm xs = map (\<lambda>i. xs ! i) (perm (length xs))"

definition is_shuffle :: "(nat \<Rightarrow> nat list) \<Rightarrow> bool" where
  "is_shuffle perm \<longleftrightarrow> (\<forall>n. mset (perm n) = mset [0..<n])"

definition column3 :: "num_env \<Rightarrow> parray \<Rightarrow> string list \<Rightarrow> v3 list" where
  "column3 ne a fs = column_stack3 (pa_column ne a (fs ! 0)) (pa_column ne a (fs ! 1)) (pa_column ne a (fs ! 2))"

text \<open>\<open>points['red'].dtype == 'uint16'\<close> holds for the native byte order only.\<close>

definition red_is_uint16 :: "num_env \<Rightarrow> parray \<Rightarrow> bool" where
  "red_is_uint16 ne a =
     (case map_of (pa_dtype a) ''red'' of
        None \<Rightarrow> False
      | Some t \<Rightarrow> snd t = CHR ''H'' \<and> np_byteorder ne t = CHR ''='')"

definition ply_colors :: "num_env \<Rightarrow> preferences \<Rightarrow> parray \<Rightarrow> v4 list" where
  "ply_colors ne pr a =
     (let n = length (pa_rows a);
          channel = (\<lambda>f x. map f (pa_column ne a x));
          to8 = (\<lambda>v. real_of_int (py_int (v / 256)));
          f = (if pr_convert_16bit_colors pr \<and> red_is_uint16 ne a
               then (if pr_gamma_correct_16bit_colors pr then (\<lambda>v. (to8 v / 255) powr (1 / 2.2))
                     else (\<lambda>v. to8 v / 255))
               else (\<lambda>v. v / 255))
      in if has_fields rgb a
         then column_stack4 (channel f ''red'') (channel f ''green'') (channel f ''blue'') (replicate n 1)
         else replicate n (default_color pr))"

definition ply_normals :: "num_env \<Rightarrow> parray \<Rightarrow> v3 list" where
  "ply_normals ne a =
     (if has_fields nxyz a then column3 ne a nxyz else replicate (length (pa_rows a)) (0, 0, 1))"

definition set_point_flags :: "parray \<Rightarrow> pcv \<Rightarrow> pcv" where
  "set_point_flags a p =
     p\<lparr>p_has_normals := has_fields nxyz a,
       p_illumination := (if has_fields nxyz a then p_illumination p else False),
       p_has_vcols := has_fields rgb a\<rparr>"

definition loaded_item ::
    "string \<Rightarrow> string \<Rightarrow> pcv \<Rightarrow> parray \<Rightarrow> v3 list \<Rightarrow> v3 list \<Rightarrow> v4 list \<Rightarrow> cache_item" where
  "loaded_item u n0 p points vs ns cs =
     (let l = display_count (length vs) (p_display_percent p);
          b = make_batch (p_illumination p) l vs ns cs
      in PCVManager_new\<lparr>ci_filepath := Some (p_filepath p), ci_points := Some points,
           ci_uuid := Some u, ci_stats := Some (length vs), ci_vertices := Some vs,
           ci_colors := Some cs, ci_normals := Some ns, ci_length := Some (length vs),
           ci_display_length := Some l, ci_current_display_length := Some l,
           ci_illumination := p_illumination p, ci_shader := Some (b_shader b),
           ci_batch := Some b, ci_ready := True, ci_object := Some n0, ci_name := Some n0\<rparr>)"

definition no_vertices :: "string \<Rightarrow> string" where
  "no_vertices path = ''No vertices loaded from file at '' @ path"

definition no_locations :: string where
  "no_locations = ''Loaded data seems to miss vertex locations.''"

text \<open>
  \<open>has_op\<close> tells whether an operator was given to report through. A reader's error is
  reported and leaves an empty list, which is reported again.
\<close>

definition PCVManager_load_ply_to_cache ::
    "load_env \<Rightarrow> bool \<Rightarrow> world \<Rightarrow> (py_error + bool) \<times> world" where
  "PCVManager_load_ply_to_cache ev has_op w =
     (case context_pcv w of
        None \<Rightarrow> (Inl AttributeError, w)
      | Some (n0, p) \<Rightarrow>
          (case PlyPointCloudReader (le_gen ev) (le_fs ev) (p_filepath p) of
             Inl e \<Rightarrow>
               (if has_op
                then (Inr False, report ''ERROR'' (no_vertices (p_filepath p)) (report ''ERROR'' (error_text e) w))
                else (Inl e, w))
           | Inr pp \<Rightarrow>
               (let a0 = pp_points pp;
                    a = (if pr_shuffle_points (prefs w)
                         then a0\<lparr>pa_rows := np_shuffle (le_perm ev) (pa_rows a0)\<rparr> else a0)
                in if pa_rows a0 = []
                   then (if has_op then (Inr False, report ''ERROR'' (no_vertices (p_filepath p)) w)
                         else (Inl AttributeError, w))
                   else if \<not> has_fields xyz a
                   then (if has_op then (Inr False, report ''ERROR'' no_locations w)
                         else (Inl AttributeError, w))
                   else
                     (let p1 = set_point_flags a p;
                          vs = column3 (le_num ev) a xyz;
                          ns = ply_normals (le_num ev) a;
                          cs = ply_colors (le_num ev) (prefs w) a;
                          u = le_uuid ev;
                          w1 = upd_pcv n0 (\<lambda>q. (set_point_flags a q)\<lparr>p_uuid := u\<rparr>) w
                      in case PCVManager_add (loaded_item u n0 p1 a vs ns cs) w1 of
                           (Inl e, w2) \<Rightarrow> (Inl e, w2)
                         | (Inr _, w2) \<Rightarrow> (Inr True, tag_redraw w2)))))"

section \<open>The operators of the main panel\<close>

definition PCV_OT_init :: "world \<Rightarrow> status \<times> world" where
  "PCV_OT_init w = (Finished, tag_redraw (PCVManager_init w))"

definition PCV_OT_deinit :: "world \<Rightarrow> status \<times> world" where
  "PCV_OT_deinit w =
     (case PCVManager_deinit w of
        (Inl e, w1) \<Rightarrow> (Raised e, w1)
      | (Inr _, w1) \<Rightarrow> (Finished, tag_redraw w1))"

definition PCV_OT_gc :: "world \<Rightarrow> status \<times> world" where
  "PCV_OT_gc w = (Finished, PCVManager_gc w)"

definition PCV_OT_draw_poll :: "world \<Rightarrow> bool" where
  "PCV_OT_draw_poll w =
     (case context_pcv w of
        None \<Rightarrow> False
      | Some (_, p) \<Rightarrow>
          (let mine = filter (\<lambda>(k, v). ci_uuid v = Some (p_uuid p) \<and> ci_ready v) (cache w);
               cached = (mine \<noteq> []);
               ok = (\<exists>(k, v)\<in>set mine. \<not> ci_draw v)
           in ok \<or> (p_filepath p \<noteq> '''' \<and> p_uuid p \<noteq> '''' \<and> \<not> cached)))"

definition PCV_OT_draw :: "load_env \<Rightarrow> world \<Rightarrow> status \<times> world" where
  "PCV_OT_draw ev w0 =
     (let w = PCVManager_init w0
      in case context_pcv w of
           None \<Rightarrow> (Raised AttributeError, w)
         | Some (n0, p) \<Rightarrow>
             (case (if dict_get (cache w) (p_uuid p) = None
                    then PCVManager_load_ply_to_cache ev True (upd_pcv n0 (\<lambda>q. q\<lparr>p_uuid := ''''\<rparr>) w)
                    else (Inr True, w)) of
                (Inl e, w1) \<Rightarrow> (Raised e, w1)
              | (Inr ok, w1) \<Rightarrow>
                  if \<not> ok then (Cancelled, w1)
                  else
                    (case get_pcv w1 n0 of
                       None \<Rightarrow> (Raised AttributeError, w1)
                     | Some p1 \<Rightarrow>
                         if dict_get (cache w1) (p_uuid p1) = None
                         then (Raised (KeyError (p_uuid p1)), w1)
                         else (Finished, tag_redraw (upd_item (p_uuid p1) (\<lambda>c. c\<lparr>ci_draw := True\<rparr>) w1)))))"

definition PCV_OT_erase_poll :: "world \<Rightarrow> bool" where
  "PCV_OT_erase_poll w = (case context_pcv w of None \<Rightarrow> False | Some (_, p) \<Rightarrow> shown w (p_uuid p))"

definition PCV_OT_erase :: "world \<Rightarrow> status \<times> world" where
  "PCV_OT_erase w =
     (case context_pcv w of
        None \<Rightarrow> (Raised AttributeError, w)
      | Some (_, p) \<Rightarrow>
          if dict_get (cache w) (p_uuid p) = None then (Raised (KeyError (p_uuid p)), w)
          else (Finished, tag_redraw (upd_item (p_uuid p) (\<lambda>c. c\<lparr>ci_draw := False\<rparr>) w)))"

definition is_ply_path :: "string \<Rightarrow> bool" where
  "is_ply_path path \<longleftrightarrow> snd (path_splitext (snd (path_split path))) = ''.ply''"

definition not_ply :: "string \<Rightarrow> string" where
  "not_ply path = ''File at '' @ path @ '' seems not to be a PLY file.''"

definition PCV_OT_load_poll :: "world \<Rightarrow> bool" where
  "PCV_OT_load_poll w = (case context_pcv w of None \<Rightarrow> False | Some (_, p) \<Rightarrow> \<not> p_runtime p)"

definition PCV_OT_load :: "load_env \<Rightarrow> string \<Rightarrow> world \<Rightarrow> status \<times> world" where
  "PCV_OT_load ev filepath w =
     (case context_pcv w of
        None \<Rightarrow> (Raised AttributeError, w)
      | Some (n0, p) \<Rightarrow>
          if \<not> is_ply_path filepath then (Cancelled, report ''ERROR'' (not_ply filepath) w)
          else
            (let w1 = upd_pcv n0 (\<lambda>q. q\<lparr>p_filepath := filepath\<rparr>) w;
                 w2 = (if p_uuid p \<noteq> '''' \<and> dict_get (cache w1) (p_uuid p) \<noteq> None
                       then PCVManager_gc (upd_item (p_uuid p) (\<lambda>c. c\<lparr>ci_kill := True\<rparr>) w1) else w1)
             in case PCVManager_load_ply_to_cache ev True w2 of
                  (Inl e, w3) \<Rightarrow> (Raised e, w3)
                | (Inr ok, w3) \<Rightarrow> (if ok then Finished else Cancelled, w3)))"

definition PCV_OT_reload_poll :: "world \<Rightarrow> bool" where
  "PCV_OT_reload_poll w =
     (case context_pcv w of None \<Rightarrow> False | Some (_, p) \<Rightarrow> p_filepath p \<noteq> '''' \<and> p_uuid p \<noteq> '''')"

text \<open>The loop that hides the cloud and remembers that it was shown.\<close>

fun reload_hide :: "string \<Rightarrow> string list \<Rightarrow> bool \<Rightarrow> world \<Rightarrow> (py_error + bool) \<times> world" where
  "reload_hide u [] draw w = (Inr draw, w)"
| "reload_hide u (k # ks) draw w =
     (case dict_get (cache w) k of
        None \<Rightarrow> (Inl (KeyError k), w)
      | Some v \<Rightarrow>
          if ci_uuid v = Some u \<and> ci_ready v \<and> ci_draw v
          then (case bpy_op PCV_OT_erase_poll PCV_OT_erase w of
                  (Raised e, w1) \<Rightarrow> (Inl e, w1)
                | (_, w1) \<Rightarrow> reload_hide u ks True w1)
          else reload_hide u ks draw w)"

text \<open>Reloading a runtime cloud takes the stored original arrays.\<close>

definition reload_runtime :: "num_env \<Rightarrow> string \<Rightarrow> world \<Rightarrow> (py_error + unit) \<times> world" where
  "reload_runtime ne u w =
     (case dict_get (cache w) u of
        None \<Rightarrow> (Inl (KeyError u), w)
      | Some c \<Rightarrow>
          (case ci_points c of
             None \<Rightarrow> (Inl (TypeError ''NoneType''), w)
           | Some a \<Rightarrow>
               if \<not> has_fields (xyz @ nxyz) a then (Inl (ValueError ''no field of name''), w)
               else (case ci_colors_original c of
                       None \<Rightarrow> (Inl (KeyError ''colors_original''), w)
                     | Some cs \<Rightarrow>
                         PCVManager_update u (column3 ne a xyz) (Some (column3 ne a nxyz)) (Some cs) w)))"

definition PCV_OT_reload :: "load_env \<Rightarrow> world \<Rightarrow> status \<times> world" where
  "PCV_OT_reload ev w =
     (case context_pcv w of
        None \<Rightarrow> (Raised AttributeError, w)
      | Some (n0, p) \<Rightarrow>
          (case reload_hide (p_uuid p) (dict_keys (cache w)) False w of
             (Inl e, w1) \<Rightarrow> (Raised e, w1)
           | (Inr draw, w1) \<Rightarrow>
               (case (if p_runtime p then status_of (reload_runtime (le_num ev) (p_uuid p) w1)
                      else bpy_op PCV_OT_load_poll (PCV_OT_load ev (p_filepath p)) w1) of
                  (Raised e, w2) \<Rightarrow> (Raised e, w2)
                | (_, w2) \<Rightarrow>
                    if draw
                    then (case bpy_op PCV_OT_draw_poll (PCV_OT_draw ev) w2 of
                            (Raised e, w3) \<Rightarrow> (Raised e, w3)
                          | (_, w3) \<Rightarrow> (Finished, w3))
                    else (Finished, w2))))"

definition PCV_OT_reset_runtime_poll :: "world \<Rightarrow> bool" where
  "PCV_OT_reset_runtime_poll w = (case context_pcv w of None \<Rightarrow> False | Some (_, p) \<Rightarrow> p_runtime p)"

definition PCV_OT_reset_runtime :: "world \<Rightarrow> status \<times> world" where
  "PCV_OT_reset_runtime w =
     (case context_object w of
        None \<Rightarrow> (Raised AttributeError, w)
      | Some n0 \<Rightarrow>
          (case PCVControl_erase n0 (PCVControl_init w) of
             (Inl e, w1) \<Rightarrow> (Raised e, w1)
           | (Inr _, w1) \<Rightarrow> status_of (PCVControl_reset n0 w1)))"

end
