(* ===== verification/PCV_Ply_Facts.thy ===== *)
theory PCV_Ply_Facts
  imports PCV_Ply
begin

text \<open>
  Reading back what the writer wrote: the header's lines parse to one vertex element with the
  array's columns, its length is where the data starts, and cutting the data into records and
  fields undoes \<open>tobytes\<close>.
\<close>

section \<open>Cutting the data\<close>

lemma split_sizes_concat:
  "list_all2 (\<lambda>k c. length c = k) ks r \<Longrightarrow> split_sizes ks (concat r) = r"
  by (induction ks r rule: list_all2_induct) auto

lemma length_concat_sizes:
  "list_all2 (\<lambda>k c. length c = k) ks r \<Longrightarrow> length (concat r) = sum_list ks"
  by (induction ks r rule: list_all2_induct) auto

lemma chunks_concat:
  "\<forall>r\<in>set rs. length r = k \<Longrightarrow> chunks (length rs) k (concat rs) = rs"
  by (induction rs) auto

lemma np_fromfile_tobytes:
  assumes "\<forall>r\<in>set (pa_rows a). list_all2 (\<lambda>k c. length c = k) (np_sizes (pa_dtype a)) r"
    and "sum_list (np_sizes (pa_dtype a)) \<noteq> 0"
  shows "np_fromfile (pa_dtype a) (int (length (pa_rows a))) (np_tobytes a) = Inr a"
proof -
  let ?ks = "np_sizes (pa_dtype a)"
  have "chunks (length (pa_rows a)) (sum_list ?ks) (np_tobytes a) = map concat (pa_rows a)"
    using chunks_concat [of "map concat (pa_rows a)" "sum_list ?ks"] assms(1) length_concat_sizes
    by (auto simp: np_tobytes_def)
  moreover have "map (split_sizes ?ks) (map concat (pa_rows a)) = pa_rows a"
    using assms(1) split_sizes_concat by (auto intro!: map_idI)
  ultimately show ?thesis
    using assms(2) by (simp add: np_fromfile_def Let_def)
qed

section \<open>The header's lines\<close>

definition header_line :: "string \<Rightarrow> bool" where
  "header_line l \<longleftrightarrow> is_ascii l \<and> newline \<notin> set l \<and> l \<noteq> [] \<and> \<not> py_isspace (last l)"

definition with_newline :: "string \<Rightarrow> string" where
  "with_newline l = l @ [newline]"

lemma lines_keep_lines:
  "\<forall>l\<in>set ls. newline \<notin> set l \<Longrightarrow>
     lines_keep (concat (map with_newline ls) @ s) = map with_newline ls @ lines_keep s"
  by (induction ls) (auto simp: with_newline_def lines_keep_terminated)

lemma header_lines_written:
  assumes "\<forall>l\<in>set ls. header_line l \<and> l \<noteq> ''end_header''"
  shows "header_lines (map with_newline (ls @ [''end_header'']) @ rest) =
     Inr (map with_newline (ls @ [''end_header'']), ls @ [''end_header''])"
  using assms
proof (induction ls)
  case Nil
  have "rstrip (with_newline ''end_header'') = ''end_header''"
    unfolding with_newline_def by (rule rstrip_newline) (simp add: py_isspace_def)
  moreover have "is_ascii (with_newline ''end_header'')"
    by (simp add: is_ascii_def with_newline_def)
  ultimately show ?case by (simp add: Let_def)
next
  case (Cons l ls)
  have "is_ascii (with_newline l)" "rstrip (with_newline l) = l"
    using Cons.prems by (auto simp: header_line_def is_ascii_def with_newline_def rstrip_newline)
  with Cons show ?case by simp
qed

section \<open>Arrays the writer can write and the reader takes back\<close>

definition common_types :: "(char \<times> string) list" where
  "common_types =
     [(CHR ''B'', ''uchar''), (CHR ''h'', ''short''), (CHR ''H'', ''ushort''), (CHR ''i'', ''int''),
      (CHR ''I'', ''uint''), (CHR ''f'', ''float''), (CHR ''d'', ''double'')]"

definition writable :: "parray \<Rightarrow> bool" where
  "writable a \<longleftrightarrow>
     distinct (pa_names a) \<and> set (pa_names a) \<subseteq> set known_names \<and>
     (\<exists>e c. map_of (pa_dtype a) ''x'' = Some (e, c) \<and> (e = CHR ''<'' \<or> e = CHR ''>'') \<and>
        (\<forall>(n, t)\<in>set (pa_dtype a). snd t \<in> fst ` set common_types \<and> t = np_norm (e, snd t))) \<and>
     (\<forall>r\<in>set (pa_rows a). list_all2 (\<lambda>k c. length c = k) (np_sizes (pa_dtype a)) r)"

definition type_word :: "char \<Rightarrow> string" where
  "type_word c = (case map_of common_types c of None \<Rightarrow> [] | Some t \<Rightarrow> t)"

definition prop_text :: "string \<times> np_type \<Rightarrow> string" where
  "prop_text f = ''property '' @ type_word (snd (snd f)) @ [space] @ fst f"

definition prop_ok :: "string \<times> np_type \<Rightarrow> bool" where
  "prop_ok f \<longleftrightarrow> fst f \<in> set known_names \<and> snd (snd f) \<in> fst ` set common_types"

lemma prop_ok_cases:
  assumes "prop_ok f"
  obtains n ord c where "f = (n, ord, c)" "n \<in> set known_names" "c \<in> fst ` set common_types"
  using assms by (cases f) (auto simp: prop_ok_def)

lemma type_word_facts:
  assumes "c \<in> fst ` set common_types"
  shows "map_of BinPlyPointCloudWriter_types c = Some (type_word c)"
    and "map_of PlyPointCloudReader_types (type_word c) = Some c"
    and "space \<notin> set (type_word c)" "is_ascii (type_word c)" "newline \<notin> set (type_word c)"
    and "np_itemsize c \<noteq> None" "np_itemsize c \<noteq> Some 0"
    and "take 4 (type_word c) \<noteq> ''list''"
  using assms
  by (auto simp: common_types_def BinPlyPointCloudWriter_types_def PlyPointCloudReader_types_def
      type_word_def is_ascii_def np_itemsize_def)

lemma known_name_facts:
  assumes "n \<in> set known_names"
  shows "space \<notin> set n" "is_ascii n" "newline \<notin> set n" "n \<noteq> []" "\<not> py_isspace (last n)"
    "n \<noteq> ''alpha''" "n \<notin> set user_rgb"
  using assms by (auto simp: known_names_def is_ascii_def py_isspace_def user_rgb_def)

lemma property_line_ok: "prop_ok f \<Longrightarrow> property_line f = Inr (prop_text f)"
  by (erule prop_ok_cases) (simp add: property_line_def lookupE_def prop_text_def type_word_facts(1))

lemma prop_text_line:
  assumes "prop_ok f"
  shows "header_line (prop_text f)" "prop_text f \<noteq> ''end_header''"
    "split_on space (prop_text f) = [''property'', type_word (snd (snd f)), fst f]"
    "startswith (prop_text f) ''property''" "\<not> startswith (prop_text f) ''ply''"
    "\<not> startswith (prop_text f) ''format''" "\<not> startswith (prop_text f) ''comment''"
    "\<not> startswith (prop_text f) ''element''" "\<not> startswith (prop_text f) ''property list''"
proof -
  obtain n ord c where f: "f = (n, ord, c)" "n \<in> set known_names" "c \<in> fst ` set common_types"
    using assms by (rule prop_ok_cases)
  note facts = known_name_facts [OF f(2)] type_word_facts [OF f(3)]
  show "header_line (prop_text f)"
    using facts by (auto simp: f(1) header_line_def prop_text_def is_ascii_def)
  show "split_on space (prop_text f) = [''property'', type_word (snd (snd f)), fst f]"
    using split_on_append [of space "''property''" "type_word c @ space # n"]
      split_on_append [OF facts(10), of n] split_on_none [OF facts(1)]
    by (simp add: f(1) prop_text_def)
  show "prop_text f \<noteq> ''end_header''" "startswith (prop_text f) ''property''"
    "\<not> startswith (prop_text f) ''ply''" "\<not> startswith (prop_text f) ''format''"
    "\<not> startswith (prop_text f) ''comment''" "\<not> startswith (prop_text f) ''element''"
    by (simp_all add: prop_text_def startswith_def)
  show "\<not> startswith (prop_text f) ''property list''"
    using f(3) by (auto simp: f(1) prop_text_def startswith_def type_word_def common_types_def)
qed


section \<open>Parsing the written header\<close>

definition format_word :: "char \<Rightarrow> string" where
  "format_word e = (if e = CHR ''>'' then ''binary_big_endian'' else ''binary_little_endian'')"

lemma writer_format_order:
  assumes "fst t = CHR ''<'' \<or> fst t = CHR ''>''"
  shows "writer_format ne t = format_word (fst t)"
  using assms by (auto simp: writer_format_def np_byteorder_def format_word_def Let_def)

lemma format_line:
  assumes "f = format_word e"
  shows "header_line (''format '' @ f @ '' 1.0'')"
    "split_on space (''format '' @ f @ '' 1.0'') = [''format'', f, ''1.0'']"
    "f \<in> set supported_formats" "f \<noteq> ''ascii''"
    "e = CHR ''<'' \<or> e = CHR ''>'' \<Longrightarrow> map_of ply_byte_order f = Some (Some e)"
  by (auto simp: assms format_word_def header_line_def is_ascii_def py_isspace_def
      supported_formats_def ply_byte_order_def)

lemma element_line:
  shows "header_line (''element vertex '' @ show_nat n)"
    "split_on space (''element vertex '' @ show_nat n) = [''element'', ''vertex'', show_nat n]"
proof -
  have d: "show_nat n \<noteq> []" "\<forall>c\<in>set (show_nat n). is_digit c"
    using show_nat_digits by auto
  have nl: "\<not> is_digit newline" "\<not> is_digit space"
    by (simp_all add: is_digit_def)
  have "is_digit (last (show_nat n))"
    using d last_in_set by blast
  then show "header_line (''element vertex '' @ show_nat n)"
    using d nl is_digit_ascii is_digit_not_space by (auto simp: header_line_def is_ascii_def)
  have "split_on space (show_nat n) = [show_nat n]"
    using d nl by (intro split_on_none) auto
  then show "split_on space (''element vertex '' @ show_nat n) = [''element'', ''vertex'', show_nat n]"
    by simp
qed

lemma header_format_props:
  "\<forall>f\<in>set fs. prop_ok f \<Longrightarrow> header_format (map prop_text fs @ ls) acc = header_format ls acc"
  by (induction fs) (auto simp: prop_text_line)

lemma header_elements_props:
  "\<forall>f\<in>set fs. prop_ok f \<Longrightarrow> fmt \<noteq> None \<Longrightarrow>
     header_elements fmt (map prop_text fs @ ls) (es @ [el]) =
     header_elements fmt ls (es @ [el\<lparr>el_props := el_props el @ map (\<lambda>f. Prop (fst f) (snd (snd f))) fs\<rparr>])"
proof (induction fs arbitrary: el)
  case (Cons f fs)
  then have ok: "prop_ok f" and fmt: "\<exists>y. fmt = Some y" by auto
  note t = prop_text_line [OF ok]
  have w: "map_of PlyPointCloudReader_types (type_word (snd (snd f))) = Some (snd (snd f))"
    using ok by (auto simp: prop_ok_def type_word_facts)
  have "header_elements fmt (map prop_text (f # fs) @ ls) (es @ [el]) =
      header_elements fmt (map prop_text fs @ ls)
        (es @ [el\<lparr>el_props := el_props el @ [Prop (fst f) (snd (snd f))]\<rparr>])"
    using t fmt by (auto simp: unpack3_def lookupE_def w add_prop_def)
  also have "\<dots> = header_elements fmt ls (es @ [el\<lparr>el_props := el_props el @
      map (\<lambda>f. Prop (fst f) (snd (snd f))) (f # fs)\<rparr>])"
    using Cons by simp
  finally show ?case .
qed simp

text \<open>The lines the writer emits, and what the reader's header parser makes of the file.\<close>

definition written_lines :: "string \<Rightarrow> parray \<Rightarrow> string list" where
  "written_lines f a =
     [''ply'', ''format '' @ f @ '' 1.0'', ''element vertex '' @ show_nat (length (pa_rows a))]
       @ map prop_text (pa_dtype a) @ [''comment '' @ comment_text]"

lemma written_lines_ok:
  assumes "\<forall>f\<in>set (pa_dtype a). prop_ok f"
  shows "\<forall>l\<in>set (written_lines (format_word e) a). header_line l \<and> l \<noteq> ''end_header''"
  using assms format_line(1) element_line(1)
  by (auto simp: written_lines_def prop_text_line comment_text_def)
    (auto simp: header_line_def is_ascii_def py_isspace_def)

lemma header_elements_written:
  assumes "\<forall>f\<in>set (pa_dtype a). prop_ok f"
  shows "header_elements (Some fv) (written_lines f a @ [''end_header'']) [] =
     Inr [\<lparr>el_type = ''vertex'', el_count = int (length (pa_rows a)),
           el_props = map (\<lambda>f. Prop (fst f) (snd (snd f))) (pa_dtype a)\<rparr>]"
proof -
  have "header_elements (Some fv) (written_lines f a @ [''end_header'']) [] =
      header_elements (Some fv) (map prop_text (pa_dtype a) @ [''comment '' @ comment_text, ''end_header''])
        ([] @ [\<lparr>el_type = ''vertex'', el_count = int (length (pa_rows a)), el_props = []\<rparr>])"
    using element_line(2) [of "length (pa_rows a)"]
    by (simp add: written_lines_def startswith_def unpack3_def)
  also have "\<dots> = Inr [\<lparr>el_type = ''vertex'', el_count = int (length (pa_rows a)),
           el_props = map (\<lambda>f. Prop (fst f) (snd (snd f))) (pa_dtype a)\<rparr>]"
    by (subst header_elements_props [OF assms]) (simp_all add: startswith_def comment_text_def)
  finally show ?thesis .
qed

lemma header_format_written:
  assumes "\<forall>f\<in>set (pa_dtype a). prop_ok f" "f = format_word e"
  shows "header_format (written_lines f a @ [''end_header'']) None = Inr (Some (f, ''1.0''))"
  using format_line(2,3) [OF assms(2)] header_format_props [OF assms(1)]
  by (simp add: written_lines_def startswith_def unpack3_def supported_versions_def comment_text_def)


lemma mapE_property_line:
  "\<forall>f\<in>set fs. prop_ok f \<Longrightarrow> mapE property_line fs = Inr (map prop_text fs)"
  by (rule mapE_Inr) (auto simp: property_line_ok)

lemma is_ascii_lines: "\<forall>l\<in>set ls. is_ascii l \<Longrightarrow> is_ascii (concat (map with_newline ls))"
  by (auto simp: is_ascii_def with_newline_def)

definition header_text :: "char \<Rightarrow> parray \<Rightarrow> string" where
  "header_text e a = concat (map with_newline (written_lines (format_word e) a @ [''end_header'']))"

lemma writer_header_text:
  assumes "\<forall>f\<in>set (pa_dtype a). prop_ok f"
    and "map_of (pa_dtype a) ''x'' = Some (e, c)" "e = CHR ''<'' \<or> e = CHR ''>''"
  shows "writer_header ne a = Inr (header_text e a)"
proof -
  have "is_ascii (header_text e a)"
    using written_lines_ok [OF assms(1), of e] unfolding header_text_def
    by (intro is_ascii_lines) (auto simp: header_line_def is_ascii_def)
  moreover have "header_text e a = concat (map (\<lambda>l. l @ [newline])
      ([''ply'', ''format '' @ writer_format ne (e, c) @ '' 1.0'',
        ''element vertex '' @ show_nat (length (pa_rows a))] @ map prop_text (pa_dtype a) @
       [''comment '' @ comment_text, ''end_header'']))"
    using writer_format_order [of "(e, c)" ne] assms(3)
    by (simp add: header_text_def written_lines_def with_newline_def [abs_def])
  ultimately show ?thesis
    using assms(2) mapE_property_line [OF assms(1)]
    by (simp add: writer_header_def Let_def)
qed

lemma header_text_parsed:
  assumes "\<forall>f\<in>set (pa_dtype a). prop_ok f"
  shows "PlyPointCloudReader_header (header_text e a @ s) =
     Inr \<lparr>ph_format = format_word e, ph_version = ''1.0'',
          ph_elements = [\<lparr>el_type = ''vertex'', el_count = int (length (pa_rows a)),
            el_props = map (\<lambda>f. Prop (fst f) (snd (snd f))) (pa_dtype a)\<rparr>],
          ph_header_length = length (header_text e a), ph_file_length = 0\<rparr>"
proof -
  let ?ls = "written_lines (format_word e) a @ [''end_header'']"
  note ok = written_lines_ok [OF assms, of e]
  have "\<forall>l\<in>set ?ls. newline \<notin> set l"
    using ok by (auto simp: header_line_def)
  then have "lines_keep (header_text e a @ s) = map with_newline ?ls @ lines_keep s"
    unfolding header_text_def by (rule lines_keep_lines)
  then have h: "header_lines (lines_keep (header_text e a @ s)) = Inr (map with_newline ?ls, ?ls)"
    using header_lines_written [OF ok] by simp
  have len: "sum_list (map length (map with_newline ?ls)) = length (header_text e a)"
    unfolding header_text_def by (simp add: length_concat)
  have case_ls: "(case ?ls of [] \<Rightarrow> X | h0 # _ \<Rightarrow> F h0) = F ''ply''" for X and F :: "string \<Rightarrow> py_error + ply_header"
    by (simp add: written_lines_def)
  show ?thesis
    unfolding PlyPointCloudReader_header_def h bindE.simps prod.case case_ls
    using format_line(4) [of "format_word e" e]
    by (simp add: header_format_written [OF assms refl] header_elements_written [OF assms] len
        del: map_append map_map)
qed

section \<open>The columns\<close>

lemma select_fields_all:
  assumes "\<forall>f\<in>set (pa_dtype a). P (fst f)" "pa_dtype a \<noteq> []"
    and "\<forall>r\<in>set (pa_rows a). length r = length (pa_dtype a)"
  shows "select_fields P a = a"
proof -
  have "map snd (filter (\<lambda>(f, c). P (fst f)) (zip (pa_dtype a) r)) = r" if "r \<in> set (pa_rows a)" for r
  proof -
    have "filter (\<lambda>(f, c). P (fst f)) (zip (pa_dtype a) r) = zip (pa_dtype a) r"
      using assms(1) by (auto simp: filter_id_conv dest: set_zip_leftD)
    then show ?thesis using assms(3) that by simp
  qed
  then have rows: "map (\<lambda>r. map snd (filter (\<lambda>(f, c). P (fst f)) (zip (pa_dtype a) r))) (pa_rows a) = pa_rows a"
    by (simp add: map_idI)
  have "filter (\<lambda>f. P (fst f)) (pa_dtype a) = pa_dtype a"
    using assms(1) by simp
  moreover have "\<exists>f\<in>set (pa_dtype a). P (fst f)"
    using assms(1,2) by (cases "pa_dtype a") auto
  ultimately show ?thesis
    by (simp add: select_fields_def rows)
qed

lemma columns_known:
  assumes "distinct (pa_names a)" "set (pa_names a) \<subseteq> set known_names" "pa_dtype a \<noteq> []"
    and "\<forall>r\<in>set (pa_rows a). length r = length (pa_dtype a)"
  shows "PlyPointCloudReader_columns a =
     Inr \<lparr>pp_points = a, pp_has_vertices = has_fields xyz a,
          pp_has_normals = has_fields nxyz a, pp_has_colors = has_fields rgb a\<rparr>"
proof -
  have known: "\<forall>f\<in>set (pa_dtype a). fst f \<in> set known_names"
    using assms(2) by (auto simp: pa_names_def)
  have "\<not> set user_rgb \<subseteq> set (pa_names a)"
    using assms(2) by (auto simp: user_rgb_def known_names_def)
  moreover have "set_names (pa_names a) a = Inr a"
    using assms(1) by (simp add: set_names_def pa_names_def zip_map_fst_snd)
  moreover have "select_fields (\<lambda>b. b \<noteq> ''alpha'') a = a"
    using known by (intro select_fields_all assms(3,4)) (auto simp: known_names_def)
  moreover have "select_fields (\<lambda>b. b \<in> set known_names) a = a"
    using known by (intro select_fields_all assms(3,4)) auto
  ultimately show ?thesis
    by (simp add: PlyPointCloudReader_columns_def Let_def)
qed

section \<open>The round trip\<close>

lemma writable_props:
  assumes "writable a"
  obtains e c where "map_of (pa_dtype a) ''x'' = Some (e, c)" "e = CHR ''<'' \<or> e = CHR ''>''"
    "\<forall>f\<in>set (pa_dtype a). prop_ok f" "\<forall>(n, t)\<in>set (pa_dtype a). t = np_norm (e, snd t)"
    "pa_dtype a \<noteq> []" "sum_list (np_sizes (pa_dtype a)) \<noteq> 0"
proof -
  obtain e c where x: "map_of (pa_dtype a) ''x'' = Some (e, c)" "e = CHR ''<'' \<or> e = CHR ''>''"
      and t: "\<forall>(n, t)\<in>set (pa_dtype a). snd t \<in> fst ` set common_types \<and> t = np_norm (e, snd t)"
    using assms unfolding writable_def by blast
  have mem: "(''x'', (e, c)) \<in> set (pa_dtype a)"
    using x(1) by (rule map_of_SomeD)
  have props: "\<forall>f\<in>set (pa_dtype a). prop_ok f"
  proof
    fix f assume f: "f \<in> set (pa_dtype a)"
    then have "fst f \<in> set known_names"
      using assms by (auto simp: writable_def pa_names_def)
    moreover have "snd (snd f) \<in> fst ` set common_types"
      using bspec [OF t f] by (simp add: case_prod_unfold)
    ultimately show "prop_ok f" by (simp add: prop_ok_def)
  qed
  have "np_itemsize c \<noteq> None" "np_itemsize c \<noteq> Some 0"
    using mem t type_word_facts(6,7) by force+
  then have "\<exists>k\<in>set (np_sizes (pa_dtype a)). k \<noteq> 0"
    using mem by (auto simp: np_sizes_def intro!: bexI [of _ "(''x'', (e, c))"])
  then have "sum_list (np_sizes (pa_dtype a)) \<noteq> 0"
    by (simp add: sum_list_eq_0_iff)
  moreover have "pa_dtype a \<noteq> []"
    using mem by auto
  moreover have "\<forall>(n, t)\<in>set (pa_dtype a). t = np_norm (e, snd t)"
    using t by (simp add: case_prod_unfold)
  ultimately show ?thesis using that [OF x props] by blast
qed

lemma data_binary_written:
  assumes "writable a" "map_of (pa_dtype a) ''x'' = Some (e, c)" "e = CHR ''<'' \<or> e = CHR ''>''"
  shows "data_binary e (h @ np_tobytes a)
     [\<lparr>el_type = ''vertex'', el_count = int (length (pa_rows a)),
       el_props = map (\<lambda>f. Prop (fst f) (snd (snd f))) (pa_dtype a)\<rparr>] (int (length h)) None = Inr (Some a)"
proof -
  obtain e' c' where p: "map_of (pa_dtype a) ''x'' = Some (e', c')"
      "\<forall>f\<in>set (pa_dtype a). prop_ok f" "\<forall>(n, t)\<in>set (pa_dtype a). t = np_norm (e', snd t)"
      "sum_list (np_sizes (pa_dtype a)) \<noteq> 0"
    using assms(1) by (rule writable_props)
  have e: "e' = e" using p(1) assms(2) by simp
  have props: "binary_props e (map (\<lambda>f. Prop (fst f) (snd (snd f))) fs) =
      Inr (map (\<lambda>f. (fst f, (e, snd (snd f)))) fs)" for fs :: "(string \<times> np_type) list"
    by (induction fs) auto
  have norm: "map (\<lambda>f. (fst f, np_norm (e, snd (snd f)))) (pa_dtype a) = pa_dtype a"
  proof (rule map_idI)
    fix f assume "f \<in> set (pa_dtype a)"
    from bspec [OF p(3) this] show "(fst f, np_norm (e, snd (snd f))) = f"
      by (simp add: case_prod_unfold prod_eq_iff e)
  qed
  have "np_dtype (map (\<lambda>f. (fst f, (e, snd (snd f)))) (pa_dtype a)) = Inr (pa_dtype a)"
    using assms(1) p(2) norm type_word_facts(6)
    by (auto simp: np_dtype_def writable_def pa_names_def o_def prop_ok_def)
  then show ?thesis
    using np_fromfile_tobytes [of a] assms(1) p(4)
    by (simp add: props writable_def)
qed

lemma reader_of_written:
  assumes "writable a" "map_of (pa_dtype a) ''x'' = Some (e, c)" "e = CHR ''<'' \<or> e = CHR ''>''"
    and "fs path = Some (header_text e a @ np_tobytes a)"
  shows "PlyPointCloudReader gen fs path =
     Inr \<lparr>pp_points = a, pp_has_vertices = has_fields xyz a,
          pp_has_normals = has_fields nxyz a, pp_has_colors = has_fields rgb a\<rparr>"
proof -
  obtain e' c' where p: "\<forall>f\<in>set (pa_dtype a). prop_ok f" "pa_dtype a \<noteq> []"
    using assms(1) by (rule writable_props)
  have "length r = length (pa_dtype a)" if "r \<in> set (pa_rows a)" for r
    using assms(1) that by (auto simp: writable_def np_sizes_def dest!: list_all2_lengthD)
  then have cols: "PlyPointCloudReader_columns a = Inr \<lparr>pp_points = a, pp_has_vertices = has_fields xyz a,
          pp_has_normals = has_fields nxyz a, pp_has_colors = has_fields rgb a\<rparr>"
    using assms(1) p(2) by (intro columns_known) (auto simp: writable_def)
  have f: "format_word e \<noteq> ''ascii''" "map_of ply_byte_order (format_word e) = Some (Some e)"
    using format_line(4,5) [OF refl] assms(3) by auto
  have d: "data_binary e (header_text e a @ np_tobytes a)
     [\<lparr>el_type = ''vertex'', el_count = int (length (pa_rows a)),
       el_props = map (\<lambda>f. Prop (fst f) (snd (snd f))) (pa_dtype a)\<rparr>] (int (length (header_text e a))) None
     = Inr (Some a)"
    by (rule data_binary_written [OF assms(1-3)])
  show ?thesis
    by (simp add: PlyPointCloudReader_def assms(4) header_text_parsed [OF p(1)] f d cols
        del: data_binary.simps)
qed

section \<open>The writer's file systems\<close>

lemma length_splitext_fst: "length (fst (path_splitext t)) + length (snd (path_splitext t)) = length t"
  using path_splitext_append [of t] by (metis length_append)

lemma path_split_slash:
  assumes "slash \<notin> set t"
  shows "snd (path_split (h @ slash # t)) = t"
proof -
  have "takeWhile (\<lambda>c. c \<noteq> slash) (rev t @ slash # rev h) = rev t"
    using assms by (subst takeWhile_append2) auto
  then show ?thesis by (simp add: path_split_def Let_def)
qed

lemma path_split_no_slash:
  assumes "slash \<notin> set t"
  shows "snd (path_split t) = t"
proof -
  have "takeWhile (\<lambda>c. c \<noteq> slash) (rev t) = rev t"
    using assms by (intro takeWhile_eq_all_conv [THEN iffD2]) auto
  then show ?thesis unfolding path_split_def Let_def by (simp only: rev_rev_ident snd_conv)
qed

lemma path_join_tail:
  assumes "slash \<notin> set t"
  shows "snd (path_split (path_join h t)) = t"
proof -
  have t: "\<not> (t \<noteq> [] \<and> hd t = slash)"
    using assms hd_in_set by metis
  consider "h = []" | h' where "h = h' @ [slash]" | "h \<noteq> []" "last h \<noteq> slash"
    by (cases h rule: rev_cases) auto
  then show ?thesis
    using t path_split_slash [OF assms] path_split_no_slash [OF assms]
    by cases (auto simp: path_join_def)
qed

lemma splitext_ext: "dot \<notin> set (tl (snd (path_splitext t)))"
proof -
  define ext where "ext = rev (takeWhile (\<lambda>c. c \<noteq> dot \<and> c \<noteq> slash) (rev t))"
  have "dot \<notin> set ext"
    using set_takeWhileD [of dot "\<lambda>c. c \<noteq> dot \<and> c \<noteq> slash" "rev t"] by (auto simp only: ext_def set_rev)
  moreover have "snd (path_splitext t) = [] \<or> snd (path_splitext t) = dot # ext"
    unfolding path_splitext_def Let_def ext_def [symmetric] by (simp split: if_split)
  ultimately show ?thesis by (metis list.sel(2,3) empty_iff list.set(1))
qed

lemma temp_path_differs: "temp_path p \<noteq> p"
proof
  assume eq: "temp_path p = p"
  define t where "t = snd (path_split p)"
  define r where "r = fst (path_splitext t)"
  define e where "e = snd (path_splitext t)"
  have t: "t = r @ e"
    unfolding r_def e_def by (rule path_splitext_append [symmetric])
  have "slash \<notin> set t"
    unfolding t_def by (rule path_split_tail)
  then have "slash \<notin> set (r @ ''.temp.ply'')"
    by (simp add: t)
  then have "snd (path_split (temp_path p)) = r @ ''.temp.ply''"
    unfolding temp_path_def r_def t_def by (rule path_join_tail)
  then have "r @ e = r @ ''.temp.ply''"
    unfolding eq t_def [symmetric] t .
  then have "e = ''.temp.ply''"
    by (rule same_append_eq [THEN iffD1])
  moreover have "dot \<notin> set (tl e)"
    unfolding e_def by (rule splitext_ext)
  ultimately show False
    by simp
qed

text \<open>What the file systems a run goes through have in common.\<close>

lemma writer_run:
  assumes "writer_header ne a = Inr h"
  shows "\<exists>ss. BinPlyPointCloudWriter ne path a fs = (Inr (), ss) \<and> ss \<noteq> [] \<and>
     last ss path = Some (h @ np_tobytes a) \<and> last ss (temp_path path) = None \<and>
     (\<forall>s\<in>set ss. (\<forall>q. q \<noteq> path \<longrightarrow> q \<noteq> temp_path path \<longrightarrow> s q = fs q) \<and>
        (s path = fs path \<or> s path = Some (h @ np_tobytes a) \<or> s (temp_path path) = Some (h @ np_tobytes a)))"
  using assms temp_path_differs [of path]
  by (auto simp: BinPlyPointCloudWriter_def Let_def)

lemma writer_failed:
  assumes "writer_header ne a = Inl e"
  shows "BinPlyPointCloudWriter ne path a fs = (Inl e, [fs(temp_path path := Some [])])"
  using assms by (simp add: BinPlyPointCloudWriter_def Let_def)

end
