(* ===== verification/PCV_Load_Facts.thy ===== *)
theory PCV_Load_Facts
  imports PCV_Load PCV_Ply_Facts
begin

text \<open>
  Loading keeps the cache well-formed and stores every point of the file, up to the order a
  shuffle gives them; reloading a cloud that was set from a script brings back its arrays.
\<close>

section \<open>Shuffling\<close>

lemma np_shuffle_mset:
  assumes "is_shuffle perm"
  shows "mset (np_shuffle perm xs) = mset xs"
proof -
  have "mset (np_shuffle perm xs) = image_mset (\<lambda>i. xs ! i) (mset (perm (length xs)))"
    by (simp add: np_shuffle_def)
  also have "\<dots> = mset (map (\<lambda>i. xs ! i) [0..<length xs])"
    using assms by (simp add: is_shuffle_def)
  finally show ?thesis by (simp add: map_nth)
qed

lemma np_shuffle_length: "is_shuffle perm \<Longrightarrow> length (np_shuffle perm xs) = length xs"
  by (metis np_shuffle_mset size_mset)

lemma is_shuffle_bound: "is_shuffle perm \<Longrightarrow> i \<in> set (perm n) \<Longrightarrow> i < n"
  by (metis atLeastLessThan_iff is_shuffle_def set_mset_mset set_upt)

lemma np_shuffle_map:
  "is_shuffle perm \<Longrightarrow> np_shuffle perm (map f xs) = map f (np_shuffle perm xs)"
  by (auto simp: np_shuffle_def dest: is_shuffle_bound)

lemma np_shuffle_zip:
  assumes "is_shuffle perm" "length xs = length ys"
  shows "np_shuffle perm (zip xs ys) = zip (np_shuffle perm xs) (np_shuffle perm ys)"
proof -
  have "\<And>i. i \<in> set (perm (length ys)) \<Longrightarrow> i < length ys"
    using assms(1) by (rule is_shuffle_bound)
  then show ?thesis
    using assms(2) by (auto simp: np_shuffle_def intro!: nth_equalityI)
qed

lemma np_shuffle_nonempty: "is_shuffle perm \<Longrightarrow> np_shuffle perm xs = [] \<longleftrightarrow> xs = []"
  by (metis length_0_conv np_shuffle_length)

section \<open>The arrays of a file, row by row\<close>

definition row_value :: "num_env \<Rightarrow> (string \<times> np_type) list \<Rightarrow> string \<Rightarrow> string list \<Rightarrow> real" where
  "row_value ne dt f r = (case field_of dt r f of None \<Rightarrow> 0 | Some (t, c) \<Rightarrow> ne_val ne t c)"

definition row_v3 :: "num_env \<Rightarrow> (string \<times> np_type) list \<Rightarrow> string list \<Rightarrow> string list \<Rightarrow> v3" where
  "row_v3 ne dt fs r = (row_value ne dt (fs ! 0) r, row_value ne dt (fs ! 1) r, row_value ne dt (fs ! 2) r)"

lemma column3_map: "column3 ne a fs = map (row_v3 ne (pa_dtype a) fs) (pa_rows a)"
  by (rule nth_equalityI)
    (auto simp: column3_def column_stack3_def pa_column_def row_v3_def row_value_def)

lemma ply_normals_map:
  "ply_normals ne a =
     map (\<lambda>r. if has_fields nxyz a then row_v3 ne (pa_dtype a) nxyz r else (0, 0, 1)) (pa_rows a)"
  by (simp add: ply_normals_def column3_map map_replicate_const)

definition row_color :: "num_env \<Rightarrow> preferences \<Rightarrow> parray \<Rightarrow> string list \<Rightarrow> v4" where
  "row_color ne pr a r =
     (let to8 = (\<lambda>v. real_of_int (py_int (v / 256)));
          f = (if pr_convert_16bit_colors pr \<and> red_is_uint16 ne a
               then (if pr_gamma_correct_16bit_colors pr then (\<lambda>v. (to8 v / 255) powr (1 / 2.2))
                     else (\<lambda>v. to8 v / 255))
               else (\<lambda>v. v / 255));
          c = (\<lambda>x. f (row_value ne (pa_dtype a) x r))
      in if has_fields rgb a then (c ''red'', c ''green'', c ''blue'', 1) else default_color pr)"

lemma ply_colors_map: "ply_colors ne pr a = map (row_color ne pr a) (pa_rows a)"
  by (rule nth_equalityI)
    (auto simp: ply_colors_def row_color_def column_stack4_def pa_column_def row_value_def Let_def)

lemma has_fields_rows [simp]: "has_fields fs (a\<lparr>pa_rows := r\<rparr>) = has_fields fs a"
  by (simp add: has_fields_def pa_names_def)

lemma set_point_flags_rows [simp]: "set_point_flags (a\<lparr>pa_rows := r\<rparr>) p = set_point_flags a p"
  by (simp add: set_point_flags_def)

lemma row_color_rows [simp]: "row_color ne pr (a\<lparr>pa_rows := r\<rparr>) = row_color ne pr a"
  by (simp add: row_color_def red_is_uint16_def fun_eq_iff)

text \<open>One point of a file: location, normal and colour.\<close>

definition row_point :: "num_env \<Rightarrow> preferences \<Rightarrow> parray \<Rightarrow> string list \<Rightarrow> v3 \<times> v3 \<times> v4" where
  "row_point ne pr a r =
     (row_v3 ne (pa_dtype a) xyz r,
      if has_fields nxyz a then row_v3 ne (pa_dtype a) nxyz r else (0, 0, 1),
      row_color ne pr a r)"

text \<open>The points of an item, as triples.\<close>

definition cloud :: "cache_item \<Rightarrow> (v3 \<times> v3 \<times> v4) list" where
  "cloud c =
     (case (ci_vertices c, ci_normals c, ci_colors c) of
        (Some vs, Some ns, Some cs) \<Rightarrow> zip vs (zip ns cs) | _ \<Rightarrow> [])"

lemma cloud_some: "ci_vertices c = Some vs \<Longrightarrow> ci_normals c = Some ns \<Longrightarrow> ci_colors c = Some cs \<Longrightarrow>
    cloud c = zip vs (zip ns cs)"
  by (simp add: cloud_def)

lemma cloud_flags [simp]:
  "cloud (c\<lparr>ci_draw := b\<rparr>) = cloud c" "cloud (c\<lparr>ci_kill := b\<rparr>) = cloud c"
  "cloud (c\<lparr>ci_selection_indexes := s\<rparr>) = cloud c"
  by (simp_all add: cloud_def)

lemma zip_map_maps: "zip (map f xs) (zip (map g xs) (map h xs)) = map (\<lambda>x. (f x, g x, h x)) xs"
  by (induction xs) auto

lemma file_points:
  "zip (column3 ne a xyz) (zip (ply_normals ne a) (ply_colors ne pr a)) = map (row_point ne pr a) (pa_rows a)"
  by (simp add: column3_map ply_normals_map ply_colors_map zip_map_maps row_point_def)

section \<open>Loading\<close>

lemma loaded_item_ok:
  assumes "length ns = length vs" "length cs = length vs"
    and "0 \<le> p_display_percent p" "p_display_percent p \<le> 100"
  shows "item_ok (loaded_item u n0 p a vs ns cs)"
  using assms display_count_bounds [OF assms(3,4), of "length vs"]
  by (auto simp: item_ok_def loaded_item_def Let_def)

lemma loaded_item_frame [simp]:
  "ci_uuid (loaded_item u n0 p a vs ns cs) = Some u"
  "ci_draw (loaded_item u n0 p a vs ns cs) = False"
  "ci_ready (loaded_item u n0 p a vs ns cs)"
  "ci_kill (loaded_item u n0 p a vs ns cs) = False"
  "ci_vertices (loaded_item u n0 p a vs ns cs) = Some vs"
  "ci_normals (loaded_item u n0 p a vs ns cs) = Some ns"
  "ci_colors (loaded_item u n0 p a vs ns cs) = Some cs"
  by (simp_all add: loaded_item_def PCVManager_new_def Let_def)

lemma context_pcv_get: "context_pcv w = Some (n0, p) \<longleftrightarrow> context_object w = Some n0 \<and> get_pcv w n0 = Some p"
  by (auto simp: context_pcv_def split: option.splits)

lemma load_new_item:
  assumes "context_pcv w = Some (n0, p)"
    and "PlyPointCloudReader (le_gen ev) (le_fs ev) (p_filepath p) = Inr pp"
    and "pa_rows (pp_points pp) \<noteq> []" "has_fields xyz (pp_points pp)"
    and "a = (if pr_shuffle_points (prefs w)
              then (pp_points pp)\<lparr>pa_rows := np_shuffle (le_perm ev) (pa_rows (pp_points pp))\<rparr>
              else pp_points pp)"
  shows "\<exists>w'. PCVManager_load_ply_to_cache ev True w = (Inr True, w') \<and>
     cache w' = AList.update (le_uuid ev)
       (loaded_item (le_uuid ev) n0 (set_point_flags a p) a (column3 (le_num ev) a xyz)
          (ply_normals (le_num ev) a) (ply_colors (le_num ev) (prefs w) a)) (cache w) \<and>
     get_pcv w' n0 = Some ((set_point_flags a p)\<lparr>p_uuid := le_uuid ev\<rparr>) \<and>
     (\<forall>m. m \<noteq> n0 \<longrightarrow> get_pcv w' m = get_pcv w m)"
proof -
  have a: "has_fields xyz a" "get_pcv w n0 = Some p"
    using assms(1,4,5) by (simp_all add: context_pcv_get)
  then show ?thesis
    using assms(1-3) unfolding PCVManager_load_ply_to_cache_def
    by (simp add: Let_def assms(5) [symmetric] PCVManager_add_def get_pcv_upd_pcv split: if_split)
qed

lemma load_ok:
  assumes ctx: "context_pcv w = Some (n0, p)"
    and reader: "PlyPointCloudReader (le_gen ev) (le_fs ev) (p_filepath p) = Inr pp"
    and rows: "pa_rows (pp_points pp) \<noteq> []" "has_fields xyz (pp_points pp)"
    and ok: "cache_wf w" "objects_ok w" "is_shuffle (le_perm ev)"
  shows "\<exists>w' c. PCVManager_load_ply_to_cache ev True w = (Inr True, w') \<and> cache_wf w' \<and>
     dict_get (cache w') (le_uuid ev) = Some c \<and> item_ok c \<and> \<not> ci_draw c \<and> ci_ready c \<and>
     map_option p_uuid (get_pcv w' n0) = Some (le_uuid ev) \<and>
     mset (cloud c) = mset (map (row_point (le_num ev) (prefs w) (pp_points pp)) (pa_rows (pp_points pp))) \<and>
     (\<not> pr_shuffle_points (prefs w) \<longrightarrow>
        cloud c = map (row_point (le_num ev) (prefs w) (pp_points pp)) (pa_rows (pp_points pp)))"
proof -
  define a where "a = (if pr_shuffle_points (prefs w)
      then (pp_points pp)\<lparr>pa_rows := np_shuffle (le_perm ev) (pa_rows (pp_points pp))\<rparr> else pp_points pp)"
  let ?c = "loaded_item (le_uuid ev) n0 (set_point_flags a p) a (column3 (le_num ev) a xyz)
      (ply_normals (le_num ev) a) (ply_colors (le_num ev) (prefs w) a)"
  obtain w' where w': "PCVManager_load_ply_to_cache ev True w = (Inr True, w')"
      "cache w' = AList.update (le_uuid ev) ?c (cache w)"
      "get_pcv w' n0 = Some ((set_point_flags a p)\<lparr>p_uuid := le_uuid ev\<rparr>)"
    using load_new_item [OF ctx reader rows a_def] by blast
  have pct: "0 \<le> p_display_percent p" "p_display_percent p \<le> 100"
    using get_pcv_objects_ok [OF ok(2)] ctx by (auto simp: context_pcv_get)
  have len: "length (ply_normals (le_num ev) a) = length (column3 (le_num ev) a xyz)"
    "length (ply_colors (le_num ev) (prefs w) a) = length (column3 (le_num ev) a xyz)"
    by (simp_all add: column3_map ply_normals_map ply_colors_map)
  have item: "item_ok ?c"
    using pct len by (intro loaded_item_ok) (simp_all add: set_point_flags_def)
  have wf: "cache_wf w'"
    using cache_wf_update [OF ok(1) _ item, of "le_uuid ev"] w'(2)
    by (simp add: cache_wf_def)
  have cl: "cloud ?c = map (row_point (le_num ev) (prefs w) a) (pa_rows a)"
    by (simp add: cloud_some file_points)
  have rp: "row_point (le_num ev) (prefs w) a = row_point (le_num ev) (prefs w) (pp_points pp)"
    by (auto simp: a_def row_point_def fun_eq_iff)
  have "mset (cloud ?c) = mset (map (row_point (le_num ev) (prefs w) (pp_points pp)) (pa_rows (pp_points pp)))"
    using np_shuffle_mset [OF ok(3), of "pa_rows (pp_points pp)"] by (simp add: cl rp) (simp add: a_def)
  moreover have "\<not> pr_shuffle_points (prefs w) \<longrightarrow>
      cloud ?c = map (row_point (le_num ev) (prefs w) (pp_points pp)) (pa_rows (pp_points pp))"
    by (simp add: cl rp) (simp add: a_def)
  ultimately show ?thesis
    using w' wf item by (intro exI [of _ w'] exI [of _ ?c]) simp
qed

lemma load_failed:
  assumes "context_pcv w = Some (n0, p)"
    and "PlyPointCloudReader (le_gen ev) (le_fs ev) (p_filepath p) = Inl e"
  shows "\<exists>w'. PCVManager_load_ply_to_cache ev True w = (Inr False, w') \<and> cache w' = cache w \<and>
     objects w' = objects w"
  using assms by (auto simp: PCVManager_load_ply_to_cache_def)

section \<open>Operators called from operators\<close>

lemma bpy_op_ok:
  assumes "poll w" "op w = (s, w')" "\<forall>e. s \<noteq> Raised e" "reports w' = reports w"
  shows "bpy_op poll op w = (s, w')"
  using assms by (simp add: bpy_op_def)

lemma PCV_OT_draw_load:
  assumes "context_pcv (PCVManager_init w) = Some (n0, p)"
    and "dict_get (cache w) (p_uuid p) = None"
    and "PCVManager_load_ply_to_cache ev True
           (upd_pcv n0 (\<lambda>q. q\<lparr>p_uuid := ''''\<rparr>) (PCVManager_init w)) = (Inr True, w1)"
    and "get_pcv w1 n0 = Some p1" "dict_get (cache w1) (p_uuid p1) = Some c"
  shows "PCV_OT_draw ev w = (Finished, tag_redraw (upd_item (p_uuid p1) (\<lambda>c. c\<lparr>ci_draw := True\<rparr>) w1))"
proof -
  have "cache (PCVManager_init w) = cache w"
    by (simp add: PCVManager_init_def)
  then show ?thesis using assms by (simp add: PCV_OT_draw_def)
qed

lemma PCVManager_init_frame [simp]:
  "cache (PCVManager_init w) = cache w" "objects (PCVManager_init w) = objects w"
  "prefs (PCVManager_init w) = prefs w" "context_object (PCVManager_init w) = context_object w"
  "reports (PCVManager_init w) = reports w" "get_pcv (PCVManager_init w) n = get_pcv w n"
  by (simp_all add: PCVManager_init_def get_pcv_def)

lemma context_pcv_cong:
  "context_object w' = context_object w \<Longrightarrow> (\<And>n. get_pcv w' n = get_pcv w n) \<Longrightarrow>
     context_pcv w' = context_pcv w"
  by (simp add: context_pcv_def split: option.splits)

lemma context_pcv_init [simp]: "context_pcv (PCVManager_init w) = context_pcv w"
  by (rule context_pcv_cong) simp_all

lemma context_pcv_upd_item [simp]: "context_pcv (upd_item u f w) = context_pcv w"
  by (rule context_pcv_cong) simp_all

lemma context_pcv_tag_redraw [simp]: "context_pcv (tag_redraw w) = context_pcv w"
  by (rule context_pcv_cong) simp_all

lemma context_pcv_cache [simp]: "context_pcv (w\<lparr>cache := c\<rparr>) = context_pcv w"
  by (rule context_pcv_cong) simp_all

section \<open>Reloading a runtime cloud\<close>

lemma erase_current:
  assumes "context_pcv w = Some (n0, p)" "cache_wf w" "dict_get (cache w) (p_uuid p) = Some v"
    and "ci_ready v" "ci_draw v"
  shows "bpy_op PCV_OT_erase_poll PCV_OT_erase w =
     (Finished, tag_redraw (upd_item (p_uuid p) (\<lambda>c. c\<lparr>ci_draw := False\<rparr>) w))"
proof -
  have "(p_uuid p, v) \<in> set (cache w)" "ci_uuid v = Some (p_uuid p)"
    using assms cache_wf_get by (auto dest: map_of_SomeD)
  then have "PCV_OT_erase_poll w"
    using assms by (force simp: PCV_OT_erase_poll_def shown_def)
  then show ?thesis
    using assms by (simp add: bpy_op_def PCV_OT_erase_def)
qed

text \<open>
  The hiding loop: only the object's own item changes, and only its draw flag; the result
  tells whether it was shown.
\<close>

lemma reload_hide_ok:
  assumes "context_pcv w = Some (n0, p)" "cache_wf w" "set ks \<subseteq> set (dict_keys (cache w))"
    and "dict_get (cache w) (p_uuid p) = Some v" "ci_ready v" "distinct ks"
  shows "\<exists>w'. reload_hide (p_uuid p) ks d w = (Inr (d \<or> ci_draw v \<and> p_uuid p \<in> set ks), w') \<and>
     cache_wf w' \<and> context_pcv w' = context_pcv w \<and> objects w' = objects w \<and> prefs w' = prefs w \<and>
     reports w' = reports w \<and> context_object w' = context_object w \<and>
     dict_get (cache w') (p_uuid p) = Some (v\<lparr>ci_draw := ci_draw v \<and> p_uuid p \<notin> set ks\<rparr>) \<and>
     (\<forall>k. k \<noteq> p_uuid p \<longrightarrow> dict_get (cache w') k = dict_get (cache w) k)"
  using assms
proof (induction ks arbitrary: d w v)
  case Nil
  then show ?case by simp
next
  case (Cons k ks)
  obtain x where x: "dict_get (cache w) k = Some x"
    using Cons.prems(3) dict_keys_get [of k "cache w"] by auto
  have ux: "ci_uuid x = Some k"
    using cache_wf_get(1) [OF Cons.prems(2) x] .
  show ?case
  proof (cases "k = p_uuid p \<and> ci_draw v")
    case True
    then have xv: "x = v" using x Cons.prems(4) by simp
    let ?w = "tag_redraw (upd_item (p_uuid p) (\<lambda>c. c\<lparr>ci_draw := False\<rparr>) w)"
    have e: "bpy_op PCV_OT_erase_poll PCV_OT_erase w = (Finished, ?w)"
      using erase_current [OF Cons.prems(1,2,4,5)] True by simp
    have wf: "cache_wf ?w"
      using Cons.prems(2) cache_wf_get [OF Cons.prems(2)] by (auto intro!: cache_wf_upd_item)
    have "\<exists>w'. reload_hide (p_uuid p) ks True ?w =
        (Inr (True \<or> ci_draw (v\<lparr>ci_draw := False\<rparr>) \<and> p_uuid p \<in> set ks), w') \<and>
        cache_wf w' \<and> context_pcv w' = context_pcv ?w \<and> objects w' = objects ?w \<and> prefs w' = prefs ?w \<and>
        reports w' = reports ?w \<and> context_object w' = context_object ?w \<and>
        dict_get (cache w') (p_uuid p) = Some ((v\<lparr>ci_draw := False\<rparr>)
          \<lparr>ci_draw := ci_draw (v\<lparr>ci_draw := False\<rparr>) \<and> p_uuid p \<notin> set ks\<rparr>) \<and>
        (\<forall>k. k \<noteq> p_uuid p \<longrightarrow> dict_get (cache w') k = dict_get (cache ?w) k)"
      using Cons.prems wf by (intro Cons.IH) (auto simp: dict_get_upd_item)
    then show ?thesis
      using True x ux xv e Cons.prems(5) by (auto simp: dict_get_upd_item)
  next
    case False
    then have step: "reload_hide (p_uuid p) (k # ks) d w = reload_hide (p_uuid p) ks d w"
      using x ux Cons.prems(4) by auto
    have "set ks \<subseteq> set (dict_keys (cache w))" "distinct ks"
      using Cons.prems(3,6) by auto
    from Cons.IH [OF Cons.prems(1,2) this(1) Cons.prems(4,5) this(2), of d]
    show ?thesis unfolding step using False by auto
  qed
qed

lemma cache_wf_set_draw: "cache_wf w \<Longrightarrow> cache_wf (upd_item u (\<lambda>c. c\<lparr>ci_draw := b\<rparr>) w)"
  by (rule cache_wf_upd_item) (simp_all add: cache_wf_get)

lemma draw_cached:
  assumes "context_pcv w = Some (n0, p)" "dict_get (cache w) (p_uuid p) = Some v"
  shows "PCV_OT_draw ev w =
     (Finished, tag_redraw (upd_item (p_uuid p) (\<lambda>c. c\<lparr>ci_draw := True\<rparr>) (PCVManager_init w)))"
  using assms iffD1 [OF context_pcv_get assms(1)] by (simp add: PCV_OT_draw_def)

lemma draw_hidden:
  assumes "context_pcv w = Some (n0, p)" "dict_get (cache w) (p_uuid p) = Some v"
    and "ci_uuid v = Some (p_uuid p)" "ci_ready v" "\<not> ci_draw v"
  shows "bpy_op PCV_OT_draw_poll (PCV_OT_draw ev) w =
     (Finished, tag_redraw (upd_item (p_uuid p) (\<lambda>c. c\<lparr>ci_draw := True\<rparr>) (PCVManager_init w)))"
proof (rule bpy_op_ok)
  have "(p_uuid p, v) \<in> set (cache w)"
    using assms(2) by (rule map_of_SomeD)
  then show "PCV_OT_draw_poll w"
    using assms by (auto simp: PCV_OT_draw_poll_def Let_def)
qed (use draw_cached [OF assms(1,2)] in auto)

lemma reload_runtime_update:
  assumes "dict_get (cache w) u = Some v" "ci_object v = Some n" "get_pcv w n = Some p"
    and "ci_points v = Some a" "has_fields (xyz @ nxyz) a" "ci_colors_original v = Some cs"
  shows "reload_runtime ne u w = (Inr (), tag_redraw (w\<lparr>cache := AList.update u
     (updated_item w p (column3 ne a xyz) (Some (column3 ne a nxyz)) (Some cs) v) (cache w)\<rparr>))"
  using assms by (simp add: reload_runtime_def update_some)

lemma PCV_OT_reload_runtime:
  assumes ctx: "context_pcv w = Some (n0, p)" and wf: "cache_wf w" "objects_ok w"
    and run: "p_runtime p"
    and v: "dict_get (cache w) (p_uuid p) = Some v" "ci_ready v" "ci_object v = Some n0"
    and pts: "ci_points v = Some a" "has_fields (xyz @ nxyz) a"
      "ci_colors_original v = Some cs" "length cs = length (pa_rows a)"
  shows "\<exists>w' c. PCV_OT_reload ev w = (Finished, w') \<and> cache_wf w' \<and>
     dict_get (cache w') (p_uuid p) = Some c \<and> ci_draw c = ci_draw v \<and>
     ci_vertices c = Some (column3 (le_num ev) a xyz) \<and>
     ci_normals c = Some (column3 (le_num ev) a nxyz) \<and> ci_colors c = Some cs"
proof -
  let ?u = "p_uuid p" and ?vs = "column3 (le_num ev) a xyz" and ?ns = "column3 (le_num ev) a nxyz"
  have mem: "?u \<in> set (dict_keys (cache w))"
    using v(1) dict_keys_get [of ?u "cache w"] by blast
  have dist: "distinct (dict_keys (cache w))"
    using wf(1) by (simp add: cache_wf_def)
  obtain w1 where w1: "reload_hide ?u (dict_keys (cache w)) False w = (Inr (ci_draw v), w1)"
      "cache_wf w1" "context_pcv w1 = context_pcv w" "objects w1 = objects w"
      "dict_get (cache w1) ?u = Some (v\<lparr>ci_draw := False\<rparr>)"
    using reload_hide_ok [OF ctx wf(1) subset_refl v(1,2) dist, of False] mem by auto
  have p: "get_pcv w1 n0 = Some p" "objects_ok w1"
    using ctx w1(4) wf(2) by (auto simp: context_pcv_get get_pcv_def objects_ok_def)
  let ?c = "updated_item w1 p ?vs (Some ?ns) (Some cs) (v\<lparr>ci_draw := False\<rparr>)"
  let ?w2 = "tag_redraw (w1\<lparr>cache := AList.update ?u ?c (cache w1)\<rparr>)"
  have rr: "reload_runtime (le_num ev) ?u w1 = (Inr (), ?w2)"
    using reload_runtime_update [OF w1(5), of n0 p a cs] v(3) p pts by simp
  have len: "length ?ns = length ?vs" "length cs = length ?vs"
    using pts(4) by (simp_all add: column3_map)
  have wf2: "cache_wf ?w2"
    using update_cache_wf [OF w1(2) p(2) w1(5), of n0 p ?vs "Some ?ns" "Some cs"] v(3) p(1) len
    by (simp add: update_some [OF w1(5)])
  have ctx2: "context_pcv ?w2 = Some (n0, p)"
    using ctx w1(3) by simp
  have uu: "ci_uuid ?c = Some ?u"
    using cache_wf_get(1) [OF wf(1) v(1)] by simp
  show ?thesis
  proof (cases "ci_draw v")
    case True
    let ?w3 = "tag_redraw (upd_item ?u (\<lambda>c. c\<lparr>ci_draw := True\<rparr>) (PCVManager_init ?w2))"
    have "bpy_op PCV_OT_draw_poll (PCV_OT_draw ev) ?w2 = (Finished, ?w3)"
      using ctx2 uu v(2) by (intro draw_hidden [where v = ?c]) simp_all
    then have "PCV_OT_reload ev w = (Finished, ?w3)"
      using True run rr by (simp add: PCV_OT_reload_def ctx w1(1))
    moreover have "cache_wf ?w3"
    proof -
      have "cache_wf (PCVManager_init ?w2)"
        using wf2 by (subst cache_wf_cong [of _ ?w2]) simp_all
      then show ?thesis by (simp add: cache_wf_set_draw)
    qed
    moreover have "dict_get (cache ?w3) ?u = Some (?c\<lparr>ci_draw := True\<rparr>)"
      by (simp add: dict_get_upd_item)
    ultimately show ?thesis using True by (intro exI [of _ ?w3] exI [of _ "?c\<lparr>ci_draw := True\<rparr>"]) simp
  next
    case False
    then have "PCV_OT_reload ev w = (Finished, ?w2)"
      using run rr by (simp add: PCV_OT_reload_def ctx w1(1))
    then show ?thesis using wf2 False by (intro exI [of _ ?w2] exI [of _ ?c]) simp
  qed
qed

end
