(* ===== verification/PCV_Filters.thy ===== *)
theory PCV_Filters
  imports PCV_Load_Facts
begin

text \<open>
  The filter operators: select by colour, deselect, delete selected, boolean intersect and
  exclude, merge with a file, join with another cloud, simplify and project. Each reads the
  three arrays of the context object's cache item and hands new ones to \<open>PCVManager.update\<close>.
\<close>

type_synonym point = "v3 \<times> v3 \<times> v4"

section \<open>Vectors, matrices and what Blender computes\<close>

definition v3_sub :: "v3 \<Rightarrow> v3 \<Rightarrow> v3" where
  "v3_sub a b = (fst a - fst b, fst (snd a) - fst (snd b), snd (snd a) - snd (snd b))"

definition v3_add :: "v3 \<Rightarrow> v3 \<Rightarrow> v3" where
  "v3_add a b = (fst a + fst b, fst (snd a) + fst (snd b), snd (snd a) + snd (snd b))"

definition v3_scale :: "real \<Rightarrow> v3 \<Rightarrow> v3" where
  "v3_scale k a = (k * fst a, k * fst (snd a), k * snd (snd a))"

definition v3_dot :: "v3 \<Rightarrow> v3 \<Rightarrow> real" where
  "v3_dot a b = fst a * fst b + fst (snd a) * fst (snd b) + snd (snd a) * snd (snd b)"

definition v3_length :: "v3 \<Rightarrow> real" where
  "v3_length a = sqrt (v3_dot a a)"

definition v3_distance :: "v3 \<Rightarrow> v3 \<Rightarrow> real" where
  "v3_distance a b = v3_length (v3_sub a b)"

text \<open>\<open>Vector.normalized\<close>; the zero vector stays.\<close>

definition v3_normalized :: "v3 \<Rightarrow> v3" where
  "v3_normalized a = (if v3_length a = 0 then a else v3_scale (1 / v3_length a) a)"

definition mat_row :: "v4 \<Rightarrow> v3 \<Rightarrow> real" where
  "mat_row r v = (case r of (a, b, c, d) \<Rightarrow> case v of (x, y, z) \<Rightarrow> a * x + b * y + c * z + d)"

definition mat_apply :: "mat4 \<Rightarrow> v3 \<Rightarrow> v3" where
  "mat_apply m v = (mat_row (m ! 0) v, mat_row (m ! 1) v, mat_row (m ! 2) v)"

text \<open>
  \<open>mathutils\<close> and the scene: a colour's hue, saturation and value and the way back, inverse
  and rotation part of a matrix, the distance to the nearest point of a \<open>KDTree\<close>, and the
  mesh object made from the object of that name and a list of matrices applied to it.
\<close>

record target_mesh =
  tg_bound_box :: "v3 list"
  tg_closest_point :: "v3 \<Rightarrow> (v3 \<times> v3) option"
  tg_ray_cast :: "v3 \<Rightarrow> v3 \<Rightarrow> real \<Rightarrow> (v3 \<times> v3 \<times> nat) option"

record blender =
  bl_hsv :: "v3 \<Rightarrow> v3"
  bl_from_hsv :: "v3 \<Rightarrow> v3"
  bl_inverted :: "mat4 \<Rightarrow> py_error + mat4"
  bl_rotation :: "mat4 \<Rightarrow> mat4"
  bl_nearest :: "v3 list \<Rightarrow> v3 \<Rightarrow> real"
  bl_target :: "string \<Rightarrow> mat4 list \<Rightarrow> target_mesh"
  bl_weights :: "v3 list \<Rightarrow> v3 \<Rightarrow> real list"
  bl_barycentric :: "v3 \<Rightarrow> v3 \<Rightarrow> v3 \<Rightarrow> v3 \<Rightarrow> v3 \<Rightarrow> v3 \<Rightarrow> v3 \<Rightarrow> v3"

text \<open>Python's \<open>round\<close>: to the nearest, ties to the even neighbour.\<close>

definition py_round :: "real \<Rightarrow> int" where
  "py_round x =
     (let f = \<lfloor>x\<rfloor>; d = x - real_of_int f
      in if d < 1 / 2 then f else if 1 / 2 < d then f + 1 else if even f then f else f + 1)"

definition round_digits :: "nat \<Rightarrow> real \<Rightarrow> real" where
  "round_digits n x = real_of_int (py_round (x * 10 ^ n)) / 10 ^ n"

text \<open>The context object's item with its three arrays, as every filter starts.\<close>

definition context_arrays ::
    "world \<Rightarrow> py_error + (string \<times> pcv \<times> cache_item \<times> v3 list \<times> v3 list \<times> v4 list)" where
  "context_arrays w =
     (case context_pcv w of
        None \<Rightarrow> Inl AttributeError
      | Some (n0, p) \<Rightarrow>
          (case dict_get (cache w) (p_uuid p) of
             None \<Rightarrow> Inl (KeyError (p_uuid p))
           | Some c \<Rightarrow> bindE (ci_arrays c) (\<lambda>(vs, ns, cs). Inr (n0, p, c, vs, ns, cs))))"

section \<open>Selecting by colour\<close>

definition remove_color_target :: "remove_color_settings \<Rightarrow> v3" where
  "remove_color_target s =
     (let f = (\<lambda>c. real_of_int (py_int (c powr (1 / 2.2) * 256)) / 256)
      in case rc_color s of (r, g, b) \<Rightarrow> (f r, f g, f b))"

definition same_color :: "v3 \<Rightarrow> v3 \<Rightarrow> bool" where
  "same_color a b \<longleftrightarrow>
     round_digits 5 (fst a) = round_digits 5 (fst b) \<and>
     round_digits 5 (fst (snd a)) = round_digits 5 (fst (snd b)) \<and>
     round_digits 5 (snd (snd a)) = round_digits 5 (snd (snd b))"

definition hue_distance :: "real \<Rightarrow> real \<Rightarrow> real" where
  "hue_distance a b = min \<bar>a - b\<bar> (1 - \<bar>a - b\<bar>)"

text \<open>The chain of cases over which channels are used.\<close>

definition color_case :: "bool \<Rightarrow> bool \<Rightarrow> bool \<Rightarrow> bool \<Rightarrow> bool \<Rightarrow> bool \<Rightarrow> bool" where
  "color_case uh us uv h s v =
     (if uh \<and> \<not> us \<and> \<not> uv then h
      else if \<not> uh \<and> us \<and> \<not> uv then s
      else if \<not> uh \<and> \<not> us \<and> uv then v
      else if uh \<and> us \<and> \<not> uv then h \<and> s
      else if \<not> uh \<and> us \<and> uv then s \<and> v
      else if uh \<and> \<not> us \<and> uv then h \<and> v
      else if uh \<and> us \<and> uv then h \<and> s \<and> v
      else False)"

definition color_selected :: "blender \<Rightarrow> remove_color_settings \<Rightarrow> v4 \<Rightarrow> bool" where
  "color_selected bl s col =
     (case col of (r, g, b, _) \<Rightarrow>
        let c = (r, g, b); rm = remove_color_target s
        in if same_color c rm then True
           else
             (let (ch, cs, cv) = bl_hsv bl c;
                  (rh, rs, rv) = bl_hsv bl rm;
                  h = rc_delta_hue_use s \<and> hue_distance rh ch \<le> rc_delta_hue s / 2;
                  sa = rc_delta_saturation_use s \<and>
                       rs - rc_delta_saturation s < cs \<and> cs < rs + rc_delta_saturation s;
                  va = rc_delta_value_use s \<and>
                       rv - rc_delta_value s < cv \<and> cv < rv + rc_delta_value s
              in color_case (rc_delta_hue_use s) (rc_delta_saturation_use s) (rc_delta_value_use s) h sa va))"

definition PCV_OT_filter_remove_color :: "blender \<Rightarrow> world \<Rightarrow> status \<times> world" where
  "PCV_OT_filter_remove_color bl w =
     (case context_arrays w of
        Inl e \<Rightarrow> (Raised e, w)
      | Inr (n0, p, c, vs, ns, cs) \<Rightarrow>
          (let idx = filter (\<lambda>i. color_selected bl (p_remove_color p) (cs ! i)) [0..<length vs];
               w1 = (if idx = [] then report ''INFO'' ''Nothing selected.'' w
                     else upd_item (p_uuid p) (\<lambda>c. c\<lparr>ci_selection_indexes := Some idx\<rparr>)
                            (upd_pcv n0 (\<lambda>q. q\<lparr>p_filter_remove_color_selection := True\<rparr>) w))
           in (Finished, tag_redraw w1)))"

definition PCV_OT_filter_remove_color_deselect_poll :: "world \<Rightarrow> bool" where
  "PCV_OT_filter_remove_color_deselect_poll w =
     (case context_pcv w of
        None \<Rightarrow> False
      | Some (_, p) \<Rightarrow>
          (\<exists>(k, v)\<in>set (cache w). ci_uuid v = Some (p_uuid p) \<and> ci_ready v \<and> ci_draw v \<and>
             p_filter_remove_color_selection p \<and> ci_selection_indexes v \<noteq> None))"

definition PCV_OT_filter_remove_color_deselect :: "world \<Rightarrow> status \<times> world" where
  "PCV_OT_filter_remove_color_deselect w =
     (case context_pcv w of
        None \<Rightarrow> (Raised AttributeError, w)
      | Some (n0, p) \<Rightarrow>
          (case dict_get (cache w) (p_uuid p) of
             None \<Rightarrow> (Raised (KeyError (p_uuid p)), w)
           | Some c \<Rightarrow>
               (let w1 = upd_pcv n0 (\<lambda>q. q\<lparr>p_filter_remove_color_selection := False\<rparr>) w
                in if ci_selection_indexes c = None then (Raised (KeyError ''selection_indexes''), w1)
                   else (Finished, tag_redraw (upd_item (p_uuid p) (\<lambda>c. c\<lparr>ci_selection_indexes := None\<rparr>) w1)))))"

text \<open>Deleting points from the three arrays and storing what is left.\<close>

definition delete_points :: "string \<Rightarrow> nat list \<Rightarrow> world \<Rightarrow> (py_error + unit) \<times> world" where
  "delete_points u idx w =
     (case dict_get (cache w) u of
        None \<Rightarrow> (Inl (KeyError u), w)
      | Some c \<Rightarrow>
          (case bindE (ci_arrays c) (\<lambda>(vs, ns, cs).
                  bindE (np_delete vs idx) (\<lambda>vs'. bindE (np_delete ns idx) (\<lambda>ns'.
                    bindE (np_delete cs idx) (\<lambda>cs'. Inr (vs', ns', cs'))))) of
             Inl e \<Rightarrow> (Inl e, w)
           | Inr (vs', ns', cs') \<Rightarrow> PCVManager_update u vs' (Some ns') (Some cs') w))"

definition PCV_OT_filter_remove_color_delete_selected :: "world \<Rightarrow> status \<times> world" where
  "PCV_OT_filter_remove_color_delete_selected w =
     (case context_arrays w of
        Inl e \<Rightarrow> (Raised e, w)
      | Inr (n0, p, c, vs, ns, cs) \<Rightarrow>
          (case ci_selection_indexes c of
             None \<Rightarrow> (Raised (KeyError ''selection_indexes''), w)
           | Some idx \<Rightarrow>
               (case delete_points (p_uuid p) idx w of
                  (Inl e, w1) \<Rightarrow> (Raised e, w1)
                | (Inr _, w1) \<Rightarrow>
                    (Finished, upd_item (p_uuid p) (\<lambda>c. c\<lparr>ci_selection_indexes := None\<rparr>)
                       (upd_pcv n0 (\<lambda>q. q\<lparr>p_filter_remove_color_selection := False\<rparr>) w1)))))"

section \<open>Boolean filters\<close>

definition list_min :: "real list \<Rightarrow> real" where
  "list_min xs = fold min (tl xs) (hd xs)"

definition list_max :: "real list \<Rightarrow> real" where
  "list_max xs = fold max (tl xs) (hd xs)"

definition is_in_bound_box :: "target_mesh \<Rightarrow> v3 \<Rightarrow> bool" where
  "is_in_bound_box t v =
     (let bs = tg_bound_box t;
          inside = (\<lambda>f. list_min (map f bs) < f v \<and> f v < list_max (map f bs))
      in inside fst \<and> inside (\<lambda>b. fst (snd b)) \<and> inside (\<lambda>b. snd (snd b)))"

definition is_point_inside_mesh_v3 :: "target_mesh \<Rightarrow> v3 \<Rightarrow> bool" where
  "is_point_inside_mesh_v3 t p =
     (case tg_closest_point t p of
        None \<Rightarrow> False
      | Some (loc, nor) \<Rightarrow> 0 \<le> v3_dot (v3_sub loc p) nor)"

definition boolean_poll :: "world \<Rightarrow> bool" where
  "boolean_poll w =
     (case context_pcv w of
        None \<Rightarrow> False
      | Some (_, p) \<Rightarrow> shown w (p_uuid p) \<and>
          (case Option.bind (p_filter_boolean_object p) (dict_get (objects w)) of
             None \<Rightarrow> False
           | Some ob \<Rightarrow> ob_type ob \<in> {''MESH'', ''CURVE'', ''SURFACE'', ''FONT''}))"

text \<open>The target mesh, in the space of the object that owns the points.\<close>

definition boolean_target :: "blender \<Rightarrow> world \<Rightarrow> pcv \<Rightarrow> cache_item \<Rightarrow> py_error + target_mesh" where
  "boolean_target bl w p c =
     (case p_filter_boolean_object p of
        None \<Rightarrow> Inl (Py_Exception '''')
      | Some o' \<Rightarrow>
          (case (dict_get (objects w) o', Option.bind (ci_object c) (dict_get (objects w))) of
             (Some ob, Some me) \<Rightarrow>
               bindE (bl_inverted bl (ob_matrix_world me)) (\<lambda>mi.
                 Inr (bl_target bl o' [ob_matrix_world ob, mi]))
           | _ \<Rightarrow> Inl (Py_Exception ''ReferenceError'')))"

definition intersect_indexes :: "target_mesh \<Rightarrow> v3 list \<Rightarrow> nat list" where
  "intersect_indexes t vs =
     filter (\<lambda>i. if \<not> is_in_bound_box t (vs ! i) then True else \<not> is_point_inside_mesh_v3 t (vs ! i))
       [0..<length vs]"

definition exclude_indexes :: "target_mesh \<Rightarrow> v3 list \<Rightarrow> nat list" where
  "exclude_indexes t vs =
     filter (\<lambda>i. if is_in_bound_box t (vs ! i) then is_point_inside_mesh_v3 t (vs ! i) else False)
       [0..<length vs]"

definition PCV_OT_filter_boolean_intersect :: "blender \<Rightarrow> world \<Rightarrow> status \<times> world" where
  "PCV_OT_filter_boolean_intersect bl w =
     (case context_pcv w of
        None \<Rightarrow> (Raised AttributeError, w)
      | Some (n0, p) \<Rightarrow>
          if p_filter_boolean_object p = None then (Raised (Py_Exception ''''), w)
          else
            (case context_arrays w of
               Inl e \<Rightarrow> (Raised e, w)
             | Inr (_, _, c, vs, ns, cs) \<Rightarrow>
                 (case boolean_target bl w p c of
                    Inl e \<Rightarrow> (Raised e, w)
                  | Inr t \<Rightarrow> status_of (delete_points (p_uuid p) (intersect_indexes t vs) w))))"

definition PCV_OT_filter_boolean_exclude :: "blender \<Rightarrow> world \<Rightarrow> status \<times> world" where
  "PCV_OT_filter_boolean_exclude bl w =
     (case context_pcv w of
        None \<Rightarrow> (Raised AttributeError, w)
      | Some (n0, p) \<Rightarrow>
          if p_filter_boolean_object p = None then (Raised (Py_Exception ''''), w)
          else
            (case context_arrays w of
               Inl e \<Rightarrow> (Raised e, w)
             | Inr (_, _, c, vs, ns, cs) \<Rightarrow>
                 (case boolean_target bl w p c of
                    Inl e \<Rightarrow> (Raised e, w)
                  | Inr t \<Rightarrow> status_of (delete_points (p_uuid p) (exclude_indexes t vs) w))))"

section \<open>Merge and join\<close>

text \<open>Shuffling the three arrays as rows of one structured array.\<close>

definition shuffle_cloud ::
    "bool \<Rightarrow> (nat \<Rightarrow> nat list) \<Rightarrow> v3 list \<times> v3 list \<times> v4 list \<Rightarrow> v3 list \<times> v3 list \<times> v4 list" where
  "shuffle_cloud b perm a =
     (case a of (vs, ns, cs) \<Rightarrow>
        if b
        then (let q = np_shuffle perm (zip vs (zip ns cs))
              in (map fst q, map (\<lambda>x. fst (snd x)) q, map (\<lambda>x. snd (snd x)) q))
        else a)"

definition PCV_OT_filter_merge :: "load_env \<Rightarrow> string \<Rightarrow> world \<Rightarrow> status \<times> world" where
  "PCV_OT_filter_merge ev filepath w =
     (case context_pcv w of
        None \<Rightarrow> (Raised AttributeError, w)
      | Some (n0, p) \<Rightarrow>
          if \<not> is_ply_path filepath then (Cancelled, report ''ERROR'' (not_ply filepath) w)
          else
            (case PlyPointCloudReader (le_gen ev) (le_fs ev) filepath of
               Inl e \<Rightarrow> (Cancelled, report ''ERROR'' (error_text e) w)
             | Inr pp \<Rightarrow>
                 (let a = pp_points pp
                  in if pa_rows a = [] then (Cancelled, report ''ERROR'' (no_vertices filepath) w)
                     else if \<not> has_fields xyz a then (Returned_False, report ''ERROR'' no_locations w)
                     else
                       (let w1 = upd_pcv n0 (set_point_flags a) w
                        in case context_arrays w1 of
                             Inl e \<Rightarrow> (Raised e, w1)
                           | Inr (_, _, c, ovs, ons, ocs) \<Rightarrow>
                               (case shuffle_cloud (pr_shuffle_points (prefs w)) (le_perm ev)
                                       (ovs @ column3 (le_num ev) a xyz, ons @ ply_normals (le_num ev) a,
                                        ocs @ ply_colors (le_num ev) (prefs w) a) of
                                  (vs, ns, cs) \<Rightarrow>
                                    status_of (PCVManager_update (p_uuid p) vs (Some ns) (Some cs) w1))))))"

definition PCV_OT_filter_join_poll :: "world \<Rightarrow> bool" where
  "PCV_OT_filter_join_poll w =
     (case context_pcv w of
        None \<Rightarrow> False
      | Some (_, p) \<Rightarrow>
          (case find (\<lambda>(k, v). ci_uuid v = Some (p_uuid p)) (cache w) of
             None \<Rightarrow> False
           | Some (_, v) \<Rightarrow>
               ci_ready v \<and> ci_draw v \<and>
               (case Option.bind (p_filter_join_object p) (get_pcv w) of
                  None \<Rightarrow> False
                | Some p2 \<Rightarrow>
                    (case find (\<lambda>(k, v). ci_uuid v = Some (p_uuid p2)) (cache w) of
                       None \<Rightarrow> False
                     | Some (_, v2) \<Rightarrow> ci_ready v2))))"

definition apply_matrix :: "blender \<Rightarrow> mat4 \<Rightarrow> v3 list \<times> v3 list \<Rightarrow> v3 list \<times> v3 list" where
  "apply_matrix bl m a = (map (mat_apply m) (fst a), map (mat_apply (bl_rotation bl m)) (snd a))"

definition PCV_OT_filter_join :: "blender \<Rightarrow> (nat \<Rightarrow> nat list) \<Rightarrow> world \<Rightarrow> status \<times> world" where
  "PCV_OT_filter_join bl perm w =
     (case context_pcv w of
        None \<Rightarrow> (Raised AttributeError, w)
      | Some (n0, p) \<Rightarrow>
          (case (Option.bind (p_filter_join_object p) (dict_get (objects w)), dict_get (objects w) n0) of
             (Some ob2, Some ob) \<Rightarrow>
               (case (dict_get (cache w) (p_uuid p), dict_get (cache w) (p_uuid (ob_pcv ob2))) of
                  (None, _) \<Rightarrow> (Raised (KeyError (p_uuid p)), w)
                | (_, None) \<Rightarrow> (Raised (KeyError (p_uuid (ob_pcv ob2))), w)
                | (Some c, Some c2) \<Rightarrow>
                    (case bindE (ci_arrays c) (\<lambda>(ovs, ons, ocs).
                            bindE (ci_arrays c2) (\<lambda>(nvs, nns, ncs).
                              bindE (bl_inverted bl (ob_matrix_world ob)) (\<lambda>mi.
                                let (nvs', nns') =
                                      apply_matrix bl mi (apply_matrix bl (ob_matrix_world ob2) (nvs, nns))
                                in Inr (ovs @ nvs', ons @ nns', ocs @ ncs)))) of
                       Inl e \<Rightarrow> (Raised e, w)
                     | Inr a \<Rightarrow>
                         (case shuffle_cloud (pr_shuffle_points (prefs w)) perm a of
                            (vs, ns, cs) \<Rightarrow>
                              (case PCVManager_update (p_uuid p) vs (Some ns) (Some cs) w of
                                 (Inl e, w1) \<Rightarrow> (Raised e, w1)
                               | (Inr _, w1) \<Rightarrow>
                                   (Finished, tag_redraw (upd_item (p_uuid (ob_pcv ob2))
                                      (\<lambda>c. c\<lparr>ci_draw := False\<rparr>) w1))))))
           | _ \<Rightarrow> (Raised AttributeError, w)))"

end
