(* ===== verification/PCV_Filter_Facts.thy ===== *)
theory PCV_Filter_Facts
  imports PCV_Filters
begin

text \<open>
  What the filters do to the cloud, as lists or multisets of points: selecting and deleting
  keeps exactly the unselected points in order, intersect and exclude split the cloud, merge
  and join add the other points, and every filter keeps the state well-formed.
\<close>

section \<open>Well-formed states\<close>

definition world_ok :: "world \<Rightarrow> bool" where
  "world_ok w \<longleftrightarrow> cache_wf w \<and> objects_ok w \<and> (\<forall>(k, c)\<in>set (cache w). \<not> object_gone w c)"

lemma world_ok_get:
  assumes "world_ok w" "dict_get (cache w) u = Some c"
  obtains n q where "ci_object c = Some n" "ci_name c = Some n" "get_pcv w n = Some q"
    "item_ok c" "ci_uuid c = Some u"
proof -
  have c: "item_ok c" "ci_uuid c = Some u" "\<not> object_gone w c"
    using assms cache_wf_get [of w u c] by (auto simp: world_ok_def dest: map_of_SomeD)
  obtain n where n: "ci_object c = Some n" "ci_name c = Some n"
    using c(1) by (auto elim: item_okE)
  then obtain q where "get_pcv w n = Some q"
    using c(3) by (auto simp: object_gone_def get_pcv_def)
  with that n c show ?thesis by blast
qed

lemma objects_ok_cong: "objects w' = objects w \<Longrightarrow> objects_ok w' = objects_ok w"
  by (simp add: objects_ok_def)

lemma world_ok_update:
  assumes "world_ok w" "item_ok c" "ci_uuid c = Some u" "\<not> object_gone w c"
  shows "world_ok (w\<lparr>cache := AList.update u c (cache w)\<rparr>)"
  using assms cache_wf_update [of w c u]
  by (auto simp: world_ok_def objects_ok_def object_gone_def dest!: dict_update_set)

lemma world_ok_cong:
  assumes "cache w' = cache w" "objects w' = objects w"
  shows "world_ok w' = world_ok w"
  using assms cache_wf_cong [OF assms(1)] objects_ok_cong [OF assms(2)]
  by (simp add: world_ok_def object_gone_def)

lemma world_ok_frame [simp]:
  "world_ok (tag_redraw w) = world_ok w" "world_ok (report l m w) = world_ok w"
  by (rule world_ok_cong; simp)+

text \<open>Changing an object's properties, except for an impossible display percentage.\<close>

lemma object_gone_upd_pcv [simp]: "object_gone (upd_pcv n f w) c = object_gone w c"
  by (cases "ci_name c") (auto simp: object_gone_def upd_pcv_def split: option.splits)

lemma object_gone_upd_item [simp]: "object_gone (upd_item u f w) c = object_gone w c"
  by (simp add: object_gone_def)

lemma world_ok_upd_pcv:
  assumes "world_ok w" and "\<And>p. p_display_percent (f p) = p_display_percent p"
  shows "world_ok (upd_pcv n f w)"
proof -
  have "objects_ok (upd_pcv n f w)"
    using assms by (auto simp: world_ok_def objects_ok_def upd_pcv_def split: option.splits
        dest!: map_of_SomeD dict_update_set)
  then show ?thesis using assms(1) by (simp add: world_ok_def)
qed

lemma world_ok_upd_item:
  assumes "world_ok w"
    and "\<And>c. dict_get (cache w) u = Some c \<Longrightarrow> item_ok c \<Longrightarrow>
       item_ok (f c) \<and> ci_uuid (f c) = ci_uuid c \<and> ci_name (f c) = ci_name c"
  shows "world_ok (upd_item u f w)"
proof (cases "dict_get (cache w) u")
  case None
  then show ?thesis using assms(1) by (simp add: upd_item_def)
next
  case (Some c)
  then obtain n q where "item_ok c" "ci_uuid c = Some u" "\<not> object_gone w c"
    using world_ok_get [OF assms(1) Some] assms(1) by (auto simp: world_ok_def dest!: map_of_SomeD)
  then have "world_ok (w\<lparr>cache := AList.update u (f c) (cache w)\<rparr>)"
    using assms Some by (intro world_ok_update) (auto simp: object_gone_def)
  with Some show ?thesis by (simp add: upd_item_def)
qed

section \<open>Storing arrays\<close>

text \<open>The state after a successful \<open>update\<close> of the item \<open>c\<close>.\<close>

definition stored :: "string \<Rightarrow> v3 list \<Rightarrow> v3 list \<Rightarrow> v4 list \<Rightarrow> pcv \<Rightarrow> cache_item \<Rightarrow> world \<Rightarrow> world" where
  "stored u vs ns cs q c w =
     tag_redraw (w\<lparr>cache := AList.update u (updated_item w q vs (Some ns) (Some cs) c) (cache w)\<rparr>)"

lemma stored_frame [simp]:
  "objects (stored u vs ns cs q c w) = objects w" "get_pcv (stored u vs ns cs q c w) x = get_pcv w x"
  "context_object (stored u vs ns cs q c w) = context_object w"
  "context_pcv (stored u vs ns cs q c w) = context_pcv w"
  "dict_get (cache (stored u vs ns cs q c w)) k =
     (if k = u then Some (updated_item w q vs (Some ns) (Some cs) c) else dict_get (cache w) k)"
  by (simp_all add: stored_def)

lemma cloud_updated [simp]: "cloud (updated_item w q vs (Some ns) (Some cs) c) = zip vs (zip ns cs)"
  by (rule cloud_some) simp_all

lemma update_ok:
  assumes "world_ok w" "dict_get (cache w) u = Some c" "length ns = length vs" "length cs = length vs"
  obtains q where "PCVManager_update u vs (Some ns) (Some cs) w = (Inr (), stored u vs ns cs q c w)"
    "world_ok (stored u vs ns cs q c w)"
proof -
  obtain n q where n: "ci_object c = Some n" "get_pcv w n = Some q" "item_ok c" "ci_uuid c = Some u"
    using world_ok_get [OF assms(1,2)] by blast
  have wf: "cache_wf w" "objects_ok w" using assms(1) by (auto simp: world_ok_def)
  have u: "PCVManager_update u vs (Some ns) (Some cs) w = (Inr (), stored u vs ns cs q c w)"
    using update_some [OF assms(2) n(1,2)] by (simp add: stored_def)
  have "item_ok (updated_item w q vs (Some ns) (Some cs) c)"
    using get_pcv_objects_ok [OF wf(2) n(2)] assms(3,4) n(3) by (intro updated_item_ok) auto
  moreover have "\<not> object_gone w (updated_item w q vs (Some ns) (Some cs) c)"
    using assms(1,2) by (auto simp: world_ok_def object_gone_def dest!: map_of_SomeD)
  ultimately have "world_ok (stored u vs ns cs q c w)"
    using world_ok_update [OF assms(1)] n(4) by (simp add: stored_def)
  with u show ?thesis by (rule that)
qed

lemma context_arraysD:
  assumes "context_arrays w = Inr (n0, p, c, vs, ns, cs)"
  shows "context_pcv w = Some (n0, p)" "dict_get (cache w) (p_uuid p) = Some c"
    "ci_vertices c = Some vs" "ci_normals c = Some ns" "ci_colors c = Some cs"
    "cloud c = zip vs (zip ns cs)"
  using assms
  by (auto simp: context_arrays_def bindE_eq_Inr ci_arrays_def cloud_some split: option.splits)

lemma context_arrays_lengths:
  assumes "world_ok w" "context_arrays w = Inr (n0, p, c, vs, ns, cs)"
  shows "length ns = length vs" "length cs = length vs"
proof -
  have "item_ok c"
    using world_ok_get [OF assms(1)] context_arraysD(2) [OF assms(2)] by blast
  then show "length ns = length vs" "length cs = length vs"
    using context_arraysD(3-5) [OF assms(2)] by (auto elim!: item_okE)
qed

section \<open>Deleting points\<close>

lemma delete_points_ok:
  assumes ok: "world_ok w" and c: "dict_get (cache w) u = Some c"
    and arr: "ci_vertices c = Some vs" "ci_normals c = Some ns" "ci_colors c = Some cs"
    and idx: "\<forall>i\<in>set idx. i < length vs"
  obtains q vs' ns' cs' where
    "delete_points u idx w = (Inr (), stored u vs' ns' cs' q c w)"
    "world_ok (stored u vs' ns' cs' q c w)"
    "zip vs' (zip ns' cs') = drop_rows idx (zip vs (zip ns cs))"
proof -
  have "item_ok c" using world_ok_get [OF ok c] by blast
  then have len: "length ns = length vs" "length cs = length vs"
    using arr by (auto elim!: item_okE)
  let ?v = "drop_rows idx vs" and ?n = "drop_rows idx ns" and ?c = "drop_rows idx cs"
  have z: "zip ?v (zip ?n ?c) = drop_rows idx (zip vs (zip ns cs))"
    using len by (simp add: zip_drop_rows)
  have "length ?n = length ?v" "length ?c = length ?v"
    using length_drop_rows [OF idx] length_drop_rows [of idx ns] length_drop_rows [of idx cs] idx len
    by auto
  then obtain q where "PCVManager_update u ?v (Some ?n) (Some ?c) w = (Inr (), stored u ?v ?n ?c q c w)"
      "world_ok (stored u ?v ?n ?c q c w)"
    using update_ok [OF ok c] by metis
  then show ?thesis
    using that z idx len arr c by (auto simp: delete_points_def ci_arrays_def np_delete_def)
qed

text \<open>Deleting the rows with a property, where the property is one of the points.\<close>

lemma drop_rows_points:
  assumes "length xs = length ys" "\<And>i. i < length xs \<Longrightarrow> P i \<longleftrightarrow> \<not> Q (ys ! i)"
  shows "drop_rows (filter P [0..<length xs]) ys = filter Q ys"
proof -
  have "filter P [0..<length xs] = filter (\<lambda>i. \<not> Q (ys ! i)) [0..<length ys]"
    using assms by (auto intro!: filter_cong)
  then show ?thesis by (simp add: drop_rows_filter)
qed

lemma zip3_nth:
  "i < length vs \<Longrightarrow> length ns = length vs \<Longrightarrow> length cs = length vs \<Longrightarrow>
     zip vs (zip ns cs) ! i = (vs ! i, ns ! i, cs ! i)"
  by simp

lemma drop_rows_colors:
  "length ns = length vs \<Longrightarrow> length cs = length vs \<Longrightarrow>
     drop_rows (filter (\<lambda>i. P (cs ! i)) [0..<length vs]) (zip vs (zip ns cs)) =
     filter (\<lambda>(v, n, c). \<not> P c) (zip vs (zip ns cs))"
  by (auto intro!: drop_rows_points)

section \<open>Selecting by colour\<close>

lemma context_pcv_upd_pcv:
  "context_pcv w = Some (n0, p) \<Longrightarrow> context_pcv (upd_pcv n0 f w) = Some (n0, f p)"
  by (simp add: context_pcv_get get_pcv_upd_pcv)

lemma color_case_iff:
  "color_case uh us uv h s v \<longleftrightarrow>
     (uh \<or> us \<or> uv) \<and> (uh \<longrightarrow> h) \<and> (us \<longrightarrow> s) \<and> (uv \<longrightarrow> v)"
  by (cases uh; cases us; cases uv) (simp_all add: color_case_def)

text \<open>Hues are compared on the circle: the distance of \<open>a\<close> and \<open>b\<close> in either direction.\<close>

lemma hue_distance_circle:
  assumes "0 \<le> a" "a \<le> 1" "0 \<le> b" "b \<le> 1"
  shows "0 \<le> hue_distance a b" "hue_distance a b \<le> 1 / 2"
    "hue_distance a b = hue_distance b a" "hue_distance 0 b = hue_distance 1 b"
  using assms by (auto simp: hue_distance_def min_def abs_if)

lemma remove_color_selects:
  assumes arr: "context_arrays w = Inr (n0, p, c, vs, ns, cs)"
    and some: "\<exists>i<length vs. color_selected bl (p_remove_color p) (cs ! i)"
  shows "PCV_OT_filter_remove_color bl w =
     (Finished, tag_redraw (upd_item (p_uuid p) (\<lambda>c. c\<lparr>ci_selection_indexes :=
          Some (filter (\<lambda>i. color_selected bl (p_remove_color p) (cs ! i)) [0..<length vs])\<rparr>)
        (upd_pcv n0 (\<lambda>q. q\<lparr>p_filter_remove_color_selection := True\<rparr>) w)))"
proof -
  have "filter (\<lambda>i. color_selected bl (p_remove_color p) (cs ! i)) [0..<length vs] \<noteq> []"
    using some by (auto simp: filter_empty_conv)
  then show ?thesis by (simp add: PCV_OT_filter_remove_color_def arr)
qed

lemma context_arrays_selected:
  assumes "context_arrays w = Inr (n0, p, c, vs, ns, cs)"
  shows "context_arrays (tag_redraw (upd_item (p_uuid p) (\<lambda>c. c\<lparr>ci_selection_indexes := s\<rparr>)
       (upd_pcv n0 (\<lambda>q. q\<lparr>p_filter_remove_color_selection := b\<rparr>) w))) =
     Inr (n0, p\<lparr>p_filter_remove_color_selection := b\<rparr>, c\<lparr>ci_selection_indexes := s\<rparr>, vs, ns, cs)"
proof -
  note d = context_arraysD [OF assms]
  have "context_pcv (upd_pcv n0 (\<lambda>q. q\<lparr>p_filter_remove_color_selection := b\<rparr>) w) =
      Some (n0, p\<lparr>p_filter_remove_color_selection := b\<rparr>)"
    using d(1) by (rule context_pcv_upd_pcv)
  then show ?thesis
    using d(2-5) by (simp add: context_arrays_def dict_get_upd_item ci_arrays_def)
qed

lemma delete_selected_ok:
  assumes ok: "world_ok w" and arr: "context_arrays w = Inr (n0, p, c, vs, ns, cs)"
    and idx: "ci_selection_indexes c = Some idx" "\<forall>i\<in>set idx. i < length vs"
  shows "\<exists>w' c'. PCV_OT_filter_remove_color_delete_selected w = (Finished, w') \<and> world_ok w' \<and>
     dict_get (cache w') (p_uuid p) = Some c' \<and> cloud c' = drop_rows idx (cloud c) \<and>
     ci_selection_indexes c' = None \<and> ci_draw c' = ci_draw c \<and>
     map_option p_filter_remove_color_selection (get_pcv w' n0) = Some False"
proof -
  note d = context_arraysD [OF arr]
  obtain q vs' ns' cs' where del: "delete_points (p_uuid p) idx w = (Inr (), stored (p_uuid p) vs' ns' cs' q c w)"
      and ok': "world_ok (stored (p_uuid p) vs' ns' cs' q c w)"
      and z: "zip vs' (zip ns' cs') = drop_rows idx (zip vs (zip ns cs))"
    by (rule delete_points_ok [OF ok d(2-5) idx(2)])
  let ?w = "upd_item (p_uuid p) (\<lambda>c. c\<lparr>ci_selection_indexes := None\<rparr>)
      (upd_pcv n0 (\<lambda>q. q\<lparr>p_filter_remove_color_selection := False\<rparr>) (stored (p_uuid p) vs' ns' cs' q c w))"
  have "PCV_OT_filter_remove_color_delete_selected w = (Finished, ?w)"
    by (simp add: PCV_OT_filter_remove_color_delete_selected_def arr idx(1) del)
  moreover have "world_ok ?w"
    using ok' by (intro world_ok_upd_item world_ok_upd_pcv) auto
  ultimately show ?thesis
    using z d(1,6) by (simp add: dict_get_upd_item get_pcv_upd_pcv context_pcv_get)
qed

section \<open>Boolean filters\<close>

definition inside_target :: "target_mesh \<Rightarrow> v3 \<Rightarrow> bool" where
  "inside_target t v \<longleftrightarrow> is_in_bound_box t v \<and> is_point_inside_mesh_v3 t v"

lemma boolean_indexes:
  assumes "length ns = length vs" "length cs = length vs"
  shows "drop_rows (intersect_indexes t vs) (zip vs (zip ns cs)) =
      filter (\<lambda>(v, n, c). inside_target t v) (zip vs (zip ns cs))"
    and "drop_rows (exclude_indexes t vs) (zip vs (zip ns cs)) =
      filter (\<lambda>(v, n, c). \<not> inside_target t v) (zip vs (zip ns cs))"
  using assms unfolding intersect_indexes_def exclude_indexes_def inside_target_def
  by (auto intro!: drop_rows_points)

lemma boolean_ok:
  assumes ok: "world_ok w" and arr: "context_arrays w = Inr (n0, p, c, vs, ns, cs)"
    and t: "boolean_target bl w p c = Inr t"
  shows "\<exists>w' c'. PCV_OT_filter_boolean_intersect bl w = (Finished, w') \<and> world_ok w' \<and>
      dict_get (cache w') (p_uuid p) = Some c' \<and>
      cloud c' = filter (\<lambda>(v, n, c). inside_target t v) (cloud c)"
    and "\<exists>w' c'. PCV_OT_filter_boolean_exclude bl w = (Finished, w') \<and> world_ok w' \<and>
      dict_get (cache w') (p_uuid p) = Some c' \<and>
      cloud c' = filter (\<lambda>(v, n, c). \<not> inside_target t v) (cloud c)"
proof -
  note d = context_arraysD [OF arr] and len = context_arrays_lengths [OF ok arr]
  have obj: "p_filter_boolean_object p \<noteq> None"
    using t by (auto simp: boolean_target_def split: option.splits)
  have i: "\<forall>i\<in>set (intersect_indexes t vs). i < length vs" "\<forall>i\<in>set (exclude_indexes t vs). i < length vs"
    by (auto simp: intersect_indexes_def exclude_indexes_def)
  show "\<exists>w' c'. PCV_OT_filter_boolean_intersect bl w = (Finished, w') \<and> world_ok w' \<and>
      dict_get (cache w') (p_uuid p) = Some c' \<and>
      cloud c' = filter (\<lambda>(v, n, c). inside_target t v) (cloud c)"
    by (rule delete_points_ok [OF ok d(2-5) i(1)])
      (use obj d t arr boolean_indexes(1) [OF len, of t] in
        \<open>auto simp: PCV_OT_filter_boolean_intersect_def\<close>)
  show "\<exists>w' c'. PCV_OT_filter_boolean_exclude bl w = (Finished, w') \<and> world_ok w' \<and>
      dict_get (cache w') (p_uuid p) = Some c' \<and>
      cloud c' = filter (\<lambda>(v, n, c). \<not> inside_target t v) (cloud c)"
    by (rule delete_points_ok [OF ok d(2-5) i(2)])
      (use obj d t arr boolean_indexes(2) [OF len, of t] in
        \<open>auto simp: PCV_OT_filter_boolean_exclude_def\<close>)
qed

text \<open>Selecting and then deleting keeps the points that are not selected, in order.\<close>

lemma select_delete:
  assumes ok: "world_ok w" and arr: "context_arrays w = Inr (n0, p, c, vs, ns, cs)"
    and some: "\<exists>i<length vs. color_selected bl (p_remove_color p) (cs ! i)"
  shows "\<exists>w1 w2 c'. PCV_OT_filter_remove_color bl w = (Finished, w1) \<and>
     PCV_OT_filter_remove_color_delete_selected w1 = (Finished, w2) \<and> world_ok w2 \<and>
     dict_get (cache w2) (p_uuid p) = Some c' \<and>
     cloud c' = filter (\<lambda>(v, n, col). \<not> color_selected bl (p_remove_color p) col) (cloud c)"
proof -
  note d = context_arraysD [OF arr] and len = context_arrays_lengths [OF ok arr]
  let ?P = "\<lambda>i. color_selected bl (p_remove_color p) (cs ! i)"
  let ?idx = "filter ?P [0..<length vs]"
  let ?w1 = "tag_redraw (upd_item (p_uuid p) (\<lambda>c. c\<lparr>ci_selection_indexes := Some ?idx\<rparr>)
      (upd_pcv n0 (\<lambda>q. q\<lparr>p_filter_remove_color_selection := True\<rparr>) w))"
  have w1: "PCV_OT_filter_remove_color bl w = (Finished, ?w1)"
    by (rule remove_color_selects [OF arr some])
  have "world_ok (upd_pcv n0 (\<lambda>q. q\<lparr>p_filter_remove_color_selection := True\<rparr>) w)"
    using ok by (rule world_ok_upd_pcv) simp
  then have ok1: "world_ok ?w1"
    unfolding world_ok_frame by (rule world_ok_upd_item) simp
  note arr1 = context_arrays_selected [OF arr, of "Some ?idx" True]
  have sel: "ci_selection_indexes (c\<lparr>ci_selection_indexes := Some ?idx\<rparr>) = Some ?idx"
    and idx: "\<forall>i\<in>set ?idx. i < length vs" by simp_all
  obtain w2 c' where w2: "PCV_OT_filter_remove_color_delete_selected ?w1 = (Finished, w2)" "world_ok w2"
      "dict_get (cache w2) (p_uuid (p\<lparr>p_filter_remove_color_selection := True\<rparr>)) = Some c'"
      "cloud c' = drop_rows ?idx (cloud (c\<lparr>ci_selection_indexes := Some ?idx\<rparr>))"
    using delete_selected_ok [OF ok1 arr1 sel idx] by blast
  have "drop_rows ?idx (zip vs (zip ns cs)) =
      filter (\<lambda>(v, n, col). \<not> color_selected bl (p_remove_color p) col) (zip vs (zip ns cs))"
    using len by (rule drop_rows_colors)
  with w1 w2 d(6) show ?thesis by (intro exI [of _ ?w1] exI [of _ w2] exI [of _ c']) simp
qed

section \<open>Merge and join\<close>

lemma shuffle_cloud_ok:
  assumes "is_shuffle perm" "length ns = length vs" "length cs = length vs"
    and "shuffle_cloud b perm (vs, ns, cs) = (vs', ns', cs')"
  shows "length ns' = length vs'" "length cs' = length vs'"
    "mset (zip vs' (zip ns' cs')) = mset (zip vs (zip ns cs))"
    "\<not> b \<Longrightarrow> zip vs' (zip ns' cs') = zip vs (zip ns cs)"
proof -
  have "zip (map fst q) (zip (map (\<lambda>x. fst (snd x)) q) (map (\<lambda>x. snd (snd x)) q)) = q"
    for q :: "(v3 \<times> v3 \<times> v4) list"
    by (induction q) auto
  then show "length ns' = length vs'" "length cs' = length vs'"
    "mset (zip vs' (zip ns' cs')) = mset (zip vs (zip ns cs))"
    "\<not> b \<Longrightarrow> zip vs' (zip ns' cs') = zip vs (zip ns cs)"
    using assms np_shuffle_mset [OF assms(1), of "zip vs (zip ns cs)"]
    by (auto simp: shuffle_cloud_def Let_def split: if_splits)
qed

lemma context_arrays_upd_pcv:
  assumes "context_arrays w = Inr (n0, p, c, vs, ns, cs)" "p_uuid (f p) = p_uuid p"
  shows "context_arrays (upd_pcv n0 f w) = Inr (n0, f p, c, vs, ns, cs)"
  using context_arraysD [OF assms(1)] context_pcv_upd_pcv [of w n0 p f] assms(2)
  by (simp add: context_arrays_def ci_arrays_def)

lemma merge_ok:
  assumes ok: "world_ok w" "is_shuffle (le_perm ev)"
    and arr: "context_arrays w = Inr (n0, p, c, vs, ns, cs)"
    and ply: "is_ply_path path" "PlyPointCloudReader (le_gen ev) (le_fs ev) path = Inr pp"
      "pa_rows (pp_points pp) \<noteq> []" "has_fields xyz (pp_points pp)"
  shows "\<exists>w' c'. PCV_OT_filter_merge ev path w = (Finished, w') \<and> world_ok w' \<and>
     dict_get (cache w') (p_uuid p) = Some c' \<and>
     mset (cloud c') = mset (cloud c) +
       mset (map (row_point (le_num ev) (prefs w) (pp_points pp)) (pa_rows (pp_points pp)))"
proof -
  let ?a = "pp_points pp"
  note d = context_arraysD [OF arr] and len = context_arrays_lengths [OF ok(1) arr]
  let ?w1 = "upd_pcv n0 (set_point_flags ?a) w"
  let ?vs = "vs @ column3 (le_num ev) ?a xyz" and ?ns = "ns @ ply_normals (le_num ev) ?a"
    and ?cs = "cs @ ply_colors (le_num ev) (prefs w) ?a"
  have ok1: "world_ok ?w1"
    using ok(1) by (rule world_ok_upd_pcv) (simp add: set_point_flags_def)
  have arr1: "context_arrays ?w1 = Inr (n0, set_point_flags ?a p, c, vs, ns, cs)"
    using arr by (rule context_arrays_upd_pcv) (simp add: set_point_flags_def)
  obtain vs' ns' cs' where sh:
      "shuffle_cloud (pr_shuffle_points (prefs w)) (le_perm ev) (?vs, ?ns, ?cs) = (vs', ns', cs')"
    by (metis prod_cases3)
  have len2: "length ?ns = length ?vs" "length ?cs = length ?vs"
    using len by (simp_all add: column3_map ply_normals_map ply_colors_map)
  note s = shuffle_cloud_ok [OF ok(2) len2 sh]
  have c1: "dict_get (cache ?w1) (p_uuid p) = Some c" using d(2) by simp
  obtain q where q: "PCVManager_update (p_uuid p) vs' (Some ns') (Some cs') ?w1 =
        (Inr (), stored (p_uuid p) vs' ns' cs' q c ?w1)"
      "world_ok (stored (p_uuid p) vs' ns' cs' q c ?w1)"
    by (rule update_ok [OF ok1 c1 s(1,2)])
  have "zip ?vs (zip ?ns ?cs) = zip vs (zip ns cs) @ map (row_point (le_num ev) (prefs w) ?a) (pa_rows ?a)"
    using len by (simp add: file_points)
  then have "mset (zip vs' (zip ns' cs')) = mset (cloud c) +
      mset (map (row_point (le_num ev) (prefs w) ?a) (pa_rows ?a))"
    using s(3) d(6) by simp
  moreover have "PCV_OT_filter_merge ev path w = (Finished, stored (p_uuid p) vs' ns' cs' q c ?w1)"
    using d(1) ply arr1 sh q(1) by (simp add: PCV_OT_filter_merge_def Let_def)
  ultimately show ?thesis
    using q(2) by (intro exI [of _ "stored (p_uuid p) vs' ns' cs' q c ?w1"]) simp
qed

text \<open>The points a join adds, in the space of the context object.\<close>

definition joined_point :: "blender \<Rightarrow> mat4 \<Rightarrow> mat4 \<Rightarrow> point \<Rightarrow> point" where
  "joined_point bl m mi x =
     (case x of (v, n, c) \<Rightarrow>
        (mat_apply mi (mat_apply m v), mat_apply (bl_rotation bl mi) (mat_apply (bl_rotation bl m) n), c))"

lemma join_ok:
  assumes ok: "world_ok w" "is_shuffle perm"
    and arr: "context_arrays w = Inr (n0, p, c, vs, ns, cs)"
    and other: "p_filter_join_object p = Some n2" "dict_get (objects w) n2 = Some ob2"
      "dict_get (cache w) (p_uuid (ob_pcv ob2)) = Some c2" "p_uuid (ob_pcv ob2) \<noteq> p_uuid p"
    and mi: "dict_get (objects w) n0 = Some ob" "bl_inverted bl (ob_matrix_world ob) = Inr mi"
  shows "\<exists>w' c'. PCV_OT_filter_join bl perm w = (Finished, w') \<and> world_ok w' \<and>
     dict_get (cache w') (p_uuid p) = Some c' \<and>
     mset (cloud c') = mset (cloud c) + mset (map (joined_point bl (ob_matrix_world ob2) mi) (cloud c2)) \<and>
     dict_get (cache w') (p_uuid (ob_pcv ob2)) = Some (c2\<lparr>ci_draw := False\<rparr>)"
proof -
  note d = context_arraysD [OF arr] and len = context_arrays_lengths [OF ok(1) arr]
  have "item_ok c2" using world_ok_get [OF ok(1) other(3)] by blast
  then obtain nvs nns ncs where c2: "ci_vertices c2 = Some nvs" "ci_normals c2 = Some nns"
      "ci_colors c2 = Some ncs" "length nns = length nvs" "length ncs = length nvs"
    by (auto elim!: item_okE)
  let ?m = "ob_matrix_world ob2"
  let ?vs = "vs @ map (mat_apply mi) (map (mat_apply ?m) nvs)"
    and ?ns = "ns @ map (mat_apply (bl_rotation bl mi)) (map (mat_apply (bl_rotation bl ?m)) nns)"
    and ?cs = "cs @ ncs"
  obtain vs' ns' cs' where sh:
      "shuffle_cloud (pr_shuffle_points (prefs w)) perm (?vs, ?ns, ?cs) = (vs', ns', cs')"
    by (metis prod_cases3)
  have len2: "length ?ns = length ?vs" "length ?cs = length ?vs"
    using len c2 by simp_all
  note s = shuffle_cloud_ok [OF ok(2) len2 sh]
  obtain q where q: "PCVManager_update (p_uuid p) vs' (Some ns') (Some cs') w =
        (Inr (), stored (p_uuid p) vs' ns' cs' q c w)" "world_ok (stored (p_uuid p) vs' ns' cs' q c w)"
    by (rule update_ok [OF ok(1) d(2) s(1,2)])
  let ?w' = "tag_redraw (upd_item (p_uuid (ob_pcv ob2)) (\<lambda>c. c\<lparr>ci_draw := False\<rparr>)
      (stored (p_uuid p) vs' ns' cs' q c w))"
  have "zip ?vs (zip ?ns ?cs) = zip vs (zip ns cs) @ map (joined_point bl ?m mi) (zip nvs (zip nns ncs))"
    using len c2(4,5) by (simp add: zip_map_map joined_point_def split_def zip_map1 zip_map2)
  then have "mset (zip vs' (zip ns' cs')) = mset (cloud c) + mset (map (joined_point bl ?m mi) (cloud c2))"
    using s(3) d(6) cloud_some [OF c2(1-3)] by simp
  moreover have "PCV_OT_filter_join bl perm w = (Finished, ?w')"
    using d other mi c2 sh q(1)
    by (simp add: PCV_OT_filter_join_def ci_arrays_def apply_matrix_def)
  moreover have "world_ok ?w'"
    using q(2) by (auto intro!: world_ok_upd_item)
  ultimately show ?thesis
    using other(3,4) by (intro exI [of _ ?w']) (simp add: dict_get_upd_item)
qed

end
