(* ===== verification/PCV_Edit.thy ===== *)
theory PCV_Edit
  imports PCV_Filter_Facts
begin

text \<open>
  Edit mode: the cloud becomes the vertices of a helper mesh that remembers each point's row,
  the edited vertices are taken back with the normals and colours of those rows, and display
  settings are put aside for the session and restored. Here are also the default properties
  and the update callback of \<open>display_percent\<close>.
\<close>

section \<open>Properties\<close>

definition default_pcv :: pcv where
  "default_pcv =
     \<lparr>p_filepath = '''', p_uuid = '''', p_runtime = False, p_point_size = 3,
      p_display_percent = 100, p_global_alpha = 1, p_has_normals = False, p_has_vcols = False,
      p_illumination = False, p_flags = (\<lambda>_. False), p_override_default_shader = False,
      p_dev_depth_false_colors = False,
      p_edit_initialized = False, p_edit_is_edit_mesh = False, p_edit_is_edit_uuid = '''',
      p_edit_pre_edit_alpha = 1 / 2, p_edit_pre_edit_display = 100, p_edit_pre_edit_size = 3,
      p_edit_overlay_alpha = 1 / 2, p_edit_overlay_size = 3,
      p_filter_remove_color_selection = False, p_filter_join_object = None,
      p_filter_boolean_object = None, p_sequence_use_cyclic = True,
      p_color_adjust = \<lparr>ca_exposure = 0, ca_gamma = 1, ca_brightness = 0, ca_contrast = 1,
        ca_hue = 0, ca_saturation = 0, ca_value = 0, ca_invert = False\<rparr>,
      p_clip_planes = replicate 6 (0, 0, 0, 0), p_clip_planes_enabled = replicate 6 False,
      p_clip_planes_from_bbox_object = None,
      p_simplify_num_samples = 10000, p_simplify_num_candidates = 10,
      p_remove_color = \<lparr>rc_color = (1, 1, 1), rc_delta_hue = 1 / 10, rc_delta_hue_use = True,
        rc_delta_saturation = 1 / 10, rc_delta_saturation_use = True,
        rc_delta_value = 1 / 10, rc_delta_value_use = True\<rparr>,
      p_project = \<lparr>fp_object = None, fp_search_distance = 1 / 10, fp_positive = True,
        fp_negative = True, fp_discard = False, fp_colorize = False,
        fp_colorize_from = ''UVTEX'', fp_shift = 0\<rparr>,
      p_export = \<lparr>ex_use_viewport = True, ex_apply_transformation = False,
        ex_convert_axes = False, ex_visible_only = False\<rparr>,
      p_mesh = \<lparr>ms_type = ''CUBE'', ms_size = 1 / 100, ms_normal_align = True, ms_vcols = True,
        ms_all = True, ms_percentage = 100, ms_sphere_subdivisions = 2, ms_use_instancer2 = False\<rparr>,
      p_render = \<lparr>rn_point_size = 3, rn_display_percent = 100, rn_path = ''//pcv_render_###.png'',
        rn_resolution_x = 1920, rn_resolution_y = 1080, rn_resolution_percentage = 100,
        rn_resolution_linked = True, rn_smoothstep = False, rn_supersampling = 1\<rparr>,
      p_generate = \<lparr>gn_source = ''SURFACE'', gn_source_psys = ''ALIVE'',
        gn_algorithm = ''WEIGHTED_RANDOM_IN_TRIANGLE'', gn_number_of_points = 100000, gn_seed = 0,
        gn_colors = ''CONSTANT'', gn_constant_color = (7 / 10, 7 / 10, 7 / 10),
        gn_exact_number_of_points = False, gn_minimal_distance = 1 / 10, gn_sampling_exponent = 5\<rparr>,
      p_display = \<lparr>ds_vertex_normals = False, ds_selection = False, ds_bbox = False, ds_bbox_size = 3 / 10,
        ds_circles = False\<rparr>\<rparr>"

text \<open>\<open>_display_percent_update\<close>, which runs after every assignment of the property.\<close>

definition display_percent_update :: "pcv \<Rightarrow> world \<Rightarrow> world" where
  "display_percent_update p w =
     (case dict_get (cache w) (p_uuid p) of
        None \<Rightarrow> w
      | Some d \<Rightarrow>
          (case ci_length d of
             None \<Rightarrow> w
           | Some vl \<Rightarrow>
               upd_item (p_uuid p) (\<lambda>c. c\<lparr>ci_display_length := Some (display_count vl (p_display_percent p))\<rparr>) w))"

definition set_display_percent :: "string \<Rightarrow> real \<Rightarrow> world \<Rightarrow> world" where
  "set_display_percent n v w =
     (let w1 = upd_pcv n (\<lambda>p. p\<lparr>p_display_percent := v\<rparr>) w
      in case get_pcv w1 n of None \<Rightarrow> w1 | Some p \<Rightarrow> display_percent_update p w1)"

text \<open>The overlay settings of a helper object act on its parent.\<close>

definition edit_overlay_alpha_update :: "string \<Rightarrow> world \<Rightarrow> world" where
  "edit_overlay_alpha_update n w =
     (case (Option.bind (context_object w) (\<lambda>o'. Option.bind (dict_get (objects w) o') ob_parent), get_pcv w n) of
        (Some parent, Some p) \<Rightarrow> upd_pcv parent (\<lambda>q. q\<lparr>p_global_alpha := p_edit_overlay_alpha p\<rparr>) w
      | _ \<Rightarrow> w)"

definition edit_overlay_size_update :: "string \<Rightarrow> world \<Rightarrow> world" where
  "edit_overlay_size_update n w =
     (case (Option.bind (context_object w) (\<lambda>o'. Option.bind (dict_get (objects w) o') ob_parent), get_pcv w n) of
        (Some parent, Some p) \<Rightarrow> upd_pcv parent (\<lambda>q. q\<lparr>p_point_size := p_edit_overlay_size p\<rparr>) w
      | _ \<Rightarrow> w)"

section \<open>The operators\<close>

definition edit_mesh_name :: "string \<Rightarrow> string" where
  "edit_mesh_name u = ''pcv_edit_mesh_'' @ u"

text \<open>
  \<open>uniq\<close> is the name Blender gives a new object for a wanted one and the names in use. The
  helper's vertices carry their number in the layer \<open>pcv_indexes\<close>.
\<close>

definition PCV_OT_edit_start :: "(string list \<Rightarrow> string \<Rightarrow> string) \<Rightarrow> world \<Rightarrow> status \<times> world" where
  "PCV_OT_edit_start uniq w =
     (case context_pcv w of
        None \<Rightarrow> (Raised AttributeError, w)
      | Some (n0, p) \<Rightarrow>
          (case (dict_get (cache w) (p_uuid p), dict_get (objects w) n0) of
             (Some c, Some ob) \<Rightarrow>
               (case ci_vertices c of
                  None \<Rightarrow> (Raised (TypeError ''NoneType''), w\<lparr>context_mode := ''OBJECT''\<rparr>)
                | Some vs \<Rightarrow>
                    (let nm = uniq (dict_keys (objects w)) (edit_mesh_name (p_uuid p));
                         helper = \<lparr>ob_pcv = default_pcv\<lparr>p_edit_is_edit_uuid := p_uuid p,
                                                        p_edit_is_edit_mesh := True\<rparr>,
                                   ob_visible = True, ob_type = ''MESH'', ob_parent = Some n0,
                                   ob_matrix_world = ob_matrix_world ob,
                                   ob_verts = map (\<lambda>i. (vs ! i, int i)) [0..<length vs]\<rparr>;
                         w1 = w\<lparr>objects := AList.update nm helper (objects w),
                                context_object := Some nm, context_mode := ''EDIT_MESH''\<rparr>;
                         w2 = upd_pcv n0 (\<lambda>q. q\<lparr>p_edit_initialized := True,
                                p_edit_pre_edit_alpha := p_global_alpha q,
                                p_global_alpha := p_edit_overlay_alpha q,
                                p_edit_pre_edit_display := p_display_percent q\<rparr>) w1;
                         w3 = set_display_percent n0 100 w2;
                         w4 = upd_pcv n0 (\<lambda>q. q\<lparr>p_edit_pre_edit_size := p_point_size q,
                                p_point_size := p_edit_overlay_size q\<rparr>) w3
                     in (Finished, w4)))
           | (None, _) \<Rightarrow> (Raised (KeyError (p_uuid p)), w)
           | _ \<Rightarrow> (Raised AttributeError, w)))"

definition PCV_OT_edit_poll :: "world \<Rightarrow> bool" where
  "PCV_OT_edit_poll w =
     (case context_pcv w of
        None \<Rightarrow> False
      | Some (_, p) \<Rightarrow> p_edit_is_edit_mesh p \<and> shown w (p_edit_is_edit_uuid p) \<and> context_mode w = ''EDIT_MESH'')"

definition PCV_OT_edit_update :: "world \<Rightarrow> status \<times> world" where
  "PCV_OT_edit_update w =
     (case Option.bind (context_object w) (dict_get (objects w)) of
        None \<Rightarrow> (Raised AttributeError, w)
      | Some ob \<Rightarrow>
          (let u = p_edit_is_edit_uuid (ob_pcv ob)
           in case dict_get (cache w) u of
                None \<Rightarrow> (Raised (KeyError u), w)
              | Some c \<Rightarrow>
                  (case bindE (ci_arrays c) (\<lambda>(vs, ns, cs).
                          bindE (mapE (\<lambda>(v, i). py_get ns i) (ob_verts ob)) (\<lambda>u_ns.
                            bindE (mapE (\<lambda>(v, i). py_get cs i) (ob_verts ob)) (\<lambda>u_cs.
                              Inr (map fst (ob_verts ob), u_ns, u_cs)))) of
                     Inl e \<Rightarrow> (Raised e, w)
                   | Inr (vs, ns, cs) \<Rightarrow>
                       (case PCVManager_update u vs (Some ns) (Some cs) w of
                          (Inl e, w1) \<Rightarrow> (Raised e, w1)
                        | (Inr _, w1) \<Rightarrow>
                            (Finished,
                             w1\<lparr>objects := AList.update (the (context_object w))
                                  (ob\<lparr>ob_verts := map (\<lambda>i. (vs ! i, int i)) [0..<length vs]\<rparr>)
                                  (objects w1)\<rparr>)))))"

definition PCV_OT_edit_end :: "world \<Rightarrow> status \<times> world" where
  "PCV_OT_edit_end w0 =
     (case bpy_op PCV_OT_edit_poll PCV_OT_edit_update w0 of
        (Raised e, w) \<Rightarrow> (Raised e, w)
      | (_, w) \<Rightarrow>
          (case context_object w of
             None \<Rightarrow> (Raised AttributeError, w)
           | Some o' \<Rightarrow>
               (case dict_get (objects w) o' of
                  None \<Rightarrow> (Raised AttributeError, w)
                | Some ob \<Rightarrow>
                    (let w1 = w\<lparr>objects := AList.delete o' (objects w), context_object := None,
                                context_mode := ''OBJECT''\<rparr>
                     in case ob_parent ob of
                          None \<Rightarrow> (Raised AttributeError, w1)
                        | Some par \<Rightarrow>
                            (let w2 = w1\<lparr>context_object := Some par\<rparr>;
                                 w3 = upd_pcv par (\<lambda>q. q\<lparr>p_edit_initialized := False,
                                        p_global_alpha := p_edit_pre_edit_alpha q\<rparr>) w2
                             in case get_pcv w3 par of
                                  None \<Rightarrow> (Raised AttributeError, w3)
                                | Some q \<Rightarrow>
                                    (Finished, upd_pcv par (\<lambda>q. q\<lparr>p_point_size := p_edit_pre_edit_size q\<rparr>)
                                       (set_display_percent par (p_edit_pre_edit_display q) w3)))))))"

definition PCV_OT_edit_cancel_poll :: "world \<Rightarrow> bool" where
  "PCV_OT_edit_cancel_poll w =
     (case context_pcv w of None \<Rightarrow> False | Some (_, p) \<Rightarrow> p_edit_initialized p)"

definition PCV_OT_edit_cancel :: "load_env \<Rightarrow> world \<Rightarrow> status \<times> world" where
  "PCV_OT_edit_cancel ev w =
     (case context_pcv w of
        None \<Rightarrow> (Raised AttributeError, w)
      | Some (po, p) \<Rightarrow>
          (let nm = edit_mesh_name (p_uuid p);
               child = (case dict_get (objects w) nm of None \<Rightarrow> False | Some ob \<Rightarrow> ob_parent ob = Some po);
               w1 = (if child then w\<lparr>objects := AList.delete nm (objects w)\<rparr> else w);
               w2 = upd_pcv po (\<lambda>q. q\<lparr>p_edit_initialized := False,
                      p_global_alpha := p_edit_pre_edit_alpha q, p_edit_pre_edit_alpha := 1 / 2\<rparr>) w1;
               w3 = set_display_percent po (p_edit_pre_edit_display p) w2;
               w4 = upd_pcv po (\<lambda>q. q\<lparr>p_edit_pre_edit_display := 100,
                      p_point_size := p_edit_pre_edit_size q, p_edit_pre_edit_size := 3\<rparr>) w3
           in case bpy_op PCV_OT_reload_poll (PCV_OT_reload ev) w4 of
                (Raised e, w5) \<Rightarrow> (Raised e, w5)
              | (_, w5) \<Rightarrow> (Finished, w5)))"

end
