(* ===== verification/PCV_Edit_Facts.thy ===== *)
theory PCV_Edit_Facts
  imports PCV_Edit
begin

text \<open>
  An edit session takes every vertex of the edited mesh back with the normal and colour of
  the point it came from, and leaves the display settings as it found them.
\<close>

section \<open>Assigning the display percentage\<close>

lemma display_percent_update_frame [simp]:
  "objects (display_percent_update p w) = objects w" "get_pcv (display_percent_update p w) n = get_pcv w n"
  "context_object (display_percent_update p w) = context_object w"
  "context_mode (display_percent_update p w) = context_mode w"
  "prefs (display_percent_update p w) = prefs w" "reports (display_percent_update p w) = reports w"
  by (simp_all add: display_percent_update_def upd_item_def split: option.splits)

lemma context_mode_upd [simp]:
  "context_mode (upd_pcv n f w) = context_mode w" "context_mode (upd_item u g w) = context_mode w"
  "context_mode (tag_redraw w) = context_mode w"
  by (simp_all add: upd_pcv_def upd_item_def tag_redraw_def split: option.splits)

lemma set_display_percent_frame [simp]:
  "objects (set_display_percent n v w) = objects (upd_pcv n (\<lambda>p. p\<lparr>p_display_percent := v\<rparr>) w)"
  "get_pcv (set_display_percent n v w) x =
     (if x = n then map_option (\<lambda>p. p\<lparr>p_display_percent := v\<rparr>) (get_pcv w x) else get_pcv w x)"
  "context_object (set_display_percent n v w) = context_object w"
  "context_mode (set_display_percent n v w) = context_mode w"
  "reports (set_display_percent n v w) = reports w"
  by (auto simp: set_display_percent_def Let_def get_pcv_upd_pcv split: option.splits)

lemma set_display_percent_item:
  assumes "get_pcv w n = Some p" "dict_get (cache w) (p_uuid p) = Some d" "ci_length d = Some l"
  shows "dict_get (cache (set_display_percent n v w)) k =
     (if k = p_uuid p then Some (d\<lparr>ci_display_length := Some (display_count l v)\<rparr>) else dict_get (cache w) k)"
  using assms by (simp add: set_display_percent_def display_percent_update_def get_pcv_upd_pcv dict_get_upd_item)

lemma item_ok_display_length:
  "item_ok c \<Longrightarrow> ci_length c = Some l \<Longrightarrow> 0 \<le> d \<Longrightarrow> d \<le> int l \<Longrightarrow> item_ok (c\<lparr>ci_display_length := Some d\<rparr>)"
  by (auto simp: item_ok_def)

lemma world_ok_set_pcv:
  assumes "world_ok w" and "\<And>p. 0 \<le> p_display_percent p \<Longrightarrow> p_display_percent p \<le> 100 \<Longrightarrow>
     0 \<le> p_display_percent (f p) \<and> p_display_percent (f p) \<le> 100"
  shows "world_ok (upd_pcv n f w)"
proof -
  have "objects_ok (upd_pcv n f w)"
    using assms by (auto simp: world_ok_def objects_ok_def upd_pcv_def split: option.splits
        dest!: map_of_SomeD dict_update_set)
  then show ?thesis using assms(1) by (simp add: world_ok_def)
qed

lemma world_ok_set_display_percent:
  assumes "world_ok w" "0 \<le> v" "v \<le> 100"
  shows "world_ok (set_display_percent n v w)"
proof -
  let ?w1 = "upd_pcv n (\<lambda>p. p\<lparr>p_display_percent := v\<rparr>) w"
  have ok: "world_ok ?w1"
    using assms by (intro world_ok_set_pcv) auto
  have "world_ok (display_percent_update p ?w1)" if "p_display_percent p = v" for p
  proof (cases "dict_get (cache ?w1) (p_uuid p)")
    case (Some d)
    have "item_ok (d\<lparr>ci_display_length := Some (display_count l v)\<rparr>)"
      if "item_ok d" "ci_length d = Some l" for l
      using that display_count_bounds [OF assms(2,3), of l] by (intro item_ok_display_length) auto
    then show ?thesis
      using ok Some that
      by (auto simp: display_percent_update_def split: option.splits intro!: world_ok_upd_item)
  qed (use ok in \<open>simp add: display_percent_update_def\<close>)
  then show ?thesis
    using ok by (auto simp: set_display_percent_def Let_def get_pcv_upd_pcv split: option.splits)
qed

section \<open>Adding and removing the helper\<close>

lemma world_ok_add_object:
  assumes "world_ok w" "0 \<le> p_display_percent (ob_pcv ob)" "p_display_percent (ob_pcv ob) \<le> 100"
    and "cache w' = cache w" "objects w' = AList.update nm ob (objects w)"
  shows "world_ok w'"
  using assms cache_wf_cong [OF assms(4)]
  by (auto simp: world_ok_def objects_ok_def object_gone_def bind_eq_None_conv dest!: dict_update_set)

lemma world_ok_delete_object:
  assumes "world_ok w" "\<forall>(k, c)\<in>set (cache w). ci_name c \<noteq> Some nm"
    and "cache w' = cache w" "objects w' = AList.delete nm (objects w)"
  shows "world_ok w'"
proof -
  have "set (objects w') \<subseteq> set (objects w)"
    using assms(4) by (simp add: AList.delete_eq filter_is_subset)
  then have "objects_ok w'"
    using assms(1) by (auto simp: world_ok_def objects_ok_def)
  moreover have "\<not> object_gone w' c" if "(k, c) \<in> set (cache w)" for k c
    using that assms by (fastforce simp: world_ok_def object_gone_def bind_eq_None_conv)
  ultimately show ?thesis
    using assms(1,3) cache_wf_cong [OF assms(3)] by (auto simp: world_ok_def)
qed

text \<open>The helper object and the settings of the owner while editing.\<close>

definition edit_helper :: "string \<Rightarrow> string \<Rightarrow> mat4 \<Rightarrow> v3 list \<Rightarrow> object" where
  "edit_helper u n0 m vs =
     \<lparr>ob_pcv = default_pcv\<lparr>p_edit_is_edit_uuid := u, p_edit_is_edit_mesh := True\<rparr>,
      ob_visible = True, ob_type = ''MESH'', ob_parent = Some n0, ob_matrix_world = m,
      ob_verts = map (\<lambda>i. (vs ! i, int i)) [0..<length vs]\<rparr>"

definition editing_pcv :: "pcv \<Rightarrow> pcv" where
  "editing_pcv p =
     p\<lparr>p_edit_initialized := True, p_edit_pre_edit_alpha := p_global_alpha p,
       p_global_alpha := p_edit_overlay_alpha p, p_edit_pre_edit_display := p_display_percent p,
       p_display_percent := 100, p_edit_pre_edit_size := p_point_size p,
       p_point_size := p_edit_overlay_size p\<rparr>"

lemma item_ok_length: "item_ok c \<Longrightarrow> ci_vertices c = Some vs \<Longrightarrow> ci_length c = Some (length vs)"
  by (auto elim!: item_okE)

lemma edit_start_ok:
  assumes ok: "world_ok w" and arr: "context_arrays w = Inr (n0, p, c, vs, ns, cs)"
    and nm: "nm = uniq (dict_keys (objects w)) (edit_mesh_name (p_uuid p))" "nm \<notin> set (dict_keys (objects w))"
  shows "\<exists>w1 m. PCV_OT_edit_start uniq w = (Finished, w1) \<and> world_ok w1 \<and>
     context_object w1 = Some nm \<and> context_mode w1 = ''EDIT_MESH'' \<and> nm \<noteq> n0 \<and>
     dict_get (objects w1) nm = Some (edit_helper (p_uuid p) n0 m vs) \<and>
     get_pcv w1 n0 = Some (editing_pcv p) \<and>
     (\<forall>(k, c)\<in>set (cache w1). ci_name c \<noteq> Some nm) \<and>
     dict_get (cache w1) (p_uuid p) = Some (c\<lparr>ci_display_length := Some (int (length vs))\<rparr>)"
proof -
  note d = context_arraysD [OF arr]
  have item: "item_ok c" using world_ok_get [OF ok d(2)] by blast
  note len = item_ok_length [OF item d(3)]
  have n0: "get_pcv w n0 = Some p" using d(1) by (simp add: context_pcv_get)
  then obtain ob where ob: "dict_get (objects w) n0 = Some ob" by (auto simp: get_pcv_def)
  then have ne: "nm \<noteq> n0"
    using nm(2) dict_keys_get [of n0 "objects w"] by auto
  define h where "h = edit_helper (p_uuid p) n0 (ob_matrix_world ob) vs"
  define w1 where "w1 = w\<lparr>objects := AList.update nm h (objects w), context_object := Some nm,
      context_mode := ''EDIT_MESH''\<rparr>"
  define w2 where "w2 = upd_pcv n0 (\<lambda>q. q\<lparr>p_edit_initialized := True,
      p_edit_pre_edit_alpha := p_global_alpha q, p_global_alpha := p_edit_overlay_alpha q,
      p_edit_pre_edit_display := p_display_percent q\<rparr>) w1"
  define w3 where "w3 = set_display_percent n0 100 w2"
  define w4 where "w4 = upd_pcv n0 (\<lambda>q. q\<lparr>p_edit_pre_edit_size := p_point_size q,
      p_point_size := p_edit_overlay_size q\<rparr>) w3"
  have start: "PCV_OT_edit_start uniq w = (Finished, w4)"
    using d ob unfolding w4_def w3_def w2_def w1_def h_def edit_helper_def nm(1)
    by (simp add: PCV_OT_edit_start_def Let_def)
  have ok1: "world_ok w1"
    by (rule world_ok_add_object [OF ok, of h]) (simp_all add: h_def edit_helper_def default_pcv_def w1_def)
  have ok4: "world_ok w4"
    unfolding w4_def w3_def w2_def using ok1
    by (intro world_ok_set_pcv world_ok_set_display_percent) simp_all
  have p1: "get_pcv w1 n0 = Some p"
    using n0 ne by (simp add: get_pcv_def w1_def)
  have p2: "get_pcv w2 n0 = Some (p\<lparr>p_edit_initialized := True,
      p_edit_pre_edit_alpha := p_global_alpha p, p_global_alpha := p_edit_overlay_alpha p,
      p_edit_pre_edit_display := p_display_percent p\<rparr>)"
    by (simp add: w2_def get_pcv_upd_pcv p1)
  have p4: "get_pcv w4 n0 = Some (editing_pcv p)"
    by (simp add: w4_def w3_def get_pcv_upd_pcv p2 editing_pcv_def)
  have c2: "dict_get (cache w2) (p_uuid p) = Some c"
    using d(2) by (simp add: w2_def w1_def)
  have c4: "dict_get (cache w4) (p_uuid p) = Some (c\<lparr>ci_display_length := Some (int (length vs))\<rparr>)"
    using set_display_percent_item [OF p2 _ len, of 100 "p_uuid p"] c2
    by (simp add: w4_def w3_def display_count_def)
  have h4: "dict_get (objects w4) nm = Some h"
    using ne by (simp add: w4_def w3_def w2_def w1_def upd_pcv_def split: option.split)
  have names: "\<forall>(k, c)\<in>set (cache w4). ci_name c \<noteq> Some nm"
  proof -
    have there: "\<not> object_gone w c" if "dict_get (cache w) k = Some c" for k c
      using ok that by (auto simp: world_ok_def dest!: map_of_SomeD)
    have none: "dict_get (objects w) nm = None"
      using nm(2) by (simp add: map_of_eq_None_iff)
    have "ci_name c \<noteq> Some nm" if "dict_get (cache w) k = Some c" for k c
      using there [OF that] none by (auto simp: object_gone_def)
    moreover have "\<exists>c0. dict_get (cache w) k = Some c0 \<and> ci_name c0 = ci_name c'"
      if "(k, c') \<in> set (cache w4)" for k c'
    proof -
      have "distinct (dict_keys (cache w4))"
        using ok4 by (simp add: world_ok_def cache_wf_def)
      then have "dict_get (cache w4) k = Some c'" using that by simp
      moreover have "dict_get (cache w4) k =
          (if k = p_uuid p then Some (c\<lparr>ci_display_length := Some (int (length vs))\<rparr>) else dict_get (cache w2) k)"
        using set_display_percent_item [OF p2 _ len, of 100 k] c2
        by (simp add: w4_def w3_def display_count_def)
      moreover have "dict_get (cache w2) k = dict_get (cache w) k"
        by (simp add: w2_def w1_def)
      ultimately show ?thesis
        using d(2) by (cases "k = p_uuid p") auto
    qed
    ultimately show ?thesis by fastforce
  qed
  show ?thesis
    using start ok4 ne p4 c4 h4 names
    by (intro exI [of _ w4] exI [of _ "ob_matrix_world ob"])
      (simp add: h_def w4_def w3_def w2_def w1_def)
qed

section \<open>Taking the mesh back\<close>

definition edited_cloud :: "(v3 \<times> int) list \<Rightarrow> v3 list \<Rightarrow> v4 list \<Rightarrow> point list" where
  "edited_cloud verts ns cs = map (\<lambda>(v, i). (v, ns ! nat i, cs ! nat i)) verts"

lemma mapE_get:
  "\<forall>(v, i)\<in>set verts. 0 \<le> i \<and> i < int (length xs) \<Longrightarrow>
     mapE (\<lambda>(v, i). py_get xs i) verts = Inr (map (\<lambda>(v, i). xs ! nat i) verts)"
  by (rule mapE_Inr) auto

lemma edit_update_ok:
  assumes ok: "world_ok w" and ctx: "context_object w = Some nm" "dict_get (objects w) nm = Some ob"
    and c: "dict_get (cache w) (p_edit_is_edit_uuid (ob_pcv ob)) = Some c"
      "ci_vertices c = Some vs" "ci_normals c = Some ns" "ci_colors c = Some cs"
    and idx: "\<forall>(v, i)\<in>set (ob_verts ob). 0 \<le> i \<and> i < int (length vs)"
  shows "\<exists>w'. PCV_OT_edit_update w = (Finished, w') \<and> world_ok w' \<and> reports w' = reports w \<and>
     context_object w' = Some nm \<and> (\<exists>vts. dict_get (objects w') nm = Some (ob\<lparr>ob_verts := vts\<rparr>)) \<and>
     (\<forall>x. x \<noteq> nm \<longrightarrow> get_pcv w' x = get_pcv w x) \<and>
     (\<exists>c'. dict_get (cache w') (p_edit_is_edit_uuid (ob_pcv ob)) = Some c' \<and>
        cloud c' = edited_cloud (ob_verts ob) ns cs \<and> ci_draw c' = ci_draw c \<and>
        ci_length c' = Some (length (ob_verts ob)) \<and> ci_name c' = ci_name c) \<and>
     (\<forall>k c'. dict_get (cache w') k = Some c' \<longrightarrow>
        (\<exists>c0. dict_get (cache w) k = Some c0 \<and> ci_name c' = ci_name c0))"
proof -
  let ?u = "p_edit_is_edit_uuid (ob_pcv ob)"
  have "item_ok c" using world_ok_get [OF ok c(1)] by blast
  then have len: "length ns = length vs" "length cs = length vs"
    using c(2-4) by (auto elim!: item_okE)
  let ?vs = "map fst (ob_verts ob)" and ?ns = "map (\<lambda>(v, i). ns ! nat i) (ob_verts ob)"
    and ?cs = "map (\<lambda>(v, i). cs ! nat i) (ob_verts ob)"
  obtain q where q: "PCVManager_update ?u ?vs (Some ?ns) (Some ?cs) w = (Inr (), stored ?u ?vs ?ns ?cs q c w)"
      "world_ok (stored ?u ?vs ?ns ?cs q c w)"
    by (rule update_ok [OF ok c(1), of ?ns ?vs ?cs]) simp_all
  let ?s = "stored ?u ?vs ?ns ?cs q c w"
  let ?ob = "ob\<lparr>ob_verts := map (\<lambda>i. (?vs ! i, int i)) [0..<length ?vs]\<rparr>"
  let ?w' = "?s\<lparr>objects := AList.update nm ?ob (objects ?s)\<rparr>"
  have z: "zip ?vs (zip ?ns ?cs) = edited_cloud (ob_verts ob) ns cs"
    by (induction "ob_verts ob" rule: list.induct) (auto simp: edited_cloud_def zip_map_map zip_same_conv_map)
  have u: "PCV_OT_edit_update w = (Finished, ?w')"
    using ctx c idx len q(1) by (simp add: PCV_OT_edit_update_def ci_arrays_def mapE_get)
  have pct: "0 \<le> p_display_percent (ob_pcv ob)" "p_display_percent (ob_pcv ob) \<le> 100"
    using objects_ok_get [OF _ ctx(2)] ok by (auto simp: world_ok_def)
  have ok': "world_ok ?w'"
    by (rule world_ok_add_object [OF q(2), of ?ob]) (simp_all add: pct)
  have "get_pcv ?w' x = get_pcv w x" if "x \<noteq> nm" for x
    using that by (simp add: get_pcv_def)
  then show ?thesis
    using u ok' ctx c(1) z
    by (intro exI [of _ ?w'])
      (auto simp: stored_def updated_item_def tag_redraw_def Let_def cloud_def split: if_splits)
qed

lemma edit_end_ok:
  assumes ok: "world_ok w" and ctx: "context_object w = Some nm" "dict_get (objects w) nm = Some ob"
    and helper: "p_edit_is_edit_mesh (ob_pcv ob)" "context_mode w = ''EDIT_MESH''" "ob_parent ob = Some n0"
      "n0 \<noteq> nm" "\<forall>(k, c)\<in>set (cache w). ci_name c \<noteq> Some nm"
    and c: "dict_get (cache w) (p_edit_is_edit_uuid (ob_pcv ob)) = Some c"
      "ci_vertices c = Some vs" "ci_normals c = Some ns" "ci_colors c = Some cs" "ci_ready c" "ci_draw c"
    and idx: "\<forall>(v, i)\<in>set (ob_verts ob). 0 \<le> i \<and> i < int (length vs)"
    and own: "get_pcv w n0 = Some q" "p_uuid q = p_edit_is_edit_uuid (ob_pcv ob)"
      "0 \<le> p_edit_pre_edit_display q" "p_edit_pre_edit_display q \<le> 100"
  shows "\<exists>w' c'. PCV_OT_edit_end w = (Finished, w') \<and> world_ok w' \<and> context_object w' = Some n0 \<and>
     dict_get (objects w') nm = None \<and>
     get_pcv w' n0 = Some (q\<lparr>p_edit_initialized := False, p_global_alpha := p_edit_pre_edit_alpha q,
       p_display_percent := p_edit_pre_edit_display q, p_point_size := p_edit_pre_edit_size q\<rparr>) \<and>
     dict_get (cache w') (p_uuid q) = Some c' \<and> cloud c' = edited_cloud (ob_verts ob) ns cs \<and> ci_draw c'"
proof -
  let ?u = "p_edit_is_edit_uuid (ob_pcv ob)"
  obtain w1 where u1: "PCV_OT_edit_update w = (Finished, w1)" "world_ok w1" "reports w1 = reports w"
      "context_object w1 = Some nm" "\<exists>vts. dict_get (objects w1) nm = Some (ob\<lparr>ob_verts := vts\<rparr>)"
      "\<forall>x. x \<noteq> nm \<longrightarrow> get_pcv w1 x = get_pcv w x"
      "\<exists>c'. dict_get (cache w1) ?u = Some c' \<and> cloud c' = edited_cloud (ob_verts ob) ns cs \<and>
         ci_draw c' = ci_draw c \<and> ci_length c' = Some (length (ob_verts ob)) \<and> ci_name c' = ci_name c"
      "\<forall>k c'. dict_get (cache w1) k = Some c' \<longrightarrow>
        (\<exists>c0. dict_get (cache w) k = Some c0 \<and> ci_name c' = ci_name c0)"
    using edit_update_ok [OF ok ctx c(1-4) idx] by blast
  note names = u1(8) [rule_format]
  obtain vts where vts: "dict_get (objects w1) nm = Some (ob\<lparr>ob_verts := vts\<rparr>)"
    using u1(5) by blast
  obtain c1 where c1: "dict_get (cache w1) ?u = Some c1" "cloud c1 = edited_cloud (ob_verts ob) ns cs"
      "ci_draw c1" "ci_length c1 = Some (length (ob_verts ob))"
    using u1(7) c(6) by auto
  have q1: "get_pcv w1 n0 = Some q" using u1(6) helper(4) own(1) by simp
  note w1 = u1(1-4) vts q1 c1
  have cu: "ci_uuid c = Some ?u" using world_ok_get [OF ok c(1)] by blast
  have "get_pcv w nm = Some (ob_pcv ob)"
    using ctx(2) by (simp add: get_pcv_def)
  then have "PCV_OT_edit_poll w"
    using ctx(1) helper(1,2) c(5,6) cu map_of_SomeD [OF c(1)]
    by (force simp: PCV_OT_edit_poll_def context_pcv_def shown_def)
  then have op: "bpy_op PCV_OT_edit_poll PCV_OT_edit_update w = (Finished, w1)"
    using w1(1,3) by (intro bpy_op_ok) simp_all
  define w2 where "w2 = (w1\<lparr>objects := AList.delete nm (objects w1), context_object := None,
      context_mode := ''OBJECT''\<rparr>)\<lparr>context_object := Some n0\<rparr>"
  define w3 where "w3 = upd_pcv n0 (\<lambda>q. q\<lparr>p_edit_initialized := False,
      p_global_alpha := p_edit_pre_edit_alpha q\<rparr>) w2"
  define w4 where "w4 = set_display_percent n0 (p_edit_pre_edit_display q) w3"
  define w5 where "w5 = upd_pcv n0 (\<lambda>q. q\<lparr>p_point_size := p_edit_pre_edit_size q\<rparr>) w4"
  have p2: "get_pcv w2 n0 = Some q"
    using w1(6) helper(4) by (simp add: w2_def get_pcv_def)
  have p3: "get_pcv w3 n0 = Some (q\<lparr>p_edit_initialized := False, p_global_alpha := p_edit_pre_edit_alpha q\<rparr>)"
    by (simp add: w3_def get_pcv_upd_pcv p2)
  have fin: "PCV_OT_edit_end w = (Finished, w5)"
    using w1(4,5) helper(3) p3 unfolding PCV_OT_edit_end_def op Let_def
    by (simp add: w5_def w4_def w3_def w2_def [symmetric])
  have "\<forall>(k, c)\<in>set (cache w1). ci_name c \<noteq> Some nm"
  proof (clarify)
    fix k c' assume "(k, c') \<in> set (cache w1)" and n: "ci_name c' = Some nm"
    moreover have "distinct (dict_keys (cache w1))"
      using w1(2) by (simp add: world_ok_def cache_wf_def)
    ultimately obtain c0 where "dict_get (cache w) k = Some c0" "ci_name c0 = Some nm"
      using names [of k c'] by auto
    then show False using helper(5) by (auto dest!: map_of_SomeD)
  qed
  then have "world_ok w2"
    by (intro world_ok_delete_object [OF w1(2)]) (simp_all add: w2_def)
  then have ok5: "world_ok w5"
    unfolding w5_def w4_def w3_def using own(3,4)
    by (intro world_ok_set_pcv world_ok_set_display_percent) simp_all
  have c3: "dict_get (cache w3) (p_uuid (q\<lparr>p_edit_initialized := False,
      p_global_alpha := p_edit_pre_edit_alpha q\<rparr>)) = Some c1"
    using w1(7) own(2) by (simp add: w3_def w2_def)
  have c5: "dict_get (cache w5) (p_uuid q) = Some (c1\<lparr>ci_display_length :=
      Some (display_count (length (ob_verts ob)) (p_edit_pre_edit_display q))\<rparr>)"
    using set_display_percent_item [OF p3 c3 w1(10), of "p_edit_pre_edit_display q" "p_uuid q"]
    by (simp add: w5_def w4_def)
  have "dict_get (objects w5) nm = None"
    using helper(4) by (simp add: w5_def w4_def w3_def w2_def upd_pcv_def split: option.split)
  moreover have "get_pcv w5 n0 = Some (q\<lparr>p_edit_initialized := False,
      p_global_alpha := p_edit_pre_edit_alpha q, p_display_percent := p_edit_pre_edit_display q,
      p_point_size := p_edit_pre_edit_size q\<rparr>)"
    unfolding w5_def w4_def get_pcv_upd_pcv set_display_percent_frame p3 by simp
  moreover have "context_object w5 = Some n0"
    by (simp add: w5_def w4_def w3_def w2_def)
  moreover have "cloud (c1\<lparr>ci_display_length :=
      Some (display_count (length (ob_verts ob)) (p_edit_pre_edit_display q))\<rparr>) = edited_cloud (ob_verts ob) ns cs"
    using w1(8) by (simp add: cloud_def)
  ultimately show ?thesis
    using fin ok5 c5 w1(9)
    by (intro exI [of _ w5] exI [of _ "c1\<lparr>ci_display_length :=
      Some (display_count (length (ob_verts ob)) (p_edit_pre_edit_display q))\<rparr>"]) simp
qed

text \<open>A whole session: start, any change of the mesh's vertices, end.\<close>

definition edit_verts :: "string \<Rightarrow> (v3 \<times> int) list \<Rightarrow> world \<Rightarrow> world" where
  "edit_verts nm verts w =
     (case dict_get (objects w) nm of
        None \<Rightarrow> w
      | Some ob \<Rightarrow> w\<lparr>objects := AList.update nm (ob\<lparr>ob_verts := verts\<rparr>) (objects w)\<rparr>)"

lemma world_ok_edit_verts:
  assumes "world_ok w"
  shows "world_ok (edit_verts nm verts w)"
proof (cases "dict_get (objects w) nm")
  case (Some ob)
  have "objects_ok w" using assms by (simp add: world_ok_def)
  then have pct: "0 \<le> p_display_percent (ob_pcv ob) \<and> p_display_percent (ob_pcv ob) \<le> 100"
    using Some by (rule objects_ok_get)
  show ?thesis
    by (rule world_ok_add_object [OF assms, of "ob\<lparr>ob_verts := verts\<rparr>" _ nm])
      (simp_all add: edit_verts_def Some pct)
qed (simp add: edit_verts_def assms)

lemma edit_session_ok:
  assumes ok: "world_ok w" and arr: "context_arrays w = Inr (n0, p, c, vs, ns, cs)"
    and nm: "nm = uniq (dict_keys (objects w)) (edit_mesh_name (p_uuid p))" "nm \<notin> set (dict_keys (objects w))"
    and shown: "ci_ready c" "ci_draw c"
    and idx: "\<forall>(v, i)\<in>set verts. 0 \<le> i \<and> i < int (length vs)"
  shows "\<exists>w1 w2 c'. PCV_OT_edit_start uniq w = (Finished, w1) \<and>
     PCV_OT_edit_end (edit_verts nm verts w1) = (Finished, w2) \<and> world_ok w2 \<and>
     context_object w2 = Some n0 \<and> dict_get (objects w2) nm = None \<and>
     (\<exists>q. get_pcv w2 n0 = Some q \<and> \<not> p_edit_initialized q \<and> p_global_alpha q = p_global_alpha p \<and>
        p_display_percent q = p_display_percent p \<and> p_point_size q = p_point_size p) \<and>
     dict_get (cache w2) (p_uuid p) = Some c' \<and> cloud c' = edited_cloud verts ns cs \<and> ci_draw c'"
proof -
  note d = context_arraysD [OF arr]
  let ?c = "c\<lparr>ci_display_length := Some (int (length vs))\<rparr>"
  obtain w1 m where w1: "PCV_OT_edit_start uniq w = (Finished, w1)" "world_ok w1"
      "context_object w1 = Some nm" "context_mode w1 = ''EDIT_MESH''" "nm \<noteq> n0"
      "dict_get (objects w1) nm = Some (edit_helper (p_uuid p) n0 m vs)"
      "get_pcv w1 n0 = Some (editing_pcv p)" "\<forall>(k, c)\<in>set (cache w1). ci_name c \<noteq> Some nm"
      "dict_get (cache w1) (p_uuid p) = Some ?c"
    using edit_start_ok [where uniq = uniq, OF ok arr nm] by blast
  define h where "h = (edit_helper (p_uuid p) n0 m vs)\<lparr>ob_verts := verts\<rparr>"
  define w1' where "w1' = edit_verts nm verts w1"
  have e: "w1' = w1\<lparr>objects := AList.update nm h (objects w1)\<rparr>"
    using w1(6) by (simp add: w1'_def edit_verts_def h_def)
  have h: "ob_verts h = verts" "p_edit_is_edit_uuid (ob_pcv h) = p_uuid p"
    "p_edit_is_edit_mesh (ob_pcv h)" "ob_parent h = Some n0"
    by (simp_all add: h_def edit_helper_def)
  have p: "0 \<le> p_display_percent p" "p_display_percent p \<le> 100"
    using get_pcv_objects_ok [of w n0 p] ok d(1) by (auto simp: world_ok_def context_pcv_get)
  have q: "p_uuid (editing_pcv p) = p_edit_is_edit_uuid (ob_pcv h)"
    "p_edit_pre_edit_display (editing_pcv p) = p_display_percent p"
    by (simp_all add: h(2) editing_pcv_def)
  have "\<exists>w' c'. PCV_OT_edit_end w1' = (Finished, w') \<and> world_ok w' \<and> context_object w' = Some n0 \<and>
     dict_get (objects w') nm = None \<and>
     get_pcv w' n0 = Some ((editing_pcv p)\<lparr>p_edit_initialized := False,
       p_global_alpha := p_edit_pre_edit_alpha (editing_pcv p),
       p_display_percent := p_edit_pre_edit_display (editing_pcv p),
       p_point_size := p_edit_pre_edit_size (editing_pcv p)\<rparr>) \<and>
     dict_get (cache w') (p_uuid (editing_pcv p)) = Some c' \<and>
     cloud c' = edited_cloud (ob_verts h) ns cs \<and> ci_draw c'"
    using w1 h shown d(3-5) idx p q world_ok_edit_verts [OF w1(2), of nm verts, folded w1'_def]
    by (intro edit_end_ok [where c = ?c and vs = vs]) (simp_all add: e get_pcv_def)
  then obtain w2 c' where "PCV_OT_edit_end w1' = (Finished, w2)" "world_ok w2" "context_object w2 = Some n0"
      "dict_get (objects w2) nm = None"
      "get_pcv w2 n0 = Some ((editing_pcv p)\<lparr>p_edit_initialized := False,
       p_global_alpha := p_edit_pre_edit_alpha (editing_pcv p),
       p_display_percent := p_edit_pre_edit_display (editing_pcv p),
       p_point_size := p_edit_pre_edit_size (editing_pcv p)\<rparr>)"
      "dict_get (cache w2) (p_uuid (editing_pcv p)) = Some c'"
      "cloud c' = edited_cloud (ob_verts h) ns cs" "ci_draw c'"
    by blast
  then show ?thesis
    using w1(1) h(1)
    by (intro exI [of _ w1] exI [of _ w2] exI [of _ c']) (simp add: w1'_def editing_pcv_def)
qed

end
