(* ===== verification/PCV_Shaders.thy ===== *)
theory PCV_Shaders
  imports PCV_Edit_Facts
begin

text \<open>
  The shader switches of an object and their update callbacks, which switch the other
  shaders off; the operators that adjust colours and set clip planes through them; and the
  callback that moves the panels to another tab.
\<close>

section \<open>The update callbacks\<close>

text \<open>
  Assigning \<open>False\<close> to a switch runs that switch's own callback, whose else branch only
  clears \<open>override_default_shader\<close>.
\<close>

definition flag_off :: "shader_flag \<Rightarrow> pcv \<Rightarrow> pcv" where
  "flag_off f p = p\<lparr>p_flags := (p_flags p)(f := False), p_override_default_shader := False\<rparr>"

definition update_dev_depth :: "pcv \<Rightarrow> pcv" where
  "update_dev_depth p =
     (if p_flags p Dev_depth
      then (fold flag_off
          [Dev_normal_colors, Dev_position_colors, Minimal_shader, Minimal_variable_size,
           Minimal_variable_size_and_depth, Billboard, Rich_billboard,
           Rich_billboard_no_depth, Phong_shader, Clip_shader, Billboard_phong, Skip_point] p)\<lparr>p_override_default_shader := True\<rparr>
      else p\<lparr>p_override_default_shader := False\<rparr>)"

definition update_dev_normal :: "pcv \<Rightarrow> pcv" where
  "update_dev_normal p =
     (if p_flags p Dev_normal_colors
      then (fold flag_off
          [Dev_depth, Dev_position_colors, Minimal_shader, Minimal_variable_size,
           Minimal_variable_size_and_depth, Billboard, Rich_billboard,
           Rich_billboard_no_depth, Phong_shader, Clip_shader, Billboard_phong, Skip_point] p)\<lparr>p_override_default_shader := True\<rparr>
      else p\<lparr>p_override_default_shader := False\<rparr>)"

definition update_dev_position :: "pcv \<Rightarrow> pcv" where
  "update_dev_position p =
     (if p_flags p Dev_position_colors
      then (fold flag_off
          [Dev_depth, Dev_normal_colors, Minimal_shader, Minimal_variable_size,
           Minimal_variable_size_and_depth, Billboard, Rich_billboard,
           Rich_billboard_no_depth, Phong_shader, Clip_shader, Billboard_phong, Skip_point] p)\<lparr>p_override_default_shader := True\<rparr>
      else p\<lparr>p_override_default_shader := False\<rparr>)"

definition update_color_adjustment :: "pcv \<Rightarrow> pcv" where
  "update_color_adjustment p =
     (if p_flags p Color_adjustment
      then (fold flag_off
          [Dev_depth, Dev_normal_colors, Dev_position_colors, Minimal_shader,
           Minimal_variable_size, Minimal_variable_size_and_depth, Billboard,
           Rich_billboard, Rich_billboard_no_depth, Phong_shader, Clip_shader,
           Billboard_phong, Skip_point] p)\<lparr>p_illumination := False, p_override_default_shader := True\<rparr>
      else p\<lparr>p_override_default_shader := False\<rparr>)"

definition update_minimal_shader :: "pcv \<Rightarrow> pcv" where
  "update_minimal_shader p =
     (if p_flags p Minimal_shader
      then (fold flag_off
          [Dev_depth, Dev_normal_colors, Dev_position_colors, Color_adjustment,
           Minimal_variable_size, Minimal_variable_size_and_depth, Billboard,
           Rich_billboard, Rich_billboard_no_depth, Phong_shader, Clip_shader,
           Billboard_phong, Skip_point] (p\<lparr>p_illumination := False\<rparr>))\<lparr>p_override_default_shader := True\<rparr>
      else p\<lparr>p_override_default_shader := False\<rparr>)"

definition update_minimal_shader_variable_size :: "pcv \<Rightarrow> pcv" where
  "update_minimal_shader_variable_size p =
     (if p_flags p Minimal_variable_size
      then (fold flag_off
          [Dev_depth, Dev_normal_colors, Dev_position_colors, Color_adjustment,
           Minimal_shader, Minimal_variable_size_and_depth, Billboard, Rich_billboard,
           Rich_billboard_no_depth, Phong_shader, Clip_shader, Billboard_phong, Skip_point] (p\<lparr>p_illumination := False\<rparr>))\<lparr>p_override_default_shader := True\<rparr>
      else p\<lparr>p_override_default_shader := False\<rparr>)"

definition update_minimal_shader_variable_size_with_depth :: "pcv \<Rightarrow> pcv" where
  "update_minimal_shader_variable_size_with_depth p =
     (if p_flags p Minimal_variable_size_and_depth
      then (fold flag_off
          [Dev_depth, Dev_normal_colors, Dev_position_colors, Color_adjustment,
           Minimal_shader, Minimal_variable_size, Billboard, Rich_billboard,
           Rich_billboard_no_depth, Phong_shader, Clip_shader, Billboard_phong, Skip_point] (p\<lparr>p_illumination := False\<rparr>))\<lparr>p_override_default_shader := True\<rparr>
      else p\<lparr>p_override_default_shader := False\<rparr>)"

definition update_dev_billboard_point_cloud_enabled :: "pcv \<Rightarrow> pcv" where
  "update_dev_billboard_point_cloud_enabled p =
     (if p_flags p Billboard
      then (fold flag_off
          [Dev_depth, Dev_normal_colors, Dev_position_colors, Color_adjustment,
           Minimal_shader, Minimal_variable_size, Minimal_variable_size_and_depth,
           Rich_billboard, Rich_billboard_no_depth, Phong_shader, Clip_shader,
           Billboard_phong, Skip_point] (p\<lparr>p_illumination := False\<rparr>))\<lparr>p_override_default_shader := True\<rparr>
      else p\<lparr>p_override_default_shader := False\<rparr>)"

definition update_dev_rich_billboard_point_cloud_enabled :: "pcv \<Rightarrow> pcv" where
  "update_dev_rich_billboard_point_cloud_enabled p =
     (if p_flags p Rich_billboard
      then (fold flag_off
          [Dev_depth, Dev_normal_colors, Dev_position_colors, Color_adjustment,
           Minimal_shader, Minimal_variable_size, Minimal_variable_size_and_depth,
           Billboard, Rich_billboard_no_depth, Phong_shader, Clip_shader, Billboard_phong,
           Skip_point] (p\<lparr>p_illumination := False\<rparr>))\<lparr>p_override_default_shader := True\<rparr>
      else p\<lparr>p_override_default_shader := False\<rparr>)"

definition update_dev_rich_billboard_point_cloud_no_depth_enabled :: "pcv \<Rightarrow> pcv" where
  "update_dev_rich_billboard_point_cloud_no_depth_enabled p =
     (if p_flags p Rich_billboard_no_depth
      then (fold flag_off
          [Dev_depth, Dev_normal_colors, Dev_position_colors, Color_adjustment,
           Minimal_shader, Minimal_variable_size, Minimal_variable_size_and_depth,
           Billboard, Rich_billboard, Phong_shader, Clip_shader, Billboard_phong,
           Skip_point] (p\<lparr>p_illumination := False\<rparr>))\<lparr>p_override_default_shader := True\<rparr>
      else p\<lparr>p_override_default_shader := False\<rparr>)"

definition update_dev_phong_shader_enabled :: "pcv \<Rightarrow> pcv" where
  "update_dev_phong_shader_enabled p =
     (if p_flags p Phong_shader
      then (fold flag_off
          [Dev_depth, Dev_normal_colors, Dev_position_colors, Color_adjustment,
           Minimal_shader, Minimal_variable_size, Minimal_variable_size_and_depth,
           Billboard, Rich_billboard, Rich_billboard_no_depth, Clip_shader,
           Billboard_phong, Skip_point] (p\<lparr>p_illumination := False\<rparr>))\<lparr>p_override_default_shader := True\<rparr>
      else p\<lparr>p_override_default_shader := False\<rparr>)"

definition update_clip_shader :: "pcv \<Rightarrow> pcv" where
  "update_clip_shader p =
     (if p_flags p Clip_shader
      then (fold flag_off
          [Dev_depth, Dev_normal_colors, Dev_position_colors, Color_adjustment,
           Minimal_shader, Minimal_variable_size, Minimal_variable_size_and_depth,
           Billboard, Rich_billboard, Rich_billboard_no_depth, Phong_shader,
           Billboard_phong, Skip_point] (p\<lparr>p_illumination := False\<rparr>))\<lparr>p_override_default_shader := True\<rparr>
      else p\<lparr>p_override_default_shader := False\<rparr>)"

definition update_billboard_phong :: "pcv \<Rightarrow> pcv" where
  "update_billboard_phong p =
     (if p_flags p Billboard_phong
      then (fold flag_off
          [Dev_depth, Dev_normal_colors, Dev_position_colors, Color_adjustment,
           Minimal_shader, Minimal_variable_size, Minimal_variable_size_and_depth,
           Billboard, Rich_billboard, Rich_billboard_no_depth, Phong_shader, Clip_shader,
           Skip_point] (p\<lparr>p_illumination := False\<rparr>))\<lparr>p_override_default_shader := True\<rparr>
      else p\<lparr>p_override_default_shader := False\<rparr>)"

definition update_skip_point_shader :: "pcv \<Rightarrow> pcv" where
  "update_skip_point_shader p =
     (if p_flags p Skip_point
      then (fold flag_off
          [Dev_depth, Dev_normal_colors, Dev_position_colors, Color_adjustment,
           Minimal_shader, Minimal_variable_size, Minimal_variable_size_and_depth,
           Billboard, Rich_billboard, Rich_billboard_no_depth, Phong_shader, Clip_shader,
           Billboard_phong] (p\<lparr>p_illumination := False\<rparr>))\<lparr>p_override_default_shader := True\<rparr>
      else p\<lparr>p_override_default_shader := False\<rparr>)"

text \<open>An assignment to a switch: the value, then the switch's callback.\<close>

definition flag_update :: "shader_flag \<Rightarrow> pcv \<Rightarrow> pcv" where
  "flag_update f p =
     (case f of
        Dev_depth \<Rightarrow> update_dev_depth p
      | Dev_normal_colors \<Rightarrow> update_dev_normal p
      | Dev_position_colors \<Rightarrow> update_dev_position p
      | Color_adjustment \<Rightarrow> update_color_adjustment p
      | Minimal_shader \<Rightarrow> update_minimal_shader p
      | Minimal_variable_size \<Rightarrow> update_minimal_shader_variable_size p
      | Minimal_variable_size_and_depth \<Rightarrow> update_minimal_shader_variable_size_with_depth p
      | Billboard \<Rightarrow> update_dev_billboard_point_cloud_enabled p
      | Rich_billboard \<Rightarrow> update_dev_rich_billboard_point_cloud_enabled p
      | Rich_billboard_no_depth \<Rightarrow> update_dev_rich_billboard_point_cloud_no_depth_enabled p
      | Phong_shader \<Rightarrow> update_dev_phong_shader_enabled p
      | Clip_shader \<Rightarrow> update_clip_shader p
      | Billboard_phong \<Rightarrow> update_billboard_phong p
      | Skip_point \<Rightarrow> update_skip_point_shader p)"

definition set_flag :: "shader_flag \<Rightarrow> bool \<Rightarrow> pcv \<Rightarrow> pcv" where
  "set_flag f b p = flag_update f (p\<lparr>p_flags := (p_flags p)(f := b)\<rparr>)"

lemmas callback_defs =
  update_dev_depth_def update_dev_normal_def update_dev_position_def update_color_adjustment_def
  update_minimal_shader_def update_minimal_shader_variable_size_def
  update_minimal_shader_variable_size_with_depth_def update_dev_billboard_point_cloud_enabled_def
  update_dev_rich_billboard_point_cloud_enabled_def
  update_dev_rich_billboard_point_cloud_no_depth_enabled_def update_dev_phong_shader_enabled_def
  update_clip_shader_def update_billboard_phong_def update_skip_point_shader_def

lemma set_flag_False: "set_flag f False p = flag_off f p"
  by (cases f) (simp_all add: set_flag_def flag_update_def callback_defs flag_off_def)

lemma fold_flag_off:
  "p_flags (fold flag_off fs p) = (\<lambda>f. if f \<in> set fs then False else p_flags p f)"
  by (induction fs arbitrary: p) (auto simp: flag_off_def fun_eq_iff)

text \<open>
  Which shaders stay on when one is switched on: none but the colour adjustment, and that
  only beside the depth, normal and position shaders, whose callbacks do not clear it.
\<close>

definition dev_three :: "shader_flag set" where
  "dev_three = {Dev_depth, Dev_normal_colors, Dev_position_colors}"

lemma set_flag_True_other:
  assumes "g \<noteq> f"
  shows "p_flags (set_flag f True p) g = (p_flags p g \<and> g = Color_adjustment \<and> f \<in> dev_three)"
  using assms
  by (cases f) (cases g; simp add: set_flag_def flag_update_def callback_defs fold_flag_off dev_three_def del: fold.simps fold_simps)+

lemma set_flag_True_self: "p_flags (set_flag f True p) f" "p_override_default_shader (set_flag f True p)"
  by (cases f; simp add: set_flag_def flag_update_def callback_defs fold_flag_off del: fold.simps fold_simps)+

lemma set_flag_False_flags:
  "p_flags (set_flag f False p) g = (g \<noteq> f \<and> p_flags p g)" "\<not> p_override_default_shader (set_flag f False p)"
  by (simp_all add: set_flag_False flag_off_def)

text \<open>
  What every sequence of assignments keeps: two shaders can only be on together when one is
  the colour adjustment and the other one of the three, and the override needs a shader.
\<close>

definition shaders_ok :: "pcv \<Rightarrow> bool" where
  "shaders_ok p \<longleftrightarrow>
     (\<forall>f g. p_flags p f \<and> p_flags p g \<and> f \<noteq> g \<longrightarrow>
        f = Color_adjustment \<and> g \<in> dev_three \<or> g = Color_adjustment \<and> f \<in> dev_three) \<and>
     (p_override_default_shader p \<longrightarrow> (\<exists>f. p_flags p f))"

definition assign_flag :: "shader_flag \<times> bool \<Rightarrow> pcv \<Rightarrow> pcv" where
  "assign_flag a p = set_flag (fst a) (snd a) p"

lemma shaders_ok_assign:
  assumes "shaders_ok p"
  shows "shaders_ok (assign_flag a p)"
proof (cases "snd a")
  case True
  then have on: "p_flags (assign_flag a p) g = (g = fst a \<or> p_flags p g \<and> g = Color_adjustment \<and> fst a \<in> dev_three)"
    for g
    using set_flag_True_other [of g "fst a" p] set_flag_True_self(1) [of "fst a" p]
    by (cases "g = fst a") (auto simp: assign_flag_def)
  then show ?thesis by (auto simp: shaders_ok_def)
next
  case False
  then show ?thesis
    using assms set_flag_False_flags [of "fst a" p] by (auto simp: assign_flag_def shaders_ok_def)
qed

lemma default_flags: "p_flags default_pcv = (\<lambda>_. False)" "p_override_default_shader default_pcv = False"
  unfolding default_pcv_def by (simp_all only: pcv.select_convs)

interpretation shaders: transition_invariant default_pcv assign_flag shaders_ok
  by unfold_locales (simp add: shaders_ok_def default_flags, rule shaders_ok_assign)

text \<open>
  Switching back and forth among the thirteen shaders other than the colour adjustment: at
  most one is on, and the default shader is overridden exactly then.
\<close>

definition toggle :: "shader_flag \<Rightarrow> pcv \<Rightarrow> pcv" where
  "toggle f p = set_flag f (\<not> p_flags p f) p"

definition one_shader :: "pcv \<Rightarrow> bool" where
  "one_shader p \<longleftrightarrow>
     \<not> p_flags p Color_adjustment \<and> (\<forall>f g. p_flags p f \<and> p_flags p g \<longrightarrow> f = g) \<and>
     (p_override_default_shader p \<longleftrightarrow> (\<exists>f. p_flags p f))"

lemma one_shader_toggle:
  assumes "one_shader p" "f \<noteq> Color_adjustment"
  shows "one_shader (toggle f p)"
proof (cases "p_flags p f")
  case True
  then have "\<not> p_flags p g" if "g \<noteq> f" for g
    using assms(1) that by (auto simp: one_shader_def)
  then show ?thesis
    using assms True set_flag_False_flags [of f p] by (auto simp: toggle_def one_shader_def)
next
  case False
  have "p_flags (set_flag f True p) g = (g = f)" for g
    using assms(1) set_flag_True_other [of g f p] set_flag_True_self(1) [of f p]
    by (cases "g = f") (auto simp: one_shader_def)
  then show ?thesis
    using assms(2) False set_flag_True_self(2) [of f p] by (simp add: toggle_def one_shader_def)
qed

lemma one_shader_toggles:
  "one_shader p \<Longrightarrow> Color_adjustment \<notin> set fs \<Longrightarrow> one_shader (fold toggle fs p)"
proof (induction fs arbitrary: p)
  case (Cons f fs)
  then have "one_shader (toggle f p)"
    by (intro one_shader_toggle) (simp, metis list.set_intros(1))
  with Cons show ?case by simp
qed simp

section \<open>Other update callbacks and polls\<close>

definition project_positive_radio_update :: "project_settings \<Rightarrow> project_settings" where
  "project_positive_radio_update s =
     (if \<not> fp_negative s \<and> \<not> fp_positive s then s\<lparr>fp_negative := True\<rparr> else s)"

definition project_negative_radio_update :: "project_settings \<Rightarrow> project_settings" where
  "project_negative_radio_update s =
     (if \<not> fp_negative s \<and> \<not> fp_positive s then s\<lparr>fp_positive := True\<rparr> else s)"

text \<open>
  \<open>set_positive b\<close> and \<open>set_negative b\<close>: assignment and callback. The value the callback
  assigns in turn runs the other callback, which finds one of them set.
\<close>

definition set_positive :: "bool \<Rightarrow> project_settings \<Rightarrow> project_settings" where
  "set_positive b s = project_negative_radio_update (project_positive_radio_update (s\<lparr>fp_positive := b\<rparr>))"

definition set_negative :: "bool \<Rightarrow> project_settings \<Rightarrow> project_settings" where
  "set_negative b s = project_positive_radio_update (project_negative_radio_update (s\<lparr>fp_negative := b\<rparr>))"

lemma radio_one_set:
  "fp_positive (set_positive b s) \<or> fp_negative (set_positive b s)"
  "fp_positive (set_negative b s) \<or> fp_negative (set_negative b s)"
  "fp_positive (set_positive b s) = b" "fp_negative (set_negative b s) = b"
  by (cases b; simp add: set_positive_def set_negative_def project_positive_radio_update_def
      project_negative_radio_update_def)+

definition render_resolution_linked_update :: "int \<Rightarrow> int \<Rightarrow> int \<Rightarrow> render_settings \<Rightarrow> render_settings" where
  "render_resolution_linked_update rx ry pct s =
     (if \<not> rn_resolution_linked s
      then s\<lparr>rn_resolution_x := rx, rn_resolution_y := ry, rn_resolution_percentage := pct\<rparr> else s)"

definition object_type_poll :: "string \<Rightarrow> bool" where
  "object_type_poll t \<longleftrightarrow> t \<in> {''MESH'', ''CURVE'', ''SURFACE'', ''FONT''}"

text \<open>The object offered for a join: its first item with that uuid has to be ready.\<close>

definition filter_join_object_poll :: "string \<Rightarrow> world \<Rightarrow> bool" where
  "filter_join_object_poll n w =
     (case get_pcv w n of
        None \<Rightarrow> False
      | Some p \<Rightarrow> p_uuid p \<noteq> '''' \<and>
          (case find (\<lambda>(k, v). ci_uuid v = Some (p_uuid p)) (cache w) of
             None \<Rightarrow> False | Some (_, v) \<Rightarrow> ci_ready v))"

section \<open>Colour adjustment\<close>

definition color_adjust_poll :: "world \<Rightarrow> bool" where
  "color_adjust_poll w =
     (case context_pcv w of
        None \<Rightarrow> False | Some (_, p) \<Rightarrow> shown w (p_uuid p) \<and> p_flags p Color_adjustment)"

definition neutral_adjust :: color_adjust where
  "neutral_adjust =
     \<lparr>ca_exposure = 0, ca_gamma = 1, ca_brightness = 0, ca_contrast = 1,
      ca_hue = 0, ca_saturation = 0, ca_value = 0, ca_invert = False\<rparr>"

definition PCV_OT_color_adjustment_shader_reset :: "world \<Rightarrow> status \<times> world" where
  "PCV_OT_color_adjustment_shader_reset w =
     (case context_pcv w of
        None \<Rightarrow> (Raised AttributeError, w)
      | Some (n0, p) \<Rightarrow> (Finished, tag_redraw (upd_pcv n0 (\<lambda>q. q\<lparr>p_color_adjust := neutral_adjust\<rparr>) w)))"

definition clip01 :: "real \<Rightarrow> real" where
  "clip01 x = min (max x 0) 1"

text \<open>The adjustment of one channel before and after the hue, saturation and value step.\<close>

definition adjust_channel :: "color_adjust \<Rightarrow> real \<Rightarrow> real" where
  "adjust_channel a x =
     (let x1 = clip01 (x * 2 powr ca_exposure a);
          x2 = clip01 (x1 powr (1 / ca_gamma a))
      in clip01 ((x2 - 1 / 2) * ca_contrast a + 1 / 2 + ca_brightness a))"

definition finish_channel :: "color_adjust \<Rightarrow> real \<Rightarrow> real" where
  "finish_channel a x = (let y = clip01 x in clip01 (if ca_invert a then 1 - y else y))"

definition adjust_color :: "blender \<Rightarrow> color_adjust \<Rightarrow> v4 \<Rightarrow> v4" where
  "adjust_color bl a c =
     (case c of (r, g, b, al) \<Rightarrow>
        let h = (if 1 < ca_hue a then frac (ca_hue a) else ca_hue a);
            (h0, s0, v0) = bl_hsv bl (adjust_channel a r, adjust_channel a g, adjust_channel a b);
            (r', g', b') = bl_from_hsv bl (frac (h0 + h), s0 + ca_saturation a, v0 + ca_value a)
        in (finish_channel a r', finish_channel a g', finish_channel a b',
            finish_channel a (adjust_channel a al)))"

definition PCV_OT_color_adjustment_shader_apply :: "blender \<Rightarrow> world \<Rightarrow> status \<times> world" where
  "PCV_OT_color_adjustment_shader_apply bl w =
     (case context_arrays w of
        Inl e \<Rightarrow> (Raised e, w)
      | Inr (n0, p, c, vs, ns, cs) \<Rightarrow>
          (let cs' = map (adjust_color bl (p_color_adjust p)) cs
           in case bpy_op color_adjust_poll PCV_OT_color_adjustment_shader_reset w of
                (Raised e, w1) \<Rightarrow> (Raised e, w1)
              | (_, w1) \<Rightarrow>
                  (let w2 = upd_pcv n0 (set_flag Color_adjustment False) w1;
                       w3 = upd_item (p_uuid p) (\<lambda>c. c\<lparr>ci_extra := None\<rparr>) w2
                   in status_of (PCVManager_update (p_uuid p) vs (Some ns) (Some cs') w3))))"

section \<open>Clip planes\<close>

record geometry =
  ge_normal :: "v3 list \<Rightarrow> v3"
  ge_plane_distance :: "v3 \<Rightarrow> v3 \<Rightarrow> v3 \<Rightarrow> real"
  ge_translation :: "mat4 \<Rightarrow> v3"

definition v3_negate :: "v3 \<Rightarrow> v3" where
  "v3_negate v = v3_scale (- 1) v"

definition bbox_faces :: "nat list list" where
  "bbox_faces = [[0, 4, 5, 1], [3, 2, 6, 7], [1, 5, 6, 2], [0, 3, 7, 4], [0, 1, 2, 3], [4, 7, 6, 5]]"

definition plane :: "v3 \<Rightarrow> real \<Rightarrow> v4" where
  "plane n d = (case n of (x, y, z) \<Rightarrow> (x, y, z, d))"

definition PCV_OT_clip_planes_from_bbox :: "geometry \<Rightarrow> (string \<Rightarrow> v3 list) \<Rightarrow> world \<Rightarrow> status \<times> world" where
  "PCV_OT_clip_planes_from_bbox ge bound_box w =
     (case context_pcv w of
        None \<Rightarrow> (Raised AttributeError, w)
      | Some (n0, p) \<Rightarrow>
          (case p_clip_planes_from_bbox_object p of
             None \<Rightarrow> (Raised AttributeError, w)
           | Some bo \<Rightarrow>
               (case dict_get (objects w) bo of
                  None \<Rightarrow> (Raised (Py_Exception ''ReferenceError''), w)
                | Some bbo \<Rightarrow>
                    (let vs = map (mat_apply (ob_matrix_world bbo)) (bound_box bo);
                         quads = map (map (\<lambda>j. vs ! j)) bbox_faces;
                         ns = map (\<lambda>q. v3_negate (ge_normal ge q)) quads;
                         ds = map (\<lambda>(q, n). ge_plane_distance ge (0, 0, 0) (q ! 0) n) (zip quads ns);
                         a = map (\<lambda>(n, d). plane n d) (zip ns ds);
                         w1 = upd_pcv n0 (\<lambda>q. q\<lparr>p_clip_planes := a\<rparr>) w;
                         w2 = upd_pcv n0 (set_flag Clip_shader True) w1
                     in (Finished, upd_pcv n0 (\<lambda>q. q\<lparr>p_clip_planes_enabled := replicate 6 True\<rparr>) w2)))))"

definition PCV_OT_clip_planes_reset :: "world \<Rightarrow> status \<times> world" where
  "PCV_OT_clip_planes_reset w =
     (case context_pcv w of
        None \<Rightarrow> (Raised AttributeError, w)
      | Some (n0, p) \<Rightarrow>
          (let w1 = upd_pcv n0 (\<lambda>q. q\<lparr>p_clip_planes_from_bbox_object := None,
                      p_clip_planes := replicate 6 (0, 0, 0, 0)\<rparr>) w;
               w2 = upd_pcv n0 (set_flag Clip_shader False) w1
           in (Finished, upd_pcv n0 (\<lambda>q. q\<lparr>p_clip_planes_enabled := replicate 6 False\<rparr>) w2)))"

record camera =
  cam_matrix :: mat4
  cam_sensor_width :: real
  cam_lens :: real
  cam_resolution_x :: real
  cam_resolution_y :: real

text \<open>
  The corners of the camera's view at distance one and the four side planes through them, in
  the space of the context object.
\<close>

definition view_corners :: "camera \<Rightarrow> v3 list" where
  "view_corners cm =
     (let rx = cam_resolution_x cm; ry = cam_resolution_y cm;
          w = 1 / 2 * cam_sensor_width cm / cam_lens cm;
          (x, y) = (if rx > ry then (w, w * ry / rx) else (w * rx / ry, w))
      in [(x, - y, - 1), (x, y, - 1), (- x, y, - 1), (- x, - y, - 1)])"

definition camera_planes :: "blender \<Rightarrow> geometry \<Rightarrow> camera \<Rightarrow> mat4 \<Rightarrow> v4 list" where
  "camera_planes bl ge cm omi =
     (let cs = view_corners cm;
          rm = bl_rotation bl (cam_matrix cm);
          l = ge_translation ge (cam_matrix cm);
          orm = bl_rotation bl omi;
          ns0 = map (\<lambda>(a, b). v3_negate (ge_normal ge [(0, 0, 0), a, b])) (zip cs (rotate1 cs));
          ns = map (\<lambda>n. mat_apply orm (mat_apply rm n)) ns0;
          vs = map (\<lambda>c. mat_apply omi (v3_add l (mat_apply rm c))) cs
      in map (\<lambda>(v, n). plane n (ge_plane_distance ge (0, 0, 0) v n)) (zip vs ns))"

definition PCV_OT_clip_planes_from_camera_view ::
    "blender \<Rightarrow> geometry \<Rightarrow> camera option \<Rightarrow> world \<Rightarrow> status \<times> world" where
  "PCV_OT_clip_planes_from_camera_view bl ge cam w =
     (case (context_pcv w, Option.bind (context_object w) (dict_get (objects w)), cam) of
        (Some (n0, p), Some ob, Some cm) \<Rightarrow>
          (case bl_inverted bl (ob_matrix_world ob) of
             Inl e \<Rightarrow> (Raised e, w)
           | Inr omi \<Rightarrow>
               (let w1 = upd_pcv n0 (\<lambda>q. q\<lparr>p_clip_planes :=
                           camera_planes bl ge cm omi @ replicate 2 (0, 0, 0, 0)\<rparr>) w;
                    w2 = upd_pcv n0 (set_flag Clip_shader True) w1
                in (Finished, upd_pcv n0 (\<lambda>q. q\<lparr>p_clip_planes_enabled :=
                      replicate 4 True @ replicate 2 False\<rparr>) w2)))
      | _ \<Rightarrow> (Raised AttributeError, w))"

section \<open>The tab of the panels\<close>

text \<open>
  \<open>_update_panel_bl_category\<close>: all panels are unregistered, the name is looked up, and they
  are registered again; any exception is only logged. Unregistering a panel that is not
  registered raises.
\<close>

record panels =
  pn_registered :: bool
  pn_bl_category :: string

record category_prefs =
  cp_custom :: bool
  cp_custom_name :: string
  cp_category :: string
  cp_items :: "(string \<times> string) list"

definition category_name :: "category_prefs \<Rightarrow> string" where
  "category_name c =
     (if cp_custom c then cp_custom_name c
      else fold (\<lambda>(ident, name) n. if ident = cp_category c then name else n) (cp_items c) '''')"

definition update_panel_bl_category :: "category_prefs \<Rightarrow> panels \<Rightarrow> panels" where
  "update_panel_bl_category c st =
     (if \<not> pn_registered st then st
      else if category_name c = '''' then st\<lparr>pn_registered := False\<rparr>
      else st\<lparr>pn_bl_category := category_name c\<rparr>)"

section \<open>Facts\<close>

lemma clip01_range: "0 \<le> clip01 x" "clip01 x \<le> 1"
  by (auto simp: clip01_def)

lemma clip01_id: "0 \<le> x \<Longrightarrow> x \<le> 1 \<Longrightarrow> clip01 x = x"
  by (auto simp: clip01_def)

definition unit_color :: "v4 \<Rightarrow> bool" where
  "unit_color c \<longleftrightarrow> (case c of (r, g, b, a) \<Rightarrow> \<forall>x\<in>{r, g, b, a}. 0 \<le> x \<and> x \<le> 1)"

lemma adjust_color_range: "unit_color (adjust_color bl a c)"
  by (auto simp: unit_color_def adjust_color_def finish_channel_def clip01_range Let_def
      split: prod.splits)

lemma adjust_neutral_channel: "0 \<le> x \<Longrightarrow> x \<le> 1 \<Longrightarrow> adjust_channel neutral_adjust x = x"
  by (simp add: adjust_channel_def neutral_adjust_def Let_def clip01_id)

text \<open>\<open>Color.hsv\<close> and back is the identity, with hues below one.\<close>

definition hsv_ok :: "blender \<Rightarrow> bool" where
  "hsv_ok bl \<longleftrightarrow> (\<forall>c. bl_from_hsv bl (bl_hsv bl c) = c \<and> 0 \<le> fst (bl_hsv bl c) \<and> fst (bl_hsv bl c) < 1)"

lemma adjust_neutral:
  assumes "hsv_ok bl" "unit_color c"
  shows "adjust_color bl neutral_adjust c = c"
proof -
  obtain r g b al where c: "c = (r, g, b, al)" by (cases c) auto
  obtain h s v where h: "bl_hsv bl (r, g, b) = (h, s, v)" by (cases "bl_hsv bl (r, g, b)") auto
  have "bl_from_hsv bl (h, s, v) = (r, g, b)" "0 \<le> h" "h < 1"
    using assms(1)[unfolded hsv_ok_def, rule_format, of "(r, g, b)"] h by auto
  moreover from this have "frac h = h"
    by (simp add: frac_eq)
  moreover have "ca_hue neutral_adjust = 0" "ca_saturation neutral_adjust = 0" "ca_value neutral_adjust = 0"
    "\<not> ca_invert neutral_adjust"
    by (simp_all add: neutral_adjust_def)
  ultimately show ?thesis
    using assms(2) h
    by (simp add: adjust_color_def c Let_def adjust_neutral_channel unit_color_def finish_channel_def clip01_id)
qed

text \<open>Inverting turns the opacity of every opaque point to zero, too.\<close>

lemma adjust_invert_alpha:
  "snd (snd (snd (adjust_color bl (neutral_adjust\<lparr>ca_invert := True\<rparr>) (r, g, b, 1)))) = 0"
  by (simp add: adjust_color_def finish_channel_def adjust_channel_def neutral_adjust_def clip01_def
      Let_def split: prod.splits)

lemma cloud_extra [simp]: "cloud (c\<lparr>ci_extra := x\<rparr>) = cloud c"
  by (simp add: cloud_def)

lemma flag_off_frame [simp]:
  "p_uuid (set_flag f False p) = p_uuid p" "p_display_percent (set_flag f False p) = p_display_percent p"
  "p_color_adjust (set_flag f False p) = p_color_adjust p"
  by (simp_all add: set_flag_False flag_off_def)

lemma color_adjust_apply_ok:
  assumes ok: "world_ok w" and arr: "context_arrays w = Inr (n0, p, c, vs, ns, cs)"
    and shown: "ci_ready c" "ci_draw c" "p_flags p Color_adjustment"
  shows "\<exists>w' c'. PCV_OT_color_adjustment_shader_apply bl w = (Finished, w') \<and> world_ok w' \<and>
     dict_get (cache w') (p_uuid p) = Some c' \<and>
     cloud c' = map (\<lambda>(v, n, col). (v, n, adjust_color bl (p_color_adjust p) col)) (cloud c) \<and>
     (\<exists>q. get_pcv w' n0 = Some q \<and> p_color_adjust q = neutral_adjust \<and>
        \<not> p_flags q Color_adjustment \<and> \<not> p_override_default_shader q)"
proof -
  note d = context_arraysD [OF arr] and len = context_arrays_lengths [OF ok arr]
  let ?cs = "map (adjust_color bl (p_color_adjust p)) cs"
  let ?w1 = "tag_redraw (upd_pcv n0 (\<lambda>q. q\<lparr>p_color_adjust := neutral_adjust\<rparr>) w)"
  let ?w2 = "upd_pcv n0 (set_flag Color_adjustment False) ?w1"
  let ?w3 = "upd_item (p_uuid p) (\<lambda>c. c\<lparr>ci_extra := None\<rparr>) ?w2"
  have "ci_uuid c = Some (p_uuid p)" using world_ok_get [OF ok d(2)] by blast
  then have "color_adjust_poll w"
    using d(1) shown map_of_SomeD [OF d(2)] by (force simp: color_adjust_poll_def shown_def)
  then have op: "bpy_op color_adjust_poll PCV_OT_color_adjustment_shader_reset w = (Finished, ?w1)"
    using d(1) by (intro bpy_op_ok) (simp_all add: PCV_OT_color_adjustment_shader_reset_def)
  have "world_ok ?w1" using ok by (simp add: world_ok_set_pcv)
  then have "world_ok ?w2" by (rule world_ok_set_pcv) simp
  then have ok3: "world_ok ?w3" by (rule world_ok_upd_item) simp
  have c3: "dict_get (cache ?w3) (p_uuid p) = Some (c\<lparr>ci_extra := None\<rparr>)"
    using d(2) by (simp add: dict_get_upd_item)
  obtain q where q: "PCVManager_update (p_uuid p) vs (Some ns) (Some ?cs) ?w3 =
        (Inr (), stored (p_uuid p) vs ns ?cs q (c\<lparr>ci_extra := None\<rparr>) ?w3)"
      "world_ok (stored (p_uuid p) vs ns ?cs q (c\<lparr>ci_extra := None\<rparr>) ?w3)"
    by (rule update_ok [OF ok3 c3, of ns vs ?cs]) (simp_all add: len)
  let ?w' = "stored (p_uuid p) vs ns ?cs q (c\<lparr>ci_extra := None\<rparr>) ?w3"
  have "PCV_OT_color_adjustment_shader_apply bl w = (Finished, ?w')"
    by (simp add: PCV_OT_color_adjustment_shader_apply_def arr Let_def op q(1))
  moreover have "zip vs (zip ns ?cs) = map (\<lambda>(v, n, col). (v, n, adjust_color bl (p_color_adjust p) col)) (cloud c)"
    using d(6) by (simp add: zip_map2 split_def)
  moreover have "get_pcv ?w' n0 = Some (set_flag Color_adjustment False (p\<lparr>p_color_adjust := neutral_adjust\<rparr>))"
    using d(1) by (simp add: get_pcv_upd_pcv context_pcv_get)
  ultimately show ?thesis
    using q(2) by (intro exI [of _ ?w']) (simp add: set_flag_False_flags)
qed

text \<open>Resetting the clip planes switches the override off while another shader stays on.\<close>

lemma clip_planes_reset_override:
  assumes "context_pcv w = Some (n0, p)" "f \<noteq> Clip_shader" "p_flags p f"
  shows "\<exists>w' q. PCV_OT_clip_planes_reset w = (Finished, w') \<and> get_pcv w' n0 = Some q \<and>
     p_flags q f \<and> \<not> p_override_default_shader q \<and>
     p_clip_planes q = replicate 6 (0, 0, 0, 0) \<and> p_clip_planes_enabled q = replicate 6 False"
  using assms iffD1 [OF context_pcv_get assms(1)]
  by (simp add: PCV_OT_clip_planes_reset_def Let_def get_pcv_upd_pcv set_flag_False flag_off_def)

text \<open>Once a name is empty the panels stay away, whatever name is chosen later.\<close>

lemma panels_lost:
  assumes "pn_registered st" "category_name c = ''''"
  shows "\<not> pn_registered (fold update_panel_bl_category (c # cs) st)"
proof -
  have "\<not> pn_registered (fold update_panel_bl_category cs st')" if "\<not> pn_registered st'" for st'
    using that by (induction cs arbitrary: st') (auto simp: update_panel_bl_category_def)
  then show ?thesis
    using assms by (simp add: update_panel_bl_category_def)
qed

end
