(* ===== verification/PCV_Sequence.thy ===== *)
theory PCV_Sequence
  imports PCV_Shaders "HOL-Library.Product_Lexorder" "HOL-Library.List_Lexorder" "HOL-Library.Char_ord"
begin

text \<open>
  \<open>PCVSequence\<close>: the frame change handler that shows one of the preloaded clouds per frame,
  its registration, and the operators that preload and clear a sequence.
\<close>

section \<open>Registration and the frame handler\<close>

definition PCVSequence_init :: "world \<Rightarrow> world" where
  "PCVSequence_init w =
     (if seq_initialized w then w
      else w\<lparr>frame_change_post := Suc (frame_change_post w), seq_initialized := True\<rparr>)"

definition PCVSequence_deinit :: "world \<Rightarrow> (py_error + unit) \<times> world" where
  "PCVSequence_deinit w =
     (if \<not> seq_initialized w then (Inr (), w)
      else if frame_change_post w = 0 then (Inl (ValueError ''list.remove(x): x not in list''), w)
      else (Inr (), w\<lparr>frame_change_post := frame_change_post w - 1, seq_initialized := False,
                      seq_cache := []\<rparr>))"

text \<open>
  The frame number is one variable for all items: the remainder taken for a cyclic item is
  what the next item starts from.
\<close>

fun seq_loop :: "(string \<times> seq_item) list \<Rightarrow> int \<Rightarrow> world \<Rightarrow> (py_error + unit) \<times> world" where
  "seq_loop [] cf w = (Inr (), w)"
| "seq_loop ((k, v) # items) cf w =
     (case get_pcv w (si_owner v) of
        None \<Rightarrow> (Inl (Py_Exception ''ReferenceError''), w)
      | Some p \<Rightarrow>
          if p_uuid p \<noteq> k
          then (let w1 = w\<lparr>seq_cache := AList.delete k (seq_cache w)\<rparr>
                in if seq_cache w1 = [] then PCVSequence_deinit w1 else (Inr (), w1))
          else
            (let w1 = PCVManager_init w;
                 ld = int (length (si_data v))
             in if p_sequence_use_cyclic p \<and> ld = 0 then (Inl ZeroDivisionError, w1)
                else
                  (let cf' = (if p_sequence_use_cyclic p then cf mod ld else cf)
                   in case (if cf' > ld then PCVManager_update k [] None None w1
                            else (case py_get (si_data v) (cf' - 1) of
                                    Inl e \<Rightarrow> (Inl e, w1)
                                  | Inr d \<Rightarrow> PCVManager_update k (sf_vs d) (sf_ns d) (sf_cs d) w1)) of
                        (Inl e, w2) \<Rightarrow> (Inl e, w2)
                      | (Inr _, w2) \<Rightarrow> seq_loop items cf' w2)))"

definition PCVSequence_handler :: "world \<Rightarrow> (py_error + unit) \<times> world" where
  "PCVSequence_handler w = seq_loop (seq_cache w) (frame_current w) w"

section \<open>Finding the files of a sequence\<close>

text \<open>
  The pattern \<open>(\d+)(?!.*(\d+))\<close>: the last run of digits, with what is before and after it.
\<close>

definition last_number :: "string \<Rightarrow> (string \<times> string \<times> string) option" where
  "last_number f =
     (let r = rev f;
          suffix = takeWhile (\<lambda>c. \<not> is_digit c) r;
          rest = dropWhile (\<lambda>c. \<not> is_digit c) r;
          digits = takeWhile is_digit rest;
          prefix = dropWhile is_digit rest
      in if digits = [] then None else Some (rev prefix, rev digits, rev suffix))"

definition to_lower :: "char \<Rightarrow> char" where
  "to_lower c = (let n = of_char c :: nat in if 65 \<le> n \<and> n \<le> 90 then char_of (n + 32) else c)"

definition ends_ply :: "string \<Rightarrow> bool" where
  "ends_ply f \<longleftrightarrow> (let l = map to_lower f in 4 \<le> length l \<and> drop (length l - 4) l = ''.ply'')"

text \<open>The numbered files of the directory that share prefix and suffix with the chosen one.\<close>

definition numbered_file :: "string \<Rightarrow> string \<Rightarrow> string \<Rightarrow> (nat \<times> string) option" where
  "numbered_file prefix suffix n =
     (case last_number n of
        None \<Rightarrow> None
      | Some (pre, digits, suf) \<Rightarrow>
          if pre = prefix \<and> suf = suffix then Some (digits_val 0 digits, n) else None)"

definition sequence_selection :: "string \<Rightarrow> string \<Rightarrow> string list \<Rightarrow> (nat \<times> string) list" where
  "sequence_selection prefix suffix files =
     sort (List.map_filter (numbered_file prefix suffix) (filter ends_ply files))"

text \<open>The list with a place for every number up to the largest; \<open>sequence[i - 1] = (i, n)\<close>.\<close>

definition place_files :: "(nat \<times> string) list \<Rightarrow> py_error + (nat \<times> string) option list" where
  "place_files sel =
     (if sel = [] then Inl IndexError
      else fold (\<lambda>x acc. bindE acc (\<lambda>s. py_set s (int (fst x) - 1) (Some x))) sel
             (Inr (replicate (fst (last sel)) None)))"

section \<open>Operators\<close>

definition PCV_OT_sequence_preload_poll :: "world \<Rightarrow> bool" where
  "PCV_OT_sequence_preload_poll w =
     (case context_pcv w of
        None \<Rightarrow> False
      | Some (_, p) \<Rightarrow> p_uuid p \<notin> set (dict_keys (seq_cache w)) \<and> shown w (p_uuid p))"

definition sequence_frame :: "num_env \<Rightarrow> nat \<Rightarrow> parray \<Rightarrow> seq_frame" where
  "sequence_frame ne i a =
     \<lparr>sf_index = i, sf_vs = column3 ne a xyz,
      sf_ns = (if has_fields nxyz a then Some (column3 ne a nxyz) else None),
      sf_cs = (if has_fields rgb a
               then Some (column_stack4 (map (\<lambda>v. v / 255) (pa_column ne a ''red''))
                            (map (\<lambda>v. v / 255) (pa_column ne a ''green''))
                            (map (\<lambda>v. v / 255) (pa_column ne a ''blue''))
                            (replicate (length (pa_rows a)) 1))
               else None)\<rparr>"

text \<open>
  Loading the files one after the other. A file that cannot be read or is empty is reported
  and left out; \<open>None\<close> is the early return for a file without locations.
\<close>

fun load_frames ::
    "load_env \<Rightarrow> string \<Rightarrow> (nat \<times> string) option list \<Rightarrow> world \<Rightarrow> seq_frame list option \<times> world" where
  "load_frames ev dir [] w = (Some [], w)"
| "load_frames ev dir (None # xs) w = load_frames ev dir xs w"
| "load_frames ev dir (Some (i, n) # xs) w =
     (let path = path_join dir n
      in case PlyPointCloudReader (le_gen ev) (le_fs ev) path of
           Inl e \<Rightarrow>
             load_frames ev dir xs (report ''ERROR'' (no_vertices path) (report ''ERROR'' (error_text e) w))
         | Inr pp \<Rightarrow>
             if pa_rows (pp_points pp) = []
             then load_frames ev dir xs (report ''ERROR'' (no_vertices path) w)
             else if \<not> has_fields xyz (pp_points pp) then (None, report ''ERROR'' no_locations w)
             else (case load_frames ev dir xs w of
                     (None, w1) \<Rightarrow> (None, w1)
                   | (Some fs, w1) \<Rightarrow> (Some (sequence_frame (le_num ev) i (pp_points pp) # fs), w1)))"

definition PCV_OT_sequence_preload ::
    "load_env \<Rightarrow> (string \<Rightarrow> string list) \<Rightarrow> world \<Rightarrow> status \<times> world" where
  "PCV_OT_sequence_preload ev listing w =
     (case context_pcv w of
        None \<Rightarrow> (Raised AttributeError, w)
      | Some (n0, p) \<Rightarrow>
          (case path_split (p_filepath p) of (dir, f) \<Rightarrow>
             case last_number f of
               None \<Rightarrow> (Cancelled, report ''ERROR'' ''Filename does not contain any sequence number'' w)
             | Some (prefix, digits, suffix) \<Rightarrow>
                 (case place_files (sequence_selection prefix suffix (listing dir)) of
                    Inl e \<Rightarrow> (Raised e, w)
                  | Inr xs \<Rightarrow>
                      (case load_frames ev dir xs w of
                         (None, w1) \<Rightarrow> (Cancelled, w1)
                       | (Some fs, w1) \<Rightarrow>
                           (let w2 = PCVSequence_init w1;
                                w3 = w2\<lparr>seq_cache := AList.update (p_uuid p)
                                       \<lparr>si_data = fs, si_uuid = p_uuid p, si_owner = n0\<rparr> (seq_cache w2)\<rparr>
                            in (Finished, snd (PCVSequence_handler w3)))))))"

definition PCV_OT_sequence_clear_poll :: "world \<Rightarrow> bool" where
  "PCV_OT_sequence_clear_poll w =
     (case context_pcv w of None \<Rightarrow> False | Some (_, p) \<Rightarrow> p_uuid p \<in> set (dict_keys (seq_cache w)))"

definition PCV_OT_sequence_clear :: "load_env \<Rightarrow> world \<Rightarrow> status \<times> world" where
  "PCV_OT_sequence_clear ev w =
     (case context_pcv w of
        None \<Rightarrow> (Raised AttributeError, w)
      | Some (n0, p) \<Rightarrow>
          if dict_get (seq_cache w) (p_uuid p) = None then (Raised (KeyError (p_uuid p)), w)
          else
            (let w1 = w\<lparr>seq_cache := AList.delete (p_uuid p) (seq_cache w)\<rparr>
             in case (if seq_cache w1 = [] then PCVSequence_deinit w1 else (Inr (), w1)) of
                  (Inl e, w2) \<Rightarrow> (Raised e, w2)
                | (Inr _, w2) \<Rightarrow>
                    (case bpy_op PCV_OT_reload_poll (PCV_OT_reload ev) w2 of
                       (Raised e, w3) \<Rightarrow> (Raised e, w3)
                     | (_, w3) \<Rightarrow> (Finished, w3))))"

definition PCV_OT_seq_init :: "world \<Rightarrow> status \<times> world" where
  "PCV_OT_seq_init w = (Finished, tag_redraw (PCVSequence_init w))"

definition PCV_OT_seq_deinit :: "world \<Rightarrow> status \<times> world" where
  "PCV_OT_seq_deinit w =
     (case PCVSequence_deinit w of
        (Inl e, w1) \<Rightarrow> (Raised e, w1)
      | (Inr _, w1) \<Rightarrow> (Finished, tag_redraw w1))"

section \<open>Facts\<close>

lemma seq_frame_conditions [simp]:
  "frame_change_post (PCVManager_init w) = frame_change_post w"
  "seq_initialized (PCVManager_init w) = seq_initialized w"
  "seq_cache (PCVManager_init w) = seq_cache w"
  "frame_change_post (snd (PCVManager_update u vs ns cs w)) = frame_change_post w"
  "seq_initialized (snd (PCVManager_update u vs ns cs w)) = seq_initialized w"
  "seq_cache (snd (PCVManager_update u vs ns cs w)) = seq_cache w"
  by (auto simp: PCVManager_init_def PCVManager_update_def Let_def tag_redraw_def split: option.splits)

text \<open>The handler is registered once while the sequence player is initialized.\<close>

datatype sequence_op = Seq_init | Seq_deinit | Seq_frame int

fun sequence_step :: "sequence_op \<Rightarrow> world \<Rightarrow> world" where
  "sequence_step Seq_init w = PCVSequence_init w"
| "sequence_step Seq_deinit w = snd (PCVSequence_deinit w)"
| "sequence_step (Seq_frame n) w = snd (PCVSequence_handler (w\<lparr>frame_current := n\<rparr>))"

definition sequence_registered :: "world \<Rightarrow> bool" where
  "sequence_registered w \<longleftrightarrow> frame_change_post w = (if seq_initialized w then 1 else 0)"

lemma sequence_registered_deinit:
  "sequence_registered w \<Longrightarrow> sequence_registered (snd (PCVSequence_deinit w))"
  by (auto simp: sequence_registered_def PCVSequence_deinit_def)

lemma sequence_registered_loop:
  "sequence_registered w \<Longrightarrow> sequence_registered (snd (seq_loop items cf w))"
proof (induction items arbitrary: cf w)
  case (Cons kv items)
  obtain k v where kv: "kv = (k, v)" by (cases kv)
  show ?case
  proof (cases "get_pcv w (si_owner v)")
    case (Some p)
    let ?w1 = "PCVManager_init w" and ?ld = "int (length (si_data v))"
    let ?cf = "if p_sequence_use_cyclic p then cf mod ?ld else cf"
    let ?r = "if ?cf > ?ld then PCVManager_update k [] None None ?w1
      else (case py_get (si_data v) (?cf - 1) of Inl e \<Rightarrow> (Inl e, ?w1)
        | Inr d \<Rightarrow> PCVManager_update k (sf_vs d) (sf_ns d) (sf_cs d) ?w1)"
    have r: "sequence_registered (snd ?r)"
      using Cons.prems by (auto simp: sequence_registered_def split: sum.split)
    show ?thesis
    proof (cases "p_uuid p = k \<and> \<not> (p_sequence_use_cyclic p \<and> ?ld = 0)")
      case True
      then have "seq_loop (kv # items) cf w = (case ?r of (Inl e, w2) \<Rightarrow> (Inl e, w2)
          | (Inr _, w2) \<Rightarrow> seq_loop items ?cf w2)"
        using Some kv by (simp add: Let_def)
      then show ?thesis
        using r Cons.IH by (cases ?r; cases "fst ?r") simp_all
    next
      case False
      then show ?thesis
        using Some Cons.prems sequence_registered_deinit [of "w\<lparr>seq_cache := AList.delete k (seq_cache w)\<rparr>"]
        by (auto simp: sequence_registered_def Let_def kv)
    qed
  qed (use Cons.prems kv in simp)
qed simp

lemma sequence_registered_step: "sequence_registered w \<Longrightarrow> sequence_registered (sequence_step a w)"
proof (cases a)
  case Seq_init
  assume "sequence_registered w"
  then show ?thesis by (auto simp: Seq_init sequence_registered_def PCVSequence_init_def)
next
  case Seq_deinit
  assume "sequence_registered w"
  then show ?thesis by (simp add: Seq_deinit sequence_registered_deinit)
next
  case (Seq_frame n)
  assume "sequence_registered w"
  then have "sequence_registered (w\<lparr>frame_current := n\<rparr>)" by (simp add: sequence_registered_def)
  then show ?thesis by (simp add: Seq_frame PCVSequence_handler_def sequence_registered_loop)
qed

interpretation sequence: transition_invariant
    "w0\<lparr>seq_initialized := False, frame_change_post := 0\<rparr>" sequence_step sequence_registered for w0
  by unfold_locales (simp add: sequence_registered_def, rule sequence_registered_step)

section \<open>Which frame is shown\<close>

text \<open>\<open>data[cf % ld - 1]\<close> is frame \<open>cf - 1\<close> modulo the length: index \<open>-1\<close> is the last one.\<close>

lemma py_get_cyclic:
  assumes "xs \<noteq> []"
  shows "py_get xs (cf mod int (length xs) - 1) = Inr (xs ! nat ((cf - 1) mod int (length xs)))"
proof -
  let ?n = "int (length xs)"
  have n: "0 < ?n" using assms by simp
  show ?thesis
  proof (cases "cf mod ?n = 0")
    case True
    then have "(cf - 1) mod ?n = ?n - 1"
      using n by (metis mod_diff_left_eq zmod_minus1 diff_0)
    then show ?thesis
      using n True by (simp add: py_get_def py_index_def Suc_le_eq)
  next
    case False
    have r: "0 \<le> cf mod ?n" "cf mod ?n < ?n"
      using n by (rule pos_mod_sign, rule pos_mod_bound)
    then have "(cf - 1) mod ?n = (cf mod ?n - 1) mod ?n"
      by (simp add: mod_diff_left_eq)
    also have "\<dots> = cf mod ?n - 1"
      using r False by (intro mod_pos_pos_trivial) auto
    finally show ?thesis
      using r False by simp
  qed
qed

definition show_frame :: "string \<Rightarrow> seq_frame \<Rightarrow> world \<Rightarrow> (py_error + unit) \<times> world" where
  "show_frame k d w = PCVManager_update k (sf_vs d) (sf_ns d) (sf_cs d) w"

lemma seq_loop_cyclic:
  assumes "get_pcv w (si_owner v) = Some p" "p_uuid p = k" "p_sequence_use_cyclic p" "si_data v \<noteq> []"
  shows "seq_loop ((k, v) # items) cf w =
     (case show_frame k (si_data v ! nat ((cf - 1) mod int (length (si_data v)))) (PCVManager_init w) of
        (Inl e, w2) \<Rightarrow> (Inl e, w2)
      | (Inr _, w2) \<Rightarrow> seq_loop items (cf mod int (length (si_data v))) w2)"
proof -
  have "cf mod int (length (si_data v)) < int (length (si_data v))"
    using assms(4) by (intro pos_mod_bound) simp
  then have "\<not> cf mod int (length (si_data v)) > int (length (si_data v))"
    by (rule order_less_not_sym)
  then show ?thesis
    using assms by (simp add: Let_def py_get_cyclic show_frame_def)
qed

lemma case_unit_id: "(case r of (Inl e, w2) \<Rightarrow> (Inl e, w2) | (Inr _, w2) \<Rightarrow> seq_loop [] cf w2) = r"
  by (auto split: prod.split sum.split)

lemma handler_cyclic:
  assumes "seq_cache w = [(k, v)]" "get_pcv w (si_owner v) = Some p" "p_uuid p = k"
    and "p_sequence_use_cyclic p" "si_data v \<noteq> []"
  shows "PCVSequence_handler w =
     show_frame k (si_data v ! nat ((frame_current w - 1) mod int (length (si_data v)))) (PCVManager_init w)"
  unfolding PCVSequence_handler_def assms(1) seq_loop_cyclic [OF assms(2-5)] case_unit_id ..

lemma handler_once:
  assumes "seq_cache w = [(k, v)]" "get_pcv w (si_owner v) = Some p" "p_uuid p = k"
    and "\<not> p_sequence_use_cyclic p" "1 \<le> frame_current w"
  shows "PCVSequence_handler w =
     (if frame_current w \<le> int (length (si_data v))
      then show_frame k (si_data v ! nat (frame_current w - 1)) (PCVManager_init w)
      else PCVManager_update k [] None None (PCVManager_init w))"
  using assms by (simp add: PCVSequence_handler_def Let_def case_unit_id show_frame_def)

text \<open>With two cyclic items the second one is shown at the first one's remainder.\<close>

lemma handler_two:
  assumes "seq_cache w = [(k1, v1), (k2, v2)]"
    and "get_pcv w (si_owner v1) = Some p1" "p_uuid p1 = k1" "p_sequence_use_cyclic p1" "si_data v1 \<noteq> []"
    and "get_pcv w (si_owner v2) = Some p2" "p_uuid p2 = k2" "p_sequence_use_cyclic p2" "si_data v2 \<noteq> []"
    and "show_frame k1 (si_data v1 ! nat ((frame_current w - 1) mod int (length (si_data v1))))
           (PCVManager_init w) = (Inr (), w1)"
  shows "PCVSequence_handler w =
     show_frame k2 (si_data v2 ! nat ((frame_current w mod int (length (si_data v1)) - 1)
       mod int (length (si_data v2)))) (PCVManager_init w1)"
proof -
  have "get_pcv w1 x = get_pcv w x" for x
    using assms(10) arg_cong [OF assms(10), of "\<lambda>r. objects (snd r)"]
    by (auto simp: show_frame_def get_pcv_def PCVManager_update_def Let_def split: option.splits)
  then have p2: "get_pcv w1 (si_owner v2) = Some p2"
    using assms(6) by simp
  have "seq_loop [(k2, v2)] (frame_current w mod int (length (si_data v1))) w1 =
      show_frame k2 (si_data v2 ! nat ((frame_current w mod int (length (si_data v1)) - 1)
        mod int (length (si_data v2)))) (PCVManager_init w1)"
    unfolding seq_loop_cyclic [OF p2 assms(7-9)] case_unit_id ..
  then show ?thesis
    unfolding PCVSequence_handler_def assms(1) seq_loop_cyclic [OF assms(2-5)] assms(10) by simp
qed

section \<open>Files and frames\<close>

lemma last_number_facts:
  assumes "last_number f = Some (pre, digits, suf)"
  shows "f = pre @ digits @ suf" "digits \<noteq> []" "\<forall>c\<in>set digits. is_digit c"
    "\<forall>c\<in>set suf. \<not> is_digit c" "pre = [] \<or> \<not> is_digit (last pre)"
proof -
  define suffix where "suffix = takeWhile (\<lambda>c. \<not> is_digit c) (rev f)"
  define rest where "rest = dropWhile (\<lambda>c. \<not> is_digit c) (rev f)"
  define ds where "ds = takeWhile is_digit rest"
  define prefix where "prefix = dropWhile is_digit rest"
  have eq: "pre = rev prefix" "digits = rev ds" "suf = rev suffix" "ds \<noteq> []"
    using assms unfolding last_number_def Let_def suffix_def [symmetric] rest_def [symmetric]
      ds_def [symmetric] prefix_def [symmetric] by (auto split: if_splits)
  have "rev f = suffix @ ds @ prefix"
    by (simp add: suffix_def ds_def prefix_def rest_def)
  then show "f = pre @ digits @ suf"
    using eq by (metis append_assoc rev_append rev_rev_ident)
  show "digits \<noteq> []" "\<forall>c\<in>set digits. is_digit c" "\<forall>c\<in>set suf. \<not> is_digit c"
    using eq by (auto simp: ds_def suffix_def dest: set_takeWhileD)
  show "pre = [] \<or> \<not> is_digit (last pre)"
    using eq(1) hd_dropWhile [of is_digit rest] by (cases "prefix = []") (auto simp: prefix_def last_rev)
qed

lemma set_map_filter: "y \<in> set (List.map_filter f xs) \<longleftrightarrow> (\<exists>x\<in>set xs. f x = Some y)"
  by (auto simp: List.map_filter_def image_iff)

lemma numbered_file_iff:
  "numbered_file prefix suffix m = Some (i, n) \<longleftrightarrow>
     m = n \<and> (\<exists>digits. last_number n = Some (prefix, digits, suffix) \<and> i = digits_val 0 digits)"
  by (auto simp: numbered_file_def split: option.splits if_splits)

lemma selection_facts:
  "(i, n) \<in> set (sequence_selection prefix suffix files) \<longleftrightarrow>
     n \<in> set files \<and> ends_ply n \<and>
     (\<exists>digits. last_number n = Some (prefix, digits, suffix) \<and> i = digits_val 0 digits)"
  by (auto simp: sequence_selection_def set_map_filter numbered_file_iff)

text \<open>The frames kept are those of the readable files, in the order of their numbers, without gaps.\<close>

definition loadable :: "load_env \<Rightarrow> string \<Rightarrow> string \<Rightarrow> bool" where
  "loadable ev dir n \<longleftrightarrow>
     (case PlyPointCloudReader (le_gen ev) (le_fs ev) (path_join dir n) of
        Inl e \<Rightarrow> False | Inr pp \<Rightarrow> pa_rows (pp_points pp) \<noteq> [])"

lemma load_frames_index:
  assumes "load_frames ev dir xs w = (Some fs, w')"
  shows "map sf_index fs = map fst (filter (\<lambda>(i, n). loadable ev dir n) (map the (filter (\<lambda>x. x \<noteq> None) xs)))"
  using assms
proof (induction ev dir xs w arbitrary: fs rule: load_frames.induct)
  case (3 ev dir i n xs w)
  then show ?case
    by (auto simp: Let_def loadable_def sequence_frame_def split: sum.splits if_splits prod.splits option.splits)
qed auto

lemma place_two:
  assumes "1 \<le> i" "i < j"
  shows "place_files [(i, a), (j, b)] =
     Inr ((replicate j None)[i - 1 := Some (i, a), j - 1 := Some (j, b)])"
proof -
  have "nat (int i - 1) = i - 1" "nat (int j - 1) = j - 1" using assms by auto
  then show ?thesis
    using assms by (simp add: place_files_def py_set_def py_index_def)
qed

text \<open>A lone file with number 0 has no place.\<close>

lemma place_zero: "place_files [(0, n)] = Inl IndexError"
  by (simp add: place_files_def py_set_def py_index_def)

end
