(* ===== verification/PCV_Render.thy ===== *)
theory PCV_Render
  imports PCV_Sequence
begin

text \<open>
  Rendering to image files: the size and path of the image, the batch and shader that are
  drawn, the settings put aside while the image is saved, and the animation loop.
\<close>

section \<open>Numbers in file names\<close>

definition show_int :: "int \<Rightarrow> string" where
  "show_int n = (if n < 0 then CHR ''-'' # show_nat (nat (- n)) else show_nat (nat n))"

text \<open>\<open>str.zfill\<close>: zeros go after a sign.\<close>

definition zfill :: "nat \<Rightarrow> string \<Rightarrow> string" where
  "zfill k s =
     (case s of
        [] \<Rightarrow> replicate k (CHR ''0'')
      | c # cs \<Rightarrow>
          if c = CHR ''-'' \<or> c = CHR ''+''
          then c # replicate (k - length s) (CHR ''0'') @ cs
          else replicate (k - length s) (CHR ''0'') @ s)"

abbreviation hash :: char where "hash \<equiv> CHR ''#''"

text \<open>\<open>re.sub(r'#+', repl, t)\<close>, with the replacement of a run given by its length.\<close>

function replace_hashes :: "(nat \<Rightarrow> string) \<Rightarrow> string \<Rightarrow> string" where
  "replace_hashes f [] = []"
| "replace_hashes f (c # cs) =
     (if c = hash
      then f (Suc (length (takeWhile (\<lambda>x. x = hash) cs))) @ replace_hashes f (dropWhile (\<lambda>x. x = hash) cs)
      else c # replace_hashes f cs)"
  by pat_completeness auto
termination
  by (relation "measure (\<lambda>(f, s). length s)") (auto simp: le_imp_less_Suc length_dropWhile_le)

definition swap_frame_number :: "int \<Rightarrow> string \<Rightarrow> string" where
  "swap_frame_number fn p =
     (let (h, t) = path_split p
      in path_join h (replace_hashes (\<lambda>l. zfill l (show_int fn)) t))"

section \<open>Scene and environment\<close>

record scene =
  sc_color_depth :: string
  sc_file_format :: string
  sc_color_mode :: string
  sc_view_transform :: string
  sc_look :: string
  sc_resolution_x :: int
  sc_resolution_y :: int
  sc_resolution_percentage :: int
  sc_has_camera :: bool
  sc_frame_start :: int
  sc_frame_end :: int
  sc_gl_enabled :: bool
  sc_saved :: "(string \<times> (int \<times> int) \<times> string list) list"

record rstate =
  rs_world :: world
  rs_scene :: scene

text \<open>
  Blender's path functions, the file system's answers, the camera depth of a location, and
  what the GPU and the image writer do with a batch and a path.
\<close>

record render_env =
  re_abspath :: "string \<Rightarrow> string"
  re_ensure_ext :: "string \<Rightarrow> string \<Rightarrow> string"
  re_exists :: "string \<Rightarrow> bool"
  re_isdir :: "string \<Rightarrow> bool"
  re_depth :: "v3 \<Rightarrow> real"
  re_blend_saved :: bool
  re_offscreen :: "int \<Rightarrow> int \<Rightarrow> py_error + unit"
  re_draw :: "batch \<Rightarrow> py_error + unit"
  re_save :: "string \<Rightarrow> py_error + unit"

section \<open>Size and path\<close>

definition render_size :: "render_settings \<Rightarrow> scene \<Rightarrow> int \<times> int" where
  "render_size s sc =
     (if rn_resolution_linked s
      then (let scale = real_of_int (sc_resolution_percentage sc) / 100;
                scale' = (if 1 < rn_supersampling s then scale * real_of_int (rn_supersampling s) else scale)
            in (py_int (real_of_int (sc_resolution_x sc) * scale'), py_int (real_of_int (sc_resolution_y sc) * scale')))
      else (let scale = real_of_int (rn_resolution_percentage s) / 100;
                scale' = (if 1 < rn_supersampling s then scale * real_of_int (rn_supersampling s) else scale)
            in (py_int (real_of_int (rn_resolution_x s) * scale'), py_int (real_of_int (rn_resolution_y s) * scale'))))"

text \<open>The size of the saved image: a supersampled one is scaled back.\<close>

definition image_size :: "render_settings \<Rightarrow> int \<times> int \<Rightarrow> int \<times> int" where
  "image_size s wh =
     (if 1 < rn_supersampling s
      then (py_int (real_of_int (fst wh) / real_of_int (rn_supersampling s)),
            py_int (real_of_int (snd wh) / real_of_int (rn_supersampling s)))
      else wh)"

definition default_name :: string where
  "default_name = ''pcv_render_###.png''"

definition quoted :: "string \<Rightarrow> string" where
  "quoted s = CHR 0x27 # s @ [CHR 0x27]"

definition get_output_path :: "render_env \<Rightarrow> string \<Rightarrow> (bool \<times> string) \<times> (string \<times> string) list" where
  "get_output_path re render_path =
     (let (h0, t0) = path_split (re_abspath re render_path);
          h = (if h0 = [] then re_abspath re ''//'' else h0);
          errs = (if re_exists re h then [] else [(''ERROR'', ''Directory does not exist ('' @ quoted h @ '').'')]) @
                 (if re_isdir re h then [] else [(''ERROR'', ''Not a directory ('' @ quoted h @ '').'')]);
          t = (if t0 = [] then default_name else t0);
          p = re_ensure_ext re (path_join h t) ''.png'';
          (h1, t1) = path_split p;
          t2 = (if hash \<notin> set t1
                then (let (n, e) = path_splitext t1 in (n @ ''_###'') @ e)
                else t1)
      in ((errs = [], path_join h1 t2), errs))"

section \<open>What is drawn\<close>

text \<open>The points in the given percentage, sorted back to front for smooth circles.\<close>

definition render_points ::
    "render_env \<Rightarrow> pcv \<Rightarrow> mat4 \<Rightarrow> v3 list \<times> v3 list \<times> v4 list \<Rightarrow> v3 list \<times> v3 list \<times> v4 list" where
  "render_points re p mw a =
     (case a of (vs, ns, cs) \<Rightarrow>
        let l = display_count (length vs) (rn_display_percent (p_render p));
            vs' = py_take l vs; ns' = py_take l ns; cs' = py_take l cs
        in if rn_smoothstep (p_render p) \<and> \<not> p_override_default_shader p
           then (let sps = rev (sort_key fst (map (\<lambda>(v, n, c). (re_depth re (mat_apply mw v), v, n, c))
                             (zip vs' (zip ns' cs'))))
                 in (map (\<lambda>x. fst (snd x)) sps, map (\<lambda>x. fst (snd (snd x))) sps,
                     map (\<lambda>x. snd (snd (snd x))) sps))
           else (vs', ns', cs'))"

definition render_batch :: "pcv \<Rightarrow> v3 list \<times> v3 list \<times> v4 list \<Rightarrow> batch" where
  "render_batch p a =
     (case a of (vs, ns, cs) \<Rightarrow>
        let smooth = rn_smoothstep (p_render p) \<and> \<not> p_override_default_shader p;
            bt = (\<lambda>sh c n. \<lparr>b_shader = sh, b_position = vs, b_color = c, b_normal = n\<rparr>)
        in if p_flags p Dev_depth then
             (if p_illumination p
              then bt (''depth_vertex_shader_illumination'', ''depth_fragment_shader_illumination'') None (Some ns)
              else if p_dev_depth_false_colors p
              then bt (''depth_vertex_shader_false_colors'', ''depth_fragment_shader_false_colors'') None None
              else bt (''depth_vertex_shader_simple'', ''depth_fragment_shader_simple'') None None)
           else if p_flags p Dev_normal_colors
           then bt (''normal_colors_vertex_shader'', ''normal_colors_fragment_shader'') None (Some ns)
           else if p_flags p Dev_position_colors
           then bt (''position_colors_vertex_shader'', ''position_colors_fragment_shader'') None None
           else if p_illumination p
           then bt (if smooth then (''vertex_shader_illumination_render_smooth'',
                                    ''fragment_shader_illumination_render_smooth'')
                    else shader_illumination) (Some cs) (Some ns)
           else bt (if smooth then (''vertex_shader_simple_render_smooth'',
                                    ''fragment_shader_simple_render_smooth'')
                    else shader_simple) (Some cs) None)"

section \<open>Saving\<close>

text \<open>The settings are changed for saving and restored on both ways out.\<close>

definition save_render :: "render_env \<Rightarrow> int \<times> int \<Rightarrow> string \<Rightarrow> rstate \<Rightarrow> rstate" where
  "save_render re wh path st =
     (let s = rs_scene st;
          s1 = s\<lparr>sc_view_transform := ''Standard'', sc_look := ''None'', sc_file_format := ''PNG'',
                 sc_color_mode := ''RGBA'', sc_color_depth := ''8''\<rparr>;
          restore = (\<lambda>x. x\<lparr>sc_file_format := sc_file_format s, sc_color_mode := sc_color_mode s,
                 sc_color_depth := sc_color_depth s, sc_view_transform := sc_view_transform s,
                 sc_look := sc_look s\<rparr>)
      in case re_save re path of
           Inl e \<Rightarrow> st\<lparr>rs_scene := restore s1,
                       rs_world := report ''ERROR'' ''Unable to save render image, see console for details.''
                                     (rs_world st)\<rparr>
         | Inr _ \<Rightarrow> st\<lparr>rs_scene := restore (s1\<lparr>sc_saved := sc_saved s1 @
                       [(path, wh, [sc_file_format s1, sc_color_mode s1, sc_color_depth s1])]\<rparr>)\<rparr>)"

section \<open>The operators\<close>

definition PCV_OT_render_poll :: "rstate \<Rightarrow> bool" where
  "PCV_OT_render_poll st =
     (case context_pcv (rs_world st) of None \<Rightarrow> False | Some (_, p) \<Rightarrow> shown (rs_world st) (p_uuid p))"

definition rs_report :: "string \<Rightarrow> rstate \<Rightarrow> rstate" where
  "rs_report m st = st\<lparr>rs_world := report ''ERROR'' m (rs_world st)\<rparr>"

text \<open>
  The early returns come after GL was enabled and the colour depth was set to 8 bit, and the
  handler of an exception while drawing returns past the line that restores the depth.
\<close>

definition PCV_OT_render :: "render_env \<Rightarrow> rstate \<Rightarrow> status \<times> rstate" where
  "PCV_OT_render re st0 =
     (let original_depth = sc_color_depth (rs_scene st0);
          st = st0\<lparr>rs_scene := (rs_scene st0)\<lparr>sc_gl_enabled := True, sc_color_depth := ''8''\<rparr>\<rparr>;
          w = rs_world st
      in case context_pcv w of
           None \<Rightarrow> (Raised AttributeError, st)
         | Some (n0, p) \<Rightarrow>
             (case dict_get (cache w) (p_uuid p) of
                None \<Rightarrow> (Raised (KeyError (p_uuid p)), st)
              | Some ci \<Rightarrow>
                  if \<not> sc_has_camera (rs_scene st) then (Cancelled, rs_report ''No camera found.'' st)
                  else if \<not> re_blend_saved re then (Cancelled, rs_report ''Save .blend file first.'' st)
                  else
                    (case get_output_path re (rn_path (p_render p)) of ((ok, path0), errs) \<Rightarrow>
                       let st1 = st\<lparr>rs_world := fold (\<lambda>(l, m). report l m) errs w\<rparr>
                       in if \<not> ok then (Cancelled, st1)
                          else
                            (let st2 = st1\<lparr>rs_world := upd_pcv n0 (\<lambda>q. q\<lparr>p_render := (p_render q)\<lparr>rn_path := path0\<rparr>\<rparr>)
                                         (rs_world st1)\<rparr>;
                                 path = swap_frame_number (frame_current w) path0;
                                 wh = render_size (p_render p) (rs_scene st)
                             in case re_offscreen re (fst wh) (snd wh) of
                                  Inl e \<Rightarrow> (Raised e, st2)
                                | Inr _ \<Rightarrow>
                                    (let st3 = st2\<lparr>rs_scene := (rs_scene st2)\<lparr>sc_gl_enabled := False\<rparr>\<rparr>
                                     in case (case Option.bind (ci_object ci) (dict_get (objects w)) of
                                                None \<Rightarrow> Inl (Py_Exception ''ReferenceError'')
                                              | Some ob \<Rightarrow>
                                                  bindE (ci_arrays ci) (\<lambda>a.
                                                    re_draw re (render_batch p
                                                      (render_points re p (ob_matrix_world ob) a)))) of
                                          Inl e \<Rightarrow> (Cancelled, rs_report (error_text e) st3)
                                        | Inr _ \<Rightarrow>
                                            (let st4 = save_render re (image_size (p_render p) wh) path st3
                                             in (Finished, st4\<lparr>rs_scene := (rs_scene st4)
                                                   \<lparr>sc_color_depth := original_depth\<rparr>\<rparr>)))))))"

text \<open>Called from the animation operator, a cancelled render has reported an error and raises.\<close>

definition bpy_render :: "render_env \<Rightarrow> rstate \<Rightarrow> status \<times> rstate" where
  "bpy_render re st =
     (if \<not> PCV_OT_render_poll st then (Raised (Py_Exception ''RuntimeError''), st)
      else (case PCV_OT_render re st of (s, st') \<Rightarrow>
              if (\<exists>e. s = Raised e) \<or>
                 (\<exists>(l, m)\<in>set (drop (length (reports (rs_world st))) (reports (rs_world st'))). l = ''ERROR'')
              then (Raised (Py_Exception ''RuntimeError''), st')
              else (s, st')))"

definition frame_set :: "int \<Rightarrow> rstate \<Rightarrow> rstate" where
  "frame_set n st = st\<lparr>rs_world := snd (PCVSequence_handler ((rs_world st)\<lparr>frame_current := n\<rparr>))\<rparr>"

fun render_frames :: "render_env \<Rightarrow> int list \<Rightarrow> rstate \<Rightarrow> status \<times> rstate" where
  "render_frames re [] st = (Finished, st)"
| "render_frames re (n # ns) st =
     (case bpy_render re (frame_set n st) of
        (Raised e, st1) \<Rightarrow> (Raised e, st1)
      | (_, st1) \<Rightarrow> render_frames re ns st1)"

definition PCV_OT_render_animation :: "render_env \<Rightarrow> rstate \<Rightarrow> status \<times> rstate" where
  "PCV_OT_render_animation re st =
     (if \<not> sc_has_camera (rs_scene st) then (Cancelled, rs_report ''No camera found.'' st)
      else
        (let user_frame = frame_current (rs_world st)
         in case render_frames re [sc_frame_start (rs_scene st)..sc_frame_end (rs_scene st)] st of
              (Raised e, st1) \<Rightarrow> (Raised e, st1)
            | (_, st1) \<Rightarrow> (Finished, frame_set user_frame st1)))"

end
