(* ===== verification/PCV_Render_Facts.thy ===== *)
theory PCV_Render_Facts
  imports PCV_Render
begin

text \<open>
  The saved image has the requested size whatever the supersampling, every frame gets its own
  file name, the scene's settings come back after a finished render (and do not after a
  cancelled one), and the points drawn with smooth circles are sorted with their attributes.
\<close>

section \<open>Size\<close>

lemma floor_supersampled:
  assumes "0 < n"
  shows "\<lfloor>real_of_int \<lfloor>x * real_of_int n\<rfloor> / real_of_int n\<rfloor> = \<lfloor>x\<rfloor>"
proof -
  have n: "0 < real_of_int n" using assms by simp
  have "\<lfloor>x\<rfloor> * n \<le> \<lfloor>x * real_of_int n\<rfloor>"
    using n mult_right_mono [OF of_int_floor_le [of x], of "real_of_int n"] by (simp add: le_floor_iff)
  moreover have "\<lfloor>x * real_of_int n\<rfloor> < (\<lfloor>x\<rfloor> + 1) * n"
  proof -
    have "x < real_of_int (\<lfloor>x\<rfloor> + 1)" by linarith
    then have "x * real_of_int n < real_of_int (\<lfloor>x\<rfloor> + 1) * real_of_int n"
      using n by (rule mult_strict_right_mono)
    then show ?thesis
      unfolding floor_less_iff by simp
  qed
  ultimately have "\<lfloor>x * real_of_int n\<rfloor> div n = \<lfloor>x\<rfloor>"
    by (intro int_div_pos_eq [where r = "\<lfloor>x * real_of_int n\<rfloor> - \<lfloor>x\<rfloor> * n"])
      (simp_all add: algebra_simps)
  then show ?thesis
    by (simp add: floor_divide_of_int_eq)
qed

lemma py_int_supersampled:
  assumes "0 \<le> x" "0 < n"
  shows "py_int (real_of_int (py_int (x * real_of_int n)) / real_of_int n) = py_int x"
proof -
  have "0 \<le> x * real_of_int n" using assms by simp
  then show ?thesis
    using assms floor_supersampled [of n x] by (simp add: py_int_def)
qed

lemma image_size_ok:
  assumes "0 \<le> rn_resolution_x s" "0 \<le> rn_resolution_y s" "0 \<le> rn_resolution_percentage s"
    and "0 \<le> sc_resolution_x sc" "0 \<le> sc_resolution_y sc" "0 \<le> sc_resolution_percentage sc"
  shows "image_size s (render_size s sc) = render_size (s\<lparr>rn_supersampling := 1\<rparr>) sc"
proof (cases "1 < rn_supersampling s")
  case True
  have "py_int (real_of_int (py_int (real_of_int r * (real_of_int p / 100 * real_of_int n))) / real_of_int n) =
      py_int (real_of_int r * (real_of_int p / 100))"
    if "0 \<le> r" "0 \<le> p" "1 < n" for r p n :: int
    using that py_int_supersampled [of "real_of_int r * (real_of_int p / 100)" n] by (simp add: mult.assoc)
  then show ?thesis
    using assms True by (simp add: image_size_def render_size_def Let_def)
qed (simp add: image_size_def render_size_def Let_def)

section \<open>File names\<close>

lemma digits_val_zeros: "digits_val 0 (replicate k (CHR ''0'') @ s) = digits_val 0 s"
  by (induction k) (simp_all add: digits_val_def digit_val_def)

definition frame_digits :: "nat \<Rightarrow> nat \<Rightarrow> string" where
  "frame_digits n l = zfill l (show_int (int n))"

lemma frame_digits: "frame_digits n l = replicate (l - length (show_nat n)) (CHR ''0'') @ show_nat n"
proof -
  have d: "show_nat n \<noteq> []" "\<forall>c\<in>set (show_nat n). is_digit c"
    using show_nat_digits [of n] by auto
  moreover have "\<not> is_digit (CHR ''-'')" "\<not> is_digit (CHR ''+'')"
    by (simp_all add: is_digit_def)
  ultimately show ?thesis
    by (cases "show_nat n") (auto simp: frame_digits_def show_int_def zfill_def)
qed

lemma frame_digits_inj: "frame_digits n l = frame_digits m l' \<Longrightarrow> n = m"
  by (metis frame_digits digits_val_zeros digits_val_show)

lemma length_frame_digits: "length (frame_digits n l) = max l (length (show_nat n))"
  by (simp add: frame_digits)

lemma length_replace_mono:
  assumes "length (show_nat n) \<le> length (show_nat m)"
  shows "length (replace_hashes (frame_digits n) s) \<le> length (replace_hashes (frame_digits m) s)"
  by (induction "frame_digits n" s rule: replace_hashes.induct)
    (use assms in \<open>auto simp: length_frame_digits intro!: add_mono\<close>)

lemma replace_hashes_inj_le:
  assumes "length (show_nat n) \<le> length (show_nat m)" "hash \<in> set s"
    and "replace_hashes (frame_digits n) s = replace_hashes (frame_digits m) s"
  shows "n = m"
  using assms(2,3)
proof (induction s)
  case (Cons c cs)
  show ?case
  proof (cases "c = hash")
    case True
    let ?l = "Suc (length (takeWhile (\<lambda>x. x = hash) cs))" and ?r = "dropWhile (\<lambda>x. x = hash) cs"
    have eq: "frame_digits n ?l @ replace_hashes (frame_digits n) ?r =
        frame_digits m ?l @ replace_hashes (frame_digits m) ?r"
      using Cons.prems(2) True by simp
    have "length (frame_digits n ?l) \<le> length (frame_digits m ?l)"
      using assms(1) by (auto simp: length_frame_digits)
    moreover have "length (replace_hashes (frame_digits n) ?r) \<le> length (replace_hashes (frame_digits m) ?r)"
      by (rule length_replace_mono [OF assms(1)])
    ultimately have "length (frame_digits n ?l) = length (frame_digits m ?l)"
      using arg_cong [OF eq, of length] by simp
    then have "frame_digits n ?l = frame_digits m ?l"
      using eq by simp
    then show ?thesis by (rule frame_digits_inj)
  next
    case False
    then show ?thesis using Cons by simp
  qed
qed simp

lemma replace_hashes_inj:
  assumes "hash \<in> set s" "replace_hashes (frame_digits n) s = replace_hashes (frame_digits m) s"
  shows "n = m"
proof (cases "length (show_nat n) \<le> length (show_nat m)")
  case True
  then show ?thesis using assms by (rule replace_hashes_inj_le)
next
  case False
  then have "length (show_nat m) \<le> length (show_nat n)" by simp
  then show ?thesis
    by (rule replace_hashes_inj_le [OF _ assms(1) assms(2) [symmetric], symmetric])
qed

lemma slash_replace:
  assumes "slash \<notin> set s"
  shows "slash \<notin> set (replace_hashes (frame_digits n) s)"
proof -
  have d: "slash \<notin> set (frame_digits n l)" for l
    using show_nat_digits [of n] by (auto simp: frame_digits is_digit_def)
  show ?thesis
    using assms by (induction "frame_digits n" s rule: replace_hashes.induct)
      (auto simp: d dest: set_dropWhileD)
qed

lemma swap_frame_number_inj:
  assumes "hash \<in> set (snd (path_split p))"
    and "swap_frame_number (int n) p = swap_frame_number (int m) p"
  shows "n = m"
proof -
  obtain h t where ht: "path_split p = (h, t)" by fastforce
  have t: "slash \<notin> set t" using path_split_tail [of p] by (simp add: ht)
  have "path_join h (replace_hashes (frame_digits n) t) = path_join h (replace_hashes (frame_digits m) t)"
    using assms(2) by (simp add: swap_frame_number_def ht frame_digits_def [abs_def])
  then have "replace_hashes (frame_digits n) t = replace_hashes (frame_digits m) t"
    using path_join_tail slash_replace [OF t] by metis
  then show ?thesis using assms(1) by (intro replace_hashes_inj [of t]) (simp_all add: ht)
qed

text \<open>The path that \<open>get_output_path\<close> returns has a place for the frame number.\<close>

lemma get_output_path_hash: "hash \<in> set (snd (path_split (snd (fst (get_output_path re p)))))"
proof -
  obtain h1 t1 where p1: "path_split (re_ensure_ext re (path_join
      (if fst (path_split (re_abspath re p)) = [] then re_abspath re ''//'' else fst (path_split (re_abspath re p)))
      (if snd (path_split (re_abspath re p)) = [] then default_name else snd (path_split (re_abspath re p))))
      ''.png'') = (h1, t1)"
    by fastforce
  have t1: "slash \<notin> set t1" using path_split_tail by (metis p1 snd_conv)
  obtain n e where ne: "path_splitext t1 = (n, e)" by fastforce
  have "n @ e = t1" using path_splitext_append [of t1] by (simp add: ne)
  then have "slash \<notin> set ((n @ ''_###'') @ e)" using t1 by auto
  moreover define t2 where "t2 = (if hash \<notin> set t1 then (n @ ''_###'') @ e else t1)"
  ultimately have t2: "slash \<notin> set t2" "hash \<in> set t2" using t1 by auto
  have "snd (fst (get_output_path re p)) = path_join h1 t2"
    using p1 by (simp add: get_output_path_def Let_def case_prod_unfold ne t2_def)
  then show ?thesis
    using path_join_tail [OF t2(1)] t2(2) by simp
qed

section \<open>Settings\<close>

definition same_settings :: "scene \<Rightarrow> scene \<Rightarrow> bool" where
  "same_settings a b \<longleftrightarrow>
     sc_color_depth a = sc_color_depth b \<and> sc_file_format a = sc_file_format b \<and>
     sc_color_mode a = sc_color_mode b \<and> sc_view_transform a = sc_view_transform b \<and>
     sc_look a = sc_look b"

lemma save_render_settings [simp]:
  "sc_color_depth (rs_scene (save_render re wh path st)) = sc_color_depth (rs_scene st)"
  "sc_file_format (rs_scene (save_render re wh path st)) = sc_file_format (rs_scene st)"
  "sc_color_mode (rs_scene (save_render re wh path st)) = sc_color_mode (rs_scene st)"
  "sc_view_transform (rs_scene (save_render re wh path st)) = sc_view_transform (rs_scene st)"
  "sc_look (rs_scene (save_render re wh path st)) = sc_look (rs_scene st)"
  "sc_gl_enabled (rs_scene (save_render re wh path st)) = sc_gl_enabled (rs_scene st)"
  by (simp_all add: save_render_def Let_def split: sum.splits)

lemma render_finished:
  assumes "PCV_OT_render re st = (Finished, st')"
  shows "same_settings (rs_scene st') (rs_scene st)" "\<not> sc_gl_enabled (rs_scene st')"
proof -
  have "same_settings (rs_scene st') (rs_scene st) \<and> \<not> sc_gl_enabled (rs_scene st')"
    using assms
    by (auto simp: PCV_OT_render_def Let_def same_settings_def split: option.splits if_splits sum.splits prod.splits)
  then show "same_settings (rs_scene st') (rs_scene st)" "\<not> sc_gl_enabled (rs_scene st')" by auto
qed

text \<open>A cancelled render leaves the colour depth at 8 bit, and GL states on when it returns early.\<close>

lemma render_no_camera:
  assumes "context_pcv (rs_world st) = Some (n0, p)" "dict_get (cache (rs_world st)) (p_uuid p) = Some c"
    and "\<not> sc_has_camera (rs_scene st)"
  shows "\<exists>st'. PCV_OT_render re st = (Cancelled, st') \<and> sc_color_depth (rs_scene st') = ''8'' \<and>
     sc_gl_enabled (rs_scene st')"
  using assms by (simp add: PCV_OT_render_def rs_report_def Let_def)

lemma render_cancelled_depth:
  assumes "PCV_OT_render re st = (Cancelled, st')"
  shows "sc_color_depth (rs_scene st') = ''8''"
  using assms
  by (auto simp: PCV_OT_render_def Let_def rs_report_def split: option.splits if_splits sum.splits prod.splits)

section \<open>Points\<close>

lemma zip_py_take:
  "length ns = length vs \<Longrightarrow> length cs = length vs \<Longrightarrow>
     zip (py_take l vs) (zip (py_take l ns) (py_take l cs)) = py_take l (zip vs (zip ns cs))"
  by (simp add: py_take_def take_zip)

lemma unzip_map:
  "zip (map (\<lambda>x. fst (snd x)) q) (zip (map (\<lambda>x. fst (snd (snd x))) q) (map (\<lambda>x. snd (snd (snd x))) q)) = map snd q"
  by (induction q) auto

lemma render_points_ok:
  assumes "render_points re p mw (vs, ns, cs) = (vs', ns', cs')"
    and "length ns = length vs" "length cs = length vs"
    and l: "l = display_count (length vs) (rn_display_percent (p_render p))"
  shows "mset (zip vs' (zip ns' cs')) = mset (py_take l (zip vs (zip ns cs)))"
    and "rn_smoothstep (p_render p) \<and> \<not> p_override_default_shader p \<Longrightarrow>
       sorted (map (\<lambda>v. re_depth re (mat_apply mw v)) (rev vs'))"
proof -
  let ?x = "map (\<lambda>(v, n, c). (re_depth re (mat_apply mw v), v, n, c))
      (zip (py_take l vs) (zip (py_take l ns) (py_take l cs)))"
  let ?sps = "sort_key fst ?x"
  have ms: "mset (map snd (rev ?sps)) = mset (py_take l (zip vs (zip ns cs)))"
  proof -
    have "mset (map snd (rev ?sps)) = mset (map snd ?x)"
      by (simp only: mset_map mset_rev mset_sort)
    also have "map snd ?x = zip (py_take l vs) (zip (py_take l ns) (py_take l cs))"
      by (simp add: split_def o_def)
    finally show ?thesis by (simp only: zip_py_take [OF assms(2,3)])
  qed
  show "mset (zip vs' (zip ns' cs')) = mset (py_take l (zip vs (zip ns cs)))"
  proof (cases "rn_smoothstep (p_render p) \<and> \<not> p_override_default_shader p")
    case True
    then have "zip vs' (zip ns' cs') = map snd (rev ?sps)"
      using assms(1) unfolding unzip_map [symmetric] by (simp add: render_points_def Let_def l)
    then show ?thesis using ms by simp
  next
    case False
    then show ?thesis
      using assms(1) zip_py_take [OF assms(2,3)] by (auto simp: render_points_def Let_def l)
  qed
  show "sorted (map (\<lambda>v. re_depth re (mat_apply mw v)) (rev vs'))"
    if smooth: "rn_smoothstep (p_render p) \<and> \<not> p_override_default_shader p"
  proof -
    have v: "rev vs' = map (\<lambda>x. fst (snd x)) ?sps"
      using assms(1) smooth by (auto simp: render_points_def Let_def l rev_map)
    have "re_depth re (mat_apply mw (fst (snd x))) = fst x" if "x \<in> set ?sps" for x
      using that by auto
    then have "map (\<lambda>v. re_depth re (mat_apply mw v)) (rev vs') = map fst ?sps"
      unfolding v by (simp only: map_map o_def) (rule map_cong [OF refl])
    then show ?thesis by simp
  qed
qed

section \<open>Animation\<close>

lemma animation_finished:
  assumes "PCV_OT_render_animation re st = (Finished, st')"
  shows "\<exists>st1. render_frames re [sc_frame_start (rs_scene st)..sc_frame_end (rs_scene st)] st = (Finished, st1) \<and>
     st' = frame_set (frame_current (rs_world st)) st1"
proof -
  have fin: "render_frames re ns s = (r, s') \<Longrightarrow> (\<exists>e. r = Raised e) \<or> r = Finished" for ns s s' r
    by (induction ns arbitrary: s) (auto split: prod.splits status.splits)
  show ?thesis
    using assms fin
    by (auto simp: PCV_OT_render_animation_def Let_def split: if_splits prod.splits status.splits)
qed

text \<open>
  A frame that cannot be rendered raises out of the loop, and the user's frame is not
  restored: without a saved file the animation ends at its first frame.
\<close>

lemma animation_raises:
  assumes "sc_has_camera (rs_scene st)" "sc_frame_start (rs_scene st) \<le> sc_frame_end (rs_scene st)"
    and "PCV_OT_render_poll (frame_set (sc_frame_start (rs_scene st)) st) = False"
  shows "PCV_OT_render_animation re st =
     (Raised (Py_Exception ''RuntimeError''), frame_set (sc_frame_start (rs_scene st)) st)"
proof -
  have "[sc_frame_start (rs_scene st)..sc_frame_end (rs_scene st)] =
      sc_frame_start (rs_scene st) # [sc_frame_start (rs_scene st) + 1..sc_frame_end (rs_scene st)]"
    using assms(2) by (rule upto_rec1)
  then show ?thesis
    using assms by (simp add: PCV_OT_render_animation_def bpy_render_def)
qed

end
