(* ===== verification/PCV_Examples.thy ===== *)
theory PCV_Examples
  imports PCV_Edit_Facts PCV_Sequence PCV_Render_Facts PCV_Ply_Facts
begin

text \<open>
  A small concrete state for evaluating the properties: two clouds of three and one points
  whose objects are both visible, a mesh object as a target, and simple instances of the
  functions Blender and numpy provide. Every witness applies a property here.
\<close>

section \<open>Blender's and numpy's side\<close>

definition ex_target :: target_mesh where
  "ex_target = \<lparr>tg_bound_box = [(-1, -1, -1), (1 / 2, 1 / 2, 1 / 2)],
     tg_closest_point = (\<lambda>v. Some ((1 / 2, 0, 0), (1, 0, 0))),
     tg_ray_cast = (\<lambda>v n d. if n = (0, 0, 1) then Some (v3_add v (0, 0, 1), (0, 0, 1), 0) else None)\<rparr>"

definition ex_bl :: blender where
  "ex_bl = \<lparr>bl_hsv = id, bl_from_hsv = id, bl_inverted = Inr, bl_rotation = id,
     bl_nearest = (\<lambda>vs v. v3_dot v v), bl_target = (\<lambda>_ _. ex_target),
     bl_weights = (\<lambda>_ _. [1, 0, 0]), bl_barycentric = (\<lambda>v _ _ _ _ _ _. v)\<rparr>"

definition ex_identity :: mat4 where
  "ex_identity = [(1, 0, 0, 0), (0, 1, 0, 0), (0, 0, 1, 0), (0, 0, 0, 1)]"

text \<open>A number's bytes are read as the character code of the first one.\<close>

definition ex_num :: num_env where
  "ex_num = \<lparr>ne_val = (\<lambda>_ s. case s of [] \<Rightarrow> 0 | c # _ \<Rightarrow> real (of_char c)),
     ne_enc = (\<lambda>t x. replicate (the (np_itemsize (snd t))) CHR ''a''), ne_little = True\<rparr>"

definition ex_array :: parray where
  "ex_array = \<lparr>pa_dtype = [(''x'', (CHR ''<'', CHR ''f'')), (''y'', (CHR ''<'', CHR ''f'')),
       (''z'', (CHR ''<'', CHR ''f''))],
     pa_rows = [[''aaaa'', ''bbbb'', ''cccc''], [''dddd'', ''eeee'', ''ffff'']]\<rparr>"

definition ex_fs :: file_system where
  "ex_fs = (\<lambda>_. None)(''a.ply'' \<mapsto> header_text (CHR ''<'') ex_array @ np_tobytes ex_array)"

definition ex_env :: load_env where
  "ex_env = \<lparr>le_num = ex_num, le_gen = (\<lambda>_ _ _ _. Inl IndexError), le_fs = ex_fs,
     le_perm = (\<lambda>n. [0..<n]), le_uuid = ''u3''\<rparr>"

section \<open>The state\<close>

definition ex_item :: "string \<Rightarrow> string \<Rightarrow> v3 list \<Rightarrow> v3 list \<Rightarrow> v4 list \<Rightarrow> cache_item" where
  "ex_item u n vs ns cs =
     PCVManager_new\<lparr>ci_uuid := Some u, ci_filepath := Some ''a.ply'',
       ci_vertices := Some vs, ci_normals := Some ns, ci_colors := Some cs,
       ci_display_length := Some (int (length vs)), ci_current_display_length := Some (int (length vs)),
       ci_shader := Some shader_simple, ci_batch := Some (make_batch False (int (length vs)) vs ns cs),
       ci_ready := True, ci_draw := True, ci_stats := Some (length vs), ci_length := Some (length vs),
       ci_name := Some n, ci_object := Some n\<rparr>"

definition ex_vs :: "v3 list" where "ex_vs = [(0, 0, 0), (1, 0, 0), (0, 2, 0)]"
definition ex_ns :: "v3 list" where "ex_ns = [(0, 0, 1), (0, 1, 0), (0, 0, 1)]"
definition ex_cs :: "v4 list" where "ex_cs = [(0, 0, 0, 1), (0, 1, 0, 1), (0, 0, 1, 1)]"

definition ex_item1 :: cache_item where "ex_item1 = ex_item ''u1'' ''A'' ex_vs ex_ns ex_cs"
definition ex_item2 :: cache_item where "ex_item2 = ex_item ''u2'' ''B'' [(5, 5, 5)] [(0, 0, 1)] [(1, 1, 1, 1)]"

definition ex_pcv1 :: pcv where
  "ex_pcv1 = default_pcv\<lparr>p_uuid := ''u1'', p_filepath := ''a.ply'', p_has_normals := True,
     p_has_vcols := True, p_filter_join_object := Some ''B'', p_filter_boolean_object := Some ''T'',
     p_simplify_num_samples := 2, p_simplify_num_candidates := 1,
     p_project := (p_project default_pcv)\<lparr>fp_object := Some ''T'', fp_discard := True\<rparr>,
     p_flags := (\<lambda>f. f = Color_adjustment)\<rparr>"

definition ex_object :: "pcv \<Rightarrow> object" where
  "ex_object p = \<lparr>ob_pcv = p, ob_visible = True, ob_type = ''MESH'', ob_parent = None,
     ob_matrix_world = ex_identity, ob_verts = []\<rparr>"

definition ex_prefs :: preferences where
  "ex_prefs = \<lparr>pr_default_vertex_color = (1, 1, 1), pr_convert_16bit_colors = True,
     pr_gamma_correct_16bit_colors = True, pr_shuffle_points = False\<rparr>"

definition ex_world :: world where
  "ex_world = \<lparr>cache = [(''u1'', ex_item1), (''u2'', ex_item2)], handle = True, initialized = True,
     draw_handlers = 1, load_pre = 1, seq_cache = [], seq_initialized = False,
     frame_change_post = 0, frame_current = 1,
     objects = [(''A'', ex_object ex_pcv1), (''B'', ex_object (default_pcv\<lparr>p_uuid := ''u2''\<rparr>)),
       (''T'', ex_object default_pcv)],
     context_object = Some ''A'', context_mode = ''OBJECT'', prefs = ex_prefs, reports = [], redraw = False\<rparr>"

lemmas ex_defs = ex_world_def ex_item1_def ex_item2_def ex_item_def ex_vs_def ex_ns_def ex_cs_def
  ex_pcv1_def ex_object_def ex_prefs_def PCVManager_new_def default_pcv_def ex_identity_def

section \<open>It is well formed\<close>

lemma ex_items_ok: "item_ok ex_item1" "item_ok ex_item2"
  by (simp_all add: item_ok_def ex_item1_def ex_item2_def ex_item_def ex_vs_def ex_ns_def ex_cs_def make_batch_def)

lemma ex_world_ok: "world_ok ex_world"
  using ex_items_ok
  by (simp add: world_ok_def cache_wf_def objects_ok_def object_gone_def ex_world_def
      ex_item1_def ex_item2_def ex_item_def ex_object_def ex_pcv1_def default_pcv_def)

lemma ex_context: "context_pcv ex_world = Some (''A'', ex_pcv1)"
  by (simp add: context_pcv_def get_pcv_def ex_world_def ex_object_def)

lemma ex_pcv1_simps [simp]:
  "p_uuid ex_pcv1 = ''u1''" "p_filepath ex_pcv1 = ''a.ply''" "p_runtime ex_pcv1 = False"
  "p_filter_join_object ex_pcv1 = Some ''B''" "p_filter_boolean_object ex_pcv1 = Some ''T''"
  "p_display_percent ex_pcv1 = 100" "p_simplify_num_samples ex_pcv1 = 2"
  "p_simplify_num_candidates ex_pcv1 = 1" "p_flags ex_pcv1 f = (f = Color_adjustment)"
  by (simp_all add: ex_pcv1_def default_pcv_def)

lemma ex_get [simp]:
  "dict_get (cache ex_world) ''u1'' = Some ex_item1" "dict_get (cache ex_world) ''u2'' = Some ex_item2"
  "dict_get (objects ex_world) ''A'' = Some (ex_object ex_pcv1)"
  "dict_get (objects ex_world) ''B'' = Some (ex_object (default_pcv\<lparr>p_uuid := ''u2''\<rparr>))"
  "dict_get (objects ex_world) ''T'' = Some (ex_object default_pcv)"
  "prefs ex_world = ex_prefs" "get_pcv ex_world ''A'' = Some ex_pcv1"
  by (simp_all add: ex_world_def get_pcv_def ex_object_def)

lemma ex_item1_simps [simp]:
  "ci_vertices ex_item1 = Some ex_vs" "ci_normals ex_item1 = Some ex_ns" "ci_colors ex_item1 = Some ex_cs"
  "ci_ready ex_item1" "ci_draw ex_item1" "ci_object ex_item1 = Some ''A''" "ci_name ex_item1 = Some ''A''"
  "ci_uuid ex_item1 = Some ''u1''" "ci_selection_indexes ex_item1 = None" "\<not> ci_kill ex_item1"
  by (simp_all add: ex_item1_def ex_item_def PCVManager_new_def)

lemma ex_object_simps [simp]:
  "ob_pcv (ex_object p) = p" "ob_type (ex_object p) = ''MESH''" "ob_matrix_world (ex_object p) = ex_identity"
  by (simp_all add: ex_object_def)

lemma ex_arrays: "context_arrays ex_world = Inr (''A'', ex_pcv1, ex_item1, ex_vs, ex_ns, ex_cs)"
  using ex_context by (simp add: context_arrays_def ci_arrays_def)

lemma ex_shuffle: "is_shuffle (\<lambda>n. [0..<n])" "is_shuffle (le_perm ex_env)"
  by (simp_all add: is_shuffle_def ex_env_def)

lemma ex_writable: "writable ex_array"
  by (simp add: writable_def ex_array_def pa_names_def known_names_def common_types_def np_norm_def
      np_itemsize_def np_sizes_def)

lemma ex_reader:
  "PlyPointCloudReader (le_gen ex_env) (le_fs ex_env) ''a.ply'' =
     Inr \<lparr>pp_points = ex_array, pp_has_vertices = has_fields xyz ex_array,
          pp_has_normals = has_fields nxyz ex_array, pp_has_colors = has_fields rgb ex_array\<rparr>"
  by (rule reader_of_written [OF ex_writable, of "CHR ''<''" "CHR ''f''"])
    (simp_all add: ex_env_def ex_fs_def ex_array_def)

end
