(* ===== verification/PCV_Bin_Ply.thy ===== *)
theory PCV_Bin_Ply
  imports PCV_Ply_Facts
begin

text \<open>
  \<open>BinPlyPointCloudReader\<close>, the older reader: binary files only, all columns as they are, and a
  header that ends with the exact line \<open>end_header\<close>. It reads what the writer writes.
\<close>

section \<open>The header\<close>

fun bin_header_lines :: "string list \<Rightarrow> py_error + string list \<times> string list" where
  "bin_header_lines [] = Inr ([], [])"
| "bin_header_lines (l # ls) =
     (if \<not> is_ascii l then Inl UnicodeDecodeError
      else if l = ''end_header'' @ [newline] then Inr ([l], [rstrip l])
      else bindE (bin_header_lines ls) (\<lambda>(raw, h). Inr (l # raw, rstrip l # h)))"

text \<open>What the loop over the lines assigns; the current element is the last one.\<close>

record bin_header =
  bh_ply :: bool
  bh_endianness :: "char option"
  bh_version :: "string option"
  bh_elements :: "ply_element list"

definition word_at :: "string list \<Rightarrow> nat \<Rightarrow> py_error + string" where
  "word_at ws i = (if i < length ws then Inr (ws ! i) else Inl IndexError)"

definition bin_format :: "string \<Rightarrow> bin_header \<Rightarrow> py_error + bin_header" where
  "bin_format l b =
     (let a = split_on space (drop 7 l)
      in bindE (word_at a 0) (\<lambda>f.
           bindE (lookupE ply_byte_order f (KeyError f)) (\<lambda>e.
             bindE (word_at a 1) (\<lambda>v. Inr (b\<lparr>bh_endianness := e, bh_version := Some v\<rparr>)))))"

definition bin_element :: "string \<Rightarrow> bin_header \<Rightarrow> py_error + bin_header" where
  "bin_element l b =
     (let a = split_on space l
      in bindE (word_at a 1) (\<lambda>t. bindE (word_at a 2) (\<lambda>c. bindE (py_parse_int c) (\<lambda>n.
           Inr (b\<lparr>bh_elements := bh_elements b @ [\<lparr>el_type = t, el_count = n, el_props = []\<rparr>]\<rparr>)))))"

definition bin_add_prop :: "ply_prop \<Rightarrow> bin_header \<Rightarrow> py_error + bin_header" where
  "bin_add_prop p b = bindE (add_prop (bh_elements b) (Inr p)) (\<lambda>es. Inr (b\<lparr>bh_elements := es\<rparr>))"

text \<open>Python looks the list of properties up before the arguments of \<open>append\<close>.\<close>

definition bin_property :: "string \<Rightarrow> bin_header \<Rightarrow> py_error + bin_header" where
  "bin_property l b =
     (let a = split_on space (drop 9 l); type = (\<lambda>t. lookupE BinPlyPointCloudReader_types t (KeyError t))
      in bindE (word_at a 0) (\<lambda>a0.
           if a0 \<noteq> ''list''
           then if bh_elements b = [] then Inl (TypeError ''NoneType'')
                else bindE (word_at a 1) (\<lambda>n. bindE (type a0) (\<lambda>t. bin_add_prop (Prop n t) b))
           else bindE (word_at a 2) (\<lambda>a2. bindE (type a2) (\<lambda>c. bindE (type a2) (\<lambda>t.
                  bindE (word_at a 3) (\<lambda>n. bin_add_prop (Prop_list n c t) b))))))"

definition bin_header_line :: "bool \<Rightarrow> string \<Rightarrow> bin_header \<Rightarrow> py_error + bin_header" where
  "bin_header_line first l b =
     (if first \<and> l = ''ply'' then Inr (b\<lparr>bh_ply := True\<rparr>)
      else if startswith l ''format '' then bin_format l b
      else if startswith l ''element '' then bin_element l b
      else if startswith l ''property '' then bin_property l b
      else Inr b)"

fun bin_header_loop :: "bool \<Rightarrow> string list \<Rightarrow> bin_header \<Rightarrow> py_error + bin_header" where
  "bin_header_loop first [] b = Inr b"
| "bin_header_loop first (l # ls) b = bindE (bin_header_line first l b) (bin_header_loop False ls)"

definition BinPlyPointCloudReader_header :: "string \<Rightarrow> py_error + char \<times> ply_element list \<times> nat" where
  "BinPlyPointCloudReader_header file =
     bindE (bin_header_lines (lines_keep file)) (\<lambda>(raw, h).
       bindE (bin_header_loop True h \<lparr>bh_ply = False, bh_endianness = None, bh_version = None, bh_elements = []\<rparr>)
         (\<lambda>b. if \<not> bh_ply b then Inl (ValueError ''not a ply file'')
              else if bh_version b \<noteq> Some ''1.0'' then Inl (ValueError ''unsupported ply file version'')
              else case bh_endianness b of
                     None \<Rightarrow> Inl (ValueError ''ascii ply files are not supported'')
                   | Some e \<Rightarrow> Inr (e, bh_elements b, sum_list (map length raw))))"

section \<open>The data\<close>

text \<open>Every vertex element is read from the end of the header; the last one stays.\<close>

fun bin_data_np :: "char \<Rightarrow> string \<Rightarrow> nat \<Rightarrow> ply_element list \<Rightarrow> parray option \<Rightarrow> py_error + parray option" where
  "bin_data_np e file off [] acc = Inr acc"
| "bin_data_np e file off (d # ds) acc =
     (if el_type d \<noteq> ''vertex'' then bin_data_np e file off ds acc
      else bindE (binary_props e (el_props d)) (\<lambda>dtp.
        bindE (np_dtype dtp) (\<lambda>dt.
          bindE (np_fromfile dt (el_count d) (drop off file)) (\<lambda>a. bin_data_np e file off ds (Some a)))))"

definition BinPlyPointCloudReader :: "file_system \<Rightarrow> string \<Rightarrow> py_error + parray" where
  "BinPlyPointCloudReader fs path =
     (case fs path of
        None \<Rightarrow> Inl (OSError ''did you point me to an imaginary file?'')
      | Some file \<Rightarrow>
          bindE (BinPlyPointCloudReader_header file) (\<lambda>(e, es, off).
            bindE (bin_data_np e file off es None) (\<lambda>acc.
              case acc of None \<Rightarrow> Inl (KeyError ''vertex'') | Some a \<Rightarrow> Inr a)))"

section \<open>Reading a written file\<close>

lemma bin_header_lines_written:
  assumes "\<forall>l\<in>set ls. header_line l \<and> l \<noteq> ''end_header''"
  shows "bin_header_lines (map with_newline (ls @ [''end_header'']) @ rest) =
     Inr (map with_newline (ls @ [''end_header'']), ls @ [''end_header''])"
  using assms
proof (induction ls)
  case Nil
  have "rstrip (with_newline ''end_header'') = ''end_header''"
    unfolding with_newline_def by (rule rstrip_newline) (simp add: py_isspace_def)
  moreover have "is_ascii (with_newline ''end_header'')"
    by (simp add: is_ascii_def with_newline_def)
  ultimately show ?case by (simp add: with_newline_def)
next
  case (Cons l ls)
  have "is_ascii (with_newline l)" "rstrip (with_newline l) = l" "with_newline l \<noteq> ''end_header'' @ [newline]"
    using Cons.prems by (auto simp: header_line_def is_ascii_def with_newline_def rstrip_newline)
  with Cons show ?case by simp
qed

lemma prop_text_bin:
  assumes "prop_ok f"
  shows "\<not> startswith (prop_text f) ''format ''" "\<not> startswith (prop_text f) ''element ''"
    "startswith (prop_text f) ''property ''"
    "split_on space (drop 9 (prop_text f)) = [type_word (snd (snd f)), fst f]"
    "map_of BinPlyPointCloudReader_types (type_word (snd (snd f))) = Some (snd (snd f))"
    "type_word (snd (snd f)) \<noteq> ''list''"
proof -
  obtain n ord c where f: "f = (n, ord, c)" "n \<in> set known_names" "c \<in> fst ` set common_types"
    using assms by (rule prop_ok_cases)
  note facts = known_name_facts [OF f(2)] type_word_facts [OF f(3)]
  show "\<not> startswith (prop_text f) ''format ''" "\<not> startswith (prop_text f) ''element ''"
    "startswith (prop_text f) ''property ''"
    by (simp_all add: prop_text_def startswith_def)
  show "split_on space (drop 9 (prop_text f)) = [type_word (snd (snd f)), fst f]"
    using split_on_append [OF facts(10), of n] split_on_none [OF facts(1)] by (simp add: f(1) prop_text_def)
  show "map_of BinPlyPointCloudReader_types (type_word (snd (snd f))) = Some (snd (snd f))"
    "type_word (snd (snd f)) \<noteq> ''list''"
    using f(3) by (auto simp: f(1) BinPlyPointCloudReader_types_def type_word_def common_types_def)
qed

lemma bin_header_props:
  "\<forall>f\<in>set fs. prop_ok f \<Longrightarrow> bh_elements b = es @ [el] \<Longrightarrow>
     bin_header_loop False (map prop_text fs @ ls) b =
     bin_header_loop False ls (b\<lparr>bh_elements := es @ [el\<lparr>el_props := el_props el @ map (\<lambda>f. Prop (fst f) (snd (snd f))) fs\<rparr>]\<rparr>)"
proof (induction fs arbitrary: b el)
  case Nil
  then show ?case by simp (metis (no_types) bin_header.surjective bin_header.update_convs(4) ply_element.surjective ply_element.update_convs(3))
next
  case (Cons f fs)
  then have ok: "prop_ok f" by simp
  note t = prop_text_bin [OF ok]
  have "bin_header_line False (prop_text f) b =
      Inr (b\<lparr>bh_elements := es @ [el\<lparr>el_props := el_props el @ [Prop (fst f) (snd (snd f))]\<rparr>]\<rparr>)"
    using t Cons.prems(2)
    by (simp add: bin_header_line_def bin_property_def word_at_def lookupE_def bin_add_prop_def add_prop_def)
  then show ?case using Cons by simp
qed

lemma bin_header_written:
  assumes "\<forall>f\<in>set (pa_dtype a). prop_ok f" "e = CHR ''<'' \<or> e = CHR ''>''"
  shows "bin_header_loop True (written_lines (format_word e) a @ [''end_header''])
      \<lparr>bh_ply = False, bh_endianness = None, bh_version = None, bh_elements = []\<rparr> =
     Inr \<lparr>bh_ply = True, bh_endianness = Some e, bh_version = Some ''1.0'', bh_elements =
       [\<lparr>el_type = ''vertex'', el_count = int (length (pa_rows a)),
         el_props = map (\<lambda>f. Prop (fst f) (snd (snd f))) (pa_dtype a)\<rparr>]\<rparr>"
proof -
  let ?el = "\<lparr>el_type = ''vertex'', el_count = int (length (pa_rows a)), el_props = []\<rparr>"
  have f: "bin_format (''format '' @ format_word e @ '' 1.0'') b =
      Inr (b\<lparr>bh_endianness := Some e, bh_version := Some ''1.0''\<rparr>)" for b
    using format_line(5) [OF refl, of e] assms(2)
    by (auto simp: bin_format_def word_at_def lookupE_def format_word_def)
  have el: "bin_element (''element vertex '' @ show_nat n) b =
      Inr (b\<lparr>bh_elements := bh_elements b @ [\<lparr>el_type = ''vertex'', el_count = int n, el_props = []\<rparr>]\<rparr>)" for n b
    using element_line(2) [of n] by (simp add: bin_element_def word_at_def)
  have "bin_header_loop True (written_lines (format_word e) a @ [''end_header''])
      \<lparr>bh_ply = False, bh_endianness = None, bh_version = None, bh_elements = []\<rparr> =
      bin_header_loop False (map prop_text (pa_dtype a) @ [''comment '' @ comment_text, ''end_header''])
       \<lparr>bh_ply = True, bh_endianness = Some e, bh_version = Some ''1.0'', bh_elements = [] @ [?el]\<rparr>"
    using f el by (simp add: written_lines_def bin_header_line_def startswith_def)
  also have "\<dots> = Inr \<lparr>bh_ply = True, bh_endianness = Some e, bh_version = Some ''1.0'', bh_elements =
       [\<lparr>el_type = ''vertex'', el_count = int (length (pa_rows a)),
         el_props = map (\<lambda>f. Prop (fst f) (snd (snd f))) (pa_dtype a)\<rparr>]\<rparr>"
    by (subst bin_header_props [OF assms(1)], simp)
      (simp add: bin_header_line_def startswith_def comment_text_def)
  finally show ?thesis .
qed

lemma bin_header_text_parsed:
  assumes "\<forall>f\<in>set (pa_dtype a). prop_ok f" "e = CHR ''<'' \<or> e = CHR ''>''"
  shows "BinPlyPointCloudReader_header (header_text e a @ s) =
     Inr (e, [\<lparr>el_type = ''vertex'', el_count = int (length (pa_rows a)),
           el_props = map (\<lambda>f. Prop (fst f) (snd (snd f))) (pa_dtype a)\<rparr>], length (header_text e a))"
proof -
  let ?ls = "written_lines (format_word e) a @ [''end_header'']"
  note ok = written_lines_ok [OF assms(1), of e]
  have "\<forall>l\<in>set ?ls. newline \<notin> set l"
    using ok by (auto simp: header_line_def)
  then have "lines_keep (header_text e a @ s) = map with_newline ?ls @ lines_keep s"
    unfolding header_text_def by (rule lines_keep_lines)
  then have h: "bin_header_lines (lines_keep (header_text e a @ s)) = Inr (map with_newline ?ls, ?ls)"
    using bin_header_lines_written [OF ok] by simp
  have len: "sum_list (map length (map with_newline ?ls)) = length (header_text e a)"
    by (simp only: header_text_def length_concat)
  show ?thesis
    unfolding BinPlyPointCloudReader_header_def h bindE.simps prod.case bin_header_written [OF assms] len
    by simp
qed

lemma bin_data_single:
  "el_type d = ''vertex'' \<Longrightarrow> bin_data_np e file off [d] None = data_binary e file [d] (int off) None"
  by simp

lemma bin_reader_of_written:
  assumes "writable a" "map_of (pa_dtype a) ''x'' = Some (e, c)" "e = CHR ''<'' \<or> e = CHR ''>''"
    and "fs path = Some (header_text e a @ np_tobytes a)"
  shows "BinPlyPointCloudReader fs path = Inr a"
proof -
  obtain e' c' where p: "\<forall>f\<in>set (pa_dtype a). prop_ok f"
    using assms(1) by (rule writable_props)
  show ?thesis
    unfolding BinPlyPointCloudReader_def assms(4) option.case bin_header_text_parsed [OF p assms(3)] bindE.simps prod.case
    by (subst bin_data_single, simp) (simp only: data_binary_written [OF assms(1-3)] bindE.simps option.case)
qed

end
