(* ===== verification/PCV_Props_Files.thy ===== *)
theory PCV_Props_Files
  imports PCV_Examples PCV_Bin_Ply
begin

text \<open>
  Properties of the PLY files and of loading them: what the writer writes the reader reads
  back, an export never loses the old file before the new one is complete, and loading stores
  exactly the file's points.
\<close>

text \<open>C16: An array of the types and field names the reader knows, in one byte order, survives
  the file: the reader applied to what \<open>BinPlyPointCloudWriter\<close> leaves at the path returns the
  same dtype and the same rows, and reports the fields it has.\<close>

theorem ply_roundtrip:
  assumes "writable a"
  shows "\<exists>ss. BinPlyPointCloudWriter ne path a fs = (Inr (), ss) \<and> ss \<noteq> [] \<and>
     PlyPointCloudReader gen (last ss) path =
       Inr \<lparr>pp_points = a, pp_has_vertices = has_fields xyz a,
            pp_has_normals = has_fields nxyz a, pp_has_colors = has_fields rgb a\<rparr>"
proof -
  obtain e c where x: "map_of (pa_dtype a) ''x'' = Some (e, c)" "e = CHR ''<'' \<or> e = CHR ''>''"
      and props: "\<forall>f\<in>set (pa_dtype a). prop_ok f"
    using writable_props [OF assms, of thesis] by blast
  have "writer_header ne a = Inr (header_text e a)"
    by (rule writer_header_text [OF props x])
  then obtain ss where ss: "BinPlyPointCloudWriter ne path a fs = (Inr (), ss)" "ss \<noteq> []"
      "last ss path = Some (header_text e a @ np_tobytes a)"
    using writer_run [of ne a "header_text e a" path fs] by blast
  show ?thesis
    by (intro exI [of _ ss] conjI ss(1,2) reader_of_written [OF assms x, of "last ss" path] ss(3))
qed

theorem ply_roundtrip_witness:
  "\<exists>ss. BinPlyPointCloudWriter ex_num ''b.ply'' ex_array ex_fs = (Inr (), ss) \<and> ss \<noteq> [] \<and>
     PlyPointCloudReader (\<lambda>_ _ _ _. Inl IndexError) (last ss) ''b.ply'' =
       Inr \<lparr>pp_points = ex_array, pp_has_vertices = True, pp_has_normals = False, pp_has_colors = False\<rparr>"
proof -
  have "has_fields xyz ex_array" "\<not> has_fields nxyz ex_array" "\<not> has_fields rgb ex_array"
    by (simp_all add: has_fields_def pa_names_def ex_array_def xyz_def nxyz_def rgb_def)
  then show ?thesis
    using ply_roundtrip [OF ex_writable, of ex_num "''b.ply''" ex_fs "\<lambda>_ _ _ _. Inl IndexError"] by simp
qed

text \<open>C17: The two readers agree on what the writer writes: for every array of known columns in one
  byte order, \<open>BinPlyPointCloudReader\<close> returns the written array, which is what
  \<open>PlyPointCloudReader\<close> has as its points.\<close>

theorem readers_agree:
  assumes "writable a" "BinPlyPointCloudWriter ne path a fs = (Inr (), ss)"
  shows "BinPlyPointCloudReader (last ss) path = Inr a \<and>
     (\<exists>r. PlyPointCloudReader gen (last ss) path = Inr r \<and> BinPlyPointCloudReader (last ss) path = Inr (pp_points r))"
proof -
  obtain e c where x: "map_of (pa_dtype a) ''x'' = Some (e, c)" "e = CHR ''<'' \<or> e = CHR ''>''"
      and props: "\<forall>f\<in>set (pa_dtype a). prop_ok f"
    using writable_props [OF assms(1), of thesis] by blast
  have "writer_header ne a = Inr (header_text e a)"
    by (rule writer_header_text [OF props x])
  then have stored: "last ss path = Some (header_text e a @ np_tobytes a)"
    using writer_run [of ne a "header_text e a" path fs] assms(2) by auto
  show ?thesis
    using bin_reader_of_written [OF assms(1) x, of "last ss" path, OF stored]
      reader_of_written [OF assms(1) x, of "last ss" path gen, OF stored] by simp
qed

theorem readers_agree_witness:
  "\<exists>ss. BinPlyPointCloudWriter ex_num ''b.ply'' ex_array ex_fs = (Inr (), ss) \<and>
     BinPlyPointCloudReader (last ss) ''b.ply'' = Inr ex_array"
proof -
  have "writer_header ex_num ex_array = Inr (header_text (CHR ''<'') ex_array)"
    by (intro writer_header_text) (auto simp: ex_array_def prop_ok_def known_names_def common_types_def)
  from writer_run [OF this, of "''b.ply''" ex_fs] obtain ss where
    "BinPlyPointCloudWriter ex_num ''b.ply'' ex_array ex_fs = (Inr (), ss)" by blast
  with readers_agree [OF ex_writable this, of "\<lambda>_ _ _ _. Inl IndexError"] show ?thesis by blast
qed

text \<open>C30: Writing is safe against interruption: in every state of the file system the writer
  goes through, the path still holds the old file or already the complete new one, or the
  complete new file is at the temporary path; no other file changes. When the header cannot
  be written, the path is untouched.\<close>

theorem writer_never_loses_data:
  "case writer_header ne a of
     Inl e \<Rightarrow> fst (BinPlyPointCloudWriter ne path a fs) = Inl e \<and>
       (\<forall>s\<in>set (snd (BinPlyPointCloudWriter ne path a fs)). s path = fs path)
   | Inr h \<Rightarrow> fst (BinPlyPointCloudWriter ne path a fs) = Inr () \<and>
       (\<forall>s\<in>set (snd (BinPlyPointCloudWriter ne path a fs)).
          (s path = fs path \<or> s path = Some (h @ np_tobytes a) \<or> s (temp_path path) = Some (h @ np_tobytes a)) \<and>
          (\<forall>q. q \<notin> {path, temp_path path} \<longrightarrow> s q = fs q))"
proof (cases "writer_header ne a")
  case (Inl e)
  then show ?thesis
    using temp_path_differs [of path] by (simp add: writer_failed)
next
  case (Inr h)
  then obtain ss where "BinPlyPointCloudWriter ne path a fs = (Inr (), ss)"
      "\<forall>s\<in>set ss. (\<forall>q. q \<noteq> path \<longrightarrow> q \<noteq> temp_path path \<longrightarrow> s q = fs q) \<and>
        (s path = fs path \<or> s path = Some (h @ np_tobytes a) \<or> s (temp_path path) = Some (h @ np_tobytes a))"
    using writer_run [OF Inr, of path fs] by blast
  with Inr show ?thesis by simp
qed

theorem writer_never_loses_data_witness:
  "case writer_header ex_num ex_array of
     Inl e \<Rightarrow> False
   | Inr h \<Rightarrow> \<forall>s\<in>set (snd (BinPlyPointCloudWriter ex_num ''a.ply'' ex_array ex_fs)). s ''c.ply'' = None"
proof -
  have "temp_path ''a.ply'' = ''a.temp.ply''"
    by code_simp
  moreover have hdr: "writer_header ex_num ex_array = Inr (header_text (CHR ''<'') ex_array)"
    using writable_props [OF ex_writable]
    by (intro writer_header_text) (auto simp: ex_array_def prop_ok_def known_names_def common_types_def)
  ultimately have "\<forall>s\<in>set (snd (BinPlyPointCloudWriter ex_num ''a.ply'' ex_array ex_fs)).
      \<forall>q. q \<notin> {''a.ply'', ''a.temp.ply''} \<longrightarrow> s q = ex_fs q"
    using writer_never_loses_data [where ne = ex_num and a = ex_array and path = "''a.ply''" and fs = ex_fs]
    by (simp only: sum.case) (elim conjE, rule ballI, drule bspec, assumption, elim conjE, assumption)
  moreover have "ex_fs ''c.ply'' = None"
    by (simp add: ex_fs_def)
  moreover have "''c.ply'' \<notin> {''a.ply'', ''a.temp.ply''}"
    by simp
  ultimately have "\<forall>s\<in>set (snd (BinPlyPointCloudWriter ex_num ''a.ply'' ex_array ex_fs)). s ''c.ply'' = None"
    by (metis (no_types))
  then show ?thesis
    using hdr by simp
qed

text \<open>C18: Loading stores the file: when the reader succeeds with at least one vertex that has
  a location, the new item is well formed, ready and not yet shown, it is registered under the
  object's new uuid, and its points are exactly the rows of the file converted one by one, in
  file order unless the preferences ask for shuffling (then in any order).\<close>

theorem load_stores_file:
  assumes "context_pcv w = Some (n0, p)"
    and "PlyPointCloudReader (le_gen ev) (le_fs ev) (p_filepath p) = Inr pp"
    and "pa_rows (pp_points pp) \<noteq> []" "has_fields xyz (pp_points pp)"
    and "cache_wf w" "objects_ok w" "is_shuffle (le_perm ev)"
  shows "\<exists>w' c. PCVManager_load_ply_to_cache ev True w = (Inr True, w') \<and> cache_wf w' \<and>
     dict_get (cache w') (le_uuid ev) = Some c \<and> item_ok c \<and> \<not> ci_draw c \<and> ci_ready c \<and>
     map_option p_uuid (get_pcv w' n0) = Some (le_uuid ev) \<and>
     mset (cloud c) = mset (map (row_point (le_num ev) (prefs w) (pp_points pp)) (pa_rows (pp_points pp))) \<and>
     (\<not> pr_shuffle_points (prefs w) \<longrightarrow>
        cloud c = map (row_point (le_num ev) (prefs w) (pp_points pp)) (pa_rows (pp_points pp)))"
  by (rule load_ok [OF assms])

theorem load_stores_file_witness:
  "\<exists>w' c. PCVManager_load_ply_to_cache ex_env True ex_world = (Inr True, w') \<and>
     dict_get (cache w') ''u3'' = Some c \<and>
     cloud c = [((97, 98, 99), (0, 0, 1), (1, 1, 1, 1)), ((100, 101, 102), (0, 0, 1), (1, 1, 1, 1))]"
proof -
  have "p_filepath ex_pcv1 = ''a.ply''" "le_uuid ex_env = ''u3''" "le_num ex_env = ex_num"
    "\<not> pr_shuffle_points (prefs ex_world)"
    by (simp_all add: ex_pcv1_def default_pcv_def ex_env_def ex_prefs_def)
  moreover have "map (row_point ex_num ex_prefs ex_array) (pa_rows ex_array) =
      [((97, 98, 99), (0, 0, 1), (1, 1, 1, 1)), ((100, 101, 102), (0, 0, 1), (1, 1, 1, 1))]"
    by (simp add: ex_array_def row_point_def row_v3_def row_value_def row_color_def ex_num_def
        default_color_def ex_prefs_def has_fields_def pa_names_def nxyz_def rgb_def xyz_def)
  moreover have "cache_wf ex_world" "objects_ok ex_world"
    using ex_world_ok by (simp_all add: world_ok_def)
  moreover have "pa_rows ex_array \<noteq> []" "has_fields xyz ex_array"
    by (simp_all add: ex_array_def has_fields_def pa_names_def xyz_def)
  ultimately show ?thesis
    using load_stores_file [OF ex_context, of ex_env] ex_reader ex_shuffle(2) by fastforce
qed

text \<open>A file the reader rejects changes neither the cache nor any object.\<close>

theorem load_failure_keeps_state:
  assumes "context_pcv w = Some (n0, p)"
    and "PlyPointCloudReader (le_gen ev) (le_fs ev) (p_filepath p) = Inl e"
  shows "\<exists>w'. PCVManager_load_ply_to_cache ev True w = (Inr False, w') \<and> cache w' = cache w \<and>
     objects w' = objects w"
  by (rule load_failed [OF assms])

theorem load_failure_keeps_state_witness:
  "\<exists>w'. PCVManager_load_ply_to_cache (ex_env\<lparr>le_fs := \<lambda>_. None\<rparr>) True ex_world = (Inr False, w') \<and>
     cache w' = cache ex_world"
proof -
  have "\<exists>e. PlyPointCloudReader (le_gen (ex_env\<lparr>le_fs := \<lambda>_. None\<rparr>))
      (le_fs (ex_env\<lparr>le_fs := \<lambda>_. None\<rparr>)) (p_filepath ex_pcv1) = Inl e"
    by (simp add: PlyPointCloudReader_def)
  then show ?thesis
    using load_failure_keeps_state [OF ex_context] by blast
qed

end
