(* ===== verification/PCV_Props_Cache.thy ===== *)
theory PCV_Props_Cache
  imports PCV_Examples
begin

text \<open>
  Properties of the cache and of the operators that show, update, reload and edit clouds.
\<close>



text \<open>Whatever sequence of \<open>init\<close>, \<open>deinit\<close> and \<open>gc\<close> runs after start-up, Blender holds one
  draw handler and one load watcher while the manager is initialized and none otherwise.\<close>

theorem registration_balanced:
  "registered_once (fold registration_step ops
     (w\<lparr>handle := False, initialized := False, draw_handlers := 0, load_pre := 0\<rparr>))"
  by (rule registration.inv_run)

text \<open>C20: Storing new points through \<open>PCVManager.update\<close> keeps the whole cache well formed: the
  item's arrays have the same length, its counters equal that length, and its batch holds
  the displayed part of the new vertices.\<close>

theorem update_keeps_cache_wf:
  assumes "cache_wf w" "objects_ok w" "dict_get (cache w) u = Some c"
    and "ci_object c = Some n" "get_pcv w n = Some p"
    and "case ns of None \<Rightarrow> True | Some x \<Rightarrow> length x = length vs"
    and "case cs of None \<Rightarrow> True | Some x \<Rightarrow> length x = length vs"
  shows "\<exists>w' c' b. PCVManager_update u vs ns cs w = (Inr (), w') \<and> cache_wf w' \<and>
     dict_get (cache w') u = Some c' \<and> item_ok c' \<and> ci_vertices c' = Some vs \<and>
     ci_display_length c' = Some (display_count (length vs) (p_display_percent p)) \<and>
     ci_batch c' = Some b \<and> b_position b = py_take (display_count (length vs) (p_display_percent p)) vs"
proof -
  have get: "dict_get (cache (snd (PCVManager_update u vs ns cs w))) u = Some (updated_item w p vs ns cs c)"
    by (simp add: update_some [OF assms(3-5)])
  have wf: "cache_wf (snd (PCVManager_update u vs ns cs w))"
    by (rule update_cache_wf [OF assms])
  show ?thesis
    using cache_wf_get(2) [OF wf get] wf
    by (simp add: update_some [OF assms(3-5)])
      (simp add: updated_item_def Let_def make_batch_def)
qed

theorem update_keeps_cache_wf_witness:
  "\<exists>w' c'. PCVManager_update ''u1'' [(7, 7, 7)] None None ex_world = (Inr (), w') \<and>
     dict_get (cache w') ''u1'' = Some c' \<and> ci_display_length c' = Some 1"
proof -
  have wf: "cache_wf ex_world" "objects_ok ex_world"
    using ex_world_ok by (simp_all add: world_ok_def)
  have get: "dict_get (cache ex_world) ''u1'' = Some ex_item1"
    by simp
  show ?thesis
    using update_keeps_cache_wf [OF wf get, where n = "''A''" and p = ex_pcv1 and ns = None and cs = None and vs = "[(7, 7, 7)]"]
    by (auto simp: display_count_def)
qed

text \<open>Drawing from a script reuses the object's item: when the object already shows points
  set by a script, \<open>PCVControl.draw\<close> replaces that item's arrays in place under the same uuid,
  and otherwise it registers a fresh one; in both cases the item is shown afterwards.\<close>

theorem control_draw_in_place:
  assumes "get_pcv w n0 = Some p"
    and "PCVControl_prepare ne (prefs w) vs ns cs = Inr (vs', ns', cs', points, hn, hc)"
  shows "\<exists>w' k c. PCVControl_draw ne u n0 vs ns cs w = (Inr (), w') \<and>
     k = (if p_uuid p \<noteq> '''' \<and> p_runtime p \<and> dict_get (cache w) (p_uuid p) \<noteq> None then p_uuid p else u) \<and>
     dict_get (cache w') k = Some c \<and> ci_draw c \<and> ci_vertices c = Some vs' \<and> ci_normals c = Some ns' \<and>
     ci_colors c = Some cs' \<and> map_option p_uuid (get_pcv w' n0) = Some k \<and>
     (\<forall>j. j \<noteq> k \<longrightarrow> dict_get (cache w') j = dict_get (cache w) j)"
  by (rule PCVControl_draw_some [OF assms])

theorem control_draw_in_place_witness:
  "\<exists>w' c. PCVControl_draw ex_num ''u9'' ''B'' (Some [(3, 3, 3)]) None None ex_world = (Inr (), w') \<and>
     dict_get (cache w') ''u9'' = Some c \<and> ci_draw c \<and> ci_vertices c = Some [(3, 3, 3)]"
proof -
  have b: "get_pcv ex_world ''B'' = Some (default_pcv\<lparr>p_uuid := ''u2''\<rparr>)"
    by (simp add: get_pcv_def)
  have "\<exists>points. PCVControl_prepare ex_num (prefs ex_world) (Some [(3, 3, 3)]) None None =
      Inr ([(3, 3, 3)], [(0, 0, 1)], [default_color ex_prefs], points, False, False)"
    by (simp add: PCVControl_prepare_def non_empty_def Let_def)
  then obtain points where "PCVControl_prepare ex_num (prefs ex_world) (Some [(3, 3, 3)]) None None =
      Inr ([(3, 3, 3)], [(0, 0, 1)], [default_color ex_prefs], points, False, False)" ..
  from control_draw_in_place [OF b this, of "''u9''"] show ?thesis
    by (simp add: default_pcv_def) blast
qed

text \<open>\<open>PCVControl.reset\<close> deletes the object's item (with every item already marked), keeps
  all others, and gives the object the properties it had before it was first used.\<close>

theorem control_reset_forgets:
  assumes "get_pcv w n0 = Some p" "p_uuid p \<noteq> ''''" "p_runtime p"
    and "dict_get (cache w) (p_uuid p) = Some d" "cache_wf w"
  shows "\<exists>w'. PCVControl_reset n0 w = (Inr (), w') \<and> cache_wf w' \<and>
     cache w' = filter (\<lambda>(k, v). k \<noteq> p_uuid p \<and> \<not> ci_kill v) (cache w) \<and>
     get_pcv w' n0 = Some (p\<lparr>p_uuid := '''', p_filepath := '''', p_has_normals := False,
                             p_has_vcols := False, p_runtime := False\<rparr>)"
  by (rule PCVControl_reset_some [OF assms])

theorem control_reset_forgets_witness:
  "\<exists>w'. PCVControl_reset ''A'' (upd_pcv ''A'' (\<lambda>p. p\<lparr>p_runtime := True\<rparr>) ex_world) = (Inr (), w') \<and>
     cache w' = [(''u2'', ex_item2)]"
proof -
  let ?w = "upd_pcv ''A'' (\<lambda>p. p\<lparr>p_runtime := True\<rparr>) ex_world"
  have "cache_wf ?w"
    using ex_world_ok by (simp add: world_ok_def cache_wf_def)
  moreover have "get_pcv ?w ''A'' = Some (ex_pcv1\<lparr>p_runtime := True\<rparr>)"
    by (simp add: get_pcv_upd_pcv)
  moreover have "filter (\<lambda>(k, v). k \<noteq> ''u1'' \<and> \<not> ci_kill v) (cache ex_world) = [(''u2'', ex_item2)]"
    by (simp add: ex_world_def ex_item2_def ex_item_def PCVManager_new_def)
  ultimately show ?thesis
    using control_reset_forgets [of ?w "''A''" "ex_pcv1\<lparr>p_runtime := True\<rparr>" ex_item1] by auto
qed

text \<open>The four shaders with a size per point cannot follow one another: when one of them has been
  drawn, drawing another one, or the same one with another number of displayed points, raises
  \<open>KeyError\<close> in the draw handler.\<close>

theorem sized_shaders_clash:
  assumes "ci_vertices ci = Some vs" "ci_normals ci = Some ns" "ci_colors ci = Some cs"
    and "ci_current_display_length ci = Some l" "ci_extra ci = None"
    and "only_flag f p" "(f, t) \<in> set sized_flags" "only_flag f' p'" "(f', t') \<in> set sized_flags"
    and "t' \<noteq> t \<or> l' \<noteq> l"
  shows "\<exists>b c1 key. render_extras p ci = (Inr [b], c1) \<and>
     fst (render_extras p' (c1\<lparr>ci_current_display_length := Some l'\<rparr>)) = Inl (KeyError key)"
  by (rule second_sized_raises [OF assms])

definition ex_flag :: "shader_flag \<Rightarrow> pcv" where
  "ex_flag f = ex_pcv1\<lparr>p_flags := (\<lambda>g. g = f)\<rparr>"

lemma ex_only_flag: "only_flag f (ex_flag f)"
  by (simp add: only_flag_def ex_flag_def ex_pcv1_def default_pcv_def)

lemma ex_item1_lengths: "ci_display_length ex_item1 = Some 3" "ci_current_display_length ex_item1 = Some 3"
  "ci_extra ex_item1 = None"
  by (simp_all add: ex_item1_def ex_item_def ex_vs_def PCVManager_new_def)

theorem sized_shaders_clash_witness:
  "\<exists>b c1 key. render_extras (ex_flag Minimal_variable_size) ex_item1 = (Inr [b], c1) \<and>
     fst (render_extras (ex_flag Rich_billboard) (c1\<lparr>ci_current_display_length := Some 3\<rparr>)) = Inl (KeyError key)"
  by (rule sized_shaders_clash [OF _ _ _ ex_item1_lengths(2,3) ex_only_flag _ ex_only_flag,
        where t = "''MINIMAL_VARIABLE_SIZE''" and t' = "''RICH_BILLBOARD''"])
    (simp_all add: sized_flags_def sized_keys_def)

text \<open>Changing a cloud does not renew what the other shaders have stored: after an update that
  displays as many points as before, the minimal shader still draws the old positions.\<close>

theorem update_leaves_stale_batch:
  assumes "dict_get (cache w) u = Some c" "ci_object c = Some n" "get_pcv w n = Some p"
    and "ci_vertices c = Some vs" "ci_normals c = Some ns" "ci_colors c = Some cs"
    and "ci_current_display_length c = Some l" "ci_extra c = None" "only_flag Minimal_shader p"
    and "display_count (length vs') (p_display_percent p) = l"
  shows "\<exists>b c1 w2 c2. render_extras p c = (Inr [b], c1) \<and> b_position b = py_take l vs \<and>
     PCVManager_update u vs' (Some ns') (Some cs') (upd_item u (\<lambda>_. c1) w) = (Inr (), w2) \<and>
     dict_get (cache w2) u = Some c2 \<and> ci_vertices c2 = Some vs' \<and> fst (render_extras p c2) = Inr [b]"
proof -
  let ?fresh = "entry (colored (''vertex_shader_minimal'', ''fragment_shader_minimal'') l vs cs) (Some l)"
  let ?c1 = "extra_set ''MINIMAL'' ?fresh c"
  have on: "p_flags p Minimal_shader" using only_minimal(2) [OF assms(9,4-7)] .
  have first: "render_extras p c = (Inr [xe_batch ?fresh], ?c1)"
    using only_minimal(1) [OF assms(9,4-7)] assms(8) on
    by (simp add: draw_minimal_def draw_stored_def stored_batch_def extra_get_def)
  let ?w1 = "upd_item u (\<lambda>_. ?c1) w"
  let ?c2 = "updated_item ?w1 p vs' (Some ns') (Some cs') ?c1"
  have "dict_get (cache ?w1) u = Some ?c1" "ci_object ?c1 = Some n" "get_pcv ?w1 n = Some p"
    using assms(1-3) by (simp_all add: dict_get_upd_item extra_set_def)
  note upd = update_some [OF this, of vs' "Some ns'" "Some cs'"]
  have c2: "ci_vertices ?c2 = Some vs'" "ci_normals ?c2 = Some ns'" "ci_colors ?c2 = Some cs'"
    "ci_current_display_length ?c2 = Some l" "ci_extra ?c2 = Some [(''MINIMAL'', ?fresh)]"
    using assms(8,10) by (simp_all add: updated_item_def Let_def extra_set_def)
  have "fst (render_extras p ?c2) = Inr [xe_batch ?fresh]"
    using only_minimal(1) [OF assms(9) c2(1-4)] on c2(5)
    by (simp add: draw_minimal_def draw_stored_def stored_batch_def extra_get_def entry_def)
  then show ?thesis
    using first upd c2(1) by (simp add: entry_def colored_def)
qed

theorem update_leaves_stale_batch_witness:
  "\<exists>b w2. PCVManager_update ''u1'' [(9, 9, 9), (8, 8, 8), (7, 7, 7)] (Some ex_ns) (Some ex_cs)
       (upd_item ''u1'' (\<lambda>_. snd (render_extras (ex_flag Minimal_shader) ex_item1))
         (ex_world\<lparr>objects := [(''A'', ex_object (ex_flag Minimal_shader))]\<rparr>)) = (Inr (), w2) \<and>
     map_option (\<lambda>c. fst (render_extras (ex_flag Minimal_shader) c)) (dict_get (cache w2) ''u1'') = Some (Inr [b]) \<and>
     b_position b = ex_vs"
proof -
  let ?w = "ex_world\<lparr>objects := [(''A'', ex_object (ex_flag Minimal_shader))]\<rparr>"
  have p: "get_pcv ?w ''A'' = Some (ex_flag Minimal_shader)" by (simp add: get_pcv_def)
  have l: "display_count (length [(9, 9, 9), (8, 8, 8), (7, 7, 7 :: real)]) (p_display_percent (ex_flag Minimal_shader)) = 3"
    by (simp add: display_count_def ex_flag_def)
  have "py_take 3 ex_vs = ex_vs" by (simp add: ex_vs_def)
  then show ?thesis
    using update_leaves_stale_batch [OF _ _ p _ _ _ ex_item1_lengths(2,3) ex_only_flag l,
        of "''u1''" ex_vs ex_ns ex_cs ex_ns ex_cs] by fastforce
qed

end
