(* ===== verification/PCV_Resample.thy ===== *)
theory PCV_Resample
  imports PCV_Filter_Facts
begin

text \<open>
  The two filters that compute new points: simplify (a best-candidate sample of the cloud) and
  project (ray casting every point onto a target mesh, with colours from the hit face).
\<close>

section \<open>Simplify\<close>

text \<open>The index of the largest distance, as the loop over \<open>dists\<close> finds it.\<close>

definition farthest :: "real list \<Rightarrow> nat" where
  "farthest ds =
     snd (fold (\<lambda>(j, d) (maxd, maxi). if d > maxd then (d, j) else (maxd, maxi))
            (zip [0..<length ds] ds) (0, 0))"

text \<open>
  One round takes the next \<open>k\<close> points of the pool (or of the unused ones, when the pool is
  used up), keeps the one farthest from the samples and recycles the others. \<open>last_used\<close>
  advances by \<open>k + 1\<close>.
\<close>

fun simplify_loop ::
    "(v3 list \<Rightarrow> v3 \<Rightarrow> real) \<Rightarrow> nat \<Rightarrow> point list \<Rightarrow> nat \<Rightarrow> nat \<Rightarrow> point list \<Rightarrow> v3 list \<Rightarrow> point list \<Rightarrow> point list" where
  "simplify_loop nearest k pool 0 last_used unused tree samples = samples"
| "simplify_loop nearest k pool (Suc n) last_used unused tree samples =
     (let cands0 = take k (drop (last_used + 1) pool);
          cands = (if cands0 = [] then take k unused else cands0);
          unused1 = (if cands0 = [] then drop k unused else unused)
      in if cands = [] then samples
         else
           (let i = farthest (map (\<lambda>x. nearest tree (fst x)) cands)
            in simplify_loop nearest k pool n (last_used + (1 + k)) (unused1 @ drop_rows [i] cands)
                 (tree @ [fst (cands ! i)]) (samples @ [cands ! i])))"

definition resample :: "(v3 list \<Rightarrow> v3 \<Rightarrow> real) \<Rightarrow> nat \<Rightarrow> nat \<Rightarrow> point list \<Rightarrow> point list" where
  "resample nearest num_samples candidates pool =
     simplify_loop nearest candidates pool (num_samples - 1) 0 [] [fst (hd pool)] [hd pool]"

definition too_many_samples :: string where
  "too_many_samples = ''Number of samples must be < number of points.''"

definition PCV_OT_filter_simplify :: "blender \<Rightarrow> (nat \<Rightarrow> nat list) \<Rightarrow> world \<Rightarrow> status \<times> world" where
  "PCV_OT_filter_simplify bl perm w =
     (case context_arrays w of
        Inl e \<Rightarrow> (Raised e, w)
      | Inr (n0, p, c, vs, ns, cs) \<Rightarrow>
          if int (length vs) \<le> p_simplify_num_samples p
          then (Cancelled, report ''ERROR'' too_many_samples w)
          else
            (let pool0 = zip vs (zip ns cs);
                 pool = (if pr_shuffle_points (prefs w) then pool0 else np_shuffle perm pool0);
                 a = resample (bl_nearest bl) (nat (p_simplify_num_samples p))
                       (nat (p_simplify_num_candidates p)) pool
             in status_of (PCVManager_update (p_uuid p) (map fst a) (Some (map (\<lambda>x. fst (snd x)) a))
                             (Some (map (\<lambda>x. snd (snd x)) a)) w)))"

section \<open>Project\<close>

definition shift_along :: "v3 \<Rightarrow> v3 \<Rightarrow> real \<Rightarrow> v3" where
  "shift_along co no v = v3_add co (v3_scale v (v3_normalized no))"

definition remap :: "real \<Rightarrow> real \<Rightarrow> real \<Rightarrow> real \<Rightarrow> real \<Rightarrow> real" where
  "remap v min1 max1 min2 max2 =
     (if max1 - min1 = 0 then min2
      else min2 + (max2 - min2) * ((v - min1) / (max1 - min1)))"

text \<open>
  What colours come from: per face of the triangulated mesh its corners with their vertex
  colours, UV coordinates and vertex group weights; the active material's image node.
\<close>

record face =
  fa_verts :: "v3 \<times> v3 \<times> v3"
  fa_cols :: "v3 \<times> v3 \<times> v3"
  fa_uvs :: "(real \<times> real) \<times> (real \<times> real) \<times> (real \<times> real)"
  fa_weights :: "real \<times> real \<times> real"

record image =
  im_width :: int
  im_height :: int
  im_pixels :: "v3 list list"

record paint_source =
  ps_faces :: "face list"
  ps_color_layer :: bool
  ps_material :: bool
  ps_node :: "(string \<times> image option) option"
  ps_uv_layer :: bool
  ps_group_layer :: bool

definition color_source_error :: "string \<Rightarrow> paint_source \<Rightarrow> string option" where
  "color_source_error src ps =
     (if src = ''VCOLS'' then
        (if ps_color_layer ps then None else Some ''Cannot find active vertex colors'')
      else if src = ''UVTEX'' then
        (if \<not> ps_material ps then Some ''Cannot find active material''
         else (case ps_node ps of
                 None \<Rightarrow> Some ''Cannot find active image texture in active material''
               | Some (t, im) \<Rightarrow>
                   if t \<noteq> ''TEX_IMAGE'' then Some ''Cannot find active image texture in active material''
                   else if im = None
                   then Some ''Cannot find active image texture with loaded image in active material''
                   else if \<not> ps_uv_layer ps then Some ''Cannot find active UV layout''
                   else None))
      else if src = ''GROUP_MONO'' \<or> src = ''GROUP_COLOR'' then
        (if ps_group_layer ps then None else Some ''Cannot find active vertex group'')
      else Some ''Unsupported color source'')"

definition weighted3 :: "real list \<Rightarrow> real \<times> real \<times> real \<Rightarrow> real" where
  "weighted3 ws a = (case a of (x, y, z) \<Rightarrow> x * ws ! 0 + y * ws ! 1 + z * ws ! 2)"

text \<open>The pixel coordinate for a UV coordinate, wrapped into the unit interval.\<close>

definition uv_pixel :: "real \<Rightarrow> int \<Rightarrow> int" where
  "uv_pixel u n = py_round (remap (frac u) 0 1 0 (real_of_int (n - 1)))"

definition uv_color :: "image \<Rightarrow> v3 \<Rightarrow> py_error + v3" where
  "uv_color im uv =
     bindE (py_get (im_pixels im) (uv_pixel (fst (snd uv)) (im_height im)))
       (\<lambda>row. py_get row (uv_pixel (fst uv) (im_width im)))"

definition gen_color :: "blender \<Rightarrow> string \<Rightarrow> paint_source \<Rightarrow> v3 \<Rightarrow> nat \<Rightarrow> py_error + v3" where
  "gen_color bl src ps v index =
     bindE (py_get (ps_faces ps) (int index)) (\<lambda>poly.
       case fa_verts poly of (pa, pb, pc) \<Rightarrow>
       (let ws = bl_weights bl [pa, pb, pc] v;
            m = weighted3 ws (fa_weights poly)
        in if src = ''VCOLS'' then
             (case fa_cols poly of ((ar, ag, ab), (br, bg, bb), (cr, cg, cb)) \<Rightarrow>
                Inr (weighted3 ws (ar, br, cr), weighted3 ws (ag, bg, cg), weighted3 ws (ab, bb, cb)))
           else if src = ''UVTEX'' then
             (case ps_node ps of
                Some (_, Some im) \<Rightarrow>
                  (case fa_uvs poly of ((ua, va), (ub, vb), (uc, vc)) \<Rightarrow>
                     uv_color im (bl_barycentric bl v pa pb pc (ua, va, 0) (ub, vb, 0) (uc, vc, 0)))
              | _ \<Rightarrow> Inl AttributeError)
           else if src = ''GROUP_MONO'' then Inr (m, m, m)
           else if src = ''GROUP_COLOR'' then
             Inr (bl_from_hsv bl (remap (1 - m) 0 1 0 (1 / (3 / 2)), 1, 1))
           else Inr (0, 0, 0)))"

text \<open>The hit used for a point: the nearer one of the two directions.\<close>

definition project_hit :: "project_settings \<Rightarrow> target_mesh \<Rightarrow> v3 \<Rightarrow> v3 \<Rightarrow> (v3 \<times> nat) option" where
  "project_hit s t v n =
     (let d = fp_search_distance s;
          nn = shift_along v n (- d);
          ndir = v3_normalized (v3_sub nn v);
          p_hit = (if fp_positive s then tg_ray_cast t v n d else None);
          n_hit = (if fp_negative s then tg_ray_cast t v ndir d else None)
      in case (p_hit, n_hit) of
           (Some (pl, _, pi'), Some (nl, _, ni)) \<Rightarrow>
             if v3_distance pl v < v3_distance nl v then Some (pl, pi') else Some (nl, ni)
         | (Some (pl, _, pi'), None) \<Rightarrow> Some (pl, pi')
         | (None, Some (nl, _, ni)) \<Rightarrow> Some (nl, ni)
         | (None, None) \<Rightarrow> None)"

definition project_point ::
    "blender \<Rightarrow> project_settings \<Rightarrow> target_mesh \<Rightarrow> paint_source \<Rightarrow> point \<Rightarrow> py_error + point \<times> bool" where
  "project_point bl s t ps x =
     (case x of (v, n, r, g, b, al) \<Rightarrow>
        (case project_hit s t v n of
           None \<Rightarrow> Inr ((v, n, r, g, b, al), True)
         | Some (loc, i) \<Rightarrow>
             if fp_colorize s
             then bindE (gen_color bl (fp_colorize_from s) ps loc i) (\<lambda>(r', g', b').
                    Inr ((loc, n, r', g', b', al), False))
             else Inr ((loc, n, r, g, b, al), False)))"

definition shift_point :: "real \<Rightarrow> point \<Rightarrow> point" where
  "shift_point sh x = (case x of (v, n, c) \<Rightarrow> (shift_along v n sh, n, c))"

definition PCV_OT_filter_project_poll :: "world \<Rightarrow> bool" where
  "PCV_OT_filter_project_poll w =
     (case context_pcv w of
        None \<Rightarrow> False
      | Some (_, p) \<Rightarrow> shown w (p_uuid p) \<and>
          (case Option.bind (fp_object (p_project p)) (dict_get (objects w)) of
             None \<Rightarrow> False
           | Some ob \<Rightarrow> ob_type ob \<in> {''MESH'', ''CURVE'', ''SURFACE'', ''FONT''}))"

text \<open>The points after projecting, discarding and shifting, in world space.\<close>

definition project_points ::
    "blender \<Rightarrow> project_settings \<Rightarrow> target_mesh \<Rightarrow> paint_source \<Rightarrow> point list \<Rightarrow> py_error + point list" where
  "project_points bl s t ps xs =
     bindE (mapE (project_point bl s t ps) xs) (\<lambda>a.
       let idx = filter (\<lambda>i. snd (a ! i)) [0..<length a]
       in bindE (if fp_discard s then np_delete a idx else Inr a) (\<lambda>a'.
            let b = map fst a'
            in Inr (if fp_shift s \<noteq> 0 then map (shift_point (fp_shift s)) b else b)))"

definition matrix_point :: "blender \<Rightarrow> mat4 \<Rightarrow> point \<Rightarrow> point" where
  "matrix_point bl m x = (case x of (v, n, c) \<Rightarrow> (mat_apply m v, mat_apply (bl_rotation bl m) n, c))"

definition PCV_OT_filter_project :: "blender \<Rightarrow> (string \<Rightarrow> paint_source) \<Rightarrow> world \<Rightarrow> status \<times> world" where
  "PCV_OT_filter_project bl paint w =
     (case context_pcv w of
        None \<Rightarrow> (Raised AttributeError, w)
      | Some (n0, p) \<Rightarrow>
          (let s = p_project p
           in case fp_object s of
                None \<Rightarrow> (Raised (Py_Exception ''''), w)
              | Some o' \<Rightarrow>
                  (case context_arrays w of
                     Inl e \<Rightarrow> (Raised e, w)
                   | Inr (_, _, c, vs, ns, cs) \<Rightarrow>
                       (case (dict_get (objects w) o', Option.bind (ci_object c) (dict_get (objects w))) of
                          (Some ob, Some me) \<Rightarrow>
                            if ob_type ob \<noteq> ''MESH'' then (Raised AttributeError, w)
                            else
                              (case (if fp_colorize s then color_source_error (fp_colorize_from s) (paint o')
                                     else None) of
                                 Some msg \<Rightarrow> (Cancelled, report ''ERROR'' msg w)
                               | None \<Rightarrow>
                                   (let m = ob_matrix_world me;
                                        t = bl_target bl o' [ob_matrix_world ob]
                                    in case bindE (project_points bl s t (paint o')
                                                    (map (matrix_point bl m) (zip vs (zip ns cs)))) (\<lambda>b.
                                              bindE (bl_inverted bl m) (\<lambda>mi.
                                                Inr (map (matrix_point bl mi) b))) of
                                         Inl e \<Rightarrow> (Raised e, w)
                                       | Inr a \<Rightarrow>
                                           status_of (PCVManager_update (p_uuid p) (map fst a)
                                             (Some (map (\<lambda>x. fst (snd x)) a))
                                             (Some (map (\<lambda>x. snd (snd x)) a)) w)))
                        | _ \<Rightarrow> (Raised (Py_Exception ''ReferenceError''), w)))))"

section \<open>Facts about simplify\<close>

lemma unzip3 [simp]:
  "zip (map fst q) (zip (map (\<lambda>x. fst (snd x)) q) (map (\<lambda>x. snd (snd x)) q)) = q"
  by (induction q) auto

lemma farthest_less:
  assumes "ds \<noteq> []"
  shows "farthest ds < length ds"
proof -
  have bound: "snd (fold (\<lambda>(j, d) (maxd, maxi). if d > maxd then (d, j) else (maxd, maxi)) xs (m, i)) < n"
    if "\<forall>x\<in>set xs. fst x < n" "i < n" for xs n i and m :: real
    using that by (induction xs arbitrary: m i) auto
  have "\<forall>x\<in>set (zip [0..<length ds] ds). fst x < length ds"
    by (auto simp: set_zip)
  then show ?thesis
    unfolding farthest_def by (rule bound) (use assms in simp)
qed

text \<open>Taking one row out of a list leaves the others.\<close>

lemma mset_drop_row:
  assumes "i < length xs"
  shows "mset (drop_rows [i] xs) + {#xs ! i#} = mset xs" "length (drop_rows [i] xs) = length xs - 1"
proof -
  have split: "xs = take i xs @ xs ! i # drop (Suc i) xs"
    using assms by (rule id_take_nth_drop)
  have "drop_rows [i] xs = take i xs @ drop (Suc i) xs"
  proof -
    have "nths xs {j. j \<notin> {i}} = nths (take i xs @ xs ! i # drop (Suc i) xs) {j. j \<noteq> i}"
      using split by simp
    also have "\<dots> = take i xs @ drop (Suc i) xs"
      using assms by (auto simp: nths_append nths_Cons nths_all)
    finally show ?thesis by (simp add: drop_rows_nths)
  qed
  then show "mset (drop_rows [i] xs) + {#xs ! i#} = mset xs" "length (drop_rows [i] xs) = length xs - 1"
    using assms arg_cong [OF split, of mset] by auto
qed

text \<open>Samples and unused points come from the part of the pool that was passed, each at most once.\<close>

lemma take_step_mset:
  "mset (take m pool) + mset (take k (drop m pool)) \<subseteq># mset (take (m + (1 + k)) pool)"
proof -
  have "take (m + (1 + k)) pool = take m pool @ take (1 + k) (drop m pool)"
    by (rule take_add)
  moreover have "take (1 + k) (drop m pool) = take k (drop m pool) @ take 1 (drop k (drop m pool))"
    by (metis add.commute take_add)
  ultimately show ?thesis by simp
qed

text \<open>The candidates of a round and the unused points before it, from the state of the loop.\<close>

definition round_cands :: "nat \<Rightarrow> point list \<Rightarrow> nat \<Rightarrow> point list \<Rightarrow> point list" where
  "round_cands k pool last_used unused =
     (let c = take k (drop (last_used + 1) pool) in if c = [] then take k unused else c)"

definition round_unused :: "nat \<Rightarrow> point list \<Rightarrow> nat \<Rightarrow> point list \<Rightarrow> point list" where
  "round_unused k pool last_used unused =
     (let c = take k (drop (last_used + 1) pool) in if c = [] then drop k unused else unused)"

lemma simplify_loop_Suc:
  "simplify_loop nearest k pool (Suc n) last_used unused tree samples =
     (let cands = round_cands k pool last_used unused;
          i = farthest (map (\<lambda>x. nearest tree (fst x)) cands)
      in if cands = [] then samples
         else simplify_loop nearest k pool n (last_used + (1 + k))
                (round_unused k pool last_used unused @ drop_rows [i] cands)
                (tree @ [fst (cands ! i)]) (samples @ [cands ! i]))"
  unfolding round_cands_def round_unused_def by (simp add: Let_def)

lemma round_mset:
  "mset (round_unused k pool m unused) + mset (round_cands k pool m unused) \<subseteq>#
     mset unused + mset (take k (drop (m + 1) pool))"
proof -
  have "mset (drop k unused) + mset (take k unused) = mset unused"
    by (metis append_take_drop_id mset_append union_commute)
  then show ?thesis
    unfolding round_cands_def round_unused_def Let_def
    by (cases "take k (drop (m + 1) pool) = []") simp_all
qed

declare simplify_loop.simps(2) [simp del]

lemma simplify_loop_mset:
  assumes "mset samples + mset unused \<subseteq># mset (take (last_used + 1) pool)"
  shows "mset (simplify_loop nearest k pool n last_used unused tree samples) \<subseteq># mset pool"
  using assms
proof (induction n arbitrary: last_used unused tree samples)
  case 0
  have "mset (take (last_used + 1) pool) \<subseteq># mset pool"
    by (metis append_take_drop_id mset_append mset_subset_eq_add_left)
  then have "mset samples + mset unused \<subseteq># mset pool"
    using 0 by (rule subset_mset.order_trans [rotated])
  then show ?case
    by (auto intro: subset_mset.order_trans [OF mset_subset_eq_add_left])
next
  case (Suc n)
  define c where "c = round_cands k pool last_used unused"
  define u where "u = round_unused k pool last_used unused"
  define i where "i = farthest (map (\<lambda>x. nearest tree (fst x)) c)"
  show ?case
  proof (cases "c = []")
    case True
    have "mset (take (last_used + 1) pool) \<subseteq># mset pool"
      by (metis append_take_drop_id mset_append mset_subset_eq_add_left)
    then have "mset samples + mset unused \<subseteq># mset pool"
      using Suc.prems by (rule subset_mset.order_trans [rotated])
    then have "mset samples \<subseteq># mset pool"
      by (auto intro: subset_mset.order_trans [OF mset_subset_eq_add_left])
    then show ?thesis using True by (simp add: simplify_loop_Suc c_def)
  next
    case False
    have i: "i < length c"
      using farthest_less [of "map (\<lambda>x. nearest tree (fst x)) c"] False by (simp add: i_def)
    have "mset (samples @ [c ! i]) + mset (u @ drop_rows [i] c) = mset samples + (mset u + mset c)"
      using mset_drop_row(1) [OF i] by simp
    also have "\<dots> \<subseteq># mset samples + (mset unused + mset (take k (drop (last_used + 1) pool)))"
      using round_mset [of k pool last_used unused] by (simp add: c_def u_def)
    also have "\<dots> \<subseteq># mset (take (last_used + 1) pool) + mset (take k (drop (last_used + 1) pool))"
      using Suc.prems by (simp add: add.assoc [symmetric])
    also have "\<dots> \<subseteq># mset (take (last_used + (1 + k) + 1) pool)"
      using take_step_mset [of "last_used + 1" pool k] by (simp add: ac_simps)
    finally have step: "mset (samples @ [c ! i]) + mset (u @ drop_rows [i] c)
        \<subseteq># mset (take (last_used + (1 + k) + 1) pool)" .
    have "simplify_loop nearest k pool (Suc n) last_used unused tree samples =
        simplify_loop nearest k pool n (last_used + (1 + k)) (u @ drop_rows [i] c)
          (tree @ [fst (c ! i)]) (samples @ [c ! i])"
      using False unfolding simplify_loop_Suc Let_def c_def [symmetric] u_def [symmetric] i_def [symmetric]
      by simp
    then show ?thesis
      using Suc.IH [OF step] by simp
  qed
qed

text \<open>
  How many samples there are: of the \<open>m\<close> points after \<open>last_used\<close>, every \<open>(k + 1)\<close>-th one is
  never a candidate.
\<close>

definition reachable_points :: "nat \<Rightarrow> nat \<Rightarrow> nat" where
  "reachable_points k m = m - m div (k + 1)"

lemma reachable_points_step:
  "reachable_points k m = min k m + reachable_points k (m - (k + 1))"
proof (cases "k + 1 \<le> m")
  case True
  then obtain x where x: "m = k + 1 + x"
    using le_Suc_ex by blast
  have q: "(k + 1 + x) div (k + 1) = Suc (x div (k + 1))"
    by (simp add: le_div_geq)
  have r: "k + 1 + x - (k + 1) = x" "min k (k + 1 + x) = k"
    by simp_all
  have "x div (k + 1) \<le> x"
    by (rule div_le_dividend)
  then show ?thesis
    unfolding reachable_points_def x q r by linarith
qed (simp add: reachable_points_def)

lemma round_lengths:
  assumes "0 < k"
  shows "length (round_unused k pool l unused) + length (round_cands k pool l unused) =
      length unused + min k (length pool - (l + 1))"
    and "round_cands k pool l unused = [] \<longleftrightarrow> unused = [] \<and> length pool \<le> l + 1"
  using assms by (auto simp: round_unused_def round_cands_def Let_def)

lemma simplify_loop_length:
  assumes "0 < k"
  shows "length (simplify_loop nearest k pool n last_used unused tree samples) =
     length samples + min n (length unused + reachable_points k (length pool - (last_used + 1)))"
  using assms
proof (induction n arbitrary: last_used unused tree samples)
  case (Suc n)
  define c where "c = round_cands k pool last_used unused"
  define u where "u = round_unused k pool last_used unused"
  define i where "i = farthest (map (\<lambda>x. nearest tree (fst x)) c)"
  let ?m = "length pool - (last_used + 1)"
  note len = round_lengths [OF Suc.prems, of pool last_used unused, folded c_def u_def]
  show ?case
  proof (cases "c = []")
    case True
    then show ?thesis
      using len(2) by (simp add: simplify_loop_Suc c_def reachable_points_def)
  next
    case False
    have i: "i < length c"
      using farthest_less [of "map (\<lambda>x. nearest tree (fst x)) c"] False by (simp add: i_def)
    have "simplify_loop nearest k pool (Suc n) last_used unused tree samples =
        simplify_loop nearest k pool n (last_used + (1 + k)) (u @ drop_rows [i] c)
          (tree @ [fst (c ! i)]) (samples @ [c ! i])"
      using False unfolding simplify_loop_Suc Let_def c_def [symmetric] u_def [symmetric] i_def [symmetric]
      by simp
    then have "length (simplify_loop nearest k pool (Suc n) last_used unused tree samples) =
        Suc (length samples) + min n (length u + (length c - 1) +
          reachable_points k (length pool - (last_used + (1 + k) + 1)))"
      using Suc.IH [OF Suc.prems] mset_drop_row(2) [OF i] by simp
    moreover have m: "length pool - (last_used + (1 + k) + 1) = ?m - (k + 1)"
      by simp
    moreover have "length unused + reachable_points k ?m =
        Suc (length u + (length c - 1) + reachable_points k (?m - (k + 1)))"
    proof -
      have "length c \<noteq> 0" using False by simp
      then show ?thesis
        using len(1) reachable_points_step [of k ?m] by linarith
    qed
    ultimately show ?thesis by simp
  qed
qed simp

lemma resample_facts:
  assumes "pool \<noteq> []"
  shows "mset (resample nearest n k pool) \<subseteq># mset pool"
    and "0 < k \<Longrightarrow> length (resample nearest n k pool) =
           1 + min (n - 1) (reachable_points k (length pool - 1))"
proof -
  have "mset (take (0 + 1) pool) = {#hd pool#}"
    using assms by (cases pool) auto
  then show "mset (resample nearest n k pool) \<subseteq># mset pool"
    unfolding resample_def by (intro simplify_loop_mset) simp
  show "length (resample nearest n k pool) = 1 + min (n - 1) (reachable_points k (length pool - 1))"
    if "0 < k"
    using that unfolding resample_def by (simp add: simplify_loop_length)
qed

lemma simplify_ok:
  assumes ok: "world_ok w" "is_shuffle perm"
    and arr: "context_arrays w = Inr (n0, p, c, vs, ns, cs)"
    and n: "0 < p_simplify_num_samples p" "p_simplify_num_samples p < int (length vs)"
    and k: "0 < p_simplify_num_candidates p"
  shows "\<exists>w' c'. PCV_OT_filter_simplify bl perm w = (Finished, w') \<and> world_ok w' \<and>
     dict_get (cache w') (p_uuid p) = Some c' \<and> mset (cloud c') \<subseteq># mset (cloud c) \<and>
     length (cloud c') = 1 + min (nat (p_simplify_num_samples p) - 1)
       (reachable_points (nat (p_simplify_num_candidates p)) (length vs - 1))"
proof -
  note d = context_arraysD [OF arr] and len = context_arrays_lengths [OF ok(1) arr]
  define pool where "pool = (if pr_shuffle_points (prefs w) then zip vs (zip ns cs)
      else np_shuffle perm (zip vs (zip ns cs)))"
  define a where "a = resample (bl_nearest bl) (nat (p_simplify_num_samples p))
      (nat (p_simplify_num_candidates p)) pool"
  have pool: "mset pool = mset (cloud c)" "length pool = length vs" "pool \<noteq> []"
  proof -
    show m: "mset pool = mset (cloud c)"
      using np_shuffle_mset [OF ok(2), of "zip vs (zip ns cs)"] d(6) by (simp add: pool_def)
    then have "length pool = length (cloud c)" by (metis size_mset)
    then show "length pool = length vs" using d(6) len by simp
    then show "pool \<noteq> []" using n by auto
  qed
  obtain q where q: "PCVManager_update (p_uuid p) (map fst a) (Some (map (\<lambda>x. fst (snd x)) a))
        (Some (map (\<lambda>x. snd (snd x)) a)) w =
        (Inr (), stored (p_uuid p) (map fst a) (map (\<lambda>x. fst (snd x)) a) (map (\<lambda>x. snd (snd x)) a) q c w)"
      "world_ok (stored (p_uuid p) (map fst a) (map (\<lambda>x. fst (snd x)) a) (map (\<lambda>x. snd (snd x)) a) q c w)"
    by (rule update_ok [OF ok(1) d(2), of "map (\<lambda>x. fst (snd x)) a" "map fst a" "map (\<lambda>x. snd (snd x)) a"])
      simp_all
  have "PCV_OT_filter_simplify bl perm w = (Finished,
      stored (p_uuid p) (map fst a) (map (\<lambda>x. fst (snd x)) a) (map (\<lambda>x. snd (snd x)) a) q c w)"
    using n q(1) unfolding PCV_OT_filter_simplify_def arr sum.case prod.case Let_def
      pool_def [symmetric] a_def [symmetric] by simp
  moreover have "mset a \<subseteq># mset (cloud c)"
    using resample_facts(1) [OF pool(3)] pool(1) by (simp add: a_def)
  moreover have "length a = 1 + min (nat (p_simplify_num_samples p) - 1)
      (reachable_points (nat (p_simplify_num_candidates p)) (length vs - 1))"
    using resample_facts(2) [OF pool(3)] pool(2) k by (simp add: a_def)
  ultimately show ?thesis
    using q(2) by (intro exI [of _ "stored (p_uuid p) (map fst a) (map (\<lambda>x. fst (snd x)) a)
      (map (\<lambda>x. snd (snd x)) a) q c w"]) simp
qed

section \<open>Facts about project\<close>

text \<open>The pixel read for a UV coordinate is always inside the image.\<close>

lemma py_round_bounds:
  assumes "0 \<le> x" "x \<le> real_of_int n"
  shows "0 \<le> py_round x" "py_round x \<le> n"
proof -
  have f: "0 \<le> \<lfloor>x\<rfloor>" "\<lfloor>x\<rfloor> \<le> n" "\<lfloor>x\<rfloor> = n \<Longrightarrow> x - real_of_int \<lfloor>x\<rfloor> \<le> 0"
    using assms by (auto simp: floor_le_iff)
  show "0 \<le> py_round x"
    using f(1) by (auto simp: py_round_def Let_def)
  show "py_round x \<le> n"
  proof (cases "\<lfloor>x\<rfloor> = n")
    case True
    then show ?thesis using f(3) by (simp add: py_round_def Let_def)
  next
    case False
    then have "\<lfloor>x\<rfloor> + 1 \<le> n" using f(2) by linarith
    then show ?thesis by (auto simp: py_round_def Let_def)
  qed
qed

lemma uv_pixel_range:
  assumes "0 < n"
  shows "0 \<le> uv_pixel u n \<and> uv_pixel u n < n"
proof -
  have "0 \<le> frac u" "frac u \<le> 1"
    using frac_lt_1 [of u] by auto
  then have "0 \<le> (real_of_int n - 1) * frac u" "(real_of_int n - 1) * frac u \<le> real_of_int (n - 1)"
    using assms mult_left_mono [of "frac u" 1 "real_of_int n - 1"] by auto
  then show ?thesis
    using py_round_bounds [of "(real_of_int n - 1) * frac u" "n - 1"] by (simp add: uv_pixel_def remap_def)
qed

lemma uv_color_total:
  assumes "0 < im_width im" "0 < im_height im"
    and "int (length (im_pixels im)) = im_height im"
    and "\<forall>row\<in>set (im_pixels im). int (length row) = im_width im"
  shows "\<exists>col. uv_color im uv = Inr col"
proof -
  let ?y = "uv_pixel (fst (snd uv)) (im_height im)" and ?x = "uv_pixel (fst uv) (im_width im)"
  have y: "0 \<le> ?y" "?y < int (length (im_pixels im))" and x: "0 \<le> ?x" "?x < im_width im"
    using uv_pixel_range assms(1-3) by auto
  have "im_pixels im ! nat ?y \<in> set (im_pixels im)"
    using y by (intro nth_mem) linarith
  then have "?x < int (length (im_pixels im ! nat ?y))"
    using assms(4) x by auto
  then have "uv_color im uv = Inr (im_pixels im ! nat ?y ! nat ?x)"
    using x y by (simp add: uv_color_def)
  then show ?thesis by (rule exI)
qed

text \<open>Projecting without colours, point by point.\<close>

definition hits :: "project_settings \<Rightarrow> target_mesh \<Rightarrow> point \<Rightarrow> bool" where
  "hits s t x \<longleftrightarrow> (case x of (v, n, c) \<Rightarrow> project_hit s t v n \<noteq> None)"

definition projected :: "project_settings \<Rightarrow> target_mesh \<Rightarrow> point \<Rightarrow> point" where
  "projected s t x =
     (case x of (v, n, c) \<Rightarrow>
        let v' = (case project_hit s t v n of None \<Rightarrow> v | Some (loc, i) \<Rightarrow> loc)
        in (if fp_shift s \<noteq> 0 then shift_along v' n (fp_shift s) else v', n, c))"

lemma project_points_plain:
  assumes "\<not> fp_colorize s"
  shows "project_points bl s t ps xs =
     Inr (map (projected s t) (if fp_discard s then filter (hits s t) xs else xs))"
proof -
  let ?f = "\<lambda>x. ((case x of (v, n, c) \<Rightarrow>
      (case project_hit s t v n of None \<Rightarrow> v | Some (loc, i) \<Rightarrow> loc, n, c)), \<not> hits s t x)"
  have "mapE (project_point bl s t ps) xs = Inr (map ?f xs)"
    using assms by (intro mapE_Inr) (auto simp: project_point_def hits_def split: option.splits prod.splits)
  moreover have "np_delete (map ?f xs) (filter (\<lambda>i. snd (map ?f xs ! i)) [0..<length (map ?f xs)]) =
      Inr (filter (\<lambda>q. \<not> snd q) (map ?f xs))"
    using drop_rows_filter [of "\<lambda>q. \<not> snd q" "map ?f xs"] by (simp add: np_delete_def)
  moreover have "filter (\<lambda>q. \<not> snd q) (map ?f xs) = map ?f (filter (hits s t) xs)"
    by (simp add: filter_map o_def)
  ultimately show ?thesis
    by (auto simp: project_points_def Let_def projected_def shift_point_def)
qed

lemma project_ok:
  assumes ok: "world_ok w" and arr: "context_arrays w = Inr (n0, p, c, vs, ns, cs)"
    and o': "fp_object (p_project p) = Some o'" "dict_get (objects w) o' = Some ob" "ob_type ob = ''MESH''"
    and me: "Option.bind (ci_object c) (dict_get (objects w)) = Some me"
      "bl_inverted bl (ob_matrix_world me) = Inr mi"
    and plain: "\<not> fp_colorize (p_project p)"
    and t: "t = bl_target bl o' [ob_matrix_world ob]"
  shows "\<exists>w' c'. PCV_OT_filter_project bl paint w = (Finished, w') \<and> world_ok w' \<and>
     dict_get (cache w') (p_uuid p) = Some c' \<and>
     cloud c' = map (\<lambda>x. matrix_point bl mi (projected (p_project p) t x))
       ((if fp_discard (p_project p) then filter (hits (p_project p) t) else id)
          (map (matrix_point bl (ob_matrix_world me)) (cloud c)))"
proof -
  note d = context_arraysD [OF arr]
  define xs where "xs = (if fp_discard (p_project p) then filter (hits (p_project p) t) else id)
      (map (matrix_point bl (ob_matrix_world me)) (zip vs (zip ns cs)))"
  define a where "a = map (matrix_point bl mi) (map (projected (p_project p) t) xs)"
  have pp: "project_points bl (p_project p) t (paint o')
      (map (matrix_point bl (ob_matrix_world me)) (zip vs (zip ns cs))) = Inr (map (projected (p_project p) t) xs)"
    using project_points_plain [OF plain] by (simp add: xs_def)
  obtain q where q: "PCVManager_update (p_uuid p) (map fst a) (Some (map (\<lambda>x. fst (snd x)) a))
        (Some (map (\<lambda>x. snd (snd x)) a)) w =
        (Inr (), stored (p_uuid p) (map fst a) (map (\<lambda>x. fst (snd x)) a) (map (\<lambda>x. snd (snd x)) a) q c w)"
      "world_ok (stored (p_uuid p) (map fst a) (map (\<lambda>x. fst (snd x)) a) (map (\<lambda>x. snd (snd x)) a) q c w)"
    by (rule update_ok [OF ok d(2), of "map (\<lambda>x. fst (snd x)) a" "map fst a" "map (\<lambda>x. snd (snd x)) a"])
      simp_all
  have "PCV_OT_filter_project bl paint w = (Finished,
      stored (p_uuid p) (map fst a) (map (\<lambda>x. fst (snd x)) a) (map (\<lambda>x. snd (snd x)) a) q c w)"
    using plain o' me q(1) pp [unfolded t] d(1)
    by (simp add: PCV_OT_filter_project_def arr Let_def a_def [unfolded t, symmetric] del: map_map)
  moreover have "map (\<lambda>x. matrix_point bl mi (projected (p_project p) t x))
       ((if fp_discard (p_project p) then filter (hits (p_project p) t) else id)
          (map (matrix_point bl (ob_matrix_world me)) (cloud c))) = a"
    by (simp only: a_def xs_def d(6) map_map o_def)
  ultimately show ?thesis
    using q(2)
    by (intro exI [of _ "stored (p_uuid p) (map fst a) (map (\<lambda>x. fst (snd x)) a) (map (\<lambda>x. snd (snd x)) a) q c w"])
      simp
qed

end
