(* ===== verification/PCV_Props_Filters.thy ===== *)
theory PCV_Props_Filters
  imports PCV_Examples PCV_Resample PCV_Shaders
begin

text \<open>
  Properties of the operators that change a cloud: what is in the cloud afterwards, in terms of
  its points before, and that the state stays well formed.
\<close>

text \<open>C21: Removing a colour takes away exactly the points of that colour: selecting and then
  deleting the selection leaves the points the colour test does not select, in their order,
  and nothing else changes shape.\<close>

theorem remove_color_exact:
  assumes "world_ok w" "context_arrays w = Inr (n0, p, c, vs, ns, cs)"
    and "\<exists>i<length vs. color_selected bl (p_remove_color p) (cs ! i)"
  shows "\<exists>w1 w2 c'. PCV_OT_filter_remove_color bl w = (Finished, w1) \<and>
     PCV_OT_filter_remove_color_delete_selected w1 = (Finished, w2) \<and> world_ok w2 \<and>
     dict_get (cache w2) (p_uuid p) = Some c' \<and>
     cloud c' = filter (\<lambda>(v, n, col). \<not> color_selected bl (p_remove_color p) col) (cloud c)"
  by (rule select_delete [OF assms])

text \<open>The colours of the example against black: only the first one is selected.\<close>

definition ex_black :: pcv where
  "ex_black = ex_pcv1\<lparr>p_remove_color := (p_remove_color default_pcv)
     \<lparr>rc_color := (0, 0, 0), rc_delta_hue_use := False, rc_delta_saturation_use := False,
      rc_delta_value_use := False\<rparr>\<rparr>"

lemma ex_black_selected:
  "color_selected ex_bl (p_remove_color ex_black) (0, 0, 0, 1)"
  "\<not> color_selected ex_bl (p_remove_color ex_black) (0, 1, 0, 1)"
  "\<not> color_selected ex_bl (p_remove_color ex_black) (0, 0, 1, 1)"
  by (simp_all add: color_selected_def color_case_def ex_black_def default_pcv_def ex_bl_def
      same_color_def remove_color_target_def round_digits_def py_round_def py_int_def)

theorem remove_color_exact_witness:
  "\<exists>w1 w2 c'. PCV_OT_filter_remove_color ex_bl (upd_pcv ''A'' (\<lambda>_. ex_black) ex_world) = (Finished, w1) \<and>
     PCV_OT_filter_remove_color_delete_selected w1 = (Finished, w2) \<and>
     dict_get (cache w2) ''u1'' = Some c' \<and>
     cloud c' = [((1, 0, 0), (0, 1, 0), (0, 1, 0, 1)), ((0, 2, 0), (0, 0, 1), (0, 0, 1, 1))]"
proof -
  let ?w = "upd_pcv ''A'' (\<lambda>_. ex_black) ex_world"
  have ok: "world_ok ?w"
    by (rule world_ok_set_pcv [OF ex_world_ok]) (simp add: ex_black_def)
  have "context_pcv ?w = Some (''A'', ex_black)"
    by (simp add: context_pcv_def get_pcv_upd_pcv ex_world_def) (simp add: get_pcv_def ex_world_def)
  then have arr: "context_arrays ?w = Inr (''A'', ex_black, ex_item1, ex_vs, ex_ns, ex_cs)"
    by (simp add: context_arrays_def ci_arrays_def ex_black_def)
  have some: "\<exists>i<length ex_vs. color_selected ex_bl (p_remove_color ex_black) (ex_cs ! i)"
    using ex_black_selected(1) by (intro exI [of _ 0]) (simp add: ex_vs_def ex_cs_def)
  have "filter (\<lambda>(v, n, col). \<not> color_selected ex_bl (p_remove_color ex_black) col) (cloud ex_item1) =
      [((1, 0, 0), (0, 1, 0), (0, 1, 0, 1)), ((0, 2, 0), (0, 0, 1), (0, 0, 1, 1))]"
    using ex_black_selected by (simp add: cloud_def ex_vs_def ex_ns_def ex_cs_def)
  moreover have "p_uuid ex_black = ''u1''"
    by (simp add: ex_black_def)
  ultimately show ?thesis
    using remove_color_exact [OF ok arr some] by fastforce
qed

text \<open>C31: The boolean filters split a cloud by the target mesh: intersect keeps exactly the points
  inside it and exclude exactly the others, each in the cloud's order, so the two results
  together are the cloud.\<close>

theorem boolean_filters_partition:
  assumes "world_ok w" "context_arrays w = Inr (n0, p, c, vs, ns, cs)"
    and "boolean_target bl w p c = Inr t"
  shows "\<exists>w1 c1 w2 c2. PCV_OT_filter_boolean_intersect bl w = (Finished, w1) \<and> world_ok w1 \<and>
     dict_get (cache w1) (p_uuid p) = Some c1 \<and>
     cloud c1 = filter (\<lambda>(v, n, c). inside_target t v) (cloud c) \<and>
     PCV_OT_filter_boolean_exclude bl w = (Finished, w2) \<and> world_ok w2 \<and>
     dict_get (cache w2) (p_uuid p) = Some c2 \<and>
     cloud c2 = filter (\<lambda>(v, n, c). \<not> inside_target t v) (cloud c) \<and>
     mset (cloud c1) + mset (cloud c2) = mset (cloud c)"
proof -
  have split: "mset (filter (\<lambda>(v, n, c). inside_target t v) xs) +
      mset (filter (\<lambda>(v, n, c). \<not> inside_target t v) xs) = mset xs" for xs :: "point list"
    using multiset_partition [of "mset xs" "\<lambda>(v, n, c). inside_target t v"]
    by (simp add: case_prod_unfold)
  show ?thesis
    using boolean_ok(1) [OF assms] boolean_ok(2) [OF assms] split by metis
qed

theorem boolean_filters_partition_witness:
  "\<exists>w1 c1 w2 c2. PCV_OT_filter_boolean_intersect ex_bl ex_world = (Finished, w1) \<and>
     dict_get (cache w1) ''u1'' = Some c1 \<and> PCV_OT_filter_boolean_exclude ex_bl ex_world = (Finished, w2) \<and>
     dict_get (cache w2) ''u1'' = Some c2 \<and> mset (cloud c1) + mset (cloud c2) = mset (cloud ex_item1)"
proof -
  have "boolean_target ex_bl ex_world ex_pcv1 ex_item1 = Inr ex_target"
    by (simp add: boolean_target_def ex_bl_def)
  from boolean_filters_partition [OF ex_world_ok ex_arrays this] show ?thesis by auto
qed

text \<open>Merging a file adds its points to the cloud: afterwards the cloud holds the points it
  had and one converted point for every row of the file.\<close>

theorem merge_adds_file:
  assumes "world_ok w" "is_shuffle (le_perm ev)"
    and "context_arrays w = Inr (n0, p, c, vs, ns, cs)"
    and "is_ply_path path" "PlyPointCloudReader (le_gen ev) (le_fs ev) path = Inr pp"
      "pa_rows (pp_points pp) \<noteq> []" "has_fields xyz (pp_points pp)"
  shows "\<exists>w' c'. PCV_OT_filter_merge ev path w = (Finished, w') \<and> world_ok w' \<and>
     dict_get (cache w') (p_uuid p) = Some c' \<and>
     mset (cloud c') = mset (cloud c) +
       mset (map (row_point (le_num ev) (prefs w) (pp_points pp)) (pa_rows (pp_points pp)))"
  by (rule merge_ok [OF assms])

theorem merge_adds_file_witness:
  "\<exists>w' c'. PCV_OT_filter_merge ex_env ''a.ply'' ex_world = (Finished, w') \<and>
     dict_get (cache w') ''u1'' = Some c' \<and> size (mset (cloud c')) = 5"
proof -
  have "is_ply_path ''a.ply''"
    by code_simp
  moreover have "pa_rows ex_array \<noteq> []" "has_fields xyz ex_array" "length (pa_rows ex_array) = 2"
    by (simp_all add: ex_array_def has_fields_def pa_names_def xyz_def)
  moreover have "length (cloud ex_item1) = 3"
    by (simp add: cloud_def ex_vs_def ex_ns_def ex_cs_def)
  moreover from calculation obtain w' c' where r: "PCV_OT_filter_merge ex_env ''a.ply'' ex_world = (Finished, w')"
      "dict_get (cache w') ''u1'' = Some c'"
      "mset (cloud c') = mset (cloud ex_item1) +
         mset (map (row_point (le_num ex_env) (prefs ex_world) ex_array) (pa_rows ex_array))"
    using merge_adds_file [OF ex_world_ok ex_shuffle(2) ex_arrays _ ex_reader] by auto
  ultimately have "size (mset (cloud c')) = 5"
    by (simp only: size_union size_mset length_map)
  with r show ?thesis by blast
qed

text \<open>Joining another cloud adds its points, carried from that object's space into this
  one's, and hides the other cloud without changing it.\<close>

theorem join_adds_cloud:
  assumes "world_ok w" "is_shuffle perm"
    and "context_arrays w = Inr (n0, p, c, vs, ns, cs)"
    and "p_filter_join_object p = Some n2" "dict_get (objects w) n2 = Some ob2"
      "dict_get (cache w) (p_uuid (ob_pcv ob2)) = Some c2" "p_uuid (ob_pcv ob2) \<noteq> p_uuid p"
    and "dict_get (objects w) n0 = Some ob" "bl_inverted bl (ob_matrix_world ob) = Inr mi"
  shows "\<exists>w' c'. PCV_OT_filter_join bl perm w = (Finished, w') \<and> world_ok w' \<and>
     dict_get (cache w') (p_uuid p) = Some c' \<and>
     mset (cloud c') = mset (cloud c) + mset (map (joined_point bl (ob_matrix_world ob2) mi) (cloud c2)) \<and>
     dict_get (cache w') (p_uuid (ob_pcv ob2)) = Some (c2\<lparr>ci_draw := False\<rparr>)"
  by (rule join_ok [OF assms])

theorem join_adds_cloud_witness:
  "\<exists>w' c'. PCV_OT_filter_join ex_bl (\<lambda>n. [0..<n]) ex_world = (Finished, w') \<and>
     dict_get (cache w') ''u1'' = Some c' \<and> size (mset (cloud c')) = 4 \<and>
     dict_get (cache w') ''u2'' = Some (ex_item2\<lparr>ci_draw := False\<rparr>)"
proof -
  have "length (cloud ex_item1) = 3" "length (cloud ex_item2) = 1"
    by (simp_all add: cloud_def ex_vs_def ex_ns_def ex_cs_def ex_item2_def ex_item_def PCVManager_new_def)
  moreover have "bl_inverted ex_bl ex_identity = Inr ex_identity"
    by (simp add: ex_bl_def)
  then obtain w' c' where r: "PCV_OT_filter_join ex_bl (\<lambda>n. [0..<n]) ex_world = (Finished, w')"
      "dict_get (cache w') ''u1'' = Some c'" "dict_get (cache w') ''u2'' = Some (ex_item2\<lparr>ci_draw := False\<rparr>)"
      "mset (cloud c') = mset (cloud ex_item1) +
         mset (map (joined_point ex_bl ex_identity ex_identity) (cloud ex_item2))"
    using join_adds_cloud [OF ex_world_ok ex_shuffle(1) ex_arrays, of "''B''"
        "ex_object (default_pcv\<lparr>p_uuid := ''u2''\<rparr>)" ex_item2 "ex_object ex_pcv1" ex_bl ex_identity]
    by auto
  ultimately have "size (mset (cloud c')) = 4"
    by (simp only: size_union size_mset length_map)
  with r show ?thesis by blast
qed

text \<open>C22: Simplifying keeps a sub-multiset of the cloud, and its size is as asked for, as long as
  the candidates last: one sample per round, where a round can be served only by points of the
  pool the loop can reach.\<close>

theorem simplify_sample:
  assumes "world_ok w" "is_shuffle perm"
    and "context_arrays w = Inr (n0, p, c, vs, ns, cs)"
    and "0 < p_simplify_num_samples p" "p_simplify_num_samples p < int (length vs)"
    and "0 < p_simplify_num_candidates p"
  shows "\<exists>w' c'. PCV_OT_filter_simplify bl perm w = (Finished, w') \<and> world_ok w' \<and>
     dict_get (cache w') (p_uuid p) = Some c' \<and> mset (cloud c') \<subseteq># mset (cloud c) \<and>
     length (cloud c') = 1 + min (nat (p_simplify_num_samples p) - 1)
       (reachable_points (nat (p_simplify_num_candidates p)) (length vs - 1))"
  by (rule simplify_ok [OF assms])

theorem simplify_sample_witness:
  "\<exists>w' c'. PCV_OT_filter_simplify ex_bl (\<lambda>n. [0..<n]) ex_world = (Finished, w') \<and>
     dict_get (cache w') ''u1'' = Some c' \<and> length (cloud c') = 2"
proof -
  have "length ex_vs = 3"
    by (simp add: ex_vs_def)
  moreover have "reachable_points 1 2 = 1"
    by code_simp
  ultimately show ?thesis
    using simplify_sample [OF ex_world_ok ex_shuffle(1) ex_arrays, of ex_bl] by fastforce
qed

text \<open>Projecting without colours moves every point that hits the target to the nearer of its
  hits along the normal and against it; the points that hit nothing stay where they are, or go
  when discarding is on; positions and normals are carried to world space and back.\<close>

theorem project_moves_points:
  assumes "world_ok w" "context_arrays w = Inr (n0, p, c, vs, ns, cs)"
    and "fp_object (p_project p) = Some o'" "dict_get (objects w) o' = Some ob" "ob_type ob = ''MESH''"
    and "Option.bind (ci_object c) (dict_get (objects w)) = Some me"
      "bl_inverted bl (ob_matrix_world me) = Inr mi"
    and "\<not> fp_colorize (p_project p)"
    and "t = bl_target bl o' [ob_matrix_world ob]"
  shows "\<exists>w' c'. PCV_OT_filter_project bl paint w = (Finished, w') \<and> world_ok w' \<and>
     dict_get (cache w') (p_uuid p) = Some c' \<and>
     cloud c' = map (\<lambda>x. matrix_point bl mi (projected (p_project p) t x))
       ((if fp_discard (p_project p) then filter (hits (p_project p) t) else id)
          (map (matrix_point bl (ob_matrix_world me)) (cloud c)))"
  by (rule project_ok [OF assms])

theorem project_moves_points_witness:
  "\<exists>w' c'. PCV_OT_filter_project ex_bl (\<lambda>_. undefined) ex_world = (Finished, w') \<and>
     dict_get (cache w') ''u1'' = Some c' \<and> length (cloud c') \<le> 3"
proof -
  have len: "length (cloud ex_item1) = 3"
    by (simp add: cloud_def ex_vs_def ex_ns_def ex_cs_def)
  have "p_project ex_pcv1 = (p_project default_pcv)\<lparr>fp_object := Some ''T'', fp_discard := True\<rparr>"
    by (simp add: ex_pcv1_def)
  then have s: "fp_object (p_project ex_pcv1) = Some ''T''" "fp_discard (p_project ex_pcv1)"
      "\<not> fp_colorize (p_project ex_pcv1)"
    by (simp_all add: default_pcv_def)
  have "length (filter P (map f (cloud ex_item1))) \<le> 3" for P and f :: "point \<Rightarrow> point"
    using length_filter_le [of P "map f (cloud ex_item1)"] len by simp
  then show ?thesis
    using project_moves_points [OF ex_world_ok ex_arrays s(1), of "ex_object default_pcv" "ex_object ex_pcv1"
        ex_bl ex_identity ex_target "\<lambda>_. undefined"] s(2,3)
    by (force simp: ex_bl_def)
qed

end
