(* ===== verification/PCV_Props_Edit.thy ===== *)
theory PCV_Props_Edit
  imports PCV_Examples
begin

text \<open>
  Properties of the edit session, of the shader switches and of the colour adjustment.
\<close>

text \<open>C19: An edit session gives back the edited mesh: after \<open>edit_start\<close>, any change of the
  helper's vertices that keeps their row numbers within the cloud, and \<open>edit_end\<close>, the cloud
  is the list of edited vertices, each with the normal and colour of the point it came from;
  the helper object is gone, the owner is the active object again, and its opacity, display
  percentage and point size are those it had before.\<close>

theorem edit_session_returns_vertices:
  assumes "world_ok w" "context_arrays w = Inr (n0, p, c, vs, ns, cs)"
    and "nm = uniq (dict_keys (objects w)) (edit_mesh_name (p_uuid p))" "nm \<notin> set (dict_keys (objects w))"
    and "ci_ready c" "ci_draw c"
    and "\<forall>(v, i)\<in>set verts. 0 \<le> i \<and> i < int (length vs)"
  shows "\<exists>w1 w2 c'. PCV_OT_edit_start uniq w = (Finished, w1) \<and>
     PCV_OT_edit_end (edit_verts nm verts w1) = (Finished, w2) \<and> world_ok w2 \<and>
     context_object w2 = Some n0 \<and> dict_get (objects w2) nm = None \<and>
     (\<exists>q. get_pcv w2 n0 = Some q \<and> \<not> p_edit_initialized q \<and> p_global_alpha q = p_global_alpha p \<and>
        p_display_percent q = p_display_percent p \<and> p_point_size q = p_point_size p) \<and>
     dict_get (cache w2) (p_uuid p) = Some c' \<and> cloud c' = edited_cloud verts ns cs \<and> ci_draw c'"
  by (rule edit_session_ok [where uniq = uniq, OF assms])

theorem edit_session_returns_vertices_witness:
  "\<exists>w1 w2 c'. PCV_OT_edit_start (\<lambda>_ n. n) ex_world = (Finished, w1) \<and>
     PCV_OT_edit_end (edit_verts ''pcv_edit_mesh_u1'' [((0, 0, 9), 2), ((1, 1, 1), 0)] w1) = (Finished, w2) \<and>
     dict_get (cache w2) ''u1'' = Some c' \<and>
     cloud c' = [((0, 0, 9), (0, 0, 1), (0, 0, 1, 1)), ((1, 1, 1), (0, 0, 1), (0, 0, 0, 1))]"
proof -
  have "edited_cloud [((0, 0, 9), 2), ((1, 1, 1), 0)] ex_ns ex_cs =
      [((0, 0, 9), (0, 0, 1), (0, 0, 1, 1)), ((1, 1, 1), (0, 0, 1), (0, 0, 0, 1))]"
    by (simp add: edited_cloud_def ex_ns_def ex_cs_def)
  moreover have "''pcv_edit_mesh_u1'' = edit_mesh_name (p_uuid ex_pcv1)"
    by (simp add: edit_mesh_name_def)
  moreover have "dict_keys (objects ex_world) = [''A'', ''B'', ''T'']"
    by (simp add: ex_world_def)
  moreover have "length ex_vs = 3"
    by (simp add: ex_vs_def)
  ultimately show ?thesis
    using edit_session_returns_vertices [where uniq = "\<lambda>_ n. n", OF ex_world_ok ex_arrays, of "''pcv_edit_mesh_u1''"
        "[((0, 0, 9), 2), ((1, 1, 1), 0)]"]
    by fastforce
qed

text \<open>Applying the colour adjustment replaces every point's colour by the adjusted one and
  changes no location or normal; the adjustment is neutral and its shader off afterwards.\<close>

theorem color_adjust_applies:
  assumes "world_ok w" "context_arrays w = Inr (n0, p, c, vs, ns, cs)"
    and "ci_ready c" "ci_draw c" "p_flags p Color_adjustment"
  shows "\<exists>w' c'. PCV_OT_color_adjustment_shader_apply bl w = (Finished, w') \<and> world_ok w' \<and>
     dict_get (cache w') (p_uuid p) = Some c' \<and>
     cloud c' = map (\<lambda>(v, n, col). (v, n, adjust_color bl (p_color_adjust p) col)) (cloud c) \<and>
     (\<exists>q. get_pcv w' n0 = Some q \<and> p_color_adjust q = neutral_adjust \<and>
        \<not> p_flags q Color_adjustment \<and> \<not> p_override_default_shader q)"
  by (rule color_adjust_apply_ok [OF assms])

theorem color_adjust_applies_witness:
  "\<exists>w' c'. PCV_OT_color_adjustment_shader_apply ex_bl ex_world = (Finished, w') \<and>
     dict_get (cache w') ''u1'' = Some c' \<and> length (cloud c') = 3"
proof -
  have "length (cloud ex_item1) = 3"
    by (simp add: cloud_def ex_vs_def ex_ns_def ex_cs_def)
  then show ?thesis
    using color_adjust_applies [OF ex_world_ok ex_arrays, of ex_bl] by fastforce
qed


text \<open>Clicking through the thirteen other shaders in any order leaves at most one of them on,
  and the default shader is overridden exactly while one is.\<close>

theorem toggling_keeps_one_shader:
  assumes "Color_adjustment \<notin> set fs"
  shows "one_shader (fold toggle fs default_pcv)"
  using assms default_flags by (intro one_shader_toggles) (simp_all add: one_shader_def)

theorem toggling_keeps_one_shader_witness:
  "one_shader (fold toggle [Phong_shader, Clip_shader, Clip_shader, Billboard] default_pcv)"
  by (rule toggling_keeps_one_shader) simp

text \<open>Resetting the clip planes clears all planes and their switches, but it also turns the
  override of the default shader off while another shader stays on.\<close>

theorem clip_reset_loses_override:
  assumes "context_pcv w = Some (n0, p)" "f \<noteq> Clip_shader" "p_flags p f"
  shows "\<exists>w' q. PCV_OT_clip_planes_reset w = (Finished, w') \<and> get_pcv w' n0 = Some q \<and>
     p_flags q f \<and> \<not> p_override_default_shader q \<and>
     p_clip_planes q = replicate 6 (0, 0, 0, 0) \<and> p_clip_planes_enabled q = replicate 6 False"
  by (rule clip_planes_reset_override [OF assms])

theorem clip_reset_loses_override_witness:
  "\<exists>w' q. PCV_OT_clip_planes_reset ex_world = (Finished, w') \<and> get_pcv w' ''A'' = Some q \<and>
     p_flags q Color_adjustment \<and> \<not> p_override_default_shader q"
  using clip_reset_loses_override [OF ex_context, of Color_adjustment] by auto

end
