(* ===== verification/PCV_Props_Render.thy ===== *)
theory PCV_Props_Render
  imports PCV_Examples
begin

text \<open>
  Properties of rendering to files and of the sequence player.
\<close>

text \<open>Supersampling does not change the size of the saved image: the factor the buffer is
  enlarged by and the division afterwards cancel, both roundings included.\<close>

theorem supersampling_keeps_image_size:
  assumes "0 \<le> rn_resolution_x s" "0 \<le> rn_resolution_y s" "0 \<le> rn_resolution_percentage s"
    and "0 \<le> sc_resolution_x sc" "0 \<le> sc_resolution_y sc" "0 \<le> sc_resolution_percentage sc"
  shows "image_size s (render_size s sc) = render_size (s\<lparr>rn_supersampling := 1\<rparr>) sc"
  by (rule image_size_ok [OF assms])

definition ex_scene :: scene where
  "ex_scene = \<lparr>sc_color_depth = ''16'', sc_file_format = ''JPEG'', sc_color_mode = ''RGB'',
     sc_view_transform = ''Filmic'', sc_look = ''Base'', sc_resolution_x = 1001,
     sc_resolution_y = 667, sc_resolution_percentage = 33, sc_has_camera = True,
     sc_frame_start = 1, sc_frame_end = 2, sc_gl_enabled = False, sc_saved = []\<rparr>"

theorem supersampling_keeps_image_size_witness:
  "image_size ((p_render default_pcv)\<lparr>rn_supersampling := 3\<rparr>)
     (render_size ((p_render default_pcv)\<lparr>rn_supersampling := 3\<rparr>) ex_scene) =
   render_size ((p_render default_pcv)\<lparr>rn_supersampling := 1\<rparr>) ex_scene"
  using supersampling_keeps_image_size [of "(p_render default_pcv)\<lparr>rn_supersampling := 3\<rparr>" ex_scene]
  by (simp add: default_pcv_def ex_scene_def)

text \<open>No frame of an animation overwrites another one's image: with the path that
  \<open>get_output_path\<close> makes of any render path, different frame numbers have different file
  names, whatever number of digits they have.\<close>

theorem frames_have_own_files:
  assumes "n \<noteq> m"
  shows "swap_frame_number (int n) (snd (fst (get_output_path re p))) \<noteq>
     swap_frame_number (int m) (snd (fst (get_output_path re p)))"
  using swap_frame_number_inj [OF get_output_path_hash, of n re p m] assms by blast

definition ex_render_env :: render_env where
  "ex_render_env = \<lparr>re_abspath = id, re_ensure_ext = (\<lambda>p e. p), re_exists = (\<lambda>_. True),
     re_isdir = (\<lambda>_. True), re_depth = (\<lambda>v. snd (snd v)), re_blend_saved = True,
     re_offscreen = (\<lambda>_ _. Inr ()), re_draw = (\<lambda>_. Inr ()), re_save = (\<lambda>_. Inr ())\<rparr>"

theorem frames_have_own_files_witness:
  "swap_frame_number 7 (snd (fst (get_output_path ex_render_env ''/tmp/a#b.png''))) \<noteq>
   swap_frame_number 70 (snd (fst (get_output_path ex_render_env ''/tmp/a#b.png'')))"
  using frames_have_own_files [of 7 70 ex_render_env "''/tmp/a#b.png''"] by simp

text \<open>What is rendered is the displayed part of the cloud, each point with its own normal and
  colour, and with smooth circles the points come back to front, farthest first.\<close>

theorem rendered_points_sorted:
  assumes "render_points re p mw (vs, ns, cs) = (vs', ns', cs')"
    and "length ns = length vs" "length cs = length vs"
  shows "mset (zip vs' (zip ns' cs')) =
       mset (py_take (display_count (length vs) (rn_display_percent (p_render p))) (zip vs (zip ns cs))) \<and>
     (rn_smoothstep (p_render p) \<and> \<not> p_override_default_shader p \<longrightarrow>
       sorted (map (\<lambda>v. re_depth re (mat_apply mw v)) (rev vs')))"
  using render_points_ok [OF assms refl] by blast

theorem rendered_points_sorted_witness:
  "\<exists>vs' ns' cs'. render_points ex_render_env
       (default_pcv\<lparr>p_render := (p_render default_pcv)\<lparr>rn_smoothstep := True\<rparr>\<rparr>) ex_identity
       (ex_vs, ex_ns, ex_cs) = (vs', ns', cs') \<and>
     mset (zip vs' (zip ns' cs')) = mset (zip ex_vs (zip ex_ns ex_cs))"
proof -
  let ?p = "default_pcv\<lparr>p_render := (p_render default_pcv)\<lparr>rn_smoothstep := True\<rparr>\<rparr>"
  obtain vs' ns' cs' where r: "render_points ex_render_env ?p ex_identity (ex_vs, ex_ns, ex_cs) = (vs', ns', cs')"
    by (metis prod_cases3)
  have "length ex_ns = length ex_vs" "length ex_cs = length ex_vs"
    "py_take (display_count (length ex_vs) (rn_display_percent (p_render ?p))) (zip ex_vs (zip ex_ns ex_cs)) =
       zip ex_vs (zip ex_ns ex_cs)"
    by (simp_all add: ex_vs_def ex_ns_def ex_cs_def display_count_def default_pcv_def)
  then show ?thesis
    using r rendered_points_sorted [OF r] by auto
qed

text \<open>A finished render leaves the scene's image settings (depth, format, mode, view transform,
  look) and the GL states as it found them.\<close>

theorem render_restores_settings:
  assumes "PCV_OT_render re st = (Finished, st')"
  shows "same_settings (rs_scene st') (rs_scene st) \<and> \<not> sc_gl_enabled (rs_scene st')"
  using render_finished [OF assms] by blast

theorem render_restores_settings_witness:
  "\<exists>st'. PCV_OT_render ex_render_env \<lparr>rs_world = ex_world, rs_scene = ex_scene\<rparr> = (Finished, st') \<and>
     sc_color_depth (rs_scene st') = ''16'' \<and> sc_file_format (rs_scene st') = ''JPEG''"
proof -
  let ?st = "\<lparr>rs_world = ex_world, rs_scene = ex_scene\<rparr>"
  have u: "context_pcv ex_world = Some (''A'', ex_pcv1)" by (rule ex_context)
  obtain ok path errs where path: "get_output_path ex_render_env (rn_path (p_render ex_pcv1)) = ((ok, path), errs)"
    by (metis surj_pair)
  have ok: "ok" "errs = []"
    using path by (auto simp: get_output_path_def Let_def ex_render_env_def split: prod.splits if_splits)
  have "ci_arrays ex_item1 = Inr (ex_vs, ex_ns, ex_cs)"
    by (simp add: ci_arrays_def)
  then have "\<exists>st'. PCV_OT_render ex_render_env ?st = (Finished, st')"
    using u path ok
    by (simp add: PCV_OT_render_def Let_def ex_scene_def)
      (simp add: ex_render_env_def Let_def)
  then obtain st' where st': "PCV_OT_render ex_render_env ?st = (Finished, st')" ..
  have "same_settings (rs_scene st') ex_scene"
    using render_restores_settings [OF st'] by simp
  then show ?thesis
    using st' by (simp add: same_settings_def ex_scene_def)
qed

text \<open>An animation whose first frame cannot be rendered ends there with an exception and leaves
  the scene at that frame instead of the user's.\<close>

theorem animation_stops_at_error:
  assumes "sc_has_camera (rs_scene st)" "sc_frame_start (rs_scene st) \<le> sc_frame_end (rs_scene st)"
    and "\<not> PCV_OT_render_poll (frame_set (sc_frame_start (rs_scene st)) st)"
  shows "PCV_OT_render_animation re st =
     (Raised (Py_Exception ''RuntimeError''), frame_set (sc_frame_start (rs_scene st)) st)"
  using animation_raises assms by simp

theorem animation_stops_at_error_witness:
  "\<exists>st'. PCV_OT_render_animation ex_render_env
       \<lparr>rs_world = ex_world\<lparr>context_object := None, frame_current := 9\<rparr>, rs_scene = ex_scene\<rparr> =
     (Raised (Py_Exception ''RuntimeError''), st') \<and> frame_current (rs_world st') = 1"
  by (subst animation_stops_at_error)
    (simp_all add: ex_scene_def PCV_OT_render_poll_def context_pcv_def frame_set_def
      PCVSequence_handler_def ex_world_def)

text \<open>A cyclic sequence shows frame after frame and starts again: at scene frame \<open>f\<close> the handler
  stores the points of loaded frame \<open>(f - 1) mod n\<close>, for negative scene frames, too.\<close>

theorem sequence_shows_cyclic_frame:
  assumes "seq_cache w = [(k, v)]" "get_pcv w (si_owner v) = Some p" "p_uuid p = k"
    and "p_sequence_use_cyclic p" "si_data v \<noteq> []"
  shows "PCVSequence_handler w =
     show_frame k (si_data v ! nat ((frame_current w - 1) mod int (length (si_data v)))) (PCVManager_init w)"
  by (rule handler_cyclic [OF assms])

definition ex_frame :: "nat \<Rightarrow> v3 \<Rightarrow> seq_frame" where
  "ex_frame i v = \<lparr>sf_index = i, sf_vs = [v], sf_ns = None, sf_cs = None\<rparr>"

definition ex_seq_world :: world where
  "ex_seq_world = ex_world\<lparr>frame_current := -1, seq_initialized := True, frame_change_post := 1,
     seq_cache := [(''u1'', \<lparr>si_data = [ex_frame 1 (1, 0, 0), ex_frame 2 (2, 0, 0), ex_frame 3 (3, 0, 0)],
       si_uuid = ''u1'', si_owner = ''A''\<rparr>)]\<rparr>"

theorem sequence_shows_cyclic_frame_witness:
  "PCVSequence_handler ex_seq_world = show_frame ''u1'' (ex_frame 2 (2, 0, 0)) (PCVManager_init ex_seq_world)"
proof -
  have "p_sequence_use_cyclic ex_pcv1" by (simp add: ex_pcv1_def default_pcv_def)
  then show ?thesis
    using sequence_shows_cyclic_frame [of ex_seq_world "''u1''" "snd (hd (seq_cache ex_seq_world))" ex_pcv1]
    by (simp add: ex_seq_world_def get_pcv_def)
qed

text \<open>The files of a sequence are exactly the PLY files of the directory with the chosen file's
  prefix and suffix around their last number; the frames kept are those of the readable ones
  in the order of the numbers, with no gap left for a missing number.\<close>

theorem sequence_frames_have_no_gaps:
  assumes "load_frames ev dir xs w = (Some fs, w')"
  shows "map sf_index fs = map fst (filter (\<lambda>(i, n). loadable ev dir n) (map the (filter (\<lambda>x. x \<noteq> None) xs))) \<and>
     (\<forall>i n. (i, n) \<in> set (sequence_selection prefix suffix files) \<longleftrightarrow>
        n \<in> set files \<and> ends_ply n \<and>
        (\<exists>digits. last_number n = Some (prefix, digits, suffix) \<and> i = digits_val 0 digits))"
  using load_frames_index [OF assms] selection_facts by blast

theorem sequence_frames_have_no_gaps_witness:
  "\<exists>fs w'. load_frames ex_env '''' [Some (1, ''a.ply''), None, Some (3, ''a.ply'')] ex_world = (Some fs, w') \<and>
     map sf_index fs = [1, 3]"
proof -
  have j: "path_join '''' ''a.ply'' = ''a.ply''" by code_simp
  have rows: "pa_rows ex_array \<noteq> []" "has_fields xyz ex_array"
    by (simp_all add: ex_array_def has_fields_def pa_names_def xyz_def)
  have "\<exists>fs w'. load_frames ex_env '''' [Some (1, ''a.ply''), None, Some (3, ''a.ply'')] ex_world = (Some fs, w')"
    using rows by (simp add: j ex_reader Let_def)
  moreover have "loadable ex_env '''' ''a.ply''"
    using rows by (simp add: loadable_def j ex_reader)
  ultimately show ?thesis
    using sequence_frames_have_no_gaps by fastforce
qed

end
