(* ===== verification/PCV_Uniforms.thy ===== *)
theory PCV_Uniforms
  imports PCV_Extra
begin

text \<open>
  What the shaders of \<open>PCVShaders\<close> declare, and what \<open>PCVManager.render\<close> gives them before it draws:
  for every block of \<open>render\<close> the attributes of its batch and the values of its uniforms. Blender
  raises an error for a uniform that the shader does not have, and leaves one that is not set at
  whatever it was. The GLSL code itself is in \<open>PCV_GLSL\<close>; Blender's view and object matrices are parameters.
\<close>

section \<open>The declarations of the shaders\<close>

datatype glsl_type = T_float | T_int | T_vec3 | T_vec4 | T_mat4

record source =
  attributes :: "(string \<times> glsl_type) list"
  uniforms :: "(string \<times> glsl_type) list"

definition no_declarations :: source where
  "no_declarations = \<lparr>attributes = [], uniforms = []\<rparr>"

definition vertex_shader_illumination :: source where
  "vertex_shader_illumination = \<lparr>attributes = [(''position'', T_vec3), (''normal'', T_vec3),
       (''color'', T_vec4)],
     uniforms = [(''light_direction'', T_vec3), (''light_intensity'', T_vec3), (''shadow_direction'',
       T_vec3), (''shadow_intensity'', T_vec3), (''perspective_matrix'', T_mat4), (''object_matrix'',
       T_mat4), (''point_size'', T_float), (''alpha_radius'', T_float), (''global_alpha'',
       T_float)]\<rparr>"

definition vertex_shader_simple :: source where
  "vertex_shader_simple = \<lparr>attributes = [(''position'', T_vec3), (''color'', T_vec4)],
     uniforms = [(''perspective_matrix'', T_mat4), (''object_matrix'', T_mat4), (''point_size'', T_float),
       (''alpha_radius'', T_float), (''global_alpha'', T_float)]\<rparr>"

definition normals_vertex_shader :: source where
  "normals_vertex_shader = \<lparr>attributes = [(''position'', T_vec3), (''normal'', T_vec3)],
     uniforms = []\<rparr>"

definition normals_fragment_shader :: source where
  "normals_fragment_shader = \<lparr>attributes = [],
     uniforms = [(''global_alpha'', T_float)]\<rparr>"

definition normals_geometry_shader :: source where
  "normals_geometry_shader = \<lparr>attributes = [],
     uniforms = [(''perspective_matrix'', T_mat4), (''object_matrix'', T_mat4), (''length'', T_float),
       (''color'', T_vec4)]\<rparr>"

definition depth_vertex_shader_simple :: source where
  "depth_vertex_shader_simple = \<lparr>attributes = [(''position'', T_vec3)],
     uniforms = [(''perspective_matrix'', T_mat4), (''object_matrix'', T_mat4), (''center'', T_vec3),
       (''point_size'', T_float), (''maxdist'', T_float)]\<rparr>"

definition depth_fragment_shader_simple :: source where
  "depth_fragment_shader_simple = \<lparr>attributes = [],
     uniforms = [(''brightness'', T_float), (''contrast'', T_float), (''alpha_radius'', T_float),
       (''global_alpha'', T_float)]\<rparr>"

definition selection_vertex_shader :: source where
  "selection_vertex_shader = \<lparr>attributes = [(''position'', T_vec3)],
     uniforms = [(''perspective_matrix'', T_mat4), (''object_matrix'', T_mat4), (''point_size'',
       T_float)]\<rparr>"

definition selection_fragment_shader :: source where
  "selection_fragment_shader = \<lparr>attributes = [],
     uniforms = [(''color'', T_vec4), (''alpha_radius'', T_float)]\<rparr>"

definition normal_colors_vertex_shader :: source where
  "normal_colors_vertex_shader = \<lparr>attributes = [(''position'', T_vec3), (''normal'', T_vec3)],
     uniforms = [(''perspective_matrix'', T_mat4), (''object_matrix'', T_mat4), (''point_size'',
       T_float)]\<rparr>"

definition normal_colors_fragment_shader :: source where
  "normal_colors_fragment_shader = \<lparr>attributes = [],
     uniforms = [(''alpha_radius'', T_float), (''global_alpha'', T_float)]\<rparr>"

definition depth_vertex_shader_illumination :: source where
  "depth_vertex_shader_illumination = \<lparr>attributes = [(''position'', T_vec3), (''normal'', T_vec3)],
     uniforms = [(''perspective_matrix'', T_mat4), (''object_matrix'', T_mat4), (''center'', T_vec3),
       (''point_size'', T_float), (''maxdist'', T_float), (''light_direction'', T_vec3),
       (''light_intensity'', T_vec3), (''shadow_direction'', T_vec3), (''shadow_intensity'',
       T_vec3)]\<rparr>"

definition depth_fragment_shader_illumination :: source where
  "depth_fragment_shader_illumination = \<lparr>attributes = [],
     uniforms = [(''alpha_radius'', T_float), (''global_alpha'', T_float), (''brightness'', T_float),
       (''contrast'', T_float), (''color_a'', T_vec3), (''color_b'', T_vec3)]\<rparr>"

definition depth_vertex_shader_false_colors :: source where
  "depth_vertex_shader_false_colors = \<lparr>attributes = [(''position'', T_vec3)],
     uniforms = [(''perspective_matrix'', T_mat4), (''object_matrix'', T_mat4), (''center'', T_vec3),
       (''point_size'', T_float), (''maxdist'', T_float)]\<rparr>"

definition depth_fragment_shader_false_colors :: source where
  "depth_fragment_shader_false_colors = \<lparr>attributes = [],
     uniforms = [(''alpha_radius'', T_float), (''global_alpha'', T_float), (''brightness'', T_float),
       (''contrast'', T_float), (''color_a'', T_vec3), (''color_b'', T_vec3)]\<rparr>"

definition position_colors_vertex_shader :: source where
  "position_colors_vertex_shader = \<lparr>attributes = [(''position'', T_vec3)],
     uniforms = [(''perspective_matrix'', T_mat4), (''object_matrix'', T_mat4), (''point_size'',
       T_float)]\<rparr>"

definition position_colors_fragment_shader :: source where
  "position_colors_fragment_shader = \<lparr>attributes = [],
     uniforms = [(''alpha_radius'', T_float), (''global_alpha'', T_float)]\<rparr>"

definition bbox_vertex_shader :: source where
  "bbox_vertex_shader = \<lparr>attributes = [(''position'', T_vec3)],
     uniforms = []\<rparr>"

definition bbox_fragment_shader :: source where
  "bbox_fragment_shader = \<lparr>attributes = [],
     uniforms = [(''global_alpha'', T_float)]\<rparr>"

definition bbox_geometry_shader :: source where
  "bbox_geometry_shader = \<lparr>attributes = [],
     uniforms = [(''perspective_matrix'', T_mat4), (''object_matrix'', T_mat4), (''color'', T_vec4),
       (''length'', T_float), (''center'', T_vec3), (''dimensions'', T_vec3)]\<rparr>"

definition vertex_shader_color_adjustment :: source where
  "vertex_shader_color_adjustment = \<lparr>attributes = [(''position'', T_vec3), (''color'', T_vec4)],
     uniforms = [(''perspective_matrix'', T_mat4), (''object_matrix'', T_mat4), (''point_size'', T_float),
       (''alpha_radius'', T_float), (''global_alpha'', T_float), (''exposure'', T_float), (''gamma'',
       T_float), (''brightness'', T_float), (''contrast'', T_float), (''hue'', T_float), (''saturation'',
       T_float), (''value'', T_float), (''invert'', T_float)]\<rparr>"

definition vertex_shader_simple_render_smooth :: source where
  "vertex_shader_simple_render_smooth = \<lparr>attributes = [(''position'', T_vec3), (''color'', T_vec4)],
     uniforms = [(''perspective_matrix'', T_mat4), (''object_matrix'', T_mat4), (''point_size'', T_float),
       (''alpha_radius'', T_float), (''global_alpha'', T_float)]\<rparr>"

definition vertex_shader_illumination_render_smooth :: source where
  "vertex_shader_illumination_render_smooth = \<lparr>attributes = [(''position'', T_vec3), (''normal'',
       T_vec3), (''color'', T_vec4)],
     uniforms = [(''light_direction'', T_vec3), (''light_intensity'', T_vec3), (''shadow_direction'',
       T_vec3), (''shadow_intensity'', T_vec3), (''perspective_matrix'', T_mat4), (''object_matrix'',
       T_mat4), (''point_size'', T_float), (''alpha_radius'', T_float), (''global_alpha'',
       T_float)]\<rparr>"

definition vertex_shader_minimal :: source where
  "vertex_shader_minimal = \<lparr>attributes = [(''position'', T_vec3), (''color'', T_vec4)],
     uniforms = [(''perspective_matrix'', T_mat4), (''object_matrix'', T_mat4), (''point_size'', T_float),
       (''global_alpha'', T_float)]\<rparr>"

definition vertex_shader_minimal_variable_size :: source where
  "vertex_shader_minimal_variable_size = \<lparr>attributes = [(''position'', T_vec3), (''color'', T_vec4),
       (''size'', T_int)],
     uniforms = [(''perspective_matrix'', T_mat4), (''object_matrix'', T_mat4), (''global_alpha'',
       T_float)]\<rparr>"

definition vertex_shader_minimal_variable_size_and_depth :: source where
  "vertex_shader_minimal_variable_size_and_depth = \<lparr>attributes = [(''position'', T_vec3), (''color'',
       T_vec4), (''size'', T_int)],
     uniforms = [(''perspective_matrix'', T_mat4), (''object_matrix'', T_mat4), (''global_alpha'', T_float),
       (''center'', T_vec3), (''maxdist'', T_float)]\<rparr>"

definition fragment_shader_minimal_variable_size_and_depth :: source where
  "fragment_shader_minimal_variable_size_and_depth = \<lparr>attributes = [],
     uniforms = [(''brightness'', T_float), (''contrast'', T_float), (''blend'', T_float)]\<rparr>"

definition billboard_vertex :: source where
  "billboard_vertex = \<lparr>attributes = [(''position'', T_vec3), (''color'', T_vec4)],
     uniforms = [(''object_matrix'', T_mat4), (''alpha'', T_float)]\<rparr>"

definition billboard_geometry :: source where
  "billboard_geometry = \<lparr>attributes = [],
     uniforms = [(''view_matrix'', T_mat4), (''window_matrix'', T_mat4), (''size'', T_float)]\<rparr>"

definition billboard_geometry_disc :: source where
  "billboard_geometry_disc = \<lparr>attributes = [],
     uniforms = [(''view_matrix'', T_mat4), (''window_matrix'', T_mat4), (''size'', T_float)]\<rparr>"

definition billboard_vertex_with_depth_and_size :: source where
  "billboard_vertex_with_depth_and_size = \<lparr>attributes = [(''position'', T_vec3), (''color'', T_vec4),
       (''sizef'', T_float)],
     uniforms = [(''object_matrix'', T_mat4), (''perspective_matrix'', T_mat4), (''alpha'', T_float),
       (''center'', T_vec3), (''maxdist'', T_float)]\<rparr>"

definition billboard_fragment_with_depth_and_size :: source where
  "billboard_fragment_with_depth_and_size = \<lparr>attributes = [],
     uniforms = [(''brightness'', T_float), (''contrast'', T_float), (''blend'', T_float)]\<rparr>"

definition billboard_geometry_with_depth_and_size :: source where
  "billboard_geometry_with_depth_and_size = \<lparr>attributes = [],
     uniforms = [(''view_matrix'', T_mat4), (''window_matrix'', T_mat4), (''size'', T_float)]\<rparr>"

definition phong_vs :: source where
  "phong_vs = \<lparr>attributes = [(''position'', T_vec3), (''normal'', T_vec3), (''color'', T_vec4)],
     uniforms = [(''model'', T_mat4), (''view'', T_mat4), (''projection'', T_mat4), (''point_size'',
       T_float), (''alpha_radius'', T_float)]\<rparr>"

definition phong_fs :: source where
  "phong_fs = \<lparr>attributes = [],
     uniforms = [(''alpha'', T_float), (''light_position'', T_vec3), (''light_color'', T_vec3),
       (''view_position'', T_vec3), (''ambient_strength'', T_float), (''specular_strength'', T_float),
       (''specular_exponent'', T_float)]\<rparr>"

definition billboard_vertex_with_no_depth_and_size :: source where
  "billboard_vertex_with_no_depth_and_size = \<lparr>attributes = [(''position'', T_vec3), (''color'',
       T_vec4), (''sizef'', T_float)],
     uniforms = [(''object_matrix'', T_mat4), (''alpha'', T_float)]\<rparr>"

definition billboard_geometry_with_no_depth_and_size :: source where
  "billboard_geometry_with_no_depth_and_size = \<lparr>attributes = [],
     uniforms = [(''view_matrix'', T_mat4), (''window_matrix'', T_mat4), (''size'', T_float)]\<rparr>"

definition vertex_shader_simple_clip :: source where
  "vertex_shader_simple_clip = \<lparr>attributes = [(''position'', T_vec3), (''color'', T_vec4)],
     uniforms = [(''perspective_matrix'', T_mat4), (''object_matrix'', T_mat4), (''point_size'', T_float),
       (''alpha_radius'', T_float), (''global_alpha'', T_float), (''clip_plane0'', T_vec4),
       (''clip_plane1'', T_vec4), (''clip_plane2'', T_vec4), (''clip_plane3'', T_vec4), (''clip_plane4'',
       T_vec4), (''clip_plane5'', T_vec4)]\<rparr>"

definition billboard_phong_vs :: source where
  "billboard_phong_vs = \<lparr>attributes = [(''position'', T_vec3), (''normal'', T_vec3), (''color'',
       T_vec4)],
     uniforms = [(''model'', T_mat4)]\<rparr>"

definition billboard_phong_circles_gs :: source where
  "billboard_phong_circles_gs = \<lparr>attributes = [],
     uniforms = [(''view_matrix'', T_mat4), (''window_matrix'', T_mat4), (''size'', T_float)]\<rparr>"

definition billboard_phong_fast_gs :: source where
  "billboard_phong_fast_gs = \<lparr>attributes = [],
     uniforms = [(''view_matrix'', T_mat4), (''window_matrix'', T_mat4), (''size'', T_float)]\<rparr>"

definition billboard_phong_fs :: source where
  "billboard_phong_fs = \<lparr>attributes = [],
     uniforms = [(''alpha'', T_float), (''light_position'', T_vec3), (''light_color'', T_vec3),
       (''view_position'', T_vec3), (''ambient_strength'', T_float), (''specular_strength'', T_float),
       (''specular_exponent'', T_float)]\<rparr>"

definition vertex_shader_simple_skip_point_vertices :: source where
  "vertex_shader_simple_skip_point_vertices = \<lparr>attributes = [(''position'', T_vec3), (''color'',
       T_vec4), (''index'', T_int)],
     uniforms = [(''perspective_matrix'', T_mat4), (''object_matrix'', T_mat4), (''point_size'', T_float),
       (''alpha_radius'', T_float), (''global_alpha'', T_float), (''skip_index'', T_float)]\<rparr>"

definition shader_sources :: "(string \<times> source) list" where
  "shader_sources = [(''vertex_shader_illumination'', vertex_shader_illumination),
     (''fragment_shader_illumination'', no_declarations), (''vertex_shader_simple'', vertex_shader_simple),
     (''fragment_shader_simple'', no_declarations), (''normals_vertex_shader'', normals_vertex_shader),
     (''normals_fragment_shader'', normals_fragment_shader), (''normals_geometry_shader'',
     normals_geometry_shader), (''depth_vertex_shader_simple'', depth_vertex_shader_simple),
     (''depth_fragment_shader_simple'', depth_fragment_shader_simple), (''selection_vertex_shader'',
     selection_vertex_shader), (''selection_fragment_shader'', selection_fragment_shader),
     (''normal_colors_vertex_shader'', normal_colors_vertex_shader), (''normal_colors_fragment_shader'',
     normal_colors_fragment_shader), (''depth_vertex_shader_illumination'',
     depth_vertex_shader_illumination), (''depth_fragment_shader_illumination'',
     depth_fragment_shader_illumination), (''depth_vertex_shader_false_colors'',
     depth_vertex_shader_false_colors), (''depth_fragment_shader_false_colors'',
     depth_fragment_shader_false_colors), (''position_colors_vertex_shader'',
     position_colors_vertex_shader), (''position_colors_fragment_shader'', position_colors_fragment_shader),
     (''bbox_vertex_shader'', bbox_vertex_shader), (''bbox_fragment_shader'', bbox_fragment_shader),
     (''bbox_geometry_shader'', bbox_geometry_shader), (''vertex_shader_color_adjustment'',
     vertex_shader_color_adjustment), (''fragment_shader_color_adjustment'', no_declarations),
     (''vertex_shader_simple_render_smooth'', vertex_shader_simple_render_smooth),
     (''fragment_shader_simple_render_smooth'', no_declarations),
     (''vertex_shader_illumination_render_smooth'', vertex_shader_illumination_render_smooth),
     (''fragment_shader_illumination_render_smooth'', no_declarations), (''vertex_shader_minimal'',
     vertex_shader_minimal), (''fragment_shader_minimal'', no_declarations),
     (''vertex_shader_minimal_variable_size'', vertex_shader_minimal_variable_size),
     (''fragment_shader_minimal_variable_size'', no_declarations),
     (''vertex_shader_minimal_variable_size_and_depth'', vertex_shader_minimal_variable_size_and_depth),
     (''fragment_shader_minimal_variable_size_and_depth'', fragment_shader_minimal_variable_size_and_depth),
     (''billboard_vertex'', billboard_vertex), (''billboard_fragment'', no_declarations),
     (''billboard_geometry'', billboard_geometry), (''billboard_geometry_disc'', billboard_geometry_disc),
     (''billboard_vertex_with_depth_and_size'', billboard_vertex_with_depth_and_size),
     (''billboard_fragment_with_depth_and_size'', billboard_fragment_with_depth_and_size),
     (''billboard_geometry_with_depth_and_size'', billboard_geometry_with_depth_and_size), (''phong_vs'',
     phong_vs), (''phong_fs'', phong_fs), (''billboard_vertex_with_no_depth_and_size'',
     billboard_vertex_with_no_depth_and_size), (''billboard_fragment_with_no_depth_and_size'',
     no_declarations), (''billboard_geometry_with_no_depth_and_size'',
     billboard_geometry_with_no_depth_and_size), (''vertex_shader_simple_clip'', vertex_shader_simple_clip),
     (''fragment_shader_simple_clip'', no_declarations), (''billboard_phong_vs'', billboard_phong_vs),
     (''billboard_phong_circles_gs'', billboard_phong_circles_gs), (''billboard_phong_fast_gs'',
     billboard_phong_fast_gs), (''billboard_phong_fs'', billboard_phong_fs),
     (''vertex_shader_simple_skip_point_vertices'', vertex_shader_simple_skip_point_vertices),
     (''fragment_shader_simple_skip_point_vertices'', no_declarations)]"

text \<open>A shader is made of a vertex, maybe a geometry and a fragment source.\<close>

definition source_names :: "shader \<Rightarrow> string list" where
  "source_names s =
     (let v = takeWhile (\<lambda>c. c \<noteq> CHR ''+'') (fst s); g = drop (Suc (length v)) (fst s)
      in [v] @ (if g = [] then [] else [g]) @ [snd s])"

definition shader_parts :: "shader \<Rightarrow> source list option" where
  "shader_parts s = those (map (map_of shader_sources) (source_names s))"

definition declared_uniforms :: "shader \<Rightarrow> (string \<times> glsl_type) list option" where
  "declared_uniforms s = map_option (\<lambda>ps. concat (map uniforms ps)) (shader_parts s)"

definition declared_attributes :: "shader \<Rightarrow> (string \<times> glsl_type) list option" where
  "declared_attributes s = map_option (\<lambda>ps. concat (map attributes ps)) (shader_parts s)"

section \<open>Values\<close>

datatype uval = U_float real | U_vec3 v3 | U_vec4 v4 | U_mat4 mat4

definition uval_type :: "uval \<Rightarrow> glsl_type" where
  "uval_type u = (case u of U_float _ \<Rightarrow> T_float | U_vec3 _ \<Rightarrow> T_vec3 | U_vec4 _ \<Rightarrow> T_vec4 | U_mat4 _ \<Rightarrow> T_mat4)"

type_synonym uniform_values = "(string \<times> uval) list"

text \<open>The settings of the shaders.\<close>

record shader_settings =
  us_alpha_radius :: real
  us_normals_size :: real
  us_normals_alpha :: real
  us_light_direction :: v3
  us_light_intensity :: real
  us_shadow_intensity :: real
  us_depth_brightness :: real
  us_depth_contrast :: real
  us_depth_color_a :: v3
  us_depth_color_b :: v3
  us_bbox_color :: v3
  us_bbox_alpha :: real
  us_selection_color :: v4
  us_minimal_brightness :: real
  us_minimal_contrast :: real
  us_minimal_blend :: real
  us_billboard_size :: real
  us_rich_size :: real
  us_rich_brightness :: real
  us_rich_contrast :: real
  us_rich_blend :: real
  us_phong_ambient :: real
  us_phong_specular :: real
  us_phong_exponent :: real
  us_billboard_phong_size :: real
  us_billboard_phong_ambient :: real
  us_billboard_phong_specular :: real
  us_billboard_phong_exponent :: real
  us_skip_percentage :: real
  us_normal_color :: v3

text \<open>
  What Blender's matrices say: the three matrices of the view, the place of the eye, the object's
  matrix, the length of its scale, and its inverse rotation.
\<close>

record view =
  vw_perspective :: mat4
  vw_view :: mat4
  vw_window :: mat4
  vw_eye :: v3
  vw_object :: mat4
  vw_scale :: real
  vw_unrotate :: "v3 \<Rightarrow> v3"

definition neg3 :: "v3 \<Rightarrow> v3" where "neg3 v = (case v of (x, y, z) \<Rightarrow> (- x, - y, - z))"

definition light_uniforms :: "shader_settings \<Rightarrow> view \<Rightarrow> uniform_values" where
  "light_uniforms us vw =
     (let direction = vw_unrotate vw (case us_light_direction us of (x, y, z) \<Rightarrow> (- x, z, - y));
          c = us_light_intensity us; d = us_shadow_intensity us
      in [(''light_direction'', U_vec3 direction), (''light_intensity'', U_vec3 (c, c, c)),
          (''shadow_direction'', U_vec3 (neg3 direction)), (''shadow_intensity'', U_vec3 (d, d, d))])"

definition mean :: "real list \<Rightarrow> real" where
  "mean xs = sum_list xs / real (length xs)"

definition cloud_center :: "v3 list \<Rightarrow> v3" where
  "cloud_center vs = (mean (map fst vs), mean (map (fst \<circ> snd) vs), mean (map (snd \<circ> snd) vs))"

text \<open>
  The largest coordinate times the scale, and the centre. The shaders with sizes take 1 and the origin for
  an empty cloud, but multiply by the display length, as its name is reused for the scale.
\<close>

definition depth_uniforms :: "view \<Rightarrow> v3 list \<Rightarrow> uniform_values" where
  "depth_uniforms vw vs =
     [(''maxdist'', U_float ((case depth_range vs of Inl _ \<Rightarrow> 0 | Inr m \<Rightarrow> m) * vw_scale vw)),
      (''center'', U_vec3 (cloud_center vs))]"

definition sized_depth_uniforms :: "view \<Rightarrow> int \<Rightarrow> v3 list \<Rightarrow> uniform_values" where
  "sized_depth_uniforms vw l vs =
     (if vs = [] then [(''maxdist'', U_float (1 * real_of_int l)), (''center'', U_vec3 (0, 0, 0))]
      else depth_uniforms vw vs)"

definition skip_index :: "real \<Rightarrow> nat \<Rightarrow> int" where
  "skip_index sp n = (if sp \<ge> 99 then int n else py_int (real n / 100 * sp))"

section \<open>The blocks of render\<close>

datatype block =
  B_vertex_normals | B_depth | B_normal_colors | B_position_colors | B_selection | B_color_adjustment | B_bbox
| B_minimal | B_minimal_variable_size | B_minimal_variable_size_and_depth | B_billboard | B_rich_billboard
| B_rich_billboard_no_depth | B_phong | B_clip | B_billboard_phong | B_skip

definition all_blocks :: "block list" where
  "all_blocks = [B_vertex_normals, B_depth, B_normal_colors, B_position_colors, B_selection, B_color_adjustment, B_bbox,
     B_minimal, B_minimal_variable_size, B_minimal_variable_size_and_depth, B_billboard, B_rich_billboard,
     B_rich_billboard_no_depth, B_phong, B_clip, B_billboard_phong, B_skip]"

definition block_on :: "pcv \<Rightarrow> block \<Rightarrow> bool" where
  "block_on p b =
     (case b of
        B_vertex_normals \<Rightarrow> ds_vertex_normals (p_display p) \<and> p_has_normals p
      | B_depth \<Rightarrow> p_flags p Dev_depth
      | B_normal_colors \<Rightarrow> p_flags p Dev_normal_colors
      | B_position_colors \<Rightarrow> p_flags p Dev_position_colors
      | B_selection \<Rightarrow> ds_selection (p_display p)
      | B_color_adjustment \<Rightarrow> p_flags p Color_adjustment
      | B_bbox \<Rightarrow> ds_bbox (p_display p)
      | B_minimal \<Rightarrow> p_flags p Minimal_shader
      | B_minimal_variable_size \<Rightarrow> p_flags p Minimal_variable_size
      | B_minimal_variable_size_and_depth \<Rightarrow> p_flags p Minimal_variable_size_and_depth
      | B_billboard \<Rightarrow> p_flags p Billboard
      | B_rich_billboard \<Rightarrow> p_flags p Rich_billboard
      | B_rich_billboard_no_depth \<Rightarrow> p_flags p Rich_billboard_no_depth
      | B_phong \<Rightarrow> p_flags p Phong_shader
      | B_clip \<Rightarrow> p_flags p Clip_shader
      | B_billboard_phong \<Rightarrow> p_flags p Billboard_phong
      | B_skip \<Rightarrow> p_flags p Skip_point)"

text \<open>The keys of the dict that a block's batch is made from.\<close>

definition block_attributes :: "pcv \<Rightarrow> block \<Rightarrow> string list" where
  "block_attributes p b =
     (case b of
        B_vertex_normals \<Rightarrow> [''position'', ''normal'']
      | B_depth \<Rightarrow> (if p_illumination p then [''position'', ''normal''] else [''position''])
      | B_normal_colors \<Rightarrow> [''position'', ''normal'']
      | B_position_colors \<Rightarrow> [''position'']
      | B_selection \<Rightarrow> [''position'']
      | B_bbox \<Rightarrow> [''position'']
      | B_minimal_variable_size \<Rightarrow> [''position'', ''color'', ''size'']
      | B_minimal_variable_size_and_depth \<Rightarrow> [''position'', ''color'', ''size'']
      | B_rich_billboard \<Rightarrow> [''position'', ''color'', ''sizef'']
      | B_rich_billboard_no_depth \<Rightarrow> [''position'', ''color'', ''sizef'']
      | B_phong \<Rightarrow> [''position'', ''normal'', ''color'']
      | B_billboard_phong \<Rightarrow> [''position'', ''normal'', ''color'']
      | B_skip \<Rightarrow> [''position'', ''color'', ''index'']
      | _ \<Rightarrow> [''position'', ''color''])"

definition phong_uniforms :: "view \<Rightarrow> real \<Rightarrow> real \<Rightarrow> real \<Rightarrow> uniform_values" where
  "phong_uniforms vw ambient specular exponent =
     [(''light_position'', U_vec3 (vw_eye vw)), (''light_color'', U_vec3 (8 / 10, 8 / 10, 8 / 10)),
      (''view_position'', U_vec3 (vw_eye vw)), (''ambient_strength'', U_float ambient),
      (''specular_strength'', U_float specular), (''specular_exponent'', U_float exponent)]"

definition clip_uniforms :: "v4 list \<Rightarrow> uniform_values" where
  "clip_uniforms planes =
     map (\<lambda>(n, i). (n, U_vec4 (planes ! i)))
       (zip [''clip_plane0'', ''clip_plane1'', ''clip_plane2'', ''clip_plane3'', ''clip_plane4'', ''clip_plane5''] [0..<6])"

text \<open>Uniforms that many blocks share.\<close>

definition place :: "view \<Rightarrow> uniform_values" where
  "place vw = [(''perspective_matrix'', U_mat4 (vw_perspective vw)), (''object_matrix'', U_mat4 (vw_object vw))]"

definition screen :: "view \<Rightarrow> uniform_values" where
  "screen vw = [(''view_matrix'', U_mat4 (vw_view vw)), (''window_matrix'', U_mat4 (vw_window vw))]"

definition points :: "shader_settings \<Rightarrow> pcv \<Rightarrow> uniform_values" where
  "points us p = [(''point_size'', U_float (real_of_int (p_point_size p))), (''alpha_radius'', U_float (us_alpha_radius us)),
     (''global_alpha'', U_float (p_global_alpha p))]"

definition adjust :: "real \<Rightarrow> real \<Rightarrow> uniform_values" where
  "adjust brightness contrast = [(''brightness'', U_float brightness), (''contrast'', U_float contrast)]"

text \<open>The points themselves: they are lit when the batch was made for it, too.\<close>

definition uniforms_default :: "shader_settings \<Rightarrow> view \<Rightarrow> pcv \<Rightarrow> bool \<Rightarrow> uniform_values" where
  "uniforms_default us vw p illuminated =
     place vw @ points us p @
     (if p_illumination p \<and> p_has_normals p \<and> illuminated then light_uniforms us vw else [])"

text \<open>The uniforms of the single blocks.\<close>

definition uniforms_vertex_normals :: "shader_settings \<Rightarrow> view \<Rightarrow> pcv \<Rightarrow> uniform_values" where
  "uniforms_vertex_normals us vw p =
     place vw @ [(''color'', U_vec4 (case us_normal_color us of (r, g, b) \<Rightarrow>
       (r powr (1 / 2.2), g powr (1 / 2.2), b powr (1 / 2.2), us_normals_alpha us))),
     (''length'', U_float (us_normals_size us))] @ [(''global_alpha'', U_float (p_global_alpha p))]"

definition uniforms_depth :: "shader_settings \<Rightarrow> view \<Rightarrow> pcv \<Rightarrow> v3 list \<Rightarrow> uniform_values" where
  "uniforms_depth us vw p vs =
     place vw @ depth_uniforms vw vs @ adjust (us_depth_brightness us) (us_depth_contrast us) @ points us p @
     (if p_illumination p
      then light_uniforms us vw @
           (if p_dev_depth_false_colors p
            then [(''color_a'', U_vec3 (us_depth_color_a us)), (''color_b'', U_vec3 (us_depth_color_b us))]
            else [(''color_a'', U_vec3 (1, 1, 1)), (''color_b'', U_vec3 (0, 0, 0))])
      else (if p_dev_depth_false_colors p
            then [(''color_a'', U_vec3 (us_depth_color_a us)), (''color_b'', U_vec3 (us_depth_color_b us))]
            else []))"

definition uniforms_normal_colors :: "shader_settings \<Rightarrow> view \<Rightarrow> pcv \<Rightarrow> uniform_values" where
  "uniforms_normal_colors us vw p =
     place vw @ points us p"

definition uniforms_position_colors :: "shader_settings \<Rightarrow> view \<Rightarrow> pcv \<Rightarrow> uniform_values" where
  "uniforms_position_colors us vw p =
     place vw @ points us p"

definition uniforms_selection :: "shader_settings \<Rightarrow> view \<Rightarrow> pcv \<Rightarrow> uniform_values" where
  "uniforms_selection us vw p =
     place vw @ [(''color'', U_vec4 (us_selection_color us))] @
     [(''point_size'', U_float (real_of_int (p_point_size p)))] @ [(''alpha_radius'', U_float (us_alpha_radius us))]"

definition uniforms_color_adjustment :: "shader_settings \<Rightarrow> view \<Rightarrow> pcv \<Rightarrow> uniform_values" where
  "uniforms_color_adjustment us vw p =
     (let a = p_color_adjust p
     in place vw @ points us p @
        [(''exposure'', U_float (ca_exposure a)), (''gamma'', U_float (ca_gamma a))] @
        adjust (ca_brightness a) (ca_contrast a) @
        [(''hue'', U_float (ca_hue a)), (''saturation'', U_float (ca_saturation a)),
         (''value'', U_float (ca_value a)), (''invert'', U_float (of_bool (ca_invert a)))])"

definition uniforms_bbox :: "shader_settings \<Rightarrow> view \<Rightarrow> pcv \<Rightarrow> v3 list \<Rightarrow> uniform_values" where
  "uniforms_bbox us vw p vs =
     place vw @ [(''color'', U_vec4 (case us_bbox_color us of (r, g, b) \<Rightarrow> (r, g, b, us_bbox_alpha us)))] @
     [(''global_alpha'', U_float (p_global_alpha p))] @
     (case bbox_uniforms (ds_bbox_size (p_display p)) vs of
        Inl _ \<Rightarrow> []
      | Inr (dimensions, center, mindim) \<Rightarrow>
          [(''dimensions'', U_vec3 dimensions), (''center'', U_vec3 center), (''length'', U_float mindim)])"

definition uniforms_minimal :: "view \<Rightarrow> pcv \<Rightarrow> uniform_values" where
  "uniforms_minimal vw p =
     place vw @ [(''point_size'', U_float (real_of_int (p_point_size p)))] @
     [(''global_alpha'', U_float (p_global_alpha p))]"

definition uniforms_minimal_variable_size :: "view \<Rightarrow> pcv \<Rightarrow> uniform_values" where
  "uniforms_minimal_variable_size vw p =
     place vw @ [(''global_alpha'', U_float (p_global_alpha p))]"

definition uniforms_minimal_variable_size_and_depth :: "shader_settings \<Rightarrow> view \<Rightarrow> pcv \<Rightarrow> int \<Rightarrow> v3 list \<Rightarrow> uniform_values" where
  "uniforms_minimal_variable_size_and_depth us vw p l vs =
     place vw @ [(''global_alpha'', U_float (p_global_alpha p))] @ sized_depth_uniforms vw l vs @
     adjust (us_minimal_brightness us) (us_minimal_contrast us) @
     [(''blend'', U_float (1 - us_minimal_blend us))]"

definition uniforms_billboard :: "shader_settings \<Rightarrow> view \<Rightarrow> pcv \<Rightarrow> uniform_values" where
  "uniforms_billboard us vw p =
     screen vw @ [(''object_matrix'', U_mat4 (vw_object vw)), (''size'', U_float (us_billboard_size us)),
     (''alpha'', U_float (p_global_alpha p))]"

definition uniforms_rich_billboard :: "shader_settings \<Rightarrow> view \<Rightarrow> pcv \<Rightarrow> int \<Rightarrow> v3 list \<Rightarrow> uniform_values" where
  "uniforms_rich_billboard us vw p l vs =
     [(''perspective_matrix'', U_mat4 (vw_perspective vw))] @ screen vw @
     [(''object_matrix'', U_mat4 (vw_object vw)), (''size'', U_float (us_rich_size us)),
      (''alpha'', U_float (p_global_alpha p))] @
     sized_depth_uniforms vw l vs @ adjust (us_rich_brightness us) (us_rich_contrast us) @
     [(''blend'', U_float (1 - us_rich_blend us))]"

definition uniforms_rich_billboard_no_depth :: "shader_settings \<Rightarrow> view \<Rightarrow> pcv \<Rightarrow> uniform_values" where
  "uniforms_rich_billboard_no_depth us vw p =
     screen vw @ [(''object_matrix'', U_mat4 (vw_object vw)), (''size'', U_float (us_rich_size us)),
     (''alpha'', U_float (p_global_alpha p))]"

definition uniforms_phong :: "shader_settings \<Rightarrow> view \<Rightarrow> pcv \<Rightarrow> uniform_values" where
  "uniforms_phong us vw p =
     [(''view'', U_mat4 (vw_view vw)), (''projection'', U_mat4 (vw_window vw)), (''model'', U_mat4 (vw_object vw))] @
     phong_uniforms vw (us_phong_ambient us) (us_phong_specular us) (us_phong_exponent us) @
     [(''alpha'', U_float (p_global_alpha p))] @ [(''point_size'', U_float (real_of_int (p_point_size p)))] @
     [(''alpha_radius'', U_float (us_alpha_radius us))]"

definition uniforms_clip :: "shader_settings \<Rightarrow> view \<Rightarrow> pcv \<Rightarrow> uniform_values" where
  "uniforms_clip us vw p =
     place vw @ points us p @ clip_uniforms (p_clip_planes p)"

definition uniforms_billboard_phong :: "shader_settings \<Rightarrow> view \<Rightarrow> pcv \<Rightarrow> uniform_values" where
  "uniforms_billboard_phong us vw p =
     [(''model'', U_mat4 (vw_object vw))] @ screen vw @ [(''size'', U_float (us_billboard_phong_size us)),
      (''alpha'', U_float (p_global_alpha p))] @
     phong_uniforms vw (us_billboard_phong_ambient us) (us_billboard_phong_specular us) (us_billboard_phong_exponent us)"

definition uniforms_skip :: "shader_settings \<Rightarrow> view \<Rightarrow> pcv \<Rightarrow> v3 list \<Rightarrow> uniform_values" where
  "uniforms_skip us vw p vs =
     place vw @ points us p @
     [(''skip_index'', U_float (real_of_int (skip_index (us_skip_percentage us) (length vs))))]"

definition block_uniforms ::
    "shader_settings \<Rightarrow> view \<Rightarrow> pcv \<Rightarrow> int \<Rightarrow> v3 list \<Rightarrow> block \<Rightarrow> uniform_values" where
  "block_uniforms us vw p l vs b =
     (case b of
        B_vertex_normals \<Rightarrow> uniforms_vertex_normals us vw p
      | B_depth \<Rightarrow> uniforms_depth us vw p vs
      | B_normal_colors \<Rightarrow> uniforms_normal_colors us vw p
      | B_position_colors \<Rightarrow> uniforms_position_colors us vw p
      | B_selection \<Rightarrow> uniforms_selection us vw p
      | B_color_adjustment \<Rightarrow> uniforms_color_adjustment us vw p
      | B_bbox \<Rightarrow> uniforms_bbox us vw p vs
      | B_minimal \<Rightarrow> uniforms_minimal vw p
      | B_minimal_variable_size \<Rightarrow> uniforms_minimal_variable_size vw p
      | B_minimal_variable_size_and_depth \<Rightarrow> uniforms_minimal_variable_size_and_depth us vw p l vs
      | B_billboard \<Rightarrow> uniforms_billboard us vw p
      | B_rich_billboard \<Rightarrow> uniforms_rich_billboard us vw p l vs
      | B_rich_billboard_no_depth \<Rightarrow> uniforms_rich_billboard_no_depth us vw p
      | B_phong \<Rightarrow> uniforms_phong us vw p
      | B_clip \<Rightarrow> uniforms_clip us vw p
      | B_billboard_phong \<Rightarrow> uniforms_billboard_phong us vw p
      | B_skip \<Rightarrow> uniforms_skip us vw p vs)"

lemmas uniforms_defs = place_def screen_def points_def adjust_def uniforms_vertex_normals_def uniforms_depth_def uniforms_normal_colors_def
  uniforms_position_colors_def uniforms_selection_def uniforms_color_adjustment_def uniforms_bbox_def
  uniforms_minimal_def uniforms_minimal_variable_size_def uniforms_minimal_variable_size_and_depth_def
  uniforms_billboard_def uniforms_rich_billboard_def uniforms_rich_billboard_no_depth_def
  uniforms_phong_def uniforms_clip_def uniforms_billboard_phong_def uniforms_skip_def

end
