(* ===== verification/PCV_Uniform_Facts.thy ===== *)
theory PCV_Uniform_Facts
  imports PCV_Uniforms
begin

text \<open>
  The batches of \<open>render\<close> have the shaders of their blocks, stored batches too, and the blocks set the
  uniforms that these declare.
\<close>

section \<open>Stored batches have the shader of their key\<close>

definition constant_shaders :: "(string \<times> shader) list" where
  "constant_shaders =
     [(''NORMAL'', ''normal_colors_vertex_shader'', ''normal_colors_fragment_shader''),
      (''POSITION'', ''position_colors_vertex_shader'', ''position_colors_fragment_shader''),
      (''COLOR_ADJUSTMENT'', ''vertex_shader_color_adjustment'', ''fragment_shader_color_adjustment''),
      (''BOUNDING_BOX'', ''bbox_vertex_shader+bbox_geometry_shader'', ''bbox_fragment_shader''),
      (''MINIMAL'', ''vertex_shader_minimal'', ''fragment_shader_minimal''),
      (''MINIMAL_VARIABLE_SIZE'', ''vertex_shader_minimal_variable_size'', ''fragment_shader_minimal_variable_size''),
      (''MINIMAL_VARIABLE_SIZE_AND_DEPTH'', ''vertex_shader_minimal_variable_size_and_depth'',
        ''fragment_shader_minimal_variable_size_and_depth''),
      (''BILLBOARD'', ''billboard_vertex+billboard_geometry'', ''billboard_fragment''),
      (''RICH_BILLBOARD'', ''billboard_vertex_with_depth_and_size+billboard_geometry_with_depth_and_size'',
        ''billboard_fragment_with_depth_and_size''),
      (''RICH_BILLBOARD_NO_DEPTH'', ''billboard_vertex_with_no_depth_and_size+billboard_geometry_with_no_depth_and_size'',
        ''billboard_fragment_with_no_depth_and_size''),
      (''PHONG'', ''phong_vs'', ''phong_fs''),
      (''CLIP'', ''vertex_shader_simple_clip'', ''fragment_shader_simple_clip''),
      (''SKIP'', ''vertex_shader_simple_skip_point_vertices'', ''fragment_shader_simple_skip_point_vertices'')]"

definition depth_shader :: "bool \<Rightarrow> bool \<Rightarrow> shader" where
  "depth_shader illumination false_colors =
     (if illumination then (''depth_vertex_shader_illumination'', ''depth_fragment_shader_illumination'')
      else if false_colors then (''depth_vertex_shader_false_colors'', ''depth_fragment_shader_false_colors'')
      else (''depth_vertex_shader_simple'', ''depth_fragment_shader_simple''))"

definition billboard_phong_shader :: "bool \<Rightarrow> shader" where
  "billboard_phong_shader circles =
     (''billboard_phong_vs+'' @ (if circles then ''billboard_phong_circles_gs'' else ''billboard_phong_fast_gs''), ''billboard_phong_fs'')"

definition key_shader :: "string \<Rightarrow> extra_entry \<Rightarrow> shader option" where
  "key_shader t v =
     (if t = ''DEPTH'' then Some (depth_shader (xe_illumination v) (xe_false_colors v))
      else if t = ''BILLBOARD_PHONG'' then Some (billboard_phong_shader (xe_circles v))
      else map_of constant_shaders t)"

definition normals_shader :: shader where
  "normals_shader = (''normals_vertex_shader+normals_geometry_shader'', ''normals_fragment_shader'')"

definition extras_fit :: "cache_item \<Rightarrow> bool" where
  "extras_fit ci \<longleftrightarrow>
     list_all (\<lambda>(k, v). key_shader k v = Some (b_shader (xe_batch v))) (case ci_extra ci of None \<Rightarrow> [] | Some d \<Rightarrow> d) \<and>
     (case ci_vertex_normals ci of None \<Rightarrow> True | Some (b, l) \<Rightarrow> b_shader b = normals_shader)"

lemma extras_fit_get: "extras_fit ci \<Longrightarrow> extra_get t ci = Some v \<Longrightarrow> key_shader t v = Some (b_shader (xe_batch v))"
  by (auto simp: extras_fit_def extra_get_def list_all_iff bind_eq_Some_conv dest!: map_of_SomeD)

lemma extras_fit_set:
  "extras_fit ci \<Longrightarrow> key_shader t v = Some (b_shader (xe_batch v)) \<Longrightarrow> extras_fit (extra_set t v ci)"
  by (auto simp: extras_fit_def extra_set_def list_all_iff dest!: dict_update_set split: option.splits)

section \<open>What one block draws\<close>

definition block_shader :: "pcv \<Rightarrow> block \<Rightarrow> shader" where
  "block_shader p b =
     (case b of
        B_vertex_normals \<Rightarrow> normals_shader
      | B_depth \<Rightarrow> depth_shader (p_illumination p) (p_dev_depth_false_colors p)
      | B_selection \<Rightarrow> shader_selection
      | B_billboard_phong \<Rightarrow> billboard_phong_shader (ds_circles (p_display p))
      | _ \<Rightarrow> the (map_of constant_shaders
          (case b of B_normal_colors \<Rightarrow> ''NORMAL'' | B_position_colors \<Rightarrow> ''POSITION'' | B_color_adjustment \<Rightarrow> ''COLOR_ADJUSTMENT''
             | B_bbox \<Rightarrow> ''BOUNDING_BOX'' | B_minimal \<Rightarrow> ''MINIMAL'' | B_minimal_variable_size \<Rightarrow> ''MINIMAL_VARIABLE_SIZE''
             | B_minimal_variable_size_and_depth \<Rightarrow> ''MINIMAL_VARIABLE_SIZE_AND_DEPTH'' | B_billboard \<Rightarrow> ''BILLBOARD''
             | B_rich_billboard \<Rightarrow> ''RICH_BILLBOARD'' | B_rich_billboard_no_depth \<Rightarrow> ''RICH_BILLBOARD_NO_DEPTH''
             | B_phong \<Rightarrow> ''PHONG'' | B_clip \<Rightarrow> ''CLIP'' | _ \<Rightarrow> ''SKIP'')))"

text \<open>The bounding box is only drawn of a cloud with points.\<close>

definition block_fits :: "pcv \<Rightarrow> v3 list \<Rightarrow> block \<Rightarrow> bool" where
  "block_fits p vs b \<longleftrightarrow> b = B_bbox \<longrightarrow> vs \<noteq> []"

definition step_draws :: "pcv \<Rightarrow> v3 list \<Rightarrow> draw_step \<Rightarrow> block \<Rightarrow> bool" where
  "step_draws p vs f b \<longleftrightarrow> (\<forall>ci bs ci'. extras_fit ci \<longrightarrow> f ci = (Inr bs, ci') \<longrightarrow>
     extras_fit ci' \<and> map b_shader bs = (if block_on p b then [block_shader p b] else []) \<and>
     (block_on p b \<longrightarrow> block_fits p vs b))"

lemma stored_batch_shader:
  assumes "extras_fit ci" "stored_batch t valid fresh ci = (b, ci')" "key_shader t fresh = Some (b_shader (xe_batch fresh))"
    and "\<And>v. valid v \<Longrightarrow> key_shader t v = key_shader t fresh"
  shows "extras_fit ci' \<and> b_shader b = b_shader (xe_batch fresh)"
proof (cases "extra_get t ci")
  case None
  then show ?thesis using assms extras_fit_set by (auto simp: stored_batch_def)
next
  case (Some v)
  then show ?thesis
    using assms(1-3) assms(4) [of v] extras_fit_get [OF assms(1) Some] extras_fit_set [OF assms(1,3)]
    by (auto simp: stored_batch_def split: if_splits)
qed

lemma draw_stored_draws:
  assumes "on = block_on p b" "block_shader p b = b_shader (xe_batch fresh)" "b \<noteq> B_bbox"
    and "key_shader t fresh = Some (b_shader (xe_batch fresh))" "\<And>v. valid v \<Longrightarrow> key_shader t v = key_shader t fresh"
  shows "step_draws p vs (draw_stored on t valid fresh) b"
  using assms(1-3) stored_batch_shader [OF _ _ assms(4,5)]
  by (auto simp: step_draws_def draw_stored_def block_fits_def split: prod.splits if_splits)

lemma draw_sized_draws:
  assumes "on = block_on p b" "block_shader p b = b_shader (xe_batch fresh)" "b \<noteq> B_bbox"
    and "key_shader t fresh = Some (b_shader (xe_batch fresh))" "\<And>v. key_shader t v = key_shader t fresh"
  shows "step_draws p vs (draw_sized on t l fresh) b"
proof -
  have "extras_fit ci' \<and> map b_shader bs = [b_shader (xe_batch fresh)]"
    if ok: "extras_fit ci" and d: "draw_sized True t l fresh ci = (Inr bs, ci')" for ci bs ci'
  proof (cases "extra_get t ci")
    case None
    then show ?thesis using d extras_fit_set [OF ok assms(4)] by (auto simp: draw_sized_def split: sum.splits)
  next
    case (Some v)
    then have "b_shader (xe_batch v) = b_shader (xe_batch fresh)"
      using extras_fit_get [OF ok Some] assms(4,5) by simp
    then show ?thesis
      using d Some ok extras_fit_set [OF ok assms(4)] by (auto simp: draw_sized_def split: sum.splits if_splits)
  qed
  then show ?thesis
    using assms(1-3) by (auto simp: step_draws_def block_fits_def draw_sized_def split: if_splits)
qed

lemmas draw_step_defs = draw_normal_colors_def draw_position_colors_def draw_color_adjustment_def draw_minimal_def
  draw_billboard_def draw_phong_def draw_clip_def draw_billboard_phong_def draw_skip_def

lemmas shader_name_defs = entry_def colored_def with_normals_def positions_def lit_def block_shader_def block_on_def
  key_shader_def constant_shaders_def billboard_phong_shader_def

lemma plain_blocks_draw:
  "step_draws p vs (draw_normal_colors p l vs ns) B_normal_colors"
  "step_draws p vs (draw_position_colors p l vs) B_position_colors"
  "step_draws p vs (draw_color_adjustment p l vs cs) B_color_adjustment"
  "step_draws p vs (draw_minimal p l vs cs) B_minimal"
  "step_draws p vs (draw_billboard p l vs cs) B_billboard"
  "step_draws p vs (draw_phong p l vs ns cs) B_phong"
  "step_draws p vs (draw_clip p l vs cs) B_clip"
  "step_draws p vs (draw_billboard_phong p l vs ns cs) B_billboard_phong"
  "step_draws p vs (draw_skip p vs cs) B_skip"
  unfolding draw_step_defs Let_def
  by (rule draw_stored_draws; simp add: shader_name_defs)+

lemma sized_blocks_draw:
  "step_draws p vs (draw_minimal_variable_size p l vs cs) B_minimal_variable_size"
  "step_draws p vs (draw_minimal_variable_size_and_depth p l vs cs) B_minimal_variable_size_and_depth"
  "step_draws p vs (draw_rich_billboard p l vs cs) B_rich_billboard"
  "step_draws p vs (draw_rich_billboard_no_depth p l vs cs) B_rich_billboard_no_depth"
  unfolding draw_minimal_variable_size_def draw_minimal_variable_size_and_depth_def draw_rich_billboard_def
    draw_rich_billboard_no_depth_def
  by (rule draw_sized_draws; simp add: shader_name_defs)+

lemma other_blocks_draw:
  "step_draws p vs (draw_vertex_normals p l vs ns) B_vertex_normals"
  "step_draws p vs (draw_selection_display p l vs) B_selection"
  by (auto simp: step_draws_def draw_vertex_normals_def draw_selection_display_def Let_def block_on_def block_shader_def
      block_fits_def with_normals_def positions_def normals_shader_def extras_fit_def split: option.splits if_splits)

lemma reading_draws:
  assumes "\<And>ci. f ci = (if \<not> on then (Inr [], ci) else case stored_batch t valid fresh ci of
      (b, c1) \<Rightarrow> (case r of Inl e \<Rightarrow> (Inl e, c1) | Inr _ \<Rightarrow> (Inr [b], c1)))"
    and "on = block_on p b" "block_shader p b = b_shader (xe_batch fresh)"
    and "key_shader t fresh = Some (b_shader (xe_batch fresh))" "\<And>v. valid v \<Longrightarrow> key_shader t v = key_shader t fresh"
    and "\<And>y. r = Inr y \<Longrightarrow> block_fits p vs b"
  shows "step_draws p vs f b"
  using assms(2,3,6) stored_batch_shader [OF _ _ assms(4,5)]
  by (auto simp: step_draws_def assms(1) split: prod.splits sum.splits if_splits)

lemma depth_block_draws: "step_draws p vs (draw_depth p l vs ns) B_depth"
  by (rule reading_draws [OF draw_depth_def [unfolded Let_def]])
    (simp_all add: shader_name_defs depth_shader_def block_fits_def)

lemma bbox_block_draws: "step_draws p vs (draw_bbox p vs) B_bbox"
  by (rule reading_draws [OF draw_bbox_def])
    (auto simp: shader_name_defs block_fits_def bbox_uniforms_def split: if_splits)

lemmas blocks_draw = plain_blocks_draw sized_blocks_draw other_blocks_draw depth_block_draws bbox_block_draws

lemma run_steps_draw:
  assumes "list_all2 (step_draws p vs) fs blocks" "extras_fit ci" "run_steps fs ci = (Inr bs, ci')"
  shows "extras_fit ci' \<and> map b_shader bs = map (block_shader p) (filter (block_on p) blocks) \<and>
     (\<forall>b\<in>set (filter (block_on p) blocks). block_fits p vs b)"
  using assms
proof (induction fs blocks arbitrary: ci bs rule: list_all2_induct)
  case (Cons f fs b blocks)
  obtain bs1 c1 bs2 where f: "f ci = (Inr bs1, c1)" "run_steps fs c1 = (Inr bs2, ci')" "bs = bs1 @ bs2"
    using Cons.prems(2) by (auto split: prod.splits sum.splits)
  show ?case
    using Cons.hyps(1) Cons.prems(1) f Cons.IH [of c1 bs2] by (simp add: step_draws_def)
qed simp

lemma no_blocks: "\<not> extras_on p \<Longrightarrow> filter (block_on p) all_blocks = []"
  by (simp add: extras_on_def all_blocks_def block_on_def)

lemma render_extras_draws:
  assumes "render_extras p ci = (Inr bs, ci')" "extras_fit ci"
  shows "extras_fit ci' \<and> map b_shader bs = map (block_shader p) (filter (block_on p) all_blocks) \<and>
     (\<forall>b\<in>set (filter (block_on p) all_blocks). block_fits p (the (ci_vertices ci)) b)"
proof (cases "\<exists>vs ns cs l. ci_vertices ci = Some vs \<and> ci_normals ci = Some ns \<and> ci_colors ci = Some cs \<and>
    ci_current_display_length ci = Some l")
  case True
  then obtain vs ns cs l where arr: "ci_vertices ci = Some vs" "ci_normals ci = Some ns" "ci_colors ci = Some cs"
    "ci_current_display_length ci = Some l" by blast
  have "list_all2 (step_draws p vs)
      [draw_vertex_normals p l vs ns, draw_depth p l vs ns, draw_normal_colors p l vs ns,
       draw_position_colors p l vs, draw_selection_display p l vs, draw_color_adjustment p l vs cs,
       draw_bbox p vs, draw_minimal p l vs cs, draw_minimal_variable_size p l vs cs,
       draw_minimal_variable_size_and_depth p l vs cs, draw_billboard p l vs cs,
       draw_rich_billboard p l vs cs, draw_rich_billboard_no_depth p l vs cs, draw_phong p l vs ns cs,
       draw_clip p l vs cs, draw_billboard_phong p l vs ns cs, draw_skip p vs cs] all_blocks"
    unfolding all_blocks_def by (simp only: list_all2_Cons list_all2_Nil blocks_draw simp_thms)
  from run_steps_draw [OF this assms(2)] show ?thesis
    using assms(1) arr by (simp add: render_extras_def del: run_steps.simps)
next
  case False
  then have "render_extras p ci = (if extras_on p then Inl (TypeError ''NoneType'') else Inr [], ci)"
    by (auto simp: render_extras_def split: option.splits)
  then have "bs = []" "ci' = ci" "\<not> extras_on p" using assms(1) by (auto split: if_splits)
  then show ?thesis using assms(2) by (simp only: no_blocks list.simps list.set ball_simps simp_thms)
qed

section \<open>The declarations of the shaders in use\<close>

lemma sources_distinct: "distinct (map fst shader_sources)"
  by code_simp

lemma source_lookup: "(n, x) \<in> set shader_sources \<Longrightarrow> map_of shader_sources n = Some x"
  using sources_distinct by simp

lemma source_members:
  "(''depth_vertex_shader_illumination'', depth_vertex_shader_illumination) \<in> set shader_sources"
  "(''depth_fragment_shader_illumination'', depth_fragment_shader_illumination) \<in> set shader_sources"
  "(''depth_vertex_shader_false_colors'', depth_vertex_shader_false_colors) \<in> set shader_sources"
  "(''depth_fragment_shader_false_colors'', depth_fragment_shader_false_colors) \<in> set shader_sources"
  "(''depth_vertex_shader_simple'', depth_vertex_shader_simple) \<in> set shader_sources"
  "(''depth_fragment_shader_simple'', depth_fragment_shader_simple) \<in> set shader_sources"
  "(''billboard_phong_vs'', billboard_phong_vs) \<in> set shader_sources"
  "(''billboard_phong_circles_gs'', billboard_phong_circles_gs) \<in> set shader_sources"
  "(''billboard_phong_fs'', billboard_phong_fs) \<in> set shader_sources"
  "(''billboard_phong_fast_gs'', billboard_phong_fast_gs) \<in> set shader_sources"
  "(''normals_vertex_shader'', normals_vertex_shader) \<in> set shader_sources"
  "(''normals_geometry_shader'', normals_geometry_shader) \<in> set shader_sources"
  "(''normals_fragment_shader'', normals_fragment_shader) \<in> set shader_sources"
  "(''selection_vertex_shader'', selection_vertex_shader) \<in> set shader_sources"
  "(''selection_fragment_shader'', selection_fragment_shader) \<in> set shader_sources"
  "(''normal_colors_vertex_shader'', normal_colors_vertex_shader) \<in> set shader_sources"
  "(''normal_colors_fragment_shader'', normal_colors_fragment_shader) \<in> set shader_sources"
  "(''position_colors_vertex_shader'', position_colors_vertex_shader) \<in> set shader_sources"
  "(''position_colors_fragment_shader'', position_colors_fragment_shader) \<in> set shader_sources"
  "(''vertex_shader_color_adjustment'', vertex_shader_color_adjustment) \<in> set shader_sources"
  "(''fragment_shader_color_adjustment'', no_declarations) \<in> set shader_sources"
  "(''bbox_vertex_shader'', bbox_vertex_shader) \<in> set shader_sources"
  "(''bbox_geometry_shader'', bbox_geometry_shader) \<in> set shader_sources"
  "(''bbox_fragment_shader'', bbox_fragment_shader) \<in> set shader_sources"
  "(''vertex_shader_minimal'', vertex_shader_minimal) \<in> set shader_sources"
  "(''fragment_shader_minimal'', no_declarations) \<in> set shader_sources"
  "(''vertex_shader_minimal_variable_size'', vertex_shader_minimal_variable_size) \<in> set shader_sources"
  "(''fragment_shader_minimal_variable_size'', no_declarations) \<in> set shader_sources"
  "(''vertex_shader_minimal_variable_size_and_depth'', vertex_shader_minimal_variable_size_and_depth) \<in> set shader_sources"
  "(''fragment_shader_minimal_variable_size_and_depth'', fragment_shader_minimal_variable_size_and_depth) \<in> set shader_sources"
  "(''billboard_vertex'', billboard_vertex) \<in> set shader_sources"
  "(''billboard_geometry'', billboard_geometry) \<in> set shader_sources"
  "(''billboard_fragment'', no_declarations) \<in> set shader_sources"
  "(''billboard_vertex_with_depth_and_size'', billboard_vertex_with_depth_and_size) \<in> set shader_sources"
  "(''billboard_geometry_with_depth_and_size'', billboard_geometry_with_depth_and_size) \<in> set shader_sources"
  "(''billboard_fragment_with_depth_and_size'', billboard_fragment_with_depth_and_size) \<in> set shader_sources"
  "(''billboard_vertex_with_no_depth_and_size'', billboard_vertex_with_no_depth_and_size) \<in> set shader_sources"
  "(''billboard_geometry_with_no_depth_and_size'', billboard_geometry_with_no_depth_and_size) \<in> set shader_sources"
  "(''billboard_fragment_with_no_depth_and_size'', no_declarations) \<in> set shader_sources"
  "(''phong_vs'', phong_vs) \<in> set shader_sources"
  "(''phong_fs'', phong_fs) \<in> set shader_sources"
  "(''vertex_shader_simple_clip'', vertex_shader_simple_clip) \<in> set shader_sources"
  "(''fragment_shader_simple_clip'', no_declarations) \<in> set shader_sources"
  "(''vertex_shader_simple_skip_point_vertices'', vertex_shader_simple_skip_point_vertices) \<in> set shader_sources"
  "(''fragment_shader_simple_skip_point_vertices'', no_declarations) \<in> set shader_sources"
  unfolding shader_sources_def by (rule list.set_intros)+

lemmas source_table = source_members [THEN source_lookup]

lemma source_names_table:
  "source_names (''depth_vertex_shader_illumination'', ''depth_fragment_shader_illumination'') =
     [''depth_vertex_shader_illumination'', ''depth_fragment_shader_illumination'']"
  "source_names (''depth_vertex_shader_false_colors'', ''depth_fragment_shader_false_colors'') =
     [''depth_vertex_shader_false_colors'', ''depth_fragment_shader_false_colors'']"
  "source_names (''depth_vertex_shader_simple'', ''depth_fragment_shader_simple'') =
     [''depth_vertex_shader_simple'', ''depth_fragment_shader_simple'']"
  "source_names (''billboard_phong_vs+billboard_phong_circles_gs'', ''billboard_phong_fs'') =
     [''billboard_phong_vs'', ''billboard_phong_circles_gs'', ''billboard_phong_fs'']"
  "source_names (''billboard_phong_vs+billboard_phong_fast_gs'', ''billboard_phong_fs'') =
     [''billboard_phong_vs'', ''billboard_phong_fast_gs'', ''billboard_phong_fs'']"
  "source_names (''normals_vertex_shader+normals_geometry_shader'', ''normals_fragment_shader'') =
     [''normals_vertex_shader'', ''normals_geometry_shader'', ''normals_fragment_shader'']"
  "source_names (''selection_vertex_shader'', ''selection_fragment_shader'') =
     [''selection_vertex_shader'', ''selection_fragment_shader'']"
  "source_names (''normal_colors_vertex_shader'', ''normal_colors_fragment_shader'') =
     [''normal_colors_vertex_shader'', ''normal_colors_fragment_shader'']"
  "source_names (''position_colors_vertex_shader'', ''position_colors_fragment_shader'') =
     [''position_colors_vertex_shader'', ''position_colors_fragment_shader'']"
  "source_names (''vertex_shader_color_adjustment'', ''fragment_shader_color_adjustment'') =
     [''vertex_shader_color_adjustment'', ''fragment_shader_color_adjustment'']"
  "source_names (''bbox_vertex_shader+bbox_geometry_shader'', ''bbox_fragment_shader'') =
     [''bbox_vertex_shader'', ''bbox_geometry_shader'', ''bbox_fragment_shader'']"
  "source_names (''vertex_shader_minimal'', ''fragment_shader_minimal'') =
     [''vertex_shader_minimal'', ''fragment_shader_minimal'']"
  "source_names (''vertex_shader_minimal_variable_size'', ''fragment_shader_minimal_variable_size'') =
     [''vertex_shader_minimal_variable_size'', ''fragment_shader_minimal_variable_size'']"
  "source_names (''vertex_shader_minimal_variable_size_and_depth'', ''fragment_shader_minimal_variable_size_and_depth'') =
     [''vertex_shader_minimal_variable_size_and_depth'', ''fragment_shader_minimal_variable_size_and_depth'']"
  "source_names (''billboard_vertex+billboard_geometry'', ''billboard_fragment'') =
     [''billboard_vertex'', ''billboard_geometry'', ''billboard_fragment'']"
  "source_names (''billboard_vertex_with_depth_and_size+billboard_geometry_with_depth_and_size'', ''billboard_fragment_with_depth_and_size'') =
     [''billboard_vertex_with_depth_and_size'', ''billboard_geometry_with_depth_and_size'', ''billboard_fragment_with_depth_and_size'']"
  "source_names (''billboard_vertex_with_no_depth_and_size+billboard_geometry_with_no_depth_and_size'', ''billboard_fragment_with_no_depth_and_size'') =
     [''billboard_vertex_with_no_depth_and_size'', ''billboard_geometry_with_no_depth_and_size'', ''billboard_fragment_with_no_depth_and_size'']"
  "source_names (''phong_vs'', ''phong_fs'') =
     [''phong_vs'', ''phong_fs'']"
  "source_names (''vertex_shader_simple_clip'', ''fragment_shader_simple_clip'') =
     [''vertex_shader_simple_clip'', ''fragment_shader_simple_clip'']"
  "source_names (''vertex_shader_simple_skip_point_vertices'', ''fragment_shader_simple_skip_point_vertices'') =
     [''vertex_shader_simple_skip_point_vertices'', ''fragment_shader_simple_skip_point_vertices'']"
  by code_simp+

lemmas source_defs = shader_parts_def source_names_table source_table
  depth_vertex_shader_illumination_def depth_fragment_shader_illumination_def depth_vertex_shader_false_colors_def
  depth_fragment_shader_false_colors_def depth_vertex_shader_simple_def depth_fragment_shader_simple_def
  billboard_phong_vs_def billboard_phong_circles_gs_def billboard_phong_fs_def
  billboard_phong_fast_gs_def normals_vertex_shader_def normals_geometry_shader_def
  normals_fragment_shader_def selection_vertex_shader_def selection_fragment_shader_def
  normal_colors_vertex_shader_def normal_colors_fragment_shader_def position_colors_vertex_shader_def
  position_colors_fragment_shader_def vertex_shader_color_adjustment_def no_declarations_def
  bbox_vertex_shader_def bbox_geometry_shader_def bbox_fragment_shader_def
  vertex_shader_minimal_def vertex_shader_minimal_variable_size_def vertex_shader_minimal_variable_size_and_depth_def
  fragment_shader_minimal_variable_size_and_depth_def billboard_vertex_def billboard_geometry_def
  billboard_vertex_with_depth_and_size_def billboard_geometry_with_depth_and_size_def billboard_fragment_with_depth_and_size_def
  billboard_vertex_with_no_depth_and_size_def billboard_geometry_with_no_depth_and_size_def phong_vs_def
  phong_fs_def vertex_shader_simple_clip_def vertex_shader_simple_skip_point_vertices_def

lemma declared_uniforms_table:
  "declared_uniforms (''depth_vertex_shader_illumination'', ''depth_fragment_shader_illumination'') = Some
     [(''perspective_matrix'', T_mat4), (''object_matrix'', T_mat4), (''center'', T_vec3),
      (''point_size'', T_float), (''maxdist'', T_float), (''light_direction'', T_vec3),
      (''light_intensity'', T_vec3), (''shadow_direction'', T_vec3), (''shadow_intensity'', T_vec3),
      (''alpha_radius'', T_float), (''global_alpha'', T_float), (''brightness'', T_float),
      (''contrast'', T_float), (''color_a'', T_vec3), (''color_b'', T_vec3)]"
  "declared_uniforms (''depth_vertex_shader_false_colors'', ''depth_fragment_shader_false_colors'') = Some
     [(''perspective_matrix'', T_mat4), (''object_matrix'', T_mat4), (''center'', T_vec3),
      (''point_size'', T_float), (''maxdist'', T_float), (''alpha_radius'', T_float), (''global_alpha'',
      T_float), (''brightness'', T_float), (''contrast'', T_float), (''color_a'', T_vec3), (''color_b'',
      T_vec3)]"
  "declared_uniforms (''depth_vertex_shader_simple'', ''depth_fragment_shader_simple'') = Some
     [(''perspective_matrix'', T_mat4), (''object_matrix'', T_mat4), (''center'', T_vec3),
      (''point_size'', T_float), (''maxdist'', T_float), (''brightness'', T_float), (''contrast'',
      T_float), (''alpha_radius'', T_float), (''global_alpha'', T_float)]"
  "declared_uniforms (''billboard_phong_vs+billboard_phong_circles_gs'', ''billboard_phong_fs'') = Some
     [(''model'', T_mat4), (''view_matrix'', T_mat4), (''window_matrix'', T_mat4), (''size'', T_float),
      (''alpha'', T_float), (''light_position'', T_vec3), (''light_color'', T_vec3), (''view_position'',
      T_vec3), (''ambient_strength'', T_float), (''specular_strength'', T_float),
      (''specular_exponent'', T_float)]"
  "declared_uniforms (''billboard_phong_vs+billboard_phong_fast_gs'', ''billboard_phong_fs'') = Some
     [(''model'', T_mat4), (''view_matrix'', T_mat4), (''window_matrix'', T_mat4), (''size'', T_float),
      (''alpha'', T_float), (''light_position'', T_vec3), (''light_color'', T_vec3), (''view_position'',
      T_vec3), (''ambient_strength'', T_float), (''specular_strength'', T_float),
      (''specular_exponent'', T_float)]"
  "declared_uniforms (''normals_vertex_shader+normals_geometry_shader'', ''normals_fragment_shader'') = Some
     [(''perspective_matrix'', T_mat4), (''object_matrix'', T_mat4), (''length'', T_float), (''color'',
      T_vec4), (''global_alpha'', T_float)]"
  "declared_uniforms (''selection_vertex_shader'', ''selection_fragment_shader'') = Some
     [(''perspective_matrix'', T_mat4), (''object_matrix'', T_mat4), (''point_size'', T_float),
      (''color'', T_vec4), (''alpha_radius'', T_float)]"
  "declared_uniforms (''normal_colors_vertex_shader'', ''normal_colors_fragment_shader'') = Some
     [(''perspective_matrix'', T_mat4), (''object_matrix'', T_mat4), (''point_size'', T_float),
      (''alpha_radius'', T_float), (''global_alpha'', T_float)]"
  "declared_uniforms (''position_colors_vertex_shader'', ''position_colors_fragment_shader'') = Some
     [(''perspective_matrix'', T_mat4), (''object_matrix'', T_mat4), (''point_size'', T_float),
      (''alpha_radius'', T_float), (''global_alpha'', T_float)]"
  "declared_uniforms (''vertex_shader_color_adjustment'', ''fragment_shader_color_adjustment'') = Some
     [(''perspective_matrix'', T_mat4), (''object_matrix'', T_mat4), (''point_size'', T_float),
      (''alpha_radius'', T_float), (''global_alpha'', T_float), (''exposure'', T_float), (''gamma'',
      T_float), (''brightness'', T_float), (''contrast'', T_float), (''hue'', T_float), (''saturation'',
      T_float), (''value'', T_float), (''invert'', T_float)]"
  "declared_uniforms (''bbox_vertex_shader+bbox_geometry_shader'', ''bbox_fragment_shader'') = Some
     [(''perspective_matrix'', T_mat4), (''object_matrix'', T_mat4), (''color'', T_vec4), (''length'',
      T_float), (''center'', T_vec3), (''dimensions'', T_vec3), (''global_alpha'', T_float)]"
  "declared_uniforms (''vertex_shader_minimal'', ''fragment_shader_minimal'') = Some
     [(''perspective_matrix'', T_mat4), (''object_matrix'', T_mat4), (''point_size'', T_float),
      (''global_alpha'', T_float)]"
  "declared_uniforms (''vertex_shader_minimal_variable_size'', ''fragment_shader_minimal_variable_size'') = Some
     [(''perspective_matrix'', T_mat4), (''object_matrix'', T_mat4), (''global_alpha'', T_float)]"
  "declared_uniforms (''vertex_shader_minimal_variable_size_and_depth'', ''fragment_shader_minimal_variable_size_and_depth'') = Some
     [(''perspective_matrix'', T_mat4), (''object_matrix'', T_mat4), (''global_alpha'', T_float),
      (''center'', T_vec3), (''maxdist'', T_float), (''brightness'', T_float), (''contrast'', T_float),
      (''blend'', T_float)]"
  "declared_uniforms (''billboard_vertex+billboard_geometry'', ''billboard_fragment'') = Some
     [(''object_matrix'', T_mat4), (''alpha'', T_float), (''view_matrix'', T_mat4), (''window_matrix'',
      T_mat4), (''size'', T_float)]"
  "declared_uniforms (''billboard_vertex_with_depth_and_size+billboard_geometry_with_depth_and_size'', ''billboard_fragment_with_depth_and_size'') = Some
     [(''object_matrix'', T_mat4), (''perspective_matrix'', T_mat4), (''alpha'', T_float), (''center'',
      T_vec3), (''maxdist'', T_float), (''view_matrix'', T_mat4), (''window_matrix'', T_mat4),
      (''size'', T_float), (''brightness'', T_float), (''contrast'', T_float), (''blend'', T_float)]"
  "declared_uniforms (''billboard_vertex_with_no_depth_and_size+billboard_geometry_with_no_depth_and_size'', ''billboard_fragment_with_no_depth_and_size'') = Some
     [(''object_matrix'', T_mat4), (''alpha'', T_float), (''view_matrix'', T_mat4), (''window_matrix'',
      T_mat4), (''size'', T_float)]"
  "declared_uniforms (''phong_vs'', ''phong_fs'') = Some
     [(''model'', T_mat4), (''view'', T_mat4), (''projection'', T_mat4), (''point_size'', T_float),
      (''alpha_radius'', T_float), (''alpha'', T_float), (''light_position'', T_vec3), (''light_color'',
      T_vec3), (''view_position'', T_vec3), (''ambient_strength'', T_float), (''specular_strength'',
      T_float), (''specular_exponent'', T_float)]"
  "declared_uniforms (''vertex_shader_simple_clip'', ''fragment_shader_simple_clip'') = Some
     [(''perspective_matrix'', T_mat4), (''object_matrix'', T_mat4), (''point_size'', T_float),
      (''alpha_radius'', T_float), (''global_alpha'', T_float), (''clip_plane0'', T_vec4),
      (''clip_plane1'', T_vec4), (''clip_plane2'', T_vec4), (''clip_plane3'', T_vec4), (''clip_plane4'',
      T_vec4), (''clip_plane5'', T_vec4)]"
  "declared_uniforms (''vertex_shader_simple_skip_point_vertices'', ''fragment_shader_simple_skip_point_vertices'') = Some
     [(''perspective_matrix'', T_mat4), (''object_matrix'', T_mat4), (''point_size'', T_float),
      (''alpha_radius'', T_float), (''global_alpha'', T_float), (''skip_index'', T_float)]"
  by (simp_all add: declared_uniforms_def source_defs)

lemma declared_attributes_table:
  "declared_attributes (''depth_vertex_shader_illumination'', ''depth_fragment_shader_illumination'') = Some
     [(''position'', T_vec3), (''normal'', T_vec3)]"
  "declared_attributes (''depth_vertex_shader_false_colors'', ''depth_fragment_shader_false_colors'') = Some
     [(''position'', T_vec3)]"
  "declared_attributes (''depth_vertex_shader_simple'', ''depth_fragment_shader_simple'') = Some
     [(''position'', T_vec3)]"
  "declared_attributes (''billboard_phong_vs+billboard_phong_circles_gs'', ''billboard_phong_fs'') = Some
     [(''position'', T_vec3), (''normal'', T_vec3), (''color'', T_vec4)]"
  "declared_attributes (''billboard_phong_vs+billboard_phong_fast_gs'', ''billboard_phong_fs'') = Some
     [(''position'', T_vec3), (''normal'', T_vec3), (''color'', T_vec4)]"
  "declared_attributes (''normals_vertex_shader+normals_geometry_shader'', ''normals_fragment_shader'') = Some
     [(''position'', T_vec3), (''normal'', T_vec3)]"
  "declared_attributes (''selection_vertex_shader'', ''selection_fragment_shader'') = Some
     [(''position'', T_vec3)]"
  "declared_attributes (''normal_colors_vertex_shader'', ''normal_colors_fragment_shader'') = Some
     [(''position'', T_vec3), (''normal'', T_vec3)]"
  "declared_attributes (''position_colors_vertex_shader'', ''position_colors_fragment_shader'') = Some
     [(''position'', T_vec3)]"
  "declared_attributes (''vertex_shader_color_adjustment'', ''fragment_shader_color_adjustment'') = Some
     [(''position'', T_vec3), (''color'', T_vec4)]"
  "declared_attributes (''bbox_vertex_shader+bbox_geometry_shader'', ''bbox_fragment_shader'') = Some
     [(''position'', T_vec3)]"
  "declared_attributes (''vertex_shader_minimal'', ''fragment_shader_minimal'') = Some
     [(''position'', T_vec3), (''color'', T_vec4)]"
  "declared_attributes (''vertex_shader_minimal_variable_size'', ''fragment_shader_minimal_variable_size'') = Some
     [(''position'', T_vec3), (''color'', T_vec4), (''size'', T_int)]"
  "declared_attributes (''vertex_shader_minimal_variable_size_and_depth'', ''fragment_shader_minimal_variable_size_and_depth'') = Some
     [(''position'', T_vec3), (''color'', T_vec4), (''size'', T_int)]"
  "declared_attributes (''billboard_vertex+billboard_geometry'', ''billboard_fragment'') = Some
     [(''position'', T_vec3), (''color'', T_vec4)]"
  "declared_attributes (''billboard_vertex_with_depth_and_size+billboard_geometry_with_depth_and_size'', ''billboard_fragment_with_depth_and_size'') = Some
     [(''position'', T_vec3), (''color'', T_vec4), (''sizef'', T_float)]"
  "declared_attributes (''billboard_vertex_with_no_depth_and_size+billboard_geometry_with_no_depth_and_size'', ''billboard_fragment_with_no_depth_and_size'') = Some
     [(''position'', T_vec3), (''color'', T_vec4), (''sizef'', T_float)]"
  "declared_attributes (''phong_vs'', ''phong_fs'') = Some
     [(''position'', T_vec3), (''normal'', T_vec3), (''color'', T_vec4)]"
  "declared_attributes (''vertex_shader_simple_clip'', ''fragment_shader_simple_clip'') = Some
     [(''position'', T_vec3), (''color'', T_vec4)]"
  "declared_attributes (''vertex_shader_simple_skip_point_vertices'', ''fragment_shader_simple_skip_point_vertices'') = Some
     [(''position'', T_vec3), (''color'', T_vec4), (''index'', T_int)]"
  by (simp_all add: declared_attributes_def source_defs)

end
