(* ===== verification/PCV_Props_Shaders.thy ===== *)
theory PCV_Props_Shaders
  imports PCV_Uniform_Facts PCV_Examples
begin








text \<open>The points themselves: a batch made for the present illumination is served when a lit cloud has normals.\<close>

lemma declared_default:
  "declared_uniforms shader_simple = Some (uniforms vertex_shader_simple)"
  "declared_uniforms shader_illumination = Some (uniforms vertex_shader_illumination)"
  by code_simp+

lemma default_served:
  assumes "p_illumination p \<Longrightarrow> p_has_normals p"
  shows "map_option set (declared_uniforms (b_shader (make_batch (p_illumination p) l vs ns cs))) =
     Some (set (map (apsnd uval_type) (uniforms_default us vw p (p_illumination p))))"
  using assms
  by (auto simp: make_batch_def declared_default uniforms_default_def place_def points_def light_uniforms_def
      vertex_shader_simple_def vertex_shader_illumination_def uval_type_def Let_def simp del: set_map)

text \<open>The range that the depth shaders divide by covers every coordinate, and one reaches it.\<close>

lemma depth_range_covers:
  assumes "depth_range vs = Inr m"
  shows "\<forall>c\<in>set (coordinates vs). \<bar>c\<bar> \<le> m" "\<exists>c\<in>set (coordinates vs). \<bar>c\<bar> = m"
proof -
  let ?C = "set (coordinates vs)"
  have ne: "vs \<noteq> []" and m: "m = (if \<bar>Max ?C\<bar> < \<bar>Min ?C\<bar> then \<bar>Min ?C\<bar> else \<bar>Max ?C\<bar>)"
    using assms by (auto simp: depth_range_def Let_def split: if_splits)
  have C: "finite ?C" "?C \<noteq> {}" using ne by (cases vs; auto simp: coordinates_def split: prod.splits)+
  have "Min ?C \<le> c \<and> c \<le> Max ?C" if "c \<in> ?C" for c using C that by simp
  then show "\<forall>c\<in>?C. \<bar>c\<bar> \<le> m" unfolding m by (smt (verit))
  show "\<exists>c\<in>?C. \<bar>c\<bar> = m" unfolding m using Max_in [OF C] Min_in [OF C] by (cases "\<bar>Max ?C\<bar> < \<bar>Min ?C\<bar>") auto
qed

end
