(* ===== verification/PCV_Declarations.thy ===== *)
theory PCV_Declarations
  imports PCV_Path Complex_Main
begin

text \<open>
  What the add-on declares to Blender: the properties of an object with their types, defaults and ranges
  (\<open>PCV_properties\<close>), the names of its operators, and the classes in the order in which they are registered.
\<close>

datatype prop_type =
  BoolProperty bool
| IntProperty int "int option" "int option"
| FloatProperty real "real option" "real option"
| FloatVectorProperty "real list" "real option" "real option"
| StringProperty string
| EnumProperty "string list" string
| PointerProperty

type_synonym property_row = "string \<times> string \<times> prop_type"

text \<open>The letter \<open>\<Delta>\<close> in UTF-8.\<close>

definition delta :: string where "delta = [CHR 0xCE, CHR 0x94]"

section \<open>The properties, with their names\<close>

definition file_properties :: "property_row list" where
  "file_properties =
     [(''filepath'', ''PLY File'', StringProperty ''''),
      (''uuid'', '''', StringProperty '''')]"

definition visualizer_properties :: "property_row list" where
  "visualizer_properties =
     [(''instance_visualizer_active_hidden_value'', '''', BoolProperty False),
      (''instance_visualizer_active'', ''Instance Visualizer Active'', BoolProperty False)]"

definition point_properties :: "property_row list" where
  "point_properties =
     [(''runtime'', '''', BoolProperty False),
      (''point_size'', ''Size'', IntProperty 3 (Some 1) (Some 10)),
      (''alpha_radius'', ''Radius'', FloatProperty 1 (Some (1 / 1000)) (Some 1))]"

definition display_properties :: "property_row list" where
  "display_properties =
     [(''display_percent'', ''Display'', FloatProperty 100 (Some 0) (Some 100)),
      (''global_alpha'', ''Alpha'', FloatProperty 1 (Some 0) (Some 1)),
      (''vertex_normals'', ''Normals'', BoolProperty False),
      (''vertex_normals_size'', ''Length'', FloatProperty (1 / 100) (Some (1 / 100000)) (Some 1)),
      (''vertex_normals_alpha'', ''Alpha'', FloatProperty (1 / 2) (Some 0) (Some 1)),
      (''render_point_size'', ''Size'', IntProperty 3 (Some 1) (Some 100)),
      (''render_display_percent'', ''Count'', FloatProperty 100 (Some 0) (Some 100)),
      (''render_path'', ''Output Path'', StringProperty ''//pcv_render_###.png''),
      (''render_resolution_x'', ''Resolution X'', IntProperty 1920 (Some 4) (Some 65536)),
      (''render_resolution_y'', ''Resolution Y'', IntProperty 1080 (Some 4) (Some 65536)),
      (''render_resolution_percentage'', ''Resolution %'', IntProperty 100 (Some 1) (Some 100)),
      (''render_smoothstep'', ''Smooth Circles'', BoolProperty False),
      (''render_supersampling'', ''Supersampling'', IntProperty 1 (Some 1) (Some 10))]"

definition mesh_properties :: "property_row list" where
  "mesh_properties =
     [(''render_resolution_linked'', ''Resolution Linked'', BoolProperty True),
      (''has_normals'', '''', BoolProperty False),
      (''has_vcols'', '''', BoolProperty False),
      (''illumination'', ''Illumination'', BoolProperty False),
      (''illumination_edit'', ''Edit'', BoolProperty False),
      (''light_direction'', ''Light Direction'', FloatVectorProperty [0, 1, 0] None None),
      (''light_intensity'', ''Light Intensity'', FloatProperty (3 / 10) (Some 0) (Some 1)),
      (''shadow_intensity'', ''Shadow Intensity'', FloatProperty (1 / 5) (Some 0) (Some 1)),
      (''mesh_type'', ''Type'',
        EnumProperty [''VERTEX'', ''TRIANGLE'', ''TETRAHEDRON'', ''CUBE'', ''ICOSPHERE'', ''INSTANCER'',
          ''PARTICLES''] ''CUBE''),
      (''mesh_size'', ''Size'', FloatProperty (1 / 100) (Some (1 / 1000000)) (Some 100)),
      (''mesh_normal_align'', ''Align To Normal'', BoolProperty True),
      (''mesh_vcols'', ''Colors'', BoolProperty True),
      (''mesh_all'', ''All'', BoolProperty True),
      (''mesh_percentage'', ''Subset'', FloatProperty 100 (Some 0) (Some 100)),
      (''mesh_base_sphere_subdivisions'', ''Sphere Subdivisions'', IntProperty 2 (Some 1) (Some 6)),
      (''mesh_use_instancer2'', ''Use Faster Conversion'', BoolProperty False),
      (''export_use_viewport'', ''Use Viewport Points'', BoolProperty True),
      (''export_apply_transformation'', ''Apply Transformation'', BoolProperty False),
      (''export_convert_axes'', ''Convert Axes'', BoolProperty False),
      (''export_visible_only'', ''Visible Points Only'', BoolProperty False),
      (''filter_simplify_num_samples'', ''Samples'', IntProperty 10000 (Some 1) None),
      (''filter_simplify_num_candidates'', ''Candidates'', IntProperty 10 (Some 3) (Some 100)),
      (''filter_remove_color'', ''Color'', FloatVectorProperty [1, 1, 1] (Some 0) (Some 1)),
      (''filter_remove_color_delta_hue'', delta @ '' Hue'', FloatProperty (1 / 10) (Some 0) (Some 1)),
      (''filter_remove_color_delta_hue_use'', ''Use '' @ delta @ '' Hue'', BoolProperty True),
      (''filter_remove_color_delta_saturation'', delta @ '' Saturation'', FloatProperty (1 / 10) (Some 0) (Some 1)),
      (''filter_remove_color_delta_saturation_use'', ''Use '' @ delta @ '' Saturation'', BoolProperty True),
      (''filter_remove_color_delta_value'', delta @ '' Value'', FloatProperty (1 / 10) (Some 0) (Some 1)),
      (''filter_remove_color_delta_value_use'', ''Use '' @ delta @ '' Value'', BoolProperty True),
      (''filter_remove_color_selection'', '''', BoolProperty False)]"

definition project_properties :: "property_row list" where
  "project_properties =
     [(''filter_project_object'', ''Object'', PointerProperty),
      (''filter_project_search_distance'', ''Search Distance'', FloatProperty (1 / 10) (Some 0) (Some 10000)),
      (''filter_project_positive'', ''Positive'', BoolProperty True),
      (''filter_project_negative'', ''Negative'', BoolProperty True),
      (''filter_project_discard'', ''Discard Unprojectable'', BoolProperty False),
      (''filter_project_colorize'', ''Colorize'', BoolProperty False),
      (''filter_project_colorize_from'', ''Source'',
        EnumProperty [''VCOLS'', ''UVTEX'', ''GROUP_MONO'', ''GROUP_COLOR''] ''UVTEX''),
      (''filter_project_shift'', ''Shift'', FloatProperty 0 None None)]"

definition boolean_properties :: "property_row list" where
  "boolean_properties =
     [(''filter_boolean_object'', ''Object'', PointerProperty)]"

definition edit_properties :: "property_row list" where
  "edit_properties =
     [(''filter_join_object'', ''Object'', PointerProperty),
      (''edit_initialized'', '''', BoolProperty False),
      (''edit_is_edit_mesh'', '''', BoolProperty False),
      (''edit_is_edit_uuid'', '''', StringProperty ''''),
      (''edit_pre_edit_alpha'', '''', FloatProperty (1 / 2) None None),
      (''edit_pre_edit_display'', '''', FloatProperty 100 None None),
      (''edit_pre_edit_size'', '''', IntProperty 3 None None)]"

definition overlay_properties :: "property_row list" where
  "overlay_properties =
     [(''edit_overlay_alpha'', ''Overlay Alpha'', FloatProperty (1 / 2) (Some 0) (Some 1)),
      (''edit_overlay_size'', ''Overlay Size'', IntProperty 3 (Some 1) (Some 10))]"

definition generate_properties :: "property_row list" where
  "generate_properties =
     [(''sequence_use_cyclic'', ''Cycle Forever'', BoolProperty True),
      (''generate_source'', ''Source'', EnumProperty [''VERTICES'', ''SURFACE'', ''PARTICLES''] ''SURFACE''),
      (''generate_source_psys'', ''Particles'', EnumProperty [''ALL'', ''ALIVE''] ''ALIVE''),
      (''generate_algorithm'', ''Algorithm'',
        EnumProperty [''WEIGHTED_RANDOM_IN_TRIANGLE'', ''POISSON_DISK_SAMPLING'']
          ''WEIGHTED_RANDOM_IN_TRIANGLE''),
      (''generate_number_of_points'', ''Approximate Number Of Points'', IntProperty 100000 (Some 1) None),
      (''generate_seed'', ''Seed'', IntProperty 0 (Some 0) None),
      (''generate_colors'', ''Colors'',
        EnumProperty [''CONSTANT'', ''VCOLS'', ''UVTEX'', ''GROUP_MONO'', ''GROUP_COLOR''] ''CONSTANT''),
      (''generate_constant_color'', ''Color'', FloatVectorProperty [7 / 10, 7 / 10, 7 / 10] (Some 0) (Some 1)),
      (''generate_exact_number_of_points'', ''Exact Number of Samples'', BoolProperty False),
      (''generate_minimal_distance'', ''Minimal Distance'', FloatProperty (1 / 10) None None),
      (''generate_sampling_exponent'', ''Sampling Exponent'', IntProperty 5 (Some 1) None)]"

definition override_properties :: "property_row list" where
  "override_properties =
     [(''override_default_shader'', '''', BoolProperty False)]"

definition depth_properties :: "property_row list" where
  "depth_properties =
     [(''dev_depth_enabled'', ''Depth'', BoolProperty False),
      (''dev_depth_brightness'', ''Brightness'', FloatProperty 0 (Some (- 10)) (Some 10)),
      (''dev_depth_contrast'', ''Contrast'', FloatProperty 1 (Some (- 10)) (Some 10)),
      (''dev_depth_false_colors'', ''False Colors'', BoolProperty False),
      (''dev_depth_color_a'', ''Color A'', FloatVectorProperty [0, 1, 0] (Some 0) (Some 1)),
      (''dev_depth_color_b'', ''Color B'', FloatVectorProperty [0, 0, 1] (Some 0) (Some 1)),
      (''dev_normal_colors_enabled'', ''Normal'', BoolProperty False),
      (''dev_position_colors_enabled'', ''Position'', BoolProperty False),
      (''dev_bbox_enabled'', ''Bounding Box'', BoolProperty False),
      (''dev_bbox_color'', ''Color'', FloatVectorProperty [7 / 10, 7 / 10, 7 / 10] (Some 0) (Some 1)),
      (''dev_bbox_size'', ''Size'', FloatProperty (3 / 10) (Some (1 / 10)) (Some (9 / 10))),
      (''dev_bbox_alpha'', ''Alpha'', FloatProperty (7 / 10) (Some 0) (Some 1)),
      (''dev_selection_shader_display'', ''Selection'', BoolProperty False),
      (''dev_selection_shader_color'', ''Color'', FloatVectorProperty [1, 0, 0, 1 / 2] (Some 0) (Some 1))]"

definition color_adjustment_properties :: "property_row list" where
  "color_adjustment_properties =
     [(''color_adjustment_shader_enabled'', ''Enabled'', BoolProperty False),
      (''color_adjustment_shader_exposure'', ''Exposure'', FloatProperty 0 (Some (- 5)) (Some 5)),
      (''color_adjustment_shader_gamma'', ''Gamma'', FloatProperty 1 (Some (1 / 100)) (Some (999 / 100))),
      (''color_adjustment_shader_brightness'', ''Brightness'', FloatProperty 0 (Some (- 5)) (Some 5)),
      (''color_adjustment_shader_contrast'', ''Contrast'', FloatProperty 1 (Some 0) (Some 10)),
      (''color_adjustment_shader_hue'', ''Hue'', FloatProperty 0 (Some 0) (Some 1)),
      (''color_adjustment_shader_saturation'', ''Saturation'', FloatProperty 0 (Some (- 1)) (Some 1)),
      (''color_adjustment_shader_value'', ''Value'', FloatProperty 0 (Some (- 1)) (Some 1)),
      (''color_adjustment_shader_invert'', ''Invert'', BoolProperty False)]"

definition minimal_properties :: "property_row list" where
  "minimal_properties =
     [(''dev_minimal_shader_enabled'', ''Enabled'', BoolProperty False),
      (''dev_minimal_shader_variable_size_enabled'', ''Enabled'', BoolProperty False)]"

definition minimal_depth_properties :: "property_row list" where
  "minimal_depth_properties =
     [(''dev_minimal_shader_variable_size_and_depth_enabled'', ''Enabled'', BoolProperty False),
      (''dev_minimal_shader_variable_size_and_depth_brightness'', ''Brightness'',
        FloatProperty (1 / 4) (Some (- 10)) (Some 10)),
      (''dev_minimal_shader_variable_size_and_depth_contrast'', ''Contrast'',
        FloatProperty (1 / 2) (Some (- 10)) (Some 10)),
      (''dev_minimal_shader_variable_size_and_depth_blend'', ''Blend'', FloatProperty (3 / 4) (Some 0) (Some 1))]"

definition billboard_properties :: "property_row list" where
  "billboard_properties =
     [(''dev_billboard_point_cloud_enabled'', ''Enabled'', BoolProperty False),
      (''dev_billboard_point_cloud_size'', ''Size'', FloatProperty (1 / 500) (Some (1 / 10000)) (Some (1 / 5)))]"

definition rich_billboard_properties :: "property_row list" where
  "rich_billboard_properties =
     [(''dev_rich_billboard_point_cloud_enabled'', ''Enabled'', BoolProperty False),
      (''dev_rich_billboard_point_cloud_size'', ''Size'', FloatProperty (1 / 100) (Some (1 / 10000)) (Some 1)),
      (''dev_rich_billboard_depth_brightness'', ''Brightness'', FloatProperty (1 / 4) (Some (- 10)) (Some 10)),
      (''dev_rich_billboard_depth_contrast'', ''Contrast'', FloatProperty (1 / 2) (Some (- 10)) (Some 10)),
      (''dev_rich_billboard_depth_blend'', ''Blend'', FloatProperty (3 / 4) (Some 0) (Some 1))]"

definition rich_no_depth_properties :: "property_row list" where
  "rich_no_depth_properties =
     [(''dev_rich_billboard_point_cloud_no_depth_enabled'', ''Enabled'', BoolProperty False)]"

definition phong_properties :: "property_row list" where
  "phong_properties =
     [(''dev_phong_shader_enabled'', ''Enabled'', BoolProperty False),
      (''dev_phong_shader_ambient_strength'', ''ambient_strength'', FloatProperty (1 / 2) (Some 0) (Some 1)),
      (''dev_phong_shader_specular_strength'', ''specular_strength'', FloatProperty (1 / 2) (Some 0) (Some 1)),
      (''dev_phong_shader_specular_exponent'', ''specular_exponent'', FloatProperty 8 (Some 1) (Some 512)),
      (''debug_panel_show_properties'', '''', BoolProperty False),
      (''debug_panel_show_manager'', '''', BoolProperty False),
      (''debug_panel_show_sequence'', '''', BoolProperty False),
      (''debug_panel_show_cache_items'', '''', BoolProperty False),
      (''pcviv_debug_draw'', '''', StringProperty ''''),
      (''pcviv_debug_panel_show_info'', '''', BoolProperty False),
      (''pcviv_material_list_active_index'', ''Index'', IntProperty 0 None None)]"

definition transform_properties :: "property_row list" where
  "transform_properties =
     [(''dev_transform_normals_target_object'', ''Object'', PointerProperty)]"

definition clip_properties :: "property_row list" where
  "clip_properties =
     [(''clip_shader_enabled'', ''Enabled'', BoolProperty False),
      (''clip_plane0_enabled'', ''Enabled'', BoolProperty False),
      (''clip_plane1_enabled'', ''Enabled'', BoolProperty False),
      (''clip_plane2_enabled'', ''Enabled'', BoolProperty False),
      (''clip_plane3_enabled'', ''Enabled'', BoolProperty False),
      (''clip_plane4_enabled'', ''Enabled'', BoolProperty False),
      (''clip_plane5_enabled'', ''Enabled'', BoolProperty False),
      (''clip_plane0'', ''Plane 0'', FloatVectorProperty [0, 0, 0, 0] None None),
      (''clip_plane1'', ''Plane 1'', FloatVectorProperty [0, 0, 0, 0] None None),
      (''clip_plane2'', ''Plane 2'', FloatVectorProperty [0, 0, 0, 0] None None),
      (''clip_plane3'', ''Plane 3'', FloatVectorProperty [0, 0, 0, 0] None None),
      (''clip_plane4'', ''Plane 4'', FloatVectorProperty [0, 0, 0, 0] None None),
      (''clip_plane5'', ''Plane 5'', FloatVectorProperty [0, 0, 0, 0] None None)]"

definition clip_object_properties :: "property_row list" where
  "clip_object_properties =
     [(''clip_planes_from_bbox_object'', ''Object'', PointerProperty)]"

definition billboard_phong_properties :: "property_row list" where
  "billboard_phong_properties =
     [(''billboard_phong_enabled'', ''Enabled'', BoolProperty False),
      (''billboard_phong_circles'', ''Circles (slower)'', BoolProperty False),
      (''billboard_phong_size'', ''Size'', FloatProperty (1 / 500) (Some (1 / 10000)) (Some (1 / 5))),
      (''billboard_phong_ambient_strength'', ''Ambient'', FloatProperty (1 / 2) (Some 0) (Some 1)),
      (''billboard_phong_specular_strength'', ''Specular'', FloatProperty (1 / 2) (Some 0) (Some 1)),
      (''billboard_phong_specular_exponent'', ''Hardness'', FloatProperty 8 (Some 1) (Some 512))]"

definition skip_point_properties :: "property_row list" where
  "skip_point_properties =
     [(''skip_point_shader_enabled'', ''Enabled'', BoolProperty False),
      (''skip_point_percentage'', ''Skip Percentage'', FloatProperty 100 (Some 0) (Some 100))]"

definition pcv_properties :: "property_row list" where
  "pcv_properties = file_properties @ visualizer_properties @ point_properties @
     display_properties @ mesh_properties @ project_properties @
     boolean_properties @ edit_properties @ overlay_properties @
     generate_properties @ override_properties @ depth_properties @
     color_adjustment_properties @ minimal_properties @ minimal_depth_properties @
     billboard_properties @ rich_billboard_properties @ rich_no_depth_properties @
     phong_properties @ transform_properties @ clip_properties @
     clip_object_properties @ billboard_phong_properties @ skip_point_properties"

definition prop_label :: "string \<Rightarrow> string" where
  "prop_label i = (case map_of pcv_properties i of None \<Rightarrow> '''' | Some (n, _) \<Rightarrow> n @ '':'')"

section \<open>The preferences of the add-on\<close>

definition preference_properties :: "property_row list" where
  "preference_properties =
     [(''default_vertex_color'', ''Default'', FloatVectorProperty [65 / 100, 65 / 100, 65 / 100] (Some 0) (Some 1)),
      (''normal_color'', ''Normal'',
        FloatVectorProperty [(35 / 255) powr 2.2, (97 / 255) powr 2.2, (221 / 255) powr 2.2] (Some 0) (Some 1)),
      (''selection_color'', ''Selection'', FloatVectorProperty [1, 0, 0, 1 / 2] (Some 0) (Some 1)),
      (''convert_16bit_colors'', ''Convert 16bit Colors'', BoolProperty True),
      (''gamma_correct_16bit_colors'', ''Gamma Correct 16bit Colors'', BoolProperty False),
      (''shuffle_points'', ''Shuffle Points'', BoolProperty True),
      (''category'', ''Tab Name'', EnumProperty [''POINT_CLOUD_VISUALIZER'', ''PCV''] ''POINT_CLOUD_VISUALIZER''),
      (''category_custom'', ''Custom Tab Name'', BoolProperty False),
      (''category_custom_name'', ''Name'', StringProperty ''View'')]"

section \<open>Operators and classes\<close>

definition operator_names :: "(string \<times> string) list" where
  "operator_names =
     [(''PCV_OT_init'', ''point_cloud_visualizer.init''),
      (''PCV_OT_deinit'', ''point_cloud_visualizer.deinit''),
      (''PCV_OT_gc'', ''point_cloud_visualizer.gc''),
      (''PCV_OT_draw'', ''point_cloud_visualizer.draw''),
      (''PCV_OT_erase'', ''point_cloud_visualizer.erase''),
      (''PCV_OT_load'', ''point_cloud_visualizer.load_ply_to_cache''),
      (''PCV_OT_render'', ''point_cloud_visualizer.render''),
      (''PCV_OT_render_animation'', ''point_cloud_visualizer.render_animation''),
      (''PCV_OT_convert'', ''point_cloud_visualizer.convert''),
      (''PCV_OT_export'', ''point_cloud_visualizer.export''),
      (''PCV_OT_filter_simplify'', ''point_cloud_visualizer.filter_simplify''),
      (''PCV_OT_filter_project'', ''point_cloud_visualizer.filter_project''),
      (''PCV_OT_filter_remove_color'', ''point_cloud_visualizer.filter_remove_color''),
      (''PCV_OT_filter_remove_color_deselect'', ''point_cloud_visualizer.filter_remove_color_deselect''),
      (''PCV_OT_filter_remove_color_delete_selected'', ''point_cloud_visualizer.filter_remove_color_delete_selected''),
      (''PCV_OT_edit_start'', ''point_cloud_visualizer.edit_start''),
      (''PCV_OT_edit_update'', ''point_cloud_visualizer.edit_update''),
      (''PCV_OT_edit_end'', ''point_cloud_visualizer.edit_end''),
      (''PCV_OT_edit_cancel'', ''point_cloud_visualizer.edit_cancel''),
      (''PCV_OT_filter_merge'', ''point_cloud_visualizer.filter_merge''),
      (''PCV_OT_filter_join'', ''point_cloud_visualizer.filter_join''),
      (''PCV_OT_filter_boolean_intersect'', ''point_cloud_visualizer.filter_boolean_intersect''),
      (''PCV_OT_filter_boolean_exclude'', ''point_cloud_visualizer.filter_boolean_exclude''),
      (''PCV_OT_reload'', ''point_cloud_visualizer.reload''),
      (''PCV_OT_sequence_preload'', ''point_cloud_visualizer.sequence_preload''),
      (''PCV_OT_sequence_clear'', ''point_cloud_visualizer.sequence_clear''),
      (''PCV_OT_seq_init'', ''point_cloud_visualizer.seq_init''),
      (''PCV_OT_seq_deinit'', ''point_cloud_visualizer.seq_deinit''),
      (''PCV_OT_generate_point_cloud'', ''point_cloud_visualizer.generate_from_mesh''),
      (''PCV_OT_reset_runtime'', ''point_cloud_visualizer.reset_runtime''),
      (''PCV_OT_generate_volume_point_cloud'', ''point_cloud_visualizer.generate_volume_from_mesh''),
      (''PCV_OT_color_adjustment_shader_reset'', ''point_cloud_visualizer.color_adjustment_shader_reset''),
      (''PCV_OT_color_adjustment_shader_apply'', ''point_cloud_visualizer.color_adjustment_shader_apply''),
      (''PCV_OT_clip_planes_from_bbox'', ''point_cloud_visualizer.clip_planes_from_bbox''),
      (''PCV_OT_clip_planes_reset'', ''point_cloud_visualizer.clip_planes_reset''),
      (''PCV_OT_clip_planes_from_camera_view'', ''point_cloud_visualizer.clip_planes_from_camera_view'')]"

definition classes :: "string list" where
  "classes =
     [''PCV_properties'', ''PCV_preferences'', ''PCV_PT_panel'', ''PCV_PT_clip'', ''PCV_PT_edit'',
      ''PCV_PT_filter'', ''PCV_PT_filter_simplify'', ''PCV_PT_filter_project'', ''PCV_PT_filter_boolean'',
      ''PCV_PT_filter_remove_color'', ''PCV_PT_filter_merge'', ''PCV_PT_filter_join'',
      ''PCV_PT_filter_color_adjustment'', ''PCV_PT_render'', ''PCV_PT_convert'', ''PCV_PT_generate'',
      ''PCV_PT_export'', ''PCV_PT_sequence'', ''PCV_OT_load'', ''PCV_OT_draw'', ''PCV_OT_erase'',
      ''PCV_OT_render'', ''PCV_OT_render_animation'', ''PCV_OT_convert'', ''PCV_OT_reload'', ''PCV_OT_export'',
      ''PCV_OT_filter_simplify'', ''PCV_OT_filter_remove_color'',
      ''PCV_OT_filter_remove_color_delete_selected'', ''PCV_OT_filter_remove_color_deselect'',
      ''PCV_OT_filter_project'', ''PCV_OT_filter_merge'', ''PCV_OT_filter_boolean_intersect'',
      ''PCV_OT_filter_boolean_exclude'', ''PCV_OT_edit_start'', ''PCV_OT_edit_update'', ''PCV_OT_edit_end'',
      ''PCV_OT_edit_cancel'', ''PCV_OT_sequence_preload'', ''PCV_OT_sequence_clear'',
      ''PCV_OT_generate_point_cloud'', ''PCV_OT_reset_runtime'', ''PCV_OT_color_adjustment_shader_reset'',
      ''PCV_OT_color_adjustment_shader_apply'', ''PCV_OT_filter_join'', ''PCV_PT_development'',
      ''PCV_OT_generate_volume_point_cloud'', ''PCV_OT_clip_planes_from_bbox'', ''PCV_OT_clip_planes_reset'',
      ''PCV_OT_clip_planes_from_camera_view'', ''PCV_PT_debug'', ''PCV_OT_init'', ''PCV_OT_deinit'',
      ''PCV_OT_gc'', ''PCV_OT_seq_init'', ''PCV_OT_seq_deinit'']"

end
