(* ===== verification/PCV_Samplers.thy ===== *)
theory PCV_Samplers
  imports PCV_Resample PCV_Control
begin

text \<open>
  The samplers that make a point cloud from an object (\<open>PCVTriangleSurfaceSampler\<close>,
  \<open>PCVPoissonDiskSurfaceSampler\<close>, \<open>PCVVertexSampler\<close>, \<open>PCVParticleSystemSampler\<close>,
  \<open>PCVRandomVolumeSampler\<close>) and the two operators that call them.
\<close>

section \<open>What is sampled, and with what\<close>

text \<open>
  A face of the triangulated mesh, a vertex with the colours and UV coordinates of its
  loops, a polygon of the mesh that has not been triangulated, and a particle. The weight
  of a vertex is that in the active group, 0 when it is not in it.
\<close>

record sample_face =
  sg_face :: face
  sg_area :: real
  sg_normal :: v3
  sg_smooth :: bool
  sg_vnormals :: "v3 \<times> v3 \<times> v3"

record sample_vert =
  vt_co :: v3
  vt_normal :: v3
  vt_cols :: "v3 list"
  vt_uvs :: "(real \<times> real) list"
  vt_weight :: real

record sample_poly =
  pg_cols :: "v3 list"
  pg_uvs :: "(real \<times> real) list"
  pg_weights :: "real list"

record particle =
  pl_alive :: bool
  pl_location :: v3
  pl_rotate :: "v3 \<Rightarrow> v3"
  pl_uv :: "real \<times> real"

text \<open>
  The evaluated mesh of an object as the samplers read it; \<open>sm_areas\<close> are the areas of
  \<open>o.data.polygons\<close>, which only a mesh has, \<open>sm_particles\<close> the active particle system.
\<close>

record sample_source =
  sm_faces :: "sample_face list"
  sm_verts :: "sample_vert list"
  sm_polys :: "sample_poly list"
  sm_areas :: "real list option"
  sm_particles :: "particle list option"
  sm_uvtex :: bool
  sm_paint :: paint_source

text \<open>
  What the samplers call: a random number generator with its state (\<open>random.Random\<close>), the
  permutation of numpy's shuffle per call, \<open>KDTree.find_range\<close> as the indices it finds, the
  order in which Python runs through a set of indices, \<open>BVHTree.ray_cast\<close> as the face it
  hits, and \<open>bl_weights\<close> and the like.
\<close>

record 's sampler_env =
  sv_bl :: blender
  sv_seed :: "int \<Rightarrow> 's"
  sv_random :: "'s \<Rightarrow> real \<times> 's"
  sv_below :: "nat \<Rightarrow> 's \<Rightarrow> nat \<times> 's"
  sv_perm :: "nat \<Rightarrow> nat \<Rightarrow> nat list"
  sv_range :: "v3 list \<Rightarrow> v3 \<Rightarrow> real \<Rightarrow> nat list"
  sv_order :: "nat list \<Rightarrow> nat list"
  sv_bvh :: "v3 list list \<Rightarrow> v3 \<Rightarrow> v3 \<Rightarrow> real \<Rightarrow> nat option"

text \<open>A generated point: location, normal and colour.\<close>

type_synonym sample = "v3 \<times> v3 \<times> v3"

section \<open>Where colours come from\<close>

definition sampler_source_check :: "string option \<Rightarrow> paint_source \<Rightarrow> py_error + unit" where
  "sampler_source_check colorize ps =
     (if colorize = Some ''UVTEX'' then
        (if \<not> ps_material ps then Inl (Py_Exception ''Cannot find active material'')
         else (case ps_node ps of
                 None \<Rightarrow> Inl (Py_Exception ''Cannot find active image texture in active material'')
               | Some (t, im) \<Rightarrow>
                   if t \<notin> {''TEX_IMAGE'', ''TEX_ENVIRONMENT''} then Inl (Py_Exception ''object has no attribute image'')
                   else if im = None
                   then Inl (Py_Exception ''Cannot find active image texture with loaded image in active material'')
                   else if \<not> ps_uv_layer ps then Inl (Py_Exception ''Cannot find active UV layout'')
                   else Inr ()))
      else if colorize = Some ''VCOLS'' then
        (if ps_color_layer ps then Inr () else Inl (Py_Exception ''Cannot find active vertex colors''))
      else if colorize = Some ''GROUP_MONO'' \<or> colorize = Some ''GROUP_COLOR'' then
        (if ps_group_layer ps then Inr () else Inl (Py_Exception ''Cannot find active vertex group''))
      else Inr ())"

text \<open>The colour of a vertex group's weight.\<close>

definition weight_color :: "blender \<Rightarrow> real \<Rightarrow> v3" where
  "weight_color bl m = bl_from_hsv bl (remap (1 - m) 0 1 0 (1 / (3 / 2)), 1, 1)"

definition paint_image :: "paint_source \<Rightarrow> py_error + image" where
  "paint_image ps = (case ps_node ps of Some (_, Some im) \<Rightarrow> Inr im | _ \<Rightarrow> Inl AttributeError)"

definition sample_color ::
    "blender \<Rightarrow> string option \<Rightarrow> v3 \<Rightarrow> paint_source \<Rightarrow> face \<Rightarrow> v3 \<Rightarrow> py_error + v3" where
  "sample_color bl colorize const ps poly v =
     (case fa_verts poly of (pa, pb, pc) \<Rightarrow>
      (let ws = bl_weights bl [pa, pb, pc] v;
           m = weighted3 ws (fa_weights poly)
       in if colorize = None then Inr (1, 0, 0)
          else if colorize = Some ''CONSTANT'' then Inr const
          else if colorize = Some ''VCOLS'' then
            (case fa_cols poly of ((ar, ag, ab), (br, bg, bb), (cr, cg, cb)) \<Rightarrow>
               Inr (weighted3 ws (ar, br, cr), weighted3 ws (ag, bg, cg), weighted3 ws (ab, bb, cb)))
          else if colorize = Some ''UVTEX'' then
            bindE (paint_image ps) (\<lambda>im.
              case fa_uvs poly of ((ua, va), (ub, vb), (uc, vc)) \<Rightarrow>
                uv_color im (bl_barycentric bl v pa pb pc (ua, va, 0) (ub, vb, 0) (uc, vc, 0)))
          else if colorize = Some ''GROUP_MONO'' then Inr (m, m, m)
          else Inr (weight_color bl m)))"

section \<open>PCVTriangleSurfaceSampler\<close>

definition median :: "real list \<Rightarrow> real" where
  "median xs =
     (let s = sort xs; n = length s
      in if odd n then s ! (n div 2) else (s ! (n div 2 - 1) + s ! (n div 2)) / 2)"

text \<open>How many points a face is to have, as a share of the average per face.\<close>

definition face_shares :: "int \<Rightarrow> sample_face list \<Rightarrow> py_error + real list" where
  "face_shares num_samples faces =
     (let areas = map sg_area faces
      in if faces = [] then Inl (Py_Exception ''Mesh has no faces'')
         else if sum_list areas = 0 then Inl (Py_Exception ''Mesh surface area is zero'')
         else if median areas = 0 then Inl ZeroDivisionError
         else (let avg_ppf = real_of_int num_samples / real (length areas)
               in Inr (map (\<lambda>p. avg_ppf * (sg_area p / median areas)) faces)))"

definition face_number :: "real list \<Rightarrow> real list \<Rightarrow> real \<Rightarrow> int" where
  "face_number areas nums a =
     py_round (remap a (Min (set areas)) (Max (set areas)) (Min (set nums)) (Max (set nums)))"

definition random_point_in_triangle :: "'s sampler_env \<Rightarrow> v3 \<times> v3 \<times> v3 \<Rightarrow> 's \<Rightarrow> v3 \<times> 's" where
  "random_point_in_triangle ev tri s =
     (case tri of (a, b, c) \<Rightarrow>
      (case sv_random ev s of (r1, s1) \<Rightarrow>
       (case sv_random ev s1 of (r2, s2) \<Rightarrow>
          (v3_add (v3_add (v3_scale (1 - sqrt r1) a) (v3_scale (sqrt r1 * (1 - r2)) b))
                  (v3_scale (sqrt r1 * r2) c), s2))))"

text \<open>The normal of a smooth face is interpolated with weights taken from the normals.\<close>

definition sample_normal :: "blender \<Rightarrow> sample_face \<Rightarrow> v3 \<Rightarrow> v3" where
  "sample_normal bl poly v =
     (if sg_smooth poly
      then (case sg_vnormals poly of ((ax, ay, az), (bx, by', bz), (cx, cy, cz)) \<Rightarrow>
              (let nws = bl_weights bl [(ax, ay, az), (bx, by', bz), (cx, cy, cz)] v
               in v3_normalized (weighted3 nws (ax, bx, cx), weighted3 nws (ay, by', cy), weighted3 nws (az, bz, cz))))
      else sg_normal poly)"

text \<open>\<open>num\<close> points on one face.\<close>

fun generate ::
    "'s sampler_env \<Rightarrow> string option \<Rightarrow> v3 \<Rightarrow> paint_source \<Rightarrow> sample_face \<Rightarrow> nat \<Rightarrow> 's \<Rightarrow> py_error + sample list \<times> 's" where
  "generate ev colorize const ps poly 0 s = Inr ([], s)"
| "generate ev colorize const ps poly (Suc num) s =
     (case random_point_in_triangle ev (fa_verts (sg_face poly)) s of (v, s1) \<Rightarrow>
        bindE (sample_color (sv_bl ev) colorize const ps (sg_face poly) v) (\<lambda>c.
          bindE (generate ev colorize const ps poly num s1) (\<lambda>(xs, s2).
            Inr ((v, sample_normal (sv_bl ev) poly v, c) # xs, s2))))"

fun generate_faces ::
    "'s sampler_env \<Rightarrow> string option \<Rightarrow> v3 \<Rightarrow> paint_source \<Rightarrow> (real \<Rightarrow> int) \<Rightarrow> sample_face list \<Rightarrow> 's
       \<Rightarrow> py_error + sample list \<times> 's" where
  "generate_faces ev colorize const ps number [] s = Inr ([], s)"
| "generate_faces ev colorize const ps number (poly # polys) s =
     bindE (generate ev colorize const ps poly (nat (number (sg_area poly))) s) (\<lambda>(xs, s1).
       bindE (generate_faces ev colorize const ps number polys s1) (\<lambda>(ys, s2). Inr (xs @ ys, s2)))"

lemma generate_length:
  "generate ev colorize const ps poly num s = Inr (xs, s') \<Longrightarrow> length xs = num"
  by (induction num arbitrary: s xs s') (auto simp: bindE_eq_Inr split: prod.splits)

text \<open>While there are too few points: one more on a random face.\<close>

function extra_samples ::
    "'s sampler_env \<Rightarrow> string option \<Rightarrow> v3 \<Rightarrow> paint_source \<Rightarrow> sample_face list \<Rightarrow> int \<Rightarrow> sample list \<Rightarrow> 's
       \<Rightarrow> py_error + sample list \<times> 's" where
  "extra_samples ev colorize const ps faces num_samples xs s =
     (if int (length xs) < num_samples
      then (case sv_below ev (length faces) s of (i, s1) \<Rightarrow>
              bindE (generate ev colorize const ps (faces ! i) 1 s1) (\<lambda>(ys, s2).
                extra_samples ev colorize const ps faces num_samples (xs @ ys) s2))
      else Inr (xs, s))"
  by pat_completeness auto
termination
  by (relation "measure (\<lambda>(ev, colorize, const, ps, faces, num_samples, xs, s). nat (num_samples - int (length xs)))")
    (auto simp del: generate.simps dest!: generate_length)

declare extra_samples.simps [simp del]

definition no_points :: string where
  "no_points = ''No points generated, increase number of points or decrease minimal distance''"

definition PCVTriangleSurfaceSampler ::
    "'s sampler_env \<Rightarrow> string option \<Rightarrow> v3 \<Rightarrow> bool \<Rightarrow> int \<Rightarrow> sample_source \<Rightarrow> 's \<Rightarrow> py_error + sample list \<times> 's" where
  "PCVTriangleSurfaceSampler ev colorize const exact num_samples src s =
     bindE (face_shares num_samples (sm_faces src)) (\<lambda>nums.
     bindE (sampler_source_check colorize (sm_paint src)) (\<lambda>_.
     bindE (generate_faces ev colorize const (sm_paint src) (face_number (map sg_area (sm_faces src)) nums)
              (sm_faces src) s) (\<lambda>(xs, s1).
     bindE (if exact then extra_samples ev colorize const (sm_paint src) (sm_faces src) num_samples xs s1
            else Inr (xs, s1)) (\<lambda>(ys, s2).
       let zs = (if exact \<and> num_samples < int (length ys)
                 then py_take num_samples (np_shuffle (sv_perm ev 0) ys) else ys)
       in if zs = [] then Inl (Py_Exception no_points)
          else Inr (np_shuffle (sv_perm ev 1) zs, s2)))))"

section \<open>PCVPoissonDiskSurfaceSampler\<close>

text \<open>The number of points sampled in advance; \<open>minimal_distance\<close> may be 0.\<close>

definition num_presamples :: "real list option \<Rightarrow> real \<Rightarrow> int \<Rightarrow> py_error + int" where
  "num_presamples areas d exponent =
     (case areas of
        None \<Rightarrow> Inl AttributeError
      | Some as \<Rightarrow> if d ^ 2 = 0 then Inl ZeroDivisionError
                   else Inr (py_int (sum_list as / d ^ 2 * real_of_int exponent)))"

text \<open>Draw indices until one is found that is not used yet. The loop need not end.\<close>

partial_function (option) random_point :: "'s sampler_env \<Rightarrow> bool list \<Rightarrow> 's \<Rightarrow> (nat \<times> bool list \<times> 's) option" where
  "random_point ev bs s =
     (case sv_below ev (length bs) s of (i, s1) \<Rightarrow>
        if bs ! i then Some (i, bs[i := False], s1) else random_point ev bs s1)"

text \<open>The unused points of a set of indices, which are used up.\<close>

fun annulus_loop :: "sample list \<Rightarrow> nat list \<Rightarrow> bool list \<Rightarrow> sample list \<times> bool list" where
  "annulus_loop pts [] bs = ([], bs)"
| "annulus_loop pts (i # is) bs =
     (if bs ! i then (case annulus_loop pts is (bs[i := False]) of (pool, bs') \<Rightarrow> (pts ! i # pool, bs'))
      else annulus_loop pts is bs)"

definition annulus_points ::
    "'s sampler_env \<Rightarrow> real \<Rightarrow> sample list \<Rightarrow> bool list \<Rightarrow> sample \<Rightarrow> sample list \<times> bool list" where
  "annulus_points ev d pts bs c =
     (let ball = sv_range ev (map fst pts) (fst c) d;
          ball2 = sv_range ev (map fst pts) (fst c) (d * 2)
      in annulus_loop pts (sv_order ev (filter (\<lambda>i. i \<notin> set ball) ball2)) bs)"

text \<open>Every point that is far enough from all candidates and accepted points becomes a candidate.\<close>

fun add_candidates ::
    "'s sampler_env \<Rightarrow> real \<Rightarrow> sample list \<Rightarrow> sample list \<Rightarrow> sample list \<Rightarrow> sample list \<times> bool" where
  "add_candidates ev d accepted candidates [] = (candidates, False)"
| "add_candidates ev d accepted candidates (a # ap) =
     (if sv_range ev (map fst (candidates @ accepted)) (fst a) d = []
      then (fst (add_candidates ev d accepted (candidates @ [a]) ap), True)
      else add_candidates ev d accepted candidates ap)"

text \<open>
  One round of the loop: the used points, the candidates and the accepted points. A candidate
  that brings no new one is accepted.
\<close>

definition poisson_round ::
    "'s sampler_env \<Rightarrow> real \<Rightarrow> sample list \<Rightarrow> bool list \<times> sample list \<times> sample list \<Rightarrow> 's
       \<Rightarrow> (bool list \<times> sample list \<times> sample list) \<times> 's" where
  "poisson_round ev d pts st s =
     (case st of (bs, candidates, accepted) \<Rightarrow>
      (case sv_below ev (length candidates) s of (i, s1) \<Rightarrow>
       (let c = candidates ! i
        in case annulus_points ev d pts bs c of (ap, bs1) \<Rightarrow>
           (case add_candidates ev d accepted candidates ap of (candidates1, na) \<Rightarrow>
              (if na then (bs1, candidates1, accepted)
               else (bs1, remove1 c candidates1, accepted @ [c]), s1)))))"

partial_function (option) poisson_loop ::
    "'s sampler_env \<Rightarrow> real \<Rightarrow> sample list \<Rightarrow> bool list \<times> sample list \<times> sample list \<Rightarrow> 's \<Rightarrow> (sample list \<times> 's) option" where
  "poisson_loop ev d pts st s =
     (case poisson_round ev d pts st s of ((bs, candidates, accepted), s1) \<Rightarrow>
        if candidates = [] then Some (accepted, s1)
        else poisson_loop ev d pts (bs, candidates, accepted) s1)"

definition poisson_select ::
    "'s sampler_env \<Rightarrow> real \<Rightarrow> sample list \<Rightarrow> 's \<Rightarrow> (sample list \<times> 's) option" where
  "poisson_select ev d pts s =
     (case random_point ev (replicate (length pts) True) s of
        None \<Rightarrow> None
      | Some (i, bs, s1) \<Rightarrow> poisson_loop ev d pts (bs, [pts ! i], []) s1)"

text \<open>\<open>None\<close> when the sampling does not end.\<close>

definition PCVPoissonDiskSurfaceSampler ::
    "'s sampler_env \<Rightarrow> string option \<Rightarrow> v3 \<Rightarrow> real \<Rightarrow> int \<Rightarrow> sample_source \<Rightarrow> 's \<Rightarrow> (py_error + sample list \<times> 's) option" where
  "PCVPoissonDiskSurfaceSampler ev colorize const d exponent src s =
     (case bindE (num_presamples (sm_areas src) d exponent) (\<lambda>n.
             PCVTriangleSurfaceSampler ev colorize const False n src s) of
        Inl e \<Rightarrow> Some (Inl e)
      | Inr (pts, s1) \<Rightarrow> map_option Inr (poisson_select ev d pts s1))"

section \<open>PCVVertexSampler\<close>

text \<open>The mean over the loops of a vertex; a vertex without loops divides by zero.\<close>

definition mean_color :: "v3 list \<Rightarrow> py_error + v3" where
  "mean_color cs =
     (if cs = [] then Inl ZeroDivisionError
      else (let n = real (length cs)
            in Inr (sum_list (map (\<lambda>(r, g, b). r) cs) / n, sum_list (map (\<lambda>(r, g, b). g) cs) / n,
                    sum_list (map (\<lambda>(r, g, b). b) cs) / n)))"

definition vertex_color :: "blender \<Rightarrow> string option \<Rightarrow> v3 \<Rightarrow> paint_source \<Rightarrow> sample_vert \<Rightarrow> py_error + v3" where
  "vertex_color bl colorize const ps v =
     (if colorize = None then Inr (1, 0, 0)
      else if colorize = Some ''CONSTANT'' then Inr const
      else if colorize = Some ''VCOLS'' then mean_color (vt_cols v)
      else if colorize = Some ''UVTEX'' then
        bindE (paint_image ps) (\<lambda>im. bindE (mapE (\<lambda>(x, y). uv_color im (x, y, 0)) (vt_uvs v)) mean_color)
      else if colorize = Some ''GROUP_MONO'' then Inr (vt_weight v, vt_weight v, vt_weight v)
      else Inr (weight_color bl (vt_weight v)))"

definition PCVVertexSampler ::
    "'s sampler_env \<Rightarrow> string option \<Rightarrow> v3 \<Rightarrow> sample_source \<Rightarrow> py_error + sample list" where
  "PCVVertexSampler ev colorize const src =
     (if sm_verts src = [] then Inl (Py_Exception ''Mesh has no vertices'')
      else if colorize \<in> {Some ''UVTEX'', Some ''VCOLS''} \<and> sm_faces src = []
      then Inl (Py_Exception ''Mesh has no faces'')
      else bindE (sampler_source_check colorize (sm_paint src)) (\<lambda>_.
        bindE (mapE (\<lambda>v. bindE (vertex_color (sv_bl ev) colorize const (sm_paint src) v) (\<lambda>c.
                        Inr (vt_co v, vt_normal v, c))) (sm_verts src)) (\<lambda>xs.
          Inr (np_shuffle (sv_perm ev 0) xs))))"

section \<open>PCVParticleSystemSampler\<close>

definition particle_source_check :: "bool \<Rightarrow> string option \<Rightarrow> paint_source \<Rightarrow> py_error + unit" where
  "particle_source_check uvtex colorize ps =
     (let mapped = colorize \<in> Some ` {''VCOLS'', ''UVTEX'', ''GROUP_MONO'', ''GROUP_COLOR''}
      in if mapped \<and> \<not> uvtex then Inl (Py_Exception ''Cannot find active uv layout on emitter'')
         else bindE (sampler_source_check colorize ps) (\<lambda>_.
           if mapped \<and> colorize \<noteq> Some ''UVTEX'' \<and> \<not> ps_uv_layer ps
           then Inl (Py_Exception ''Cannot find active UV layout'') else Inr ()))"

text \<open>The polygons in the UV plane.\<close>

definition simple_flatten_uv_mesh :: "sample_poly list \<Rightarrow> v3 list list" where
  "simple_flatten_uv_mesh polys = map (\<lambda>p. map (\<lambda>(x, y). (x, y, 0)) (pg_uvs p)) polys"

text \<open>
  The polygon a particle's UV location lies in, and the weights of its corners: those of the
  flattened polygon at the particle's location.
\<close>

definition emitter_poly ::
    "'s sampler_env \<Rightarrow> sample_poly list \<Rightarrow> particle \<Rightarrow> py_error + sample_poly \<times> real list" where
  "emitter_poly ev polys p =
     (let flat = simple_flatten_uv_mesh polys
      in case sv_bvh ev flat (fst (pl_uv p), snd (pl_uv p), - 1 / 10) (0, 0, 1) (2 / 10) of
           None \<Rightarrow> Inl (TypeError ''indices must be integers, not NoneType'')
         | Some fi \<Rightarrow> bindE (py_get polys (int fi)) (\<lambda>poly.
             Inr (poly, bl_weights (sv_bl ev) (flat ! fi) (pl_location p))))"

definition weighted_sum :: "real list \<Rightarrow> real list \<Rightarrow> real" where
  "weighted_sum ws xs = sum_list (map (\<lambda>(x, w). x * w) (zip xs ws))"

definition particle_color ::
    "'s sampler_env \<Rightarrow> string option \<Rightarrow> v3 \<Rightarrow> paint_source \<Rightarrow> sample_poly list \<Rightarrow> particle \<Rightarrow> py_error + v3" where
  "particle_color ev colorize const ps polys p =
     (if colorize = None then Inr (1, 0, 0)
      else if colorize = Some ''CONSTANT'' then Inr const
      else if colorize = Some ''VCOLS'' then
        bindE (emitter_poly ev polys p) (\<lambda>(poly, ws).
          Inr (weighted_sum ws (map (\<lambda>(r, g, b). r) (pg_cols poly)),
               weighted_sum ws (map (\<lambda>(r, g, b). g) (pg_cols poly)),
               weighted_sum ws (map (\<lambda>(r, g, b). b) (pg_cols poly))))
      else if colorize = Some ''UVTEX'' then
        bindE (paint_image ps) (\<lambda>im. uv_color im (fst (pl_uv p), snd (pl_uv p), 0))
      else bindE (emitter_poly ev polys p) (\<lambda>(poly, ws).
        let w = weighted_sum ws (pg_weights poly)
        in Inr (if colorize = Some ''GROUP_MONO'' then (w, w, w) else weight_color (sv_bl ev) w)))"

definition PCVParticleSystemSampler ::
    "'s sampler_env \<Rightarrow> bool \<Rightarrow> string option \<Rightarrow> v3 \<Rightarrow> sample_source \<Rightarrow> py_error + sample list" where
  "PCVParticleSystemSampler ev alive_only colorize const src =
     (case sm_particles src of
        None \<Rightarrow> Inl (Py_Exception ''Cannot find active particle system'')
      | Some ps \<Rightarrow>
          if ps = [] then Inl (Py_Exception ''Active particle system has 0 particles'')
          else if alive_only \<and> \<not> list_ex pl_alive ps
          then Inl (Py_Exception ''Active particle system has 0 alive particles'')
          else bindE (particle_source_check (sm_uvtex src) colorize (sm_paint src)) (\<lambda>_.
            bindE (mapE (\<lambda>p. bindE (particle_color ev colorize const (sm_paint src) (sm_polys src) p) (\<lambda>c.
                            Inr (pl_location p, v3_normalized (pl_rotate p (1, 0, 0)), c)))
                    (filter (\<lambda>p. pl_alive p \<or> \<not> alive_only) ps)) (\<lambda>xs.
              Inr (np_shuffle (sv_perm ev 0) xs))))"

section \<open>PCVRandomVolumeSampler\<close>

text \<open>
  The object as the volume sampler reads it: its bounding box, the location \<open>ob.ray_cast\<close>
  hits from an origin along its second argument, and the location and normal of the closest
  point on the mesh.
\<close>

record volume =
  vo_bbox :: "v3 list"
  vo_ray :: "v3 \<Rightarrow> v3 \<Rightarrow> v3 option"
  vo_closest :: "v3 \<Rightarrow> (v3 \<times> v3) option"

text \<open>The hits along one axis, each ray starting a little behind the last hit.\<close>

partial_function (option) axis_hits :: "volume \<Rightarrow> v3 \<Rightarrow> v3 \<Rightarrow> nat \<Rightarrow> nat option" where
  "axis_hits ob a o' c =
     (case vo_ray ob o' (v3_add o' (v3_scale 10000 a)) of
        None \<Rightarrow> Some c
      | Some l \<Rightarrow> axis_hits ob a (v3_add l (v3_scale (1 / 100000) a)) (c + 1))"

text \<open>Inside when the number of hits is odd along every axis; the first even one ends the loop.\<close>

fun odd_axes :: "volume \<Rightarrow> v3 list \<Rightarrow> v3 \<Rightarrow> bool option" where
  "odd_axes ob [] point = Some True"
| "odd_axes ob (a # axes) point =
     (case axis_hits ob a point 0 of
        None \<Rightarrow> None
      | Some c \<Rightarrow> if even c then Some False else odd_axes ob axes point)"

definition is_point_inside_mesh_v1 :: "volume \<Rightarrow> v3 \<Rightarrow> bool option" where
  "is_point_inside_mesh_v1 ob point = odd_axes ob [(1, 0, 0), (0, 1, 0), (0, 0, 1)] point"

partial_function (option) up_hits :: "volume \<Rightarrow> real \<Rightarrow> real \<Rightarrow> v3 \<Rightarrow> nat \<Rightarrow> nat option" where
  "up_hits ob shift search_distance loc n =
     (case vo_ray ob (shift_along loc (0, 0, 1) shift) (shift_along loc (0, 0, 1) search_distance) of
        None \<Rightarrow> Some n
      | Some l \<Rightarrow> up_hits ob shift search_distance l (n + 1))"

definition is_point_inside_mesh_v2 :: "volume \<Rightarrow> v3 \<Rightarrow> bool option" where
  "is_point_inside_mesh_v2 ob p = map_option (\<lambda>n. n mod 2 = 1) (up_hits ob (1 / 1000000) 10000 p 0)"

definition volume_inside_mesh_v3 :: "volume \<Rightarrow> v3 \<Rightarrow> v3 option" where
  "volume_inside_mesh_v3 ob p =
     (case vo_closest ob p of
        None \<Rightarrow> None
      | Some (loc, nor) \<Rightarrow> if v3_dot (v3_sub loc p) nor \<ge> 0 then Some nor else None)"

definition max_values :: "v3 list \<Rightarrow> v3 \<times> v3" where
  "max_values bbox =
     (let x = sort (map fst bbox); y = sort (map (\<lambda>b. fst (snd b)) bbox); z = sort (map (\<lambda>b. snd (snd b)) bbox)
      in ((hd x, hd y, hd z), (last x, last y, last z)))"

definition volume_sample :: "'s sampler_env \<Rightarrow> v3 \<times> v3 \<Rightarrow> 's \<Rightarrow> v3 \<times> 's" where
  "volume_sample ev box s =
     (case box of ((xmin, ymin, zmin), (xmax, ymax, zmax)) \<Rightarrow>
      (case sv_random ev s of (rx, s1) \<Rightarrow> case sv_random ev s1 of (ry, s2) \<Rightarrow> case sv_random ev s2 of (rz, s3) \<Rightarrow>
         ((remap rx 0 1 xmin xmax, remap ry 0 1 ymin ymax, remap rz 0 1 zmin zmax), s3)))"

text \<open>All three tests are made for every sample; the normal is the one of the closest point.\<close>

definition inside_tests :: "volume \<Rightarrow> v3 \<Rightarrow> v3 option option" where
  "inside_tests ob a =
     (case (is_point_inside_mesh_v1 ob a, is_point_inside_mesh_v2 ob a) of
        (Some ok1, Some ok2) \<Rightarrow> Some (if ok1 \<and> ok2 then volume_inside_mesh_v3 ob a else None)
      | _ \<Rightarrow> None)"

text \<open>\<open>None\<close> when the loop, or one of the loops over hits, does not end.\<close>

partial_function (option) volume_loop ::
    "'s sampler_env \<Rightarrow> volume \<Rightarrow> int \<Rightarrow> sample list \<Rightarrow> 's \<Rightarrow> (sample list \<times> 's) option" where
  "volume_loop ev ob num_samples xs s =
     (if int (length xs) < num_samples
      then (case volume_sample ev (max_values (vo_bbox ob)) s of (a, s1) \<Rightarrow>
              (case inside_tests ob a of
                 None \<Rightarrow> None
               | Some None \<Rightarrow> volume_loop ev ob num_samples xs s1
               | Some (Some normal) \<Rightarrow> volume_loop ev ob num_samples (xs @ [(a, normal, (1, 1, 1))]) s1))
      else Some (xs, s))"

definition PCVRandomVolumeSampler ::
    "'s sampler_env \<Rightarrow> volume \<Rightarrow> int \<Rightarrow> 's \<Rightarrow> (sample list \<times> 's) option" where
  "PCVRandomVolumeSampler ev ob num_samples s = volume_loop ev ob num_samples [] s"

section \<open>The operators\<close>

text \<open>What both operators do with the points: a shown cloud is hidden, the new one drawn.\<close>

definition draw_samples :: "num_env \<Rightarrow> string \<Rightarrow> string \<Rightarrow> sample list \<Rightarrow> world \<Rightarrow> status \<times> world" where
  "draw_samples ne u n0 xs w =
     (let draw = (\<lambda>w1. status_of (PCVControl_draw ne u n0 (Some (map fst xs)) (Some (map (\<lambda>x. fst (snd x)) xs))
                                   (Some (map (\<lambda>x. snd (snd x)) xs)) (PCVControl_init w1)))
      in case get_pcv w n0 of
           None \<Rightarrow> (Raised AttributeError, w)
         | Some p \<Rightarrow>
             if shown w (p_uuid p)
             then (case bpy_op PCV_OT_erase_poll PCV_OT_erase w of
                     (Raised e, w1) \<Rightarrow> (Raised e, w1)
                   | (_, w1) \<Rightarrow> draw w1)
             else draw w)"

text \<open>The points the settings ask for, or the message to report; \<open>None\<close> when sampling does not end.\<close>

definition generate_points ::
    "'s sampler_env \<Rightarrow> sample_source \<Rightarrow> generate_settings \<Rightarrow> (string + sample list) option" where
  "generate_points ev src g =
     (let s = sv_seed ev (gn_seed g);
          colorize = Some (gn_colors g);
          const = gn_constant_color g;
          text = (\<lambda>r. case r of Inl e \<Rightarrow> Inl (error_text e) | Inr xs \<Rightarrow> Inr xs)
      in if gn_source g = ''VERTICES'' then Some (text (PCVVertexSampler ev colorize const src))
         else if gn_source g = ''SURFACE'' then
           (if gn_algorithm g = ''WEIGHTED_RANDOM_IN_TRIANGLE''
            then Some (text (bindE (PCVTriangleSurfaceSampler ev colorize const (gn_exact_number_of_points g)
                                      (gn_number_of_points g) src s) (\<lambda>(xs, _). Inr xs)))
            else if gn_algorithm g = ''POISSON_DISK_SAMPLING''
            then map_option (\<lambda>r. text (bindE r (\<lambda>(xs, _). Inr xs)))
                   (PCVPoissonDiskSurfaceSampler ev colorize const (gn_minimal_distance g) (gn_sampling_exponent g) src s)
            else Some (Inl ''Algorithm not implemented.''))
         else if gn_source g = ''PARTICLES''
         then Some (text (PCVParticleSystemSampler ev (gn_source_psys g \<noteq> ''ALL'') colorize const src))
         else Some (Inl ''Source type not implemented.''))"

definition generate_refused :: "string \<Rightarrow> generate_settings \<Rightarrow> string option" where
  "generate_refused t g =
     (if t \<notin> {''MESH'', ''CURVE'', ''SURFACE'', ''FONT''} then Some ''Object does not have geometry data.''
      else if gn_source g \<notin> {''SURFACE'', ''VERTICES'', ''PARTICLES''} then Some ''Source not implemented.''
      else if gn_colors g \<in> {''CONSTANT'', ''UVTEX'', ''VCOLS'', ''GROUP_MONO'', ''GROUP_COLOR''} then
        (if t \<in> {''CURVE'', ''SURFACE'', ''FONT''} \<and> gn_colors g \<noteq> ''CONSTANT''
         then Some ''Object type does not support UV textures, vertex colors or vertex groups.'' else None)
      else Some ''Color generation not implemented.'')"

definition PCV_OT_generate_point_cloud ::
    "'s sampler_env \<Rightarrow> num_env \<Rightarrow> string \<Rightarrow> (string \<Rightarrow> sample_source) \<Rightarrow> world \<Rightarrow> (status \<times> world) option" where
  "PCV_OT_generate_point_cloud ev ne u src w =
     (case context_object w of
        None \<Rightarrow> Some (Raised AttributeError, w)
      | Some n0 \<Rightarrow>
          (case dict_get (objects w) n0 of
             None \<Rightarrow> Some (Raised AttributeError, w)
           | Some ob \<Rightarrow>
               (let g = p_generate (ob_pcv ob)
                in case generate_refused (ob_type ob) g of
                     Some msg \<Rightarrow> Some (Cancelled, report ''ERROR'' msg w)
                   | None \<Rightarrow>
                       (case generate_points ev (src n0) g of
                          None \<Rightarrow> None
                        | Some (Inl msg) \<Rightarrow> Some (Cancelled, report ''ERROR'' msg w)
                        | Some (Inr xs) \<Rightarrow> Some (draw_samples ne u n0 xs w)))))"

text \<open>An object without mesh data cannot be ray cast: the first sample raises.\<close>

definition PCV_OT_generate_volume_point_cloud ::
    "'s sampler_env \<Rightarrow> num_env \<Rightarrow> string \<Rightarrow> (string \<Rightarrow> volume option) \<Rightarrow> world \<Rightarrow> (status \<times> world) option" where
  "PCV_OT_generate_volume_point_cloud ev ne u vol w =
     (case context_object w of
        None \<Rightarrow> Some (Raised AttributeError, w)
      | Some n0 \<Rightarrow>
          (case get_pcv w n0 of
             None \<Rightarrow> Some (Raised AttributeError, w)
           | Some p \<Rightarrow>
               (let g = p_generate p
                in case vol n0 of
                     None \<Rightarrow>
                       if 0 < gn_number_of_points g then Some (Raised (Py_Exception ''RuntimeError''), w)
                       else Some (draw_samples ne u n0 [] w)
                   | Some ob \<Rightarrow>
                       (case PCVRandomVolumeSampler ev ob (gn_number_of_points g) (sv_seed ev (gn_seed g)) of
                          None \<Rightarrow> None
                        | Some (xs, _) \<Rightarrow> Some (draw_samples ne u n0 xs w)))))"

definition PCV_OT_generate_poll :: "world \<Rightarrow> bool" where
  "PCV_OT_generate_poll w = (context_object w \<noteq> None)"

end
