(* ===== verification/PCV_Panels.thy ===== *)
theory PCV_Panels
  imports PCV_Declarations PCV_Sequence PCV_Samplers
begin

text \<open>
  The panels of the add-on in the sidebar (\<open>PCV_PT_...\<close>): when they are shown (\<open>poll\<close>), and the widgets they
  draw, as a tree of layouts. Of a layout its kind and whether it is enabled are kept, a button is the name of its
  operator; icons, sizes, alignment and the texts of properties are left out. The active object is the
  context object. A bullet is written as a star.
\<close>

section \<open>Widgets\<close>

datatype layout = Row | Column | Split | Box

datatype widget =
  Text string
| Property string
| Scene_property string
| Button string
| Space
| Layout layout bool "widget list"

text \<open>The buttons in a widget, and those that are in no disabled layout.\<close>

fun buttons :: "widget \<Rightarrow> string list" where
  "buttons (Button i) = [i]"
| "buttons (Layout k e ws) = concat (map buttons ws)"
| "buttons _ = []"

fun enabled_buttons :: "widget \<Rightarrow> string list" where
  "enabled_buttons (Button i) = [i]"
| "enabled_buttons (Layout k e ws) = (if e then concat (map enabled_buttons ws) else [])"
| "enabled_buttons _ = []"

fun shown_properties :: "widget \<Rightarrow> string list" where
  "shown_properties (Property i) = [i]"
| "shown_properties (Layout k e ws) = concat (map shown_properties ws)"
| "shown_properties _ = []"

text \<open>
  What a drawing depends on besides the state: the properties that only the panels use, the debug mode, the
  format \<open>{:.1f}\<close> of Python, and the texts that the debug panel prints.
\<close>

record ui =
  ui_instance_visualizer :: bool
  ui_illumination_edit :: bool
  ui_debug_mode :: bool
  ui_debug_properties :: bool
  ui_debug_manager :: bool
  ui_debug_sequence :: bool
  ui_debug_cache_items :: bool
  ui_format :: "real \<Rightarrow> string"
  ui_property_texts :: "pcv \<Rightarrow> string list"
  ui_handle_text :: "bool \<Rightarrow> string"
  ui_item_texts :: "cache_item \<Rightarrow> string list"
  ui_sequence_texts :: "seq_item \<Rightarrow> string list"

record ui_panel =
  panel_id :: string
  panel_label :: string
  panel_parent :: "string option"
  panel_poll :: "ui \<Rightarrow> world \<Rightarrow> bool"
  panel_draw :: "ui \<Rightarrow> world \<Rightarrow> py_error + widget"

section \<open>Conditions\<close>

text \<open>The \<open>poll\<close> of all panels under the main one: not while a cloud is edited.\<close>

definition subpanel_poll :: "ui \<Rightarrow> world \<Rightarrow> bool" where
  "subpanel_poll ui w =
     (case context_pcv w of None \<Rightarrow> False | Some (_, p) \<Rightarrow> \<not> p_edit_is_edit_mesh p \<and> \<not> p_edit_initialized p)"

text \<open>The \<open>poll\<close> of the operators that render, convert, export and filter.\<close>

definition shown_poll :: "world \<Rightarrow> bool" where
  "shown_poll w = (case context_pcv w of None \<Rightarrow> False | Some (_, p) \<Rightarrow> shown w (p_uuid p))"

text \<open>The panel to join stops at the first item of the cloud.\<close>

definition join_ok :: "world \<Rightarrow> pcv \<Rightarrow> bool" where
  "join_ok w p =
     (case find (\<lambda>(k, v). ci_uuid v = Some (p_uuid p)) (cache w) of
        None \<Rightarrow> False | Some (_, v) \<Rightarrow> ci_ready v \<and> ci_draw v)"

definition draw_pcv :: "world \<Rightarrow> (pcv \<Rightarrow> widget) \<Rightarrow> py_error + widget" where
  "draw_pcv w f = (case context_pcv w of None \<Rightarrow> Inl AttributeError | Some (_, p) \<Rightarrow> Inr (f p))"

definition third_label_two_thirds_prop :: "string \<Rightarrow> widget" where
  "third_label_two_thirds_prop i =
     Layout Row True [Layout Split True
       [Text (prop_label i), Layout Split True [Layout Row True [Property i]]]]"

section \<open>The main panel\<close>

text \<open>A number in thousands, millions and so on, after the units that are left.\<close>

fun human_loop :: "(real \<Rightarrow> string) \<Rightarrow> string list \<Rightarrow> real \<Rightarrow> string" where
  "human_loop fmt [] x = fmt x @ ''Y''"
| "human_loop fmt (u # us) x = (if \<bar>x\<bar> < 1000 then fmt x @ u else human_loop fmt us (x / 1000))"

definition human_readable_number :: "(real \<Rightarrow> string) \<Rightarrow> real \<Rightarrow> string" where
  "human_readable_number fmt = human_loop fmt ['''', ''K'', ''M'', ''G'', ''T'', ''P'', ''E'', ''Z'']"

text \<open>The texts about the cloud: what it is, its name, and how many of its points are displayed.\<close>

definition info_block :: "ui \<Rightarrow> world \<Rightarrow> pcv \<Rightarrow> py_error + string \<times> string \<times> string" where
  "info_block ui w p =
     (if p_filepath p = '''' then Inr (''Selected: '', ''n/a'', ''n/a'')
      else
        (let t = snd (path_split (p_filepath p))
         in case dict_get (cache w) (p_uuid p) of
              None \<Rightarrow> Inr (''Selected: '', t, ''n/a'')
            | Some c \<Rightarrow>
                (case (ci_display_length c, ci_stats c) of
                   (Some dl, Some st) \<Rightarrow>
                     (let n = (if \<not> ci_draw c then ''0''
                               else if dl < 1000 then show_nat (nat dl)
                               else human_readable_number (ui_format ui) (real_of_int dl));
                          nn = human_readable_number (ui_format ui) (real st);
                          nn1 = (if drop (length nn - 2) nn = ''.0'' then take (length nn - 2) nn else nn)
                      in Inr (''Loaded: '', t, n @ '' of '' @ nn1))
                 | _ \<Rightarrow> Inl (TypeError ''NoneType''))))"

text \<open>Whether a ready item of the cloud is empty; its points are needed for that.\<close>

definition zero_length :: "world \<Rightarrow> pcv \<Rightarrow> py_error + bool" where
  "zero_length w p =
     (let mine = filter (\<lambda>(k, v). ci_uuid v = Some (p_uuid p) \<and> ci_ready v) (cache w)
      in if \<exists>(k, v)\<in>set mine. ci_vertices v = None then Inl (TypeError ''NoneType'')
         else Inr (\<exists>(k, v)\<in>set mine. ci_vertices v = Some []))"

text \<open>What the main panel shows of a cloud that is edited, of the helper mesh, and of any other cloud.\<close>

definition editing_widgets :: "widget list" where
  "editing_widgets =
     [Text ''PCV Edit in progress..'', Space, Button ''point_cloud_visualizer.edit_cancel'']"

definition helper_widgets :: "world \<Rightarrow> widget list" where
  "helper_widgets w =
     [Text ''PCV Edit helper mesh'', Space,
      Layout Column True
        [Text ''* Transform, delete and duplicate vertices.'', Text ''* Update button will refresh point cloud.'',
         Text ''* End button will refresh point cloud and delete helper mesh.'',
         Text ''* All other functions are disabled until finished.''],
      Space, Property ''edit_overlay_alpha'', Property ''edit_overlay_size'', Space,
      Layout Row True [Button ''point_cloud_visualizer.edit_update'', Button ''point_cloud_visualizer.edit_end'']] @
     (if context_mode w \<noteq> ''EDIT_MESH'' then [Text ''Must be in Edit Mode''] else [])"

definition cloud_widgets :: "ui \<Rightarrow> pcv \<Rightarrow> string \<times> string \<times> string \<Rightarrow> bool \<Rightarrow> bool \<Rightarrow> widget list" where
  "cloud_widgets ui p info ok blank =
     (case info of (l0c0, l0c1, l1c1) \<Rightarrow>
        [Layout Row True
           [Layout Split True
              [Text (prop_label ''filepath''),
               Layout Split True
                 [Layout Row True
                    [Layout Column False [Property ''filepath''],
                     Button ''point_cloud_visualizer.load_ply_to_cache'', Button ''point_cloud_visualizer.reload'']]]],
         Layout Column True
           [Layout Row True [Layout Split True [Text l0c0, Layout Split True [Text l0c1]]],
            Layout Row True [Layout Split True [Text ''Displayed: '', Layout Split True [Text l1c1]]]],
         Space,
         Layout Row (p_filepath p \<noteq> '''') [Button ''point_cloud_visualizer.draw'', Button ''point_cloud_visualizer.erase''],
         Layout Row (p_filepath p \<noteq> '''') [Property ''display_percent''],
         Layout Row (p_filepath p \<noteq> '''') [Property ''point_size''],
         Layout Row (p_filepath p \<noteq> '''') [Property ''global_alpha''],
         Layout Row (p_has_normals p \<and> p_filepath p \<noteq> '''') [Property ''vertex_normals'', Property ''vertex_normals_size'']] @
        (if ok \<and> \<not> p_has_normals p \<and> \<not> blank then [Text ''Missing vertex normals.''] else []) @
        [Layout Column (ok \<and> p_has_normals p)
           ([Layout Row True [Property ''illumination'', Property ''illumination_edit'']] @
            (if ui_illumination_edit ui
             then [Layout Column (p_has_normals p \<or> p_filepath p \<noteq> '''')
                     [Property ''light_direction'',
                      Layout Column True [Property ''light_intensity'', Property ''shadow_intensity'']]]
             else []))] @
        (if ui_illumination_edit ui then [Space] else []) @
        [Layout Column ok
           ([Layout Row True
               [Property ''dev_depth_enabled'',
                Layout Column (ok \<longrightarrow> p_has_normals p) [Property ''dev_normal_colors_enabled''],
                Property ''dev_position_colors_enabled'']] @
            (if p_flags p Dev_depth
             then [Layout Column True [Property ''dev_depth_brightness'', Property ''dev_depth_contrast''],
                   Property ''dev_depth_false_colors'',
                   Layout Row (p_dev_depth_false_colors p) [Property ''dev_depth_color_a'', Property ''dev_depth_color_b'']]
             else []))])"

definition main_panel_draw :: "ui \<Rightarrow> world \<Rightarrow> py_error + widget" where
  "main_panel_draw ui w =
     (case context_pcv w of
        None \<Rightarrow> Inr (Layout Column True [Text ''Select an object..''])
      | Some (_, p) \<Rightarrow>
          (let alert = (if ui_instance_visualizer ui
                        then [Layout Row True [Property ''instance_visualizer_active''], Space] else [])
           in if p_edit_initialized p
              then Inr (Layout Column True [Layout Column True (alert @ editing_widgets)])
              else if p_edit_is_edit_mesh p
              then Inr (Layout Column True [Layout Column (PCV_OT_edit_poll w) (alert @ helper_widgets w)])
              else (case (info_block ui w p, zero_length w p) of
                      (Inl e, _) \<Rightarrow> Inl e
                    | (_, Inl e) \<Rightarrow> Inl e
                    | (Inr info, Inr blank) \<Rightarrow>
                        Inr (Layout Column True
                          [Layout Column True (alert @ cloud_widgets ui p info (shown w (p_uuid p)) blank)]))))"

definition PCV_PT_panel :: ui_panel where
  "PCV_PT_panel =
     \<lparr>panel_id = ''PCV_PT_panel'', panel_label = ''Point Cloud Visualizer'', panel_parent = None,
      panel_poll = (\<lambda>ui w. True), panel_draw = main_panel_draw\<rparr>"

section \<open>The panels under it\<close>

definition PCV_PT_clip :: ui_panel where
  "PCV_PT_clip =
     \<lparr>panel_id = ''PCV_PT_clip'', panel_label = ''Clip'', panel_parent = Some ''PCV_PT_panel'', panel_poll = subpanel_poll,
      panel_draw = (\<lambda>ui w. draw_pcv w (\<lambda>p.
        Layout Column (shown w (p_uuid p))
            [Layout Column True [Property ''clip_shader_enabled''],
             Layout Column (p_flags p Clip_shader)
                 [Layout Column True
                      [Layout Row True [Property ''clip_plane0_enabled'', Property ''clip_plane0''],
                       Layout Row True [Property ''clip_plane1_enabled'', Property ''clip_plane1''],
                       Layout Row True [Property ''clip_plane2_enabled'', Property ''clip_plane2''],
                       Layout Row True [Property ''clip_plane3_enabled'', Property ''clip_plane3''],
                       Layout Row True [Property ''clip_plane4_enabled'', Property ''clip_plane4''],
                       Layout Row True [Property ''clip_plane5_enabled'', Property ''clip_plane5'']],
                  Layout Column True
                      [Property ''clip_planes_from_bbox_object'',
                       Layout Row True
                           [Button ''point_cloud_visualizer.clip_planes_from_bbox'',
                            Button ''point_cloud_visualizer.clip_planes_reset'']]]]))\<rparr>"

definition PCV_PT_edit :: ui_panel where
  "PCV_PT_edit =
     \<lparr>panel_id = ''PCV_PT_edit'', panel_label = ''Edit'', panel_parent = Some ''PCV_PT_panel'', panel_poll = subpanel_poll,
      panel_draw = (\<lambda>ui w. draw_pcv w (\<lambda>p.
        Layout Column True [Layout Column True [Button ''point_cloud_visualizer.edit_start'']]))\<rparr>"

definition PCV_PT_filter :: ui_panel where
  "PCV_PT_filter =
     \<lparr>panel_id = ''PCV_PT_filter'', panel_label = ''Filter'', panel_parent = Some ''PCV_PT_panel'', panel_poll = subpanel_poll,
      panel_draw = (\<lambda>ui w. draw_pcv w (\<lambda>p.
        Layout Column True [Layout Column True []]))\<rparr>"

definition PCV_PT_filter_simplify :: ui_panel where
  "PCV_PT_filter_simplify =
     \<lparr>panel_id = ''PCV_PT_filter_simplify'', panel_label = ''Simplify'', panel_parent = Some ''PCV_PT_filter'', panel_poll = subpanel_poll,
      panel_draw = (\<lambda>ui w. draw_pcv w (\<lambda>p.
        Layout Column True
            [Layout Column (shown_poll w)
                 [Layout Column True
                      [Property ''filter_simplify_num_samples'', Property ''filter_simplify_num_candidates''],
                  Button ''point_cloud_visualizer.filter_simplify'']]))\<rparr>"

definition PCV_PT_filter_project :: ui_panel where
  "PCV_PT_filter_project =
     \<lparr>panel_id = ''PCV_PT_filter_project'', panel_label = ''Project'', panel_parent = Some ''PCV_PT_filter'', panel_poll = subpanel_poll,
      panel_draw = (\<lambda>ui w. draw_pcv w (\<lambda>p.
        Layout Column True
            [Layout Column (if (p_filepath p \<noteq> '''') \<and> (p_uuid p \<noteq> '''') then (p_has_normals p) \<and> (shown_poll w) else shown_poll w)
                 ([Property ''filter_project_object'',
                   Layout Column True
                       [Property ''filter_project_search_distance'',
                        Layout Row True
                            [Property ''filter_project_negative'', Property ''filter_project_positive'']],
                   Property ''filter_project_discard'',
                   Layout Column True
                       [Layout Row True
                            [Layout Split True
                                 [Property ''filter_project_colorize'',
                                  Layout Split True
                                      [Layout Row True
                                           [Layout Column (fp_colorize (p_project p))
                                                [Property ''filter_project_colorize_from'']]]]]],
                   Property ''filter_project_shift'', Button ''point_cloud_visualizer.filter_project''] @
                  (if (p_filepath p \<noteq> '''') \<and> (p_uuid p \<noteq> '''')
                   then (if \<not> p_has_normals p then [Text ''Missing vertex normals.''] else [])
                   else []))]))\<rparr>"

definition PCV_PT_filter_boolean :: ui_panel where
  "PCV_PT_filter_boolean =
     \<lparr>panel_id = ''PCV_PT_filter_boolean'', panel_label = ''Boolean'', panel_parent = Some ''PCV_PT_filter'', panel_poll = subpanel_poll,
      panel_draw = (\<lambda>ui w. draw_pcv w (\<lambda>p.
        Layout Column True
            [Layout Column (shown_poll w)
                 [Property ''filter_boolean_object'', Button ''point_cloud_visualizer.filter_boolean_intersect'',
                  Button ''point_cloud_visualizer.filter_boolean_exclude'']]))\<rparr>"

definition PCV_PT_filter_remove_color :: ui_panel where
  "PCV_PT_filter_remove_color =
     \<lparr>panel_id = ''PCV_PT_filter_remove_color'', panel_label = ''Remove Color'', panel_parent = Some ''PCV_PT_filter'', panel_poll = subpanel_poll,
      panel_draw = (\<lambda>ui w. draw_pcv w (\<lambda>p.
        Layout Column True
            [Layout Column (shown_poll w)
                 [Layout Row True [Property ''filter_remove_color''],
                  Layout Column True
                      [Layout Row True
                           [Property ''filter_remove_color_delta_hue_use'',
                            Layout Column True [Property ''filter_remove_color_delta_hue'']],
                       Layout Row True
                           [Property ''filter_remove_color_delta_saturation_use'',
                            Layout Column True [Property ''filter_remove_color_delta_saturation'']],
                       Layout Row True
                           [Property ''filter_remove_color_delta_value_use'',
                            Layout Column True [Property ''filter_remove_color_delta_value'']]],
                  Layout Column True
                      [Layout Row True
                           [Button ''point_cloud_visualizer.filter_remove_color'',
                            Button ''point_cloud_visualizer.filter_remove_color_deselect''],
                       Button ''point_cloud_visualizer.filter_remove_color_delete_selected'']]]))\<rparr>"

definition PCV_PT_filter_merge :: ui_panel where
  "PCV_PT_filter_merge =
     \<lparr>panel_id = ''PCV_PT_filter_merge'', panel_label = ''Merge'', panel_parent = Some ''PCV_PT_filter'', panel_poll = subpanel_poll,
      panel_draw = (\<lambda>ui w. draw_pcv w (\<lambda>p.
        Layout Column True [Layout Column (shown_poll w) [Button ''point_cloud_visualizer.filter_merge'']]))\<rparr>"

definition PCV_PT_filter_join :: ui_panel where
  "PCV_PT_filter_join =
     \<lparr>panel_id = ''PCV_PT_filter_join'', panel_label = ''Join'', panel_parent = Some ''PCV_PT_filter'', panel_poll = subpanel_poll,
      panel_draw = (\<lambda>ui w. draw_pcv w (\<lambda>p.
        Layout Column True
            [Layout Column (join_ok w p)
                 [Property ''filter_join_object'', Button ''point_cloud_visualizer.filter_join'']]))\<rparr>"

definition PCV_PT_filter_color_adjustment :: ui_panel where
  "PCV_PT_filter_color_adjustment =
     \<lparr>panel_id = ''PCV_PT_filter_color_adjustment'', panel_label = ''Color Adjustment'', panel_parent = Some ''PCV_PT_filter'', panel_poll = subpanel_poll,
      panel_draw = (\<lambda>ui w. draw_pcv w (\<lambda>p.
        Layout Column True
            [Layout Column (shown_poll w)
                 [Property ''color_adjustment_shader_enabled'',
                  Layout Column (p_flags p Color_adjustment)
                      [Property ''color_adjustment_shader_exposure'', Property ''color_adjustment_shader_gamma'',
                       Property ''color_adjustment_shader_brightness'',
                       Property ''color_adjustment_shader_contrast'', Property ''color_adjustment_shader_hue'',
                       Property ''color_adjustment_shader_saturation'', Property ''color_adjustment_shader_value'',
                       Property ''color_adjustment_shader_invert'',
                       Layout Row True
                           [Button ''point_cloud_visualizer.color_adjustment_shader_reset'',
                            Button ''point_cloud_visualizer.color_adjustment_shader_apply'']]]]))\<rparr>"

definition PCV_PT_render :: ui_panel where
  "PCV_PT_render =
     \<lparr>panel_id = ''PCV_PT_render'', panel_label = ''Render'', panel_parent = Some ''PCV_PT_panel'', panel_poll = subpanel_poll,
      panel_draw = (\<lambda>ui w. draw_pcv w (\<lambda>p.
        Layout Column True
            [Layout Column (shown_poll w)
                 [Layout Column True
                      [Property ''render_display_percent'', Property ''render_point_size'',
                       Property ''render_supersampling'',
                       Layout Row (\<not> p_override_default_shader p) [Property ''render_smoothstep'']],
                  Layout Column True [],
                  Layout Row True
                      [Layout Split True
                           [Text ''Output:'',
                            Layout Split True [Layout Row True [Layout Column True [Property ''render_path'']]]]],
                  Layout Row True
                      [Layout Column True
                           [Property ''render_resolution_linked'', Property ''render_resolution_linked'',
                            Property ''render_resolution_linked''],
                       Layout Column True
                           (if rn_resolution_linked (p_render p)
                            then [Scene_property ''resolution_x'', Scene_property ''resolution_y'',
                                  Scene_property ''resolution_percentage'']
                            else [Property ''render_resolution_x'', Property ''render_resolution_y'',
                                  Property ''render_resolution_percentage''])],
                  Layout Row True
                      [Button ''point_cloud_visualizer.render'',
                       Button ''point_cloud_visualizer.render_animation'']]]))\<rparr>"

definition PCV_PT_convert :: ui_panel where
  "PCV_PT_convert =
     \<lparr>panel_id = ''PCV_PT_convert'', panel_label = ''Convert'', panel_parent = Some ''PCV_PT_panel'', panel_poll = subpanel_poll,
      panel_draw = (\<lambda>ui w. draw_pcv w (\<lambda>p.
        Layout Column True
            [Layout Column True
                 [Layout Column (shown_poll w)
                      [Property ''mesh_type'',
                       Layout Row True
                           [Layout Split True
                                [Property ''mesh_all'',
                                 Layout Split (\<not> (ms_all (p_mesh p))) [Property ''mesh_percentage'']]],
                       Layout Column (\<not> (ms_type (p_mesh p) = ''VERTEX''))
                           ([Property ''mesh_size''] @
                            (if ms_type (p_mesh p) \<in> {''INSTANCER'', ''PARTICLES''}
                             then [Property ''mesh_base_sphere_subdivisions'']
                             else []) @
                            [Layout Row (p_has_normals p) [Property ''mesh_normal_align''],
                             Layout Row (p_has_vcols p) [Property ''mesh_vcols'']]),
                       Layout Row True
                           [Button ''point_cloud_visualizer.convert'', Property ''mesh_use_instancer2'']]]]))\<rparr>"

definition PCV_PT_generate :: ui_panel where
  "PCV_PT_generate =
     \<lparr>panel_id = ''PCV_PT_generate'', panel_label = ''Generate'', panel_parent = Some ''PCV_PT_panel'', panel_poll = subpanel_poll,
      panel_draw = (\<lambda>ui w. draw_pcv w (\<lambda>p.
        Layout Column True
            [Layout Column (PCV_OT_generate_poll w)
                 ([third_label_two_thirds_prop ''generate_source''] @
                  (if gn_source (p_generate p) = ''PARTICLES''
                   then [third_label_two_thirds_prop ''generate_source_psys'']
                   else []) @
                  (if gn_source (p_generate p) = ''SURFACE''
                   then [third_label_two_thirds_prop ''generate_algorithm'']
                   else []) @
                  (if gn_source (p_generate p) = ''SURFACE''
                   then (if gn_algorithm (p_generate p) = ''WEIGHTED_RANDOM_IN_TRIANGLE''
                         then [Property ''generate_number_of_points'', Property ''generate_seed'',
                               Property ''generate_exact_number_of_points'']
                         else []) @
                        (if gn_algorithm (p_generate p) = ''POISSON_DISK_SAMPLING''
                         then [Property ''generate_minimal_distance'', Property ''generate_sampling_exponent'']
                         else [])
                   else []) @
                  [third_label_two_thirds_prop ''generate_colors''] @
                  (if gn_colors (p_generate p) = ''CONSTANT''
                   then [Layout Row True [], third_label_two_thirds_prop ''generate_constant_color'']
                   else []) @
                  [Button ''point_cloud_visualizer.generate_from_mesh'',
                   Button ''point_cloud_visualizer.reset_runtime''])]))\<rparr>"

definition PCV_PT_export :: ui_panel where
  "PCV_PT_export =
     \<lparr>panel_id = ''PCV_PT_export'', panel_label = ''Export'', panel_parent = Some ''PCV_PT_panel'', panel_poll = subpanel_poll,
      panel_draw = (\<lambda>ui w. draw_pcv w (\<lambda>p.
        Layout Column True
            [Layout Column (shown_poll w)
                 [Property ''export_use_viewport'',
                  Layout Column (ex_use_viewport (p_export p)) [Property ''export_visible_only''],
                  Property ''export_apply_transformation'', Property ''export_convert_axes'',
                  Button ''point_cloud_visualizer.export'']]))\<rparr>"

definition PCV_PT_sequence :: ui_panel where
  "PCV_PT_sequence =
     \<lparr>panel_id = ''PCV_PT_sequence'', panel_label = ''Sequence'', panel_parent = Some ''PCV_PT_panel'', panel_poll = subpanel_poll,
      panel_draw = (\<lambda>ui w. draw_pcv w (\<lambda>p.
        Layout Column (\<not> p_runtime p)
            [Layout Column ((p_uuid p \<in> set (dict_keys (seq_cache w))) \<or> (PCV_OT_sequence_preload_poll w))
                 ([Button ''point_cloud_visualizer.sequence_preload''] @
                  (if p_uuid p \<in> set (dict_keys (seq_cache w))
                   then [Text (''Loaded '' @ show_nat (length (si_data (the (dict_get (seq_cache w) (p_uuid p))))) @ '' item(s)'')]
                   else [Text ''Loaded 0 item(s)'']) @
                  [Property ''sequence_use_cyclic'', Button ''point_cloud_visualizer.sequence_clear''])]))\<rparr>"

definition PCV_PT_development :: ui_panel where
  "PCV_PT_development =
     \<lparr>panel_id = ''PCV_PT_development'', panel_label = ''Development'', panel_parent = Some ''PCV_PT_panel'', panel_poll = (\<lambda>ui w. ui_debug_mode ui \<and> subpanel_poll ui w),
      panel_draw = (\<lambda>ui w. draw_pcv w (\<lambda>p.
        Layout Column True
            [Layout Column True
                 [Text ''Shaders:'',
                  Layout Column True
                      [Layout Column True
                           ([Property ''dev_selection_shader_display''] @
                            (if ds_selection (p_display p)
                             then [Layout Row True [Property ''dev_selection_shader_color'']]
                             else [])),
                       Property ''dev_minimal_shader_enabled'',
                       Property ''dev_minimal_shader_variable_size_enabled'',
                       Layout Column True
                           ([Property ''dev_minimal_shader_variable_size_and_depth_enabled''] @
                            (if p_flags p Minimal_variable_size_and_depth
                             then [Property ''dev_minimal_shader_variable_size_and_depth_brightness'',
                                   Property ''dev_minimal_shader_variable_size_and_depth_contrast'',
                                   Property ''dev_minimal_shader_variable_size_and_depth_blend'']
                             else [])),
                       Layout Column True
                           ([Property ''dev_billboard_point_cloud_enabled''] @
                            (if p_flags p Billboard then [Property ''dev_billboard_point_cloud_size''] else [])),
                       Layout Column True
                           ([Property ''dev_rich_billboard_point_cloud_enabled''] @
                            (if p_flags p Rich_billboard
                             then [Property ''dev_rich_billboard_point_cloud_size'',
                                   Property ''dev_rich_billboard_depth_brightness'',
                                   Property ''dev_rich_billboard_depth_contrast'',
                                   Property ''dev_rich_billboard_depth_blend'']
                             else [])),
                       Layout Column True
                           ([Property ''dev_phong_shader_enabled''] @
                            (if p_flags p Phong_shader
                             then [Property ''dev_phong_shader_ambient_strength'',
                                   Property ''dev_phong_shader_specular_strength'',
                                   Property ''dev_phong_shader_specular_exponent'']
                             else [])),
                       Layout Column True
                           ([Property ''clip_shader_enabled''] @
                            (if p_flags p Clip_shader
                             then [Layout Row True [Property ''clip_plane0_enabled'', Property ''clip_plane0''],
                                   Layout Row True [Property ''clip_plane1_enabled'', Property ''clip_plane1''],
                                   Layout Row True [Property ''clip_plane2_enabled'', Property ''clip_plane2''],
                                   Layout Row True [Property ''clip_plane3_enabled'', Property ''clip_plane3''],
                                   Layout Row True [Property ''clip_plane4_enabled'', Property ''clip_plane4''],
                                   Layout Row True [Property ''clip_plane5_enabled'', Property ''clip_plane5''],
                                   Property ''clip_planes_from_bbox_object'',
                                   Button ''point_cloud_visualizer.clip_planes_from_bbox'']
                             else [])),
                       Layout Column True
                           ([Property ''billboard_phong_enabled''] @
                            (if p_flags p Billboard_phong
                             then [Property ''billboard_phong_circles'', Property ''billboard_phong_size'',
                                   Property ''billboard_phong_ambient_strength'',
                                   Property ''billboard_phong_specular_strength'',
                                   Property ''billboard_phong_specular_exponent'']
                             else [])),
                       Layout Column True
                           ([Property ''skip_point_shader_enabled''] @
                            (if p_flags p Skip_point then [Property ''skip_point_percentage''] else [])),
                       Layout Column True
                           ([Property ''dev_bbox_enabled''] @
                            (if ds_bbox (p_display p)
                             then [Property ''dev_bbox_color'', Property ''dev_bbox_size'',
                                   Property ''dev_bbox_alpha'']
                             else []))],
                  Space, Text ''Generate Volume:'',
                  Layout Column True
                      [Property ''generate_number_of_points'', Property ''generate_seed'',
                       Button ''point_cloud_visualizer.generate_volume_from_mesh'']]]))\<rparr>"

section \<open>The debug panel\<close>

definition manager_widgets :: "ui \<Rightarrow> world \<Rightarrow> widget list" where
  "manager_widgets ui w =
     [Layout Column True
        [Layout Row True [Button ''point_cloud_visualizer.init'', Button ''point_cloud_visualizer.deinit'',
           Button ''point_cloud_visualizer.gc'']],
      Layout Box True
        [Layout Column True
           [Text (''cache: '' @ show_nat (length (cache w)) @ '' item(s)''), Text (''handle: '' @ ui_handle_text ui (handle w)),
            Text (''initialized: '' @ (if initialized w then ''True'' else ''False''))]]] @
     (if cache w \<noteq> []
      then [Text ''cache details:''] @
           map (\<lambda>(k, v). Layout Box True
             ([Layout Row True [Property ''debug_panel_show_cache_items'', Text k]] @
              (if ui_debug_cache_items ui then [Layout Column True (map Text (ui_item_texts ui v))] else []))) (cache w)
      else [])"

definition sequence_widgets :: "ui \<Rightarrow> world \<Rightarrow> widget list" where
  "sequence_widgets ui w =
     [Layout Column True
        [Layout Row True [Button ''point_cloud_visualizer.seq_init'', Button ''point_cloud_visualizer.seq_deinit'']],
      Layout Box True
        [Layout Column True
           [Text (''cache: '' @ show_nat (length (seq_cache w)) @ '' item(s)''),
            Text (''initialized: '' @ (if seq_initialized w then ''True'' else ''False''))]]] @
     (if seq_cache w \<noteq> []
      then [Text ''cache details:''] @
           map (\<lambda>(k, v). Layout Box True [Layout Column True (map Text (ui_sequence_texts ui v))]) (seq_cache w)
      else [])"

definition PCV_PT_debug :: ui_panel where
  "PCV_PT_debug =
     \<lparr>panel_id = ''PCV_PT_debug'', panel_label = ''Debug'', panel_parent = Some ''PCV_PT_panel'',
      panel_poll = (\<lambda>ui w. context_pcv w \<noteq> None \<and> ui_debug_mode ui),
      panel_draw = (\<lambda>ui w. draw_pcv w (\<lambda>p.
        Layout Column True
          [Layout Column True
             [Button ''script.reload'', Space,
              Layout Box True
                ([Layout Row True [Property ''debug_panel_show_properties'', Text ''properties'']] @
                 (if ui_debug_properties ui then [Layout Column True (map Text (ui_property_texts ui p))] else [])),
              Layout Box True
                ([Layout Row True [Property ''debug_panel_show_manager'', Text ''manager'']] @
                 (if ui_debug_manager ui then manager_widgets ui w else [])),
              Layout Box True
                ([Layout Row True [Property ''debug_panel_show_sequence'', Text ''sequence'']] @
                 (if ui_debug_sequence ui then sequence_widgets ui w else []))]]))\<rparr>"

text \<open>The preferences of the add-on: a name for the tab is chosen or typed in.\<close>

definition PCV_preferences_draw :: "bool \<Rightarrow> widget" where
  "PCV_preferences_draw category_custom =
     Layout Column True
       [Layout Row True [Property ''default_vertex_color'', Property ''normal_color'', Property ''selection_color''],
        Layout Row True
          [Property ''shuffle_points'', Property ''convert_16bit_colors'',
           Layout Column True [Property ''gamma_correct_16bit_colors'']],
        Layout Row True
          [Layout Split True
             [Layout Column (\<not> category_custom) [Property ''category''],
              Layout Split True
                [Layout Row True
                   [Property ''category_custom'', Layout Column category_custom [Property ''category_custom_name'']]]]]]"

section \<open>Registration, and the sidebar\<close>

definition all_panels :: "ui_panel list" where
  "all_panels =
     [PCV_PT_panel, PCV_PT_clip, PCV_PT_edit, PCV_PT_filter, PCV_PT_filter_simplify,
      PCV_PT_filter_project, PCV_PT_filter_boolean, PCV_PT_filter_remove_color, PCV_PT_filter_merge,
      PCV_PT_filter_join, PCV_PT_filter_color_adjustment, PCV_PT_render, PCV_PT_convert, PCV_PT_generate,
      PCV_PT_export, PCV_PT_sequence, PCV_PT_development, PCV_PT_debug]"

text \<open>
  Registering a class of a panel fails when its parent is not registered yet. Classes are registered in
  their order and unregistered in the reverse one.
\<close>

definition register_class :: "string \<Rightarrow> string list \<Rightarrow> py_error + string list" where
  "register_class c reg =
     (case find (\<lambda>x. panel_id x = c) all_panels of
        None \<Rightarrow> Inr (reg @ [c])
      | Some x \<Rightarrow>
          (case panel_parent x of
             None \<Rightarrow> Inr (reg @ [c])
           | Some q \<Rightarrow> if q \<in> set reg then Inr (reg @ [c]) else Inl (Py_Exception ''RuntimeError'')))"

fun register_loop :: "string list \<Rightarrow> string list \<Rightarrow> py_error + string list" where
  "register_loop [] reg = Inr reg"
| "register_loop (c # cs) reg = (case register_class c reg of Inl e \<Rightarrow> Inl e | Inr reg1 \<Rightarrow> register_loop cs reg1)"

definition register :: "py_error + string list" where
  "register = register_loop classes []"

text \<open>A panel is shown when its \<open>poll\<close> holds and its parent is shown. All panels may be open.\<close>

definition visible_panels :: "ui \<Rightarrow> world \<Rightarrow> ui_panel list" where
  "visible_panels ui w =
     fold (\<lambda>x vis. if panel_poll x ui w \<and> (case panel_parent x of None \<Rightarrow> True | Some q \<Rightarrow> q \<in> panel_id ` set vis)
                   then vis @ [x] else vis) all_panels []"

definition sidebar :: "ui \<Rightarrow> world \<Rightarrow> (py_error + widget) list" where
  "sidebar ui w = map (\<lambda>x. panel_draw x ui w) (visible_panels ui w)"

end
