(* ===== verification/PCV_Panel_Facts.thy ===== *)
theory PCV_Panel_Facts
  imports PCV_Panels
begin

text \<open>
  The panels refer to what the add-on declares, draw without errors on a well-formed cache, and keep out of the way
  while a cloud is edited.
\<close>

section \<open>Declared names\<close>

definition declared_ids :: "string list" where
  "declared_ids = map fst pcv_properties"

definition registered_operators :: "string list" where
  "registered_operators = map snd (filter (\<lambda>(c, i). c \<in> set classes) operator_names)"

lemmas property_tables =
  file_properties_def visualizer_properties_def point_properties_def
  display_properties_def mesh_properties_def project_properties_def
  boolean_properties_def edit_properties_def overlay_properties_def
  generate_properties_def override_properties_def depth_properties_def
  color_adjustment_properties_def minimal_properties_def minimal_depth_properties_def
  billboard_properties_def rich_billboard_properties_def rich_no_depth_properties_def
  phong_properties_def transform_properties_def clip_properties_def
  clip_object_properties_def billboard_phong_properties_def skip_point_properties_def

lemma declared_list:
  "declared_ids =
     [''filepath'', ''uuid'', ''instance_visualizer_active_hidden_value'', ''instance_visualizer_active'',
      ''runtime'', ''point_size'', ''alpha_radius'', ''display_percent'', ''global_alpha'', ''vertex_normals'',
      ''vertex_normals_size'', ''vertex_normals_alpha'', ''render_point_size'', ''render_display_percent'',
      ''render_path'', ''render_resolution_x'', ''render_resolution_y'', ''render_resolution_percentage'',
      ''render_smoothstep'', ''render_supersampling'', ''render_resolution_linked'', ''has_normals'',
      ''has_vcols'', ''illumination'', ''illumination_edit'', ''light_direction'', ''light_intensity'',
      ''shadow_intensity'', ''mesh_type'', ''mesh_size'', ''mesh_normal_align'', ''mesh_vcols'', ''mesh_all'',
      ''mesh_percentage'', ''mesh_base_sphere_subdivisions'', ''mesh_use_instancer2'', ''export_use_viewport'',
      ''export_apply_transformation'', ''export_convert_axes'', ''export_visible_only'',
      ''filter_simplify_num_samples'', ''filter_simplify_num_candidates'', ''filter_remove_color'',
      ''filter_remove_color_delta_hue'', ''filter_remove_color_delta_hue_use'',
      ''filter_remove_color_delta_saturation'', ''filter_remove_color_delta_saturation_use'',
      ''filter_remove_color_delta_value'', ''filter_remove_color_delta_value_use'',
      ''filter_remove_color_selection'', ''filter_project_object'', ''filter_project_search_distance'',
      ''filter_project_positive'', ''filter_project_negative'', ''filter_project_discard'',
      ''filter_project_colorize'', ''filter_project_colorize_from'', ''filter_project_shift'',
      ''filter_boolean_object'', ''filter_join_object'', ''edit_initialized'', ''edit_is_edit_mesh'',
      ''edit_is_edit_uuid'', ''edit_pre_edit_alpha'', ''edit_pre_edit_display'', ''edit_pre_edit_size'',
      ''edit_overlay_alpha'', ''edit_overlay_size'', ''sequence_use_cyclic'', ''generate_source'',
      ''generate_source_psys'', ''generate_algorithm'', ''generate_number_of_points'', ''generate_seed'',
      ''generate_colors'', ''generate_constant_color'', ''generate_exact_number_of_points'',
      ''generate_minimal_distance'', ''generate_sampling_exponent'', ''override_default_shader'',
      ''dev_depth_enabled'', ''dev_depth_brightness'', ''dev_depth_contrast'', ''dev_depth_false_colors'',
      ''dev_depth_color_a'', ''dev_depth_color_b'', ''dev_normal_colors_enabled'',
      ''dev_position_colors_enabled'', ''dev_bbox_enabled'', ''dev_bbox_color'', ''dev_bbox_size'',
      ''dev_bbox_alpha'', ''dev_selection_shader_display'', ''dev_selection_shader_color'',
      ''color_adjustment_shader_enabled'', ''color_adjustment_shader_exposure'',
      ''color_adjustment_shader_gamma'', ''color_adjustment_shader_brightness'',
      ''color_adjustment_shader_contrast'', ''color_adjustment_shader_hue'',
      ''color_adjustment_shader_saturation'', ''color_adjustment_shader_value'',
      ''color_adjustment_shader_invert'', ''dev_minimal_shader_enabled'',
      ''dev_minimal_shader_variable_size_enabled'', ''dev_minimal_shader_variable_size_and_depth_enabled'',
      ''dev_minimal_shader_variable_size_and_depth_brightness'',
      ''dev_minimal_shader_variable_size_and_depth_contrast'',
      ''dev_minimal_shader_variable_size_and_depth_blend'', ''dev_billboard_point_cloud_enabled'',
      ''dev_billboard_point_cloud_size'', ''dev_rich_billboard_point_cloud_enabled'',
      ''dev_rich_billboard_point_cloud_size'', ''dev_rich_billboard_depth_brightness'',
      ''dev_rich_billboard_depth_contrast'', ''dev_rich_billboard_depth_blend'',
      ''dev_rich_billboard_point_cloud_no_depth_enabled'', ''dev_phong_shader_enabled'',
      ''dev_phong_shader_ambient_strength'', ''dev_phong_shader_specular_strength'',
      ''dev_phong_shader_specular_exponent'', ''debug_panel_show_properties'', ''debug_panel_show_manager'',
      ''debug_panel_show_sequence'', ''debug_panel_show_cache_items'', ''pcviv_debug_draw'',
      ''pcviv_debug_panel_show_info'', ''pcviv_material_list_active_index'',
      ''dev_transform_normals_target_object'', ''clip_shader_enabled'', ''clip_plane0_enabled'',
      ''clip_plane1_enabled'', ''clip_plane2_enabled'', ''clip_plane3_enabled'', ''clip_plane4_enabled'',
      ''clip_plane5_enabled'', ''clip_plane0'', ''clip_plane1'', ''clip_plane2'', ''clip_plane3'',
      ''clip_plane4'', ''clip_plane5'', ''clip_planes_from_bbox_object'', ''billboard_phong_enabled'',
      ''billboard_phong_circles'', ''billboard_phong_size'', ''billboard_phong_ambient_strength'',
      ''billboard_phong_specular_strength'', ''billboard_phong_specular_exponent'', ''skip_point_shader_enabled'',
      ''skip_point_percentage'']"
  unfolding declared_ids_def pcv_properties_def property_tables list.map append.simps fst_conv by (rule refl)

lemma declared_members:
  "''edit_overlay_alpha'' \<in> set declared_ids"
  "''edit_overlay_size'' \<in> set declared_ids"
  "''filepath'' \<in> set declared_ids"
  "''display_percent'' \<in> set declared_ids"
  "''point_size'' \<in> set declared_ids"
  "''global_alpha'' \<in> set declared_ids"
  "''vertex_normals'' \<in> set declared_ids"
  "''vertex_normals_size'' \<in> set declared_ids"
  "''illumination'' \<in> set declared_ids"
  "''illumination_edit'' \<in> set declared_ids"
  "''light_direction'' \<in> set declared_ids"
  "''light_intensity'' \<in> set declared_ids"
  "''shadow_intensity'' \<in> set declared_ids"
  "''dev_depth_enabled'' \<in> set declared_ids"
  "''dev_normal_colors_enabled'' \<in> set declared_ids"
  "''dev_position_colors_enabled'' \<in> set declared_ids"
  "''dev_depth_brightness'' \<in> set declared_ids"
  "''dev_depth_contrast'' \<in> set declared_ids"
  "''dev_depth_false_colors'' \<in> set declared_ids"
  "''dev_depth_color_a'' \<in> set declared_ids"
  "''dev_depth_color_b'' \<in> set declared_ids"
  "''instance_visualizer_active'' \<in> set declared_ids"
  "''clip_shader_enabled'' \<in> set declared_ids"
  "''clip_plane0_enabled'' \<in> set declared_ids"
  "''clip_plane0'' \<in> set declared_ids"
  "''clip_plane1_enabled'' \<in> set declared_ids"
  "''clip_plane1'' \<in> set declared_ids"
  "''clip_plane2_enabled'' \<in> set declared_ids"
  "''clip_plane2'' \<in> set declared_ids"
  "''clip_plane3_enabled'' \<in> set declared_ids"
  "''clip_plane3'' \<in> set declared_ids"
  "''clip_plane4_enabled'' \<in> set declared_ids"
  "''clip_plane4'' \<in> set declared_ids"
  "''clip_plane5_enabled'' \<in> set declared_ids"
  "''clip_plane5'' \<in> set declared_ids"
  "''clip_planes_from_bbox_object'' \<in> set declared_ids"
  "''filter_simplify_num_samples'' \<in> set declared_ids"
  "''filter_simplify_num_candidates'' \<in> set declared_ids"
  "''filter_project_object'' \<in> set declared_ids"
  "''filter_project_search_distance'' \<in> set declared_ids"
  "''filter_project_negative'' \<in> set declared_ids"
  "''filter_project_positive'' \<in> set declared_ids"
  "''filter_project_discard'' \<in> set declared_ids"
  "''filter_project_colorize'' \<in> set declared_ids"
  "''filter_project_colorize_from'' \<in> set declared_ids"
  "''filter_project_shift'' \<in> set declared_ids"
  "''filter_boolean_object'' \<in> set declared_ids"
  "''filter_remove_color'' \<in> set declared_ids"
  "''filter_remove_color_delta_hue_use'' \<in> set declared_ids"
  "''filter_remove_color_delta_hue'' \<in> set declared_ids"
  "''filter_remove_color_delta_saturation_use'' \<in> set declared_ids"
  "''filter_remove_color_delta_saturation'' \<in> set declared_ids"
  "''filter_remove_color_delta_value_use'' \<in> set declared_ids"
  "''filter_remove_color_delta_value'' \<in> set declared_ids"
  "''filter_join_object'' \<in> set declared_ids"
  "''color_adjustment_shader_enabled'' \<in> set declared_ids"
  "''color_adjustment_shader_exposure'' \<in> set declared_ids"
  "''color_adjustment_shader_gamma'' \<in> set declared_ids"
  "''color_adjustment_shader_brightness'' \<in> set declared_ids"
  "''color_adjustment_shader_contrast'' \<in> set declared_ids"
  "''color_adjustment_shader_hue'' \<in> set declared_ids"
  "''color_adjustment_shader_saturation'' \<in> set declared_ids"
  "''color_adjustment_shader_value'' \<in> set declared_ids"
  "''color_adjustment_shader_invert'' \<in> set declared_ids"
  "''render_display_percent'' \<in> set declared_ids"
  "''render_point_size'' \<in> set declared_ids"
  "''render_supersampling'' \<in> set declared_ids"
  "''render_smoothstep'' \<in> set declared_ids"
  "''render_path'' \<in> set declared_ids"
  "''render_resolution_linked'' \<in> set declared_ids"
  "''render_resolution_x'' \<in> set declared_ids"
  "''render_resolution_y'' \<in> set declared_ids"
  "''render_resolution_percentage'' \<in> set declared_ids"
  "''mesh_type'' \<in> set declared_ids"
  "''mesh_all'' \<in> set declared_ids"
  "''mesh_percentage'' \<in> set declared_ids"
  "''mesh_size'' \<in> set declared_ids"
  "''mesh_base_sphere_subdivisions'' \<in> set declared_ids"
  "''mesh_normal_align'' \<in> set declared_ids"
  "''mesh_vcols'' \<in> set declared_ids"
  "''mesh_use_instancer2'' \<in> set declared_ids"
  "''generate_source'' \<in> set declared_ids"
  "''generate_source_psys'' \<in> set declared_ids"
  "''generate_algorithm'' \<in> set declared_ids"
  "''generate_number_of_points'' \<in> set declared_ids"
  "''generate_seed'' \<in> set declared_ids"
  "''generate_exact_number_of_points'' \<in> set declared_ids"
  "''generate_minimal_distance'' \<in> set declared_ids"
  "''generate_sampling_exponent'' \<in> set declared_ids"
  "''generate_colors'' \<in> set declared_ids"
  "''generate_constant_color'' \<in> set declared_ids"
  "''export_use_viewport'' \<in> set declared_ids"
  "''export_visible_only'' \<in> set declared_ids"
  "''export_apply_transformation'' \<in> set declared_ids"
  "''export_convert_axes'' \<in> set declared_ids"
  "''sequence_use_cyclic'' \<in> set declared_ids"
  "''dev_selection_shader_display'' \<in> set declared_ids"
  "''dev_selection_shader_color'' \<in> set declared_ids"
  "''dev_minimal_shader_enabled'' \<in> set declared_ids"
  "''dev_minimal_shader_variable_size_enabled'' \<in> set declared_ids"
  "''dev_minimal_shader_variable_size_and_depth_enabled'' \<in> set declared_ids"
  "''dev_minimal_shader_variable_size_and_depth_brightness'' \<in> set declared_ids"
  "''dev_minimal_shader_variable_size_and_depth_contrast'' \<in> set declared_ids"
  "''dev_minimal_shader_variable_size_and_depth_blend'' \<in> set declared_ids"
  "''dev_billboard_point_cloud_enabled'' \<in> set declared_ids"
  "''dev_billboard_point_cloud_size'' \<in> set declared_ids"
  "''dev_rich_billboard_point_cloud_enabled'' \<in> set declared_ids"
  "''dev_rich_billboard_point_cloud_size'' \<in> set declared_ids"
  "''dev_rich_billboard_depth_brightness'' \<in> set declared_ids"
  "''dev_rich_billboard_depth_contrast'' \<in> set declared_ids"
  "''dev_rich_billboard_depth_blend'' \<in> set declared_ids"
  "''dev_phong_shader_enabled'' \<in> set declared_ids"
  "''dev_phong_shader_ambient_strength'' \<in> set declared_ids"
  "''dev_phong_shader_specular_strength'' \<in> set declared_ids"
  "''dev_phong_shader_specular_exponent'' \<in> set declared_ids"
  "''billboard_phong_enabled'' \<in> set declared_ids"
  "''billboard_phong_circles'' \<in> set declared_ids"
  "''billboard_phong_size'' \<in> set declared_ids"
  "''billboard_phong_ambient_strength'' \<in> set declared_ids"
  "''billboard_phong_specular_strength'' \<in> set declared_ids"
  "''billboard_phong_specular_exponent'' \<in> set declared_ids"
  "''skip_point_shader_enabled'' \<in> set declared_ids"
  "''skip_point_percentage'' \<in> set declared_ids"
  "''dev_bbox_enabled'' \<in> set declared_ids"
  "''dev_bbox_color'' \<in> set declared_ids"
  "''dev_bbox_size'' \<in> set declared_ids"
  "''dev_bbox_alpha'' \<in> set declared_ids"
  "''debug_panel_show_cache_items'' \<in> set declared_ids"
  "''debug_panel_show_properties'' \<in> set declared_ids"
  "''debug_panel_show_manager'' \<in> set declared_ids"
  "''debug_panel_show_sequence'' \<in> set declared_ids"
  unfolding declared_list by (rule list.set_intros)+

lemma operator_classes:
  "''PCV_OT_init'' \<in> set classes"
  "''PCV_OT_deinit'' \<in> set classes"
  "''PCV_OT_gc'' \<in> set classes"
  "''PCV_OT_draw'' \<in> set classes"
  "''PCV_OT_erase'' \<in> set classes"
  "''PCV_OT_load'' \<in> set classes"
  "''PCV_OT_render'' \<in> set classes"
  "''PCV_OT_render_animation'' \<in> set classes"
  "''PCV_OT_convert'' \<in> set classes"
  "''PCV_OT_export'' \<in> set classes"
  "''PCV_OT_filter_simplify'' \<in> set classes"
  "''PCV_OT_filter_project'' \<in> set classes"
  "''PCV_OT_filter_remove_color'' \<in> set classes"
  "''PCV_OT_filter_remove_color_deselect'' \<in> set classes"
  "''PCV_OT_filter_remove_color_delete_selected'' \<in> set classes"
  "''PCV_OT_edit_start'' \<in> set classes"
  "''PCV_OT_edit_update'' \<in> set classes"
  "''PCV_OT_edit_end'' \<in> set classes"
  "''PCV_OT_edit_cancel'' \<in> set classes"
  "''PCV_OT_filter_merge'' \<in> set classes"
  "''PCV_OT_filter_join'' \<in> set classes"
  "''PCV_OT_filter_boolean_intersect'' \<in> set classes"
  "''PCV_OT_filter_boolean_exclude'' \<in> set classes"
  "''PCV_OT_reload'' \<in> set classes"
  "''PCV_OT_sequence_preload'' \<in> set classes"
  "''PCV_OT_sequence_clear'' \<in> set classes"
  "''PCV_OT_seq_init'' \<in> set classes"
  "''PCV_OT_seq_deinit'' \<in> set classes"
  "''PCV_OT_generate_point_cloud'' \<in> set classes"
  "''PCV_OT_reset_runtime'' \<in> set classes"
  "''PCV_OT_generate_volume_point_cloud'' \<in> set classes"
  "''PCV_OT_color_adjustment_shader_reset'' \<in> set classes"
  "''PCV_OT_color_adjustment_shader_apply'' \<in> set classes"
  "''PCV_OT_clip_planes_from_bbox'' \<in> set classes"
  "''PCV_OT_clip_planes_reset'' \<in> set classes"
  "''PCV_OT_clip_planes_from_camera_view'' \<in> set classes"
  unfolding classes_def by (rule list.set_intros)+

lemma registered_list: "registered_operators = map snd operator_names"
proof -
  have "\<forall>x\<in>set operator_names. case x of (c, i) \<Rightarrow> c \<in> set classes"
    by (simp only: operator_names_def list.set ball_simps prod.case operator_classes simp_thms)
  then show ?thesis by (simp only: registered_operators_def filter_True)
qed

lemma registered_members:
  "''point_cloud_visualizer.edit_cancel'' \<in> set registered_operators"
  "''point_cloud_visualizer.edit_update'' \<in> set registered_operators"
  "''point_cloud_visualizer.edit_end'' \<in> set registered_operators"
  "''point_cloud_visualizer.load_ply_to_cache'' \<in> set registered_operators"
  "''point_cloud_visualizer.reload'' \<in> set registered_operators"
  "''point_cloud_visualizer.draw'' \<in> set registered_operators"
  "''point_cloud_visualizer.erase'' \<in> set registered_operators"
  "''point_cloud_visualizer.clip_planes_from_bbox'' \<in> set registered_operators"
  "''point_cloud_visualizer.clip_planes_reset'' \<in> set registered_operators"
  "''point_cloud_visualizer.edit_start'' \<in> set registered_operators"
  "''point_cloud_visualizer.filter_simplify'' \<in> set registered_operators"
  "''point_cloud_visualizer.filter_project'' \<in> set registered_operators"
  "''point_cloud_visualizer.filter_boolean_intersect'' \<in> set registered_operators"
  "''point_cloud_visualizer.filter_boolean_exclude'' \<in> set registered_operators"
  "''point_cloud_visualizer.filter_remove_color'' \<in> set registered_operators"
  "''point_cloud_visualizer.filter_remove_color_deselect'' \<in> set registered_operators"
  "''point_cloud_visualizer.filter_remove_color_delete_selected'' \<in> set registered_operators"
  "''point_cloud_visualizer.filter_merge'' \<in> set registered_operators"
  "''point_cloud_visualizer.filter_join'' \<in> set registered_operators"
  "''point_cloud_visualizer.color_adjustment_shader_reset'' \<in> set registered_operators"
  "''point_cloud_visualizer.color_adjustment_shader_apply'' \<in> set registered_operators"
  "''point_cloud_visualizer.render'' \<in> set registered_operators"
  "''point_cloud_visualizer.render_animation'' \<in> set registered_operators"
  "''point_cloud_visualizer.convert'' \<in> set registered_operators"
  "''point_cloud_visualizer.generate_from_mesh'' \<in> set registered_operators"
  "''point_cloud_visualizer.reset_runtime'' \<in> set registered_operators"
  "''point_cloud_visualizer.export'' \<in> set registered_operators"
  "''point_cloud_visualizer.sequence_preload'' \<in> set registered_operators"
  "''point_cloud_visualizer.sequence_clear'' \<in> set registered_operators"
  "''point_cloud_visualizer.generate_volume_from_mesh'' \<in> set registered_operators"
  "''point_cloud_visualizer.init'' \<in> set registered_operators"
  "''point_cloud_visualizer.deinit'' \<in> set registered_operators"
  "''point_cloud_visualizer.gc'' \<in> set registered_operators"
  "''point_cloud_visualizer.seq_init'' \<in> set registered_operators"
  "''point_cloud_visualizer.seq_deinit'' \<in> set registered_operators"
  unfolding registered_list operator_names_def list.map snd_conv
  by (rule list.set_intros)+

section \<open>Panels\<close>

lemmas panel_defs =
  PCV_PT_panel_def PCV_PT_clip_def PCV_PT_edit_def
  PCV_PT_filter_def PCV_PT_filter_simplify_def PCV_PT_filter_project_def
  PCV_PT_filter_boolean_def PCV_PT_filter_remove_color_def PCV_PT_filter_merge_def
  PCV_PT_filter_join_def PCV_PT_filter_color_adjustment_def PCV_PT_render_def
  PCV_PT_convert_def PCV_PT_generate_def PCV_PT_export_def
  PCV_PT_sequence_def PCV_PT_development_def PCV_PT_debug_def

definition refers_ok :: "widget \<Rightarrow> bool" where
  "refers_ok x \<longleftrightarrow> set (shown_properties x) \<subseteq> set declared_ids \<and>
     set (buttons x) \<subseteq> insert ''script.reload'' (set registered_operators)"

lemma refers_ok_simps [simp]:
  "refers_ok (Text s)" "refers_ok (Scene_property s)" "refers_ok Space"
  "refers_ok (Property i) \<longleftrightarrow> i \<in> set declared_ids"
  "refers_ok (Button i) \<longleftrightarrow> i = ''script.reload'' \<or> i \<in> set registered_operators"
  "refers_ok (Layout k e ws) \<longleftrightarrow> list_all refers_ok ws"
  by (auto simp: refers_ok_def list_all_iff)

lemma list_all_if:
  "list_all P (if c then xs else ys) \<longleftrightarrow> (c \<longrightarrow> list_all P xs) \<and> (\<not> c \<longrightarrow> list_all P ys)"
  by simp

lemma refers_texts: "list_all refers_ok (map Text ts)"
  by (simp add: list_all_iff)

lemma refers_draw_pcv: "draw_pcv w f = Inr wd \<Longrightarrow> (\<And>p. refers_ok (f p)) \<Longrightarrow> refers_ok wd"
  by (auto simp: draw_pcv_def split: option.splits)

lemmas refers_rules = refers_ok_simps list.pred_inject list_all_append list_all_if refers_texts
  declared_members registered_members third_label_two_thirds_prop_def simp_thms

lemma main_refers: "main_panel_draw ui w = Inr wd \<Longrightarrow> refers_ok wd"
  by (auto simp: main_panel_draw_def editing_widgets_def helper_widgets_def cloud_widgets_def Let_def
      declared_members registered_members list_all_if split: option.splits sum.splits if_splits)

lemma manager_refers: "list_all refers_ok (manager_widgets ui w)" "list_all refers_ok (sequence_widgets ui w)"
  by (auto simp: manager_widgets_def sequence_widgets_def declared_members registered_members list_all_iff)

text \<open>Every panel under the main one draws for a context object, and only what is declared.\<close>

definition draws_declared :: "ui \<Rightarrow> world \<Rightarrow> ui_panel \<Rightarrow> bool" where
  "draws_declared ui w x \<longleftrightarrow> (\<exists>f. panel_draw x ui w = draw_pcv w f \<and> (\<forall>p. refers_ok (f p)))"

lemma draws_declaredI: "panel_draw x ui w = draw_pcv w f \<Longrightarrow> (\<And>p. refers_ok (f p)) \<Longrightarrow> draws_declared ui w x"
  by (auto simp: draws_declared_def)

lemma panel_draws_declared:
  "draws_declared ui w PCV_PT_clip"
  "draws_declared ui w PCV_PT_edit"
  "draws_declared ui w PCV_PT_filter"
  "draws_declared ui w PCV_PT_filter_simplify"
  "draws_declared ui w PCV_PT_filter_project"
  "draws_declared ui w PCV_PT_filter_boolean"
  "draws_declared ui w PCV_PT_filter_remove_color"
  "draws_declared ui w PCV_PT_filter_merge"
  "draws_declared ui w PCV_PT_filter_join"
  "draws_declared ui w PCV_PT_filter_color_adjustment"
  "draws_declared ui w PCV_PT_render"
  "draws_declared ui w PCV_PT_convert"
  "draws_declared ui w PCV_PT_generate"
  "draws_declared ui w PCV_PT_export"
  "draws_declared ui w PCV_PT_sequence"
  "draws_declared ui w PCV_PT_development"
  "draws_declared ui w PCV_PT_debug"
  by (rule draws_declaredI, simp only: panel_defs ui_panel.select_convs, simp only: refers_rules manager_refers)+

lemma subpanel_draws:
  assumes "x \<in> set (tl all_panels)"
  shows "draws_declared ui w x"
  using assms unfolding all_panels_def list.sel
  by (simp only: list.set) (elim insertE emptyE; simp only: panel_draws_declared)

section \<open>Visible panels\<close>

lemma fold_guard:
  "x \<in> set (fold (\<lambda>x vis. if P x vis then vis @ [x] else vis) xs acc) \<Longrightarrow>
     x \<in> set acc \<or> x \<in> set xs \<and> (\<exists>vis. P x vis)"
proof (induction xs arbitrary: acc)
  case (Cons a xs)
  show ?case
  proof (cases "P a acc")
    case True
    then show ?thesis using Cons.IH [of "acc @ [a]"] Cons.prems by auto
  next
    case False
    then show ?thesis using Cons by auto
  qed
qed simp

lemma fold_guard_none:
  "\<forall>x\<in>set xs. \<forall>vis. \<not> P x vis \<Longrightarrow> fold (\<lambda>x vis. if P x vis then vis @ [x] else vis) xs acc = acc"
  by (induction xs arbitrary: acc) simp_all

lemma visible_panel:
  assumes "x \<in> set (visible_panels ui w)"
  shows "x \<in> set all_panels" "panel_poll x ui w"
  using fold_guard [OF assms [unfolded visible_panels_def]] by auto

lemma all_panels_split: "all_panels = PCV_PT_panel # tl all_panels"
  by (simp add: all_panels_def)

lemma subpanel_polls:
  assumes "x \<in> set (tl all_panels)" "panel_poll x ui w"
  shows "context_pcv w \<noteq> None" "subpanel_poll ui w \<or> ui_debug_mode ui"
proof -
  have "panel_poll x \<in> {subpanel_poll, (\<lambda>ui w. ui_debug_mode ui \<and> subpanel_poll ui w), (\<lambda>ui w. context_pcv w \<noteq> None \<and> ui_debug_mode ui)}"
    using assms(1) unfolding all_panels_def list.sel
    by (simp only: list.set) (elim insertE emptyE; simp only: panel_defs ui_panel.select_convs insert_iff simp_thms)
  then show "context_pcv w \<noteq> None" "subpanel_poll ui w \<or> ui_debug_mode ui"
    using assms(2) by (auto simp: subpanel_poll_def split: option.splits)
qed

lemma panels_refer:
  assumes "x \<in> set all_panels" "panel_draw x ui w = Inr wd"
  shows "refers_ok wd"
proof (cases "x = PCV_PT_panel")
  case True
  then show ?thesis using assms(2) main_refers by (simp add: PCV_PT_panel_def)
next
  case False
  then have "x \<in> set (tl all_panels)" using assms(1) all_panels_split by (metis set_ConsD)
  from subpanel_draws [OF this, of ui w] show ?thesis
    using assms(2) refers_draw_pcv by (auto simp: draws_declared_def)
qed

text \<open>A well-formed cache has what the main panel reads.\<close>

lemma main_panel_draws:
  assumes "cache_wf w"
  shows "\<exists>wd. main_panel_draw ui w = Inr wd"
proof -
  have ok: "item_ok c" if "dict_get (cache w) u = Some c \<or> (u, c) \<in> set (cache w)" for u c
    using assms that by (auto simp: cache_wf_def dest!: map_of_SomeD)
  have "\<exists>i. info_block ui w p = Inr i" for p
  proof (cases "dict_get (cache w) (p_uuid p)")
    case (Some c)
    then have "item_ok c" using ok by blast
    then show ?thesis using Some by (auto simp: info_block_def Let_def elim!: item_okE)
  qed (simp add: info_block_def Let_def)
  moreover have "\<exists>b. zero_length w p = Inr b" for p
    using ok by (fastforce simp: zero_length_def Let_def elim: item_okE)
  ultimately show ?thesis
    by (simp add: main_panel_draw_def Let_def split: option.splits sum.splits) (metis sum.distinct(1) old.sum.exhaust)
qed

lemma sidebar_draws:
  assumes "cache_wf w"
  shows "\<exists>ws. sidebar ui w = map Inr ws \<and> list_all refers_ok ws"
proof -
  have "\<exists>wd. panel_draw x ui w = Inr wd" if x: "x \<in> set (visible_panels ui w)" for x
  proof (cases "x = PCV_PT_panel")
    case True
    then show ?thesis using main_panel_draws [OF assms] by (simp add: PCV_PT_panel_def)
  next
    case False
    then have x': "x \<in> set (tl all_panels)" using visible_panel(1) [OF x] all_panels_split by (metis set_ConsD)
    obtain q where "context_pcv w = Some q" using subpanel_polls(1) [OF x' visible_panel(2) [OF x]] by blast
    then show ?thesis using subpanel_draws [OF x', of ui w] by (cases q) (auto simp: draws_declared_def draw_pcv_def)
  qed
  then obtain g where g: "\<forall>x\<in>set (visible_panels ui w). panel_draw x ui w = Inr (g x)" by metis
  then have "sidebar ui w = map Inr (map g (visible_panels ui w))" by (simp add: sidebar_def)
  moreover have "list_all refers_ok (map g (visible_panels ui w))"
    using g panels_refer visible_panel(1) by (fastforce simp: list_all_iff)
  ultimately show ?thesis by blast
qed

lemma visible_editing:
  assumes "context_pcv w = Some (n, p)" "p_edit_initialized p \<or> p_edit_is_edit_mesh p" "\<not> ui_debug_mode ui"
  shows "visible_panels ui w = [PCV_PT_panel]"
proof -
  let ?P = "\<lambda>x (vis :: ui_panel list). panel_poll x ui w \<and>
    (case panel_parent x of None \<Rightarrow> True | Some q \<Rightarrow> q \<in> panel_id ` set vis)"
  have "\<not> panel_poll x ui w" if "x \<in> set (tl all_panels)" for x
    using subpanel_polls(2) [OF that, of ui w] assms by (auto simp: subpanel_poll_def)
  then have none: "\<forall>x\<in>set (tl all_panels). \<forall>vis. \<not> ?P x vis" by blast
  have "visible_panels ui w = fold (\<lambda>x vis. if ?P x vis then vis @ [x] else vis) (tl all_panels)
      (if ?P PCV_PT_panel [] then [] @ [PCV_PT_panel] else [])"
    unfolding visible_panels_def by (subst all_panels_split) (rule fold_simps(2))
  also have "\<dots> = (if ?P PCV_PT_panel [] then [] @ [PCV_PT_panel] else [])"
    by (rule fold_guard_none [OF none])
  finally show ?thesis by (simp add: PCV_PT_panel_def)
qed

section \<open>Tools\<close>

text \<open>The panels whose tools need the points on the screen.\<close>

definition tool_panels :: "ui_panel list" where
  "tool_panels =
     [PCV_PT_render, PCV_PT_convert, PCV_PT_filter_simplify, PCV_PT_filter_project, PCV_PT_filter_boolean,
      PCV_PT_filter_remove_color, PCV_PT_filter_merge, PCV_PT_filter_join, PCV_PT_filter_color_adjustment,
      PCV_PT_clip, PCV_PT_export]"

lemma find_SomeD: "find P xs = Some x \<Longrightarrow> P x \<and> x \<in> set xs"
  by (auto simp: find_Some_iff)

lemma join_ok_shown: "join_ok w p \<Longrightarrow> shown w (p_uuid p)"
  by (fastforce simp: join_ok_def shown_def split: option.splits dest: find_SomeD)

lemma tool_panel_disabled:
  assumes "x \<in> set tool_panels" "\<not> shown_poll w" "panel_draw x ui w = Inr wd"
  shows "enabled_buttons wd = []"
proof -
  obtain n p where p: "context_pcv w = Some (n, p)"
    using assms(1,3) by (cases "context_pcv w") (auto simp: tool_panels_def panel_defs draw_pcv_def)
  then have ns: "\<not> shown w (p_uuid p)" using assms(2) by (simp add: shown_poll_def)
  then have "\<not> join_ok w p" using join_ok_shown by blast
  with p ns assms show ?thesis by (auto simp: tool_panels_def panel_defs draw_pcv_def)
qed

section \<open>Registration\<close>

text \<open>Panels are registered after their parents, so registering succeeds.\<close>

definition parent_table :: "(string \<times> string option) list" where
  "parent_table =
     [(''PCV_PT_panel'', None),
      (''PCV_PT_clip'', Some ''PCV_PT_panel''),
      (''PCV_PT_edit'', Some ''PCV_PT_panel''),
      (''PCV_PT_filter'', Some ''PCV_PT_panel''),
      (''PCV_PT_filter_simplify'', Some ''PCV_PT_filter''),
      (''PCV_PT_filter_project'', Some ''PCV_PT_filter''),
      (''PCV_PT_filter_boolean'', Some ''PCV_PT_filter''),
      (''PCV_PT_filter_remove_color'', Some ''PCV_PT_filter''),
      (''PCV_PT_filter_merge'', Some ''PCV_PT_filter''),
      (''PCV_PT_filter_join'', Some ''PCV_PT_filter''),
      (''PCV_PT_filter_color_adjustment'', Some ''PCV_PT_filter''),
      (''PCV_PT_render'', Some ''PCV_PT_panel''),
      (''PCV_PT_convert'', Some ''PCV_PT_panel''),
      (''PCV_PT_generate'', Some ''PCV_PT_panel''),
      (''PCV_PT_export'', Some ''PCV_PT_panel''),
      (''PCV_PT_sequence'', Some ''PCV_PT_panel''),
      (''PCV_PT_development'', Some ''PCV_PT_panel''),
      (''PCV_PT_debug'', Some ''PCV_PT_panel'')]"

lemma parent_table_panels: "map (\<lambda>x. (panel_id x, panel_parent x)) all_panels = parent_table"
  by (simp only: all_panels_def panel_defs PCV_PT_panel_def list.map ui_panel.select_convs parent_table_def)

fun parents_first :: "string list \<Rightarrow> string list \<Rightarrow> bool" where
  "parents_first [] reg \<longleftrightarrow> True"
| "parents_first (c # cs) reg \<longleftrightarrow>
     (case map_of parent_table c of Some (Some q) \<Rightarrow> q \<in> set reg | _ \<Rightarrow> True) \<and> parents_first cs (c # reg)"

lemma find_map_of: "map_of (map (\<lambda>x. (f x, g x)) xs) c = map_option g (find (\<lambda>x. f x = c) xs)"
  by (induction xs) auto

lemma register_loop_parents:
  "parents_first cs reg \<Longrightarrow> set reg = set reg' \<Longrightarrow> register_loop cs reg' = Inr (reg' @ cs)"
proof (induction cs arbitrary: reg reg')
  case (Cons c cs)
  have "register_class c reg' = Inr (reg' @ [c])"
    using Cons.prems find_map_of [of panel_id panel_parent all_panels c]
    by (auto simp: register_class_def parent_table_panels split: option.splits)
  then show ?case using Cons.IH [of "c # reg" "reg' @ [c]"] Cons.prems by simp
qed simp

lemma register_succeeds: "register = Inr classes"
proof -
  have "parents_first classes []" by code_simp
  then show ?thesis using register_loop_parents [of classes "[]" "[]"] by (simp add: register_def)
qed

section \<open>Declared values\<close>

definition in_range :: "('a :: linorder) option \<Rightarrow> 'a option \<Rightarrow> 'a \<Rightarrow> bool" where
  "in_range lo hi x \<longleftrightarrow> (case lo of None \<Rightarrow> True | Some a \<Rightarrow> a \<le> x) \<and> (case hi of None \<Rightarrow> True | Some b \<Rightarrow> x \<le> b)"

definition default_ok :: "prop_type \<Rightarrow> bool" where
  "default_ok t \<longleftrightarrow>
     (case t of
        IntProperty d lo hi \<Rightarrow> in_range lo hi d
      | FloatProperty d lo hi \<Rightarrow> in_range lo hi d
      | FloatVectorProperty ds lo hi \<Rightarrow> list_all (in_range lo hi) ds
      | EnumProperty is d \<Rightarrow> d \<in> set is
      | _ \<Rightarrow> True)"

lemma defaults_in_range: "list_all (\<lambda>(i, n, t). default_ok t) pcv_properties"
  unfolding pcv_properties_def property_tables list_all_append
  by (simp add: default_ok_def in_range_def)

lemma human_loop_spec:
  "\<exists>k\<le>length us. human_loop fmt us x = fmt (x / 1000 ^ k) @ (us @ [''Y'']) ! k \<and> (k < length us \<longrightarrow> \<bar>x / 1000 ^ k\<bar> < 1000)"
proof (induction us arbitrary: x)
  case (Cons u us)
  show ?case
  proof (cases "\<bar>x\<bar> < 1000")
    case True
    then show ?thesis by (intro exI [of _ 0]) simp
  next
    case False
    obtain k where "k \<le> length us" "human_loop fmt us (x / 1000) = fmt (x / 1000 / 1000 ^ k) @ (us @ [''Y'']) ! k"
      "k < length us \<longrightarrow> \<bar>x / 1000 / 1000 ^ k\<bar> < 1000"
      using Cons by blast
    then show ?thesis using False by (intro exI [of _ "Suc k"]) (simp add: field_simps)
  qed
qed simp

end
