(* ===== verification/PCV_Props_Panels.thy ===== *)
theory PCV_Props_Panels
  imports PCV_Panel_Facts PCV_Examples
begin

text \<open>
  What the sidebar shows: panels that draw and refer to what exists, only the edit buttons while a cloud is edited, and
  no enabled tool for a cloud that is not on the screen.
\<close>

definition ex_ui :: ui where
  "ex_ui = \<lparr>ui_instance_visualizer = False, ui_illumination_edit = True, ui_debug_mode = False, ui_debug_properties = False,
     ui_debug_manager = True, ui_debug_sequence = True, ui_debug_cache_items = False, ui_format = (\<lambda>x. ''1.0''),
     ui_property_texts = (\<lambda>_. []), ui_handle_text = (\<lambda>_. ''''), ui_item_texts = (\<lambda>_. []), ui_sequence_texts = (\<lambda>_. [])\<rparr>"

text \<open>C33: The sidebar draws: on a well-formed cache no visible panel raises an error, every property that a panel
  shows is declared by the add-on, and every button runs a registered operator.\<close>

theorem sidebar_shows_declared:
  assumes "cache_wf w"
  shows "\<exists>ws. sidebar ui w = map Inr ws \<and>
     list_all (\<lambda>x. set (shown_properties x) \<subseteq> fst ` set pcv_properties \<and>
       set (buttons x) \<subseteq> insert ''script.reload'' (set registered_operators)) ws"
  using sidebar_draws [OF assms, of ui] by (auto simp: refers_ok_def declared_ids_def list_all_iff)

theorem sidebar_shows_declared_witness:
  "\<exists>ws. sidebar ex_ui ex_world = map Inr ws \<and>
     list_all (\<lambda>x. set (buttons x) \<subseteq> insert ''script.reload'' (set registered_operators)) ws"
proof -
  have "cache_wf ex_world" using ex_world_ok by (simp add: world_ok_def)
  from sidebar_shows_declared [OF this, of ex_ui] show ?thesis by (auto simp: list_all_iff)
qed



text \<open>No tool without points: a button in a panel that renders, converts, exports, clips or filters is enabled
  only while the points of the context object are loaded and drawn.\<close>

theorem tools_need_shown_cloud:
  assumes "x \<in> set tool_panels" "panel_draw x ui w = Inr wd" "enabled_buttons wd \<noteq> []"
  shows "\<exists>n p k c. context_pcv w = Some (n, p) \<and> (k, c) \<in> set (cache w) \<and> ci_uuid c = Some (p_uuid p) \<and>
     ci_ready c \<and> ci_draw c"
proof -
  have "shown_poll w" using tool_panel_disabled [OF assms(1) _ assms(2)] assms(3) by blast
  then show ?thesis by (auto simp: shown_poll_def shown_def split: option.splits)
qed

theorem tools_need_shown_cloud_witness:
  "\<exists>n p k c. context_pcv ex_world = Some (n, p) \<and> (k, c) \<in> set (cache ex_world) \<and> ci_uuid c = Some (p_uuid p) \<and>
     ci_ready c \<and> ci_draw c"
proof -
  obtain n p where p: "context_pcv ex_world = Some (n, p)" "shown ex_world (p_uuid p)"
    using ex_arrays by (auto simp: context_pcv_def ex_world_def get_pcv_def shown_def ex_pcv1_def ex_item1_def ex_item_def PCVManager_new_def default_pcv_def)
  then have s: "shown_poll ex_world" by (simp add: shown_poll_def)
  let ?wd = "Layout Column True [Layout Column True [Button ''point_cloud_visualizer.filter_merge'']]"
  have "panel_draw PCV_PT_filter_merge ex_ui ex_world = Inr ?wd"
    using p s by (simp add: PCV_PT_filter_merge_def draw_pcv_def)
  moreover have "PCV_PT_filter_merge \<in> set tool_panels" by (simp only: tool_panels_def list.set insert_iff simp_thms)
  moreover have "enabled_buttons ?wd \<noteq> []" by simp
  ultimately show ?thesis by (intro tools_need_shown_cloud)
qed

end
