(* ===== verification/PCV_Mesh.thy ===== *)
theory PCV_Mesh
  imports PCV_Filter_Facts
begin

text \<open>
  Making meshes from points: \<open>Progress\<close>, the mesh generator with its tables, the two instancers
  that copy a generated mesh onto every point (\<open>PCMeshInstancer\<close> vertex by vertex and
  \<open>PCMeshInstancer2\<close> with numpy), and the UV layout, the baking and the particle settings of
  \<open>PCInstancer\<close> and \<open>PCParticles\<close>.
\<close>

section \<open>Progress\<close>

record progress =
  pg_current :: int
  pg_percent :: int
  pg_last :: int
  pg_total :: int

definition Progress_init :: "int \<Rightarrow> progress" where
  "Progress_init n = \<lparr>pg_current = 0, pg_percent = - 1, pg_last = - 1, pg_total = n\<rparr>"

text \<open>One step; the numbers written to the console are the result's second part.\<close>

definition Progress_step :: "bool \<Rightarrow> int \<Rightarrow> progress \<Rightarrow> py_error + progress \<times> int list" where
  "Progress_step debug numdone p =
     (if \<not> debug then Inr (p, [])
      else if pg_total p = 0 then Inl ZeroDivisionError
      else
        (let cur = pg_current p + numdone;
             pc = py_int (real_of_int cur / (real_of_int (pg_total p) / 100));
             new = (pg_last p < pc)
         in Inr (p\<lparr>pg_current := cur, pg_percent := pc, pg_last := (if new then pc else pg_last p)\<rparr>,
                 (if new then [pc] else []) @ (if 100 \<le> pc \<or> pg_total p = cur then [100] else []))))"

section \<open>The generator\<close>

text \<open>The coordinates and faces of the two icospheres, as the code lists them.\<close>

definition icosphere_verts1 :: "v3 list" where
  "icosphere_verts1 =
    [(0.0, 0.0, - 0.5), (0.3617999851703644, - 0.2628600001335144, - 0.22360749542713165),
     (- 0.13819250464439392, - 0.42531999945640564, - 0.22360749542713165),
     (- 0.44721248745918274, 0.0, - 0.22360749542713165),
     (- 0.13819250464439392, 0.42531999945640564, - 0.22360749542713165),
     (0.3617999851703644, 0.2628600001335144, - 0.22360749542713165),
     (0.13819250464439392, - 0.42531999945640564, 0.22360749542713165),
     (- 0.3617999851703644, - 0.2628600001335144, 0.22360749542713165),
     (- 0.3617999851703644, 0.2628600001335144, 0.22360749542713165),
     (0.13819250464439392, 0.42531999945640564, 0.22360749542713165),
     (0.44721248745918274, 0.0, 0.22360749542713165), (0.0, 0.0, 0.5)]"

definition icosphere_faces1 :: "nat list list" where
  "icosphere_faces1 =
    [[0, 1, 2], [1, 0, 5], [0, 2, 3], [0, 3, 4], [0, 4, 5], [1, 5, 10], [2, 1, 6], [3, 2, 7],
     [4, 3, 8], [5, 4, 9], [1, 10, 6], [2, 6, 7], [3, 7, 8], [4, 8, 9], [5, 9, 10], [6, 10, 11],
     [7, 6, 11], [8, 7, 11], [9, 8, 11], [10, 9, 11]]"

definition icosphere_verts2 :: "v3 list" where
  "icosphere_verts2 =
    [(0.0, 0.0, - 0.5), (0.36180365085601807, - 0.2628626525402069, - 0.22360976040363312),
     (- 0.1381940096616745, - 0.42532461881637573, - 0.22360992431640625),
     (- 0.4472131133079529, 0.0, - 0.22360780835151672),
     (- 0.1381940096616745, 0.42532461881637573, - 0.22360992431640625),
     (0.36180365085601807, 0.2628626525402069, - 0.22360976040363312),
     (0.1381940096616745, - 0.42532461881637573, 0.22360992431640625),
     (- 0.36180365085601807, - 0.2628626525402069, 0.22360976040363312),
     (- 0.36180365085601807, 0.2628626525402069, 0.22360976040363312),
     (0.1381940096616745, 0.42532461881637573, 0.22360992431640625),
     (0.4472131133079529, 0.0, 0.22360780835151672), (0.0, 0.0, 0.5),
     (- 0.08122777938842773, - 0.24999763071537018, - 0.42532721161842346),
     (0.21266134083271027, - 0.15450569987297058, - 0.4253270924091339),
     (0.13143441081047058, - 0.40450581908226013, - 0.26286882162094116),
     (0.4253239333629608, 0.0, - 0.2628679573535919),
     (0.21266134083271027, 0.15450569987297058, - 0.4253270924091339),
     (- 0.262864887714386, 0.0, - 0.42532584071159363),
     (- 0.3440946936607361, - 0.24999846518039703, - 0.26286810636520386),
     (- 0.08122777938842773, 0.24999763071537018, - 0.42532721161842346),
     (- 0.3440946936607361, 0.24999846518039703, - 0.26286810636520386),
     (0.13143441081047058, 0.40450581908226013, - 0.26286882162094116),
     (0.47552892565727234, - 0.15450631082057953, 0.0),
     (0.47552892565727234, 0.15450631082057953, 0.0), (0.0, - 0.4999999701976776, 0.0),
     (0.2938928008079529, - 0.4045083522796631, 0.0),
     (- 0.47552892565727234, - 0.15450631082057953, 0.0),
     (- 0.2938928008079529, - 0.4045083522796631, 0.0),
     (- 0.2938928008079529, 0.4045083522796631, 0.0),
     (- 0.47552892565727234, 0.15450631082057953, 0.0),
     (0.2938928008079529, 0.4045083522796631, 0.0), (0.0, 0.4999999701976776, 0.0),
     (0.3440946936607361, - 0.24999846518039703, 0.26286810636520386),
     (- 0.13143441081047058, - 0.40450581908226013, 0.26286882162094116),
     (- 0.4253239333629608, 0.0, 0.2628679573535919),
     (- 0.13143441081047058, 0.40450581908226013, 0.26286882162094116),
     (0.3440946936607361, 0.24999846518039703, 0.26286810636520386),
     (0.08122777938842773, - 0.24999763071537018, 0.4253271818161011),
     (0.262864887714386, 0.0, 0.42532584071159363),
     (- 0.21266134083271027, - 0.15450569987297058, 0.4253270924091339),
     (- 0.21266134083271027, 0.15450569987297058, 0.4253270924091339),
     (0.08122777938842773, 0.24999763071537018, 0.4253271818161011)]"

definition icosphere_faces2 :: "nat list list" where
  "icosphere_faces2 =
    [[0, 13, 12], [1, 13, 15], [0, 12, 17], [0, 17, 19], [0, 19, 16], [1, 15, 22], [2, 14, 24],
     [3, 18, 26], [4, 20, 28], [5, 21, 30], [1, 22, 25], [2, 24, 27], [3, 26, 29], [4, 28, 31],
     [5, 30, 23], [6, 32, 37], [7, 33, 39], [8, 34, 40], [9, 35, 41], [10, 36, 38], [38, 41, 11],
     [38, 36, 41], [36, 9, 41], [41, 40, 11], [41, 35, 40], [35, 8, 40], [40, 39, 11],
     [40, 34, 39], [34, 7, 39], [39, 37, 11], [39, 33, 37], [33, 6, 37], [37, 38, 11],
     [37, 32, 38], [32, 10, 38], [23, 36, 10], [23, 30, 36], [30, 9, 36], [31, 35, 9],
     [31, 28, 35], [28, 8, 35], [29, 34, 8], [29, 26, 34], [26, 7, 34], [27, 33, 7],
     [27, 24, 33], [24, 6, 33], [25, 32, 6], [25, 22, 32], [22, 10, 32], [30, 31, 9],
     [30, 21, 31], [21, 4, 31], [28, 29, 8], [28, 20, 29], [20, 3, 29], [26, 27, 7],
     [26, 18, 27], [18, 2, 27], [24, 25, 6], [24, 14, 25], [14, 1, 25], [22, 23, 10],
     [22, 15, 23], [15, 5, 23], [16, 21, 5], [16, 19, 21], [19, 4, 21], [19, 20, 4],
     [19, 17, 20], [17, 3, 20], [17, 18, 3], [17, 12, 18], [12, 2, 18], [15, 16, 5],
     [15, 13, 16], [13, 0, 16], [12, 14, 2], [12, 13, 14], [13, 1, 14]]"

type_synonym mesh_data = "v3 list \<times> (nat \<times> nat) list \<times> nat list list"

record mesh_generator =
  mg_type :: string
  mg_length :: real
  mg_radius :: real
  mg_subdivision :: int

definition mesh_types :: "string list" where
  "mesh_types = [''VERTEX'', ''TRIANGLE'', ''TETRAHEDRON'', ''CUBE'', ''ICOSPHERE'']"

definition circle2d_coords :: "real \<Rightarrow> nat \<Rightarrow> real \<Rightarrow> real \<Rightarrow> real \<Rightarrow> (real \<times> real) list" where
  "circle2d_coords radius steps off ox oy =
     (let angstep = 2 * pi / real steps
      in map (\<lambda>i. (sin (real i * angstep + off) * radius + ox, cos (real i * angstep + off) * radius + oy))
           [0..<steps])"

definition generator_generate :: "mesh_generator \<Rightarrow> mesh_data" where
  "generator_generate g =
     (let l = mg_length g
      in if mg_type g = ''VERTEX'' then ([(0, 0, 0)], [], [])
         else if mg_type g = ''TRIANGLE'' then
           (map (\<lambda>(x, y). (x, y, 0)) (circle2d_coords (sqrt 3 / 3 * l) 3 0 0 0), [], [[0, 2, 1]])
         else if mg_type g = ''TETRAHEDRON'' then
           (let c = circle2d_coords (sqrt 3 / 3 * l) 3 0 0 0; h = l / 3 * sqrt 6
            in (map (\<lambda>(x, y). (x, y, 0)) (take 3 c) @ [(0, 0, h)], [],
                [[0, 1, 2], [3, 2, 1], [3, 1, 0], [3, 0, 2]]))
         else if mg_type g = ''CUBE'' then
           (let k = l / 2
            in ([(k, k, - k), (k, - k, - k), (- k, - k, - k), (- k, k, - k),
                 (k, k, k), (k, - k, k), (- k, - k, k), (- k, k, k)], [],
                [[0, 1, 2, 3], [4, 7, 6, 5], [0, 4, 5, 1], [1, 5, 6, 2], [2, 6, 7, 3], [4, 0, 3, 7]]))
         else if mg_type g = ''ICOSPHERE'' then
           (if mg_subdivision g = 1 then (icosphere_verts1, [], icosphere_faces1)
            else (icosphere_verts2, [], icosphere_faces2))
         else ([(0, 0, 0)], [], []))"

text \<open>
  The constructor clamps what it is given, so that the subdivision is 1 or 2 and
  \<open>generate\<close> reaches its \<open>ValueError\<close> for no object.
\<close>

definition PCMeshInstancerMeshGenerator :: "string \<Rightarrow> real \<Rightarrow> real \<Rightarrow> int \<Rightarrow> py_error + mesh_generator" where
  "PCMeshInstancerMeshGenerator mesh_type len radius subdivision =
     (if mesh_type \<notin> set mesh_types then Inl (TypeError (''Unknown mesh type: '' @ mesh_type))
      else Inr \<lparr>mg_type = mesh_type,
                mg_length = (if len \<le> 0 then 1 / 1000 else len),
                mg_radius = (if radius \<le> 0 then 1 / 1000 else radius),
                mg_subdivision = (if 0 < subdivision \<and> subdivision \<le> 2 then subdivision else 1)\<rparr>)"

section \<open>Quaternions and matrices\<close>

type_synonym quat = "real \<times> real \<times> real \<times> real"

definition v3_cross :: "v3 \<Rightarrow> v3 \<Rightarrow> v3" where
  "v3_cross a b =
     (case (a, b) of ((a1, a2, a3), (b1, b2, b3)) \<Rightarrow>
        (a2 * b3 - a3 * b2, a3 * b1 - a1 * b3, a1 * b2 - a2 * b1))"

definition quat_normalized :: "quat \<Rightarrow> quat" where
  "quat_normalized q =
     (case q of (w, x, y, z) \<Rightarrow>
        (let l = sqrt (w\<^sup>2 + x\<^sup>2 + y\<^sup>2 + z\<^sup>2)
         in if l = 0 then (1, 0, 0, 0) else (w / l, x / l, y / l, z / l)))"

definition v4_add :: "v4 \<Rightarrow> v4 \<Rightarrow> v4" where
  "v4_add a b = (case (a, b) of ((a1, a2, a3, a4), (b1, b2, b3, b4)) \<Rightarrow> (a1 + b1, a2 + b2, a3 + b3, a4 + b4))"

definition v4_scale :: "real \<Rightarrow> v4 \<Rightarrow> v4" where
  "v4_scale s a = (case a of (a1, a2, a3, a4) \<Rightarrow> (s * a1, s * a2, s * a3, s * a4))"

text \<open>\<open>a @ b\<close> on 4x4 matrices given by their rows.\<close>

definition mat_mul :: "mat4 \<Rightarrow> mat4 \<Rightarrow> mat4" where
  "mat_mul a b =
     map (\<lambda>(p, q, r, s). v4_add (v4_scale p (b ! 0)) (v4_add (v4_scale q (b ! 1))
            (v4_add (v4_scale r (b ! 2)) (v4_scale s (b ! 3))))) a"

definition mat_translation :: "v3 \<Rightarrow> mat4" where
  "mat_translation v = (case v of (x, y, z) \<Rightarrow> [(1, 0, 0, x), (0, 1, 0, y), (0, 0, 1, z), (0, 0, 0, 1)])"

definition mat_scale :: "v3 \<Rightarrow> mat4" where
  "mat_scale v = (case v of (x, y, z) \<Rightarrow> [(x, 0, 0, 0), (0, y, 0, 0), (0, 0, z, 0), (0, 0, 0, 1)])"

definition mat_identity :: mat4 where
  "mat_identity = [(1, 0, 0, 0), (0, 1, 0, 0), (0, 0, 1, 0), (0, 0, 0, 1)]"

text \<open>
  What mathutils and bmesh compute: the scale of a matrix, the matrix of a quaternion, the
  quaternion of a turn about an axis, the triangulated mesh.
\<close>

record mesh_env =
  me_scale :: "mat4 \<Rightarrow> v3"
  me_quat_matrix :: "quat \<Rightarrow> mat4"
  me_axis_angle :: "v3 \<Rightarrow> real \<Rightarrow> quat"
  me_triangulate :: "v3 list \<times> nat list list \<Rightarrow> v3 list \<times> nat list list"

definition rotation_to :: "mesh_env \<Rightarrow> v3 \<Rightarrow> v3 \<Rightarrow> quat" where
  "rotation_to me a0 b0 =
     (let a = v3_normalized a0; b = v3_normalized b0; d = v3_dot a b
      in if d < - 0.999999 then
           (let t = v3_cross (1, 0, 0) a;
                t' = (if v3_length t < 0.000001 then v3_cross (0, 1, 0) a else t)
            in me_axis_angle me (v3_normalized t') pi)
         else if 0.999999 < d then (1, 0, 0, 0)
         else (case v3_cross a b of (x, y, z) \<Rightarrow> quat_normalized (1 + d, x, y, z)))"

section \<open>PCMeshInstancer\<close>

text \<open>A point is its location, normal and 8 bit colour.\<close>

type_synonym mesh_point = "v3 \<times> v3 \<times> (int \<times> int \<times> int)"

definition instance_matrix :: "mesh_env \<Rightarrow> bool \<Rightarrow> real \<Rightarrow> mat4 \<Rightarrow> v3 \<times> v3 \<Rightarrow> mat4" where
  "instance_matrix me align s osm p =
     (let ml = mat_translation (fst p);
          mr = (if align then me_quat_matrix me (rotation_to me (0, 0, 1) (snd p)) else mat_identity);
          ms = mat_scale (s, s, s)
      in mat_mul (mat_mul (mat_mul ml mr) ms) osm)"

definition calc_matrices :: "blender \<Rightarrow> mesh_env \<Rightarrow> mat4 \<Rightarrow> bool \<Rightarrow> real \<Rightarrow> (v3 \<times> v3) list \<Rightarrow> py_error + mat4 list" where
  "calc_matrices bl me matrix align s ps =
     bindE (bl_inverted bl (mat_scale (me_scale me matrix))) (\<lambda>osm.
       Inr (map (instance_matrix me align s osm) ps))"

text \<open>Writing the transformed mesh \<open>tv\<close> of instance \<open>i\<close> into the lists of all instances.\<close>

definition write_pydata_chunk :: "nat \<Rightarrow> v3 list \<Rightarrow> (nat \<times> nat) list \<Rightarrow> nat list list \<Rightarrow> mesh_data \<Rightarrow> mesh_data" where
  "write_pydata_chunk i tv de df acc =
     (case acc of (vs, es, fs) \<Rightarrow>
        let ev = length tv; ee = length de; ef = length df
        in (fold (\<lambda>j xs. xs[i * ev + j := tv ! j]) [0..<ev] vs,
            fold (\<lambda>j xs. xs[i * ee + j := (i * ev + fst (de ! j), i * ev + snd (de ! j))]) [0..<ee] es,
            fold (\<lambda>j xs. xs[i * ef + j := map (\<lambda>a. i * ev + a) (df ! j)]) [0..<ef] fs))"

definition calc_mesh_data :: "mesh_generator \<Rightarrow> mat4 list \<Rightarrow> mesh_data" where
  "calc_mesh_data g ms =
     (case generator_generate g of (dv, de, df) \<Rightarrow>
        let l = length ms
        in fold (\<lambda>(i, m). write_pydata_chunk i (map (mat_apply m) dv) de df) (zip [0..<l] ms)
             (replicate (l * length dv) (0, 0, 0), replicate (l * length de) (0, 0),
              replicate (l * length df) []))"

text \<open>
  The loops of a mesh made with \<open>from_pydata\<close> are its faces' corners in order; each gets
  the colour of the point its vertex belongs to.
\<close>

definition make_vcols :: "nat \<Rightarrow> mesh_point list \<Rightarrow> nat list list \<Rightarrow> py_error + v4 list option" where
  "make_vcols num ps faces =
     (let loops = concat faces;
          colors = map (\<lambda>(_, _, r, g, b). (real_of_int r / 255, real_of_int g / 255, real_of_int b / 255)) ps
      in if loops = [] then Inr None
         else bindE (mapE (\<lambda>vi. bindE (py_get colors (int (vi div num))) (\<lambda>(r, g, b). Inr (r, g, b, 1))) loops)
                (\<lambda>cs. Inr (Some cs)))"

record mesh_object =
  mo_name :: string
  mo_verts :: "v3 list"
  mo_edges :: "(nat \<times> nat) list"
  mo_faces :: "nat list list"
  mo_cols :: "v4 list option"
  mo_matrix :: mat4

definition PCMeshInstancer ::
    "blender \<Rightarrow> mesh_env \<Rightarrow> string \<Rightarrow> mesh_point list \<Rightarrow> mesh_generator \<Rightarrow> mat4 \<Rightarrow> real \<Rightarrow> bool \<Rightarrow> bool \<Rightarrow> py_error + mesh_object" where
  "PCMeshInstancer bl me name points g matrix s normal_align vcols =
     bindE (calc_matrices bl me matrix normal_align s (map (\<lambda>(v, n, _). (v, n)) points)) (\<lambda>ms.
       case calc_mesh_data g ms of (vs, es, fs) \<Rightarrow>
         bindE (if vcols then make_vcols (length (fst (generator_generate g))) points fs else Inr None) (\<lambda>cs.
           Inr \<lparr>mo_name = name, mo_verts = vs, mo_edges = es, mo_faces = fs, mo_cols = cs, mo_matrix = matrix\<rparr>))"

section \<open>PCMeshInstancer2\<close>

text \<open>
  Numpy buffers of all instances, filled slice by slice; every colour is repeated for the
  loops of its instance's triangles.
\<close>

definition write_slice :: "nat \<Rightarrow> 'a list \<Rightarrow> 'a list \<Rightarrow> 'a list" where
  "write_slice k new xs = take k xs @ new @ drop (k + length new) xs"

definition calc_mesh :: "mesh_env \<Rightarrow> mesh_generator \<Rightarrow> mat4 list \<Rightarrow> v3 list \<times> nat list list" where
  "calc_mesh me g ms =
     (case generator_generate g of (dv, _, df) \<Rightarrow>
      case me_triangulate me (dv, df) of (gv, gf) \<Rightarrow>
        fold (\<lambda>(i, m) (vs, fs).
               (write_slice (i * length gv) (map (mat_apply m) gv) vs,
                write_slice (i * length gf) (map (map (\<lambda>a. a + i * length gv)) gf) fs))
          (zip [0..<length ms] ms)
          (replicate (length ms * length gv) (0, 0, 0), replicate (length ms * length gf) [0, 0, 0]))"

definition make_colors :: "nat \<Rightarrow> v4 list \<Rightarrow> v4 list" where
  "make_colors fl cs = concat (map (replicate (fl * 3)) cs)"

definition PCMeshInstancer2 ::
    "blender \<Rightarrow> mesh_env \<Rightarrow> string \<Rightarrow> v3 list \<Rightarrow> v3 list option \<Rightarrow> v4 list option \<Rightarrow> mesh_generator \<Rightarrow> mat4 \<Rightarrow> real \<Rightarrow> bool \<Rightarrow> bool
       \<Rightarrow> py_error + mesh_object" where
  "PCMeshInstancer2 bl me name vs ns cs g matrix s align vcols =
     (let ns' = (case ns of None \<Rightarrow> [] | Some n \<Rightarrow> n)
      in if ns = None \<and> vs \<noteq> [] then Inl (TypeError ''NoneType'')
         else if length ns' < length vs then Inl IndexError
         else
           bindE (calc_matrices bl me matrix align s (zip vs ns')) (\<lambda>ms.
             case calc_mesh me g ms of (mvs, mfs) \<Rightarrow>
               (let fl = (case generator_generate g of (dv, _, df) \<Rightarrow> length (snd (me_triangulate me (dv, df))))
                in Inr \<lparr>mo_name = name, mo_verts = mvs, mo_edges = [], mo_faces = mfs,
                        mo_cols = (case cs of None \<Rightarrow> None
                                   | Some cs' \<Rightarrow> if vcols then Some (make_colors fl cs') else None),
                        mo_matrix = matrix\<rparr>)))"

section \<open>UV layout, baking and particles\<close>

definition tri_uv :: "nat \<Rightarrow> real \<Rightarrow> real \<Rightarrow> real \<Rightarrow> (real \<times> real) list" where
  "tri_uv i x y q =
     (if i = 0 then [(x + 0 * q, y + 0 * q), (x + 1 * q, y + 0 * q), (x + 1 / 2 * q, y + 1 / 2 * q)]
      else if i = 1 then [(x + 1 * q, y + 0 * q), (x + 1 * q, y + 1 * q), (x + 1 / 2 * q, y + 1 / 2 * q)]
      else if i = 2 then [(x + 1 * q, y + 1 * q), (x + 0 * q, y + 1 * q), (x + 1 / 2 * q, y + 1 / 2 * q)]
      else [(x + 0 * q, y + 1 * q), (x + 0 * q, y + 0 * q), (x + 1 / 2 * q, y + 1 / 2 * q)])"

text \<open>The loop over the faces with its three counters.\<close>

fun uv_loop :: "nat \<Rightarrow> real \<Rightarrow> nat \<Rightarrow> nat \<Rightarrow> nat \<Rightarrow> nat list list \<Rightarrow> py_error + (real \<times> real) list list" where
  "uv_loop side sq sq_c xn yn [] = Inr []"
| "uv_loop side sq sq_c xn yn (f # fs) =
     (let co = tri_uv sq_c (real xn * sq) (real yn * sq) sq
      in if 3 < length f then Inl IndexError
         else (let c' = sq_c + 1; x' = xn + 1
               in bindE (if c' = 4
                         then (if x' = side then uv_loop side sq 0 0 (yn + 1) fs else uv_loop side sq 0 x' yn fs)
                         else uv_loop side sq c' xn yn fs)
                    (\<lambda>r. Inr (take (length f) co # r))))"

definition sq_per_uv_side :: "nat \<Rightarrow> nat" where
  "sq_per_uv_side num_tri = nat \<lceil>sqrt (real_of_int \<lceil>real num_tri / 4\<rceil>)\<rceil>"

definition uv_layout :: "nat list list \<Rightarrow> py_error + (real \<times> real) list list" where
  "uv_layout faces =
     (let side = sq_per_uv_side (length faces)
      in if side = 0 then Inl ZeroDivisionError
         else uv_loop side (1 / real side) 0 0 0 faces)"

record bake_settings =
  bk_engine :: string
  bk_bake_type :: string
  bk_samples :: int
  bk_use_pass_direct :: bool
  bk_use_pass_indirect :: bool
  bk_use_pass_color :: bool
  bk_margin :: int

text \<open>Baking changes the settings and puts them back; a bake that raises leaves them changed.\<close>

definition bake_colors :: "(bake_settings \<Rightarrow> py_error + unit) \<Rightarrow> bake_settings \<Rightarrow> (py_error + unit) \<times> bake_settings" where
  "bake_colors bake s0 =
     (let s1 = s0\<lparr>bk_engine := ''CYCLES''\<rparr>;
          s2 = s1\<lparr>bk_bake_type := ''DIFFUSE'', bk_samples := 32\<rparr>;
          s3 = s2\<lparr>bk_use_pass_direct := False, bk_use_pass_indirect := False, bk_use_pass_color := False\<rparr>;
          s4 = s3\<lparr>bk_use_pass_color := True, bk_margin := 0\<rparr>
      in case bake s4 of
           Inl e \<Rightarrow> (Inl e, s4)
         | Inr _ \<Rightarrow>
             (Inr (), s4\<lparr>bk_bake_type := bk_bake_type s1, bk_samples := bk_samples s1,
                         bk_use_pass_direct := bk_use_pass_direct s2,
                         bk_use_pass_indirect := bk_use_pass_indirect s2,
                         bk_use_pass_color := bk_use_pass_color s2, bk_margin := bk_margin s3,
                         bk_engine := bk_engine s0\<rparr>))"

record particle_settings =
  pt_count :: nat
  pt_frame_end :: int
  pt_normal_factor :: int
  pt_emit_from :: string
  pt_use_emit_random :: bool
  pt_use_even_distribution :: bool
  pt_userjit :: int
  pt_render_type :: string
  pt_particle_size :: int
  pt_display_method :: string
  pt_display_size :: real
  pt_physics_type :: string
  pt_instance_object :: "string option"

definition particle_setup :: "nat \<Rightarrow> real \<Rightarrow> string \<Rightarrow> particle_settings" where
  "particle_setup num_tri base_sphere_radius sphere =
     \<lparr>pt_count = num_tri, pt_frame_end = 1, pt_normal_factor = 0, pt_emit_from = ''FACE'',
      pt_use_emit_random = False, pt_use_even_distribution = False, pt_userjit = 1,
      pt_render_type = ''OBJECT'', pt_particle_size = 1, pt_display_method = ''DOT'',
      pt_display_size = base_sphere_radius, pt_physics_type = ''NO'', pt_instance_object = Some sphere\<rparr>"

end
