(* ===== verification/PCV_GLSL.thy ===== *)
theory PCV_GLSL
  imports PCV_Uniforms PCV_Mesh PCV_Shaders
begin

text \<open>
  The GLSL code of \<open>PCVShaders\<close>, run for one point: the functions \<open>main\<close> of its vertex, geometry and fragment
  shaders, each named after its source with the suffix \<open>_code\<close>. Inputs are the attributes of the point, the
  outputs of the stage before, and the uniforms that \<open>render\<close> sets (\<open>PCV_Uniforms\<close>), read by name. Floats are real
  numbers. Where GLSL leaves a result undefined (a division by zero, a power of zero to a negative
  exponent, the direction of a zero vector) it is \<open>None\<close>. The place of a fragment in the square of its point
  (\<open>gl_PointCoord\<close>) and the derivative \<open>fwidth\<close> are arguments.
\<close>

section \<open>Vectors and built-in functions of GLSL\<close>

type_synonym v2 = "real \<times> real"

definition vec4 :: "v3 \<Rightarrow> real \<Rightarrow> v4" where
  "vec4 v w = (case v of (x, y, z) \<Rightarrow> (x, y, z, w))"

definition vec4_xy :: "v2 \<Rightarrow> v4" where
  "vec4_xy v = (fst v, snd v, 0, 0)"

definition rgb :: "v4 \<Rightarrow> v3" where
  "rgb c = (case c of (r, g, b, a) \<Rightarrow> (r, g, b))"

definition alpha_of :: "v4 \<Rightarrow> real" where
  "alpha_of c = (case c of (r, g, b, a) \<Rightarrow> a)"

definition z_of :: "v4 \<Rightarrow> real" where
  "z_of c = (case c of (x, y, z, w) \<Rightarrow> z)"

definition v4_dot :: "v4 \<Rightarrow> v4 \<Rightarrow> real" where
  "v4_dot a b = (case (a, b) of ((a1, a2, a3, a4), (b1, b2, b3, b4)) \<Rightarrow> a1 * b1 + a2 * b2 + a3 * b3 + a4 * b4)"

definition v4_sub :: "v4 \<Rightarrow> v4 \<Rightarrow> v4" where
  "v4_sub a b = v4_add a (v4_scale (- 1) b)"

definition mat_vec :: "mat4 \<Rightarrow> v4 \<Rightarrow> v4" where
  "mat_vec m v = (v4_dot (m ! 0) v, v4_dot (m ! 1) v, v4_dot (m ! 2) v, v4_dot (m ! 3) v)"

definition v3_map :: "(real \<Rightarrow> real) \<Rightarrow> v3 \<Rightarrow> v3" where
  "v3_map f v = (f (fst v), f (fst (snd v)), f (snd (snd v)))"

definition v3_times :: "v3 \<Rightarrow> v3 \<Rightarrow> v3" where
  "v3_times a b = (fst a * fst b, fst (snd a) * fst (snd b), snd (snd a) * snd (snd b))"

definition mix :: "real \<Rightarrow> real \<Rightarrow> real \<Rightarrow> real" where
  "mix x y a = x * (1 - a) + y * a"

definition v3_mix :: "v3 \<Rightarrow> v3 \<Rightarrow> real \<Rightarrow> v3" where
  "v3_mix a b t = (mix (fst a) (fst b) t, mix (fst (snd a)) (fst (snd b)) t, mix (snd (snd a)) (snd (snd b)) t)"

definition glsl_step :: "real \<Rightarrow> real \<Rightarrow> real" where
  "glsl_step edge x = (if x < edge then 0 else 1)"

definition glsl_div :: "real \<Rightarrow> real \<Rightarrow> real option" where
  "glsl_div x y = (if y = 0 then None else Some (x / y))"

definition glsl_pow :: "real \<Rightarrow> real \<Rightarrow> real option" where
  "glsl_pow x y = (if x < 0 \<or> x = 0 \<and> y \<le> 0 then None else Some (x powr y))"

definition glsl_normalize :: "v3 \<Rightarrow> v3 option" where
  "glsl_normalize v = (if v3_length v = 0 then None else Some (v3_scale (1 / v3_length v) v))"

definition smoothstep :: "real \<Rightarrow> real \<Rightarrow> real \<Rightarrow> real option" where
  "smoothstep e0 e1 x =
     (if e1 \<le> e0 then None else (let t = clip01 ((x - e0) / (e1 - e0)) in Some (t * t * (3 - 2 * t))))"

definition reflect :: "v3 \<Rightarrow> v3 \<Rightarrow> v3" where
  "reflect i n = v3_sub i (v3_scale (2 * v3_dot n i) n)"

section \<open>Uniforms and fragments\<close>

text \<open>A uniform that was never set has its initial value, or zero.\<close>

definition ufloat :: "real \<Rightarrow> uniform_values \<Rightarrow> string \<Rightarrow> real" where
  "ufloat d us n = (case map_of us n of Some (U_float x) \<Rightarrow> x | _ \<Rightarrow> d)"

definition uvec3 :: "v3 \<Rightarrow> uniform_values \<Rightarrow> string \<Rightarrow> v3" where
  "uvec3 d us n = (case map_of us n of Some (U_vec3 x) \<Rightarrow> x | _ \<Rightarrow> d)"

definition uvec4 :: "v4 \<Rightarrow> uniform_values \<Rightarrow> string \<Rightarrow> v4" where
  "uvec4 d us n = (case map_of us n of Some (U_vec4 x) \<Rightarrow> x | _ \<Rightarrow> d)"

definition umat4 :: "uniform_values \<Rightarrow> string \<Rightarrow> mat4" where
  "umat4 us n = (case map_of us n of Some (U_mat4 x) \<Rightarrow> x | _ \<Rightarrow> replicate 4 (0, 0, 0, 0))"

datatype fragment = Discarded | Undefined_color | Fragment v4

definition fragment_of :: "v4 option \<Rightarrow> fragment" where
  "fragment_of c = (case c of None \<Rightarrow> Undefined_color | Some x \<Rightarrow> Fragment x)"

text \<open>The squared distance of a fragment from the centre of its point, and the disc that is kept.\<close>

definition point_r :: "v2 \<Rightarrow> real" where
  "point_r coord = (let x = 2 * fst coord - 1; y = 2 * snd coord - 1 in x * x + y * y)"

definition in_disc :: "real \<Rightarrow> v2 \<Rightarrow> v4 option \<Rightarrow> fragment" where
  "in_disc radius coord c = (if point_r coord > radius then Discarded else fragment_of c)"

text \<open>The place of a position on the screen, and what the clipping of OpenGL keeps.\<close>

definition clip_position :: "uniform_values \<Rightarrow> v3 \<Rightarrow> v4" where
  "clip_position us position =
     mat_vec (mat_mul (umat4 us ''perspective_matrix'') (umat4 us ''object_matrix'')) (vec4 position 1)"

definition in_clip_volume :: "v4 \<Rightarrow> bool" where
  "in_clip_volume v = (case v of (x, y, z, w) \<Rightarrow> - w \<le> x \<and> x \<le> w \<and> - w \<le> y \<and> y \<le> w \<and> - w \<le> z \<and> z \<le> w)"

section \<open>Points, with and without light\<close>

type_synonym lights = "v3 \<times> v3 \<times> v3 \<times> v3"

definition lights_of :: "uniform_values \<Rightarrow> lights" where
  "lights_of us = (uvec3 (0, 0, 0) us ''light_direction'', uvec3 (0, 0, 0) us ''light_intensity'',
     uvec3 (0, 0, 0) us ''shadow_direction'', uvec3 (0, 0, 0) us ''shadow_intensity'')"

definition light_part :: "v3 \<Rightarrow> v3 \<Rightarrow> v3 \<Rightarrow> v3" where
  "light_part direction intensity n = v3_scale (max (v3_dot direction (neg3 n)) 0) intensity"

definition vertex_shader_illumination_code ::
    "uniform_values \<Rightarrow> v3 \<Rightarrow> v3 \<Rightarrow> v4 \<Rightarrow> v4 \<times> real \<times> v3 \<times> v4 \<times> real \<times> lights" where
  "vertex_shader_illumination_code us position normal color =
     (clip_position us position, ufloat 0 us ''point_size'', normal, vec4 (rgb color) (ufloat 0 us ''global_alpha''),
      ufloat 0 us ''alpha_radius'', lights_of us)"

definition fragment_shader_illumination_code :: "v4 \<Rightarrow> v3 \<Rightarrow> real \<Rightarrow> lights \<Rightarrow> v2 \<Rightarrow> fragment" where
  "fragment_shader_illumination_code f_color f_normal f_alpha_radius ls coord =
     (case ls of (ld, li, sd, si) \<Rightarrow>
        let light = vec4 (light_part ld li f_normal) 1;
            shadow = vec4 (light_part sd si f_normal) 1
        in in_disc f_alpha_radius coord (Some (v4_scale 1 (v4_sub (v4_add f_color light) shadow))))"

definition vertex_shader_simple_code :: "uniform_values \<Rightarrow> v3 \<Rightarrow> v4 \<Rightarrow> v4 \<times> real \<times> v4 \<times> real" where
  "vertex_shader_simple_code us position color =
     (clip_position us position, ufloat 0 us ''point_size'', vec4 (rgb color) (ufloat 0 us ''global_alpha''),
      ufloat 0 us ''alpha_radius'')"

definition fragment_shader_simple_code :: "v4 \<Rightarrow> real \<Rightarrow> v2 \<Rightarrow> fragment" where
  "fragment_shader_simple_code f_color f_alpha_radius coord = in_disc f_alpha_radius coord (Some (v4_scale 1 f_color))"

text \<open>The smooth variants for rendering: the border of the disc is as wide as a pixel, and nothing is discarded.\<close>

definition coverage :: "real \<Rightarrow> v2 \<Rightarrow> real option" where
  "coverage fwidth_r coord =
     map_option (\<lambda>s. 1 - s) (smoothstep (1 - fwidth_r / 2) (1 + fwidth_r / 2) (point_r coord))"

definition vertex_shader_simple_render_smooth_code :: "uniform_values \<Rightarrow> v3 \<Rightarrow> v4 \<Rightarrow> v4 \<times> real \<times> v4 \<times> real" where
  "vertex_shader_simple_render_smooth_code us position color =
     (clip_position us position, ufloat 0 us ''point_size'', vec4 (rgb color) (ufloat 0 us ''global_alpha''),
      ufloat 0 us ''alpha_radius'')"

definition fragment_shader_simple_render_smooth_code :: "v4 \<Rightarrow> real \<Rightarrow> v2 \<Rightarrow> fragment" where
  "fragment_shader_simple_render_smooth_code f_color fwidth_r coord =
     fragment_of (map_option (\<lambda>a. vec4 (rgb f_color) (alpha_of f_color * a)) (coverage fwidth_r coord))"

definition vertex_shader_illumination_render_smooth_code ::
    "uniform_values \<Rightarrow> v3 \<Rightarrow> v3 \<Rightarrow> v4 \<Rightarrow> v4 \<times> real \<times> v3 \<times> v4 \<times> real \<times> lights" where
  "vertex_shader_illumination_render_smooth_code us position normal color =
     (clip_position us position, ufloat 0 us ''point_size'', normal, vec4 (rgb color) (ufloat 0 us ''global_alpha''),
      ufloat 0 us ''alpha_radius'', lights_of us)"

definition fragment_shader_illumination_render_smooth_code :: "v4 \<Rightarrow> v3 \<Rightarrow> lights \<Rightarrow> real \<Rightarrow> v2 \<Rightarrow> fragment" where
  "fragment_shader_illumination_render_smooth_code f_color f_normal ls fwidth_r coord =
     (case ls of (ld, li, sd, si) \<Rightarrow>
        let light = vec4 (light_part ld li f_normal) 1;
            shadow = vec4 (light_part sd si f_normal) 1;
            col = v4_scale 1 (v4_sub (v4_add f_color light) shadow)
        in fragment_of (map_option (\<lambda>a. vec4 (rgb col) (alpha_of f_color * a)) (coverage fwidth_r coord)))"

section \<open>Normals, selection, and colours of normals and positions\<close>

definition normals_vertex_shader_code :: "v3 \<Rightarrow> v3 \<Rightarrow> v4 \<times> v3" where
  "normals_vertex_shader_code position normal = (vec4 position 1, normal)"

text \<open>A geometry shader emits vertices, each with the outputs at that time; here a line.\<close>

definition normals_geometry_shader_code :: "uniform_values \<Rightarrow> v4 \<times> v3 \<Rightarrow> (v4 \<times> v4) list" where
  "normals_geometry_shader_code us v =
     (case v of (v0, normal) \<Rightarrow>
        let m = mat_mul (umat4 us ''perspective_matrix'') (umat4 us ''object_matrix'');
            vertex_color = uvec4 (1, 1, 1, 1) us ''color'';
            v1 = v4_add v0 (vec4 (v3_scale (ufloat 1 us ''length'') normal) 0)
        in [(mat_vec m v0, vertex_color), (mat_vec m v1, vertex_color)])"

definition normals_fragment_shader_code :: "uniform_values \<Rightarrow> v4 \<Rightarrow> fragment" where
  "normals_fragment_shader_code us vertex_color =
     Fragment (vec4 (rgb vertex_color) (alpha_of vertex_color * ufloat 0 us ''global_alpha''))"

definition selection_vertex_shader_code :: "uniform_values \<Rightarrow> v3 \<Rightarrow> v4 \<times> real" where
  "selection_vertex_shader_code us position = (clip_position us position, ufloat 0 us ''point_size'')"

definition selection_fragment_shader_code :: "uniform_values \<Rightarrow> v2 \<Rightarrow> fragment" where
  "selection_fragment_shader_code us coord =
     in_disc (ufloat 0 us ''alpha_radius'') coord (Some (v4_scale 1 (uvec4 (0, 0, 0, 0) us ''color'')))"

definition normal_colors_vertex_shader_code :: "uniform_values \<Rightarrow> v3 \<Rightarrow> v3 \<Rightarrow> v4 \<times> real \<times> v3" where
  "normal_colors_vertex_shader_code us position normal =
     (clip_position us position, ufloat 0 us ''point_size'', v3_map (\<lambda>x. x * (1 / 2) + 1 / 2) normal)"

definition normal_colors_fragment_shader_code :: "uniform_values \<Rightarrow> v3 \<Rightarrow> v2 \<Rightarrow> fragment" where
  "normal_colors_fragment_shader_code us f_color coord =
     in_disc (ufloat 0 us ''alpha_radius'') coord (Some (v4_scale 1 (vec4 f_color (ufloat 0 us ''global_alpha''))))"

definition position_colors_vertex_shader_code :: "uniform_values \<Rightarrow> v3 \<Rightarrow> v4 \<times> real \<times> v3" where
  "position_colors_vertex_shader_code us position = (clip_position us position, ufloat 0 us ''point_size'', position)"

definition position_colors_fragment_shader_code :: "uniform_values \<Rightarrow> v3 \<Rightarrow> v2 \<Rightarrow> fragment" where
  "position_colors_fragment_shader_code us f_color coord =
     in_disc (ufloat 0 us ''alpha_radius'') coord
       (Some (v4_scale 1 (vec4 (v3_map frac f_color) (ufloat 0 us ''global_alpha''))))"

section \<open>Depth\<close>

text \<open>
  The depth of a point: how far it lies behind the centre on the screen, against the range of the cloud. The quotient
  has \<open>maxdist - d\<close> where the range would be.
\<close>

definition depth_varying :: "uniform_values \<Rightarrow> v3 \<Rightarrow> real option" where
  "depth_varying us position =
     (let pp = clip_position us position;
          op = clip_position us (uvec3 (0, 0, 0) us ''center'');
          d = z_of op - z_of pp;
          maxdist = ufloat 0 us ''maxdist''
      in map_option (\<lambda>q. q / 2) (glsl_div (d - (- maxdist)) (maxdist - d)))"

definition brighten :: "uniform_values \<Rightarrow> v3 \<Rightarrow> v3" where
  "brighten us =
     v3_map (\<lambda>x. (x - 1 / 2) * ufloat 0 us ''contrast'' + 1 / 2 + ufloat 0 us ''brightness'')"

definition depth_vertex_shader_simple_code :: "uniform_values \<Rightarrow> v3 \<Rightarrow> v4 \<times> real \<times> real option" where
  "depth_vertex_shader_simple_code us position =
     (clip_position us position, ufloat 0 us ''point_size'', depth_varying us position)"

definition depth_fragment_shader_simple_code :: "uniform_values \<Rightarrow> real option \<Rightarrow> v2 \<Rightarrow> fragment" where
  "depth_fragment_shader_simple_code us f_depth coord =
     in_disc (ufloat 0 us ''alpha_radius'') coord
       (map_option (\<lambda>d. v4_scale 1 (vec4 (brighten us (d, d, d)) (ufloat 0 us ''global_alpha''))) f_depth)"

definition depth_vertex_shader_illumination_code ::
    "uniform_values \<Rightarrow> v3 \<Rightarrow> v3 \<Rightarrow> v4 \<times> real \<times> real option \<times> v3 \<times> lights" where
  "depth_vertex_shader_illumination_code us position normal =
     (clip_position us position, ufloat 0 us ''point_size'', depth_varying us position, normal, lights_of us)"

definition false_color :: "uniform_values \<Rightarrow> real \<Rightarrow> v3" where
  "false_color us d = v3_mix (uvec3 (0, 0, 0) us ''color_b'') (uvec3 (0, 0, 0) us ''color_a'') d"

definition depth_fragment_shader_illumination_code ::
    "uniform_values \<Rightarrow> real option \<Rightarrow> v3 \<Rightarrow> lights \<Rightarrow> v2 \<Rightarrow> fragment" where
  "depth_fragment_shader_illumination_code us f_depth f_normal ls coord =
     (case ls of (ld, li, sd, si) \<Rightarrow>
        in_disc (ufloat 0 us ''alpha_radius'') coord
          (map_option (\<lambda>d.
             let cc = brighten us (false_color us d);
                 c = v3_sub (v3_add cc (light_part ld li f_normal)) (light_part sd si f_normal)
             in v4_scale 1 (vec4 c (ufloat 0 us ''global_alpha''))) f_depth))"

definition depth_vertex_shader_false_colors_code :: "uniform_values \<Rightarrow> v3 \<Rightarrow> v4 \<times> real \<times> real option" where
  "depth_vertex_shader_false_colors_code us position =
     (clip_position us position, ufloat 0 us ''point_size'', depth_varying us position)"

definition depth_fragment_shader_false_colors_code :: "uniform_values \<Rightarrow> real option \<Rightarrow> v2 \<Rightarrow> fragment" where
  "depth_fragment_shader_false_colors_code us f_depth coord =
     in_disc (ufloat 0 us ''alpha_radius'') coord
       (map_option (\<lambda>d. v4_scale 1 (vec4 (brighten us (false_color us d)) (ufloat 0 us ''global_alpha''))) f_depth)"

section \<open>The bounding box\<close>

definition bbox_vertex_shader_code :: "v3 \<Rightarrow> v4" where
  "bbox_vertex_shader_code position = vec4 position 1"

text \<open>At each of the eight corners four points: the corner, and where the three lines from it end.\<close>

definition bbox_points :: "v3 \<Rightarrow> real \<Rightarrow> v3 list" where
  "bbox_points dimensions l =
     (case dimensions of (dx, dy, dz) \<Rightarrow>
        let w = dx / 2; h = dy / 2; d = dz / 2
        in [(- (w - l), - h, - d), (- w, - h, - d), (- w, - h, - (d - l)), (- w, - (h - l), - d),
            (- (w - l), - h, d), (- w, - h, d), (- w, - (h - l), d), (- w, - h, d - l),
            (- w, h - l, - d), (- w, h, - d), (- w, h, - (d - l)), (- (w - l), h, - d),
            (- (w - l), h, d), (- w, h, d), (- w, h, d - l), (- w, h - l, d),
            (w, - (h - l), - d), (w, - h, - d), (w, - h, - (d - l)), (w - l, - h, - d),
            (w - l, - h, d), (w, - h, d), (w, - h, d - l), (w, - (h - l), d),
            (w - l, h, - d), (w, h, - d), (w, h, - (d - l)), (w, h - l, - d),
            (w, h - l, d), (w, h, d), (w, h, d - l), (w - l, h, d)])"

definition bbox_lines :: "(nat \<times> nat) list" where
  "bbox_lines =
     [(0, 1), (1, 3), (2, 1), (4, 5), (5, 7), (6, 5), (8, 9), (9, 11), (10, 9), (12, 13), (13, 15), (14, 13),
      (16, 17), (17, 19), (18, 17), (20, 21), (21, 23), (22, 21), (24, 25), (25, 27), (26, 25), (28, 29), (29, 31),
      (30, 29)]"

text \<open>The two ends of the line from \<open>a\<close> to \<open>b\<close>, before and after they are placed on the screen.\<close>

definition bbox_segment :: "v4 \<Rightarrow> v3 \<Rightarrow> v3 \<Rightarrow> v4 list" where
  "bbox_segment o0 a b = [v4_add o0 (vec4 a 0), v4_add o0 (vec4 b 0)]"

definition bbox_geometry_shader_code :: "uniform_values \<Rightarrow> (v4 \<times> v4) list list" where
  "bbox_geometry_shader_code us =
     (let vertex_color = uvec4 (1, 1, 1, 1) us ''color'';
          m = mat_mul (umat4 us ''perspective_matrix'') (umat4 us ''object_matrix'');
          o0 = vec4 (uvec3 (0, 0, 0) us ''center'') 1;
          ps = bbox_points (uvec3 (1, 1, 1) us ''dimensions'') (ufloat (1 / 10) us ''length'')
      in map (\<lambda>(i, j). map (\<lambda>v. (mat_vec m v, vertex_color)) (bbox_segment o0 (ps ! i) (ps ! j))) bbox_lines)"

definition bbox_fragment_shader_code :: "uniform_values \<Rightarrow> v4 \<Rightarrow> fragment" where
  "bbox_fragment_shader_code us vertex_color =
     Fragment (vec4 (rgb vertex_color) (alpha_of vertex_color * ufloat 0 us ''global_alpha''))"

section \<open>Colour adjustment\<close>

text \<open>The swizzles of \<open>rgb2hsv\<close> are written out: \<open>p\<close> and \<open>q\<close> sort the colour by its channels.\<close>

definition v4_mix :: "v4 \<Rightarrow> v4 \<Rightarrow> real \<Rightarrow> v4" where
  "v4_mix a b t =
     (case (a, b) of ((a1, a2, a3, a4), (b1, b2, b3, b4)) \<Rightarrow> (mix a1 b1 t, mix a2 b2 t, mix a3 b3 t, mix a4 b4 t))"

definition rgb2hsv :: "v3 \<Rightarrow> v3" where
  "rgb2hsv c =
     (case c of (cr, cg, cb) \<Rightarrow>
        let (px, py, pz, pw) = v4_mix (cb, cg, - 1, 2 / 3) (cg, cb, 0, - 1 / 3) (glsl_step cb cg);
            (qx, qy, qz, qw) = v4_mix (px, py, pw, cr) (cr, py, pz, px) (glsl_step px cr);
            d = qx - min qw qy;
            e = 1 / 10 ^ 10
        in (\<bar>qz + (qw - qy) / (6 * d + e)\<bar>, d / (qx + e), qx))"

definition hsv2rgb :: "v3 \<Rightarrow> v3" where
  "hsv2rgb c =
     (case c of (h, s, v) \<Rightarrow>
        let p = (\<lambda>k. \<bar>frac (h + k) * 6 - 3\<bar>);
            f = (\<lambda>k. v * mix 1 (clip01 (p k - 1)) s)
        in (f 1, f (2 / 3), f (1 / 3)))"

type_synonym adjustment = "real \<times> real \<times> real \<times> real \<times> real \<times> real \<times> real \<times> real"

definition vertex_shader_color_adjustment_code ::
    "uniform_values \<Rightarrow> v3 \<Rightarrow> v4 \<Rightarrow> v4 \<times> real \<times> v4 \<times> real \<times> adjustment" where
  "vertex_shader_color_adjustment_code us position color =
     (clip_position us position, ufloat 0 us ''point_size'', vec4 (rgb color) (ufloat 0 us ''global_alpha''),
      ufloat 0 us ''alpha_radius'',
      (ufloat 0 us ''exposure'', ufloat 0 us ''gamma'', ufloat 0 us ''brightness'', ufloat 0 us ''contrast'',
       ufloat 0 us ''hue'', ufloat 0 us ''saturation'', ufloat 0 us ''value'', ufloat 0 us ''invert''))"

text \<open>A channel after exposure, gamma, brightness and contrast.\<close>

definition adjusted_channel :: "adjustment \<Rightarrow> real \<Rightarrow> real option" where
  "adjusted_channel a x =
     (case a of (exposure, gamma, brightness, contrast, hue, saturation, value, invert) \<Rightarrow>
        Option.bind (glsl_div 1 gamma) (\<lambda>g.
        Option.bind (glsl_pow (clip01 (x * 2 powr exposure)) g) (\<lambda>y.
        Some (clip01 ((clip01 y - 1 / 2) * contrast + 1 / 2 + brightness)))))"

text \<open>The last part: hue, saturation and value are shifted, and the colour is inverted.\<close>

definition adjusted_hsv :: "adjustment \<Rightarrow> v3 \<Rightarrow> v3" where
  "adjusted_hsv a c =
     (case a of (exposure, gamma, brightness, contrast, f_hue, saturation, value, invert) \<Rightarrow>
        case rgb2hsv c of (h, s, v) \<Rightarrow>
          let hue = (if 1 < f_hue then frac f_hue else f_hue);
              color = hsv2rgb (clip01 (frac (h + hue)), clip01 (s + saturation), clip01 (v + value))
          in if 0 < invert then v3_map (\<lambda>x. 1 - x) color else color)"

definition fragment_shader_color_adjustment_code :: "v4 \<Rightarrow> real \<Rightarrow> adjustment \<Rightarrow> v2 \<Rightarrow> fragment" where
  "fragment_shader_color_adjustment_code f_color f_alpha_radius a coord =
     in_disc f_alpha_radius coord
       (case rgb (v4_scale 1 f_color) of (r, g, b) \<Rightarrow>
          Option.bind (adjusted_channel a r) (\<lambda>r1.
          Option.bind (adjusted_channel a g) (\<lambda>g1.
          Option.bind (adjusted_channel a b) (\<lambda>b1.
          Some (vec4 (adjusted_hsv a (r1, g1, b1)) (alpha_of (v4_scale 1 f_color)))))))"

section \<open>The minimal shaders\<close>

definition vertex_shader_minimal_code :: "uniform_values \<Rightarrow> v3 \<Rightarrow> v4 \<Rightarrow> v4 \<times> real \<times> v3 \<times> real" where
  "vertex_shader_minimal_code us position color =
     (clip_position us position, ufloat 0 us ''point_size'', rgb color, ufloat 0 us ''global_alpha'')"

definition fragment_shader_minimal_code :: "v3 \<Rightarrow> real \<Rightarrow> fragment" where
  "fragment_shader_minimal_code f_color f_alpha = Fragment (vec4 f_color f_alpha)"

definition vertex_shader_minimal_variable_size_code ::
    "uniform_values \<Rightarrow> v3 \<Rightarrow> v4 \<Rightarrow> int \<Rightarrow> v4 \<times> real \<times> v3 \<times> real" where
  "vertex_shader_minimal_variable_size_code us position color size0 =
     (clip_position us position, real_of_int size0, rgb color, ufloat 0 us ''global_alpha'')"

definition fragment_shader_minimal_variable_size_code :: "v3 \<Rightarrow> real \<Rightarrow> fragment" where
  "fragment_shader_minimal_variable_size_code f_color f_alpha = Fragment (vec4 f_color f_alpha)"

definition vertex_shader_minimal_variable_size_and_depth_code ::
    "uniform_values \<Rightarrow> v3 \<Rightarrow> v4 \<Rightarrow> int \<Rightarrow> v4 \<times> real \<times> v3 \<times> real \<times> real option" where
  "vertex_shader_minimal_variable_size_and_depth_code us position color size0 =
     (clip_position us position, real_of_int size0, rgb color, ufloat 0 us ''global_alpha'', depth_varying us position)"

text \<open>The depth as a grey that is blended with white.\<close>

definition depth_color :: "uniform_values \<Rightarrow> real \<Rightarrow> v3" where
  "depth_color us d = v3_mix (brighten us (d, d, d)) (1, 1, 1) (ufloat 0 us ''blend'')"

definition fragment_shader_minimal_variable_size_and_depth_code ::
    "uniform_values \<Rightarrow> v3 \<Rightarrow> real \<Rightarrow> real option \<Rightarrow> fragment" where
  "fragment_shader_minimal_variable_size_and_depth_code us f_color f_alpha f_depth =
     fragment_of (map_option (\<lambda>d. vec4 (v3_times f_color (depth_color us d)) f_alpha) f_depth)"

section \<open>Billboards\<close>

text \<open>The corners of the square, and its vertices around a position in the view.\<close>

definition square_corners :: "real \<Rightarrow> v2 list" where
  "square_corners s = [(- 1 * s, - 1 * s), (1 * s, - 1 * s), (- 1 * s, 1 * s), (1 * s, 1 * s)]"

definition place_in_window :: "uniform_values \<Rightarrow> v4 \<Rightarrow> v2 \<Rightarrow> v4" where
  "place_in_window us pos xyloc = mat_vec (umat4 us ''window_matrix'') (v4_add pos (vec4_xy xyloc))"

definition view_position :: "uniform_values \<Rightarrow> v4 \<Rightarrow> v4" where
  "view_position us p = mat_vec (umat4 us ''view_matrix'') p"

definition disc_coords :: "real \<Rightarrow> nat \<Rightarrow> nat \<Rightarrow> v2" where
  "disc_coords radius step0 steps =
     (let angstep = 2 * (31415926535897932384626433832795 / 10 ^ 31) / real steps
      in (sin (real step0 * angstep) * radius, cos (real step0 * angstep) * radius))"

definition disc_triangles :: "real \<Rightarrow> v2 list list" where
  "disc_triangles r = map (\<lambda>i. [(0, 0), disc_coords r i 16, disc_coords r (i + 1) 16]) [0..<16]"

definition billboard_vertex_code :: "uniform_values \<Rightarrow> v3 \<Rightarrow> v4 \<Rightarrow> v4 \<times> v4 \<times> real" where
  "billboard_vertex_code us position color =
     (mat_vec (umat4 us ''object_matrix'') (vec4 position 1), color, ufloat 0 us ''alpha'')"

definition billboard_geometry_code :: "uniform_values \<Rightarrow> v4 \<times> v4 \<times> real \<Rightarrow> (v4 \<times> v4 \<times> real) list" where
  "billboard_geometry_code us v =
     (case v of (p, vcolor, valpha) \<Rightarrow>
        let s = ufloat 0 us ''size'' / 2; pos = view_position us p
        in map (\<lambda>xyloc. (place_in_window us pos xyloc, vcolor, valpha)) (square_corners s))"

definition billboard_geometry_disc_code :: "uniform_values \<Rightarrow> v4 \<times> v4 \<times> real \<Rightarrow> (v4 \<times> v4 \<times> real) list list" where
  "billboard_geometry_disc_code us v =
     (case v of (p, vcolor, valpha) \<Rightarrow>
        let s = ufloat 0 us ''size''; pos = view_position us p
        in map (map (\<lambda>xyloc. (place_in_window us pos xyloc, vcolor, valpha))) (disc_triangles (s / 2)))"

definition billboard_fragment_code :: "v4 \<Rightarrow> real \<Rightarrow> fragment" where
  "billboard_fragment_code fcolor falpha = Fragment (vec4 (rgb fcolor) falpha)"

definition billboard_vertex_with_depth_and_size_code ::
    "uniform_values \<Rightarrow> v3 \<Rightarrow> v4 \<Rightarrow> real \<Rightarrow> v4 \<times> v4 \<times> real \<times> real \<times> real option" where
  "billboard_vertex_with_depth_and_size_code us position color sizef =
     (mat_vec (umat4 us ''object_matrix'') (vec4 position 1), color, ufloat 0 us ''alpha'', sizef, depth_varying us position)"

definition billboard_geometry_with_depth_and_size_code ::
    "uniform_values \<Rightarrow> v4 \<times> v4 \<times> real \<times> real \<times> real option \<Rightarrow> (v4 \<times> v4 \<times> real \<times> real option) list" where
  "billboard_geometry_with_depth_and_size_code us v =
     (case v of (p, vcolor, valpha, vsizef, vdepth) \<Rightarrow>
        let s = ufloat 0 us ''size'' / 2 * vsizef; pos = view_position us p
        in map (\<lambda>xyloc. (place_in_window us pos xyloc, vcolor, valpha, vdepth)) (square_corners s))"

definition billboard_fragment_with_depth_and_size_code ::
    "uniform_values \<Rightarrow> v4 \<Rightarrow> real \<Rightarrow> real option \<Rightarrow> fragment" where
  "billboard_fragment_with_depth_and_size_code us fcolor falpha fdepth =
     fragment_of (map_option (\<lambda>d. vec4 (v3_times (rgb fcolor) (depth_color us d)) falpha) fdepth)"

definition billboard_vertex_with_no_depth_and_size_code ::
    "uniform_values \<Rightarrow> v3 \<Rightarrow> v4 \<Rightarrow> real \<Rightarrow> v4 \<times> v4 \<times> real \<times> real" where
  "billboard_vertex_with_no_depth_and_size_code us position color sizef =
     (mat_vec (umat4 us ''object_matrix'') (vec4 position 1), color, ufloat 0 us ''alpha'', sizef)"

definition billboard_geometry_with_no_depth_and_size_code ::
    "uniform_values \<Rightarrow> v4 \<times> v4 \<times> real \<times> real \<Rightarrow> (v4 \<times> v4 \<times> real) list" where
  "billboard_geometry_with_no_depth_and_size_code us v =
     (case v of (p, vcolor, valpha, vsizef) \<Rightarrow>
        let s = ufloat 0 us ''size'' / 2 * vsizef; pos = view_position us p
        in map (\<lambda>xyloc. (place_in_window us pos xyloc, vcolor, valpha)) (square_corners s))"

definition billboard_fragment_with_no_depth_and_size_code :: "v4 \<Rightarrow> real \<Rightarrow> fragment" where
  "billboard_fragment_with_no_depth_and_size_code fcolor falpha = Fragment (vec4 (rgb fcolor) falpha)"

section \<open>Phong shading\<close>

text \<open>
  The matrix of the normals is the inverse transpose of the model's matrix; \<open>inverse\<close> of GLSL is an argument.
\<close>

definition transposed :: "mat4 \<Rightarrow> mat4" where
  "transposed m =
     map (\<lambda>f. (f (m ! 0), f (m ! 1), f (m ! 2), f (m ! 3)))
       [\<lambda>(a, b, c, d). a, \<lambda>(a, b, c, d). b, \<lambda>(a, b, c, d). c, \<lambda>(a, b, c, d). d]"

definition normal_matrix :: "(mat4 \<Rightarrow> mat4) \<Rightarrow> mat4 \<Rightarrow> v3 \<Rightarrow> v3" where
  "normal_matrix inv4 model n = rgb (mat_vec (transposed (inv4 model)) (vec4 n 0))"

definition phong_vs_code :: "(mat4 \<Rightarrow> mat4) \<Rightarrow> uniform_values \<Rightarrow> v3 \<Rightarrow> v3 \<Rightarrow> v4 \<Rightarrow> v4 \<times> real \<times> v3 \<times> v3 \<times> v4 \<times> real" where
  "phong_vs_code inv4 us position normal color =
     (let model = umat4 us ''model''
      in (mat_vec (mat_mul (mat_mul (umat4 us ''projection'') (umat4 us ''view'')) model) (vec4 position 1),
          ufloat 0 us ''point_size'', rgb (mat_vec model (vec4 position 1)), normal_matrix inv4 model normal, color,
          ufloat 0 us ''alpha_radius''))"

text \<open>Ambient, diffuse and specular light on a surface with the colour of the point.\<close>

definition phong_color :: "uniform_values \<Rightarrow> v3 \<Rightarrow> v3 \<Rightarrow> v4 \<Rightarrow> v3 option" where
  "phong_color us f_position f_normal f_color =
     (let light_color = uvec3 (0, 0, 0) us ''light_color'';
          ambient = v3_scale (ufloat 0 us ''ambient_strength'') light_color
      in Option.bind (glsl_normalize f_normal) (\<lambda>nor.
         Option.bind (glsl_normalize (v3_sub (uvec3 (0, 0, 0) us ''light_position'') f_position)) (\<lambda>light_direction.
         let diffuse = v3_scale (max (v3_dot nor light_direction) 0) light_color
         in Option.bind (glsl_normalize (v3_sub (uvec3 (0, 0, 0) us ''view_position'') f_position)) (\<lambda>view_direction.
            let reflection_direction = reflect (neg3 light_direction) nor
            in Option.bind (glsl_pow (max (v3_dot view_direction reflection_direction) 0) (ufloat 0 us ''specular_exponent'')) (\<lambda>spec.
               let specular = v3_scale (ufloat 0 us ''specular_strength'' * spec) light_color
               in Some (v3_times (v3_add (v3_add ambient diffuse) specular) (rgb f_color)))))))"

definition phong_fs_code :: "uniform_values \<Rightarrow> v3 \<Rightarrow> v3 \<Rightarrow> v4 \<Rightarrow> real \<Rightarrow> v2 \<Rightarrow> fragment" where
  "phong_fs_code us f_position f_normal f_color f_alpha_radius coord =
     in_disc f_alpha_radius coord
       (map_option (\<lambda>col. v4_scale 1 (vec4 col (ufloat 0 us ''alpha''))) (phong_color us f_position f_normal f_color))"

definition billboard_phong_vs_code :: "(mat4 \<Rightarrow> mat4) \<Rightarrow> uniform_values \<Rightarrow> v3 \<Rightarrow> v3 \<Rightarrow> v4 \<Rightarrow> v4 \<times> v3 \<times> v3 \<times> v4" where
  "billboard_phong_vs_code inv4 us position normal color =
     (let model = umat4 us ''model''
      in (mat_vec model (vec4 position 1), rgb (mat_vec model (vec4 position 1)), normal_matrix inv4 model normal, color))"

definition billboard_phong_circles_gs_code ::
    "uniform_values \<Rightarrow> v4 \<times> v3 \<times> v3 \<times> v4 \<Rightarrow> (v4 \<times> v3 \<times> v3 \<times> v4) list list" where
  "billboard_phong_circles_gs_code us v =
     (case v of (p, g_position, g_normal, g_color) \<Rightarrow>
        let s = ufloat 0 us ''size''; pos = view_position us p
        in map (map (\<lambda>xyloc. (place_in_window us pos xyloc, g_position, g_normal, g_color))) (disc_triangles (s / 2)))"

definition billboard_phong_fast_gs_code ::
    "uniform_values \<Rightarrow> v4 \<times> v3 \<times> v3 \<times> v4 \<Rightarrow> (v4 \<times> v3 \<times> v3 \<times> v4) list" where
  "billboard_phong_fast_gs_code us v =
     (case v of (p, g_position, g_normal, g_color) \<Rightarrow>
        let s = ufloat 0 us ''size'' / 2; pos = view_position us p
        in map (\<lambda>xyloc. (place_in_window us pos xyloc, g_position, g_normal, g_color)) (square_corners s))"

definition billboard_phong_fs_code :: "uniform_values \<Rightarrow> v3 \<Rightarrow> v3 \<Rightarrow> v4 \<Rightarrow> fragment" where
  "billboard_phong_fs_code us f_position f_normal f_color =
     fragment_of (map_option (\<lambda>col. vec4 col (ufloat 0 us ''alpha'')) (phong_color us f_position f_normal f_color))"

section \<open>Clipping and skipping\<close>

definition vertex_shader_simple_clip_code :: "uniform_values \<Rightarrow> v3 \<Rightarrow> v4 \<Rightarrow> v4 \<times> real \<times> v4 \<times> real \<times> real list" where
  "vertex_shader_simple_clip_code us position color =
     (let pos = vec4 position 1
      in (clip_position us position, ufloat 0 us ''point_size'', vec4 (rgb color) (ufloat 0 us ''global_alpha''),
          ufloat 0 us ''alpha_radius'',
          map (\<lambda>n. v4_dot (uvec4 (0, 0, 0, 0) us n) pos)
            [''clip_plane0'', ''clip_plane1'', ''clip_plane2'', ''clip_plane3'', ''clip_plane4'', ''clip_plane5'']))"

definition fragment_shader_simple_clip_code :: "v4 \<Rightarrow> real \<Rightarrow> v2 \<Rightarrow> fragment" where
  "fragment_shader_simple_clip_code f_color f_alpha_radius coord =
     in_disc f_alpha_radius coord (Some (v4_scale 1 f_color))"

text \<open>OpenGL drops a point with a negative distance to a plane whose clip distance is enabled.\<close>

definition clip_shown :: "bool list \<Rightarrow> v4 \<times> real \<times> v4 \<times> real \<times> real list \<Rightarrow> bool" where
  "clip_shown enabled v =
     (case v of (p, psize, color, radius, distances) \<Rightarrow>
        in_clip_volume p \<and> list_all (\<lambda>(e, d). e \<longrightarrow> 0 \<le> d) (zip enabled distances))"

definition vertex_shader_simple_skip_point_vertices_code ::
    "uniform_values \<Rightarrow> v3 \<Rightarrow> v4 \<Rightarrow> int \<Rightarrow> v4 \<times> real \<times> v4 \<times> real" where
  "vertex_shader_simple_skip_point_vertices_code us position color index =
     (let p = (if ufloat 0 us ''skip_index'' \<le> real_of_int index then (2, 0, 0, 1) else clip_position us position)
      in (p, ufloat 0 us ''point_size'', vec4 (rgb color) (ufloat 0 us ''global_alpha''), ufloat 0 us ''alpha_radius''))"

definition fragment_shader_simple_skip_point_vertices_code :: "v4 \<Rightarrow> real \<Rightarrow> v2 \<Rightarrow> fragment" where
  "fragment_shader_simple_skip_point_vertices_code f_color f_alpha_radius coord =
     in_disc f_alpha_radius coord (Some (v4_scale 1 f_color))"

end
