(* ===== verification/PCV_Color_Facts.thy ===== *)
theory PCV_Color_Facts
  imports PCV_GLSL
begin

text \<open>
  The conversions between colours and hue, saturation and value in the shader of the colour adjustment, against
  those of Python's \<open>colorsys\<close>: the way back is the same, and the way there differs by the small number that the
  shader adds to its divisors.
\<close>

section \<open>The conversions of colorsys\<close>

definition rgb_to_hsv :: "v3 \<Rightarrow> v3" where
  "rgb_to_hsv c =
     (case c of (r, g, b) \<Rightarrow>
        let maxc = max r (max g b); minc = min r (min g b); d = maxc - minc;
            rc = (maxc - r) / d; gc = (maxc - g) / d; bc = (maxc - b) / d
        in if minc = maxc then (0, 0, maxc)
           else (frac ((if r = maxc then bc - gc else if g = maxc then 2 + rc - bc else 4 + gc - rc) / 6), d / maxc, maxc))"

definition hsv_to_rgb :: "v3 \<Rightarrow> v3" where
  "hsv_to_rgb c =
     (case c of (h, s, v) \<Rightarrow>
        let i = py_int (h * 6); f = h * 6 - real_of_int i;
            p = v * (1 - s); q = v * (1 - s * f); t = v * (1 - s * (1 - f)); k = i mod 6
        in if s = 0 then (v, v, v) else if k = 0 then (v, t, p) else if k = 1 then (q, v, p) else if k = 2 then (p, v, t)
           else if k = 3 then (p, q, v) else if k = 4 then (t, p, v) else (v, p, q))"

section \<open>From hue, saturation and value\<close>

lemma frac_shift: "0 \<le> h \<Longrightarrow> h < 1 \<Longrightarrow> 0 \<le> k \<Longrightarrow> k \<le> 1 \<Longrightarrow> frac (h + k) = (if h + k < 1 then h + k else h + k - 1)"
  for h k :: real
proof -
  assume "0 \<le> h" "h < 1" "0 \<le> k" "k \<le> 1"
  then have "\<lfloor>h + k\<rfloor> = (if h + k < 1 then 0 else 1)" by (auto simp: floor_eq_iff)
  then show ?thesis by (simp add: frac_def)
qed

lemma hsv2rgb_standard:
  assumes "0 \<le> h" "h < 1"
  shows "hsv2rgb (h, s, v) = hsv_to_rgb (h, s, v)"
proof -
  let ?i = "\<lfloor>h * 6\<rfloor>"
  have i: "real_of_int ?i \<le> h * 6" "h * 6 < real_of_int ?i + 1" by linarith+
  have r: "0 \<le> ?i" "?i < 6" using assms by (auto simp: floor_less_iff)
  then have c: "?i \<in> {0, 1, 2, 3, 4, 5}" by simp linarith
  have p: "py_int (h * 6) = ?i" using assms by (simp add: py_int_def)
  have f: "frac (h + 1) = h" "frac (1 + h) = h" "frac (h + 2 / 3) = (if h < 1 / 3 then h + 2 / 3 else h - 1 / 3)"
    "frac (h + 1 / 3) = (if h < 2 / 3 then h + 1 / 3 else h - 2 / 3)"
    using frac_shift [OF assms, of 1] frac_shift [OF assms, of 1, unfolded add.commute [of h 1]] frac_shift [OF assms, of "2 / 3"] frac_shift [OF assms, of "1 / 3"] assms by auto
  show ?thesis
    using c i assms
    by (elim insertE emptyE)
       (simp_all add: hsv2rgb_def hsv_to_rgb_def p f Let_def clip01_def mix_def abs_if min_def max_def algebra_simps)
qed

lemma mix_range: "0 \<le> s \<Longrightarrow> s \<le> 1 \<Longrightarrow> 0 \<le> k \<Longrightarrow> k \<le> 1 \<Longrightarrow> 0 \<le> mix 1 k s \<and> mix 1 k s \<le> 1"
proof -
  assume a: "0 \<le> s" "s \<le> 1" "0 \<le> k" "k \<le> 1"
  then have "0 \<le> k * s" "k * s \<le> 1 * s" by (simp, intro mult_right_mono) simp_all
  then show ?thesis using a by (simp add: mix_def)
qed

lemma hsv2rgb_range:
  assumes "hsv2rgb (h, clip01 s, clip01 v) = (r, g, b)" "x \<in> {r, g, b}"
  shows "0 \<le> x \<and> x \<le> 1"
proof -
  obtain k where x: "x = clip01 v * mix 1 (clip01 k) (clip01 s)"
    using assms by (auto simp: hsv2rgb_def Let_def)
  have "0 \<le> mix 1 (clip01 k) (clip01 s) \<and> mix 1 (clip01 k) (clip01 s) \<le> 1"
    by (rule mix_range) (rule clip01_range)+
  then show ?thesis unfolding x using clip01_range [of v] by (auto intro: mult_le_one)
qed

section \<open>How much a small change of hue and saturation changes the colour\<close>

lemma clip01_lipschitz: "\<bar>clip01 x - clip01 y\<bar> \<le> \<bar>x - y\<bar>"
  by (auto simp: clip01_def min_def max_def)

text \<open>The distance of the fractional part from one half is continuous.\<close>

lemma frac_half_lipschitz_le: "t \<le> u \<Longrightarrow> \<bar>\<bar>frac t - 1 / 2\<bar> - \<bar>frac u - 1 / 2\<bar>\<bar> \<le> u - t" for t u :: real
proof -
  assume le: "t \<le> u"
  have t: "t = frac t + \<lfloor>t\<rfloor>" and u: "u = frac u + \<lfloor>u\<rfloor>" by (simp_all add: frac_def)
  have ft: "0 \<le> frac t" "frac t < 1" and fu: "0 \<le> frac u" "frac u < 1" by (simp_all add: frac_lt_1)
  have "\<lfloor>t\<rfloor> \<le> \<lfloor>u\<rfloor>" using le by (rule floor_mono)
  then consider "\<lfloor>u\<rfloor> = \<lfloor>t\<rfloor>" | "\<lfloor>u\<rfloor> = \<lfloor>t\<rfloor> + 1" | "\<lfloor>t\<rfloor> + 2 \<le> \<lfloor>u\<rfloor>" by linarith
  then show ?thesis
  proof cases
    case 1
    then show ?thesis using t u le by (auto simp: abs_if)
  next
    case 2
    then have "u - t = 1 - frac t + frac u" using t u by simp
    then show ?thesis using ft fu by linarith
  next
    case 3
    then have "real_of_int \<lfloor>t\<rfloor> + 2 \<le> real_of_int \<lfloor>u\<rfloor>" by linarith
    then have "1 \<le> u - t" using t u ft fu by linarith
    then show ?thesis using ft fu by linarith
  qed
qed

lemma frac_half_lipschitz: "\<bar>\<bar>frac t - 1 / 2\<bar> - \<bar>frac u - 1 / 2\<bar>\<bar> \<le> \<bar>t - u\<bar>" for t u :: real
  using frac_half_lipschitz_le [of t u] frac_half_lipschitz_le [of u t] by (cases "t \<le> u") auto

lemma hue_part_lipschitz:
  "\<bar>clip01 (\<bar>frac (h + k) * 6 - 3\<bar> - 1) - clip01 (\<bar>frac (h' + k) * 6 - 3\<bar> - 1)\<bar> \<le> 6 * \<bar>h - h'\<bar>"
proof -
  have s: "\<bar>frac x * 6 - 3\<bar> = 6 * \<bar>frac x - 1 / 2\<bar>" for x :: real by (simp add: abs_if)
  have "\<bar>clip01 (\<bar>frac (h + k) * 6 - 3\<bar> - 1) - clip01 (\<bar>frac (h' + k) * 6 - 3\<bar> - 1)\<bar>
      \<le> \<bar>\<bar>frac (h + k) * 6 - 3\<bar> - \<bar>frac (h' + k) * 6 - 3\<bar>\<bar>"
    using clip01_lipschitz [of "\<bar>frac (h + k) * 6 - 3\<bar> - 1" "\<bar>frac (h' + k) * 6 - 3\<bar> - 1"] by simp
  also have "\<dots> = 6 * \<bar>\<bar>frac (h + k) - 1 / 2\<bar> - \<bar>frac (h' + k) - 1 / 2\<bar>\<bar>" by (simp only: s) (simp add: abs_if)
  also have "\<dots> \<le> 6 * \<bar>h - h'\<bar>" using frac_half_lipschitz [of "h + k" "h' + k"] by simp
  finally show ?thesis .
qed

lemma mix_close:
  assumes "0 \<le> v" "v \<le> 1" "0 \<le> k" "k \<le> 1" "0 \<le> s'" "s' \<le> 1"
  shows "\<bar>v * mix 1 k s - v * mix 1 k' s'\<bar> \<le> \<bar>s - s'\<bar> + \<bar>k - k'\<bar>"
proof -
  have "v * mix 1 k s - v * mix 1 k' s' = v * ((k - 1) * (s - s') + s' * (k - k'))"
    by (simp add: mix_def algebra_simps)
  then have "\<bar>v * mix 1 k s - v * mix 1 k' s'\<bar> = v * \<bar>(k - 1) * (s - s') + s' * (k - k')\<bar>"
    using assms by (simp add: abs_mult)
  also have "\<dots> \<le> 1 * \<bar>(k - 1) * (s - s') + s' * (k - k')\<bar>" using assms by (intro mult_right_mono) auto
  also have "\<dots> \<le> \<bar>k - 1\<bar> * \<bar>s - s'\<bar> + \<bar>s'\<bar> * \<bar>k - k'\<bar>" by (simp add: abs_mult [symmetric])
  also have "\<dots> \<le> 1 * \<bar>s - s'\<bar> + 1 * \<bar>k - k'\<bar>" using assms by (intro add_mono mult_right_mono) auto
  finally show ?thesis by simp
qed

definition colors_close :: "real \<Rightarrow> v3 \<Rightarrow> v3 \<Rightarrow> bool" where
  "colors_close \<delta> a b \<longleftrightarrow>
     \<bar>fst a - fst b\<bar> \<le> \<delta> \<and> \<bar>fst (snd a) - fst (snd b)\<bar> \<le> \<delta> \<and> \<bar>snd (snd a) - snd (snd b)\<bar> \<le> \<delta>"

lemma hsv2rgb_close:
  assumes "0 \<le> v" "v \<le> 1" "0 \<le> s'" "s' \<le> 1" "\<bar>s - s'\<bar> + 6 * \<bar>h - h'\<bar> \<le> \<delta>"
  shows "colors_close \<delta> (hsv2rgb (h, s, v)) (hsv2rgb (h', s', v))"
proof -
  have "\<bar>v * mix 1 (clip01 (\<bar>frac (h + k) * 6 - 3\<bar> - 1)) s - v * mix 1 (clip01 (\<bar>frac (h' + k) * 6 - 3\<bar> - 1)) s'\<bar> \<le> \<delta>" for k
    using mix_close [OF assms(1,2) clip01_range assms(3,4),
        where x1 = "\<bar>frac (h + k) * 6 - 3\<bar> - 1" and k' = "clip01 (\<bar>frac (h' + k) * 6 - 3\<bar> - 1)" and s = s]
      hue_part_lipschitz [of h k h'] assms(5) by linarith
  then show ?thesis by (simp add: colors_close_def hsv2rgb_def Let_def)
qed

text \<open>Only the fractional part of the hue counts.\<close>

lemma hsv2rgb_frac: "hsv2rgb (frac h, s, v) = hsv2rgb (h, s, v)"
proof -
  have "frac (frac h + k) = frac (h + k)" for k :: real
  proof -
    have "frac h + k = h + k - real_of_int \<lfloor>h\<rfloor>" by (simp add: frac_def)
    then have "\<lfloor>frac h + k\<rfloor> = \<lfloor>h + k\<rfloor> - \<lfloor>h\<rfloor>" by (simp only: floor_diff_of_int)
    then show ?thesis by (simp add: frac_def)
  qed
  then show ?thesis by (simp add: hsv2rgb_def)
qed

section \<open>To hue, saturation and value\<close>

text \<open>The shader sorts the channels; without its small number the conversion is that of \<open>colorsys\<close>.\<close>

definition spread :: "v3 \<Rightarrow> real" where
  "spread c = (case c of (r, g, b) \<Rightarrow> max r (max g b) - min r (min g b))"

lemma frac_unit: "0 \<le> x \<Longrightarrow> x < 1 \<Longrightarrow> frac x = x" "- 1 \<le> x \<Longrightarrow> x < 0 \<Longrightarrow> frac x = 1 + x" for x :: real
proof -
  show "0 \<le> x \<Longrightarrow> x < 1 \<Longrightarrow> frac x = x" by (simp add: frac_eq)
  assume "- 1 \<le> x" "x < 0"
  then have "\<lfloor>x\<rfloor> = - 1" by (simp add: floor_eq_iff)
  then show "frac x = 1 + x" by (simp add: frac_def)
qed

text \<open>The two terms of the hue: the place of the largest channel, and the difference of the others.\<close>

definition hue_base :: "v3 \<Rightarrow> real" where
  "hue_base c = (case c of (r, g, b) \<Rightarrow> if g < b then (if b \<le> r then - 1 else 2 / 3) else (if g \<le> r then 0 else - 1 / 3))"

definition hue_diff :: "v3 \<Rightarrow> real" where
  "hue_diff c = (case c of (r, g, b) \<Rightarrow>
     if g < b then (if b \<le> r then b - g else r - g) else (if g \<le> r then g - b else r - b))"

definition brightest :: "v3 \<Rightarrow> real" where
  "brightest c = (case c of (r, g, b) \<Rightarrow> max r (max g b))"

lemma hue_diff_spread: "\<bar>hue_diff c\<bar> \<le> spread c"
  by (cases c) (auto simp: hue_diff_def spread_def)

lemma hue_base_grey: "spread c = 0 \<Longrightarrow> hue_base c = 0"
  by (cases c) (auto simp: hue_base_def spread_def max_def min_def split: if_splits)

lemma spread_le_brightest: "0 \<le> r \<Longrightarrow> 0 \<le> g \<Longrightarrow> 0 \<le> b \<Longrightarrow> 0 \<le> spread (r, g, b) \<and> spread (r, g, b) \<le> brightest (r, g, b)"
  by (auto simp: spread_def brightest_def)

lemma rgb2hsv_sorted:
  "rgb2hsv c = (\<bar>hue_base c + hue_diff c / (6 * spread c + 1 / 10 ^ 10)\<bar>, spread c / (brightest c + 1 / 10 ^ 10), brightest c)"
proof -
  obtain r g b where c: "c = (r, g, b)" by (cases c)
  have "spread c = (if g < b then (if b \<le> r then r - min b g else b - min r g) else (if g \<le> r then r - min g b else g - min r b))"
    "brightest c = (if g < b then (if b \<le> r then r else b) else (if g \<le> r then r else g))"
    by (auto simp: c spread_def brightest_def)
  moreover have "rgb2hsv c =
      (let z = hue_base c; y = hue_diff c;
           d = (if g < b then (if b \<le> r then r - min b g else b - min r g) else (if g \<le> r then r - min g b else g - min r b));
           q = (if g < b then (if b \<le> r then r else b) else (if g \<le> r then r else g))
       in (\<bar>z + y / (6 * d + 1 / 10 ^ 10)\<bar>, d / (q + 1 / 10 ^ 10), q))"
    by (cases "g < b"; cases "b \<le> r"; cases "g \<le> r")
       (simp_all add: c rgb2hsv_def v4_mix_def mix_def glsl_step_def hue_base_def hue_diff_def Let_def min.commute)
  ultimately show ?thesis by (simp add: Let_def)
qed

lemma rgb_to_hsv_sorted:
  assumes "spread c \<noteq> 0"
  shows "rgb_to_hsv c = (\<bar>hue_base c + hue_diff c / (6 * spread c)\<bar>, spread c / brightest c, brightest c)"
proof -
  obtain r g b where c: "c = (r, g, b)" by (cases c)
  define d where "d = spread c"
  define q where "q = hue_diff c / d"
  have d0: "0 < d" using assms by (auto simp: d_def c spread_def)
  have dm: "max r (max g b) - min r (min g b) = d" by (simp add: d_def c spread_def)
  have ne: "min r (min g b) \<noteq> max r (max g b)" using dm d0 by linarith
  have "\<bar>hue_diff c\<bar> \<le> d" using hue_diff_spread d_def by simp
  then have q: "- 1 \<le> q" "q \<le> 1" using d0 by (auto simp: q_def field_simps abs_le_iff)
  have hue: "frac ((if r = max r (max g b) then (max r (max g b) - b) / d - (max r (max g b) - g) / d
       else if g = max r (max g b) then 2 + (max r (max g b) - r) / d - (max r (max g b) - b) / d
       else 4 + (max r (max g b) - g) / d - (max r (max g b) - r) / d) / 6) = \<bar>hue_base c + q / 6\<bar>" (is "frac (?x / 6) = _")
  proof -
    consider (1) "g < b" "b \<le> r" | (2) "g < b" "r < b" | (3) "b \<le> g" "g \<le> r" | (4) "b \<le> g" "r < g" by linarith
    then show ?thesis
    proof cases
      case 1
      then have "?x = - q" "0 < q" "hue_base c = - 1"
        using d0 by (auto simp: q_def c hue_diff_def hue_base_def max_def diff_divide_distrib [symmetric] minus_divide_left)
      then show ?thesis using q by (simp add: frac_unit)
    next
      case 2
      then have "?x = 4 + q" "hue_base c = 2 / 3"
        using d0 by (auto simp: q_def c hue_diff_def hue_base_def max_def field_simps)
      then show ?thesis using q by (simp add: frac_unit)
    next
      case 3
      then have "?x = q" "0 \<le> q" "hue_base c = 0"
        using d0 by (auto simp: q_def c hue_diff_def hue_base_def max_def diff_divide_distrib [symmetric])
      then show ?thesis using q by (simp add: frac_unit)
    next
      case 4
      then have "?x = 2 - q" "hue_base c = - 1 / 3"
        using d0 by (auto simp: q_def c hue_diff_def hue_base_def max_def field_simps)
      then show ?thesis using q by (simp add: frac_unit)
    qed
  qed
  have "q / 6 = hue_diff c / (6 * spread c)" by (simp add: q_def d_def)
  then have h: "\<bar>hue_base c + q / 6\<bar> = \<bar>hue_base c + hue_diff c / (6 * spread c)\<bar>" by simp
  have "rgb_to_hsv c = (\<bar>hue_base c + q / 6\<bar>, d / max r (max g b), max r (max g b))"
    unfolding c rgb_to_hsv_def Let_def prod.case dm using ne hue [unfolded c] by (simp only: if_False)
  then show ?thesis unfolding h by (simp only: c brightest_def prod.case d_def)
qed

section \<open>The shader and colorsys\<close>

lemma divide_shift:
  fixes x y :: real
  assumes "0 < x" "0 \<le> e" "\<bar>y\<bar> \<le> k * x" "0 \<le> k"
  shows "\<bar>y / (x + e) - y / x\<bar> \<le> k * e / x"
proof -
  have "y / (x + e) - y / x = - (y * e / (x * (x + e)))" using assms by (simp add: field_simps)
  then have "\<bar>y / (x + e) - y / x\<bar> = \<bar>y\<bar> * e / (x * (x + e))" using assms by (simp add: abs_mult)
  also have "\<dots> \<le> (k * x) * e / (x * (x + e))" using assms by (intro divide_right_mono mult_right_mono) simp_all
  also have "\<dots> = k * e / (x + e)" using assms by simp
  also have "\<dots> \<le> k * e / x" using assms by (intro divide_left_mono) simp_all
  finally show ?thesis .
qed

text \<open>
  The hue and the saturation of the shader are off by the small number over the spread of the colour, and not at all for
  a grey. The smallest spread of a colour with 8 bits is 1/255.
\<close>

lemma rgb2hsv_close:
  assumes "\<forall>x\<in>{r, g, b}. 0 \<le> x \<and> x \<le> 1" "spread (r, g, b) = 0 \<or> 1 / 255 \<le> spread (r, g, b)"
    and "rgb2hsv (r, g, b) = (h, s, v)" "rgb_to_hsv (r, g, b) = (h', s', v')"
  shows "v = v' \<and> \<bar>s - s'\<bar> + 6 * \<bar>h - h'\<bar> \<le> 1 / 10 ^ 7"
proof (cases "spread (r, g, b) = 0")
  case True
  then have "min r (min g b) = max r (max g b)" by (simp add: spread_def)
  then have "rgb_to_hsv (r, g, b) = (0, 0, brightest (r, g, b))" by (simp add: rgb_to_hsv_def Let_def brightest_def)
  moreover have "hue_diff (r, g, b) = 0" using hue_diff_spread [of "(r, g, b)"] True by simp
  then have "rgb2hsv (r, g, b) = (0, 0, brightest (r, g, b))"
    using True hue_base_grey [OF True] by (simp add: rgb2hsv_sorted)
  ultimately show ?thesis using assms(3,4) by simp
next
  case False
  let ?c = "(r, g, b)" and ?e = "1 / 10 ^ 10 :: real"
  let ?d = "spread ?c" and ?y = "hue_diff ?c" and ?z = "hue_base ?c" and ?m = "brightest ?c"
  have d: "1 / 255 \<le> ?d" using False assms(2) by simp
  have m: "?d \<le> ?m" using assms(1) spread_le_brightest [of r g b] by simp
  have "\<bar>?y / (6 * ?d + ?e) - ?y / (6 * ?d)\<bar> \<le> (1 / 6) * ?e / (6 * ?d)"
    using d hue_diff_spread [of ?c] by (intro divide_shift) simp_all
  also have "\<dots> \<le> (1 / 6) * ?e / (6 * (1 / 255))" using d by (intro divide_left_mono) simp_all
  finally have h1: "\<bar>?y / (6 * ?d + ?e) - ?y / (6 * ?d)\<bar> \<le> 255 / 36 * ?e" by simp
  have "\<bar>?d / (?m + ?e) - ?d / ?m\<bar> \<le> 1 * ?e / ?m"
    using d m by (intro divide_shift) simp_all
  also have "\<dots> \<le> 1 * ?e / (1 / 255)" using d m by (intro divide_left_mono) simp_all
  finally have s1: "\<bar>?d / (?m + ?e) - ?d / ?m\<bar> \<le> 255 * ?e" by simp
  have "h = fst (rgb2hsv ?c)" "s = fst (snd (rgb2hsv ?c))" "v = snd (snd (rgb2hsv ?c))"
    "h' = fst (rgb_to_hsv ?c)" "s' = fst (snd (rgb_to_hsv ?c))" "v' = snd (snd (rgb_to_hsv ?c))"
    using assms(3,4) by simp_all
  note eq = this [unfolded rgb2hsv_sorted rgb_to_hsv_sorted [OF False] fst_conv snd_conv]
  have "\<bar>h - h'\<bar> \<le> \<bar>?y / (6 * ?d + ?e) - ?y / (6 * ?d)\<bar>" unfolding eq by linarith
  then have "\<bar>h - h'\<bar> \<le> 255 / 36 * ?e" using h1 by linarith
  moreover have "\<bar>s - s'\<bar> \<le> 255 * ?e" using s1 unfolding eq by simp
  ultimately show ?thesis using eq by simp
qed

end
