(* ===== verification/PCV_Clip_Facts.thy ===== *)
theory PCV_Clip_Facts
  imports PCV_GLSL
begin

text \<open>
  The clip planes from the bounding box of an object, and which points the clip shader leaves with them.
\<close>

section \<open>The plane of a quad\<close>

text \<open>
  The hypothesis on \<open>mathutils.geometry\<close>: the normal of a quad is the unit vector of the cross product of its diagonals,
  and the distance of a point to a plane with a unit normal is signed.
\<close>

definition plane_geometry :: "geometry \<Rightarrow> bool" where
  "plane_geometry ge \<longleftrightarrow>
     (\<forall>a b c d. let n = v3_cross (v3_sub c a) (v3_sub d b)
        in v3_length n \<noteq> 0 \<longrightarrow> ge_normal ge [a, b, c, d] = v3_scale (1 / v3_length n) n) \<and>
     (\<forall>pt co n. v3_length n = 1 \<longrightarrow> ge_plane_distance ge pt co n = v3_dot n (v3_sub pt co))"

lemma length_scale: "v3_length (v3_scale k v) = \<bar>k\<bar> * v3_length v"
proof -
  have "v3_dot (v3_scale k v) (v3_scale k v) = k\<^sup>2 * v3_dot v v"
    by (simp add: v3_dot_def v3_scale_def power2_eq_square algebra_simps)
  then show ?thesis by (simp add: v3_length_def real_sqrt_mult)
qed

lemma length_pos: "v3_dot v x \<noteq> 0 \<Longrightarrow> 0 < v3_length v"
proof -
  assume "v3_dot v x \<noteq> 0"
  then have "v3_dot v v \<noteq> 0"
    by (cases v) (auto simp: v3_dot_def add_nonneg_eq_0_iff)
  moreover have "0 \<le> v3_dot v v" by (simp add: v3_dot_def)
  ultimately show ?thesis by (simp add: v3_length_def)
qed

text \<open>Which side of the inverted plane of a quad a position is on.\<close>

lemma quad_plane_side:
  assumes "plane_geometry ge" "0 < v3_length (v3_cross (v3_sub c a) (v3_sub d b))"
  shows "0 \<le> v4_dot (plane (v3_negate (ge_normal ge [a, b, c, d]))
        (ge_plane_distance ge (0, 0, 0) a (v3_negate (ge_normal ge [a, b, c, d])))) (vec4 x 1) \<longleftrightarrow>
     v3_dot (v3_cross (v3_sub c a) (v3_sub d b)) (v3_sub x a) \<le> 0"
proof -
  define n where "n = v3_cross (v3_sub c a) (v3_sub d b)"
  let ?k = "1 / v3_length n" and ?m = "v3_negate (ge_normal ge [a, b, c, d])"
  have len: "0 < v3_length n" using assms(2) by (simp add: n_def)
  have "v3_length n \<noteq> 0 \<longrightarrow> ge_normal ge [a, b, c, d] = v3_scale ?k n"
    using assms(1) unfolding plane_geometry_def Let_def n_def by blast
  then have m: "?m = v3_scale (- ?k) n" using len by (simp add: v3_negate_def v3_scale_def)
  have "v3_length ?m = 1" using len by (simp add: m length_scale)
  then have "ge_plane_distance ge (0, 0, 0) a ?m = v3_dot ?m (v3_sub (0, 0, 0) a)"
    using assms(1) unfolding plane_geometry_def by blast
  moreover have "v4_dot (plane ?m (v3_dot ?m (v3_sub (0, 0, 0) a))) (vec4 x 1) = ?k * - v3_dot n (v3_sub x a)"
    unfolding m
    by (cases n; cases x; cases a)
       (simp add: v4_dot_def plane_def vec4_def v3_dot_def v3_sub_def v3_scale_def algebra_simps add_divide_distrib diff_divide_distrib)
  ultimately show ?thesis
    using len by (simp add: n_def [symmetric] zero_le_mult_iff zero_le_divide_iff divide_le_0_iff)
qed

section \<open>The faces of a box\<close>

definition box_corners :: "v3 \<Rightarrow> v3 \<Rightarrow> v3 list" where
  "box_corners lo hi =
     (case (lo, hi) of ((x0, y0, z0), (x1, y1, z1)) \<Rightarrow>
        [(x0, y0, z0), (x0, y0, z1), (x0, y1, z1), (x0, y1, z0), (x1, y0, z0), (x1, y0, z1), (x1, y1, z1), (x1, y1, z0)])"

definition in_box :: "v3 \<Rightarrow> v3 \<Rightarrow> v3 \<Rightarrow> bool" where
  "in_box lo hi x \<longleftrightarrow>
     fst lo \<le> fst x \<and> fst x \<le> fst hi \<and> fst (snd lo) \<le> fst (snd x) \<and> fst (snd x) \<le> fst (snd hi) \<and>
     snd (snd lo) \<le> snd (snd x) \<and> snd (snd x) \<le> snd (snd hi)"

text \<open>The determinant of the linear part of a matrix.\<close>

definition mat_det3 :: "mat4 \<Rightarrow> real" where
  "mat_det3 m =
     (case (m ! 0, m ! 1, m ! 2) of ((a1, b1, c1, t1), (a2, b2, c2, t2), (a3, b3, c3, t3)) \<Rightarrow>
        a1 * (b2 * c3 - b3 * c2) - b1 * (a2 * c3 - a3 * c2) + c1 * (a2 * b3 - a3 * b2))"

lemma mat_apply_sub:
  "v3_sub (mat_apply m x) (mat_apply m y) =
     (case v3_sub x y of (l1, l2, l3) \<Rightarrow>
        case (m ! 0, m ! 1, m ! 2) of ((a1, b1, c1, t1), (a2, b2, c2, t2), (a3, b3, c3, t3)) \<Rightarrow>
          (a1 * l1 + b1 * l2 + c1 * l3, a2 * l1 + b2 * l2 + c2 * l3, a3 * l1 + b3 * l2 + c3 * l3))"
  by (cases x; cases y; cases "m ! 0"; cases "m ! 1"; cases "m ! 2")
     (simp add: mat_apply_def mat_row_def v3_sub_def algebra_simps)

lemma triple_product:
  "v3_dot (v3_cross (v3_sub (mat_apply m c) (mat_apply m a)) (v3_sub (mat_apply m d) (mat_apply m b)))
      (v3_sub (mat_apply m x) (mat_apply m y)) =
    mat_det3 m * v3_dot (v3_cross (v3_sub c a) (v3_sub d b)) (v3_sub x y)"
proof -
  obtain a1 b1 c1 t1 where m0: "m ! 0 = (a1, b1, c1, t1)" by (cases "m ! 0")
  obtain a2 b2 c2 t2 where m1: "m ! 1 = (a2, b2, c2, t2)" by (cases "m ! 1")
  obtain a3 b3 c3 t3 where m2: "m ! 2 = (a3, b3, c3, t3)" by (cases "m ! 2")
  obtain p1 p2 p3 where p: "v3_sub c a = (p1, p2, p3)" by (cases "v3_sub c a")
  obtain q1 q2 q3 where q: "v3_sub d b = (q1, q2, q3)" by (cases "v3_sub d b")
  obtain r1 r2 r3 where r: "v3_sub x y = (r1, r2, r3)" by (cases "v3_sub x y")
  show ?thesis
    unfolding mat_apply_sub p q r m0 m1 m2 mat_det3_def by (simp add: v3_dot_def v3_cross_def) algebra
qed

text \<open>The six inequalities, each for a quad of the box in the order of the operator.\<close>

lemma face_side:
  assumes "plane_geometry ge" "0 < mat_det3 m" "k \<noteq> 0"
    and "\<And>x. v3_dot (v3_cross (v3_sub c a) (v3_sub d b)) (v3_sub x a) = k * f x" "f y \<noteq> 0"
  shows "0 \<le> v4_dot (plane (v3_negate (ge_normal ge [mat_apply m a, mat_apply m b, mat_apply m c, mat_apply m d]))
        (ge_plane_distance ge (0, 0, 0) (mat_apply m a)
          (v3_negate (ge_normal ge [mat_apply m a, mat_apply m b, mat_apply m c, mat_apply m d])))) (vec4 (mat_apply m x) 1) \<longleftrightarrow>
     k * f x \<le> 0"
proof -
  have dot: "v3_dot (v3_cross (v3_sub (mat_apply m c) (mat_apply m a)) (v3_sub (mat_apply m d) (mat_apply m b)))
      (v3_sub (mat_apply m z) (mat_apply m a)) = mat_det3 m * (k * f z)" for z
    by (simp only: triple_product assms(4))
  have "0 < v3_length (v3_cross (v3_sub (mat_apply m c) (mat_apply m a)) (v3_sub (mat_apply m d) (mat_apply m b)))"
    by (rule length_pos [where x = "v3_sub (mat_apply m y) (mat_apply m a)"]) (use assms(2,3,5) dot [of y] in simp)
  from quad_plane_side [OF assms(1) this, of "mat_apply m x"] show ?thesis
    using assms(2) by (simp add: dot mult_le_0_iff)
qed

lemma box_faces:
  assumes "plane_geometry ge" "0 < mat_det3 m" "x0 < x1" "y0 < y1" "z0 < z1"
    and "vs = map (mat_apply m) (box_corners (x0, y0, z0) (x1, y1, z1))"
  shows "list_all (\<lambda>js. 0 \<le> v4_dot (plane (v3_negate (ge_normal ge (map (\<lambda>j. vs ! j) js)))
        (ge_plane_distance ge (0, 0, 0) (vs ! hd js) (v3_negate (ge_normal ge (map (\<lambda>j. vs ! j) js))))) (vec4 (mat_apply m x) 1))
      bbox_faces \<longleftrightarrow> in_box (x0, y0, z0) (x1, y1, z1) x"
proof -
  obtain u v w where x: "x = (u, v, w)" by (cases x)
  note side = face_side [OF assms(1,2)]
  have front: "\<And>x. v3_dot (v3_cross (v3_sub (x1, y0, z1) (x0, y0, z0)) (v3_sub (x0, y0, z1) (x1, y0, z0))) (v3_sub x (x0, y0, z0))
      = (- 2 * (x1 - x0) * (z1 - z0)) * (fst (snd x) - y0)"
    by (simp add: v3_dot_def v3_cross_def v3_sub_def algebra_simps)
  have rear: "\<And>x. v3_dot (v3_cross (v3_sub (x1, y1, z1) (x0, y1, z0)) (v3_sub (x1, y1, z0) (x0, y1, z1))) (v3_sub x (x0, y1, z0))
      = (2 * (x1 - x0) * (z1 - z0)) * (fst (snd x) - y1)"
    by (simp add: v3_dot_def v3_cross_def v3_sub_def algebra_simps)
  have top: "\<And>x. v3_dot (v3_cross (v3_sub (x1, y1, z1) (x0, y0, z1)) (v3_sub (x0, y1, z1) (x1, y0, z1))) (v3_sub x (x0, y0, z1))
      = (2 * (x1 - x0) * (y1 - y0)) * (snd (snd x) - z1)"
    by (simp add: v3_dot_def v3_cross_def v3_sub_def algebra_simps)
  have bottom: "\<And>x. v3_dot (v3_cross (v3_sub (x1, y1, z0) (x0, y0, z0)) (v3_sub (x1, y0, z0) (x0, y1, z0))) (v3_sub x (x0, y0, z0))
      = (- 2 * (x1 - x0) * (y1 - y0)) * (snd (snd x) - z0)"
    by (simp add: v3_dot_def v3_cross_def v3_sub_def algebra_simps)
  have left: "\<And>x. v3_dot (v3_cross (v3_sub (x0, y1, z1) (x0, y0, z0)) (v3_sub (x0, y1, z0) (x0, y0, z1))) (v3_sub x (x0, y0, z0))
      = (- 2 * (y1 - y0) * (z1 - z0)) * (fst x - x0)"
    by (simp add: v3_dot_def v3_cross_def v3_sub_def algebra_simps)
  have right: "\<And>x. v3_dot (v3_cross (v3_sub (x1, y1, z1) (x1, y0, z0)) (v3_sub (x1, y0, z1) (x1, y1, z0))) (v3_sub x (x1, y0, z0))
      = (2 * (y1 - y0) * (z1 - z0)) * (fst x - x1)"
    by (simp add: v3_dot_def v3_cross_def v3_sub_def algebra_simps)
  have k: "0 < (x1 - x0) * (z1 - z0)" "0 < (x1 - x0) * (y1 - y0)" "0 < (y1 - y0) * (z1 - z0)"
    using assms(3,4,5) by simp_all
  note six = side [OF _ front, where y = "(x0, y1, z0)" and x = x] side [OF _ rear, where y = "(x0, y0, z0)" and x = x]
    side [OF _ top, where y = "(x0, y0, z0)" and x = x] side [OF _ bottom, where y = "(x0, y0, z1)" and x = x]
    side [OF _ left, where y = "(x1, y0, z0)" and x = x] side [OF _ right, where y = "(x0, y0, z0)" and x = x]
  show ?thesis
    using six k assms(3,4,5) by (simp add: assms(6) box_corners_def bbox_faces_def in_box_def x mult_le_0_iff mult_less_0_iff zero_le_mult_iff) argo
qed

section \<open>The operator and the shader\<close>

lemma set_flag_planes: "p_clip_planes (set_flag f v p) = p_clip_planes p"
proof -
  have off: "p_clip_planes (fold flag_off fs q) = p_clip_planes q" for fs q
    by (induction fs arbitrary: q) (simp_all add: flag_off_def)
  show ?thesis by (cases f) (simp_all add: set_flag_def flag_update_def callback_defs off del: fold.simps fold_simps)
qed

lemma clip_distances:
  assumes "p_clip_planes p = map f bbox_faces" "p_clip_planes_enabled p = replicate 6 True"
  shows "clip_shown (p_clip_planes_enabled p) (vertex_shader_simple_clip_code (uniforms_clip us vw p) position color) \<longleftrightarrow>
    in_clip_volume (clip_position (uniforms_clip us vw p) position) \<and>
    list_all (\<lambda>js. 0 \<le> v4_dot (f js) (vec4 position 1)) bbox_faces"
proof -
  have u: "uniforms_clip us vw p = place vw @ points us p @ clip_uniforms (map f bbox_faces)"
    by (simp add: uniforms_clip_def assms(1))
  have "list_all (\<lambda>(e, d). e \<longrightarrow> 0 \<le> d) (zip (replicate 6 True)
      (map (\<lambda>n. v4_dot (uvec4 (0, 0, 0, 0) (uniforms_clip us vw p) n) (vec4 position 1))
        [''clip_plane0'', ''clip_plane1'', ''clip_plane2'', ''clip_plane3'', ''clip_plane4'', ''clip_plane5''])) \<longleftrightarrow>
    list_all (\<lambda>js. 0 \<le> v4_dot (f js) (vec4 position 1)) bbox_faces"
    by (simp add: u uvec4_def place_def points_def clip_uniforms_def bbox_faces_def upt_rec numeral_eq_Suc)
  then show ?thesis by (simp add: clip_shown_def vertex_shader_simple_clip_code_def Let_def assms(2))
qed

lemma clip_planes_box:
  assumes "context_pcv w = Some (n0, p)" "p_clip_planes_from_bbox_object p = Some bo" "dict_get (objects w) bo = Some bbo"
    and "bound_box bo = box_corners lo hi"
  shows "\<exists>w' q. PCV_OT_clip_planes_from_bbox ge bound_box w = (Finished, w') \<and> get_pcv w' n0 = Some q \<and>
     p_flags q Clip_shader \<and> p_clip_planes_enabled q = replicate 6 True \<and>
     p_clip_planes q = map (\<lambda>js. let vs = map (mat_apply (ob_matrix_world bbo)) (box_corners lo hi);
         n = v3_negate (ge_normal ge (map (\<lambda>j. vs ! j) js))
       in plane n (ge_plane_distance ge (0, 0, 0) (vs ! hd js) n)) bbox_faces"
proof -
  have "get_pcv w n0 = Some p" using assms(1) by (simp add: context_pcv_get)
  then show ?thesis
    using assms
    by (simp add: PCV_OT_clip_planes_from_bbox_def Let_def get_pcv_upd_pcv set_flag_planes set_flag_True_self bbox_faces_def)
qed

end
