(* ===== verification/PCV_GLSL_Facts.thy ===== *)
theory PCV_GLSL_Facts
  imports PCV_Color_Facts PCV_Clip_Facts
begin

text \<open>
  What the GLSL code makes of the uniforms that \<open>render\<close> sets: the colour adjustment, the clip planes, the lines of the
  bounding box and the points that are skipped.
\<close>

lemmas uniform_values_defs = place_def points_def adjust_def screen_def ufloat_def uvec3_def uvec4_def umat4_def

section \<open>Colour adjustment\<close>

text \<open>
  The hypothesis on \<open>mathutils.Color\<close>: its hue, saturation and value are those of \<open>colorsys\<close>, and setting them clamps
  saturation and value to the unit interval.
\<close>

definition colorsys_colors :: "blender \<Rightarrow> bool" where
  "colorsys_colors bl \<longleftrightarrow>
     (\<forall>r g b. 0 \<le> r \<and> r \<le> 1 \<and> 0 \<le> g \<and> g \<le> 1 \<and> 0 \<le> b \<and> b \<le> 1 \<longrightarrow> bl_hsv bl (r, g, b) = rgb_to_hsv (r, g, b)) \<and>
     (\<forall>h s v. 0 \<le> h \<and> h < 1 \<longrightarrow> bl_from_hsv bl (h, s, v) = hsv_to_rgb (h, clip01 s, clip01 v))"

definition adjustment_of :: "color_adjust \<Rightarrow> adjustment" where
  "adjustment_of a =
     (ca_exposure a, ca_gamma a, ca_brightness a, ca_contrast a, ca_hue a, ca_saturation a, ca_value a, of_bool (ca_invert a))"

lemma color_adjustment_vertex:
  "vertex_shader_color_adjustment_code (uniforms_color_adjustment us vw p) position color =
     (clip_position (uniforms_color_adjustment us vw p) position, real_of_int (p_point_size p),
      vec4 (rgb color) (p_global_alpha p), us_alpha_radius us, adjustment_of (p_color_adjust p))"
  by (simp add: vertex_shader_color_adjustment_code_def uniforms_color_adjustment_def uniform_values_defs adjustment_of_def Let_def)

lemma adjusted_channel_apply:
  "0 < ca_gamma a \<Longrightarrow> adjusted_channel (adjustment_of a) x = Some (adjust_channel a x)"
proof -
  assume "0 < ca_gamma a"
  moreover have "0 \<le> clip01 (x * 2 powr ca_exposure a)" by (rule clip01_range)
  ultimately show ?thesis
    by (simp add: adjusted_channel_def adjustment_of_def glsl_div_def glsl_pow_def adjust_channel_def Let_def not_less)
qed

lemma adjusted_hsv_close:
  assumes "colorsys_colors bl" "\<forall>x\<in>{r, g, b}. 0 \<le> x \<and> x \<le> 1" "spread (r, g, b) = 0 \<or> 1 / 255 \<le> spread (r, g, b)"
    and "bl_hsv bl (r, g, b) = (h', s', v')"
    and "bl_from_hsv bl (frac (h' + (if 1 < ca_hue a then frac (ca_hue a) else ca_hue a)), s' + ca_saturation a, v' + ca_value a) =
      (r', g', b')"
  shows "colors_close (1 / 10 ^ 7) (adjusted_hsv (adjustment_of a) (r, g, b)) (finish_channel a r', finish_channel a g', finish_channel a b')"
proof -
  let ?hue = "if 1 < ca_hue a then frac (ca_hue a) else ca_hue a"
  obtain h s v where hsv: "rgb2hsv (r, g, b) = (h, s, v)" by (cases "rgb2hsv (r, g, b)")
  have hsv': "rgb_to_hsv (r, g, b) = (h', s', v')" using assms(1,2,4) by (simp add: colorsys_colors_def)
  have v: "v = v'" and close: "\<bar>s - s'\<bar> + 6 * \<bar>h - h'\<bar> \<le> 1 / 10 ^ 7"
    using rgb2hsv_close [OF assms(2,3) hsv hsv'] by auto
  have f: "0 \<le> frac x" "frac x < 1" "clip01 (frac x) = frac x" for x :: real
    using less_imp_le [OF frac_lt_1 [of x]] by (simp_all add: frac_lt_1 clip01_id)
  let ?c = "hsv2rgb (h + ?hue, clip01 (s + ca_saturation a), clip01 (v + ca_value a))"
    and ?d = "hsv2rgb (h' + ?hue, clip01 (s' + ca_saturation a), clip01 (v + ca_value a))"
  have "\<bar>clip01 (s + ca_saturation a) - clip01 (s' + ca_saturation a)\<bar> \<le> \<bar>s - s'\<bar>"
    using clip01_lipschitz [of "s + ca_saturation a" "s' + ca_saturation a"] by simp
  then have cd: "colors_close (1 / 10 ^ 7) ?c ?d"
    using close by (intro hsv2rgb_close clip01_range) simp_all
  have "(r', g', b') = hsv_to_rgb (frac (h' + ?hue), clip01 (s' + ca_saturation a), clip01 (v + ca_value a))"
    using assms(1,5) f v by (simp add: colorsys_colors_def)
  then have d: "?d = (r', g', b')" using hsv2rgb_standard [OF f(1,2)] hsv2rgb_frac by simp
  have "0 \<le> x \<and> x \<le> 1" if "x \<in> {r', g', b'}" for x using hsv2rgb_range [OF d that] .
  then have fin: "finish_channel a x = (if ca_invert a then 1 - x else x)" if "x \<in> {r', g', b'}" for x
    using that by (auto simp: finish_channel_def Let_def clip01_id)
  obtain x y z where c: "?c = (x, y, z)" by (cases ?c)
  have "adjusted_hsv (adjustment_of a) (r, g, b) = (if ca_invert a then v3_map (\<lambda>x. 1 - x) ?c else ?c)"
    by (simp add: adjusted_hsv_def adjustment_of_def hsv f hsv2rgb_frac Let_def)
  then show ?thesis using cd unfolding c d by (simp add: fin v3_map_def colors_close_def) (auto simp: abs_minus_commute)
qed

lemma fragment_color_adjustment:
  assumes "0 < ca_gamma a" "point_r coord \<le> radius"
  shows "fragment_shader_color_adjustment_code (r, g, b, al) radius (adjustment_of a) coord =
    Fragment (vec4 (adjusted_hsv (adjustment_of a) (adjust_channel a r, adjust_channel a g, adjust_channel a b)) al)"
  using assms
  by (simp add: fragment_shader_color_adjustment_code_def in_disc_def fragment_of_def rgb_def alpha_of_def v4_scale_def
      adjusted_channel_apply)

section \<open>The bounding box\<close>

text \<open>A line along an edge of a box, from a corner.\<close>

definition along_edge :: "v3 \<Rightarrow> v3 \<Rightarrow> v3 \<Rightarrow> v3 \<Rightarrow> bool" where
  "along_edge lo hi a b \<longleftrightarrow>
     in_box lo hi a \<and> in_box lo hi b \<and> (a \<in> set (box_corners lo hi) \<or> b \<in> set (box_corners lo hi)) \<and>
     (fst a = fst b \<and> fst (snd a) = fst (snd b) \<or> fst a = fst b \<and> snd (snd a) = snd (snd b) \<or>
      fst (snd a) = fst (snd b) \<and> snd (snd a) = snd (snd b))"

lemma bbox_segments:
  assumes "0 \<le> l" "l \<le> w" "l \<le> h" "l \<le> d"
  shows "list_all (\<lambda>(i, j). \<exists>a b. bbox_segment (vec4 (x, y, z) 1) (bbox_points (2 * w, 2 * h, 2 * d) l ! i)
        (bbox_points (2 * w, 2 * h, 2 * d) l ! j) = [vec4 a 1, vec4 b 1] \<and>
      along_edge (x - w, y - h, z - d) (x + w, y + h, z + d) a b) bbox_lines"
proof -
  have seg: "bbox_segment (vec4 (x, y, z) 1) p q = [vec4 (v3_add (x, y, z) p) 1, vec4 (v3_add (x, y, z) q) 1]" for p q
    by (cases p; cases q) (simp add: bbox_segment_def vec4_def v4_add_def v3_add_def)
  let ?ps = "bbox_points (2 * w, 2 * h, 2 * d) l"
  have "list_all (\<lambda>(i, j). along_edge (x - w, y - h, z - d) (x + w, y + h, z + d)
      (v3_add (x, y, z) (?ps ! i)) (v3_add (x, y, z) (?ps ! j))) bbox_lines"
    using assms by (simp add: bbox_lines_def bbox_points_def along_edge_def in_box_def box_corners_def v3_add_def Let_def)
  then show ?thesis unfolding seg by (rule list.pred_mono_strong) blast
qed

lemma bbox_code_lines:
  assumes "list_all (\<lambda>(i, j). \<exists>a b. bbox_segment (vec4 (uvec3 (0, 0, 0) us ''center'') 1)
        (bbox_points (uvec3 (1, 1, 1) us ''dimensions'') (ufloat (1 / 10) us ''length'') ! i)
        (bbox_points (uvec3 (1, 1, 1) us ''dimensions'') (ufloat (1 / 10) us ''length'') ! j) = [vec4 a 1, vec4 b 1] \<and> P a b) bbox_lines"
  shows "list_all (\<lambda>line. \<exists>a b. P a b \<and> map fst line = map (clip_position us) [a, b]) (bbox_geometry_shader_code us)"
proof -
  have seg: "\<exists>a b. P a b \<and> map fst (map (\<lambda>v. (mat_vec (mat_mul (umat4 us ''perspective_matrix'') (umat4 us ''object_matrix'')) v, c)) seg) =
      map (clip_position us) [a, b]" if two: "\<exists>a b. seg = [vec4 a 1, vec4 b 1] \<and> P a b" for seg c
  proof -
    obtain a b where "seg = [vec4 a 1, vec4 b 1]" "P a b" using two by blast
    then show ?thesis by (intro exI [of _ a] exI [of _ b]) (simp add: clip_position_def)
  qed
  show ?thesis
    unfolding bbox_geometry_shader_code_def Let_def list.pred_map
  proof (rule list.pred_mono_strong [OF assms])
    fix ij :: "nat \<times> nat"
    obtain i j where ij: "ij = (i, j)" by (cases ij)
    assume "case ij of (i, j) \<Rightarrow> \<exists>a b. bbox_segment (vec4 (uvec3 (0, 0, 0) us ''center'') 1)
        (bbox_points (uvec3 (1, 1, 1) us ''dimensions'') (ufloat (1 / 10) us ''length'') ! i)
        (bbox_points (uvec3 (1, 1, 1) us ''dimensions'') (ufloat (1 / 10) us ''length'') ! j) = [vec4 a 1, vec4 b 1] \<and> P a b"
    then show "((\<lambda>line. \<exists>a b. P a b \<and> map fst line = map (clip_position us) [a, b]) \<circ>
        (\<lambda>(i, j). map (\<lambda>v. (mat_vec (mat_mul (umat4 us ''perspective_matrix'') (umat4 us ''object_matrix'')) v,
          uvec4 (1, 1, 1, 1) us ''color''))
          (bbox_segment (vec4 (uvec3 (0, 0, 0) us ''center'') 1)
            (bbox_points (uvec3 (1, 1, 1) us ''dimensions'') (ufloat (1 / 10) us ''length'') ! i)
            (bbox_points (uvec3 (1, 1, 1) us ''dimensions'') (ufloat (1 / 10) us ''length'') ! j)))) ij"
      unfolding ij o_apply prod.case by (rule seg)
  qed
qed

lemma bbox_side_diff: "mini \<le> maxi \<Longrightarrow> bbox_side mini maxi = maxi - mini"
  by (auto simp: bbox_side_def)

definition cloud_min :: "v3 list \<Rightarrow> v3" where
  "cloud_min vs = (Min (fst ` set vs), Min ((fst \<circ> snd) ` set vs), Min ((snd \<circ> snd) ` set vs))"

definition cloud_max :: "v3 list \<Rightarrow> v3" where
  "cloud_max vs = (Max (fst ` set vs), Max ((fst \<circ> snd) ` set vs), Max ((snd \<circ> snd) ` set vs))"

lemma bbox_uniforms_of:
  assumes "vs \<noteq> []" "cloud_min vs = (x0, y0, z0)" "cloud_max vs = (x1, y1, z1)"
  shows "bbox_uniforms len vs = Inr ((x1 - x0, y1 - y0, z1 - z0), ((x0 + x1) / 2, (y0 + y1) / 2, (z0 + z1) / 2),
      min (x1 - x0) (min (y1 - y0) (z1 - z0)) / 2 * len)" "x0 \<le> x1" "y0 \<le> y1" "z0 \<le> z1"
proof -
  have mm: "Min (f ` set vs) \<le> Max (f ` set vs)" for f :: "v3 \<Rightarrow> real"
    using assms(1) by (intro order_trans [OF Min_le [of _ "f (hd vs)"] Max_ge]) simp_all
  show le: "x0 \<le> x1" "y0 \<le> y1" "z0 \<le> z1"
    using assms(2,3) mm [of fst] mm [of "fst \<circ> snd"] mm [of "snd \<circ> snd"] by (auto simp: cloud_min_def cloud_max_def)
  show "bbox_uniforms len vs = Inr ((x1 - x0, y1 - y0, z1 - z0), ((x0 + x1) / 2, (y0 + y1) / 2, (z0 + z1) / 2),
      min (x1 - x0) (min (y1 - y0) (z1 - z0)) / 2 * len)"
    using assms le by (simp add: bbox_uniforms_def Let_def cloud_min_def cloud_max_def bbox_side_diff o_def)
qed

section \<open>Skipped points\<close>

lemma off_screen: "\<not> in_clip_volume (2, 0, 0, 1)"
  by (simp add: in_clip_volume_def)

lemma skip_point_position:
  "fst (vertex_shader_simple_skip_point_vertices_code (uniforms_skip us vw p vs) position color index) =
     (if skip_index (us_skip_percentage us) (length vs) \<le> index then (2, 0, 0, 1)
      else clip_position (uniforms_skip us vw p vs) position)"
  by (simp add: vertex_shader_simple_skip_point_vertices_code_def uniforms_skip_def uniform_values_defs Let_def)

lemma skip_index_less:
  "0 \<le> sp \<Longrightarrow> i < n \<Longrightarrow> skip_index sp n \<le> int i \<longleftrightarrow> \<not> (99 \<le> sp \<or> real i + 1 \<le> real n * sp / 100)"
proof -
  assume sp: "0 \<le> sp" and i: "i < n"
  have "\<lfloor>real n / 100 * sp\<rfloor> \<le> int i \<longleftrightarrow> real n / 100 * sp < real i + 1" by (simp add: floor_le_iff)
  then show ?thesis using sp i by (auto simp: skip_index_def py_int_def)
qed

end
