(* ===== verification/PCV_Props_GLSL.thy ===== *)
theory PCV_Props_GLSL
  imports PCV_GLSL_Facts PCV_Examples
begin

text \<open>
  Properties of what the shaders show: the preview of the colour adjustment, the clip planes, the bounding box and the
  skipped points.
\<close>

text \<open>C14: The preview is what is applied: for a gamma above 0, the shader of the colour adjustment, run with the uniforms
  that \<open>render\<close> sets, shows inside the disc of a point the colour that the Apply operator stores for it,
  with a difference of at most \<open>1e-7\<close> in each channel (a step of 8 bits is \<open>4e-3\<close>), when the colour before the
  shift of the hue is a grey or its channels differ by a step of 8 bits; its alpha is that of the properties.\<close>

theorem preview_matches_apply:
  assumes "colorsys_colors bl" "0 < ca_gamma (p_color_adjust p)" "point_r coord \<le> us_alpha_radius us"
    and "spread (v3_map (adjust_channel (p_color_adjust p)) (rgb color)) = 0 \<or>
      1 / 255 \<le> spread (v3_map (adjust_channel (p_color_adjust p)) (rgb color))"
  shows "case vertex_shader_color_adjustment_code (uniforms_color_adjustment us vw p) position color of
    (pos, size0, f_color, radius, a) \<Rightarrow>
      \<exists>c. fragment_shader_color_adjustment_code f_color radius a coord = Fragment (vec4 c (p_global_alpha p)) \<and>
          colors_close (1 / 10 ^ 7) c (rgb (adjust_color bl (p_color_adjust p) color))"
proof -
  let ?a = "p_color_adjust p"
  obtain r g b al where c: "color = (r, g, b, al)" by (cases color)
  let ?r = "adjust_channel ?a r" and ?g = "adjust_channel ?a g" and ?b = "adjust_channel ?a b"
  obtain h s v where hsv: "bl_hsv bl (?r, ?g, ?b) = (h, s, v)" by (cases "bl_hsv bl (?r, ?g, ?b)")
  obtain r' g' b' where rgb: "bl_from_hsv bl (frac (h + (if 1 < ca_hue ?a then frac (ca_hue ?a) else ca_hue ?a)),
      s + ca_saturation ?a, v + ca_value ?a) = (r', g', b')"
    by (cases "bl_from_hsv bl (frac (h + (if 1 < ca_hue ?a then frac (ca_hue ?a) else ca_hue ?a)),
      s + ca_saturation ?a, v + ca_value ?a)")
  have range: "\<forall>x\<in>{?r, ?g, ?b}. 0 \<le> x \<and> x \<le> 1" by (simp add: adjust_channel_def Let_def clip01_range)
  have sp: "spread (?r, ?g, ?b) = 0 \<or> 1 / 255 \<le> spread (?r, ?g, ?b)" using assms(4) by (simp add: c v3_map_def rgb_def)
  have v: "vec4 (rgb color) (p_global_alpha p) = (r, g, b, p_global_alpha p)" by (simp add: c vec4_def rgb_def)
  have "rgb (adjust_color bl ?a color) = (finish_channel ?a r', finish_channel ?a g', finish_channel ?a b')"
    by (simp add: adjust_color_def c hsv rgb Let_def rgb_def)
  then show ?thesis
    using adjusted_hsv_close [OF assms(1) range sp hsv rgb] fragment_color_adjustment [OF assms(2,3), of r g b "p_global_alpha p"]
    unfolding color_adjustment_vertex prod.case v by (intro exI [of _ "adjusted_hsv (adjustment_of ?a) (?r, ?g, ?b)"]) simp
qed

text \<open>The conversions of \<open>colorsys\<close> stand for those of Blender, and the hue is turned by one half.\<close>

definition ex_settings :: shader_settings where
  "ex_settings = \<lparr>us_alpha_radius = 1, us_normals_size = 1, us_normals_alpha = 1, us_light_direction = (0, 1, 0),
     us_light_intensity = 3 / 10, us_shadow_intensity = 2 / 10, us_depth_brightness = 0, us_depth_contrast = 1,
     us_depth_color_a = (0, 1, 0), us_depth_color_b = (1, 0, 0), us_bbox_color = (7 / 10, 7 / 10, 7 / 10), us_bbox_alpha = 7 / 10,
     us_selection_color = (1, 0, 0, 1 / 2), us_minimal_brightness = 1 / 4, us_minimal_contrast = 1 / 2, us_minimal_blend = 3 / 4,
     us_billboard_size = 2 / 1000, us_rich_size = 1 / 100, us_rich_brightness = 1 / 4, us_rich_contrast = 1 / 2,
     us_rich_blend = 3 / 4, us_phong_ambient = 1 / 2, us_phong_specular = 1 / 2, us_phong_exponent = 8,
     us_billboard_phong_size = 2 / 1000, us_billboard_phong_ambient = 1 / 2, us_billboard_phong_specular = 1 / 2,
     us_billboard_phong_exponent = 8, us_skip_percentage = 50, us_normal_color = (0, 0, 1)\<rparr>"

definition ex_view :: view where
  "ex_view = \<lparr>vw_perspective = mat_identity, vw_view = mat_identity, vw_window = mat_identity, vw_eye = (0, 0, 1),
     vw_object = mat_identity, vw_scale = 1, vw_unrotate = (\<lambda>v. v)\<rparr>"

definition ex_hue_pcv :: pcv where
  "ex_hue_pcv = ex_pcv1\<lparr>p_color_adjust := neutral_adjust\<lparr>ca_hue := 1 / 2\<rparr>\<rparr>"

definition ex_blender :: blender where
  "ex_blender =
     \<lparr>bl_hsv = rgb_to_hsv, bl_from_hsv = (\<lambda>(h, s, v). hsv_to_rgb (h, clip01 s, clip01 v)), bl_inverted = Inr,
      bl_rotation = (\<lambda>m. m), bl_nearest = (\<lambda>_ _. 0), bl_target = (\<lambda>_ _. \<lparr>tg_bound_box = [], tg_closest_point = (\<lambda>_. None),
        tg_ray_cast = (\<lambda>_ _ _. None)\<rparr>), bl_weights = (\<lambda>_ _. []), bl_barycentric = (\<lambda>_ _ _ _ _ _ _. (0, 0, 0))\<rparr>"

lemma ex_colorsys: "colorsys_colors ex_blender"
  by (simp add: colorsys_colors_def ex_blender_def)

theorem preview_matches_apply_witness:
  "case vertex_shader_color_adjustment_code (uniforms_color_adjustment ex_settings ex_view ex_hue_pcv) (0, 0, 0) (1, 0, 1 / 2, 1) of
     (pos, size0, f_color, radius, a) \<Rightarrow>
       \<exists>c. fragment_shader_color_adjustment_code f_color radius a (1 / 2, 1 / 2) = Fragment (vec4 c (p_global_alpha ex_hue_pcv)) \<and>
           colors_close (1 / 10 ^ 7) c (rgb (adjust_color ex_blender (p_color_adjust ex_hue_pcv) (1, 0, 1 / 2, 1)))"
proof -
  let ?p = ex_hue_pcv and ?us = ex_settings
  have g: "0 < ca_gamma (p_color_adjust ?p)" by (simp add: ex_hue_pcv_def neutral_adjust_def)
  have d: "point_r (1 / 2, 1 / 2) \<le> us_alpha_radius ?us" by (simp add: point_r_def ex_settings_def Let_def)
  have "v3_map (adjust_channel (p_color_adjust ?p)) (rgb (1, 0, 1 / 2, 1)) = (1, 0, 1 / 2)"
    by (simp add: v3_map_def rgb_def ex_hue_pcv_def adjust_channel_def neutral_adjust_def Let_def clip01_def)
  then have s: "spread (v3_map (adjust_channel (p_color_adjust ?p)) (rgb (1, 0, 1 / 2, 1))) = 0 \<or>
      1 / 255 \<le> spread (v3_map (adjust_channel (p_color_adjust ?p)) (rgb (1, 0, 1 / 2, 1)))"
    by (simp add: spread_def)
  show ?thesis using preview_matches_apply [OF ex_colorsys g d s] .
qed





text \<open>C29: The bounding box is traced: for a cloud with points, the bounding box shader, run with the uniforms that
  \<open>render\<close> sets, draws 24 lines, each of them along an edge of the smallest box around the points and from one
  of its corners.\<close>

theorem bbox_lines_along_edges:
  assumes "vs \<noteq> []" "0 \<le> ds_bbox_size (p_display p)" "ds_bbox_size (p_display p) \<le> 1"
  shows "length (bbox_geometry_shader_code (uniforms_bbox us vw p vs)) = 24 \<and>
     list_all (\<lambda>line. \<exists>a b. along_edge (cloud_min vs) (cloud_max vs) a b \<and>
         map fst line = map (clip_position (uniforms_bbox us vw p vs)) [a, b])
       (bbox_geometry_shader_code (uniforms_bbox us vw p vs))"
proof -
  let ?us = "uniforms_bbox us vw p vs" and ?k = "ds_bbox_size (p_display p)"
  obtain x0 y0 z0 where lo: "cloud_min vs = (x0, y0, z0)" by (cases "cloud_min vs")
  obtain x1 y1 z1 where hi: "cloud_max vs = (x1, y1, z1)" by (cases "cloud_max vs")
  note u = bbox_uniforms_of [OF assms(1) lo hi]
  define l where "l = min (x1 - x0) (min (y1 - y0) (z1 - z0)) / 2 * ?k"
  let ?w = "(x1 - x0) / 2" and ?h = "(y1 - y0) / 2" and ?d = "(z1 - z0) / 2"
  have m0: "0 \<le> min (x1 - x0) (min (y1 - y0) (z1 - z0)) / 2" using u(2-4) by simp
  then have "0 \<le> l" unfolding l_def using assms(2) by (rule mult_nonneg_nonneg)
  moreover have "l \<le> min (x1 - x0) (min (y1 - y0) (z1 - z0)) / 2"
    unfolding l_def using mult_left_mono [OF assms(3) m0] by simp
  then have "l \<le> ?w" "l \<le> ?h" "l \<le> ?d" by (auto simp: min_def split: if_splits)
  moreover have box: "(x0 + x1) / 2 - ?w = x0" "(y0 + y1) / 2 - ?h = y0" "(z0 + z1) / 2 - ?d = z0"
    "(x0 + x1) / 2 + ?w = x1" "(y0 + y1) / 2 + ?h = y1" "(z0 + z1) / 2 + ?d = z1" "2 * ?w = x1 - x0" "2 * ?h = y1 - y0" "2 * ?d = z1 - z0"
    by (simp_all add: field_simps)
  ultimately have seg: "list_all (\<lambda>(i, j). \<exists>a b. bbox_segment (vec4 ((x0 + x1) / 2, (y0 + y1) / 2, (z0 + z1) / 2) 1)
        (bbox_points (x1 - x0, y1 - y0, z1 - z0) l ! i) (bbox_points (x1 - x0, y1 - y0, z1 - z0) l ! j) = [vec4 a 1, vec4 b 1] \<and>
      along_edge (x0, y0, z0) (x1, y1, z1) a b) bbox_lines"
    using bbox_segments [of l ?w ?h ?d "(x0 + x1) / 2" "(y0 + y1) / 2" "(z0 + z1) / 2"] by (simp only: box)
  have us: "uvec3 c ?us ''center'' = ((x0 + x1) / 2, (y0 + y1) / 2, (z0 + z1) / 2)"
    "uvec3 c ?us ''dimensions'' = (x1 - x0, y1 - y0, z1 - z0)" "ufloat k ?us ''length'' = l" for c k
    by (simp_all add: uniforms_bbox_def uniform_values_defs u(1) l_def)
  have "length (bbox_geometry_shader_code ?us) = 24"
    by (simp add: bbox_geometry_shader_code_def Let_def bbox_lines_def)
  then show ?thesis unfolding lo hi using bbox_code_lines [of ?us, unfolded us, OF seg] by blast
qed

theorem bbox_lines_along_edges_witness:
  "length (bbox_geometry_shader_code (uniforms_bbox ex_settings ex_view
     (default_pcv\<lparr>p_display := (p_display default_pcv)\<lparr>ds_bbox_size := 3 / 10\<rparr>\<rparr>) ex_vs)) = 24"
  using bbox_lines_along_edges [where vs = ex_vs and p = "default_pcv\<lparr>p_display := (p_display default_pcv)\<lparr>ds_bbox_size := 3 / 10\<rparr>\<rparr>"
      and us = ex_settings and vw = ex_view]
  by (simp add: ex_vs_def)

text \<open>The percentage of shown points: the skip shader, run with the uniforms that \<open>render\<close> sets, shows the \<open>i\<close>-th of
  \<open>n\<close> points exactly when it is on the screen and among the first \<open>n * sp / 100\<close>, or \<open>sp\<close> is at least 99.\<close>

theorem skip_shows_percentage:
  assumes "i < length vs" "0 \<le> us_skip_percentage us"
  shows "in_clip_volume (fst (vertex_shader_simple_skip_point_vertices_code (uniforms_skip us vw p vs) (vs ! i) color (int i))) \<longleftrightarrow>
     in_clip_volume (clip_position (uniforms_skip us vw p vs) (vs ! i)) \<and>
     (99 \<le> us_skip_percentage us \<or> real i + 1 \<le> real (length vs) * us_skip_percentage us / 100)"
  unfolding skip_point_position skip_index_less [OF assms(2,1)] using off_screen by simp

theorem skip_shows_percentage_witness:
  "\<not> in_clip_volume (fst (vertex_shader_simple_skip_point_vertices_code
     (uniforms_skip ex_settings ex_view default_pcv ex_vs) (ex_vs ! 1) (1, 1, 1, 1) (int 1)))"
  using skip_shows_percentage [where i = 1 and vs = ex_vs and us = ex_settings] by (simp add: ex_vs_def ex_settings_def)

end
