(* ===== verification/PCV_Render_Uniforms.thy ===== *)
theory PCV_Render_Uniforms
  imports PCV_Render PCV_Uniform_Facts
begin

text \<open>
  The uniforms that the render operator sets for the batch that it draws into its off-screen buffer. The perspective
  matrix of the view is that of the camera.
\<close>

definition render_point_uniforms :: "shader_settings \<Rightarrow> pcv \<Rightarrow> uniform_values" where
  "render_point_uniforms us p =
     (let rn = p_render p
      in [(''point_size'', U_float (real_of_int
            (if 1 < rn_supersampling rn then rn_point_size rn * rn_supersampling rn else rn_point_size rn))),
          (''alpha_radius'', U_float (us_alpha_radius us)), (''global_alpha'', U_float (p_global_alpha p))])"

definition render_uniforms :: "shader_settings \<Rightarrow> view \<Rightarrow> pcv \<Rightarrow> bool \<Rightarrow> v3 list \<Rightarrow> uniform_values" where
  "render_uniforms us vw p illuminated vs =
     place vw @ render_point_uniforms us p @
     (if p_flags p Dev_depth
      then depth_uniforms vw vs @ adjust (us_depth_brightness us) (us_depth_contrast us) @
           (if p_illumination p
            then light_uniforms us vw @
                 (if p_dev_depth_false_colors p
                  then [(''color_a'', U_vec3 (us_depth_color_a us)), (''color_b'', U_vec3 (us_depth_color_b us))]
                  else [(''color_a'', U_vec3 (1, 1, 1)), (''color_b'', U_vec3 (0, 0, 0))])
            else if p_dev_depth_false_colors p
                 then [(''color_a'', U_vec3 (us_depth_color_a us)), (''color_b'', U_vec3 (us_depth_color_b us))]
                 else [])
      else if p_flags p Dev_normal_colors then []
      else if p_flags p Dev_position_colors then []
      else if p_illumination p \<and> p_has_normals p \<and> illuminated then light_uniforms us vw
      else [])"

text \<open>The smooth shaders declare what the plain ones do.\<close>

lemma declared_smooth:
  "declared_uniforms (''vertex_shader_simple_render_smooth'', ''fragment_shader_simple_render_smooth'') =
     Some (uniforms vertex_shader_simple)"
  "declared_uniforms (''vertex_shader_illumination_render_smooth'', ''fragment_shader_illumination_render_smooth'') =
     Some (uniforms vertex_shader_illumination)"
  "declared_uniforms shader_simple = Some (uniforms vertex_shader_simple)"
  "declared_uniforms shader_illumination = Some (uniforms vertex_shader_illumination)"
  by code_simp+

text \<open>
  The render operator serves the shader of its batch, when a cloud that is lit has normals and was drawn with light;
  otherwise the shader of a lit cloud gets no light.
\<close>

lemma render_op_served:
  assumes "p_illumination p \<Longrightarrow> p_has_normals p \<and> illuminated"
  shows "map_option set (declared_uniforms (b_shader (render_batch p a))) =
     Some (set (map (apsnd uval_type) (render_uniforms us vw p illuminated vs)))"
proof -
  obtain vs' ns cs where a: "a = (vs', ns, cs)" by (cases a)
  note defs = render_uniforms_def render_point_uniforms_def place_def adjust_def light_uniforms_def uval_type_def depth_uniforms_def Let_def
  consider "p_flags p Dev_depth" | "\<not> p_flags p Dev_depth" "p_flags p Dev_normal_colors \<or> p_flags p Dev_position_colors"
    | "\<not> p_flags p Dev_depth" "\<not> p_flags p Dev_normal_colors" "\<not> p_flags p Dev_position_colors" by blast
  then show ?thesis
  proof cases
    case 1
    then show ?thesis by (auto simp: a render_batch_def defs declared_uniforms_table simp del: set_map)
  next
    case 2
    then show ?thesis by (auto simp: a render_batch_def defs declared_uniforms_table simp del: set_map)
  next
    case 3
    then show ?thesis using assms
      by (auto simp: a render_batch_def defs declared_smooth vertex_shader_simple_def vertex_shader_illumination_def simp del: set_map)
  qed
qed

text \<open>An image that is supersampled keeps the size of its points: they are drawn larger by the same factor.\<close>

lemma render_point_size:
  "1 < rn_supersampling (p_render p) \<Longrightarrow>
   map_of (render_uniforms us vw p ill vs) ''point_size'' =
     Some (U_float (real_of_int (rn_point_size (p_render p) * rn_supersampling (p_render p))))"
  by (simp add: render_uniforms_def render_point_uniforms_def place_def Let_def)

end
