(* ===== verification/PCV_Mesh_Facts.thy ===== *)
theory PCV_Mesh_Facts
  imports PCV_Mesh
begin

text \<open>
  Facts about mesh making: the generated solids are closed and consistently oriented, the
  normal alignment turns the z axis onto the normal, an instancer's result is the list of
  the transformed copies, the two instancers agree, and the UV triangles do not overlap.
\<close>

section \<open>The tables\<close>

text \<open>The directed edges of a list of faces.\<close>

definition face_edges :: "'a list \<Rightarrow> ('a \<times> 'a) list" where
  "face_edges f = zip f (rotate1 f)"

definition mesh_edges :: "'a list list \<Rightarrow> ('a \<times> 'a) list" where
  "mesh_edges fs = concat (map face_edges fs)"

text \<open>Every directed edge occurs once, together with its reverse: a closed oriented surface.\<close>

definition closed_surface :: "'a list list \<Rightarrow> bool" where
  "closed_surface fs \<longleftrightarrow>
     distinct (mesh_edges fs) \<and> (\<forall>(a, b)\<in>set (mesh_edges fs). (b, a) \<in> set (mesh_edges fs))"

definition faces_in :: "nat \<Rightarrow> nat list list \<Rightarrow> bool" where
  "faces_in n fs \<longleftrightarrow> (\<forall>f\<in>set fs. distinct f \<and> (\<forall>i\<in>set f. i < n))"

text \<open>
  A fast check: with the edges coded as numbers and sorted, the edges are distinct when the
  sorted list increases, and reversing them gives the same sorted list.
\<close>

fun increasing :: "int list \<Rightarrow> bool" where
  "increasing (x # y # ys) \<longleftrightarrow> x < y \<and> increasing (y # ys)"
| "increasing _ \<longleftrightarrow> True"

lemma increasing_distinct: "increasing xs \<Longrightarrow> distinct xs"
proof -
  have "increasing (x # xs) \<Longrightarrow> distinct (x # xs) \<and> (\<forall>y\<in>set xs. x < y)" for x xs
    by (induction xs arbitrary: x) fastforce+
  then show "increasing xs \<Longrightarrow> distinct xs" by (cases xs) auto
qed

definition edge_code :: "nat \<times> nat \<Rightarrow> int" where
  "edge_code e = 64 * int (fst e) + int (snd e)"

definition closed_check :: "int list list \<Rightarrow> bool" where
  "closed_check fs =
     (let es = mesh_edges fs; ks = sort (map (\<lambda>(a, b). 64 * a + b) es)
      in increasing ks \<and> sort (map (\<lambda>(a, b). 64 * b + a) es) = ks)"

lemma mesh_edges_map: "mesh_edges (map (map f) fs) = map (map_prod f f) (mesh_edges fs)"
  by (induction fs) (simp_all add: mesh_edges_def face_edges_def rotate1_map zip_map_map map_prod_def)

lemma mesh_edges_in: "faces_in n fs \<Longrightarrow> (a, b) \<in> set (mesh_edges fs) \<Longrightarrow> a < n \<and> b < n"
  by (fastforce simp: faces_in_def mesh_edges_def face_edges_def dest: set_zip_leftD set_zip_rightD)

lemma closed_checkD:
  assumes check: "closed_check (map (map int) fs)" and n: "faces_in n fs" "n \<le> 64"
  shows "closed_surface fs"
proof -
  let ?es = "mesh_edges fs"
  have codes: "map (\<lambda>(a, b). 64 * a + b) (mesh_edges (map (map int) fs)) = map edge_code ?es"
      "map (\<lambda>(a, b). 64 * b + a) (mesh_edges (map (map int) fs)) = map edge_code (map prod.swap ?es)"
    by (simp_all add: mesh_edges_map edge_code_def split_beta)
  have "increasing (sort (map edge_code ?es))"
    using check by (simp add: closed_check_def Let_def codes del: map_map)
  then have "distinct (map edge_code ?es)"
    by (metis increasing_distinct distinct_sort)
  then have dist: "distinct ?es"
    using distinct_map by auto
  have "mset (map edge_code (map prod.swap ?es)) = mset (map edge_code ?es)"
    using check unfolding closed_check_def Let_def codes by (metis mset_sort)
  then have eq: "edge_code ` prod.swap ` set ?es = edge_code ` set ?es"
    by (metis list.set_map mset_eq_setD)
  have "(b, a) \<in> set ?es" if ab: "(a, b) \<in> set ?es" for a b
  proof -
    have "edge_code (b, a) \<in> edge_code ` set ?es"
      using ab unfolding eq [symmetric] by force
    then obtain a' b' where e: "(a', b') \<in> set ?es" "64 * int b + int a = 64 * int a' + int b'"
      by (auto simp: edge_code_def)
    have "a < 64" "b' < 64"
      using mesh_edges_in [OF n(1) ab] mesh_edges_in [OF n(1) e(1)] n(2) by simp_all
    with e(2) have ba: "b = a'" by linarith
    then have "a = b'" using e(2) by simp
    with ba e(1) show ?thesis by simp
  qed
  with dist show ?thesis by (auto simp: closed_surface_def)
qed

lemma solids_in:
  "faces_in 4 [[0, 1, 2], [3, 2, 1], [3, 1, 0], [3, 0, 2]]"
  "faces_in 8 [[0, 1, 2, 3], [4, 7, 6, 5], [0, 4, 5, 1], [1, 5, 6, 2], [2, 6, 7, 3], [4, 0, 3, 7]]"
  "faces_in 12 icosphere_faces1" "faces_in 42 icosphere_faces2"
  by code_simp+

lemma solids_closed:
  "closed_surface [[0, 1, 2], [3, 2, 1], [3, 1, 0], [3, 0, 2 :: nat]]"
  "closed_surface [[0, 1, 2, 3], [4, 7, 6, 5], [0, 4, 5, 1], [1, 5, 6, 2], [2, 6, 7, 3], [4, 0, 3, 7 :: nat]]"
  by code_simp+

lemma icospheres_closed: "closed_surface icosphere_faces1" "closed_surface icosphere_faces2"
proof -
  have "closed_check (map (map int) icosphere_faces1)"
    unfolding icosphere_faces1_def by simp code_simp
  then show "closed_surface icosphere_faces1"
    by (rule closed_checkD [OF _ solids_in(3)]) simp
  have "closed_check (map (map int) icosphere_faces2)"
    unfolding icosphere_faces2_def by simp code_simp
  then show "closed_surface icosphere_faces2"
    by (rule closed_checkD [OF _ solids_in(4)]) simp
qed

lemma icosphere_lengths:
  "length icosphere_verts1 = 12" "length icosphere_verts2 = 42"
  "length icosphere_faces1 = 20" "length icosphere_faces2 = 80"
  by (simp_all add: icosphere_verts1_def icosphere_verts2_def icosphere_faces1_def icosphere_faces2_def)

section \<open>The equilateral triangle and the tetrahedron\<close>

lemma triangle_angles:
  "sin (2 * pi / 3) = sqrt 3 / 2" "cos (2 * pi / 3) = - 1 / 2"
  "sin (2 * (2 * pi / 3)) = - sqrt 3 / 2" "cos (2 * (2 * pi / 3)) = - 1 / 2"
proof -
  have e: "2 * pi / 3 = pi - pi / 3" by simp
  show s: "sin (2 * pi / 3) = sqrt 3 / 2"
    unfolding e sin_pi_minus sin_60 by (rule refl)
  show c: "cos (2 * pi / 3) = - 1 / 2"
    unfolding e cos_pi_minus cos_60 by simp
  show "sin (2 * (2 * pi / 3)) = - sqrt 3 / 2"
    unfolding sin_double s c by simp
  show "cos (2 * (2 * pi / 3)) = - 1 / 2"
    unfolding cos_double s c by (simp add: power2_eq_square)
qed

lemma triangle_coords:
  "circle2d_coords (sqrt 3 / 3 * l) 3 0 0 0 =
     [(0, sqrt 3 / 3 * l), (l / 2, - (sqrt 3 / 6 * l)), (- (l / 2), - (sqrt 3 / 6 * l))]"
proof -
  have upt: "[0..<3] = [0, 1, 2 :: nat]" by (simp add: upt_rec)
  have sq: "sqrt 3 * (sqrt 3 * x) = 3 * x" for x
    by (simp flip: mult.assoc)
  show ?thesis
    unfolding circle2d_coords_def Let_def upt list.map of_nat_0 of_nat_1 of_nat_numeral
    unfolding mult_zero_left mult_1 add_0_right triangle_angles
    by (simp add: sq)
qed

text \<open>The squared length of an edge of a generated mesh.\<close>

definition edge_length2 :: "v3 list \<Rightarrow> nat \<times> nat \<Rightarrow> real" where
  "edge_length2 vs e = v3_dot (v3_sub (vs ! fst e) (vs ! snd e)) (v3_sub (vs ! fst e) (vs ! snd e))"

lemma generate_equilateral:
  assumes "l = mg_length g"
  shows "mg_type g = ''TRIANGLE'' \<Longrightarrow> generator_generate g =
      ([(0, sqrt 3 / 3 * l, 0), (l / 2, - (sqrt 3 / 6 * l), 0), (- (l / 2), - (sqrt 3 / 6 * l), 0)],
       [], [[0, 2, 1]])"
    and "mg_type g = ''TETRAHEDRON'' \<Longrightarrow> generator_generate g =
      ([(0, sqrt 3 / 3 * l, 0), (l / 2, - (sqrt 3 / 6 * l), 0), (- (l / 2), - (sqrt 3 / 6 * l), 0),
        (0, 0, l / 3 * sqrt 6)], [], [[0, 1, 2], [3, 2, 1], [3, 1, 0], [3, 0, 2]])"
  unfolding generator_generate_def Let_def triangle_coords assms by simp_all

lemma equilateral:
  assumes "generator_generate g = (vs, es, fs)" "mg_type g \<in> {''TRIANGLE'', ''TETRAHEDRON''}"
    and "e \<in> set (mesh_edges fs)"
  shows "edge_length2 vs e = (mg_length g)\<^sup>2"
proof -
  have sq: "sqrt a * (sqrt a * x) = a * x" if "0 \<le> a" for a x
    using that by (simp flip: mult.assoc)
  show ?thesis
    using assms generate_equilateral [OF refl, of g]
    by (auto simp: mesh_edges_def face_edges_def edge_length2_def v3_dot_def v3_sub_def
        power2_eq_square algebra_simps sq)
qed

section \<open>Turning the z axis onto a normal\<close>

text \<open>A unit quaternion's action on a vector.\<close>

definition quat_rotate :: "quat \<Rightarrow> v3 \<Rightarrow> v3" where
  "quat_rotate q v =
     (case q of (w, x, y, z) \<Rightarrow>
        let u = (x, y, z); t = v3_scale 2 (v3_cross u v)
        in v3_add v (v3_add (v3_scale w t) (v3_cross u t)))"

text \<open>What mathutils documents of \<open>Quaternion(axis, angle)\<close> for half a turn.\<close>

definition half_turns :: "mesh_env \<Rightarrow> bool" where
  "half_turns me \<longleftrightarrow> (\<forall>x y z. x\<^sup>2 + y\<^sup>2 + z\<^sup>2 = 1 \<longrightarrow> me_axis_angle me (x, y, z) pi = (0, x, y, z))"

lemma unit_z: "v3_normalized (0, 0, 1) = (0, 0, 1)"
  by (simp add: v3_normalized_def v3_length_def v3_dot_def v3_scale_def)

lemma normalized_unit:
  assumes "n \<noteq> (0, 0, 0)" "v3_normalized n = (x, y, z)"
  shows "x\<^sup>2 + y\<^sup>2 + z\<^sup>2 = 1"
proof -
  obtain a b c where n: "n = (a, b, c)" by (cases n)
  let ?s = "a * a + b * b + c * c"
  have "?s \<noteq> 0"
    using assms(1) n by (simp add: add_nonneg_eq_0_iff)
  moreover have "0 \<le> ?s"
    by simp
  ultimately have pos: "0 < ?s"
    by linarith
  then have r: "sqrt ?s \<noteq> 0" "(sqrt ?s)\<^sup>2 = ?s"
    by simp_all
  then have "x = a / sqrt ?s" "y = b / sqrt ?s" "z = c / sqrt ?s"
    using assms(2) unfolding n
    by (auto simp: v3_normalized_def v3_length_def v3_dot_def v3_scale_def)
  then have "x\<^sup>2 + y\<^sup>2 + z\<^sup>2 = (a\<^sup>2 + b\<^sup>2 + c\<^sup>2) / (sqrt ?s)\<^sup>2"
    by (simp add: power_divide add_divide_distrib)
  also have "a\<^sup>2 + b\<^sup>2 + c\<^sup>2 = ?s"
    by (simp add: power2_eq_square)
  also have "?s / (sqrt ?s)\<^sup>2 = 1"
    using r(2) pos by (simp only:) simp
  finally show ?thesis .
qed

text \<open>
  The alignment: between the two extremes the turned z axis is the normal itself, near them
  it is within \<open>0.0015\<close> of it.
\<close>

lemma rotate_between:
  assumes unit: "x\<^sup>2 + y\<^sup>2 + z\<^sup>2 = 1" and z: "- 1 < z"
  shows "quat_rotate (quat_normalized (1 + z, - y, x, 0)) (0, 0, 1) = (x, y, z)"
proof -
  define l where "l = sqrt ((1 + z)\<^sup>2 + (- y)\<^sup>2 + x\<^sup>2 + 0\<^sup>2)"
  have "(1 + z)\<^sup>2 + (- y)\<^sup>2 + x\<^sup>2 + 0\<^sup>2 = 2 * (1 + z)"
    using unit by (simp add: power2_sum)
  then have l2: "l * l = 2 * (1 + z)" and l: "l \<noteq> 0"
    using z by (simp_all add: l_def)
  have q: "quat_normalized (1 + z, - y, x, 0) = ((1 + z) / l, - y / l, x / l, 0)"
    using l by (simp add: quat_normalized_def Let_def l_def)
  have d: "u / l * (2 * (v / l)) = u * v / (1 + z)" for u v
  proof -
    have "u / l * (2 * (v / l)) = 2 * (u * v) / (l * l)" by simp
    also have "\<dots> = u * v / (1 + z)" unfolding l2 by (rule mult_divide_mult_cancel_left) simp
    finally show ?thesis .
  qed
  have xy: "x * x / (1 + z) + y * y / (1 + z) = 1 - z"
  proof -
    have "x * x + y * y = (1 - z) * (1 + z)"
      using unit by (simp add: power2_eq_square algebra_simps)
    then show ?thesis using z by (simp flip: add_divide_distrib)
  qed
  have "(1 + z) / l * (2 * (x / l)) = x" "(1 + z) / l * (2 * (y / l)) = y"
    "x / l * (2 * (x / l)) + y / l * (2 * (y / l)) = 1 - z"
    unfolding d using z xy by simp_all
  then show ?thesis
    unfolding q quat_rotate_def Let_def prod.case v3_cross_def v3_scale_def v3_add_def fst_conv snd_conv
    by simp
qed

lemma rotation_to_normal:
  assumes me: "half_turns me" and n: "n \<noteq> (0, 0, 0)" "v3_normalized n = (x, y, z)"
    and r: "r = quat_rotate (rotation_to me (0, 0, 1) n) (0, 0, 1)"
  shows "v3_dot (v3_sub r (x, y, z)) (v3_sub r (x, y, z)) \<le> 0.000002"
    and "- 0.999999 \<le> z \<Longrightarrow> z \<le> 0.999999 \<Longrightarrow> r = (x, y, z)"
proof -
  have unit: "x\<^sup>2 + y\<^sup>2 + z\<^sup>2 = 1"
    by (rule normalized_unit [OF n])
  have d: "v3_dot (0, 0, 1) (x, y, z) = z" "v3_cross (0, 0, 1) (x, y, z) = (- y, x, 0)"
    by (simp_all add: v3_dot_def v3_cross_def)
  have axis: "v3_cross (1, 0, 0) (0, 0, 1) = (0, - 1, 0)" "v3_length (0, - 1, 0) = 1"
    "v3_normalized (0, - 1, 0) = (0, - 1, 0)"
    by (simp_all add: v3_cross_def v3_length_def v3_dot_def v3_normalized_def v3_scale_def)
  have half: "me_axis_angle me (0, - 1, 0) pi = (0, 0, - 1, 0)"
    using me by (simp add: half_turns_def)
  have to: "rotation_to me (0, 0, 1) n =
      (if z < - 0.999999 then (0, 0, - 1, 0)
       else if 0.999999 < z then (1, 0, 0, 0) else quat_normalized (1 + z, - y, x, 0))"
    unfolding rotation_to_def unit_z n(2) Let_def d axis by (simp add: axis half)
  have ends: "quat_rotate (0, 0, - 1, 0) (0, 0, 1) = (0, 0, - 1)"
    "quat_rotate (1, 0, 0, 0) (0, 0, 1) = (0, 0, 1)"
    by (simp_all add: quat_rotate_def v3_cross_def v3_scale_def v3_add_def)
  show exact: "r = (x, y, z)" if "- 0.999999 \<le> z" "z \<le> 0.999999"
    unfolding r to using that rotate_between [OF unit] by simp
  consider "z < - 0.999999" | "0.999999 < z" | "- 0.999999 \<le> z" "z \<le> 0.999999" by linarith
  then show "v3_dot (v3_sub r (x, y, z)) (v3_sub r (x, y, z)) \<le> 0.000002"
  proof cases
    case 1
    then have "r = (0, 0, - 1)" unfolding r to by (simp add: ends)
    moreover have "x * x + y * y + (- 1 - z) * (- 1 - z) = 2 + 2 * z"
      using unit by (simp add: power2_eq_square algebra_simps)
    ultimately show ?thesis using 1 by (simp add: v3_dot_def v3_sub_def)
  next
    case 2
    then have "r = (0, 0, 1)" unfolding r to by (simp add: ends)
    moreover have "x * x + y * y + (1 - z) * (1 - z) = 2 - 2 * z"
      using unit by (simp add: power2_eq_square algebra_simps)
    ultimately show ?thesis using 2 by (simp add: v3_dot_def v3_sub_def)
  next
    case 3
    then show ?thesis by (simp add: exact v3_dot_def v3_sub_def)
  qed
qed

section \<open>All instances\<close>

text \<open>Assigning the elements of a slice one by one replaces the slice.\<close>

lemma fold_slice:
  assumes "k + n \<le> length xs"
  shows "fold (\<lambda>j xs. xs[k + j := f j]) [0..<n] xs = take k xs @ map f [0..<n] @ drop (k + n) xs"
  using assms
proof (induction n)
  case (Suc n)
  then have "fold (\<lambda>j xs. xs[k + j := f j]) [0..<Suc n] xs =
      (take k xs @ map f [0..<n] @ drop (k + n) xs)[k + n := f n]"
    by simp
  also have "drop (k + n) xs = xs ! (k + n) # drop (k + Suc n) xs"
    using Suc.prems by (simp add: Cons_nth_drop_Suc)
  finally show ?case
    using Suc.prems by (simp add: list_update_append)
qed simp

lemma map_upt_nth: "map (\<lambda>j. f (xs ! j)) [0..<length xs] = map f xs"
  by (rule nth_equalityI) auto

lemma fold_slice_write:
  assumes "k + length new \<le> length xs"
  shows "fold (\<lambda>j xs. xs[k + j := new ! j]) [0..<length new] xs = write_slice k new xs"
  using fold_slice [OF assms, of "\<lambda>j. new ! j"] by (simp add: write_slice_def map_nth)

text \<open>Writing the chunks one after the other gives their concatenation.\<close>

lemma write_slices:
  assumes "\<forall>i<n. length (c i) = k"
  shows "fold (\<lambda>i. write_slice (i * k) (c i)) [0..<n] (replicate (n * k) d) = concat (map c [0..<n])"
proof -
  have "fold (\<lambda>i. write_slice (i * k) (c i)) [0..<m] (replicate (n * k) d) =
      concat (map c [0..<m]) @ replicate ((n - m) * k) d \<and> length (concat (map c [0..<m])) = m * k"
    if "m \<le> n" for m
    using that
  proof (induction m)
    case (Suc m)
    have "(n - m) * k = k + (n - Suc m) * k"
      using Suc.prems by (simp add: Suc_diff_Suc flip: mult_Suc)
    with Suc assms show ?case
      by (simp add: write_slice_def replicate_add)
  qed simp
  from this [of n] show ?thesis by simp
qed

lemma length_write_slice [simp]:
  "k + length new \<le> length xs \<Longrightarrow> length (write_slice k new xs) = length xs"
  by (simp add: write_slice_def)

lemma length_fold_write_slice:
  assumes "\<forall>i<n. length (c i) = k" "m \<le> n"
  shows "length (fold (\<lambda>i. write_slice (i * k) (c i)) [0..<m] (replicate (n * k) d)) = n * k"
  using assms(2)
proof (induction m)
  case (Suc m)
  have "m * k + k \<le> n * k"
    using Suc.prems by (metis add.commute mult_Suc mult_le_mono1)
  with Suc assms(1) show ?case by simp
qed simp

lemma fold_enumerate:
  "fold f (zip [0..<length xs] xs) s = fold (\<lambda>i. f (i, xs ! i)) [0..<length xs] s"
proof -
  have "zip [0..<length xs] xs = map (\<lambda>i. (i, xs ! i)) [0..<length xs]"
    by (rule nth_equalityI) auto
  then show ?thesis by (simp add: fold_map o_def)
qed

definition shift_edge :: "nat \<Rightarrow> nat \<times> nat \<Rightarrow> nat \<times> nat" where
  "shift_edge k e = (k + fst e, k + snd e)"

lemma write_pydata_chunk_slices:
  assumes "i * length tv + length tv \<le> length vs" "i * length de + length de \<le> length es"
    and "i * length df + length df \<le> length fs"
  shows "write_pydata_chunk i tv de df (vs, es, fs) =
     (write_slice (i * length tv) tv vs,
      write_slice (i * length de) (map (shift_edge (i * length tv)) de) es,
      write_slice (i * length df) (map (map (\<lambda>a. i * length tv + a)) df) fs)"
proof -
  have "fold (\<lambda>j xs. xs[i * length de + j := shift_edge (i * length tv) (de ! j)]) [0..<length de] es =
      write_slice (i * length de) (map (shift_edge (i * length tv)) de) es"
    "fold (\<lambda>j xs. xs[i * length df + j := map (\<lambda>a. i * length tv + a) (df ! j)]) [0..<length df] fs =
      write_slice (i * length df) (map (map (\<lambda>a. i * length tv + a)) df) fs"
    using fold_slice [OF assms(2), of "\<lambda>j. shift_edge (i * length tv) (de ! j)"]
      fold_slice [OF assms(3), of "\<lambda>j. map (\<lambda>a. i * length tv + a) (df ! j)"]
    by (simp_all add: write_slice_def map_upt_nth)
  then show ?thesis
    using fold_slice_write [OF assms(1)] by (simp add: write_pydata_chunk_def Let_def shift_edge_def)
qed

text \<open>The two instancers' lists: every instance's transformed mesh, one after the other.\<close>

lemma calc_mesh_data_eq:
  assumes "generator_generate g = (dv, de, df)"
  shows "calc_mesh_data g ms =
     (concat (map (\<lambda>i. map (mat_apply (ms ! i)) dv) [0..<length ms]),
      concat (map (\<lambda>i. map (shift_edge (i * length dv)) de) [0..<length ms]),
      concat (map (\<lambda>i. map (map (\<lambda>a. i * length dv + a)) df) [0..<length ms]))"
proof -
  let ?n = "length ms"
  define cv where "cv i = map (mat_apply (ms ! i)) dv" for i
  define ce where "ce i = map (shift_edge (i * length dv)) de" for i
  define cf where "cf i = map (map (\<lambda>a. i * length dv + a)) df" for i
  let ?V = "\<lambda>m. fold (\<lambda>i. write_slice (i * length dv) (cv i)) [0..<m] (replicate (?n * length dv) (0, 0, 0))"
  let ?E = "\<lambda>m. fold (\<lambda>i. write_slice (i * length de) (ce i)) [0..<m] (replicate (?n * length de) (0, 0))"
  let ?F = "\<lambda>m. fold (\<lambda>i. write_slice (i * length df) (cf i)) [0..<m] (replicate (?n * length df) [])"
  have lens: "\<forall>i<?n. length (cv i) = length dv" "\<forall>i<?n. length (ce i) = length de"
      "\<forall>i<?n. length (cf i) = length df"
    by (simp_all add: cv_def ce_def cf_def)
  have "fold (\<lambda>i. write_pydata_chunk i (cv i) de df) [0..<m]
      (replicate (?n * length dv) (0, 0, 0), replicate (?n * length de) (0, 0), replicate (?n * length df) [])
      = (?V m, ?E m, ?F m)" if "m \<le> ?n" for m
    using that
  proof (induction m)
    case (Suc m)
    have "m * k + k \<le> ?n * k" for k
      using Suc.prems by (metis add.commute mult_Suc mult_le_mono1)
    moreover have "length (?V m) = ?n * length dv" "length (?E m) = ?n * length de" "length (?F m) = ?n * length df"
      using Suc.prems lens by (intro length_fold_write_slice; simp)+
    ultimately have "write_pydata_chunk m (cv m) de df (?V m, ?E m, ?F m) =
        (write_slice (m * length dv) (cv m) (?V m), write_slice (m * length de) (ce m) (?E m),
         write_slice (m * length df) (cf m) (?F m))"
      by (subst write_pydata_chunk_slices) (simp_all add: cv_def ce_def cf_def)
    with Suc show ?case by simp
  qed simp
  from this [of ?n] show ?thesis
    using write_slices [OF lens(1), of "(0, 0, 0)"] write_slices [OF lens(2), of "(0, 0)"]
      write_slices [OF lens(3), of "[]"]
    by (simp add: calc_mesh_data_def assms fold_enumerate Let_def cv_def ce_def cf_def)
qed

lemma fold_pair: "fold (\<lambda>i (x, y). (f i x, g i y)) is (a, b) = (fold f is a, fold g is b)"
  by (induction "is" arbitrary: a b) simp_all

lemma calc_mesh_eq:
  assumes "generator_generate g = (dv, de, df)" "me_triangulate me (dv, df) = (gv, gf)"
  shows "calc_mesh me g ms =
     (concat (map (\<lambda>i. map (mat_apply (ms ! i)) gv) [0..<length ms]),
      concat (map (\<lambda>i. map (map (\<lambda>a. a + i * length gv)) gf) [0..<length ms]))"
proof -
  have lens: "\<forall>i<length ms. length (map (mat_apply (ms ! i)) gv) = length gv"
      "\<forall>i<length ms. length (map (map (\<lambda>a. a + i * length gv)) gf) = length gf"
    by simp_all
  show ?thesis
    using write_slices [OF lens(1), of "(0, 0, 0)"] write_slices [OF lens(2), of "[0, 0, 0]"]
    by (simp add: calc_mesh_def assms fold_enumerate fold_pair)
qed

section \<open>Colours and the two instancers compared\<close>

definition rgb255 :: "int \<times> int \<times> int \<Rightarrow> v4" where
  "rgb255 c = (case c of (r, g, b) \<Rightarrow> (real_of_int r / 255, real_of_int g / 255, real_of_int b / 255, 1))"

lemma mapE_append:
  "mapE f xs = Inr ys \<Longrightarrow> mapE f zs = Inr ws \<Longrightarrow> mapE f (xs @ zs) = Inr (ys @ ws)"
  by (induction xs arbitrary: ys) (auto simp: bindE_eq_Inr)

text \<open>Every loop of instance \<open>i\<close> gets the colour of point \<open>i\<close>.\<close>

lemma make_vcols_eq:
  assumes df: "faces_in n df" and n: "0 < n"
    and fs: "fs = concat (map (\<lambda>i. map (map (\<lambda>a. i * n + a)) df) [0..<length ps])"
    and loops: "concat fs \<noteq> []"
  shows "make_vcols n ps fs =
     Inr (Some (concat (map (\<lambda>p. replicate (length (concat df)) (rgb255 (snd (snd p)))) ps)))"
proof -
  let ?colors = "map (\<lambda>(_, _, r, g, b). (real_of_int r / 255, real_of_int g / 255, real_of_int b / 255)) ps"
  let ?f = "\<lambda>vi. bindE (py_get ?colors (int (vi div n))) (\<lambda>(r, g, b). Inr (r, g, b, 1))"
  have one: "mapE ?f (concat (map (map (\<lambda>a. i * n + a)) df)) =
      Inr (replicate (length (concat df)) (rgb255 (snd (snd (ps ! i)))))" if i: "i < length ps" for i
  proof -
    have "?f vi = Inr (rgb255 (snd (snd (ps ! i))))"
      if vi: "vi \<in> set (concat (map (map (\<lambda>a. i * n + a)) df))" for vi
    proof -
      obtain a where "vi = i * n + a" "a < n"
        using vi df by (auto simp: faces_in_def)
      then have "vi div n = i" using n by simp
      then show ?thesis
        using i by (simp add: rgb255_def split: prod.splits)
    qed
    then have "mapE ?f (concat (map (map (\<lambda>a. i * n + a)) df)) =
        Inr (map (\<lambda>_. rgb255 (snd (snd (ps ! i)))) (concat (map (map (\<lambda>a. i * n + a)) df)))"
      by (intro mapE_Inr) blast
    then show ?thesis
      by (simp add: map_replicate_const length_concat o_def)
  qed
  have "mapE ?f (concat (concat (map (\<lambda>i. map (map (\<lambda>a. i * n + a)) df) [0..<m]))) =
      Inr (concat (map (\<lambda>i. replicate (length (concat df)) (rgb255 (snd (snd (ps ! i))))) [0..<m]))"
    if "m \<le> length ps" for m
    using that
  proof (induction m)
    case (Suc m)
    then show ?case using mapE_append [OF _ one [of m]] by simp
  qed simp
  from this [of "length ps"] show ?thesis
    unfolding make_vcols_def Let_def fs [symmetric]
    using loops by (simp add: map_upt_nth [of "\<lambda>p. replicate (length (concat df)) (rgb255 (snd (snd p)))"])
qed

lemma generator_facts:
  assumes "generator_generate g = (dv, de, df)"
  shows "de = []" "faces_in (length dv) df" "0 < length dv"
    "mg_type g \<in> set mesh_types \<Longrightarrow> mg_type g \<noteq> ''VERTEX'' \<Longrightarrow> concat df \<noteq> []"
proof -
  have "faces_in 3 [[0, 2, 1]]" by code_simp
  moreover have "concat icosphere_faces1 \<noteq> []" "concat icosphere_faces2 \<noteq> []"
    by (simp_all add: icosphere_faces1_def icosphere_faces2_def)
  moreover have "faces_in n []" for n by (simp add: faces_in_def)
  ultimately show "de = []" "faces_in (length dv) df" "0 < length dv"
    "mg_type g \<in> set mesh_types \<Longrightarrow> mg_type g \<noteq> ''VERTEX'' \<Longrightarrow> concat df \<noteq> []"
    using assms solids_in icosphere_lengths
    unfolding generator_generate_def Let_def triangle_coords
    by (auto simp: mesh_types_def numeral_3_eq_3 [symmetric] simp del: One_nat_def split: if_splits)
qed

text \<open>The points \<open>convert\<close> makes of the arrays carry their colours cut to 8 bit.\<close>

definition color255 :: "v4 \<Rightarrow> int \<times> int \<times> int" where
  "color255 c = (case c of (r, g, b, _) \<Rightarrow> (py_int (255 * r), py_int (255 * g), py_int (255 * b)))"

definition quantised :: "v4 \<Rightarrow> v4" where
  "quantised c = rgb255 (color255 c)"

lemma instancers_agree:
  assumes g: "generator_generate g = (dv, de, df)" "concat df \<noteq> []"
    and tri: "me_triangulate me (dv, df) = (dv, df)" "\<forall>f\<in>set df. length f = 3"
    and len: "length ns = length vs" "length cs = length vs" "vs \<noteq> []"
    and inv: "bl_inverted bl (mat_scale (me_scale me mx)) = Inr osm"
  shows "\<exists>o1 o2 cols.
     PCMeshInstancer bl me nm (zip vs (zip ns (map color255 cs))) g mx s align True = Inr o1 \<and>
     PCMeshInstancer2 bl me nm vs (Some ns) (Some cs) g mx s align True = Inr o2 \<and>
     mo_verts o1 = mo_verts o2 \<and> mo_edges o1 = mo_edges o2 \<and> mo_faces o1 = mo_faces o2 \<and>
     mo_matrix o1 = mo_matrix o2 \<and> mo_cols o2 = Some cols \<and> mo_cols o1 = Some (map quantised cols)"
proof -
  let ?ps = "zip vs (zip ns (map color255 cs))"
  let ?ms = "map (instance_matrix me align s osm) (zip vs ns)"
  have [simp]: "length (zip vs ns) = length vs" "length ?ps = length vs" "length ?ms = length vs"
    using len by simp_all
  have ps: "map (\<lambda>(v, n, _). (v, n)) ?ps = zip vs ns"
    using len by (intro nth_equalityI) (auto simp: split_beta)
  have fl: "length (concat df) = length df * 3"
    using tri(2) by (induction df) auto
  let ?fs = "concat (map (\<lambda>i. map (map (\<lambda>a. i * length dv + a)) df) [0..<length ?ps])"
  have "concat ?fs \<noteq> []"
  proof -
    have "\<exists>f\<in>set df. f \<noteq> []" using g(2) by auto
    moreover have "0 \<in> set [0..<length ?ps]" using len by simp
    ultimately show ?thesis by (fastforce simp: len simp del: set_upt)
  qed
  then have vc: "make_vcols (length dv) ?ps ?fs =
      Inr (Some (concat (map (\<lambda>p. replicate (length (concat df)) (rgb255 (snd (snd p)))) ?ps)))"
    using generator_facts(2,3) [OF g(1)] by (intro make_vcols_eq) simp_all
  have "map (\<lambda>p. replicate (length (concat df)) (rgb255 (snd (snd p)))) ?ps =
      map (\<lambda>c. replicate (length df * 3) (quantised c)) cs"
    using len unfolding fl by (intro nth_equalityI) (auto simp: quantised_def)
  then have cols: "concat (map (\<lambda>p. replicate (length (concat df)) (rgb255 (snd (snd p)))) ?ps) =
      map quantised (make_colors (length df) cs)"
    by (simp add: make_colors_def map_concat o_def)
  have "PCMeshInstancer bl me nm ?ps g mx s align True = Inr \<lparr>mo_name = nm,
      mo_verts = fst (calc_mesh_data g ?ms), mo_edges = fst (snd (calc_mesh_data g ?ms)),
      mo_faces = snd (snd (calc_mesh_data g ?ms)),
      mo_cols = Some (map quantised (make_colors (length df) cs)), mo_matrix = mx\<rparr>"
    using vc unfolding PCMeshInstancer_def calc_matrices_def inv ps cols [symmetric]
    by (simp add: calc_mesh_data_eq [OF g(1)] g(1) len)
  moreover have "PCMeshInstancer2 bl me nm vs (Some ns) (Some cs) g mx s align True = Inr \<lparr>mo_name = nm,
      mo_verts = fst (calc_mesh me g ?ms), mo_edges = [], mo_faces = snd (calc_mesh me g ?ms),
      mo_cols = Some (make_colors (length df) cs), mo_matrix = mx\<rparr>"
    using len unfolding PCMeshInstancer2_def calc_matrices_def inv Let_def
    by (simp add: g(1) tri(1) split_beta len)
  ultimately show ?thesis
    using generator_facts(1) [OF g(1)]
    by (simp add: calc_mesh_data_eq [OF g(1)] calc_mesh_eq [OF g(1) tri(1)] add.commute len)
qed

end
