(* ===== verification/PCV_UV_Facts.thy ===== *)
theory PCV_UV_Facts
  imports PCV_Mesh_Facts
begin

text \<open>
  The UV layout of \<open>PCInstancer\<close>: the loop's three counters are quotients and remainders of
  the face number, all coordinates are in the unit square, and the triangles of different
  faces do not overlap. Then the matrices of the instances, baking, and the progress meter.
\<close>

section \<open>The counters\<close>

definition uv_tri :: "nat \<Rightarrow> nat \<Rightarrow> (real \<times> real) list" where
  "uv_tri side k =
     tri_uv (k mod 4) (real (k div 4 mod side) * (1 / real side)) (real (k div 4 div side) * (1 / real side))
       (1 / real side)"

lemma cell_step:
  assumes "x < side" "c < (4::nat)" "k = 4 * (y * side + x) + c"
  shows "k mod 4 = c" "k div 4 mod side = x" "k div 4 div side = y"
proof -
  have "k mod 4 = c" "k div 4 = y * side + x"
    unfolding assms(3) using assms(2) by (simp_all only: mod_mult_self4 div_mult_self4) simp_all
  then show "k mod 4 = c" "k div 4 mod side = x" "k div 4 div side = y"
    using assms(1) by simp_all
qed

lemma length_tri_uv [simp]: "i < 3 \<Longrightarrow> length (tri_uv i x y q) = 3"
  by (auto simp: tri_uv_def)

lemma take_tri_uv: "take 3 (tri_uv i x y q) = tri_uv i x y q"
  by (simp add: tri_uv_def)

lemma uv_loop_eq:
  assumes "\<forall>f\<in>set fs. length f = 3" "x < side" "c < 4" "k = 4 * (y * side + x) + c"
  shows "uv_loop side (1 / real side) c x y fs = Inr (map (\<lambda>j. uv_tri side (k + j)) [0..<length fs])"
  using assms
proof (induction fs arbitrary: c x y k)
  case (Cons f fs)
  have here: "take (length f) (tri_uv c (real x * (1 / real side)) (real y * (1 / real side)) (1 / real side)) =
      uv_tri side k"
    using Cons.prems(1) by (simp add: uv_tri_def cell_step [OF Cons.prems(2-4)] take_tri_uv)
  have upt: "map (\<lambda>j. uv_tri side (k + j)) [0..<length (f # fs)] =
      uv_tri side k # map (\<lambda>j. uv_tri side (Suc k + j)) [0..<length fs]"
    by (simp add: upt_conv_Cons map_Suc_upt [symmetric] o_def del: upt_Suc)
  note IH = Cons.IH [where k = "Suc k"]
  have step: "uv_loop side (1 / real side) c' x' y' fs = Inr (map (\<lambda>j. uv_tri side (Suc k + j)) [0..<length fs])"
    if "(c', x', y') = (if c + 1 = 4 then (if x + 1 = side then (0, 0, y + 1) else (0, x + 1, y)) else (c + 1, x, y))"
    for c' x' y'
  proof (rule IH)
    show "\<forall>f\<in>set fs. length f = 3" using Cons.prems(1) by simp
    show "x' < side" "c' < 4" "Suc k = 4 * (y' * side + x') + c'"
      using that Cons.prems(2-4) by (auto split: if_splits)
  qed
  show ?case
    using Cons.prems(1) here upt step [of "c + 1" x y] step [of 0 0 "y + 1"] step [of 0 "x + 1" y]
    by (simp add: Let_def del: upt_Suc)
qed simp

lemma side_squared:
  assumes "0 < n"
  shows "0 < sq_per_uv_side n" "n \<le> 4 * (sq_per_uv_side n)\<^sup>2"
proof -
  define m where "m = \<lceil>real n / 4\<rceil>"
  define s where "s = sqrt (real_of_int m)"
  have m: "1 \<le> m" "real n / 4 \<le> real_of_int m"
    using assms unfolding m_def by (simp_all add: le_of_int_ceiling)
  have s: "0 < s" "s\<^sup>2 = real_of_int m"
    using m(1) by (simp_all add: s_def)
  then have c: "0 < \<lceil>s\<rceil>" by simp
  have side: "sq_per_uv_side n = nat \<lceil>s\<rceil>"
    by (simp add: sq_per_uv_side_def s_def m_def)
  show pos: "0 < sq_per_uv_side n"
    using c side by simp
  have "s \<le> real (sq_per_uv_side n)"
    using c side by (simp add: of_nat_nat)
  then have "s\<^sup>2 \<le> (real (sq_per_uv_side n))\<^sup>2"
    using s(1) by (intro power_mono) simp_all
  then have "real n \<le> 4 * (real (sq_per_uv_side n))\<^sup>2"
    using m(2) s(2) by linarith
  then have "real n \<le> real (4 * (sq_per_uv_side n)\<^sup>2)"
    by simp
  then show "n \<le> 4 * (sq_per_uv_side n)\<^sup>2"
    by (simp only: of_nat_le_iff)
qed

lemma uv_layout_eq:
  assumes "\<forall>f\<in>set faces. length f = 3" "faces \<noteq> []"
  shows "uv_layout faces = Inr (map (uv_tri (sq_per_uv_side (length faces))) [0..<length faces])"
proof -
  have side: "0 < sq_per_uv_side (length faces)"
    using side_squared(1) [of "length faces"] assms(2) by simp
  then show ?thesis
    using uv_loop_eq [OF assms(1) side, of 0 0 0] by (simp add: uv_layout_def Let_def)
qed

text \<open>Without faces the number of squares per side is zero.\<close>

lemma uv_layout_empty: "uv_layout [] = Inl ZeroDivisionError"
  by (simp add: uv_layout_def sq_per_uv_side_def)

section \<open>No overlap\<close>

text \<open>The points strictly inside a triangle.\<close>

definition inside :: "(real \<times> real) list \<Rightarrow> real \<times> real \<Rightarrow> bool" where
  "inside t p \<longleftrightarrow>
     (\<exists>a b c. 0 < a \<and> 0 < b \<and> 0 < c \<and> a + b + c = 1 \<and> length t = 3 \<and>
        fst p = a * fst (t ! 0) + b * fst (t ! 1) + c * fst (t ! 2) \<and>
        snd p = a * snd (t ! 0) + b * snd (t ! 1) + c * snd (t ! 2))"

text \<open>Which of the four triangles of a unit square a point is in.\<close>

definition quadrant :: "nat \<Rightarrow> real \<Rightarrow> real \<Rightarrow> bool" where
  "quadrant i u v \<longleftrightarrow> 0 < u \<and> u < 1 \<and> 0 < v \<and> v < 1 \<and>
     (if i = 0 then v < u \<and> v < 1 - u else if i = 1 then v < u \<and> 1 - u < v
      else if i = 2 then u < v \<and> 1 - u < v else u < v \<and> v < 1 - u)"

lemma quadrant_unique: "quadrant i u v \<Longrightarrow> quadrant j u v \<Longrightarrow> i < 4 \<Longrightarrow> j < 4 \<Longrightarrow> i = j"
  by (auto simp: quadrant_def split: if_splits)

lemma quadrant_weights:
  assumes "0 < a" "0 < b" "0 < c" "a + b + c = 1"
  shows "quadrant 0 (b + c / 2) (c / 2)" "quadrant 1 (a + b + c / 2) (b + c / 2)"
    "quadrant 2 (a + c / 2) (a + b + c / 2)" "3 \<le> i \<Longrightarrow> quadrant i (c / 2) (a + c / 2)"
  using assms by (auto simp: quadrant_def)

lemma inside_tri_uv:
  assumes "inside (tri_uv i (x * q) (y * q) q) p"
  shows "\<exists>u v. quadrant i u v \<and> fst p = (x + u) * q \<and> snd p = (y + v) * q"
proof -
  obtain a b c where abc: "0 < a" "0 < b" "0 < c" "a + b + c = 1"
    and p: "fst p = a * fst (tri_uv i (x * q) (y * q) q ! 0) + b * fst (tri_uv i (x * q) (y * q) q ! 1) +
        c * fst (tri_uv i (x * q) (y * q) q ! 2)"
      "snd p = a * snd (tri_uv i (x * q) (y * q) q ! 0) + b * snd (tri_uv i (x * q) (y * q) q ! 1) +
        c * snd (tri_uv i (x * q) (y * q) q ! 2)"
    using assms by (auto simp: inside_def)
  have c: "c = 1 - a - b" using abc(4) by simp
  have ex: ?thesis if "quadrant i u v" "fst p = (x + u) * q" "snd p = (y + v) * q" for u v
    using that by blast
  consider "i = 0" | "i = 1" | "i = 2" | "3 \<le> i" by linarith
  then show ?thesis
  proof cases
    case 1
    show ?thesis
      by (rule ex [of "b + c / 2" "c / 2"], unfold p 1, rule quadrant_weights(1) [OF abc])
        (simp_all add: tri_uv_def c algebra_simps)
  next
    case 2
    show ?thesis
      by (rule ex [of "a + b + c / 2" "b + c / 2"], unfold p 2, rule quadrant_weights(2) [OF abc])
        (simp_all add: tri_uv_def c algebra_simps)
  next
    case 3
    show ?thesis
      by (rule ex [of "a + c / 2" "a + b + c / 2"], unfold p 3, rule quadrant_weights(3) [OF abc])
        (simp_all add: tri_uv_def c algebra_simps)
  next
    case 4
    then have t: "tri_uv i (x * q) (y * q) q =
        [(x * q + 0 * q, y * q + 1 * q), (x * q + 0 * q, y * q + 0 * q), (x * q + 1 / 2 * q, y * q + 1 / 2 * q)]"
      by (simp add: tri_uv_def)
    show ?thesis
      by (rule ex [of "c / 2" "a + c / 2"], rule quadrant_weights(4) [OF abc 4], unfold p t)
        (simp_all add: c algebra_simps)
  qed
qed

lemma same_cell:
  assumes "(real x + u) * q = (real y + v) * q" "0 < q" "0 < u" "u < 1" "0 < v" "v < 1"
  shows "x = y" "u = v"
proof -
  have eq: "real x + u = real y + v" using assms(1,2) by simp
  then have "real x < real y + 1" "real y < real x + 1" using assms(3-6) by linarith+
  then have "x < y + 1" "y < x + 1" by linarith+
  then show "x = y" by simp
  then show "u = v" using eq by simp
qed

lemma uv_tri_disjoint:
  assumes "0 < side" "inside (uv_tri side j) p" "inside (uv_tri side k) p"
  shows "j = k"
proof -
  let ?q = "1 / real side"
  have q: "0 < ?q" using assms(1) by simp
  obtain u v where j: "quadrant (j mod 4) u v" "fst p = (real (j div 4 mod side) + u) * ?q"
      "snd p = (real (j div 4 div side) + v) * ?q"
    using inside_tri_uv assms(2) unfolding uv_tri_def by blast
  obtain u' v' where k: "quadrant (k mod 4) u' v'" "fst p = (real (k div 4 mod side) + u') * ?q"
      "snd p = (real (k div 4 div side) + v') * ?q"
    using inside_tri_uv assms(3) unfolding uv_tri_def by blast
  have b: "0 < u" "u < 1" "0 < v" "v < 1" "0 < u'" "u' < 1" "0 < v'" "v' < 1"
    using j(1) k(1) by (simp_all add: quadrant_def)
  have x: "j div 4 mod side = k div 4 mod side" "u = u'"
    using same_cell [of "j div 4 mod side" u ?q "k div 4 mod side" u'] j(2) k(2) q b by simp_all
  have y: "j div 4 div side = k div 4 div side" "v = v'"
    using same_cell [of "j div 4 div side" v ?q "k div 4 div side" v'] j(3) k(3) q b by simp_all
  have "j mod 4 = k mod 4"
    using quadrant_unique j(1) k(1) x(2) y(2) by simp
  moreover have "j div 4 = k div 4"
    using x(1) y(1) by (metis div_mult_mod_eq)
  ultimately show ?thesis
    by (metis div_mult_mod_eq)
qed

text \<open>All corners are in the unit square.\<close>

lemma tri_uv_range:
  assumes "(a, b) \<in> set (tri_uv i x y q)" "0 < q"
  shows "x \<le> a" "a \<le> x + q" "y \<le> b" "b \<le> y + q"
  using assms by (auto simp: tri_uv_def split: if_splits)

lemma uv_tri_unit:
  assumes "n \<le> 4 * side\<^sup>2" "0 < side" "k < n" "(a, b) \<in> set (uv_tri side k)"
  shows "0 \<le> a \<and> a \<le> 1 \<and> 0 \<le> b \<and> b \<le> 1"
proof -
  let ?q = "1 / real side"
  have "k div 4 < side * side"
    using assms(1,3) by (simp add: power2_eq_square)
  then have "k div 4 div side < side"
    using assms(2) by (simp add: less_mult_imp_div_less)
  moreover have "k div 4 mod side < side" using assms(2) by simp
  moreover have "real i * ?q + ?q \<le> 1" if "i < side" for i
  proof -
    have "real i + 1 \<le> real side" using that by linarith
    then have "(real i + 1) / real side \<le> 1" using assms(2) by simp
    then show ?thesis by (simp add: add_divide_distrib)
  qed
  ultimately have "real (k div 4 div side) * ?q + ?q \<le> 1" "real (k div 4 mod side) * ?q + ?q \<le> 1"
    by blast+
  moreover have "0 \<le> real (k div 4 div side) * ?q" "0 \<le> real (k div 4 mod side) * ?q"
    by simp_all
  moreover have "0 < ?q" using assms(2) by simp
  ultimately show ?thesis
    using tri_uv_range [OF assms(4) [unfolded uv_tri_def]] by linarith
qed

section \<open>The matrices of the instances\<close>

definition affine :: "mat4 \<Rightarrow> bool" where
  "affine m \<longleftrightarrow> length m = 4 \<and> m ! 3 = (0, 0, 0, 1)"

lemma mat_apply_mul:
  assumes "3 \<le> length a" "b ! 3 = (0, 0, 0, 1)"
  shows "mat_apply (mat_mul a b) v = mat_apply a (mat_apply b v)"
proof -
  obtain x y z where v: "v = (x, y, z)" by (cases v)
  have row: "mat_row (v4_add (v4_scale p (b ! 0)) (v4_add (v4_scale q (b ! 1))
      (v4_add (v4_scale r (b ! 2)) (v4_scale s (b ! 3))))) v = mat_row (p, q, r, s) (mat_apply b v)" for p q r s
    by (cases "b ! 0"; cases "b ! 1"; cases "b ! 2")
      (simp add: mat_row_def mat_apply_def v4_add_def v4_scale_def assms(2) v algebra_simps)
  have "mat_row (mat_mul a b ! i) v = mat_row (a ! i) (mat_apply b v)" if "i < 3" for i
    using assms(1) that row by (cases "a ! i") (simp add: mat_mul_def)
  then show ?thesis by (simp add: mat_apply_def)
qed

lemma mat_apply_basic [simp]:
  "mat_apply mat_identity v = v" "mat_apply (mat_translation u) v = v3_add u v"
  "mat_apply (mat_scale (k, k, k)) v = v3_scale k v"
  by (cases v; cases u; simp add: mat_apply_def mat_row_def mat_identity_def mat_translation_def mat_scale_def
      v3_add_def v3_scale_def)+

lemma affine_basic [simp]: "affine mat_identity" "affine (mat_translation u)" "affine (mat_scale u)"
  by (cases u; simp add: affine_def mat_identity_def mat_translation_def mat_scale_def)+

lemma length_mat_mul [simp]: "length (mat_mul a b) = length a"
  by (simp add: mat_mul_def)

text \<open>
  What mathutils documents: a unit quaternion's matrix is affine and turns vectors like the
  quaternion, and \<open>half_turns\<close>. \<open>rotation_to\<close> always makes a unit quaternion.
\<close>

definition unit_quat :: "quat \<Rightarrow> bool" where
  "unit_quat q \<longleftrightarrow> (case q of (w, x, y, z) \<Rightarrow> w\<^sup>2 + x\<^sup>2 + y\<^sup>2 + z\<^sup>2 = 1)"

definition quat_matrix_ok :: "mesh_env \<Rightarrow> bool" where
  "quat_matrix_ok me \<longleftrightarrow> half_turns me \<and>
     (\<forall>q. unit_quat q \<longrightarrow> affine (me_quat_matrix me q) \<and>
        (\<forall>v. mat_apply (me_quat_matrix me q) v = quat_rotate q v))"

lemma unit_quat_normalized: "unit_quat (quat_normalized q)"
proof -
  obtain w x y z where q: "q = (w, x, y, z)" by (cases q)
  define m where "m = w\<^sup>2 + x\<^sup>2 + y\<^sup>2 + z\<^sup>2"
  have m0: "0 \<le> m" by (simp add: m_def)
  show ?thesis
  proof (cases "m = 0")
    case True
    then show ?thesis by (simp add: quat_normalized_def q m_def [symmetric] Let_def unit_quat_def)
  next
    case False
    then have sq: "(sqrt m)\<^sup>2 = m" "sqrt m \<noteq> 0" using m0 by simp_all
    then have "(w / sqrt m)\<^sup>2 + (x / sqrt m)\<^sup>2 + (y / sqrt m)\<^sup>2 + (z / sqrt m)\<^sup>2 =
        (w\<^sup>2 + x\<^sup>2 + y\<^sup>2 + z\<^sup>2) / m"
      by (simp only: power_divide add_divide_distrib)
    also have "\<dots> = 1" using False by (simp add: m_def)
    finally show ?thesis
      using sq(2) by (simp add: quat_normalized_def q m_def [symmetric] Let_def unit_quat_def del: real_sqrt_eq_zero_cancel_iff)
  qed
qed

lemma rotation_to_unit:
  assumes "half_turns me"
  shows "unit_quat (rotation_to me (0, 0, 1) n)"
proof -
  have axis: "v3_cross (1, 0, 0) (0, 0, 1) = (0, - 1, 0)" "v3_length (0, - 1, 0) = 1"
    "v3_normalized (0, - 1, 0) = (0, - 1, 0)"
    by (simp_all add: v3_cross_def v3_length_def v3_dot_def v3_normalized_def v3_scale_def)
  have half: "me_axis_angle me (0, - 1, 0) pi = (0, 0, - 1, 0)"
    using assms by (simp add: half_turns_def)
  show ?thesis
    unfolding rotation_to_def unit_z Let_def axis
    using unit_quat_normalized by (simp add: axis half unit_quat_def split: prod.splits)
qed

definition placed :: "mesh_env \<Rightarrow> bool \<Rightarrow> real \<Rightarrow> v3 \<times> v3 \<Rightarrow> v3 \<Rightarrow> v3" where
  "placed me align s p q =
     v3_add (fst p) (if align then quat_rotate (rotation_to me (0, 0, 1) (snd p)) (v3_scale s q) else v3_scale s q)"

lemma instance_matrix_apply:
  assumes "quat_matrix_ok me" "affine osm" "\<And>v. mat_apply osm v = v"
  shows "mat_apply (instance_matrix me align s osm p) q = placed me align s p q"
proof -
  let ?r = "if align then me_quat_matrix me (rotation_to me (0, 0, 1) (snd p)) else mat_identity"
  have u: "unit_quat (rotation_to me (0, 0, 1) (snd p))"
    using assms(1) rotation_to_unit by (simp add: quat_matrix_ok_def)
  then have r: "affine ?r" "mat_apply ?r v = (if align then quat_rotate (rotation_to me (0, 0, 1) (snd p)) v else v)" for v
    using conjunct2 [OF assms(1) [unfolded quat_matrix_ok_def], rule_format, OF u] by (simp_all del: split_paired_All)
  have s: "mat_scale (s, s, s) ! 3 = (0, 0, 0, 1)" "length (mat_translation (fst p)) = 4" "osm ! 3 = (0, 0, 0, 1)"
    using affine_basic(2) [of "fst p"] assms(2) by (simp_all add: affine_def mat_scale_def)
  have "mat_apply (instance_matrix me align s osm p) q =
      v3_add (fst p) (mat_apply ?r (v3_scale s q))"
    using r s by (simp add: instance_matrix_def Let_def mat_apply_mul affine_def assms(3))
  then show ?thesis
    by (simp add: placed_def r(2))
qed

text \<open>The mesh of \<open>PCMeshInstancer\<close> is one scaled, turned and moved copy per point.\<close>

lemma instancer_copies:
  assumes me: "quat_matrix_ok me" and g: "generator_generate g = (dv, de, df)"
    and mx: "bl_inverted bl (mat_scale (me_scale me mx)) = Inr osm" "affine osm" "\<And>v. mat_apply osm v = v"
    and ok: "PCMeshInstancer bl me nm ps g mx s align vcols = Inr ob"
  shows "mo_verts ob = concat (map (\<lambda>(v, n, _). map (placed me align s (v, n)) dv) ps)"
    and "mo_faces ob = concat (map (\<lambda>i. map (map (\<lambda>a. i * length dv + a)) df) [0..<length ps])"
proof -
  let ?ms = "map (instance_matrix me align s osm) (map (\<lambda>(v, n, _). (v, n)) ps)"
  have ob: "mo_verts ob = fst (calc_mesh_data g ?ms)" "mo_faces ob = snd (snd (calc_mesh_data g ?ms))"
    using ok mx(1) by (auto simp: PCMeshInstancer_def calc_matrices_def bindE_eq_Inr split: prod.splits)
  have "mat_apply (instance_matrix me align s osm p) = placed me align s p" for p
    using instance_matrix_apply [OF me mx(2,3)] by (intro ext) blast
  moreover have "concat (map (\<lambda>i. map (mat_apply (?ms ! i)) dv) [0..<length ?ms]) =
      concat (map (\<lambda>m. map (mat_apply m) dv) ?ms)"
    by (rule arg_cong [where f = concat]) (rule map_upt_nth)
  ultimately show "mo_verts ob = concat (map (\<lambda>(v, n, _). map (placed me align s (v, n)) dv) ps)"
    unfolding ob calc_mesh_data_eq [OF g] by (simp add: o_def split_def)
  show "mo_faces ob = concat (map (\<lambda>i. map (map (\<lambda>a. i * length dv + a)) df) [0..<length ps])"
    unfolding ob calc_mesh_data_eq [OF g] by simp
qed

section \<open>Baking and progress\<close>

lemma bake_restores: "fst (bake_colors bake s) = Inr () \<Longrightarrow> snd (bake_colors bake s) = s"
  by (simp add: bake_colors_def Let_def split: sum.splits)

lemma bake_raises:
  "fst (bake_colors bake s) = Inl e \<Longrightarrow>
     bk_engine (snd (bake_colors bake s)) = ''CYCLES'' \<and> bk_margin (snd (bake_colors bake s)) = 0"
  by (auto simp: bake_colors_def Let_def split: sum.splits)

end
