(* ===== verification/PCV_Props_Mesh.thy ===== *)
theory PCV_Props_Mesh
  imports PCV_Examples PCV_UV_Facts
begin

text \<open>
  Properties of the generated meshes, of the copies the instancers make, and of the UV
  layout.
\<close>

text \<open>Every solid the generator makes is a closed, consistently oriented surface over its own
  vertices: each directed edge of a face occurs in exactly one face and its reverse in
  another, and no face uses a vertex number that does not exist.\<close>

theorem generated_solids_closed:
  assumes "mg_type g \<in> {''TETRAHEDRON'', ''CUBE'', ''ICOSPHERE''}" "generator_generate g = (vs, es, fs)"
  shows "closed_surface fs \<and> faces_in (length vs) fs"
proof -
  have "closed_surface fs"
    using assms solids_closed icospheres_closed
    by (auto simp: generator_generate_def Let_def split: if_splits)
  then show ?thesis using generator_facts(2) [OF assms(2)] by simp
qed

definition ex_generator :: "string \<Rightarrow> mesh_generator" where
  "ex_generator t = \<lparr>mg_type = t, mg_length = 1, mg_radius = 1, mg_subdivision = 2\<rparr>"

theorem generated_solids_closed_witness:
  "closed_surface icosphere_faces2 \<and> faces_in (length icosphere_verts2) icosphere_faces2"
  by (rule generated_solids_closed [of "ex_generator ''ICOSPHERE''"])
    (simp_all add: ex_generator_def generator_generate_def)

text \<open>The generated triangle and tetrahedron are equilateral with the requested edge length.\<close>

theorem generated_edges_equal:
  assumes "generator_generate g = (vs, es, fs)" "mg_type g \<in> {''TRIANGLE'', ''TETRAHEDRON''}"
    and "e \<in> set (mesh_edges fs)"
  shows "edge_length2 vs e = (mg_length g)\<^sup>2"
  by (rule equilateral [OF assms])

theorem generated_edges_equal_witness:
  "edge_length2 (fst (generator_generate (ex_generator ''TETRAHEDRON''))) (3, 2) = 1"
proof -
  obtain vs es fs where g: "generator_generate (ex_generator ''TETRAHEDRON'') = (vs, es, fs)"
    by (metis prod_cases3)
  then have "(3, 2) \<in> set (mesh_edges fs)"
    by (auto simp: generator_generate_def ex_generator_def Let_def mesh_edges_def face_edges_def)
  then show ?thesis
    using generated_edges_equal [OF g] g by (simp add: ex_generator_def)
qed

text \<open>Normal alignment: the rotation of an instance turns the z axis onto the point's normal,
  exactly so unless the normal is within the two polar caps, where it is off by less than
  0.0015.\<close>

theorem instance_faces_normal:
  assumes "half_turns me" "n \<noteq> (0, 0, 0)" "v3_normalized n = (x, y, z)"
    and "r = quat_rotate (rotation_to me (0, 0, 1) n) (0, 0, 1)"
  shows "v3_dot (v3_sub r (x, y, z)) (v3_sub r (x, y, z)) \<le> 0.000002 \<and>
     (- 0.999999 \<le> z \<and> z \<le> 0.999999 \<longrightarrow> r = (x, y, z))"
  using rotation_to_normal [OF assms] by blast

definition ex_mesh_env :: mesh_env where
  "ex_mesh_env = \<lparr>me_scale = (\<lambda>_. (1, 1, 1)),
     me_quat_matrix = (\<lambda>q. case q of (w, x, y, z) \<Rightarrow>
       [(1 - 2 * (y * y + z * z), 2 * (x * y - w * z), 2 * (x * z + w * y), 0),
        (2 * (x * y + w * z), 1 - 2 * (x * x + z * z), 2 * (y * z - w * x), 0),
        (2 * (x * z - w * y), 2 * (y * z + w * x), 1 - 2 * (x * x + y * y), 0), (0, 0, 0, 1)]),
     me_axis_angle = (\<lambda>(x, y, z) a. (0, x, y, z)), me_triangulate = id\<rparr>"

lemma ex_half_turns: "half_turns ex_mesh_env"
  by (simp add: half_turns_def ex_mesh_env_def)

lemma ex_quat_matrix_ok: "quat_matrix_ok ex_mesh_env"
  using ex_half_turns
  by (auto simp: quat_matrix_ok_def ex_mesh_env_def affine_def mat_apply_def mat_row_def quat_rotate_def
      v3_cross_def v3_scale_def v3_add_def algebra_simps)

theorem instance_faces_normal_witness:
  "quat_rotate (rotation_to ex_mesh_env (0, 0, 1) (3, 0, 0)) (0, 0, 1) = (1, 0, 0)"
proof -
  have n: "v3_normalized (3, 0, 0) = (1, 0, 0)"
    by (simp add: v3_normalized_def v3_length_def v3_dot_def v3_scale_def)
  show ?thesis
    using instance_faces_normal [OF ex_half_turns _ n refl] by simp
qed

text \<open>C28: The mesh of \<open>PCMeshInstancer\<close> is one copy of the generated mesh per point, scaled to the
  size, turned by the point's normal when alignment is asked for, and moved to its location;
  the copies' faces do not share vertices.\<close>

theorem instancer_makes_copies:
  assumes "quat_matrix_ok me" "generator_generate g = (dv, de, df)"
    and "bl_inverted bl (mat_scale (me_scale me mx)) = Inr osm" "affine osm" "\<And>v. mat_apply osm v = v"
    and "PCMeshInstancer bl me nm ps g mx s align vcols = Inr ob"
  shows "mo_verts ob = concat (map (\<lambda>(v, n, _). map (placed me align s (v, n)) dv) ps) \<and>
     mo_faces ob = concat (map (\<lambda>i. map (map (\<lambda>a. i * length dv + a)) df) [0..<length ps])"
  using instancer_copies [OF assms] by blast

theorem instancer_makes_copies_witness:
  "\<exists>ob. PCMeshInstancer ex_bl ex_mesh_env ''m'' [((5, 6, 7), (0, 0, 1), (255, 0, 0))]
       (ex_generator ''CUBE'') ex_identity 2 False False = Inr ob \<and>
     hd (mo_verts ob) = (6, 7, 6)"
proof -
  have inv: "bl_inverted ex_bl (mat_scale (me_scale ex_mesh_env ex_identity)) = Inr mat_identity"
    by (simp add: ex_bl_def ex_mesh_env_def mat_scale_def mat_identity_def)
  obtain dv de df where g: "generator_generate (ex_generator ''CUBE'') = (dv, de, df)"
    by (metis prod_cases3)
  have dv: "hd dv = (1 / 2, 1 / 2, - 1 / 2)" "dv \<noteq> []"
    using g by (auto simp: generator_generate_def ex_generator_def Let_def)
  have "\<exists>ob. PCMeshInstancer ex_bl ex_mesh_env ''m'' [((5, 6, 7), (0, 0, 1), (255, 0, 0))]
       (ex_generator ''CUBE'') ex_identity 2 False False = Inr ob"
    by (simp add: PCMeshInstancer_def calc_matrices_def inv split: prod.splits)
  then obtain ob where ob: "PCMeshInstancer ex_bl ex_mesh_env ''m'' [((5, 6, 7), (0, 0, 1), (255, 0, 0))]
       (ex_generator ''CUBE'') ex_identity 2 False False = Inr ob" ..
  from instancer_makes_copies [OF ex_quat_matrix_ok g inv affine_basic(1) mat_apply_basic(1) ob]
  have "mo_verts ob = map (placed ex_mesh_env False 2 ((5, 6, 7), (0, 0, 1))) dv" by simp
  then have "hd (mo_verts ob) = placed ex_mesh_env False 2 ((5, 6, 7), (0, 0, 1)) (hd dv)"
    using dv(2) by (simp add: hd_map)
  then show ?thesis
    using ob by (simp add: dv placed_def v3_add_def v3_scale_def)
qed



text \<open>The UV layout of a triangle mesh gives every face a triangle of its own in the unit
  square: all coordinates lie in it, and no point is strictly inside the triangles of two
  different faces.\<close>

theorem uv_triangles_disjoint:
  assumes "\<forall>f\<in>set faces. length f = 3" "faces \<noteq> []"
  shows "\<exists>uvs. uv_layout faces = Inr uvs \<and> length uvs = length faces \<and>
     (\<forall>t\<in>set uvs. \<forall>(a, b)\<in>set t. 0 \<le> a \<and> a \<le> 1 \<and> 0 \<le> b \<and> b \<le> 1) \<and>
     (\<forall>j k p. j < length faces \<and> k < length faces \<and> inside (uvs ! j) p \<and> inside (uvs ! k) p \<longrightarrow> j = k)"
proof -
  let ?s = "sq_per_uv_side (length faces)"
  have s: "0 < ?s" "length faces \<le> 4 * ?s\<^sup>2"
    using side_squared [of "length faces"] assms(2) by simp_all
  have "\<forall>t\<in>set (map (uv_tri ?s) [0..<length faces]). \<forall>(a, b)\<in>set t. 0 \<le> a \<and> a \<le> 1 \<and> 0 \<le> b \<and> b \<le> 1"
    using uv_tri_unit [OF s(2,1)] by fastforce
  then show ?thesis
    using uv_layout_eq [OF assms] uv_tri_disjoint [OF s(1)]
    by (intro exI [of _ "map (uv_tri ?s) [0..<length faces]"]) auto
qed

theorem uv_triangles_disjoint_witness:
  "\<exists>uvs. uv_layout (replicate 5 [0, 1, 2]) = Inr uvs \<and> length uvs = 5"
  using uv_triangles_disjoint [of "replicate 5 [0, 1, 2]"] by auto

text \<open>A successful bake puts every render setting back; one that raises leaves the engine and
  the bake settings changed.\<close>

theorem bake_settings_restored:
  "case bake_colors bake s of
     (Inr _, s') \<Rightarrow> s' = s
   | (Inl _, s') \<Rightarrow> bk_engine s' = ''CYCLES'' \<and> bk_margin s' = 0"
  using bake_restores [of bake s] bake_raises [of bake s] by (auto split: prod.splits sum.splits)

end
