(* ===== verification/PCV_Convert.thy ===== *)
theory PCV_Convert
  imports PCV_UV_Facts
begin

text \<open>
  Turning a cloud into a mesh object (\<open>PCV_OT_convert\<close>, with \<open>PCInstancer\<close> and
  \<open>PCParticles\<close>) and writing it to a PLY file (\<open>PCV_OT_export\<close>).
\<close>

section \<open>What conversion adds to the scene\<close>

text \<open>
  Materials are node trees: the nodes in the order they are made, the links between output
  and input sockets (node, socket), and the active node. An image is a name and a size.
\<close>

datatype shader_node =
    ShaderNodeAttribute "string option"
  | ShaderNodeBsdfDiffuse
  | ShaderNodeOutputMaterial
  | ShaderNodeTexCoord bool
  | ShaderNodeTexImage string

record material =
  mt_name :: string
  mt_nodes :: "shader_node list"
  mt_links :: "((nat \<times> nat) \<times> nat \<times> nat) list"
  mt_active :: "nat option"

text \<open>The material the colours are baked with, and that of the spheres.\<close>

definition bake_material :: "string option \<Rightarrow> string \<Rightarrow> material" where
  "bake_material vcols img =
     \<lparr>mt_name = ''PCParticlesBakeMaterial'',
      mt_nodes = [ShaderNodeAttribute vcols, ShaderNodeBsdfDiffuse, ShaderNodeOutputMaterial,
                  ShaderNodeTexCoord False, ShaderNodeTexImage img],
      mt_links = [((0, 0), 1, 0), ((1, 0), 2, 0), ((3, 2), 4, 0)], mt_active = Some 4\<rparr>"

definition sphere_material :: "string \<Rightarrow> material" where
  "sphere_material img =
     \<lparr>mt_name = ''PCParticlesMaterial'',
      mt_nodes = [ShaderNodeTexCoord True, ShaderNodeTexImage img, ShaderNodeBsdfDiffuse, ShaderNodeOutputMaterial],
      mt_links = [((0, 2), 1, 0), ((1, 0), 2, 0), ((2, 0), 3, 0)], mt_active = None\<rparr>"

text \<open>
  An object made by the conversion: its mesh, the UV layout, the image and the material its
  colours are baked with, the sphere that is instanced on it (subdivisions, radius, material),
  how it is instanced, whether it is rendered itself, and its particle settings.
\<close>

record converted =
  cv_object :: mesh_object
  cv_uvs :: "(real \<times> real) list list option"
  cv_image :: "(string \<times> nat \<times> nat) option"
  cv_materials :: "material list"
  cv_sphere :: "(int \<times> real \<times> material) option"
  cv_instance_type :: string
  cv_show_instancer :: bool
  cv_particles :: "particle_settings option"

record convert_state =
  cs_world :: world
  cs_bake :: bake_settings
  cs_objects :: "converted list"

text \<open>\<open>Mesh.transform\<close> and the assignment of \<open>matrix_world\<close>.\<close>

definition transform_mesh :: "mat4 \<Rightarrow> mat4 \<Rightarrow> mesh_object \<Rightarrow> mesh_object" where
  "transform_mesh mi m ob = ob\<lparr>mo_verts := map (mat_apply mi) (mo_verts ob), mo_matrix := m\<rparr>"

definition plain_object :: "mesh_object \<Rightarrow> converted" where
  "plain_object ob = \<lparr>cv_object = ob, cv_uvs = None, cv_image = None, cv_materials = [], cv_sphere = None,
                      cv_instance_type = ''NONE'', cv_show_instancer = True, cv_particles = None\<rparr>"

text \<open>Replacing the object that was added last.\<close>

definition upd_last :: "(converted \<Rightarrow> converted) \<Rightarrow> convert_state \<Rightarrow> convert_state" where
  "upd_last f st =
     (if cs_objects st = [] then st
      else st\<lparr>cs_objects := butlast (cs_objects st) @ [f (last (cs_objects st))]\<rparr>)"

text \<open>The active vertex colour layer; the one \<open>vertex_colors.new\<close> makes is called Col.\<close>

definition active_vcols :: "mesh_object \<Rightarrow> string option" where
  "active_vcols ob = map_option (\<lambda>_. ''Col'') (mo_cols ob)"

abbreviation baked_image :: string where
  "baked_image \<equiv> ''PCParticlesBakedColors''"

text \<open>The layout and the baking \<open>PCInstancer\<close> and \<open>PCParticles\<close> share.\<close>

definition layout_and_bake ::
    "(bake_settings \<Rightarrow> py_error + unit) \<Rightarrow> nat list list \<Rightarrow> convert_state \<Rightarrow> (py_error + unit) \<times> convert_state" where
  "layout_and_bake bake faces st =
     (case uv_layout faces of
        Inl e \<Rightarrow> (Inl e, st)
      | Inr uvs \<Rightarrow>
          (let tex_size = sq_per_uv_side (length faces) * 8;
               st1 = upd_last (\<lambda>c. c\<lparr>cv_uvs := Some uvs, cv_image := Some (baked_image, tex_size, tex_size),
                         cv_materials := cv_materials c @ [bake_material (active_vcols (cv_object c)) baked_image]\<rparr>) st;
               (r, s) = bake_colors bake (cs_bake st1)
           in (r, st1\<lparr>cs_bake := s\<rparr>)))"

definition PCInstancer ::
    "(bake_settings \<Rightarrow> py_error + unit) \<Rightarrow> nat list list \<Rightarrow> real \<Rightarrow> int \<Rightarrow> convert_state \<Rightarrow> status \<times> convert_state" where
  "PCInstancer bake faces mesh_size subdivisions st =
     (case layout_and_bake bake faces st of
        (Inl e, st1) \<Rightarrow> (Raised e, st1)
      | (Inr _, st1) \<Rightarrow>
          (Finished, upd_last (\<lambda>c. c\<lparr>cv_sphere := Some (subdivisions, mesh_size / 2, sphere_material baked_image),
                                      cv_instance_type := ''FACES'', cv_show_instancer := False\<rparr>) st1))"

definition PCParticles ::
    "(bake_settings \<Rightarrow> py_error + unit) \<Rightarrow> nat list list \<Rightarrow> real \<Rightarrow> int \<Rightarrow> convert_state \<Rightarrow> status \<times> convert_state" where
  "PCParticles bake faces mesh_size subdivisions st =
     (case layout_and_bake bake faces st of
        (Inl e, st1) \<Rightarrow> (Raised e, st1)
      | (Inr _, st1) \<Rightarrow>
          (Finished, upd_last (\<lambda>c. c\<lparr>cv_sphere := Some (subdivisions, mesh_size / 2, sphere_material baked_image),
                                      cv_show_instancer := False,
                                      cv_particles := Some (particle_setup (length faces) (mesh_size / 2) ''sphere'')\<rparr>) st1))"

section \<open>The points\<close>

text \<open>
  \<open>points\<close> of \<open>execute\<close>: the first \<open>l\<close> points with their colours as 8 bit numbers; the loop
  runs over \<open>range(l)\<close>.
\<close>

definition convert_points :: "int \<Rightarrow> v3 list \<Rightarrow> v3 list \<Rightarrow> v4 list \<Rightarrow> py_error + mesh_point list" where
  "convert_points l vs ns cs =
     mapE (\<lambda>i. bindE (py_get cs (int i)) (\<lambda>(r, g, b, _).
                bindE (py_get vs (int i)) (\<lambda>v.
                  bindE (py_get ns (int i)) (\<lambda>n.
                    Inr (v, n, (py_int (255 * r), py_int (255 * g), py_int (255 * b)))))))
       [0..<nat l]"

definition convert_apply_matrix :: "blender \<Rightarrow> mat4 \<Rightarrow> mesh_point list \<Rightarrow> mesh_point list" where
  "convert_apply_matrix bl m ps = map (\<lambda>(v, n, c). (mat_apply m v, mat_apply (bl_rotation bl m) n, c)) ps"

definition convert_names :: "(string \<times> string) list" where
  "convert_names =
     [(''VERTEX'', ''-vertices''), (''TRIANGLE'', ''-triangles''), (''TETRAHEDRON'', ''-tetrahedrons''),
      (''CUBE'', ''-cubes''), (''ICOSPHERE'', ''-icospheres''), (''INSTANCER'', ''-instancer''),
      (''PARTICLES'', ''-particles'')]"

definition convert_generator :: "string \<Rightarrow> py_error + mesh_generator" where
  "convert_generator t =
     PCMeshInstancerMeshGenerator (if t \<in> {''INSTANCER'', ''PARTICLES''} then ''TRIANGLE'' else t) 1 1 2"

definition convert_name :: "string \<Rightarrow> string \<Rightarrow> py_error + string" where
  "convert_name filepath t =
     (case map_of convert_names t of
        None \<Rightarrow> Inl (KeyError t)
      | Some x \<Rightarrow> Inr (fst (path_splitext (snd (path_split filepath))) @ x))"

text \<open>
  The mesh object before it is moved into the object's space: bare vertices, or one of the
  two instancers. \<open>PCMeshInstancer2\<close> is given the points as they are in the cache, the other
  one those that have been moved to world space.
\<close>

definition convert_mesh ::
    "blender \<Rightarrow> mesh_env \<Rightarrow> pcv \<Rightarrow> string \<Rightarrow> mesh_generator \<Rightarrow> mesh_point list \<Rightarrow> v3 list \<Rightarrow> v3 list \<Rightarrow> v4 list
       \<Rightarrow> py_error + mesh_object" where
  "convert_mesh bl me p n g points vs ns cs =
     (let s = ms_size (p_mesh p);
          a = (p_has_normals p \<and> ms_normal_align (p_mesh p));
          c = (p_has_vcols p \<and> ms_vcols (p_mesh p))
      in if ms_type (p_mesh p) = ''VERTEX''
         then Inr \<lparr>mo_name = n, mo_verts = map fst points, mo_edges = [], mo_faces = [],
                   mo_cols = None, mo_matrix = mat_identity\<rparr>
         else if ms_use_instancer2 (p_mesh p)
         then PCMeshInstancer2 bl me n vs (Some ns) (Some cs) g mat_identity s a c
         else PCMeshInstancer bl me n points g mat_identity s a c)"

definition convert_count :: "nat \<Rightarrow> mesh_settings \<Rightarrow> int" where
  "convert_count n s = (if ms_all s then int n else display_count n (ms_percentage s))"

section \<open>PCV_OT_convert\<close>

text \<open>
  The part after the cloud has been hidden. An exception while the mesh is made leaves no
  object of ours behind; one raised later leaves the object.
\<close>

definition convert_object ::
    "blender \<Rightarrow> mesh_env \<Rightarrow> (bake_settings \<Rightarrow> py_error + unit) \<Rightarrow> pcv \<Rightarrow> mat4 \<Rightarrow> py_error + mesh_object \<Rightarrow> convert_state
       \<Rightarrow> status \<times> convert_state" where
  "convert_object bl me bake p m mesh st =
     (case mesh of
        Inl e \<Rightarrow> (Raised e, st)
      | Inr ob \<Rightarrow>
          (let st1 = st\<lparr>cs_objects := cs_objects st @ [plain_object ob]\<rparr>
           in case bl_inverted bl m of
                Inl e \<Rightarrow> (Raised e, st1)
              | Inr mi \<Rightarrow>
                  (let ob' = transform_mesh mi m ob;
                       st2 = upd_last (\<lambda>c. c\<lparr>cv_object := ob'\<rparr>) st1;
                       t = ms_type (p_mesh p)
                   in if t = ''INSTANCER''
                      then PCInstancer bake (mo_faces ob') (ms_size (p_mesh p)) (ms_sphere_subdivisions (p_mesh p)) st2
                      else if t = ''PARTICLES''
                      then PCParticles bake (mo_faces ob') (ms_size (p_mesh p)) (ms_sphere_subdivisions (p_mesh p)) st2
                      else (Finished, st2))))"

definition PCV_OT_convert ::
    "blender \<Rightarrow> mesh_env \<Rightarrow> (bake_settings \<Rightarrow> py_error + unit) \<Rightarrow> convert_state \<Rightarrow> status \<times> convert_state" where
  "PCV_OT_convert bl me bake st =
     (let w = cs_world st
      in case context_pcv w of
           None \<Rightarrow> (Raised AttributeError, st)
         | Some (n0, p) \<Rightarrow>
             (case (dict_get (cache w) (p_uuid p), dict_get (objects w) n0) of
                (Some ci, Some ob) \<Rightarrow>
                  (let m = ob_matrix_world ob;
                       prep = bindE (ci_arrays ci) (\<lambda>(vs, ns, cs).
                         case ci_stats ci of
                           None \<Rightarrow> Inl (TypeError ''NoneType'')
                         | Some nump \<Rightarrow>
                             (let l = convert_count nump (p_mesh p);
                                  vs' = py_take l vs; ns' = py_take l ns; cs' = py_take l cs
                              in bindE (convert_points l vs' ns' cs') (\<lambda>ps.
                                   bindE (convert_generator (ms_type (p_mesh p))) (\<lambda>g.
                                     bindE (convert_name (p_filepath p) (ms_type (p_mesh p))) (\<lambda>n.
                                       Inr (convert_apply_matrix bl m ps, g, n, vs', ns', cs'))))))
                   in case prep of
                        Inl e \<Rightarrow> (Raised e, st)
                      | Inr (points, g, n, vs, ns, cs) \<Rightarrow>
                          (case bpy_op PCV_OT_erase_poll PCV_OT_erase w of
                             (Raised e, w1) \<Rightarrow> (Raised e, st\<lparr>cs_world := w1\<rparr>)
                           | (_, w1) \<Rightarrow>
                               convert_object bl me bake p m (convert_mesh bl me p n g points vs ns cs)
                                 (st\<lparr>cs_world := w1\<rparr>)))
              | (None, _) \<Rightarrow> (Raised (KeyError (p_uuid p)), st)
              | _ \<Rightarrow> (Raised AttributeError, st)))"

section \<open>PCV_OT_export\<close>

text \<open>
  What export takes from outside: the matrix \<open>axis_conversion\<close> gives for \<open>-Z\<close> forward and \<open>Y\<close>
  up, and numpy's common type of stacked columns.
\<close>

record export_env =
  ee_axes :: mat4
  ee_common :: "np_type list \<Rightarrow> np_type"

text \<open>The colours to write: their type, and the numbers of each point.\<close>

type_synonym export_colors = "np_type \<times> (real \<times> real \<times> real) list"

definition native_f4 :: "num_env \<Rightarrow> np_type" where
  "native_f4 ne = (if ne_little ne then CHR ''<'' else CHR ''>'', CHR ''f'')"

definition uint8 :: np_type where
  "uint8 = (CHR ''|'', CHR ''B'')"

definition to_uint8 :: "real \<Rightarrow> real" where
  "to_uint8 x = real_of_int (py_int (x * 255) mod 256)"

definition viewport_points ::
    "export_settings \<Rightarrow> cache_item \<Rightarrow> py_error + v3 list \<times> v3 list option \<times> export_colors option" where
  "viewport_points s c =
     bindE (ci_arrays c) (\<lambda>(vs, ns, cs).
       let cut = (\<lambda>_. case (ex_visible_only s, ci_display_length c) of (True, Some l) \<Rightarrow> Some l | _ \<Rightarrow> None);
           vs' = (case cut () of Some l \<Rightarrow> py_take l vs | None \<Rightarrow> vs);
           ns' = (case cut () of Some l \<Rightarrow> py_take l ns | None \<Rightarrow> ns);
           cs' = (case cut () of Some l \<Rightarrow> py_take l cs | None \<Rightarrow> cs)
       in Inr (vs', Some ns', Some (uint8, map (\<lambda>(r, g, b, _). (to_uint8 r, to_uint8 g, to_uint8 b)) cs')))"

definition original_points ::
    "num_env \<Rightarrow> export_env \<Rightarrow> cache_item \<Rightarrow> py_error + v3 list \<times> v3 list option \<times> export_colors option" where
  "original_points ne ee c =
     (case ci_points c of
        None \<Rightarrow> Inl AttributeError
      | Some a \<Rightarrow>
          if \<not> has_fields xyz a then Inl (ValueError ''no field of name'')
          else Inr (column3 ne a xyz,
                    if has_fields nxyz a then Some (column3 ne a nxyz) else None,
                    if has_fields rgb a
                    then Some (ee_common ee (map (\<lambda>f. case map_of (pa_dtype a) f of Some t \<Rightarrow> t | None \<Rightarrow> uint8) rgb),
                               column3 ne a rgb)
                    else None))"

definition export_matrix :: "blender \<Rightarrow> mat4 \<Rightarrow> v3 list \<times> v3 list option \<Rightarrow> v3 list \<times> v3 list option" where
  "export_matrix bl m a =
     (map (mat_apply m) (fst a), map_option (map (mat_apply (bl_rotation bl m))) (snd a))"

definition export_transform ::
    "blender \<Rightarrow> export_env \<Rightarrow> export_settings \<Rightarrow> mat4 \<Rightarrow> v3 list \<times> v3 list option \<Rightarrow> v3 list \<times> v3 list option" where
  "export_transform bl ee s mw a =
     (let a1 = (if ex_apply_transformation s \<and> mw \<noteq> mat_identity then export_matrix bl mw a else a)
      in if ex_convert_axes s then export_matrix bl (ee_axes ee) a1 else a1)"

text \<open>
  The structured array. The types are read off rows 0, 1 and 2 of the arrays, so there have
  to be three points.
\<close>

definition encode3 :: "num_env \<Rightarrow> np_type \<Rightarrow> real \<times> real \<times> real \<Rightarrow> string list" where
  "encode3 ne t v = (case v of (x, y, z) \<Rightarrow> [ne_enc ne t x, ne_enc ne t y, ne_enc ne t z])"

definition export_array ::
    "num_env \<Rightarrow> v3 list \<Rightarrow> v3 list option \<Rightarrow> export_colors option \<Rightarrow> py_error + parray" where
  "export_array ne vs ns cs =
     (let f4 = native_f4 ne
      in if length vs < 3 then Inl IndexError
         else Inr \<lparr>pa_dtype = map (\<lambda>n. (n, f4)) xyz @
                     (case ns of None \<Rightarrow> [] | Some _ \<Rightarrow> map (\<lambda>n. (n, f4)) nxyz) @
                     (case cs of None \<Rightarrow> [] | Some (t, _) \<Rightarrow> map (\<lambda>n. (n, t)) rgb),
                   pa_rows = map (\<lambda>i. encode3 ne f4 (vs ! i) @
                     (case ns of None \<Rightarrow> [] | Some ns' \<Rightarrow> encode3 ne f4 (ns' ! i)) @
                     (case cs of None \<Rightarrow> [] | Some (t, cs') \<Rightarrow> encode3 ne t (cs' ! i))) [0..<length vs]\<rparr>)"

definition export_points ::
    "num_env \<Rightarrow> export_env \<Rightarrow> export_settings \<Rightarrow> cache_item \<Rightarrow> py_error + v3 list \<times> v3 list option \<times> export_colors option" where
  "export_points ne ee s c = (if ex_use_viewport s then viewport_points s c else original_points ne ee c)"

definition PCV_OT_export ::
    "num_env \<Rightarrow> blender \<Rightarrow> export_env \<Rightarrow> string \<Rightarrow> world \<Rightarrow> file_system \<Rightarrow> status \<times> file_system list" where
  "PCV_OT_export ne bl ee filepath w fs =
     (case context_pcv w of
        None \<Rightarrow> (Raised AttributeError, [])
      | Some (n0, p) \<Rightarrow>
          (case dict_get (cache w) (p_uuid p) of
             None \<Rightarrow> (Raised (KeyError (p_uuid p)), [])
           | Some c \<Rightarrow>
               (case bindE (export_points ne ee (p_export p) c) (\<lambda>(vs, ns, cs).
                       case (if ex_apply_transformation (p_export p)
                             then map_option ob_matrix_world (Option.bind (ci_object c) (dict_get (objects w)))
                             else Some mat_identity) of
                         None \<Rightarrow> Inl (Py_Exception ''ReferenceError'')
                       | Some mw \<Rightarrow>
                           (case export_transform bl ee (p_export p) mw (vs, ns) of (vs', ns') \<Rightarrow>
                              export_array ne vs' ns' cs)) of
                  Inl e \<Rightarrow> (Raised e, [])
                | Inr a \<Rightarrow>
                    (case BinPlyPointCloudWriter ne filepath a fs of
                       (Inl e, ss) \<Rightarrow> (Raised e, ss)
                     | (Inr _, ss) \<Rightarrow> (Finished, ss)))))"

end
