(* ===== verification/PCV_Convert_Facts.thy ===== *)
theory PCV_Convert_Facts
  imports PCV_Convert PCV_Shaders
begin

text \<open>
  A converted cloud stays where it was: in world space its vertices, or the copies of the
  generated mesh, are at the transformed points; only \<open>PCMeshInstancer2\<close> leaves the object's
  transformation out. And an exported file reads back as the cloud.
\<close>

section \<open>Points\<close>

lemma display_count_range:
  assumes "0 \<le> dp" "dp \<le> 100"
  shows "0 \<le> display_count n dp" "display_count n dp \<le> int n"
  using display_count_bounds [OF assms, of n] by auto

lemma mapE_upt_nth:
  "(\<And>i. i < n \<Longrightarrow> f i = Inr (g i)) \<Longrightarrow> mapE f [0..<n] = Inr (map g [0..<n])"
  by (rule mapE_Inr) simp

lemma convert_points_eq:
  assumes "length vs = nat l" "length ns = nat l" "length cs = nat l"
  shows "convert_points l vs ns cs = Inr (zip vs (zip ns (map color255 cs)))"
proof -
  have "convert_points l vs ns cs = Inr (map (\<lambda>i. (vs ! i, ns ! i, color255 (cs ! i))) [0..<nat l])"
    unfolding convert_points_def
  proof (rule mapE_upt_nth)
    fix i assume "i < nat l"
    then have "i < length vs" "i < length ns" "i < length cs" using assms by simp_all
    then show "bindE (py_get cs (int i)) (\<lambda>(r, g, b, _). bindE (py_get vs (int i)) (\<lambda>v.
        bindE (py_get ns (int i)) (\<lambda>n. Inr (v, n, (py_int (255 * r), py_int (255 * g), py_int (255 * b)))))) =
        Inr (vs ! i, ns ! i, color255 (cs ! i))"
      by (simp add: color255_def split: prod.splits)
  qed
  also have "map (\<lambda>i. (vs ! i, ns ! i, color255 (cs ! i))) [0..<nat l] = zip vs (zip ns (map color255 cs))"
    using assms by (intro nth_equalityI) simp_all
  finally show ?thesis .
qed

lemma length_py_take_nat: "0 \<le> l \<Longrightarrow> l \<le> int (length xs) \<Longrightarrow> length (py_take l xs) = nat l"
  by (simp add: py_take_def)

lemma convert_count_range:
  assumes "0 \<le> ms_percentage s" "ms_percentage s \<le> 100"
  shows "0 \<le> convert_count n s" "convert_count n s \<le> int n"
  using display_count_range [OF assms, of n] by (simp_all add: convert_count_def)

section \<open>What conversion does\<close>

text \<open>The vertices of a mesh object in world space.\<close>

definition world_verts :: "mesh_object \<Rightarrow> v3 list" where
  "world_verts ob = map (mat_apply (mo_matrix ob)) (mo_verts ob)"

lemma world_verts_transform:
  assumes "\<And>v. mat_apply m (mat_apply mi v) = v"
  shows "world_verts (transform_mesh mi m ob) = mo_verts ob"
  by (simp add: world_verts_def transform_mesh_def assms o_def)

lemma convert_generator_eq:
  assumes "t \<in> fst ` set convert_names"
  shows "convert_generator t =
     Inr \<lparr>mg_type = (if t \<in> {''INSTANCER'', ''PARTICLES''} then ''TRIANGLE'' else t),
          mg_length = 1, mg_radius = 1, mg_subdivision = 2\<rparr>"
  using assms by (auto simp: convert_names_def convert_generator_def PCMeshInstancerMeshGenerator_def mesh_types_def)

lemma convert_name_some:
  assumes "t \<in> fst ` set convert_names"
  obtains n where "convert_name f t = Inr n"
  using assms by (auto simp: convert_names_def convert_name_def)

text \<open>The points that are converted, in the object's and in world space.\<close>

definition converted_points :: "pcv \<Rightarrow> 'a list \<Rightarrow> 'a list" where
  "converted_points p xs = py_take (convert_count (length xs) (p_mesh p)) xs"

definition world_points :: "blender \<Rightarrow> mat4 \<Rightarrow> v3 list \<Rightarrow> v3 list \<Rightarrow> v4 list \<Rightarrow> mesh_point list" where
  "world_points bl m vs ns cs = zip (map (mat_apply m) vs) (zip (map (mat_apply (bl_rotation bl m)) ns) (map color255 cs))"

lemma convert_apply_zip:
  "convert_apply_matrix bl m (zip vs (zip ns (map color255 cs))) = world_points bl m vs ns cs"
proof -
  have "map (\<lambda>(v, n, c). (f v, g n, c)) (zip xs (zip ys zs)) = zip (map f xs) (zip (map g ys) zs)"
    for f :: "v3 \<Rightarrow> v3" and g xs and ys :: "v3 list" and zs :: "(int \<times> int \<times> int) list"
    by (induction xs arbitrary: ys zs; case_tac ys; case_tac zs; simp)
  then show ?thesis by (simp add: convert_apply_matrix_def world_points_def)
qed

lemma world_ok_erase:
  assumes "world_ok w"
  shows "world_ok (tag_redraw (upd_item u (\<lambda>c. c\<lparr>ci_draw := b\<rparr>) w))"
proof -
  have "world_ok (upd_item u (\<lambda>c. c\<lparr>ci_draw := b\<rparr>) w)"
    by (rule world_ok_upd_item [OF assms]) (simp add: item_ok_def)
  then show ?thesis by simp
qed

lemma convert_run:
  assumes ok: "world_ok (cs_world st)"
    and arr: "context_arrays (cs_world st) = Inr (n0, p, c, vs, ns, cs)"
    and shown: "ci_ready c" "ci_draw c"
    and ob: "dict_get (objects (cs_world st)) n0 = Some ob" "ob_matrix_world ob = m"
    and t: "ms_type (p_mesh p) \<in> fst ` set convert_names"
    and pct: "0 \<le> ms_percentage (p_mesh p)" "ms_percentage (p_mesh p) \<le> 100"
  obtains g n where "convert_generator (ms_type (p_mesh p)) = Inr g"
    and "PCV_OT_convert bl me bake st = convert_object bl me bake p m
       (convert_mesh bl me p n g
          (world_points bl m (converted_points p vs) (converted_points p ns) (converted_points p cs))
          (converted_points p vs) (converted_points p ns) (converted_points p cs))
       (st\<lparr>cs_world := tag_redraw (upd_item (p_uuid p) (\<lambda>c. c\<lparr>ci_draw := False\<rparr>) (cs_world st))\<rparr>)"
proof -
  let ?w = "cs_world st"
  note d = context_arraysD [OF arr] and len = context_arrays_lengths [OF ok arr]
  have item: "item_ok c" "ci_uuid c = Some (p_uuid p)" using world_ok_get [OF ok d(2)] by blast+
  have stats: "ci_stats c = Some (length vs)" using item(1) d(3) by (auto elim!: item_okE)
  let ?l = "convert_count (length vs) (p_mesh p)"
  have l: "0 \<le> ?l" "?l \<le> int (length vs)" using convert_count_range [OF pct] by blast+
  obtain n where n: "convert_name (p_filepath p) (ms_type (p_mesh p)) = Inr n"
    using convert_name_some [OF t] by blast
  obtain g where g: "convert_generator (ms_type (p_mesh p)) = Inr g"
    using convert_generator_eq [OF t] by blast
  have pts: "convert_points ?l (py_take ?l vs) (py_take ?l ns) (py_take ?l cs) =
      Inr (zip (py_take ?l vs) (zip (py_take ?l ns) (map color255 (py_take ?l cs))))"
    using l len by (intro convert_points_eq) (simp_all add: length_py_take_nat)
  have take: "py_take ?l vs = converted_points p vs" "py_take ?l ns = converted_points p ns"
    "py_take ?l cs = converted_points p cs"
    using len by (simp_all add: converted_points_def)
  have "PCV_OT_erase_poll ?w"
    using d(1) shown item(2) map_of_SomeD [OF d(2)] by (force simp: PCV_OT_erase_poll_def shown_def)
  then have "bpy_op PCV_OT_erase_poll PCV_OT_erase ?w =
      (Finished, tag_redraw (upd_item (p_uuid p) (\<lambda>c. c\<lparr>ci_draw := False\<rparr>) ?w))"
    using d(1,2) by (intro bpy_op_ok) (simp_all add: PCV_OT_erase_def)
  then have "PCV_OT_convert bl me bake st = convert_object bl me bake p m
       (convert_mesh bl me p n g
          (world_points bl m (converted_points p vs) (converted_points p ns) (converted_points p cs))
          (converted_points p vs) (converted_points p ns) (converted_points p cs))
       (st\<lparr>cs_world := tag_redraw (upd_item (p_uuid p) (\<lambda>c. c\<lparr>ci_draw := False\<rparr>) ?w)\<rparr>)"
    using d ob stats n g pts unfolding take
    by (simp add: PCV_OT_convert_def ci_arrays_def Let_def take convert_apply_zip)
  with that g show ?thesis by blast
qed

lemma upd_last_snoc [simp]:
  "upd_last f (st\<lparr>cs_objects := xs @ [x]\<rparr>) = st\<lparr>cs_objects := xs @ [f x]\<rparr>"
  by (simp add: upd_last_def)

lemma convert_object_plain:
  assumes "mesh = Inr ob" "bl_inverted bl m = Inr mi" "ms_type (p_mesh p) \<notin> {''INSTANCER'', ''PARTICLES''}"
  shows "convert_object bl me bake p m mesh st =
     (Finished, st\<lparr>cs_objects := cs_objects st @ [plain_object (transform_mesh mi m ob)]\<rparr>)"
  using assms by (simp add: convert_object_def Let_def plain_object_def)

text \<open>Conversion to a plain mesh object: what is added, and what becomes of the cloud.\<close>

lemma convert_finish:
  assumes ok: "world_ok (cs_world st)" and c: "dict_get (cache (cs_world st)) (p_uuid p) = Some c"
    and run: "PCV_OT_convert bl me bake st = convert_object bl me bake p m mesh
       (st\<lparr>cs_world := tag_redraw (upd_item (p_uuid p) (\<lambda>c. c\<lparr>ci_draw := False\<rparr>) (cs_world st))\<rparr>)"
    and mesh: "mesh = Inr ob" and mi: "bl_inverted bl m = Inr mi" "\<And>v. mat_apply m (mat_apply mi v) = v"
    and t: "ms_type (p_mesh p) \<notin> {''INSTANCER'', ''PARTICLES''}"
  shows "\<exists>st' new. PCV_OT_convert bl me bake st = (Finished, st') \<and>
     cs_objects st' = cs_objects st @ [plain_object new] \<and> mo_matrix new = m \<and> world_verts new = mo_verts ob \<and>
     world_ok (cs_world st') \<and>
     (\<exists>c'. dict_get (cache (cs_world st')) (p_uuid p) = Some c' \<and> cloud c' = cloud c \<and> \<not> ci_draw c')"
proof -
  let ?w = "tag_redraw (upd_item (p_uuid p) (\<lambda>c. c\<lparr>ci_draw := False\<rparr>) (cs_world st))"
  let ?st = "st\<lparr>cs_world := ?w, cs_objects := cs_objects st @ [plain_object (transform_mesh mi m ob)]\<rparr>"
  have "PCV_OT_convert bl me bake st = (Finished, ?st)"
    using run convert_object_plain [OF mesh mi(1) t] by simp
  moreover have "mo_matrix (transform_mesh mi m ob) = m" "world_verts (transform_mesh mi m ob) = mo_verts ob"
    by (simp add: transform_mesh_def, rule world_verts_transform [OF mi(2)])
  moreover have "world_ok ?w" "dict_get (cache ?w) (p_uuid p) = Some (c\<lparr>ci_draw := False\<rparr>)"
    using world_ok_erase [OF ok] c by (simp_all add: dict_get_upd_item)
  ultimately show ?thesis
    by (intro exI [of _ ?st] exI [of _ "transform_mesh mi m ob"]) simp
qed

text \<open>\<open>PCMeshInstancer\<close> succeeds on every list of points.\<close>

lemma instancer_succeeds:
  assumes g: "generator_generate g = (dv, de, df)"
    and mx: "bl_inverted bl (mat_scale (me_scale me mx)) = Inr osm"
  shows "\<exists>ob. PCMeshInstancer bl me nm ps g mx s align vcols = Inr ob"
proof -
  let ?ms = "map (instance_matrix me align s osm) (map (\<lambda>(v, n, _). (v, n)) ps)"
  let ?fs = "concat (map (\<lambda>i. map (map (\<lambda>a. i * length dv + a)) df) [0..<length ps])"
  have fs: "snd (snd (calc_mesh_data g ?ms)) = ?fs"
    by (simp add: calc_mesh_data_eq [OF g])
  have "\<exists>cols. make_vcols (length dv) ps ?fs = Inr cols"
  proof (cases "concat ?fs = []")
    case False
    show ?thesis
      using make_vcols_eq [OF generator_facts(2,3) [OF g] refl False] by blast
  qed (simp add: make_vcols_def)
  then show ?thesis
    using fs g by (auto simp: PCMeshInstancer_def calc_matrices_def mx split: prod.splits)
qed

lemma instancer2_succeeds:
  assumes "bl_inverted bl (mat_scale (me_scale me mx)) = Inr osm" "length ns = length vs"
  shows "\<exists>ob. PCMeshInstancer2 bl me nm vs (Some ns) cs g mx s align vcols = Inr ob"
  using assms by (auto simp: PCMeshInstancer2_def calc_matrices_def Let_def split: prod.splits)

text \<open>Copies by \<open>PCMeshInstancer2\<close>.\<close>

lemma instancer2_copies:
  assumes me: "quat_matrix_ok me" and g: "generator_generate g = (dv, de, df)"
    and tri: "fst (me_triangulate me (dv, df)) = dv"
    and mx: "bl_inverted bl (mat_scale (me_scale me mx)) = Inr osm" "affine osm" "\<And>v. mat_apply osm v = v"
    and ok: "PCMeshInstancer2 bl me nm vs (Some ns) cs g mx s align vcols = Inr ob"
  shows "mo_verts ob = concat (map (\<lambda>p. map (placed me align s p) dv) (zip vs ns))"
proof -
  let ?ms = "map (instance_matrix me align s osm) (zip vs ns)"
  obtain gf where tri': "me_triangulate me (dv, df) = (dv, gf)"
    using tri by (metis prod.collapse)
  have "mo_verts ob = fst (calc_mesh me g ?ms)"
    using ok mx(1) by (auto simp: PCMeshInstancer2_def calc_matrices_def bindE_eq_Inr Let_def
        split: prod.splits if_splits)
  moreover have "mat_apply (instance_matrix me align s osm p) = placed me align s p" for p
    using instance_matrix_apply [OF me mx(2,3)] by (intro ext) blast
  moreover have "concat (map (\<lambda>i. map (mat_apply (?ms ! i)) dv) [0..<length ?ms]) =
      concat (map (\<lambda>m. map (mat_apply m) dv) ?ms)"
    by (rule arg_cong [where f = concat]) (rule map_upt_nth)
  ultimately show ?thesis
    by (simp add: calc_mesh_eq [OF g tri'] o_def)
qed

text \<open>Without a point there is no triangle, and the layout divides by zero after the cloud was hidden.\<close>

lemma instancer_without_points:
  "PCInstancer bake [] s k st = (Raised ZeroDivisionError, st)" "PCParticles bake [] s k st = (Raised ZeroDivisionError, st)"
  by (simp_all add: PCInstancer_def PCParticles_def layout_and_bake_def uv_layout_empty)

section \<open>Round trip of an export\<close>

text \<open>
  What numpy documents: single floats and bytes have four and one bytes and read back as they
  were written, when the number is one of the type.
\<close>

definition codec_ok :: "num_env \<Rightarrow> (real \<Rightarrow> bool) \<Rightarrow> bool" where
  "codec_ok ne single \<longleftrightarrow>
     (\<forall>x. length (ne_enc ne (native_f4 ne) x) = 4 \<and> length (ne_enc ne uint8 x) = 1) \<and>
     (\<forall>x. single x \<longrightarrow> ne_val ne (native_f4 ne) (ne_enc ne (native_f4 ne) x) = x) \<and>
     (\<forall>k. 0 \<le> k \<and> k < 256 \<longrightarrow> ne_val ne uint8 (ne_enc ne uint8 (real_of_int k)) = real_of_int k)"

definition single3 :: "(real \<Rightarrow> bool) \<Rightarrow> v3 \<Rightarrow> bool" where
  "single3 P v \<longleftrightarrow> (case v of (x, y, z) \<Rightarrow> P x \<and> P y \<and> P z)"

definition export_row :: "num_env \<Rightarrow> v3 \<Rightarrow> v3 \<Rightarrow> real \<times> real \<times> real \<Rightarrow> string list" where
  "export_row ne v n c = encode3 ne (native_f4 ne) v @ encode3 ne (native_f4 ne) n @ encode3 ne uint8 c"

definition export_dtype :: "num_env \<Rightarrow> (string \<times> np_type) list" where
  "export_dtype ne = map (\<lambda>n. (n, native_f4 ne)) xyz @ map (\<lambda>n. (n, native_f4 ne)) nxyz @ map (\<lambda>n. (n, uint8)) rgb"

lemma export_array_full:
  assumes "3 \<le> length vs"
  shows "export_array ne vs (Some ns) (Some (uint8, cs)) =
     Inr \<lparr>pa_dtype = export_dtype ne,
          pa_rows = map (\<lambda>i. export_row ne (vs ! i) (ns ! i) (cs ! i)) [0..<length vs]\<rparr>"
  using assms by (simp add: export_array_def Let_def export_dtype_def export_row_def)

lemma export_writable:
  assumes "codec_ok ne single"
  shows "writable \<lparr>pa_dtype = export_dtype ne, pa_rows = map (\<lambda>i. export_row ne (vs i) (ns i) (cs i)) is\<rparr>"
proof -
  have "list_all2 (\<lambda>k c. length c = k) (np_sizes (export_dtype ne)) (export_row ne v n c)" for v n c
    using assms by (cases v; cases n; cases c; cases "ne_little ne")
      (simp_all add: codec_ok_def np_sizes_def export_dtype_def export_row_def encode3_def native_f4_def
        uint8_def xyz_def nxyz_def rgb_def np_itemsize_def)
  then show ?thesis
    by (auto simp: writable_def export_dtype_def pa_names_def known_names_def xyz_def nxyz_def rgb_def
        native_f4_def uint8_def common_types_def np_norm_def np_itemsize_def)
qed

lemma quantised_range:
  assumes "0 \<le> x" "x \<le> 1"
  shows "py_int (x * 255) mod 256 = py_int (255 * x)" "0 \<le> py_int (255 * x)" "py_int (255 * x) < 256"
proof -
  have "0 \<le> py_int (255 * x)" "py_int (255 * x) \<le> int 255"
    using assms by (intro py_int_nonneg py_int_le; simp)+
  then show "py_int (x * 255) mod 256 = py_int (255 * x)" "0 \<le> py_int (255 * x)" "py_int (255 * x) < 256"
    by (simp_all add: mult.commute)
qed

definition color_bytes :: "v4 \<Rightarrow> real \<times> real \<times> real" where
  "color_bytes c = (case c of (r, g, b, _) \<Rightarrow> (to_uint8 r, to_uint8 g, to_uint8 b))"

lemma export_row_point:
  assumes codec: "codec_ok ne single" and v: "single3 single v" "single3 single n" and c: "unit_color c"
    and a: "pa_dtype a = export_dtype ne"
  shows "row_point ne pr a (export_row ne v n (color_bytes c)) = (v, n, quantised c)"
proof -
  have fields: "has_fields nxyz a" "has_fields rgb a"
    by (simp_all add: has_fields_def pa_names_def a export_dtype_def xyz_def nxyz_def rgb_def)
  have "\<not> red_is_uint16 ne a"
    by (simp add: red_is_uint16_def a export_dtype_def xyz_def nxyz_def rgb_def uint8_def)
  moreover have u: "to_uint8 x = real_of_int (py_int (255 * x))" "ne_val ne uint8 (ne_enc ne uint8 (to_uint8 x)) = to_uint8 x"
    if "0 \<le> x" "x \<le> 1" for x
    using quantised_range [OF that] codec by (auto simp: to_uint8_def codec_ok_def)
  ultimately show ?thesis
    using v c fields codec
    by (auto simp: row_point_def row_v3_def row_value_def row_color_def Let_def a export_dtype_def export_row_def
        encode3_def color_bytes_def xyz_def nxyz_def rgb_def single3_def unit_color_def quantised_def rgb255_def
        color255_def codec_ok_def split: prod.splits)
qed

text \<open>The part of the arrays that is exported from the viewport.\<close>

definition exported :: "export_settings \<Rightarrow> cache_item \<Rightarrow> 'a list \<Rightarrow> 'a list" where
  "exported s c xs = (case (ex_visible_only s, ci_display_length c) of (True, Some l) \<Rightarrow> py_take l xs | _ \<Rightarrow> xs)"

lemma exported_map: "exported s c (map f xs) = map f (exported s c xs)"
  by (simp add: exported_def py_take_def take_map split: option.split bool.split)

lemma length_exported: "length xs = length ys \<Longrightarrow> length (exported s c xs) = length (exported s c ys)"
  by (simp add: exported_def py_take_def split: option.split bool.split)

lemma viewport_points_eq:
  assumes "ci_arrays c = Inr (vs, ns, cs)"
  shows "viewport_points s c =
     Inr (exported s c vs, Some (exported s c ns), Some (uint8, map color_bytes (exported s c cs)))"
  by (auto simp: viewport_points_def assms exported_def color_bytes_def Let_def split: option.splits bool.splits)

lemma export_transform_some:
  obtains ns' where "export_transform bl ee s mw (vs, Some ns) = (fst (export_transform bl ee s mw (vs, Some ns)), Some ns')"
    and "length ns' = length ns" "length (fst (export_transform bl ee s mw (vs, Some ns))) = length vs"
  by (cases "ex_apply_transformation s \<and> mw \<noteq> mat_identity"; cases "ex_convert_axes s")
    (auto simp: export_transform_def export_matrix_def Let_def)

lemma map_zip3_upt:
  assumes "length ns = length vs" "length cs = length vs"
  shows "map (\<lambda>i. f (vs ! i) (ns ! i) (cs ! i)) [0..<length vs] = map (\<lambda>(v, n, c). f v n c) (zip vs (zip ns cs))"
  using assms by (intro nth_equalityI) simp_all

lemma export_roundtrip:
  assumes ok: "world_ok w" and arr: "context_arrays w = Inr (n0, p, c, vs, ns, cs)"
    and ob: "ci_object c = Some n1" "dict_get (objects w) n1 = Some ob"
    and view: "ex_use_viewport (p_export p)"
    and tr: "export_transform bl ee (p_export p) (ob_matrix_world ob)
        (exported (p_export p) c vs, Some (exported (p_export p) c ns)) = (tvs, Some tns)"
    and n: "3 \<le> length (exported (p_export p) c vs)"
    and codec: "codec_ok ne single" "\<forall>v\<in>set tvs \<union> set tns. single3 single v" "\<forall>col\<in>set cs. unit_color col"
  shows "\<exists>ss pp. PCV_OT_export ne bl ee path w fs = (Finished, ss) \<and> ss \<noteq> [] \<and>
     PlyPointCloudReader gen (last ss) path = Inr pp \<and>
     map (row_point ne pr (pp_points pp)) (pa_rows (pp_points pp)) =
       zip tvs (zip tns (map quantised (exported (p_export p) c cs)))"
proof -
  note d = context_arraysD [OF arr] and len = context_arrays_lengths [OF ok arr]
  define ecs where "ecs = exported (p_export p) c cs"
  obtain ns' where tr': "export_transform bl ee (p_export p) (ob_matrix_world ob)
        (exported (p_export p) c vs, Some (exported (p_export p) c ns)) = (tvs, Some ns')"
      "length ns' = length (exported (p_export p) c ns)" "length tvs = length (exported (p_export p) c vs)"
    using export_transform_some [of bl ee "p_export p" "ob_matrix_world ob" "exported (p_export p) c vs"
        "exported (p_export p) c ns"] tr by auto
  then have lens: "length tns = length tvs" "length ecs = length tvs" "3 \<le> length tvs"
    using tr n len length_exported [of ns vs "p_export p" c] length_exported [of cs vs "p_export p" c]
    by (simp_all add: ecs_def)
  define rows where "rows = map (\<lambda>i. export_row ne (tvs ! i) (tns ! i) (color_bytes (ecs ! i))) [0..<length tvs]"
  define a where "a = \<lparr>pa_dtype = export_dtype ne, pa_rows = rows\<rparr>"
  have rows: "rows = map (\<lambda>(v, n, c). export_row ne v n (color_bytes c)) (zip tvs (zip tns ecs))"
    unfolding rows_def by (rule map_zip3_upt) (use lens in simp_all)
  have arr': "export_array ne tvs (Some tns) (Some (uint8, map color_bytes ecs)) = Inr a"
    using lens by (simp add: export_array_full a_def rows_def)
  have wr: "writable a"
    unfolding a_def rows_def by (rule export_writable [OF codec(1)])
  obtain e where x: "map_of (pa_dtype a) ''x'' = Some (e, CHR ''f'')" "e = CHR ''<'' \<or> e = CHR ''>''"
    by (simp add: a_def export_dtype_def xyz_def native_f4_def)
  obtain e' c' where props: "\<forall>f\<in>set (pa_dtype a). prop_ok f"
    using writable_props [OF wr] by metis
  have "writer_header ne a = Inr (header_text e a)"
    by (rule writer_header_text [OF props x])
  then obtain ss where ss: "BinPlyPointCloudWriter ne path a fs = (Inr (), ss)" "ss \<noteq> []"
      "last ss path = Some (header_text e a @ np_tobytes a)"
    using writer_run [of ne a "header_text e a" path fs] by blast
  have tr0: "export_transform bl ee (p_export p) mat_identity x = export_transform bl ee (p_export p) (ob_matrix_world ob) x"
    if "\<not> ex_apply_transformation (p_export p)" for x
    using that by (simp add: export_transform_def Let_def)
  have "PCV_OT_export ne bl ee path w fs = (Finished, ss)"
    using d(1,2) view arr' ss(1) ob tr tr0 viewport_points_eq [of c vs ns cs "p_export p"] d(3-5)
    by (simp add: PCV_OT_export_def export_points_def ci_arrays_def ecs_def)
  moreover have "PlyPointCloudReader gen (last ss) path =
     Inr \<lparr>pp_points = a, pp_has_vertices = has_fields xyz a, pp_has_normals = has_fields nxyz a,
          pp_has_colors = has_fields rgb a\<rparr>"
    by (rule reader_of_written [where fs = "last ss" and path = path, OF wr x ss(3)])
  moreover have "map (row_point ne pr a) (pa_rows a) = zip tvs (zip tns (map quantised ecs))"
  proof -
    have "set ecs \<subseteq> set cs"
      by (auto simp: ecs_def exported_def py_take_def split: option.splits bool.splits dest: in_set_takeD)
    then have "row_point ne pr a (export_row ne v n (color_bytes col)) = (v, n, quantised col)"
      if "(v, n, col) \<in> set (zip tvs (zip tns ecs))" for v n col
      using codec set_zip_leftD [OF that] set_zip_leftD [OF set_zip_rightD [OF that]]
        set_zip_rightD [OF set_zip_rightD [OF that]]
      by (intro export_row_point [OF codec(1)]) (auto simp: a_def)
    then have "map (row_point ne pr a) (pa_rows a) = map (\<lambda>(v, n, c). (v, n, quantised c)) (zip tvs (zip tns ecs))"
      by (auto simp: a_def rows)
    also have "\<dots> = zip tvs (zip tns (map quantised ecs))"
      by (simp add: zip_map2 split_def)
    finally show ?thesis .
  qed
  ultimately show ?thesis
    using ss(2) by (intro exI [of _ ss]) (simp add: ecs_def)
qed

text \<open>A cloud of fewer than three points cannot be exported.\<close>

lemma export_too_small:
  assumes arr: "context_arrays w = Inr (n0, p, c, vs, ns, cs)"
    and ob: "ci_object c = Some n1" "dict_get (objects w) n1 = Some ob"
    and view: "ex_use_viewport (p_export p)" and n: "length (exported (p_export p) c vs) < 3"
  shows "PCV_OT_export ne bl ee path w fs = (Raised IndexError, [])"
proof -
  note d = context_arraysD [OF arr]
  obtain mw where mw: "(if ex_apply_transformation (p_export p)
      then map_option ob_matrix_world (Option.bind (ci_object c) (dict_get (objects w))) else Some mat_identity) = Some mw"
    using ob that by (cases "ex_apply_transformation (p_export p)") auto
  obtain tvs tns where tr: "export_transform bl ee (p_export p) mw
      (exported (p_export p) c vs, Some (exported (p_export p) c ns)) = (tvs, Some tns)"
      "length tvs = length (exported (p_export p) c vs)"
    using export_transform_some [of bl ee "p_export p" mw "exported (p_export p) c vs" "exported (p_export p) c ns"]
    by metis
  then show ?thesis
    using d view n viewport_points_eq [of c vs ns cs "p_export p"]
    by (simp add: PCV_OT_export_def export_points_def ci_arrays_def mw export_array_def Let_def)
qed

end
