(* ===== verification/PCV_Props_Convert.thy ===== *)
theory PCV_Props_Convert
  imports PCV_Props_Mesh PCV_Convert_Facts
begin

text \<open>
  Properties of converting a cloud to a mesh object and of exporting it to a file.
\<close>

section \<open>The state of the examples\<close>

definition ex_bake :: bake_settings where
  "ex_bake = \<lparr>bk_engine = ''EEVEE'', bk_bake_type = ''COMBINED'', bk_samples = 64, bk_use_pass_direct = True,
     bk_use_pass_indirect = True, bk_use_pass_color = True, bk_margin = 16\<rparr>"

definition ex_moved :: "mesh_settings \<Rightarrow> export_settings \<Rightarrow> world" where
  "ex_moved ms es = ex_world\<lparr>objects :=
     [(''A'', (ex_object (ex_pcv1\<lparr>p_mesh := ms, p_export := es\<rparr>))\<lparr>ob_matrix_world := mat_translation (0, 0, 5)\<rparr>),
      (''B'', ex_object (default_pcv\<lparr>p_uuid := ''u2''\<rparr>)), (''T'', ex_object default_pcv)]\<rparr>"

definition ex_mesh :: "string \<Rightarrow> bool \<Rightarrow> mesh_settings" where
  "ex_mesh t two = \<lparr>ms_type = t, ms_size = 1, ms_normal_align = False, ms_vcols = True, ms_all = True,
     ms_percentage = 100, ms_sphere_subdivisions = 2, ms_use_instancer2 = two\<rparr>"

definition ex_export :: export_settings where
  "ex_export = \<lparr>ex_use_viewport = True, ex_apply_transformation = False, ex_convert_axes = False, ex_visible_only = False\<rparr>"

text \<open>Inverting the translation of the example.\<close>

definition ex_bl5 :: blender where
  "ex_bl5 = ex_bl\<lparr>bl_inverted := \<lambda>m. if m = mat_translation (0, 0, 5) then Inr (mat_translation (0, 0, - 5)) else Inr m\<rparr>"

lemma ex_moved_facts:
  "world_ok (ex_moved ms es)"
  "context_arrays (ex_moved ms es) = Inr (''A'', ex_pcv1\<lparr>p_mesh := ms, p_export := es\<rparr>, ex_item1, ex_vs, ex_ns, ex_cs)"
  "dict_get (objects (ex_moved ms es)) ''A'' =
     Some ((ex_object (ex_pcv1\<lparr>p_mesh := ms, p_export := es\<rparr>))\<lparr>ob_matrix_world := mat_translation (0, 0, 5)\<rparr>)"
proof -
  show "world_ok (ex_moved ms es)"
    using ex_items_ok
    by (simp add: ex_moved_def world_ok_def cache_wf_def objects_ok_def object_gone_def ex_world_def
        ex_item1_def ex_item2_def ex_item_def ex_object_def ex_pcv1_def default_pcv_def)
  have pcv: "get_pcv (ex_moved ms es) ''A'' = Some (ex_pcv1\<lparr>p_mesh := ms, p_export := es\<rparr>)"
    by (simp add: ex_moved_def get_pcv_def)
  have "context_object (ex_moved ms es) = Some ''A''" "cache (ex_moved ms es) = cache ex_world"
    by (simp_all add: ex_moved_def ex_world_def)
  then show "context_arrays (ex_moved ms es) =
      Inr (''A'', ex_pcv1\<lparr>p_mesh := ms, p_export := es\<rparr>, ex_item1, ex_vs, ex_ns, ex_cs)"
    using pcv by (simp add: context_arrays_def context_pcv_def ci_arrays_def)
  show "dict_get (objects (ex_moved ms es)) ''A'' =
     Some ((ex_object (ex_pcv1\<lparr>p_mesh := ms, p_export := es\<rparr>))\<lparr>ob_matrix_world := mat_translation (0, 0, 5)\<rparr>)"
    by (simp add: ex_moved_def)
qed

section \<open>Conversion\<close>

text \<open>C35: Converting to vertices makes one vertex per converted point, in order, at the point's place
  in the scene: moving the cloud's points by the object's matrix, and the new mesh's vertices
  by the new object's, gives the same locations. The cloud itself is only hidden.\<close>

theorem convert_to_vertices:
  assumes "world_ok (cs_world st)" "context_arrays (cs_world st) = Inr (n0, p, c, vs, ns, cs)"
    and "ci_ready c" "ci_draw c" "dict_get (objects (cs_world st)) n0 = Some ob"
    and "ms_type (p_mesh p) = ''VERTEX''" "0 \<le> ms_percentage (p_mesh p)" "ms_percentage (p_mesh p) \<le> 100"
    and "bl_inverted bl (ob_matrix_world ob) = Inr mi"
    and "\<And>v. mat_apply (ob_matrix_world ob) (mat_apply mi v) = v"
  shows "\<exists>st' new. PCV_OT_convert bl me bake st = (Finished, st') \<and>
     cs_objects st' = cs_objects st @ [plain_object new] \<and>
     mo_matrix new = ob_matrix_world ob \<and>
     world_verts new = map (mat_apply (ob_matrix_world ob)) (converted_points p vs) \<and>
     world_ok (cs_world st') \<and>
     (\<exists>c'. dict_get (cache (cs_world st')) (p_uuid p) = Some c' \<and> cloud c' = cloud c \<and> \<not> ci_draw c')"
proof -
  have t: "ms_type (p_mesh p) \<in> fst ` set convert_names" using assms(6) by (simp add: convert_names_def)
  note d = context_arraysD [OF assms(2)] and len = context_arrays_lengths [OF assms(1,2)]
  let ?vs = "converted_points p vs" and ?ns = "converted_points p ns" and ?cs = "converted_points p cs"
  obtain g n where run: "PCV_OT_convert bl me bake st = convert_object bl me bake p (ob_matrix_world ob)
       (convert_mesh bl me p n g (world_points bl (ob_matrix_world ob) ?vs ?ns ?cs) ?vs ?ns ?cs)
       (st\<lparr>cs_world := tag_redraw (upd_item (p_uuid p) (\<lambda>c. c\<lparr>ci_draw := False\<rparr>) (cs_world st))\<rparr>)"
    by (rule convert_run [OF assms(1-5) refl t assms(7,8), of bl me bake])
  have "length ?ns = length ?vs" "length ?cs = length ?vs"
    using len by (simp_all add: converted_points_def py_take_def)
  then have "map fst (world_points bl (ob_matrix_world ob) ?vs ?ns ?cs) = map (mat_apply (ob_matrix_world ob)) ?vs"
    by (simp add: world_points_def map_fst_zip)
  then have "convert_mesh bl me p n g (world_points bl (ob_matrix_world ob) ?vs ?ns ?cs) ?vs ?ns ?cs =
      Inr \<lparr>mo_name = n, mo_verts = map (mat_apply (ob_matrix_world ob)) ?vs, mo_edges = [], mo_faces = [],
           mo_cols = None, mo_matrix = mat_identity\<rparr>"
    using assms(6) by (simp add: convert_mesh_def Let_def)
  from convert_finish [OF assms(1) d(2) run this assms(9,10)] assms(6) show ?thesis
    by fastforce
qed

definition ex_convert_state :: "string \<Rightarrow> bool \<Rightarrow> convert_state" where
  "ex_convert_state t two = \<lparr>cs_world = ex_moved (ex_mesh t two) ex_export, cs_bake = ex_bake, cs_objects = []\<rparr>"

lemma ex_convert_state_facts:
  assumes "p = ex_pcv1\<lparr>p_mesh := ex_mesh t two, p_export := ex_export\<rparr>"
  shows "world_ok (cs_world (ex_convert_state t two))"
    "context_arrays (cs_world (ex_convert_state t two)) = Inr (''A'', p, ex_item1, ex_vs, ex_ns, ex_cs)"
    "dict_get (objects (cs_world (ex_convert_state t two))) ''A'' =
       Some ((ex_object p)\<lparr>ob_matrix_world := mat_translation (0, 0, 5)\<rparr>)"
    "ms_type (p_mesh p) = t" "ms_percentage (p_mesh p) = 100" "ms_use_instancer2 (p_mesh p) = two"
    "converted_points p ex_vs = ex_vs" "converted_points p ex_ns = ex_ns" "converted_points p ex_cs = ex_cs"
    "p_uuid p = ''u1''"
  using ex_moved_facts [of "ex_mesh t two" ex_export]
  by (simp_all add: ex_convert_state_def assms ex_mesh_def converted_points_def convert_count_def)

lemma ex_bl5_inverse:
  "bl_inverted ex_bl5 (mat_translation (0, 0, 5)) = Inr (mat_translation (0, 0, - 5))"
  "mat_apply (mat_translation (0, 0, 5)) (mat_apply (mat_translation (0, 0, - 5)) v) = v"
  by (simp_all add: ex_bl5_def v3_add_def)

theorem convert_to_vertices_witness:
  "\<exists>st' new. PCV_OT_convert ex_bl5 ex_mesh_env (\<lambda>_. Inr ()) (ex_convert_state ''VERTEX'' False) = (Finished, st') \<and>
     cs_objects st' = [plain_object new] \<and> world_verts new = [(0, 0, 5), (1, 0, 5), (0, 2, 5)]"
proof -
  note f = ex_convert_state_facts [OF refl, of "''VERTEX''" False]
  have "map (mat_apply (mat_translation (0, 0, 5))) ex_vs = [(0, 0, 5), (1, 0, 5), (0, 2, 5)]"
    by (simp add: ex_vs_def v3_add_def)
  then show ?thesis
    using convert_to_vertices [OF f(1,2) _ _ f(3) f(4), of ex_bl5 "mat_translation (0, 0, - 5)" ex_mesh_env "\<lambda>_. Inr ()"]
      ex_bl5_inverse f(5,7)
    by (auto simp: ex_convert_state_def)
qed

text \<open>Converting with \<open>PCMeshInstancer\<close> puts one copy of the generated mesh at the place of every
  converted point in the scene, turned by the point's normal turned with the object.\<close>

theorem convert_to_instances:
  assumes "world_ok (cs_world st)" "context_arrays (cs_world st) = Inr (n0, p, c, vs, ns, cs)"
    and "ci_ready c" "ci_draw c" "dict_get (objects (cs_world st)) n0 = Some ob"
    and "ms_type (p_mesh p) \<in> {''TRIANGLE'', ''TETRAHEDRON'', ''CUBE'', ''ICOSPHERE''}"
    and "\<not> ms_use_instancer2 (p_mesh p)" "0 \<le> ms_percentage (p_mesh p)" "ms_percentage (p_mesh p) \<le> 100"
    and "bl_inverted bl (ob_matrix_world ob) = Inr mi"
    and "\<And>v. mat_apply (ob_matrix_world ob) (mat_apply mi v) = v"
    and "quat_matrix_ok me" "bl_inverted bl (mat_scale (me_scale me mat_identity)) = Inr osm" "affine osm"
    and "\<And>v. mat_apply osm v = v"
    and "convert_generator (ms_type (p_mesh p)) = Inr g" "generator_generate g = (dv, de, df)"
  shows "\<exists>st' new. PCV_OT_convert bl me bake st = (Finished, st') \<and>
     cs_objects st' = cs_objects st @ [plain_object new] \<and>
     world_verts new = concat (map (\<lambda>(v, n, _). map (placed me (p_has_normals p \<and> ms_normal_align (p_mesh p))
         (ms_size (p_mesh p)) (v, n)) dv)
       (world_points bl (ob_matrix_world ob) (converted_points p vs) (converted_points p ns) (converted_points p cs)))"
proof -
  have t: "ms_type (p_mesh p) \<in> fst ` set convert_names" using assms(6) by (auto simp: convert_names_def)
  let ?vs = "converted_points p vs" and ?ns = "converted_points p ns" and ?cs = "converted_points p cs"
  let ?ps = "world_points bl (ob_matrix_world ob) ?vs ?ns ?cs"
  let ?a = "p_has_normals p \<and> ms_normal_align (p_mesh p)" and ?v = "p_has_vcols p \<and> ms_vcols (p_mesh p)"
  obtain g' n where g': "convert_generator (ms_type (p_mesh p)) = Inr g'"
    and run': "PCV_OT_convert bl me bake st = convert_object bl me bake p (ob_matrix_world ob)
       (convert_mesh bl me p n g' ?ps ?vs ?ns ?cs)
       (st\<lparr>cs_world := tag_redraw (upd_item (p_uuid p) (\<lambda>c. c\<lparr>ci_draw := False\<rparr>) (cs_world st))\<rparr>)"
    by (rule convert_run [OF assms(1-5) refl t assms(8,9), of bl me bake])
  have "g' = g" using g' assms(16) by simp
  note run = run' [unfolded this]
  obtain new where new: "PCMeshInstancer bl me n ?ps g mat_identity (ms_size (p_mesh p)) ?a ?v = Inr new"
    using instancer_succeeds [OF assms(17,13)] by blast
  have mesh: "convert_mesh bl me p n g ?ps ?vs ?ns ?cs = Inr new"
    using assms(6,7) new by (auto simp: convert_mesh_def Let_def)
  have verts: "mo_verts new = concat (map (\<lambda>(v, n, _). map (placed me ?a (ms_size (p_mesh p)) (v, n)) dv) ?ps)"
    by (rule instancer_copies(1) [OF assms(12,17,13-15) new])
  have "ms_type (p_mesh p) \<notin> {''INSTANCER'', ''PARTICLES''}" using assms(6) by auto
  from convert_finish [OF assms(1) context_arraysD(2) [OF assms(2)] run mesh assms(10,11) this]
  obtain st' ob' where "PCV_OT_convert bl me bake st = (Finished, st')"
      "cs_objects st' = cs_objects st @ [plain_object ob']" "world_verts ob' = mo_verts new"
    by blast
  then show ?thesis
    using verts by (intro exI [of _ st'] exI [of _ ob']) simp
qed

theorem convert_to_instances_witness:
  "\<exists>st' new. PCV_OT_convert ex_bl5 ex_mesh_env (\<lambda>_. Inr ()) (ex_convert_state ''CUBE'' False) = (Finished, st') \<and>
     cs_objects st' = [plain_object new] \<and> hd (world_verts new) = (1 / 2, 1 / 2, 9 / 2)"
proof -
  let ?p = "ex_pcv1\<lparr>p_mesh := ex_mesh ''CUBE'' False, p_export := ex_export\<rparr>"
  note f = ex_convert_state_facts [OF refl, of "''CUBE''" False]
  have inv: "bl_inverted ex_bl5 (mat_scale (me_scale ex_mesh_env mat_identity)) = Inr mat_identity"
    by (simp add: ex_bl5_def ex_bl_def ex_mesh_env_def mat_scale_def mat_identity_def mat_translation_def)
  have g: "convert_generator (ms_type (p_mesh ?p)) =
      Inr \<lparr>mg_type = ''CUBE'', mg_length = 1, mg_radius = 1, mg_subdivision = 2\<rparr>"
    by (subst convert_generator_eq) (simp_all add: ex_mesh_def convert_names_def)
  obtain dv de df where dv: "generator_generate \<lparr>mg_type = ''CUBE'', mg_length = 1, mg_radius = 1, mg_subdivision = 2\<rparr> =
      (dv, de, df)" by (metis prod_cases3)
  then have hd: "dv = (1 / 2, 1 / 2, - (1 / 2)) # tl dv"
    by (auto simp: generator_generate_def Let_def)
  have m: "ms_normal_align (p_mesh ?p) = False" "ms_size (p_mesh ?p) = 1"
    by (simp_all add: ex_mesh_def)
  have "hd (concat (map (\<lambda>(v, n, _). map (placed ex_mesh_env False 1 (v, n)) dv)
       (world_points ex_bl5 (mat_translation (0, 0, 5)) ex_vs ex_ns ex_cs))) = (1 / 2, 1 / 2, 9 / 2)"
    by (subst hd) (simp add: world_points_def ex_vs_def ex_ns_def ex_cs_def placed_def v3_add_def v3_scale_def)
  then show ?thesis
    using convert_to_instances [OF f(1,2) _ _ f(3) _ _ _ _ _ _ ex_quat_matrix_ok inv affine_basic(1) mat_apply_basic(1) g dv,
        of "mat_translation (0, 0, - 5)" "\<lambda>_. Inr ()"] ex_bl5_inverse f(4-9) m
    by (fastforce simp: ex_convert_state_def)
qed

text \<open>With \<open>PCMeshInstancer2\<close> the object's transformation is left out: the copies of a cloud that
  has been moved, turned or scaled are at the points' coordinates in the object's space, so
  the mesh is not where the cloud was.\<close>

theorem fast_conversion_ignores_matrix:
  assumes "world_ok (cs_world st)" "context_arrays (cs_world st) = Inr (n0, p, c, vs, ns, cs)"
    and "ci_ready c" "ci_draw c" "dict_get (objects (cs_world st)) n0 = Some ob"
    and "ms_type (p_mesh p) \<in> {''TRIANGLE'', ''TETRAHEDRON'', ''CUBE'', ''ICOSPHERE''}"
    and "ms_use_instancer2 (p_mesh p)" "0 \<le> ms_percentage (p_mesh p)" "ms_percentage (p_mesh p) \<le> 100"
    and "bl_inverted bl (ob_matrix_world ob) = Inr mi"
    and "\<And>v. mat_apply (ob_matrix_world ob) (mat_apply mi v) = v"
    and "quat_matrix_ok me" "bl_inverted bl (mat_scale (me_scale me mat_identity)) = Inr osm" "affine osm"
    and "\<And>v. mat_apply osm v = v"
    and "convert_generator (ms_type (p_mesh p)) = Inr g" "generator_generate g = (dv, de, df)"
    and "fst (me_triangulate me (dv, df)) = dv"
  shows "\<exists>st' new. PCV_OT_convert bl me bake st = (Finished, st') \<and>
     cs_objects st' = cs_objects st @ [plain_object new] \<and>
     world_verts new = concat (map (\<lambda>q. map (placed me (p_has_normals p \<and> ms_normal_align (p_mesh p))
         (ms_size (p_mesh p)) q) dv) (zip (converted_points p vs) (converted_points p ns)))"
proof -
  have t: "ms_type (p_mesh p) \<in> fst ` set convert_names" using assms(6) by (auto simp: convert_names_def)
  note len = context_arrays_lengths [OF assms(1,2)]
  let ?vs = "converted_points p vs" and ?ns = "converted_points p ns" and ?cs = "converted_points p cs"
  let ?ps = "world_points bl (ob_matrix_world ob) ?vs ?ns ?cs"
  let ?a = "p_has_normals p \<and> ms_normal_align (p_mesh p)" and ?v = "p_has_vcols p \<and> ms_vcols (p_mesh p)"
  obtain g' n where g': "convert_generator (ms_type (p_mesh p)) = Inr g'"
    and run': "PCV_OT_convert bl me bake st = convert_object bl me bake p (ob_matrix_world ob)
       (convert_mesh bl me p n g' ?ps ?vs ?ns ?cs)
       (st\<lparr>cs_world := tag_redraw (upd_item (p_uuid p) (\<lambda>c. c\<lparr>ci_draw := False\<rparr>) (cs_world st))\<rparr>)"
    by (rule convert_run [OF assms(1-5) refl t assms(8,9), of bl me bake])
  have "g' = g" using g' assms(16) by simp
  note run = run' [unfolded this]
  have "length ?ns = length ?vs" using len by (simp add: converted_points_def py_take_def)
  then obtain new where new: "PCMeshInstancer2 bl me n ?vs (Some ?ns) (Some ?cs) g mat_identity (ms_size (p_mesh p)) ?a ?v = Inr new"
    using instancer2_succeeds [OF assms(13)] by blast
  have mesh: "convert_mesh bl me p n g ?ps ?vs ?ns ?cs = Inr new"
    using assms(6,7) new by (auto simp: convert_mesh_def Let_def)
  have verts: "mo_verts new = concat (map (\<lambda>q. map (placed me ?a (ms_size (p_mesh p)) q) dv) (zip ?vs ?ns))"
    by (rule instancer2_copies [OF assms(12,17,18,13-15) new])
  have "ms_type (p_mesh p) \<notin> {''INSTANCER'', ''PARTICLES''}" using assms(6) by auto
  from convert_finish [OF assms(1) context_arraysD(2) [OF assms(2)] run mesh assms(10,11) this]
  obtain st' ob' where "PCV_OT_convert bl me bake st = (Finished, st')"
      "cs_objects st' = cs_objects st @ [plain_object ob']" "world_verts ob' = mo_verts new"
    by blast
  then show ?thesis
    using verts by (intro exI [of _ st'] exI [of _ ob']) simp
qed

theorem fast_conversion_ignores_matrix_witness:
  "\<exists>st' new. PCV_OT_convert ex_bl5 ex_mesh_env (\<lambda>_. Inr ()) (ex_convert_state ''CUBE'' True) = (Finished, st') \<and>
     cs_objects st' = [plain_object new] \<and> hd (world_verts new) = (1 / 2, 1 / 2, - 1 / 2)"
proof -
  let ?p = "ex_pcv1\<lparr>p_mesh := ex_mesh ''CUBE'' True, p_export := ex_export\<rparr>"
  note f = ex_convert_state_facts [OF refl, of "''CUBE''" True]
  have inv: "bl_inverted ex_bl5 (mat_scale (me_scale ex_mesh_env mat_identity)) = Inr mat_identity"
    by (simp add: ex_bl5_def ex_bl_def ex_mesh_env_def mat_scale_def mat_identity_def mat_translation_def)
  have g: "convert_generator (ms_type (p_mesh ?p)) =
      Inr \<lparr>mg_type = ''CUBE'', mg_length = 1, mg_radius = 1, mg_subdivision = 2\<rparr>"
    by (subst convert_generator_eq) (simp_all add: ex_mesh_def convert_names_def)
  obtain dv de df where dv: "generator_generate \<lparr>mg_type = ''CUBE'', mg_length = 1, mg_radius = 1, mg_subdivision = 2\<rparr> =
      (dv, de, df)" by (metis prod_cases3)
  then have hd: "dv = (1 / 2, 1 / 2, - (1 / 2)) # tl dv"
    by (auto simp: generator_generate_def Let_def)
  have tri: "fst (me_triangulate ex_mesh_env (dv, df)) = dv" by (simp add: ex_mesh_env_def)
  have m: "ms_normal_align (p_mesh ?p) = False" "ms_size (p_mesh ?p) = 1"
    by (simp_all add: ex_mesh_def)
  have "hd (concat (map (\<lambda>q. map (placed ex_mesh_env False 1 q) dv) (zip ex_vs ex_ns))) = (1 / 2, 1 / 2, - 1 / 2)"
    by (subst hd) (simp add: ex_vs_def ex_ns_def placed_def v3_add_def v3_scale_def)
  then show ?thesis
    using fast_conversion_ignores_matrix [OF f(1,2) _ _ f(3) _ _ _ _ _ _ ex_quat_matrix_ok inv affine_basic(1)
        mat_apply_basic(1) g dv tri, of "mat_translation (0, 0, - 5)" "\<lambda>_. Inr ()"] ex_bl5_inverse f(4-9) m
    by (fastforce simp: ex_convert_state_def)
qed

section \<open>Export\<close>

text \<open>C36: An exported cloud reads back: the file the operator leaves at the path, read by the PLY
  reader and converted as on loading, has the exported points in their order, with the
  transformations asked for applied to locations and normals, and every colour cut to 8 bit.\<close>

theorem export_reads_back:
  assumes "world_ok w" "context_arrays w = Inr (n0, p, c, vs, ns, cs)"
    and "ci_object c = Some n1" "dict_get (objects w) n1 = Some ob" "ex_use_viewport (p_export p)"
    and "export_transform bl ee (p_export p) (ob_matrix_world ob)
        (exported (p_export p) c vs, Some (exported (p_export p) c ns)) = (tvs, Some tns)"
    and "3 \<le> length (exported (p_export p) c vs)"
    and "codec_ok ne single" "\<forall>v\<in>set tvs \<union> set tns. single3 single v" "\<forall>col\<in>set cs. unit_color col"
  shows "\<exists>ss pp. PCV_OT_export ne bl ee path w fs = (Finished, ss) \<and> ss \<noteq> [] \<and>
     PlyPointCloudReader gen (last ss) path = Inr pp \<and>
     map (row_point ne pr (pp_points pp)) (pa_rows (pp_points pp)) =
       zip tvs (zip tns (map quantised (exported (p_export p) c cs)))"
  by (rule export_roundtrip [OF assms])

text \<open>A codec for the example: one byte, repeated for a float.\<close>

definition ex_codec :: num_env where
  "ex_codec = \<lparr>ne_val = (\<lambda>t s. case s of [] \<Rightarrow> 0 | ch # _ \<Rightarrow> real (of_char ch)),
     ne_enc = (\<lambda>t x. let ch = char_of (nat \<lfloor>x\<rfloor>) in if snd t = CHR ''f'' then [ch, ch, ch, ch] else [ch]), ne_little = True\<rparr>"

definition ex_single :: "real \<Rightarrow> bool" where
  "ex_single x \<longleftrightarrow> (\<exists>k. 0 \<le> k \<and> k < 256 \<and> x = real_of_int k)"

lemma ex_codec_ok: "codec_ok ex_codec ex_single"
  by (auto simp: codec_ok_def ex_codec_def ex_single_def native_f4_def uint8_def Let_def)

definition ex_export_env :: export_env where
  "ex_export_env = \<lparr>ee_axes = mat_identity, ee_common = hd\<rparr>"

theorem export_reads_back_witness:
  "\<exists>ss pp. PCV_OT_export ex_codec ex_bl5 ex_export_env ''o.ply'' (ex_moved (ex_mesh ''CUBE'' False) ex_export) ex_fs =
       (Finished, ss) \<and> PlyPointCloudReader (\<lambda>_ _ _ _. Inl IndexError) (last ss) ''o.ply'' = Inr pp \<and>
     map (row_point ex_codec ex_prefs (pp_points pp)) (pa_rows (pp_points pp)) =
       zip ex_vs (zip ex_ns (map quantised ex_cs))"
proof -
  note f = ex_moved_facts [of "ex_mesh ''CUBE'' False" ex_export]
  have flags: "\<not> ex_visible_only ex_export" "\<not> ex_apply_transformation ex_export" "\<not> ex_convert_axes ex_export"
    "ex_use_viewport ex_export"
    by (simp_all add: ex_export_def)
  have e: "exported ex_export ex_item1 xs = xs" for xs :: "'a list"
    using flags by (simp add: exported_def)
  have tr: "export_transform ex_bl5 ex_export_env ex_export m (ex_vs, Some ex_ns) = (ex_vs, Some ex_ns)" for m
    using flags by (simp add: export_transform_def)
  have k: "ex_single 0" "ex_single 1" "ex_single 2"
    unfolding ex_single_def by (rule exI [of _ 0], simp, rule exI [of _ 1], simp, rule exI [of _ 2], simp)
  have s: "\<forall>v\<in>set ex_vs \<union> set ex_ns. single3 ex_single v" "\<forall>col\<in>set ex_cs. unit_color col" "3 \<le> length ex_vs"
    by (simp_all add: ex_vs_def ex_ns_def ex_cs_def single3_def unit_color_def k)
  show ?thesis
    using export_reads_back [OF f(1,2) _ f(3), of ex_bl5 ex_export_env ex_vs ex_ns ex_codec ex_single "''o.ply''" ex_fs
        "\<lambda>_ _ _ _. Inl IndexError" ex_prefs] ex_codec_ok tr s flags
    by (fastforce simp: e)
qed

text \<open>A cloud of fewer than three points cannot be exported: the types of the file's fields are
  read off the first three rows, so the operator raises before it writes anything.\<close>

theorem export_needs_three_points:
  assumes "context_arrays w = Inr (n0, p, c, vs, ns, cs)" "ci_object c = Some n1" "dict_get (objects w) n1 = Some ob"
    and "ex_use_viewport (p_export p)" "length (exported (p_export p) c vs) < 3"
  shows "PCV_OT_export ne bl ee path w fs = (Raised IndexError, [])"
  by (rule export_too_small [OF assms])

theorem export_needs_three_points_witness:
  "PCV_OT_export ex_codec ex_bl ex_export_env ''o.ply'' (ex_world\<lparr>context_object := Some ''B''\<rparr>) ex_fs =
     (Raised IndexError, [])"
proof -
  let ?w = "ex_world\<lparr>context_object := Some ''B''\<rparr>" and ?p = "default_pcv\<lparr>p_uuid := ''u2''\<rparr>"
  have i: "ci_arrays ex_item2 = Inr ([(5, 5, 5)], [(0, 0, 1)], [(1, 1, 1, 1)])" "ci_object ex_item2 = Some ''B''"
    by (simp_all add: ex_item2_def ex_item_def ci_arrays_def)
  have "context_arrays ?w = Inr (''B'', ?p, ex_item2, [(5, 5, 5)], [(0, 0, 1)], [(1, 1, 1, 1)])"
    by (simp add: context_arrays_def context_pcv_def get_pcv_def i)
  moreover have "ex_use_viewport (p_export ?p)" "length (exported (p_export ?p) ex_item2 [(5, 5, 5)]) < 3"
    by (simp_all add: default_pcv_def exported_def)
  moreover have "dict_get (objects ?w) ''B'' = Some (ex_object ?p)" by simp
  ultimately show ?thesis
    using export_needs_three_points [OF _ i(2)] by blast
qed

end
