(* ===== verification/PCV_Sampler_Facts.thy ===== *)
theory PCV_Sampler_Facts
  imports PCV_Samplers PCV_Load_Facts
begin

text \<open>
  What the samplers promise: surface samples lie on the mesh, each face in proportion to its
  area; Poisson disk sampling ends and keeps its points apart; vertex and particle samplers
  give one point per vertex or particle; volume samples pass the inside tests.
\<close>

section \<open>What is relied on\<close>

text \<open>
  Random numbers in the unit interval and below a bound, shuffles that are permutations, a
  range search that finds the points within the radius, and an order of a set's elements.
\<close>

definition sampler_ok :: "'s sampler_env \<Rightarrow> bool" where
  "sampler_ok ev \<longleftrightarrow>
     (\<forall>s. 0 \<le> fst (sv_random ev s) \<and> fst (sv_random ev s) < 1) \<and>
     (\<forall>n s. 0 < n \<longrightarrow> fst (sv_below ev n s) < n) \<and>
     (\<forall>i. is_shuffle (sv_perm ev i)) \<and>
     (\<forall>vs c r. set (sv_range ev vs c r) = {i. i < length vs \<and> v3_distance (vs ! i) c \<le> r}) \<and>
     (\<forall>xs. set (sv_order ev xs) = set xs)"

lemma sampler_okD:
  assumes "sampler_ok ev"
  shows "sv_random ev s = (x, s') \<Longrightarrow> 0 \<le> x \<and> x < 1"
    and "0 < n \<Longrightarrow> sv_below ev n s = (i, s') \<Longrightarrow> i < n"
    and "is_shuffle (sv_perm ev k)"
    and "set (sv_range ev vs c r) = {i. i < length vs \<and> v3_distance (vs ! i) c \<le> r}"
    and "set (sv_order ev xs) = set xs"
proof -
  show "sv_random ev s = (x, s') \<Longrightarrow> 0 \<le> x \<and> x < 1"
    using assms by (metis sampler_ok_def fst_conv)
  show "0 < n \<Longrightarrow> sv_below ev n s = (i, s') \<Longrightarrow> i < n"
    using assms by (metis sampler_ok_def fst_conv)
  show "is_shuffle (sv_perm ev k)" "set (sv_order ev xs) = set xs"
    "set (sv_range ev vs c r) = {i. i < length vs \<and> v3_distance (vs ! i) c \<le> r}"
    using assms unfolding sampler_ok_def by blast+
qed

section \<open>Points per face\<close>

lemma remap_linear:
  assumes "lo \<noteq> hi \<or> v = lo"
  shows "remap v lo hi (k * lo) (k * hi) = k * v"
proof (cases "hi - lo = 0")
  case False
  have "k * lo + (k * hi - k * lo) * ((v - lo) / (hi - lo)) = k * lo + k * (v - lo)"
    using False by (simp add: field_simps)
  then show ?thesis using False by (simp add: remap_def algebra_simps)
qed (use assms in \<open>auto simp: remap_def\<close>)

lemma Min_Max_scale:
  assumes "xs \<noteq> []" "0 \<le> (k::real)"
  shows "Min (set (map (\<lambda>x. k * x) xs)) = k * Min (set xs)" "Max (set (map (\<lambda>x. k * x) xs)) = k * Max (set xs)"
  using assms by (auto intro!: mono_Min_commute [symmetric] mono_Max_commute [symmetric] monoI mult_left_mono)

text \<open>The interpolation between the smallest and the largest face is the identity.\<close>

lemma face_number_linear:
  assumes "xs \<noteq> []" "0 \<le> k" "a \<in> set xs"
  shows "face_number xs (map (\<lambda>x. k * x) xs) a = py_round (k * a)"
proof -
  have "Min (set xs) \<noteq> Max (set xs) \<or> a = Min (set xs)"
    using assms(3) by (metis List.finite_set Max_ge Min_le order_antisym)
  then show ?thesis
    by (simp only: face_number_def Min_Max_scale [OF assms(1,2)] remap_linear)
qed

lemma median_nonneg:
  assumes "xs \<noteq> []" "\<forall>x\<in>set xs. 0 \<le> x"
  shows "0 \<le> median xs"
proof -
  have "\<forall>x\<in>set (sort xs). 0 \<le> x" using assms(2) by simp
  then have nth: "0 \<le> sort xs ! i" if "i < length xs" for i
    using that by (metis length_sort nth_mem)
  have "length xs div 2 < length xs" "length xs div 2 - 1 < length xs"
    using assms(1) by (auto intro: less_imp_diff_less)
  then show ?thesis using nth by (simp add: median_def Let_def)
qed

definition samples_of_face :: "int \<Rightarrow> sample_face list \<Rightarrow> sample_face \<Rightarrow> int" where
  "samples_of_face n faces p =
     py_round (real_of_int n / real (length faces) / median (map sg_area faces) * sg_area p)"

lemma face_number_eq:
  assumes "face_shares n faces = Inr nums" "0 \<le> n" "\<forall>p\<in>set faces. 0 \<le> sg_area p" "p \<in> set faces"
  shows "face_number (map sg_area faces) nums (sg_area p) = samples_of_face n faces p"
proof -
  let ?k = "real_of_int n / real (length faces) / median (map sg_area faces)"
  have ne: "faces \<noteq> []" and nums: "nums = map (\<lambda>x. ?k * x) (map sg_area faces)"
    using assms(1) by (auto simp: face_shares_def Let_def split: if_splits)
  have "0 \<le> median (map sg_area faces)"
    using ne assms(3) by (intro median_nonneg) auto
  then have "0 \<le> ?k" using assms(2) by simp
  then show ?thesis
    unfolding nums samples_of_face_def using ne assms(4) by (intro face_number_linear) simp_all
qed

section \<open>Surface samples\<close>

definition in_triangle :: "v3 \<times> v3 \<times> v3 \<Rightarrow> v3 \<Rightarrow> bool" where
  "in_triangle t v \<longleftrightarrow>
     (case t of (a, b, c) \<Rightarrow> \<exists>x y z. 0 \<le> x \<and> 0 \<le> y \<and> 0 \<le> z \<and> x + y + z = 1 \<and>
        v = v3_add (v3_add (v3_scale x a) (v3_scale y b)) (v3_scale z c))"

lemma random_point_in_triangle:
  assumes "sampler_ok ev" "random_point_in_triangle ev tri s = (v, s')"
  shows "in_triangle tri v"
proof -
  obtain a b c where tri: "tri = (a, b, c)" by (metis prod_cases3)
  obtain r1 s1 where r1: "sv_random ev s = (r1, s1)" by fastforce
  obtain r2 s2 where r2: "sv_random ev s1 = (r2, s2)" by fastforce
  have u: "0 \<le> r1" "r1 < 1" "0 \<le> r2" "r2 < 1"
    using sampler_okD(1) [OF assms(1)] r1 r2 by blast+
  have v: "v = v3_add (v3_add (v3_scale (1 - sqrt r1) a) (v3_scale (sqrt r1 * (1 - r2)) b)) (v3_scale (sqrt r1 * r2) c)"
    using assms(2) by (simp add: random_point_in_triangle_def tri r1 r2)
  have "r2 * sqrt r1 \<le> sqrt r1" using u mult_right_mono [of r2 1 "sqrt r1"] by simp
  then have "0 \<le> 1 - sqrt r1" "0 \<le> sqrt r1 * (1 - r2)" "0 \<le> sqrt r1 * r2"
    "1 - sqrt r1 + sqrt r1 * (1 - r2) + sqrt r1 * r2 = 1"
    using u by (simp_all add: algebra_simps)
  then show ?thesis unfolding in_triangle_def tri v by blast
qed

text \<open>A sample on a face: its place, and the normal and colour that belong there.\<close>

definition sample_on :: "blender \<Rightarrow> string option \<Rightarrow> v3 \<Rightarrow> paint_source \<Rightarrow> sample_face \<Rightarrow> sample \<Rightarrow> bool" where
  "sample_on bl colorize const ps p x \<longleftrightarrow>
     (case x of (v, n, c) \<Rightarrow> in_triangle (fa_verts (sg_face p)) v \<and> n = sample_normal bl p v \<and>
        sample_color bl colorize const ps (sg_face p) v = Inr c)"

lemma generate_on:
  assumes "sampler_ok ev"
  shows "generate ev colorize const ps p n s = Inr (xs, s') \<Longrightarrow>
    \<forall>x\<in>set xs. sample_on (sv_bl ev) colorize const ps p x"
proof (induction n arbitrary: s xs s')
  case (Suc n)
  obtain v s1 where v: "random_point_in_triangle ev (fa_verts (sg_face p)) s = (v, s1)" by fastforce
  then obtain c ys where "sample_color (sv_bl ev) colorize const ps (sg_face p) v = Inr c"
    "generate ev colorize const ps p n s1 = Inr (ys, s')" "xs = (v, sample_normal (sv_bl ev) p v, c) # ys"
    using Suc.prems by (auto simp: bindE_eq_Inr)
  then show ?case
    using Suc.IH random_point_in_triangle [OF assms v] by (simp add: sample_on_def)
qed simp

lemma generate_faces_on:
  assumes "sampler_ok ev"
  shows "generate_faces ev colorize const ps number faces s = Inr (xs, s') \<Longrightarrow>
    (\<forall>x\<in>set xs. \<exists>p\<in>set faces. sample_on (sv_bl ev) colorize const ps p x) \<and>
    length xs = sum_list (map (\<lambda>p. nat (number (sg_area p))) faces)"
proof (induction faces arbitrary: s xs s')
  case (Cons p faces)
  then obtain ys s1 zs where ys: "generate ev colorize const ps p (nat (number (sg_area p))) s = Inr (ys, s1)"
    and zs: "generate_faces ev colorize const ps number faces s1 = Inr (zs, s')" "xs = ys @ zs"
    by (auto simp: bindE_eq_Inr)
  then show ?case
    using Cons.IH [OF zs(1)] generate_on [OF assms ys] generate_length [OF ys] by (simp add: ball_Un)
qed simp

lemma extra_samples_on:
  assumes "sampler_ok ev" "faces \<noteq> []"
    and "extra_samples ev colorize const ps faces n xs s = Inr (ys, s')"
    and "\<forall>x\<in>set xs. \<exists>p\<in>set faces. sample_on (sv_bl ev) colorize const ps p x"
  shows "(\<forall>x\<in>set ys. \<exists>p\<in>set faces. sample_on (sv_bl ev) colorize const ps p x) \<and> n \<le> int (length ys)"
  using assms
proof (induction ev colorize const ps faces n xs s arbitrary: ys s' rule: extra_samples.induct)
  case (1 ev colorize const ps faces n xs s)
  show ?case
  proof (cases "int (length xs) < n")
    case True
    obtain i s1 where i: "sv_below ev (length faces) s = (i, s1)" by fastforce
    then obtain zs s2 where zs: "generate ev colorize const ps (faces ! i) 1 s1 = Inr (zs, s2)"
      "extra_samples ev colorize const ps faces n (xs @ zs) s2 = Inr (ys, s')"
      using 1(4) True by (auto simp: extra_samples.simps [of _ _ _ _ _ _ xs] bindE_eq_Inr simp del: generate.simps)
    have "faces ! i \<in> set faces"
      using sampler_okD(2) [OF 1(2) _ i] 1(3) by simp
    then have "\<forall>x\<in>set (xs @ zs). \<exists>p\<in>set faces. sample_on (sv_bl ev) colorize const ps p x"
      using generate_on [OF 1(2) zs(1)] 1(5) by (metis Un_iff set_append)
    then show ?thesis
      by (rule 1(1) [OF True i [symmetric] zs(1) refl 1(2,3) zs(2)])
  next
    case False
    then have "ys = xs" using 1(4) by (simp add: extra_samples.simps [of _ _ _ _ _ _ xs])
    then show ?thesis using 1(5) False by simp
  qed
qed

lemma set_np_shuffle: "is_shuffle perm \<Longrightarrow> set (np_shuffle perm xs) = set xs"
  by (metis np_shuffle_mset set_mset_mset)

lemma set_py_take: "set (py_take l xs) \<subseteq> set xs"
  by (auto simp: py_take_def dest: in_set_takeD)

lemma surface_sampler:
  assumes ok: "sampler_ok ev" and n: "0 \<le> n" "\<forall>p\<in>set (sm_faces src). 0 \<le> sg_area p"
    and run: "PCVTriangleSurfaceSampler ev colorize const exact n src s = Inr (xs, s')"
  shows "xs \<noteq> []"
    and "\<forall>x\<in>set xs. \<exists>p\<in>set (sm_faces src). sample_on (sv_bl ev) colorize const (sm_paint src) p x"
    and "exact \<Longrightarrow> int (length xs) = n"
    and "\<not> exact \<Longrightarrow> length xs = sum_list (map (\<lambda>p. nat (samples_of_face n (sm_faces src) p)) (sm_faces src))"
proof -
  let ?on = "\<lambda>x. \<exists>p\<in>set (sm_faces src). sample_on (sv_bl ev) colorize const (sm_paint src) p x"
  obtain nums as s1 bs s2 where nums: "face_shares n (sm_faces src) = Inr nums"
    and as: "generate_faces ev colorize const (sm_paint src) (face_number (map sg_area (sm_faces src)) nums)
       (sm_faces src) s = Inr (as, s1)"
    and bs: "(if exact then extra_samples ev colorize const (sm_paint src) (sm_faces src) n as s1 else Inr (as, s1)) =
       Inr (bs, s2)"
    and out: "(let zs = (if exact \<and> n < int (length bs) then py_take n (np_shuffle (sv_perm ev 0) bs) else bs)
       in if zs = [] then Inl (Py_Exception no_points) else Inr (np_shuffle (sv_perm ev 1) zs, s2)) = Inr (xs, s')"
    using run unfolding PCVTriangleSurfaceSampler_def by (auto simp only: bindE_eq_Inr prod.case split_paired_Ex)
  have ne: "sm_faces src \<noteq> []" using nums by (auto simp: face_shares_def)
  define zs where "zs = (if exact \<and> n < int (length bs) then py_take n (np_shuffle (sv_perm ev 0) bs) else bs)"
  have zs: "zs \<noteq> []" "xs = np_shuffle (sv_perm ev 1) zs"
    using out unfolding zs_def [symmetric] Let_def by (auto split: if_splits)
  note sh = sampler_okD(3) [OF ok]
  note on = generate_faces_on [OF ok as]
  have b: "(\<forall>x\<in>set bs. ?on x) \<and> (exact \<longrightarrow> n \<le> int (length bs)) \<and> (\<not> exact \<longrightarrow> bs = as)"
    using extra_samples_on [OF ok ne _ conjunct1 [OF on]] bs on by (auto split: if_splits)
  have "set zs \<subseteq> set bs"
    using set_py_take [of n "np_shuffle (sv_perm ev 0) bs"] set_np_shuffle [OF sh, of 0 bs]
    by (simp add: zs_def)
  moreover have len: "length xs = length zs" "set xs = set zs"
    using zs(2) np_shuffle_length [OF sh, of 1 zs] set_np_shuffle [OF sh, of 1 zs] by simp_all
  ultimately show "\<forall>x\<in>set xs. ?on x" using b by blast
  show "xs \<noteq> []" using zs(1) len(1) by (cases xs) simp_all
  show "int (length xs) = n" if exact
    using that b n(1) len(1) np_shuffle_length [OF sh, of 0 bs]
    by (auto simp: zs_def length_py_take)
  show "length xs = sum_list (map (\<lambda>p. nat (samples_of_face n (sm_faces src) p)) (sm_faces src))" if "\<not> exact"
  proof -
    have "map (\<lambda>p. nat (face_number (map sg_area (sm_faces src)) nums (sg_area p))) (sm_faces src) =
        map (\<lambda>p. nat (samples_of_face n (sm_faces src) p)) (sm_faces src)"
      using face_number_eq [OF nums n] by simp
    then show ?thesis using that b on len(1) by (simp only: zs_def if_False simp_thms)
  qed
qed

section \<open>Poisson disk sampling\<close>

abbreviation sdist :: "sample \<Rightarrow> sample \<Rightarrow> real" where
  "sdist x y \<equiv> v3_distance (fst x) (fst y)"

lemma v3_distance_commute: "v3_distance a b = v3_distance b a"
  by (cases a; cases b) (simp add: v3_distance_def v3_length_def v3_sub_def v3_dot_def algebra_simps)

lemma v3_distance_self [simp]: "v3_distance a a = 0"
  by (cases a) (simp add: v3_distance_def v3_length_def v3_sub_def v3_dot_def)

text \<open>Points of which any two are more than \<open>d\<close> apart, whatever their order.\<close>

definition apart :: "real \<Rightarrow> sample multiset \<Rightarrow> bool" where
  "apart d A \<longleftrightarrow> (\<forall>x\<in>#A. \<forall>y\<in>#A - {#x#}. d < sdist x y)"

lemma apart_add_mset: "apart d (add_mset a A) \<longleftrightarrow> apart d A \<and> (\<forall>y\<in>#A. d < sdist a y)"
proof -
  have split: "add_mset a A - {#x#} = add_mset a (A - {#x#})" if "x \<in># A" for x
    using that by (metis add_mset_remove_trivial add_mset_remove_trivial_eq insert_DiffM diff_union_swap2)
  have "(\<forall>x\<in>#A. \<forall>y\<in>#add_mset a A - {#x#}. d < sdist x y) \<longleftrightarrow>
      (\<forall>x\<in>#A. d < sdist x a \<and> (\<forall>y\<in>#A - {#x#}. d < sdist x y))"
    using split by (metis (no_types, lifting) insert_iff set_mset_add_mset_insert)
  then show ?thesis
    by (auto simp: apart_def v3_distance_commute [of _ "fst a"])
qed

lemma apart_nth:
  assumes "apart d (mset xs)" "i < j" "j < length xs"
  shows "d < sdist (xs ! i) (xs ! j)"
proof -
  have "mset xs = add_mset (xs ! i) (mset (take i xs @ drop (Suc i) xs))"
    using assms(2,3) by (subst id_take_nth_drop [of i xs]) simp_all
  then have "mset xs - {#xs ! i#} = mset (take i xs @ drop (Suc i) xs)"
    by simp
  moreover have "xs ! j \<in> set (drop (Suc i) xs)"
    using assms(2,3) by (auto simp: in_set_conv_nth intro!: exI [of _ "j - Suc i"])
  ultimately show ?thesis
    using assms unfolding apart_def by simp
qed

lemma range_empty:
  assumes "sampler_ok ev"
  shows "sv_range ev (map fst xs) (fst a) d = [] \<longleftrightarrow> (\<forall>y\<in>set xs. d < sdist y a)"
proof -
  have "sv_range ev (map fst xs) (fst a) d = [] \<longleftrightarrow> {i. i < length xs \<and> sdist (xs ! i) a \<le> d} = {}"
    using sampler_okD(4) [OF assms, of "map fst xs" "fst a" d]
    by (metis (no_types, lifting) Collect_cong length_map nth_map set_empty)
  also have "\<dots> \<longleftrightarrow> (\<forall>y\<in>set xs. d < sdist y a)"
    by (auto simp: all_set_conv_all_nth not_le)
  finally show ?thesis .
qed

lemma add_candidates_facts:
  assumes ok: "sampler_ok ev" and d: "0 \<le> d"
  shows "add_candidates ev d acc cands ap = (cs', na) \<Longrightarrow> apart d (mset (cands @ acc)) \<Longrightarrow>
    apart d (mset (cs' @ acc)) \<and> set cands \<subseteq> set cs' \<and> set cs' \<subseteq> set cands \<union> set ap \<and>
    length cs' \<le> length cands + length ap \<and> (\<not> na \<longrightarrow> cs' = cands) \<and> (na \<longrightarrow> ap \<noteq> []) \<and>
    (\<forall>a\<in>set ap. \<exists>y\<in>set (cs' @ acc). sdist a y \<le> d)"
proof (induction ap arbitrary: cands cs' na)
  case (Cons a ap)
  let ?far = "\<forall>y\<in>set (cands @ acc). d < sdist y a"
  show ?case
  proof (cases ?far)
    case True
    then obtain na' where run: "add_candidates ev d acc (cands @ [a]) ap = (cs', na')" and na: na
      using Cons.prems(1) range_empty [OF ok, of "cands @ acc" a d] by (cases "add_candidates ev d acc (cands @ [a]) ap") auto
    have "apart d (mset ((cands @ [a]) @ acc))"
      using Cons.prems(2) True by (simp add: apart_add_mset v3_distance_commute [of "fst a"])
    note IH = Cons.IH [OF run this]
    then have "a \<in> set (cs' @ acc)" by simp
    then have near: "\<exists>y\<in>set (cs' @ acc). sdist a y \<le> d" using d by (intro bexI [of _ a]) simp_all
    show ?thesis
      using IH na near by (simp del: split_paired_All split_paired_Ex)
  next
    case False
    then have run: "add_candidates ev d acc cands ap = (cs', na)"
      using Cons.prems(1) range_empty [OF ok, of "cands @ acc" a d] by (simp split: if_splits)
    note IH = Cons.IH [OF run Cons.prems(2)]
    obtain y where y: "y \<in> set (cands @ acc)" "\<not> d < sdist y a" using False by blast
    have "set (cands @ acc) \<subseteq> set (cs' @ acc)" using IH by (simp add: le_supI1)
    then have near: "\<exists>y\<in>set (cs' @ acc). sdist a y \<le> d"
      using y by (intro bexI [of _ y]) (auto simp only: v3_distance_commute [of "fst a"] not_less)
    show ?thesis
      using IH near by (simp add: le_SucI subset_insertI2 del: split_paired_All split_paired_Ex)
  qed
qed auto

text \<open>Points that have not been used yet.\<close>

definition unused_points :: "bool list \<Rightarrow> nat" where
  "unused_points bs = length (filter id bs)"

lemma unused_points_use: "i < length bs \<Longrightarrow> bs ! i \<Longrightarrow> unused_points (bs[i := False]) + 1 = unused_points bs"
  by (induction bs arbitrary: i) (auto simp: unused_points_def nth_Cons' split: nat.splits)

lemma annulus_loop_facts:
  "annulus_loop pts is bs = (pool, bs') \<Longrightarrow> \<forall>i\<in>set is. i < length pts \<Longrightarrow> length bs = length pts \<Longrightarrow>
    length bs' = length bs \<and> unused_points bs' + length pool = unused_points bs \<and> set pool \<subseteq> set pts \<and>
    (\<forall>j<length pts. bs' ! j \<longleftrightarrow> bs ! j \<and> j \<notin> set is) \<and> (\<forall>j\<in>set is. bs ! j \<longrightarrow> pts ! j \<in> set pool)"
proof (induction "is" arbitrary: bs pool bs')
  case (Cons i "is")
  show ?case
  proof (cases "bs ! i")
    case True
    then obtain q where run: "annulus_loop pts is (bs[i := False]) = (q, bs')" "pool = pts ! i # q"
      using Cons.prems(1) by (auto split: prod.splits)
    have i: "i < length bs" "i < length pts" using Cons.prems by simp_all
    note IH = Cons.IH [OF run(1)]
    have "unused_points (bs[i := False]) + 1 = unused_points bs" using unused_points_use [OF i(1) True] .
    moreover have "j < length pts \<Longrightarrow> (bs[i := False]) ! j \<longleftrightarrow> bs ! j \<and> j \<noteq> i" for j
      using i Cons.prems(3) by (simp add: nth_list_update)
    ultimately show ?thesis
      using IH Cons.prems run(2) i by auto
  next
    case False
    then show ?thesis using Cons by auto
  qed
qed auto

lemma annulus_points_facts:
  assumes ok: "sampler_ok ev" and len: "length bs = length pts"
    and run: "annulus_points ev d pts bs c = (ap, bs')"
  shows "length bs' = length pts" "unused_points bs' + length ap = unused_points bs" "set ap \<subseteq> set pts"
    and "\<And>j. j < length pts \<Longrightarrow> bs' ! j \<Longrightarrow> bs ! j \<and> \<not> (d < sdist (pts ! j) c \<and> sdist (pts ! j) c \<le> d * 2)"
    and "\<And>j. j < length pts \<Longrightarrow> bs ! j \<Longrightarrow> \<not> bs' ! j \<Longrightarrow> pts ! j \<in> set ap"
proof -
  let ?r = "\<lambda>x. sv_range ev (map fst pts) (fst c) x"
  let ?is = "sv_order ev (filter (\<lambda>i. i \<notin> set (?r d)) (?r (d * 2)))"
  have "set ?is = {i. i < length pts \<and> d < sdist (pts ! i) c \<and> sdist (pts ! i) c \<le> d * 2}"
    unfolding sampler_okD(5) [OF ok] set_filter sampler_okD(4) [OF ok] by auto
  moreover have "annulus_loop pts ?is bs = (ap, bs')"
    using run by (simp add: annulus_points_def Let_def)
  moreover have "\<forall>i\<in>set ?is. i < length pts" using calculation(1) by simp
  ultimately have "length bs' = length bs \<and> unused_points bs' + length ap = unused_points bs \<and> set ap \<subseteq> set pts \<and>
    (\<forall>j<length pts. bs' ! j \<longleftrightarrow> bs ! j \<and> \<not> (d < sdist (pts ! j) c \<and> sdist (pts ! j) c \<le> d * 2)) \<and>
    (\<forall>j<length pts. bs ! j \<and> \<not> bs' ! j \<longrightarrow> pts ! j \<in> set ap)"
    using annulus_loop_facts [of pts ?is bs ap bs'] len by auto
  then show "length bs' = length pts" "unused_points bs' + length ap = unused_points bs" "set ap \<subseteq> set pts"
    "\<And>j. j < length pts \<Longrightarrow> bs' ! j \<Longrightarrow> bs ! j \<and> \<not> (d < sdist (pts ! j) c \<and> sdist (pts ! j) c \<le> d * 2)"
    "\<And>j. j < length pts \<Longrightarrow> bs ! j \<Longrightarrow> \<not> bs' ! j \<Longrightarrow> pts ! j \<in> set ap"
    using len by auto
qed

text \<open>
  The invariant of the rounds: candidates and accepted points are apart, every used point is
  near one of them, and around an accepted point all points of the ring are used.
\<close>

definition poisson_inv :: "real \<Rightarrow> sample list \<Rightarrow> bool list \<times> sample list \<times> sample list \<Rightarrow> bool" where
  "poisson_inv d pts st \<longleftrightarrow>
     (case st of (bs, cands, acc) \<Rightarrow>
        length bs = length pts \<and> apart d (mset (cands @ acc)) \<and> set (cands @ acc) \<subseteq> set pts \<and>
        (\<forall>i<length pts. \<not> bs ! i \<longrightarrow> (\<exists>y\<in>set (cands @ acc). sdist (pts ! i) y \<le> d)) \<and>
        (\<forall>c\<in>set acc. \<forall>i<length pts. bs ! i \<longrightarrow> \<not> (d < sdist (pts ! i) c \<and> sdist (pts ! i) c \<le> d * 2)))"

definition poisson_measure :: "bool list \<times> sample list \<times> sample list \<Rightarrow> nat" where
  "poisson_measure st = (case st of (bs, cands, acc) \<Rightarrow> 2 * unused_points bs + length cands)"

lemma poisson_round_facts:
  assumes ok: "sampler_ok ev" and d: "0 \<le> d" and inv: "poisson_inv d pts (bs, cands, acc)" and ne: "cands \<noteq> []"
    and run: "poisson_round ev d pts (bs, cands, acc) s = ((bs', cands', acc'), s')"
  shows "poisson_inv d pts (bs', cands', acc')"
    and "poisson_measure (bs', cands', acc') < poisson_measure (bs, cands, acc)"
    and "cands' = [] \<Longrightarrow> acc' \<noteq> []"
proof -
  obtain i s1 where i: "sv_below ev (length cands) s = (i, s1)" by fastforce
  obtain ap bs1 where ap: "annulus_points ev d pts bs (cands ! i) = (ap, bs1)" by fastforce
  obtain c1 na where c1: "add_candidates ev d acc cands ap = (c1, na)" by fastforce
  have mem: "cands ! i \<in> set cands" using sampler_okD(2) [OF ok _ i] ne by simp
  have out: "(bs', cands', acc') =
      (if na then (bs1, c1, acc) else (bs1, remove1 (cands ! i) c1, acc @ [cands ! i]))"
    using run i ap c1 by (cases na) (simp_all add: poisson_round_def Let_def)
  have I: "length bs = length pts" "apart d (mset (cands @ acc))" "set (cands @ acc) \<subseteq> set pts"
    "\<And>i. i < length pts \<Longrightarrow> \<not> bs ! i \<Longrightarrow> \<exists>y\<in>set (cands @ acc). sdist (pts ! i) y \<le> d"
    "\<And>c i. c \<in> set acc \<Longrightarrow> i < length pts \<Longrightarrow> bs ! i \<Longrightarrow> \<not> (d < sdist (pts ! i) c \<and> sdist (pts ! i) c \<le> d * 2)"
    using inv unfolding poisson_inv_def prod.case by blast+
  note A = annulus_points_facts [OF ok I(1) ap] and C = add_candidates_facts [OF ok d c1 I(2)]
  have kept: "na \<or> c1 = cands" "set cands \<subseteq> set c1" "\<And>a. a \<in> set ap \<Longrightarrow> \<exists>y\<in>set (c1 @ acc). sdist a y \<le> d"
    using C by blast+
  have ms: "mset (cands' @ acc') = mset (c1 @ acc)"
    using out mem kept(1) by (cases na) simp_all
  then have st: "set (cands' @ acc') = set (c1 @ acc)" by (metis set_mset_mset)
  have bs': "bs' = bs1" and acc': "acc' = acc \<or> acc' = acc @ [cands ! i]"
    using out by (cases na; simp)+
  have used: "\<exists>y\<in>set (cands' @ acc'). sdist (pts ! j) y \<le> d" if "j < length pts" "\<not> bs1 ! j" for j
  proof (cases "bs ! j")
    case True
    then show ?thesis unfolding st using kept(3) [OF A(5) [OF that(1) _ that(2)]] by blast
  next
    case False
    then show ?thesis unfolding st using I(4) [OF that(1)] kept(2) by (simp only: set_append) blast
  qed
  have ring: "\<not> (d < sdist (pts ! j) c \<and> sdist (pts ! j) c \<le> d * 2)"
    if "c \<in> set acc'" "j < length pts" "bs1 ! j" for c j
  proof -
    have "c \<in> set acc \<or> c = cands ! i" using acc' that(1) by (elim disjE) (simp, simp, blast)
    then show ?thesis using A(4) [OF that(2,3)] I(5) [OF _ that(2)] by blast
  qed
  show "poisson_inv d pts (bs', cands', acc')"
    unfolding poisson_inv_def prod.case
  proof (intro conjI)
    show "apart d (mset (cands' @ acc'))" using C ms by simp
    have "set c1 \<subseteq> set cands \<union> set ap" using C by blast
    then show "set (cands' @ acc') \<subseteq> set pts" unfolding st using A(3) I(3) by (simp only: set_append) blast
  qed (use bs' A(1) used ring in blast)+
  show "poisson_measure (bs', cands', acc') < poisson_measure (bs, cands, acc)"
  proof (cases na)
    case True
    then have "ap \<noteq> []" "length cands' \<le> length cands + length ap" using C out by simp_all
    then show ?thesis using A(2) bs' by (cases ap) (auto simp: poisson_measure_def)
  next
    case False
    then have "cands' = remove1 (cands ! i) cands" using kept(1) out by simp
    then have "length cands' < length cands"
      using mem ne by (simp add: length_remove1)
    then show ?thesis using A(2) bs' by (simp add: poisson_measure_def)
  qed
  show "acc' \<noteq> []" if "cands' = []"
    using that out kept(2) ne by (cases na) simp_all
qed

lemma poisson_loop_ends:
  assumes ok: "sampler_ok ev" and d: "0 \<le> d"
  shows "poisson_inv d pts (bs, cands, acc) \<Longrightarrow> cands \<noteq> [] \<Longrightarrow>
    \<exists>bs' acc' s'. poisson_loop ev d pts (bs, cands, acc) s = Some (acc', s') \<and> acc' \<noteq> [] \<and>
      poisson_inv d pts (bs', [], acc')"
proof (induction "poisson_measure (bs, cands, acc)" arbitrary: bs cands acc s rule: less_induct)
  case less
  obtain st1 s1 where "poisson_round ev d pts (bs, cands, acc) s = (st1, s1)" by fastforce
  then obtain bs1 c1 a1 where run: "poisson_round ev d pts (bs, cands, acc) s = ((bs1, c1, a1), s1)"
    by (cases st1) auto
  note F = poisson_round_facts [OF ok d less.prems run]
  show ?case
  proof (cases "c1 = []")
    case True
    then show ?thesis using run F by (subst poisson_loop.simps) auto
  next
    case False
    then show ?thesis using run less.hyps [OF F(2,1) False, of s1] by (subst poisson_loop.simps) simp
  qed
qed

text \<open>
  Sampling ends; the points are among those given, apart, and leave no gap: a given point
  within \<open>2 d\<close> of a chosen one is within \<open>d\<close> of a chosen one.
\<close>

lemma poisson_select_spec:
  assumes ok: "sampler_ok ev" and d: "0 \<le> d" and ne: "pts \<noteq> []"
  shows "\<exists>xs s'. poisson_select ev d pts s = Some (xs, s') \<and> xs \<noteq> [] \<and> set xs \<subseteq> set pts \<and> apart d (mset xs) \<and>
    (\<forall>p\<in>set pts. (\<exists>x\<in>set xs. sdist p x \<le> d * 2) \<longrightarrow> (\<exists>x\<in>set xs. sdist p x \<le> d))"
proof -
  let ?b = "replicate (length pts) True"
  obtain i s1 where i: "sv_below ev (length pts) s = (i, s1)" by fastforce
  then have less: "i < length pts" using sampler_okD(2) [OF ok] ne by blast
  have rp: "random_point ev ?b s = Some (i, ?b[i := False], s1)"
    using i less by (subst random_point.simps) simp
  have "poisson_inv d pts (?b[i := False], [pts ! i], [])"
    using less d by (simp add: poisson_inv_def apart_def nth_list_update)
  then obtain bs' xs s' where run: "poisson_loop ev d pts (?b[i := False], [pts ! i], []) s1 = Some (xs, s')"
    and xs: "xs \<noteq> []" "poisson_inv d pts (bs', [], xs)"
    using poisson_loop_ends [OF ok d, of pts "?b[i := False]" "[pts ! i]" "[]" s1] by blast
  have I: "apart d (mset xs)" "set xs \<subseteq> set pts"
    "\<And>i. i < length pts \<Longrightarrow> \<not> bs' ! i \<Longrightarrow> \<exists>y\<in>set xs. sdist (pts ! i) y \<le> d"
    "\<And>c i. c \<in> set xs \<Longrightarrow> i < length pts \<Longrightarrow> bs' ! i \<Longrightarrow> \<not> (d < sdist (pts ! i) c \<and> sdist (pts ! i) c \<le> d * 2)"
    using xs(2) unfolding poisson_inv_def prod.case append_Nil by blast+
  have "\<exists>x\<in>set xs. sdist p x \<le> d" if p: "p \<in> set pts" and x: "x \<in> set xs" "sdist p x \<le> d * 2" for p x
  proof -
    obtain i where "i < length pts" "p = pts ! i" using p by (metis in_set_conv_nth)
    then show ?thesis using I(3) I(4) [OF x(1)] x not_less by blast
  qed
  then have "\<forall>p\<in>set pts. (\<exists>x\<in>set xs. sdist p x \<le> d * 2) \<longrightarrow> (\<exists>x\<in>set xs. sdist p x \<le> d)"
    by blast
  moreover have "poisson_select ev d pts s = Some (xs, s')"
    using rp run by (simp add: poisson_select_def)
  ultimately show ?thesis
    using I(1,2) xs(1) by blast
qed

section \<open>Vertices and particles\<close>

definition place_normal :: "sample \<Rightarrow> v3 \<times> v3" where
  "place_normal x = (fst x, fst (snd x))"

lemma mapE_samples:
  "mapE (\<lambda>x. bindE (f x) (\<lambda>c. Inr (p x, q x, c))) xs = Inr ys \<Longrightarrow> map place_normal ys = map (\<lambda>x. (p x, q x)) xs"
proof (induction xs arbitrary: ys)
  case (Cons x xs)
  then obtain c zs where "ys = (p x, q x, c) # zs"
    "mapE (\<lambda>x. bindE (f x) (\<lambda>c. Inr (p x, q x, c))) xs = Inr zs"
    by (auto simp: bindE_eq_Inr simp del: split_paired_Ex)
  then show ?case using Cons.IH by (simp add: place_normal_def)
qed simp

lemma shuffle_samples:
  assumes "sampler_ok ev" "map place_normal ys = zs"
  shows "mset (map place_normal (np_shuffle (sv_perm ev k) ys)) = mset zs"
  using np_shuffle_mset [OF sampler_okD(3) [OF assms(1)], of k ys] assms(2) by (metis mset_map)

lemma vertex_sampler:
  assumes ok: "sampler_ok ev" and run: "PCVVertexSampler ev colorize const src = Inr xs"
  shows "mset (map place_normal xs) = mset (map (\<lambda>v. (vt_co v, vt_normal v)) (sm_verts src))"
proof -
  obtain ys where ys: "mapE (\<lambda>v. bindE (vertex_color (sv_bl ev) colorize const (sm_paint src) v) (\<lambda>c.
      Inr (vt_co v, vt_normal v, c))) (sm_verts src) = Inr ys" "xs = np_shuffle (sv_perm ev 0) ys"
    using run unfolding PCVVertexSampler_def by (simp only: bindE_eq_Inr sum.simps split: if_splits; blast)
  show ?thesis
    unfolding ys(2) by (rule shuffle_samples [OF ok mapE_samples [OF ys(1)]])
qed

lemma particle_sampler:
  assumes ok: "sampler_ok ev" and run: "PCVParticleSystemSampler ev alive_only colorize const src = Inr xs"
  obtains ps where "sm_particles src = Some ps"
    and "mset (map place_normal xs) = mset (map (\<lambda>p. (pl_location p, v3_normalized (pl_rotate p (1, 0, 0))))
           (filter (\<lambda>p. pl_alive p \<or> \<not> alive_only) ps))"
    and "xs \<noteq> []"
proof -
  obtain ps where ps: "sm_particles src = Some ps"
    using run by (cases "sm_particles src") (simp_all add: PCVParticleSystemSampler_def)
  let ?alive = "filter (\<lambda>p. pl_alive p \<or> \<not> alive_only) ps"
  obtain ys where ne: "ps \<noteq> []" "\<not> (alive_only \<and> \<not> list_ex pl_alive ps)"
    and ys: "mapE (\<lambda>p. bindE (particle_color ev colorize const (sm_paint src) (sm_polys src) p) (\<lambda>c.
        Inr (pl_location p, v3_normalized (pl_rotate p (1, 0, 0)), c))) ?alive = Inr ys" "xs = np_shuffle (sv_perm ev 0) ys"
    using run unfolding PCVParticleSystemSampler_def ps option.case
    by (simp only: bindE_eq_Inr sum.simps split: if_splits; blast)
  have eq: "mset (map place_normal xs) = mset (map (\<lambda>p. (pl_location p, v3_normalized (pl_rotate p (1, 0, 0)))) ?alive)"
    unfolding ys(2) by (rule shuffle_samples [OF ok mapE_samples [OF ys(1)]])
  have "?alive \<noteq> []"
    using ne by (cases alive_only) (auto simp: filter_empty_conv list_ex_iff)
  then have "xs \<noteq> []" using arg_cong [OF eq, of size] by auto
  with that ps eq show thesis by blast
qed

section \<open>Volume samples\<close>

text \<open>From this state of the generator a sample that passes the tests will be drawn.\<close>

inductive finds_sample :: "'s sampler_env \<Rightarrow> volume \<Rightarrow> 's \<Rightarrow> bool" for ev ob where
  find_now: "volume_sample ev (max_values (vo_bbox ob)) s = (a, s1) \<Longrightarrow> inside_tests ob a = Some (Some n) \<Longrightarrow>
     finds_sample ev ob s"
| find_later: "volume_sample ev (max_values (vo_bbox ob)) s = (a, s1) \<Longrightarrow> inside_tests ob a = Some None \<Longrightarrow>
     finds_sample ev ob s1 \<Longrightarrow> finds_sample ev ob s"

definition in_box :: "v3 \<times> v3 \<Rightarrow> v3 \<Rightarrow> bool" where
  "in_box box v \<longleftrightarrow>
     (case (box, v) of (((x0, y0, z0), (x1, y1, z1)), (x, y, z)) \<Rightarrow>
        x0 \<le> x \<and> x \<le> x1 \<and> y0 \<le> y \<and> y \<le> y1 \<and> z0 \<le> z \<and> z \<le> z1)"

text \<open>A point of the volume: white, in the box, passing the tests, with the normal they give.\<close>

definition volume_point :: "volume \<Rightarrow> sample \<Rightarrow> bool" where
  "volume_point ob x \<longleftrightarrow>
     (case x of (v, n, c) \<Rightarrow> in_box (max_values (vo_bbox ob)) v \<and> inside_tests ob v = Some (Some n) \<and> c = (1, 1, 1))"

lemma sort_hd_last: "(xs :: real list) \<noteq> [] \<Longrightarrow> hd (sort xs) \<le> last (sort xs)"
  by (metis hd_conv_nth last_conv_nth length_greater_0_conv length_sort less_imp_diff_less
      diff_less le0 sorted_nth_mono sorted_sort zero_less_one set_sort set_empty)

lemma remap_between:
  assumes "0 \<le> x" "x < 1" "lo \<le> hi"
  shows "lo \<le> remap x 0 1 lo hi" "remap x 0 1 lo hi \<le> hi"
proof -
  have "0 \<le> (hi - lo) * x" "(hi - lo) * x \<le> hi - lo"
    using assms mult_left_mono [of x 1 "hi - lo"] by simp_all
  then show "lo \<le> remap x 0 1 lo hi" "remap x 0 1 lo hi \<le> hi" by (simp_all add: remap_def)
qed

lemma volume_sample_in_box:
  assumes ok: "sampler_ok ev" and "vo_bbox ob \<noteq> []"
    and run: "volume_sample ev (max_values (vo_bbox ob)) s = (a, s')"
  shows "in_box (max_values (vo_bbox ob)) a"
proof -
  obtain rx s1 where 1: "sv_random ev s = (rx, s1)" by fastforce
  obtain ry s2 where 2: "sv_random ev s1 = (ry, s2)" by fastforce
  obtain rz s3 where 3: "sv_random ev s2 = (rz, s3)" by fastforce
  note u = sampler_okD(1) [OF ok 1] sampler_okD(1) [OF ok 2] sampler_okD(1) [OF ok 3]
  have "hd (sort (map f (vo_bbox ob))) \<le> last (sort (map f (vo_bbox ob)))" for f :: "v3 \<Rightarrow> real"
    using assms(2) by (intro sort_hd_last) simp
  then show ?thesis
    using run u unfolding max_values_def Let_def volume_sample_def
    by (auto simp: 1 2 3 in_box_def intro!: remap_between)
qed

lemma volume_loop_next:
  assumes ok: "sampler_ok ev" and box: "vo_bbox ob \<noteq> []"
  shows "finds_sample ev ob s \<Longrightarrow> int (length xs) < n \<Longrightarrow>
    \<exists>x s'. volume_point ob x \<and> volume_loop ev ob n xs s = volume_loop ev ob n (xs @ [x]) s'"
proof (induction rule: finds_sample.induct)
  case (find_now s a s1 nor)
  then have "volume_point ob (a, nor, (1, 1, 1))"
    using volume_sample_in_box [OF ok box find_now(1)] by (simp add: volume_point_def)
  moreover have "volume_loop ev ob n xs s = volume_loop ev ob n (xs @ [(a, nor, (1, 1, 1))]) s1"
    using find_now by (subst volume_loop.simps) simp
  ultimately show ?case by blast
next
  case (find_later s a s1)
  then have "volume_loop ev ob n xs s = volume_loop ev ob n xs s1"
    by (subst volume_loop.simps) simp
  with find_later show ?case by simp
qed

lemma volume_loop_ends:
  assumes ok: "sampler_ok ev" "vo_bbox ob \<noteq> []" "\<And>s. finds_sample ev ob s"
  shows "\<exists>ys s'. volume_loop ev ob n xs s = Some (xs @ ys, s') \<and>
     length ys = nat (n - int (length xs)) \<and> (\<forall>y\<in>set ys. volume_point ob y)"
proof (induction "nat (n - int (length xs))" arbitrary: xs s)
  case 0
  then have "volume_loop ev ob n xs s = Some (xs @ [], s)" by (subst volume_loop.simps) simp
  then show ?case using 0 by (intro exI [of _ "[]"]) simp
next
  case (Suc k)
  then have "int (length xs) < n" by simp
  then obtain x s1 where x: "volume_point ob x" "volume_loop ev ob n xs s = volume_loop ev ob n (xs @ [x]) s1"
    using volume_loop_next [OF ok(1,2) ok(3)] by blast
  have "k = nat (n - int (length (xs @ [x])))" using Suc.hyps(2) by simp
  from Suc.hyps(1) [OF this, of s1] obtain ys s' where
    "volume_loop ev ob n (xs @ [x]) s1 = Some ((xs @ [x]) @ ys, s')" "length ys = k" "\<forall>y\<in>set ys. volume_point ob y"
    by (metis \<open>k = nat (n - int (length (xs @ [x])))\<close>)
  then show ?case
    using x Suc.hyps(2) by (intro exI [of _ "x # ys"] exI [of _ s']) simp
qed

text \<open>Where no sample passes the tests the loop does not end.\<close>

lemma volume_loop_diverges:
  assumes "\<And>a. inside_tests ob a = Some None" "int (length xs) < n"
  shows "volume_loop ev ob n xs s = None"
proof -
  have "(\<forall>a. inside_tests ob a = Some None) \<longrightarrow> n \<le> int (length xs)" if "volume_loop ev ob n xs s = Some y" for y
  proof (rule volume_loop.raw_induct [OF _ that,
          where P = "\<lambda>ev ob n xs s y. (\<forall>a. inside_tests ob a = Some None) \<longrightarrow> n \<le> int (length xs)"],
      intro impI, rule ccontr)
    fix loop and ev' :: "'a sampler_env" and ob n xs s y
    assume IH: "\<And>ev ob n xs s y. loop ev ob n xs s = Some y \<Longrightarrow>
        (\<forall>a. inside_tests ob a = Some None) \<longrightarrow> n \<le> int (length xs)"
      and body: "(if int (length xs) < n
         then case volume_sample ev' (max_values (vo_bbox ob)) s of (a, s1) \<Rightarrow>
                case inside_tests ob a of None \<Rightarrow> None | Some None \<Rightarrow> loop ev' ob n xs s1
                | Some (Some normal) \<Rightarrow> loop ev' ob n (xs @ [(a, normal, 1, 1, 1)]) s1
         else Some (xs, s)) = Some y"
      and none: "\<forall>a. inside_tests ob a = Some None" and less: "\<not> n \<le> int (length xs)"
    obtain a s1 where "volume_sample ev' (max_values (vo_bbox ob)) s = (a, s1)" by fastforce
    then have "loop ev' ob n xs s1 = Some y" using body none less by (simp add: not_le)
    with IH none less show False by blast
  qed
  then show ?thesis using assms not_less by (metis not_None_eq)
qed

end
