(* ===== verification/PCV_Generate_Facts.thy ===== *)
theory PCV_Generate_Facts
  imports PCV_Sampler_Facts
begin

text \<open>
  The generate operators: the points of the sampler are drawn on the object and nothing else
  in the cache changes, apart from the old cloud that is hidden; a sampler that raises is
  reported and leaves the cache alone.
\<close>

section \<open>Drawing the samples\<close>

lemma init_frame [simp]:
  "cache (PCVControl_init w) = cache w" "get_pcv (PCVControl_init w) n = get_pcv w n"
  "prefs (PCVControl_init w) = prefs w"
  by (simp_all add: PCVControl_init_def PCVManager_init_def get_pcv_def)

text \<open>
  What is in the cache after the points have been drawn on an object: under \<open>k\<close> the points,
  elsewhere what was there.
\<close>

definition drawn :: "sample list \<Rightarrow> string \<Rightarrow> string \<Rightarrow> (string, cache_item) dict \<Rightarrow> world \<Rightarrow> bool" where
  "drawn xs n0 k d w' \<longleftrightarrow>
     (\<exists>c. dict_get (cache w') k = Some c \<and> ci_draw c \<and> ci_vertices c = Some (map fst xs) \<and>
        ci_normals c = Some (map (\<lambda>x. fst (snd x)) xs) \<and>
        ci_colors c = Some (map (\<lambda>x. with_alpha (snd (snd x))) xs)) \<and>
     map_option p_uuid (get_pcv w' n0) = Some k \<and>
     (\<forall>j. j \<noteq> k \<longrightarrow> dict_get (cache w') j = dict_get d j)"

text \<open>The object's old cloud is hidden first when it is shown.\<close>

definition hidden :: "string \<Rightarrow> world \<Rightarrow> (string, cache_item) dict" where
  "hidden u w = (if shown w u then cache (upd_item u (\<lambda>c. c\<lparr>ci_draw := False\<rparr>) w) else cache w)"

lemma draw_direct:
  assumes p: "get_pcv w n0 = Some p" and xs: "xs \<noteq> []"
  shows "\<exists>w' k. status_of (PCVControl_draw ne u n0 (Some (map fst xs)) (Some (map (\<lambda>x. fst (snd x)) xs))
      (Some (map (\<lambda>x. snd (snd x)) xs)) (PCVControl_init w)) = (Finished, w') \<and>
    k \<in> {p_uuid p, u} \<and> drawn xs n0 k (cache w) w'"
proof -
  obtain points where prep: "PCVControl_prepare ne (prefs (PCVControl_init w)) (Some (map fst xs))
      (Some (map (\<lambda>x. fst (snd x)) xs)) (Some (map (\<lambda>x. snd (snd x)) xs)) =
      Inr (map fst xs, map (\<lambda>x. fst (snd x)) xs, map with_alpha (map (\<lambda>x. snd (snd x)) xs), points, True, True)"
    using prepare_some [of "map fst xs" "map (\<lambda>x. fst (snd x)) xs" "map (\<lambda>x. snd (snd x)) xs" ne] xs by auto
  have "get_pcv (PCVControl_init w) n0 = Some p" using p by simp
  from PCVControl_draw_some [OF this prep, of u] obtain w' k c where
    run: "PCVControl_draw ne u n0 (Some (map fst xs)) (Some (map (\<lambda>x. fst (snd x)) xs))
      (Some (map (\<lambda>x. snd (snd x)) xs)) (PCVControl_init w) = (Inr (), w')"
    and k: "k = (if p_uuid p \<noteq> '''' \<and> p_runtime p \<and> dict_get (cache (PCVControl_init w)) (p_uuid p) \<noteq> None
      then p_uuid p else u)"
    and c: "dict_get (cache w') k = Some c" "ci_draw c" "ci_vertices c = Some (map fst xs)"
      "ci_normals c = Some (map (\<lambda>x. fst (snd x)) xs)"
      "ci_colors c = Some (map with_alpha (map (\<lambda>x. snd (snd x)) xs))"
    and rest: "map_option p_uuid (get_pcv w' n0) = Some k"
      "\<forall>j. j \<noteq> k \<longrightarrow> dict_get (cache w') j = dict_get (cache (PCVControl_init w)) j"
    by blast
  have "drawn xs n0 k (cache w) w'" using c rest by (simp add: drawn_def o_def)
  moreover have "k \<in> {p_uuid p, u}" using k by simp
  ultimately show ?thesis using run by (intro exI [of _ w'] exI [of _ k]) simp
qed

lemma draw_samples_spec:
  assumes ctx: "context_pcv w = Some (n0, p)" and wf: "cache_wf w" and xs: "xs \<noteq> []"
  shows "\<exists>w' k. draw_samples ne u n0 xs w = (Finished, w') \<and> k \<in> {p_uuid p, u} \<and>
     drawn xs n0 k (hidden (p_uuid p) w) w'"
proof -
  have p: "get_pcv w n0 = Some p" using ctx by (auto simp: context_pcv_def split: option.splits)
  show ?thesis
  proof (cases "shown w (p_uuid p)")
    case False
    then show ?thesis using draw_direct [OF p xs, of ne u] p by (simp add: draw_samples_def Let_def hidden_def)
  next
    case True
    then obtain k v where "(k, v) \<in> set (cache w)" "ci_uuid v = Some (p_uuid p)" "ci_ready v" "ci_draw v"
      by (auto simp: shown_def)
    moreover from this have "k = p_uuid p" "dict_get (cache w) k = Some v"
      using wf by (auto simp: cache_wf_def dict_get_mem)
    ultimately have v: "dict_get (cache w) (p_uuid p) = Some v" "ci_ready v" "ci_draw v" by simp_all
    let ?w = "tag_redraw (upd_item (p_uuid p) (\<lambda>c. c\<lparr>ci_draw := False\<rparr>) w)"
    have "bpy_op PCV_OT_erase_poll PCV_OT_erase w = (Finished, ?w)"
      using erase_current [OF ctx wf v] .
    then have run: "draw_samples ne u n0 xs w = status_of (PCVControl_draw ne u n0 (Some (map fst xs))
        (Some (map (\<lambda>x. fst (snd x)) xs)) (Some (map (\<lambda>x. snd (snd x)) xs)) (PCVControl_init ?w))"
      using True p by (simp add: draw_samples_def Let_def)
    have "get_pcv ?w n0 = Some p" using p by simp
    from draw_direct [OF this xs, of ne u] run obtain w' k where
      w': "draw_samples ne u n0 xs w = (Finished, w')" "k \<in> {p_uuid p, u}" "drawn xs n0 k (cache ?w) w'" by auto
    then show ?thesis using True unfolding hidden_def by auto
  qed
qed

section \<open>The operators\<close>

lemma generate_draws:
  assumes ctx: "context_pcv w = Some (n0, p)" and wf: "cache_wf w"
    and ob: "dict_get (objects w) n0 = Some ob" "generate_refused (ob_type ob) (p_generate p) = None"
    and pts: "generate_points ev (src n0) (p_generate p) = Some (Inr xs)" "xs \<noteq> []"
  shows "\<exists>w' k. PCV_OT_generate_point_cloud ev ne u src w = Some (Finished, w') \<and> k \<in> {p_uuid p, u} \<and>
     drawn xs n0 k (hidden (p_uuid p) w) w'"
proof -
  have c: "context_object w = Some n0" "ob_pcv ob = p"
    using ctx ob(1) by (auto simp: context_pcv_def get_pcv_def split: option.splits)
  show ?thesis
    using draw_samples_spec [OF ctx wf pts(2), of ne u] c ob pts(1)
    by (simp add: PCV_OT_generate_point_cloud_def Let_def)
qed

lemma generate_reports:
  assumes "context_object w = Some n0" "dict_get (objects w) n0 = Some ob"
    and "generate_refused (ob_type ob) (p_generate (ob_pcv ob)) = Some msg \<or>
      generate_refused (ob_type ob) (p_generate (ob_pcv ob)) = None \<and>
      generate_points ev (src n0) (p_generate (ob_pcv ob)) = Some (Inl msg)"
  shows "PCV_OT_generate_point_cloud ev ne u src w = Some (Cancelled, report ''ERROR'' msg w)"
  using assms by (auto simp: PCV_OT_generate_point_cloud_def Let_def)

text \<open>The points a run asks for, by what is sampled.\<close>

lemma map_Inl_eq_Inr: "(case r of Inl e \<Rightarrow> Inl (f e) | Inr x \<Rightarrow> Inr x) = Inr y \<longleftrightarrow> r = Inr y"
  by (cases r) auto

lemma generate_points_cases:
  assumes "generate_points ev src g = Some (Inr xs)"
  obtains (vertices) "gn_source g = ''VERTICES''" "PCVVertexSampler ev (Some (gn_colors g)) (gn_constant_color g) src = Inr xs"
  | (triangles) s' where "gn_source g = ''SURFACE''" "gn_algorithm g = ''WEIGHTED_RANDOM_IN_TRIANGLE''"
      "PCVTriangleSurfaceSampler ev (Some (gn_colors g)) (gn_constant_color g) (gn_exact_number_of_points g)
         (gn_number_of_points g) src (sv_seed ev (gn_seed g)) = Inr (xs, s')"
  | (poisson) s' where "gn_source g = ''SURFACE''" "gn_algorithm g = ''POISSON_DISK_SAMPLING''"
      "PCVPoissonDiskSurfaceSampler ev (Some (gn_colors g)) (gn_constant_color g) (gn_minimal_distance g)
         (gn_sampling_exponent g) src (sv_seed ev (gn_seed g)) = Some (Inr (xs, s'))"
  | (particles) "gn_source g = ''PARTICLES''" "PCVParticleSystemSampler ev (gn_source_psys g \<noteq> ''ALL'')
         (Some (gn_colors g)) (gn_constant_color g) src = Inr xs"
proof -
  consider "gn_source g = ''VERTICES''" | "gn_source g = ''SURFACE''" "gn_algorithm g = ''WEIGHTED_RANDOM_IN_TRIANGLE''"
    | "gn_source g = ''SURFACE''" "gn_algorithm g = ''POISSON_DISK_SAMPLING''" | "gn_source g = ''PARTICLES''"
    using assms by (auto simp: generate_points_def Let_def split: if_splits)
  then show thesis
    by cases (use assms that in \<open>auto simp: generate_points_def Let_def bindE_eq_Inr map_Inl_eq_Inr\<close>)
qed

text \<open>Every algorithm that returns points returns at least one.\<close>

lemma poisson_sampler:
  assumes ok: "sampler_ok ev" and d: "0 < d"
  shows "\<exists>r. PCVPoissonDiskSurfaceSampler ev colorize const d exponent src s = Some r"
    and "PCVPoissonDiskSurfaceSampler ev colorize const d exponent src s = Some (Inr (xs, s')) \<Longrightarrow>
      \<exists>n pts s1. num_presamples (sm_areas src) d exponent = Inr n \<and>
        PCVTriangleSurfaceSampler ev colorize const False n src s = Inr (pts, s1) \<and>
        poisson_select ev d pts s1 = Some (xs, s')"
    and "PCVTriangleSurfaceSampler ev colorize const False n src s = Inr ([], s1) \<Longrightarrow> False"
proof -
  show empty: False if "PCVTriangleSurfaceSampler ev colorize const False n src s = Inr ([], s1)" for n s1
    using that np_shuffle_nonempty [OF sampler_okD(3) [OF ok]]
    by (auto simp: PCVTriangleSurfaceSampler_def bindE_eq_Inr Let_def split: if_splits)
  show "\<exists>r. PCVPoissonDiskSurfaceSampler ev colorize const d exponent src s = Some r"
  proof (cases "bindE (num_presamples (sm_areas src) d exponent) (\<lambda>n. PCVTriangleSurfaceSampler ev colorize const False n src s)")
    case (Inr x)
    then obtain pts s1 where "x = (pts, s1)" "pts \<noteq> []"
      using empty by (cases x) (auto simp: bindE_eq_Inr)
    then show ?thesis
      using Inr poisson_select_spec [OF ok, of d pts s1] d by (auto simp: PCVPoissonDiskSurfaceSampler_def)
  qed (simp add: PCVPoissonDiskSurfaceSampler_def)
qed (auto simp: PCVPoissonDiskSurfaceSampler_def bindE_eq_Inr split: sum.splits prod.splits)

end
