(* ===== verification/PCV_Props_Generate.thy ===== *)
theory PCV_Props_Generate
  imports PCV_Generate_Facts PCV_Examples
begin

text \<open>
  The properties of the samplers and of the operators that generate a cloud from an object,
  each with an instance.
\<close>

section \<open>An object to sample\<close>

text \<open>A generator that always returns 0, and the library's functions computed plainly.\<close>

definition ex_sampler :: "unit sampler_env" where
  "ex_sampler = \<lparr>sv_bl = ex_bl, sv_seed = (\<lambda>_. ()), sv_random = (\<lambda>s. (0, s)), sv_below = (\<lambda>n s. (0, s)),
     sv_perm = (\<lambda>_ n. [0..<n]),
     sv_range = (\<lambda>vs c r. filter (\<lambda>i. v3_distance (vs ! i) c \<le> r) [0..<length vs]),
     sv_order = (\<lambda>xs. xs), sv_bvh = (\<lambda>_ _ _ _. None)\<rparr>"

text \<open>Two triangles, one above the other, and two particles, one of them dead.\<close>

definition ex_face :: "real \<Rightarrow> sample_face" where
  "ex_face z = \<lparr>sg_face = \<lparr>fa_verts = ((0, 0, z), (1, 0, z), (0, 1, z)), fa_cols = ((0, 0, 0), (0, 0, 0), (0, 0, 0)),
       fa_uvs = ((0, 0), (0, 0), (0, 0)), fa_weights = (0, 0, 0)\<rparr>,
     sg_area = 1 / 2, sg_normal = (0, 0, 1), sg_smooth = False, sg_vnormals = ((0, 0, 1), (0, 0, 1), (0, 0, 1))\<rparr>"

definition ex_vert :: "real \<Rightarrow> sample_vert" where
  "ex_vert x = \<lparr>vt_co = (x, 0, 0), vt_normal = (0, 0, 1), vt_cols = [], vt_uvs = [], vt_weight = 0\<rparr>"

definition ex_source :: sample_source where
  "ex_source = \<lparr>sm_faces = [ex_face 0, ex_face 1], sm_verts = [ex_vert 0, ex_vert 1], sm_polys = [],
     sm_areas = Some [1 / 2, 1 / 2],
     sm_particles = Some [\<lparr>pl_alive = True, pl_location = (1, 2, 3), pl_rotate = id, pl_uv = (0, 0)\<rparr>,
       \<lparr>pl_alive = False, pl_location = (4, 5, 6), pl_rotate = id, pl_uv = (0, 0)\<rparr>],
     sm_uvtex = False,
     sm_paint = \<lparr>ps_faces = [], ps_color_layer = False, ps_material = False, ps_node = None, ps_uv_layer = False,
       ps_group_layer = False\<rparr>\<rparr>"

lemma ex_sampler_ok: "sampler_ok ex_sampler"
  unfolding sampler_ok_def by (auto simp: ex_sampler_def ex_shuffle)

lemma ex_areas: "\<forall>p\<in>set (sm_faces ex_source). 0 \<le> sg_area p"
  by (simp add: ex_source_def ex_face_def)

lemma ex_shares: "face_shares n (sm_faces ex_source) = Inr [real_of_int n / 2, real_of_int n / 2]"
  by (simp add: face_shares_def median_def ex_source_def ex_face_def Let_def)

lemma ex_number: "face_number (map sg_area (sm_faces ex_source)) [real_of_int n / 2, real_of_int n / 2] (1 / 2) =
    py_round (real_of_int n / 2)"
  by (simp add: face_number_def remap_def ex_source_def ex_face_def)

lemma ex_generate: "generate ex_sampler (Some ''CONSTANT'') c ps (ex_face z) k () = Inr (replicate k ((0, 0, z), (0, 0, 1), c), ())"
  by (induction k)
    (simp_all add: random_point_in_triangle_def sample_color_def sample_normal_def ex_sampler_def ex_face_def
      v3_add_def v3_scale_def Let_def)

lemma ex_unshuffled: "np_shuffle (sv_perm ex_sampler k) xs = xs"
  by (simp add: np_shuffle_def ex_sampler_def map_nth)

lemma ex_surface:
  assumes "0 < k"
  shows "PCVTriangleSurfaceSampler ex_sampler (Some ''CONSTANT'') c False (2 * int k) ex_source () =
    Inr (replicate k ((0, 0, 0), (0, 0, 1), c) @ replicate k ((0, 0, 1), (0, 0, 1), c), ())"
proof -
  let ?xs = "replicate k ((0, 0, 0), (0, 0, 1), c) @ replicate k ((0, 0, 1), (0, 0, 1), c)"
  have "generate_faces ex_sampler (Some ''CONSTANT'') c (sm_paint ex_source)
      (face_number (map sg_area (sm_faces ex_source)) [real_of_int (2 * int k) / 2, real_of_int (2 * int k) / 2])
      [ex_face 0, ex_face 1] () = Inr (?xs, ())"
    using ex_number [of "2 * int k"] by (simp add: ex_generate ex_face_def [THEN arg_cong, of sg_area] py_round_def)
  moreover have "np_shuffle (sv_perm ex_sampler 1) ?xs = ?xs"
    by (rule ex_unshuffled)
  ultimately show ?thesis
    using ex_shares [of "2 * int k"] assms
    by (simp add: PCVTriangleSurfaceSampler_def sampler_source_check_def ex_source_def Let_def)
qed

section \<open>Surface\<close>

text \<open>C37: Every point of the triangle sampler lies in a triangle of the mesh and has the normal and
  the colour of that place; with an exact number there are that many points, without it each face
  gets the number rounded from its area relative to the median area.\<close>

theorem surface_samples_lie_on_mesh:
  assumes "sampler_ok ev" "0 \<le> n" "\<forall>p\<in>set (sm_faces src). 0 \<le> sg_area p"
    and "PCVTriangleSurfaceSampler ev colorize const exact n src s = Inr (xs, s')"
  shows "(\<forall>x\<in>set xs. \<exists>p\<in>set (sm_faces src). sample_on (sv_bl ev) colorize const (sm_paint src) p x) \<and>
     int (length xs) = (if exact then n
       else (\<Sum>p\<leftarrow>sm_faces src. max 0 (py_round (real_of_int n / real (length (sm_faces src)) /
              median (map sg_area (sm_faces src)) * sg_area p))))"
proof -
  note S = surface_sampler [OF assms]
  have "int (sum_list (map (\<lambda>p. nat (f p)) ps)) = (\<Sum>p\<leftarrow>ps. max 0 (f p))" for f :: "sample_face \<Rightarrow> int" and ps
    by (induction ps) auto
  then show ?thesis
    using S(2-4) by (simp add: samples_of_face_def)
qed

theorem surface_samples_lie_on_mesh_witness:
  "\<exists>xs. PCVTriangleSurfaceSampler ex_sampler (Some ''CONSTANT'') (1, 1, 1) False 2 ex_source () = Inr (xs, ()) \<and>
     (\<forall>x\<in>set xs. \<exists>p\<in>set (sm_faces ex_source). sample_on ex_bl (Some ''CONSTANT'') (1, 1, 1) (sm_paint ex_source) p x)"
  using surface_samples_lie_on_mesh [OF ex_sampler_ok _ ex_areas ex_surface [of 1 "(1, 1, 1)"]] ex_surface [of 1 "(1, 1, 1)"]
  by (simp add: ex_sampler_def)



section \<open>Vertices and particles\<close>

text \<open>The vertex sampler gives one point per vertex of the mesh, with the vertex's normal, and
  the particle sampler one point per (living, where only those are asked for) particle, whose normal
  is the particle's x axis; both only shuffle them.\<close>

theorem samplers_keep_every_point:
  assumes "sampler_ok ev"
  shows "(PCVVertexSampler ev colorize const src = Inr xs \<longrightarrow>
      mset (map (\<lambda>(v, n, _). (v, n)) xs) = mset (map (\<lambda>v. (vt_co v, vt_normal v)) (sm_verts src))) \<and>
    (PCVParticleSystemSampler ev alive_only colorize const src = Inr ys \<and> sm_particles src = Some ps \<longrightarrow>
      mset (map (\<lambda>(v, n, _). (v, n)) ys) = mset (map (\<lambda>p. (pl_location p, v3_normalized (pl_rotate p (1, 0, 0))))
        (filter (\<lambda>p. pl_alive p \<or> \<not> alive_only) ps)))"
proof -
  have pn: "(\<lambda>(v, n, _). (v, n)) = place_normal"
    by (rule ext) (simp add: place_normal_def case_prod_unfold)
  have "mset (map place_normal ys) = mset (map (\<lambda>p. (pl_location p, v3_normalized (pl_rotate p (1, 0, 0))))
        (filter (\<lambda>p. pl_alive p \<or> \<not> alive_only) ps))"
    if "PCVParticleSystemSampler ev alive_only colorize const src = Inr ys" "sm_particles src = Some ps"
    using that(1) by (rule particle_sampler [OF assms]) (use that(2) in simp)
  then show ?thesis unfolding pn using vertex_sampler [OF assms] by blast
qed

theorem samplers_keep_every_point_witness:
  "\<exists>xs ys. PCVVertexSampler ex_sampler None (1, 1, 1) ex_source = Inr xs \<and>
     mset (map (\<lambda>(v, n, _). (v, n)) xs) = {#((0, 0, 0), (0, 0, 1)), ((1, 0, 0), (0, 0, 1))#} \<and>
     PCVParticleSystemSampler ex_sampler True None (1, 1, 1) ex_source = Inr ys \<and>
     mset (map (\<lambda>(v, n, _). (v, n)) ys) = {#((1, 2, 3), v3_normalized (1, 0, 0))#}"
proof -
  obtain xs where xs: "PCVVertexSampler ex_sampler None (1, 1, 1) ex_source = Inr xs"
    by (simp add: PCVVertexSampler_def ex_source_def sampler_source_check_def vertex_color_def)
  obtain ys where ys: "PCVParticleSystemSampler ex_sampler True None (1, 1, 1) ex_source = Inr ys"
    by (simp add: PCVParticleSystemSampler_def ex_source_def particle_source_check_def sampler_source_check_def
        particle_color_def)
  obtain ps where ps: "sm_particles ex_source = Some ps" by (simp add: ex_source_def)
  show ?thesis
    using xs ys ps samplers_keep_every_point [OF ex_sampler_ok, of None "(1, 1, 1)" ex_source xs True ys ps]
    by (auto simp: ex_source_def ex_vert_def add_mset_commute)
qed

section \<open>Volume\<close>

text \<open>When the generator keeps finding points inside the mesh, volume sampling ends with exactly
  the requested number of points, all of them in the bounding box and inside by the three tests.\<close>

theorem volume_sampling_ends:
  assumes "sampler_ok ev" "vo_bbox ob \<noteq> []" "\<And>s. finds_sample ev ob s"
  shows "\<exists>xs s'. PCVRandomVolumeSampler ev ob n s = Some (xs, s') \<and> length xs = nat n \<and>
     (\<forall>(v, nor, c)\<in>set xs. in_box (max_values (vo_bbox ob)) v \<and> is_point_inside_mesh_v1 ob v = Some True \<and>
        is_point_inside_mesh_v2 ob v = Some True \<and> volume_inside_mesh_v3 ob v = Some nor \<and> c = (1, 1, 1))"
proof -
  have "is_point_inside_mesh_v1 ob v = Some True \<and> is_point_inside_mesh_v2 ob v = Some True \<and>
      volume_inside_mesh_v3 ob v = Some nor" if "inside_tests ob v = Some (Some nor)" for v nor
    using that by (auto simp: inside_tests_def split: option.splits if_splits)
  then have "\<forall>(v, nor, c)\<in>set xs. in_box (max_values (vo_bbox ob)) v \<and> is_point_inside_mesh_v1 ob v = Some True \<and>
      is_point_inside_mesh_v2 ob v = Some True \<and> volume_inside_mesh_v3 ob v = Some nor \<and> c = (1, 1, 1)"
    if "\<forall>x\<in>set xs. volume_point ob x" for xs
    using that unfolding volume_point_def case_prod_unfold by blast
  moreover obtain xs s' where "volume_loop ev ob n [] s = Some (xs, s')" "length xs = nat n"
    "\<forall>x\<in>set xs. volume_point ob x"
    using volume_loop_ends [OF assms, of n "[]" s] unfolding append_Nil list.size of_nat_0 diff_0_right by blast
  ultimately show ?thesis
    unfolding PCVRandomVolumeSampler_def by (intro exI [of _ xs] exI [of _ s'] conjI) simp_all
qed

text \<open>A volume every ray of which hits once: the box below the ray's first hit.\<close>

definition ex_volume :: volume where
  "ex_volume = \<lparr>vo_bbox = [(0, 0, 0), (1, 1, 1)],
     vo_ray = (\<lambda>o' d. if fst o' < 1 \<and> fst (snd o') < 1 \<and> snd (snd o') < 1 then Some (2, 2, 2) else None),
     vo_closest = (\<lambda>v. Some (v, (0, 0, 1)))\<rparr>"

lemma ex_inside: "inside_tests ex_volume (0, 0, 0) = Some (Some (0, 0, 1))"
proof -
  have h: "axis_hits ex_volume a (0, 0, 0) 0 = Some 1" if "a \<in> {(1, 0, 0), (0, 1, 0), (0, 0, 1)}" for a
    by (subst axis_hits.simps, subst axis_hits.simps) (use that in \<open>auto simp: ex_volume_def v3_add_def v3_scale_def\<close>)
  have u: "up_hits ex_volume (1 / 1000000) 10000 (0, 0, 0) 0 = Some 1"
    by (subst up_hits.simps, subst up_hits.simps)
      (simp add: ex_volume_def shift_along_def v3_add_def v3_scale_def v3_normalized_def v3_length_def v3_dot_def)
  show ?thesis
    using h u by (simp add: inside_tests_def is_point_inside_mesh_v1_def is_point_inside_mesh_v2_def
        volume_inside_mesh_v3_def ex_volume_def v3_sub_def v3_dot_def)
qed

lemma ex_finds: "finds_sample ex_sampler ex_volume s"
proof -
  have "volume_sample ex_sampler (max_values (vo_bbox ex_volume)) s = ((0, 0, 0), s)"
    by (simp add: volume_sample_def max_values_def ex_volume_def ex_sampler_def remap_def)
  then show ?thesis using ex_inside by (rule finds_sample.find_now)
qed

theorem volume_sampling_ends_witness:
  "\<exists>xs s'. PCVRandomVolumeSampler ex_sampler ex_volume 7 () = Some (xs, s') \<and> length xs = 7"
  using volume_sampling_ends [OF ex_sampler_ok _ ex_finds, of 7 "()"] by (auto simp: ex_volume_def)

section \<open>The operator\<close>

text \<open>C39: Generating a cloud finishes with the sampler's points drawn on the object; of the rest of the
  cache only the object's own cloud changes, which is hidden when it was shown. A refusal or an error
  of the sampler is reported and changes nothing else.\<close>

theorem generate_draws_or_reports:
  assumes "context_pcv w = Some (n0, p)" "cache_wf w" "dict_get (objects w) n0 = Some ob"
    and "generate_points ev (src n0) (p_generate p) = Some r" "r \<noteq> Inr []"
  shows "case generate_refused (ob_type ob) (p_generate p) of
      Some msg \<Rightarrow> PCV_OT_generate_point_cloud ev ne u src w = Some (Cancelled, report ''ERROR'' msg w)
    | None \<Rightarrow>
        (case r of
           Inl msg \<Rightarrow> PCV_OT_generate_point_cloud ev ne u src w = Some (Cancelled, report ''ERROR'' msg w)
         | Inr xs \<Rightarrow> \<exists>w' k. PCV_OT_generate_point_cloud ev ne u src w = Some (Finished, w') \<and>
             k \<in> {p_uuid p, u} \<and> drawn xs n0 k (hidden (p_uuid p) w) w')"
proof -
  have c: "context_object w = Some n0" "ob_pcv ob = p"
    using assms(1,3) by (auto simp: context_pcv_def get_pcv_def split: option.splits)
  show ?thesis
    using generate_draws [OF assms(1-3), of ev src _ ne u] generate_reports [OF c(1) assms(3), of _ ev src ne u]
      assms(4,5) c(2)
    by (cases r) (auto split: option.splits)
qed

definition ex_generate :: generate_settings where
  "ex_generate = (p_generate default_pcv)\<lparr>gn_source := ''VERTICES'', gn_colors := ''CONSTANT'',
     gn_constant_color := (1, 0, 1)\<rparr>"

definition ex_generate_world :: world where
  "ex_generate_world = ex_world\<lparr>objects := [(''A'', ex_object (ex_pcv1\<lparr>p_generate := ex_generate\<rparr>))]\<rparr>"

theorem generate_draws_or_reports_witness:
  "\<exists>w' k c. PCV_OT_generate_point_cloud ex_sampler ex_num ''u9'' (\<lambda>_. ex_source) ex_generate_world =
     Some (Finished, w') \<and> dict_get (cache w') k = Some c \<and> ci_draw c \<and> ci_vertices c = Some [(0, 0, 0), (1, 0, 0)]"
proof -
  let ?p = "ex_pcv1\<lparr>p_generate := ex_generate\<rparr>"
    and ?xs = "[((0, 0, 0), (0, 0, 1), (1, 0, 1)), ((1, 0, 0), (0, 0, 1), (1, 0, 1))]"
  have g: "gn_source ex_generate = ''VERTICES''" "gn_colors ex_generate = ''CONSTANT''"
    "gn_constant_color ex_generate = (1, 0, 1)"
    by (simp_all add: ex_generate_def)
  have pts: "generate_points ex_sampler ex_source (p_generate ?p) = Some (Inr ?xs)"
    by (simp add: generate_points_def ex_unshuffled Let_def g PCVVertexSampler_def sampler_source_check_def vertex_color_def
        ex_source_def ex_vert_def)
  have r: "generate_refused (ob_type (ex_object ?p)) (p_generate ?p) = None"
    by (simp add: generate_refused_def g)
  have ctx: "context_pcv ex_generate_world = Some (''A'', ?p)"
    by (simp add: context_pcv_def get_pcv_def ex_generate_world_def ex_world_def)
  have wf: "cache_wf ex_generate_world"
    using ex_world_ok by (simp add: world_ok_def ex_generate_world_def cache_wf_def)
  have ob: "dict_get (objects ex_generate_world) ''A'' = Some (ex_object ?p)"
    by (simp add: ex_generate_world_def)
  show ?thesis
    using generate_draws_or_reports [OF ctx wf ob, of ex_sampler "\<lambda>_. ex_source" "Inr ?xs" ex_num "''u9''"] pts r
    by (fastforce simp: drawn_def)
qed

end
