(* ===== verification/Portal_SM.thy ===== *)
theory Portal_SM
  imports PCV_Prelude
begin

text \<open>
  The state machine of the portal daemon (\<open>software/src/state-machine.c\<close>), which decides from the
  reports of the two inner doors B2 and C2, the requests over SSH, the buttons, the doorbell and
  the timeout what the doors have to do. The signal callback is the list of the signals in the
  order of their emission; the callback's context is passed through unchanged.
\<close>

section \<open>Types\<close>

datatype SM_Event =
  EVENT_DOOR_B2_OPENED | EVENT_DOOR_B2_CLOSED | EVENT_DOOR_B2_LOCKED
| EVENT_DOOR_C2_OPENED | EVENT_DOOR_C2_CLOSED | EVENT_DOOR_C2_LOCKED
| EVENT_SSH_OPEN_FRONT_REQUEST | EVENT_SSH_OPEN_BACK_REQUEST | EVENT_SSH_CLOSE_REQUEST
| EVENT_BUTTON_C2 | EVENT_BUTTON_B2
| EVENT_DOORBELL_FRONT | EVENT_TIMEOUT

datatype SM_Signal =
  SIGNAL_OPEN_DOOR_B | SIGNAL_OPEN_DOOR_C
| SIGNAL_OPEN_DOOR_B2_SAFE | SIGNAL_OPEN_DOOR_C2_SAFE
| SIGNAL_OPEN_DOOR_B2_UNSAFE | SIGNAL_OPEN_DOOR_C2_UNSAFE
| SIGNAL_LOCK_ALL
| SIGNAL_CHANGE_KEYHOLDER | SIGNAL_STATE_CHANGE | SIGNAL_NO_STATE_CHANGE
| SIGNAL_UNLOCK_SUCCESSFUL | SIGNAL_LOCK_SUCCESSFUL | SIGNAL_OPEN_SUCCESSFUL
| SIGNAL_CANNOT_HANDLE_REQUEST | SIGNAL_USER_REQUESTED_TIMED_OUT | SIGNAL_UNLOCK_TIMEOUT
| SIGNAL_START_TIMEOUT | SIGNAL_CANCEL_TIMEOUT

datatype DoorState = DOOR_UNOBSERVED | DOOR_OPEN | DOOR_CLOSED | DOOR_LOCKED

datatype ShackState =
  SHACK_UNOBSERVED | SHACK_OPEN | SHACK_UNLOCKED_VIA_B2 | SHACK_UNLOCKED_VIA_C2 | SHACK_LOCKED

datatype State =
  STATE_IDLE | STATE_WAIT_FOR_LOCKED | STATE_WAIT_FOR_OPEN_VIA_B | STATE_WAIT_FOR_OPEN_VIA_C

record StateMachine =
  sm_state :: State
  door_c2 :: DoorState
  door_b2 :: DoorState
  last_shack_state :: ShackState

datatype DoorFilter = DOOR_B2 | DOOR_C2 | DOOR_ANY

section \<open>Operations\<close>

definition sm_init :: StateMachine where
  "sm_init = \<lparr>sm_state = STATE_IDLE, door_c2 = DOOR_UNOBSERVED, door_b2 = DOOR_UNOBSERVED,
     last_shack_state = SHACK_UNOBSERVED\<rparr>"

definition is_open_request :: "SM_Event \<Rightarrow> bool" where
  "is_open_request e \<longleftrightarrow> e = EVENT_SSH_OPEN_FRONT_REQUEST \<or> e = EVENT_SSH_OPEN_BACK_REQUEST"

definition is_close_request :: "SM_Event \<Rightarrow> ShackState \<Rightarrow> bool" where
  "is_close_request e s \<longleftrightarrow> e = EVENT_SSH_CLOSE_REQUEST \<or>
     e = EVENT_BUTTON_C2 \<and> s \<noteq> SHACK_LOCKED \<or> e = EVENT_BUTTON_B2 \<and> s \<noteq> SHACK_LOCKED"

definition has_filter :: "DoorFilter \<Rightarrow> DoorFilter \<Rightarrow> bool" where
  "has_filter f d \<longleftrightarrow> f = d \<or> f = DOOR_ANY"

definition is_door_unlock_event :: "SM_Event \<Rightarrow> DoorFilter \<Rightarrow> bool" where
  "is_door_unlock_event e f \<longleftrightarrow>
     e = EVENT_DOOR_B2_OPENED \<and> has_filter f DOOR_B2 \<or> e = EVENT_DOOR_B2_CLOSED \<and> has_filter f DOOR_B2 \<or>
     e = EVENT_DOOR_C2_OPENED \<and> has_filter f DOOR_C2 \<or> e = EVENT_DOOR_C2_CLOSED \<and> has_filter f DOOR_C2"

definition is_door_lock_event :: "SM_Event \<Rightarrow> DoorFilter \<Rightarrow> bool" where
  "is_door_lock_event e f \<longleftrightarrow>
     e = EVENT_DOOR_B2_LOCKED \<and> has_filter f DOOR_B2 \<or> e = EVENT_DOOR_C2_LOCKED \<and> has_filter f DOOR_C2"

definition is_state_wait_for_open :: "State \<Rightarrow> bool" where
  "is_state_wait_for_open s \<longleftrightarrow> s = STATE_WAIT_FOR_OPEN_VIA_B \<or> s = STATE_WAIT_FOR_OPEN_VIA_C"

definition is_ssh_request :: "SM_Event \<Rightarrow> bool" where
  "is_ssh_request e \<longleftrightarrow> e = EVENT_SSH_OPEN_BACK_REQUEST \<or> e = EVENT_SSH_OPEN_FRONT_REQUEST \<or>
     e = EVENT_SSH_CLOSE_REQUEST"

definition sm_change_door_state :: "StateMachine \<Rightarrow> SM_Event \<Rightarrow> StateMachine" where
  "sm_change_door_state sm e =
     (case e of
        EVENT_DOOR_B2_OPENED \<Rightarrow> sm\<lparr>door_b2 := DOOR_OPEN\<rparr>
      | EVENT_DOOR_B2_CLOSED \<Rightarrow> sm\<lparr>door_b2 := DOOR_CLOSED\<rparr>
      | EVENT_DOOR_B2_LOCKED \<Rightarrow> sm\<lparr>door_b2 := DOOR_LOCKED\<rparr>
      | EVENT_DOOR_C2_OPENED \<Rightarrow> sm\<lparr>door_c2 := DOOR_OPEN\<rparr>
      | EVENT_DOOR_C2_CLOSED \<Rightarrow> sm\<lparr>door_c2 := DOOR_CLOSED\<rparr>
      | EVENT_DOOR_C2_LOCKED \<Rightarrow> sm\<lparr>door_c2 := DOOR_LOCKED\<rparr>
      | _ \<Rightarrow> sm)"

definition sm_get_shack_state :: "StateMachine \<Rightarrow> ShackState" where
  "sm_get_shack_state sm =
     (if door_c2 sm = DOOR_UNOBSERVED \<or> door_b2 sm = DOOR_UNOBSERVED then SHACK_UNOBSERVED
      else
        (let locked_b2 = (door_b2 sm = DOOR_LOCKED); locked_c2 = (door_c2 sm = DOOR_LOCKED)
         in if locked_b2 \<and> locked_c2 then SHACK_LOCKED
            else if \<not> locked_b2 \<and> \<not> locked_c2 then SHACK_OPEN
            else if \<not> locked_c2 then SHACK_UNLOCKED_VIA_C2
            else SHACK_UNLOCKED_VIA_B2))"

text \<open>
  \<open>sm_apply_event\<close>: the doors first, then the notification, then the first rule that fits, with
  the state and the signals it leaves. The rules see the machine's state from before the event.
\<close>

definition sm_rules ::
    "DoorState \<Rightarrow> DoorState \<Rightarrow> ShackState \<Rightarrow> State \<Rightarrow> SM_Event \<Rightarrow> SM_Signal list \<times> State" where
  "sm_rules previous_b2 previous_c2 shack st e =
     (if e = EVENT_TIMEOUT \<and> st \<noteq> STATE_IDLE
      then ([SIGNAL_USER_REQUESTED_TIMED_OUT], STATE_IDLE)
      else if previous_b2 \<noteq> DOOR_LOCKED \<and> e = EVENT_DOOR_B2_LOCKED \<and> st = STATE_WAIT_FOR_OPEN_VIA_B
      then ([SIGNAL_START_TIMEOUT, SIGNAL_UNLOCK_TIMEOUT], STATE_WAIT_FOR_LOCKED)
      else if previous_c2 \<noteq> DOOR_LOCKED \<and> e = EVENT_DOOR_C2_LOCKED \<and> st = STATE_WAIT_FOR_OPEN_VIA_C
      then ([SIGNAL_START_TIMEOUT, SIGNAL_UNLOCK_TIMEOUT], STATE_WAIT_FOR_LOCKED)
      else if e = EVENT_DOOR_B2_OPENED \<and> shack \<noteq> SHACK_OPEN \<and> st = STATE_WAIT_FOR_OPEN_VIA_B
      then ([SIGNAL_OPEN_DOOR_C2_UNSAFE], st)
      else if e = EVENT_DOOR_C2_OPENED \<and> shack \<noteq> SHACK_OPEN \<and> st = STATE_WAIT_FOR_OPEN_VIA_C
      then ([SIGNAL_OPEN_DOOR_B2_UNSAFE], st)
      else if is_door_unlock_event e DOOR_ANY \<and> shack = SHACK_OPEN \<and> is_state_wait_for_open st
      then ([SIGNAL_CANCEL_TIMEOUT, SIGNAL_OPEN_SUCCESSFUL], STATE_IDLE)
      else if is_door_lock_event e DOOR_ANY \<and> shack = SHACK_LOCKED \<and> st = STATE_WAIT_FOR_LOCKED
      then ([SIGNAL_CANCEL_TIMEOUT, SIGNAL_LOCK_SUCCESSFUL, SIGNAL_OPEN_DOOR_B], STATE_IDLE)
      else if e = EVENT_DOORBELL_FRONT \<and> shack = SHACK_OPEN then ([SIGNAL_OPEN_DOOR_B], st)
      else if e = EVENT_BUTTON_C2 \<and> shack = SHACK_LOCKED then ([SIGNAL_OPEN_DOOR_C], st)
      else if e = EVENT_BUTTON_B2 \<and> shack = SHACK_LOCKED then ([SIGNAL_OPEN_DOOR_B], st)
      else if e = EVENT_SSH_OPEN_FRONT_REQUEST \<and> shack \<noteq> SHACK_OPEN \<and> st = STATE_IDLE
      then ([SIGNAL_START_TIMEOUT, SIGNAL_OPEN_DOOR_B2_SAFE, SIGNAL_OPEN_DOOR_B], STATE_WAIT_FOR_OPEN_VIA_B)
      else if e = EVENT_SSH_OPEN_BACK_REQUEST \<and> shack \<noteq> SHACK_OPEN \<and> st = STATE_IDLE
      then ([SIGNAL_START_TIMEOUT, SIGNAL_OPEN_DOOR_C2_SAFE, SIGNAL_OPEN_DOOR_C], STATE_WAIT_FOR_OPEN_VIA_C)
      else if is_open_request e \<and> shack = SHACK_OPEN \<and> st = STATE_IDLE
      then ((if e = EVENT_SSH_OPEN_FRONT_REQUEST then [SIGNAL_OPEN_DOOR_B] else []) @
            (if e = EVENT_SSH_OPEN_BACK_REQUEST then [SIGNAL_OPEN_DOOR_C] else []) @
            [SIGNAL_CHANGE_KEYHOLDER], st)
      else if is_close_request e shack \<and> shack \<noteq> SHACK_LOCKED \<and> st = STATE_IDLE
      then ([SIGNAL_START_TIMEOUT, SIGNAL_LOCK_ALL], STATE_WAIT_FOR_LOCKED)
      else if is_ssh_request e \<and> st \<noteq> STATE_IDLE then ([SIGNAL_CANNOT_HANDLE_REQUEST], st)
      else if e = EVENT_SSH_CLOSE_REQUEST \<and> shack = SHACK_LOCKED
      then ([SIGNAL_NO_STATE_CHANGE, SIGNAL_OPEN_DOOR_B], st)
      else if is_ssh_request e then ([SIGNAL_CANNOT_HANDLE_REQUEST], st)
      else ([], st))"

definition sm_apply_event :: "StateMachine \<Rightarrow> SM_Event \<Rightarrow> SM_Signal list \<times> StateMachine" where
  "sm_apply_event sm e =
     (let sm1 = sm_change_door_state sm e;
          shack = sm_get_shack_state sm1;
          note = (if shack \<noteq> last_shack_state sm1 then [SIGNAL_STATE_CHANGE] else []);
          (sigs, st) = sm_rules (door_b2 sm) (door_c2 sm) shack (sm_state sm1) e
      in (note @ sigs, sm1\<lparr>last_shack_state := shack, sm_state := st\<rparr>))"

definition sm_shack_state_name :: "ShackState \<Rightarrow> string" where
  "sm_shack_state_name s =
     (case s of
        SHACK_UNOBSERVED \<Rightarrow> ''unobserved'' | SHACK_OPEN \<Rightarrow> ''open''
      | SHACK_UNLOCKED_VIA_B2 \<Rightarrow> ''unlocked via b2'' | SHACK_UNLOCKED_VIA_C2 \<Rightarrow> ''unlocked via c2''
      | SHACK_LOCKED \<Rightarrow> ''locked'')"

definition sm_door_state_name :: "DoorState \<Rightarrow> string" where
  "sm_door_state_name s =
     (case s of
        DOOR_LOCKED \<Rightarrow> ''locked'' | DOOR_UNOBSERVED \<Rightarrow> ''unobserved''
      | DOOR_OPEN \<Rightarrow> ''open'' | DOOR_CLOSED \<Rightarrow> ''closed'')"

definition sm_state_name :: "StateMachine \<Rightarrow> string" where
  "sm_state_name sm =
     (case sm_state sm of
        STATE_IDLE \<Rightarrow> ''idle'' | STATE_WAIT_FOR_OPEN_VIA_B \<Rightarrow> ''wait for shack entry via B''
      | STATE_WAIT_FOR_OPEN_VIA_C \<Rightarrow> ''wait for shack entry via C''
      | STATE_WAIT_FOR_LOCKED \<Rightarrow> ''wait for shack locked'')"

section \<open>The machine as a transition system\<close>

text \<open>A run applies events one after the other and collects the signals of each.\<close>

fun sm_run :: "StateMachine \<Rightarrow> SM_Event list \<Rightarrow> SM_Signal list list \<times> StateMachine" where
  "sm_run sm [] = ([], sm)"
| "sm_run sm (e # es) =
     (let (sigs, sm1) = sm_apply_event sm e; (rest, sm2) = sm_run sm1 es in (sigs # rest, sm2))"

text \<open>
  Every move of the machine is one of these: it stays, it accepts a request, it settles the
  accepted one, or it turns from opening to locking when a door has locked itself again.
\<close>

inductive sm_move :: "State \<Rightarrow> SM_Signal list \<Rightarrow> State \<Rightarrow> bool" where
  stay: "set sigs \<inter> {SIGNAL_START_TIMEOUT, SIGNAL_CANCEL_TIMEOUT, SIGNAL_USER_REQUESTED_TIMED_OUT,
      SIGNAL_UNLOCK_TIMEOUT, SIGNAL_LOCK_SUCCESSFUL, SIGNAL_OPEN_SUCCESSFUL} = {} \<Longrightarrow> sm_move st sigs st"
| accept: "st \<noteq> STATE_IDLE \<Longrightarrow> sigs = SIGNAL_START_TIMEOUT # cmds \<Longrightarrow>
    cmds \<in> {[SIGNAL_OPEN_DOOR_B2_SAFE, SIGNAL_OPEN_DOOR_B], [SIGNAL_OPEN_DOOR_C2_SAFE, SIGNAL_OPEN_DOOR_C],
      [SIGNAL_LOCK_ALL]} \<Longrightarrow> sm_move STATE_IDLE sigs st"
| settle: "st \<noteq> STATE_IDLE \<Longrightarrow>
    sigs \<in> {[SIGNAL_USER_REQUESTED_TIMED_OUT], [SIGNAL_CANCEL_TIMEOUT, SIGNAL_OPEN_SUCCESSFUL],
      [SIGNAL_CANCEL_TIMEOUT, SIGNAL_LOCK_SUCCESSFUL, SIGNAL_OPEN_DOOR_B]} \<Longrightarrow> sm_move st sigs STATE_IDLE"
| give_up: "is_state_wait_for_open st \<Longrightarrow>
    sm_move st [SIGNAL_START_TIMEOUT, SIGNAL_UNLOCK_TIMEOUT] STATE_WAIT_FOR_LOCKED"

inductive_cases sm_moveE: "sm_move st sigs st'"
inductive_simps sm_move_from_idle: "sm_move STATE_IDLE sigs st"
inductive_simps sm_move_to_idle: "sm_move st sigs STATE_IDLE"

lemmas sm_tests = is_open_request_def is_close_request_def has_filter_def is_door_unlock_event_def
  is_door_lock_event_def is_state_wait_for_open_def is_ssh_request_def

lemma sm_rules_move:
  assumes "sm_rules pb pc shack st e = (sigs, st')"
  shows "sm_move st sigs st'"
  using assms
  by (cases e; cases st) (auto simp: sm_rules_def sm_tests sm_move.simps split: if_splits)

end
