(* ===== verification/Portal_SM_Facts.thy ===== *)
theory Portal_SM_Facts
  imports Portal_SM
begin

text \<open>
  What the portal's state machine does over a run: its moves, the ledger of accepted and settled
  requests, the notification of the state, and how an open request comes about.
\<close>

section \<open>One event\<close>

lemma sm_change_door_state_rest [simp]:
  "sm_state (sm_change_door_state sm e) = sm_state sm"
  "last_shack_state (sm_change_door_state sm e) = last_shack_state sm"
  by (simp_all add: sm_change_door_state_def split: SM_Event.split)

lemma sm_get_shack_state_upd [simp]:
  "sm_get_shack_state (sm\<lparr>last_shack_state := l, sm_state := s\<rparr>) = sm_get_shack_state sm"
  by (simp add: sm_get_shack_state_def)

text \<open>\<open>sm_apply_event\<close> in one equation: the notification, then the rules' signals.\<close>

lemma sm_apply_eventE:
  assumes "sm_apply_event sm e = (sigs, sm')"
  obtains out where
    "sigs = (if sm_get_shack_state sm' \<noteq> last_shack_state sm then [SIGNAL_STATE_CHANGE] else []) @ out"
    "sm_rules (door_b2 sm) (door_c2 sm) (sm_get_shack_state sm') (sm_state sm) e = (out, sm_state sm')"
    "last_shack_state sm' = sm_get_shack_state sm'"
    "door_b2 sm' = door_b2 (sm_change_door_state sm e)" "door_c2 sm' = door_c2 (sm_change_door_state sm e)"
  using assms by (fastforce simp: sm_apply_event_def Let_def split: prod.splits)

lemma sm_get_shack_state_cases:
  "sm_get_shack_state sm = SHACK_LOCKED \<longleftrightarrow> door_b2 sm = DOOR_LOCKED \<and> door_c2 sm = DOOR_LOCKED"
  "sm_get_shack_state sm = SHACK_OPEN \<longleftrightarrow>
     door_b2 sm \<in> {DOOR_OPEN, DOOR_CLOSED} \<and> door_c2 sm \<in> {DOOR_OPEN, DOOR_CLOSED}"
  by (cases "door_b2 sm"; cases "door_c2 sm"; simp add: sm_get_shack_state_def)+

text \<open>The notification is no settlement, so an event's signals make the same move.\<close>

lemma sm_apply_event_counts:
  assumes "sm_apply_event sm e = (sigs, sm')"
  shows "\<exists>out. sm_move (sm_state sm) out (sm_state sm') \<and>
     (\<forall>s. s \<noteq> SIGNAL_STATE_CHANGE \<longrightarrow> count_list sigs s = count_list out s)"
  using assms(1)
proof (rule sm_apply_eventE)
  fix out
  assume "sigs = (if sm_get_shack_state sm' \<noteq> last_shack_state sm then [SIGNAL_STATE_CHANGE] else []) @ out"
    and "sm_rules (door_b2 sm) (door_c2 sm) (sm_get_shack_state sm') (sm_state sm) e = (out, sm_state sm')"
  then show ?thesis by (intro exI [of _ out]) (auto intro: sm_rules_move)
qed

section \<open>The ledger\<close>

definition tally :: "SM_Signal \<Rightarrow> SM_Signal list list \<Rightarrow> nat" where
  "tally s trace = sum_list (map (\<lambda>l. count_list l s) trace)"

definition pending :: "State \<Rightarrow> nat" where
  "pending st = (if st = STATE_IDLE then 0 else 1)"

definition balanced :: "State \<Rightarrow> SM_Signal list list \<Rightarrow> State \<Rightarrow> bool" where
  "balanced st trace st' \<longleftrightarrow>
     pending st + tally SIGNAL_START_TIMEOUT trace = pending st' + tally SIGNAL_UNLOCK_TIMEOUT trace
       + tally SIGNAL_CANCEL_TIMEOUT trace + tally SIGNAL_USER_REQUESTED_TIMED_OUT trace \<and>
     tally SIGNAL_CANCEL_TIMEOUT trace = tally SIGNAL_LOCK_SUCCESSFUL trace + tally SIGNAL_OPEN_SUCCESSFUL trace"

lemma sm_move_balanced: "sm_move st out st' \<Longrightarrow> balanced st [out] st'"
  by (erule sm_moveE) (auto simp: balanced_def tally_def pending_def count_notin is_state_wait_for_open_def)

lemma balanced_trans: "balanced st l1 st1 \<Longrightarrow> balanced st1 l2 st2 \<Longrightarrow> balanced st (l1 @ l2) st2"
  by (simp add: balanced_def tally_def)

lemma sm_apply_event_balanced:
  assumes "sm_apply_event sm e = (sigs, sm')"
  shows "balanced (sm_state sm) [sigs] (sm_state sm')"
proof -
  obtain out where "sm_move (sm_state sm) out (sm_state sm')"
      "\<forall>s. s \<noteq> SIGNAL_STATE_CHANGE \<longrightarrow> count_list sigs s = count_list out s"
    using sm_apply_event_counts [OF assms] by blast
  then show ?thesis using sm_move_balanced by (simp add: balanced_def tally_def)
qed

lemma sm_run_balanced:
  "sm_run sm es = (trace, sm') \<Longrightarrow> balanced (sm_state sm) trace (sm_state sm')"
proof (induction es arbitrary: sm trace)
  case (Cons e es)
  obtain sigs sm1 rest where r: "sm_apply_event sm e = (sigs, sm1)" "sm_run sm1 es = (rest, sm')" "trace = sigs # rest"
    using Cons.prems by (auto simp: Let_def split: prod.splits)
  show ?case
    using balanced_trans [OF sm_apply_event_balanced [OF r(1)] Cons.IH [OF r(2)]] r(3) by simp
qed (simp add: balanced_def tally_def)

section \<open>How the machine comes to wait for an opening\<close>

definition sm_after :: "SM_Event list \<Rightarrow> StateMachine" where
  "sm_after es = snd (sm_run sm_init es)"

lemma sm_run_append:
  "sm_run sm (as @ bs) = (let (l1, s1) = sm_run sm as; (l2, s2) = sm_run s1 bs in (l1 @ l2, s2))"
  by (induction as arbitrary: sm) (auto simp: Let_def split: prod.splits)

lemma sm_after_snoc: "sm_after (es @ [e]) = snd (sm_apply_event (sm_after es) e)"
  by (simp add: sm_after_def sm_run_append Let_def split: prod.splits)

lemma sm_after_Nil [simp]: "sm_after [] = sm_init"
  by (simp add: sm_after_def)

lemma sm_after_shack: "last_shack_state (sm_after es) = sm_get_shack_state (sm_after es)"
proof (cases es rule: rev_cases)
  case Nil
  then show ?thesis by (simp add: sm_init_def sm_get_shack_state_def)
next
  case (snoc as e)
  then show ?thesis
    by (cases "sm_apply_event (sm_after as) e") (auto simp: sm_after_snoc elim: sm_apply_eventE)
qed

text \<open>A request that was accepted after \<open>bs\<close> and is open ever since.\<close>

definition open_since :: "SM_Event list \<Rightarrow> SM_Event \<Rightarrow> SM_Event list \<Rightarrow> bool" where
  "open_since bs r cs \<longleftrightarrow> is_open_request r \<and> sm_state (sm_after bs) = STATE_IDLE \<and>
     (\<forall>n\<le>length cs. is_state_wait_for_open (sm_state (sm_after (bs @ r # take n cs))))"

lemma sm_rules_enters:
  assumes "sm_rules pb pc shack st e = (out, st')" "is_state_wait_for_open st'"
  shows "is_state_wait_for_open st \<or> st = STATE_IDLE \<and> is_open_request e"
  using assms by (cases e; cases st) (auto simp: sm_rules_def sm_tests split: if_splits)

lemma waiting_since:
  "is_state_wait_for_open (sm_state (sm_after es)) \<Longrightarrow> \<exists>bs r cs. es = bs @ r # cs \<and> open_since bs r cs"
proof (induction es rule: rev_induct)
  case (snoc e es)
  obtain sigs sm' where ap: "sm_apply_event (sm_after es) e = (sigs, sm')" by fastforce
  then have after: "sm_after (es @ [e]) = sm'" by (simp add: sm_after_snoc)
  obtain out where "sm_rules (door_b2 (sm_after es)) (door_c2 (sm_after es)) (sm_get_shack_state sm')
      (sm_state (sm_after es)) e = (out, sm_state sm')"
    using ap by (elim sm_apply_eventE)
  moreover have w: "is_state_wait_for_open (sm_state sm')" using snoc.prems after by simp
  ultimately consider "is_state_wait_for_open (sm_state (sm_after es))"
    | "sm_state (sm_after es) = STATE_IDLE" "is_open_request e"
    using sm_rules_enters by blast
  then show ?case
  proof cases
    case 1
    then obtain bs r cs where since: "es = bs @ r # cs" "open_since bs r cs" using snoc.IH by blast
    have "open_since bs r (cs @ [e])"
      unfolding open_since_def
    proof (intro conjI allI impI)
      fix n assume n: "n \<le> length (cs @ [e])"
      show "is_state_wait_for_open (sm_state (sm_after (bs @ r # take n (cs @ [e]))))"
        using since n w after by (cases "n \<le> length cs") (auto simp: open_since_def le_Suc_eq)
    qed (use since in \<open>simp_all add: open_since_def\<close>)
    then show ?thesis using since(1) by (intro exI [of _ bs] exI [of _ r] exI [of _ "cs @ [e]"]) simp
  next
    case 2
    then have "open_since es e []" using w after by (simp add: open_since_def)
    then show ?thesis by blast
  qed
qed (simp add: sm_init_def is_state_wait_for_open_def)

section \<open>Which signals come when\<close>

definition inner_open :: "SM_Signal set" where
  "inner_open = {SIGNAL_OPEN_DOOR_B2_SAFE, SIGNAL_OPEN_DOOR_C2_SAFE,
     SIGNAL_OPEN_DOOR_B2_UNSAFE, SIGNAL_OPEN_DOOR_C2_UNSAFE}"

lemma sm_rules_inner_open:
  assumes "sm_rules pb pc shack st e = (out, st')" "set out \<inter> inner_open \<noteq> {}"
  shows "is_state_wait_for_open st' \<and> shack \<noteq> SHACK_OPEN"
  using assms by (cases e; cases st) (auto simp: sm_rules_def sm_tests inner_open_def split: if_splits)

lemma sm_rules_outer_open:
  assumes "sm_rules pb pc shack st e = (out, st')" "set out \<inter> {SIGNAL_OPEN_DOOR_B, SIGNAL_OPEN_DOOR_C} \<noteq> {}"
  shows "is_open_request e \<and> st = STATE_IDLE \<or> shack = SHACK_LOCKED \<or> shack = SHACK_OPEN \<and> e = EVENT_DOORBELL_FRONT"
  using assms by (cases e; cases st) (auto simp: sm_rules_def sm_tests split: if_splits)

lemma sm_rules_success:
  assumes "sm_rules pb pc shack st e = (out, st')"
  shows "SIGNAL_LOCK_SUCCESSFUL \<in> set out \<Longrightarrow> shack = SHACK_LOCKED \<and> st = STATE_WAIT_FOR_LOCKED"
    "SIGNAL_OPEN_SUCCESSFUL \<in> set out \<Longrightarrow> shack = SHACK_OPEN \<and> is_state_wait_for_open st"
    "SIGNAL_UNLOCK_SUCCESSFUL \<notin> set out" "SIGNAL_STATE_CHANGE \<notin> set out"
  using assms by (cases e; cases st; auto simp: sm_rules_def sm_tests split: if_splits)+

lemma sm_rules_length: "sm_rules pb pc shack st e = (out, st') \<Longrightarrow> length out \<le> 3"
  by (cases e; cases st) (auto simp: sm_rules_def sm_tests split: if_splits)

lemma sm_apply_event_length:
  assumes "sm_apply_event sm e = (sigs, sm')"
  shows "length sigs \<le> 4"
  using assms by (elim sm_apply_eventE) (drule sm_rules_length, auto)

definition ssh_answer :: "SM_Event \<Rightarrow> ShackState \<Rightarrow> State \<Rightarrow> SM_Signal" where
  "ssh_answer e shack st =
     (if st \<noteq> STATE_IDLE then SIGNAL_CANNOT_HANDLE_REQUEST
      else if is_open_request e \<and> shack = SHACK_OPEN then SIGNAL_CHANGE_KEYHOLDER
      else if e = EVENT_SSH_CLOSE_REQUEST \<and> shack = SHACK_LOCKED then SIGNAL_NO_STATE_CHANGE
      else SIGNAL_START_TIMEOUT)"

definition ssh_answers :: "SM_Signal set" where
  "ssh_answers = {SIGNAL_CANNOT_HANDLE_REQUEST, SIGNAL_CHANGE_KEYHOLDER, SIGNAL_NO_STATE_CHANGE, SIGNAL_START_TIMEOUT}"

lemma sm_rules_answer:
  assumes "is_ssh_request e" "sm_rules pb pc shack st e = (out, st')"
  shows "filter (\<lambda>s. s \<in> ssh_answers) out = [ssh_answer e shack st]"
  using assms by (cases e; cases st) (auto simp: sm_rules_def sm_tests ssh_answers_def ssh_answer_def split: if_splits)

end
