(* ===== verification/Portal_Props.thy ===== *)
theory Portal_Props
  imports Portal_SM_Facts
begin

text \<open>
  The portal's state machine: when it opens a door, what it reports, and that every request is
  answered at once and settled exactly once.
\<close>


definition ex_entry :: "SM_Event list" where
  "ex_entry = [EVENT_DOOR_B2_LOCKED, EVENT_DOOR_C2_LOCKED, EVENT_SSH_OPEN_FRONT_REQUEST, EVENT_DOOR_B2_CLOSED]"

lemmas ex_entry_simps = ex_entry_def sm_after_def sm_init_def sm_apply_event_def sm_change_door_state_def
  sm_get_shack_state_def sm_rules_def sm_tests


text \<open>C5: Every request over SSH is answered at once and once: it is refused while another one is
  in progress, hands over the keys of the open shack, changes nothing when the shack is already
  locked, or is accepted, which starts the timeout.\<close>

theorem ssh_request_answered:
  assumes "is_ssh_request e" "sm_apply_event sm e = (sigs, sm')"
  shows "filter (\<lambda>s. s \<in> ssh_answers) sigs = [ssh_answer e (sm_get_shack_state sm') (sm_state sm)]"
  using assms(2)
proof (rule sm_apply_eventE)
  fix out
  assume "sigs = (if sm_get_shack_state sm' \<noteq> last_shack_state sm then [SIGNAL_STATE_CHANGE] else []) @ out"
    "sm_rules (door_b2 sm) (door_c2 sm) (sm_get_shack_state sm') (sm_state sm) e = (out, sm_state sm')"
  with sm_rules_answer [OF assms(1)] show ?thesis by (simp add: ssh_answers_def)
qed

theorem ssh_request_answered_witness:
  "filter (\<lambda>s. s \<in> ssh_answers) (fst (sm_apply_event (sm_after ex_entry) EVENT_SSH_CLOSE_REQUEST)) =
     [SIGNAL_CANNOT_HANDLE_REQUEST]"
proof -
  let ?r = "sm_apply_event (sm_after ex_entry) EVENT_SSH_CLOSE_REQUEST"
  have "is_ssh_request EVENT_SSH_CLOSE_REQUEST" by (simp add: is_ssh_request_def)
  from ssh_request_answered [OF this, of "sm_after ex_entry" "fst ?r" "snd ?r"]
  show ?thesis by (simp add: ssh_answer_def ex_entry_simps)
qed

text \<open>C4: Accepted requests are settled exactly once: in every run, each start of the timeout that is
  not a change from opening to locking is matched by one cancelled or expired timeout, except
  for the operation in progress; a cancelled timeout is a reported success.\<close>

theorem requests_settled_once:
  assumes "sm_run sm_init es = (trace, sm')"
  shows "tally SIGNAL_START_TIMEOUT trace = pending (sm_state sm') + tally SIGNAL_UNLOCK_TIMEOUT trace
       + tally SIGNAL_CANCEL_TIMEOUT trace + tally SIGNAL_USER_REQUESTED_TIMED_OUT trace \<and>
     tally SIGNAL_CANCEL_TIMEOUT trace = tally SIGNAL_LOCK_SUCCESSFUL trace + tally SIGNAL_OPEN_SUCCESSFUL trace"
  using sm_run_balanced [OF assms] by (simp_all add: balanced_def pending_def sm_init_def)

theorem requests_settled_once_witness:
  "tally SIGNAL_START_TIMEOUT (fst (sm_run sm_init ex_entry)) = 1"
proof -
  obtain trace sm where r: "sm_run sm_init ex_entry = (trace, sm)" by fastforce
  have "sm_state sm = STATE_WAIT_FOR_OPEN_VIA_B" "tally SIGNAL_UNLOCK_TIMEOUT trace = 0"
    "tally SIGNAL_CANCEL_TIMEOUT trace = 0" "tally SIGNAL_USER_REQUESTED_TIMED_OUT trace = 0"
    using r by (auto simp: ex_entry_simps tally_def)
  with requests_settled_once [OF r] r show ?thesis by (simp add: pending_def)
qed



end
