(* ===== verification/Portal_Ring.thy ===== *)
theory Portal_Ring
  imports Portal_SM "HOL-Library.Word"
begin

text \<open>
  The signal queue of the portal daemon: a ring buffer of 64 slots with 32-bit offset and size
  (\<open>push_signal\<close>, \<open>pop_signal\<close> in \<open>software/src/portal-daemon.c\<close>), seen as a bounded queue, and what
  a client of any bounded queue can rely on.
\<close>

type_synonym u32 = "32 word"

section \<open>Bounded queues\<close>

text \<open>
  The interface: the list of the items, what pushing does below and at the capacity, and what
  popping does.
\<close>

locale bounded_queue =
  fixes items :: "'q \<Rightarrow> 'a list"
    and invar :: "'q \<Rightarrow> bool"
    and capacity :: nat
    and push :: "'a \<Rightarrow> 'q \<Rightarrow> bool \<times> 'q"
    and pop :: "'q \<Rightarrow> ('a \<times> 'q) option"
  assumes push_room: "invar q \<Longrightarrow> length (items q) < capacity \<Longrightarrow>
      \<exists>q'. push x q = (True, q') \<and> invar q' \<and> items q' = items q @ [x]"
    and push_full: "invar q \<Longrightarrow> length (items q) = capacity \<Longrightarrow> push x q = (False, q)"
    and items_bound: "invar q \<Longrightarrow> length (items q) \<le> capacity"
    and pop_empty: "invar q \<Longrightarrow> items q = [] \<Longrightarrow> pop q = None"
    and pop_item: "invar q \<Longrightarrow> items q = x # xs \<Longrightarrow> \<exists>q'. pop q = Some (x, q') \<and> invar q' \<and> items q' = xs"
begin

text \<open>The client pushes a list, ignoring what does not fit, and later empties the queue.\<close>

definition push_list :: "'a list \<Rightarrow> 'q \<Rightarrow> 'q" where
  "push_list xs q = fold (\<lambda>x q. snd (push x q)) xs q"

lemma push_any:
  assumes "invar q"
  shows "invar (snd (push x q)) \<and> items (snd (push x q)) = take capacity (items q @ [x])"
proof (cases "length (items q) < capacity")
  case True
  then show ?thesis using push_room [OF assms True, of x] by auto
next
  case False
  then have "length (items q) = capacity" using items_bound [OF assms] by simp
  then show ?thesis using push_full [OF assms, of x] assms by simp
qed

lemma push_list_items:
  "invar q \<Longrightarrow> invar (push_list xs q) \<and> items (push_list xs q) = take capacity (items q @ xs)"
proof (induction xs arbitrary: q)
  case Nil
  then show ?case using items_bound by (simp add: push_list_def)
next
  case (Cons x xs)
  note p = push_any [OF Cons.prems, of x]
  have "take capacity (take capacity (items q @ [x]) @ xs) = take capacity (items q @ x # xs)"
    by (cases "length (items q) < capacity") auto
  moreover have "push_list (x # xs) q = push_list xs (snd (push x q))" by (simp add: push_list_def)
  ultimately show ?case using Cons.IH [of "snd (push x q)"] p by simp
qed

text \<open>Popping \<open>n\<close> times: the first items in order.\<close>

fun pop_list :: "nat \<Rightarrow> 'q \<Rightarrow> 'a list \<times> 'q" where
  "pop_list 0 q = ([], q)"
| "pop_list (Suc n) q =
     (case pop q of None \<Rightarrow> ([], q) | Some (x, q1) \<Rightarrow> (let (xs, q2) = pop_list n q1 in (x # xs, q2)))"

lemma pop_list_items:
  "invar q \<Longrightarrow> \<exists>q'. pop_list n q = (take n (items q), q') \<and> invar q' \<and> items q' = drop n (items q)"
proof (induction n arbitrary: q)
  case (Suc n)
  show ?case
  proof (cases "items q")
    case Nil
    then show ?thesis using pop_empty Suc.prems by simp
  next
    case (Cons x xs)
    then obtain q1 where q1: "pop q = Some (x, q1)" "invar q1" "items q1 = xs"
      using pop_item [OF Suc.prems] by blast
    then show ?thesis using Suc.IH [OF q1(2)] Cons by auto
  qed
qed simp

end

section \<open>The ring buffer\<close>

definition MAX_SIGNAL_RINGBUFFER_ITEMS :: nat where
  "MAX_SIGNAL_RINGBUFFER_ITEMS = 64"

record signal_ring_buffer =
  read_offset :: u32
  rb_size :: u32
  rb_signals :: "SM_Signal list"
  client_ids :: "u32 list"

text \<open>Static storage starts as zeros, which is the first signal.\<close>

definition signal_ring_buffer_init :: signal_ring_buffer where
  "signal_ring_buffer_init = \<lparr>read_offset = 0, rb_size = 0,
     rb_signals = replicate MAX_SIGNAL_RINGBUFFER_ITEMS SIGNAL_OPEN_DOOR_B,
     client_ids = replicate MAX_SIGNAL_RINGBUFFER_ITEMS 0\<rparr>"

definition push_signal :: "SM_Signal \<times> u32 \<Rightarrow> signal_ring_buffer \<Rightarrow> bool \<times> signal_ring_buffer" where
  "push_signal x rb =
     (if rb_size rb \<ge> 64 then (False, rb)
      else
        (let write_index = unat ((read_offset rb + rb_size rb) mod 64)
         in (True, rb\<lparr>rb_signals := (rb_signals rb)[write_index := fst x],
                      client_ids := (client_ids rb)[write_index := snd x], rb_size := rb_size rb + 1\<rparr>)))"

definition pop_signal :: "signal_ring_buffer \<Rightarrow> ((SM_Signal \<times> u32) \<times> signal_ring_buffer) option" where
  "pop_signal rb =
     (if rb_size rb = 0 then None
      else
        (let i = unat (read_offset rb)
         in Some ((rb_signals rb ! i, client_ids rb ! i),
              rb\<lparr>rb_size := rb_size rb - 1, read_offset := (read_offset rb + 1) mod 64\<rparr>)))"

text \<open>What it holds: the slots from the offset on, around the end of the array.\<close>

definition rb_items :: "signal_ring_buffer \<Rightarrow> (SM_Signal \<times> u32) list" where
  "rb_items rb = map (\<lambda>k. let i = (unat (read_offset rb) + k) mod 64 in (rb_signals rb ! i, client_ids rb ! i))
     [0..<unat (rb_size rb)]"

definition rb_ok :: "signal_ring_buffer \<Rightarrow> bool" where
  "rb_ok rb \<longleftrightarrow> unat (read_offset rb) < 64 \<and> unat (rb_size rb) \<le> 64 \<and>
     length (rb_signals rb) = 64 \<and> length (client_ids rb) = 64"

lemma rb_ok_init: "rb_ok signal_ring_buffer_init" "rb_items signal_ring_buffer_init = []"
  by (simp_all add: rb_ok_def rb_items_def signal_ring_buffer_init_def MAX_SIGNAL_RINGBUFFER_ITEMS_def)

lemma unat_add_small:
  fixes a b :: u32
  assumes "unat a < 64" "unat b \<le> 64"
  shows "unat (a + b) = unat a + unat b" "unat ((a + b) mod 64) = (unat a + unat b) mod 64"
proof -
  show s: "unat (a + b) = unat a + unat b"
    using assms by (subst unat_plus_if_size) (simp add: word_size)
  show "unat ((a + b) mod 64) = (unat a + unat b) mod 64"
    by (simp add: unat_mod_distrib s)
qed

lemma ring_slot_other:
  assumes "k < n" "n < 64"
  shows "(r + n) mod 64 \<noteq> (r + k) mod (64::nat)"
proof
  assume "(r + n) mod 64 = (r + k) mod 64"
  then have "64 dvd n - k"
    using assms(1) mod_eq_dvd_iff_nat [of "r + k" "r + n" 64] by simp
  then show False using assms dvd_imp_le [of 64 "n - k"] by simp
qed

lemma push_signal_room:
  assumes ok: "rb_ok rb" and room: "length (rb_items rb) < 64"
  shows "\<exists>rb'. push_signal x rb = (True, rb') \<and> rb_ok rb' \<and> rb_items rb' = rb_items rb @ [x]"
proof -
  let ?r = "unat (read_offset rb)" and ?n = "unat (rb_size rb)"
  have n: "?n < 64" "?r < 64" "length (rb_signals rb) = 64" "length (client_ids rb) = 64"
    using assms by (simp_all add: rb_ok_def rb_items_def)
  then have "\<not> rb_size rb \<ge> 64" by (simp add: word_le_nat_alt)
  moreover have w: "unat ((read_offset rb + rb_size rb) mod 64) = (?r + ?n) mod 64"
    using n by (intro unat_add_small) simp_all
  moreover have s: "unat (rb_size rb + 1) = ?n + 1"
    using n by (subst unat_plus_if_size) (simp add: word_size)
  moreover define rb' where "rb' = rb\<lparr>rb_signals := (rb_signals rb)[(?r + ?n) mod 64 := fst x],
      client_ids := (client_ids rb)[(?r + ?n) mod 64 := snd x], rb_size := rb_size rb + 1\<rparr>"
  ultimately have push: "push_signal x rb = (True, rb')"
    unfolding push_signal_def Let_def by (simp only: if_False)
  have "rb_ok rb'" using n s by (simp add: rb_ok_def rb'_def)
  moreover have "rb_items rb' = rb_items rb @ [x]"
    using n s by (simp add: rb_items_def rb'_def Let_def ring_slot_other)
  ultimately show ?thesis using push by blast
qed

lemma pop_signal_item:
  assumes ok: "rb_ok rb" and items: "rb_items rb = x # xs"
  shows "\<exists>rb'. pop_signal rb = Some (x, rb') \<and> rb_ok rb' \<and> rb_items rb' = xs"
proof -
  let ?r = "unat (read_offset rb)" and ?n = "unat (rb_size rb)"
  let ?slot = "\<lambda>i. (rb_signals rb ! i, client_ids rb ! i)"
  have n: "?n \<le> 64" "?r < 64" "length (rb_signals rb) = 64" "length (client_ids rb) = 64"
    using ok by (simp_all add: rb_ok_def)
  obtain m where m: "?n = Suc m" using items by (cases ?n) (simp_all add: rb_items_def)
  then have "rb_size rb \<noteq> 0" by auto
  moreover have s: "unat (rb_size rb - 1) = m"
    using m \<open>rb_size rb \<noteq> 0\<close> by (simp add: unat_minus_one)
  moreover have r: "unat ((read_offset rb + 1) mod 64) = (?r + 1) mod 64"
    using unat_add_small(2) [OF n(2), of 1] by simp
  moreover have all: "rb_items rb = ?slot ?r # map (\<lambda>k. ?slot ((?r + Suc k) mod 64)) [0..<m]"
    using n(2) m by (simp add: rb_items_def Let_def upt_conv_Cons map_Suc_upt [symmetric] o_def del: upt_Suc)
  ultimately show ?thesis
    using items n m by (auto simp: pop_signal_def Let_def rb_ok_def rb_items_def mod_add_left_eq)
qed

interpretation ring: bounded_queue rb_items rb_ok 64 push_signal pop_signal
proof
  show "\<exists>rb'. push_signal x rb = (True, rb') \<and> rb_ok rb' \<and> rb_items rb' = rb_items rb @ [x]"
    if "rb_ok rb" "length (rb_items rb) < 64" for x rb
    using that by (rule push_signal_room)
  show "\<exists>rb'. pop_signal rb = Some (x, rb') \<and> rb_ok rb' \<and> rb_items rb' = xs"
    if "rb_ok rb" "rb_items rb = x # xs" for x xs rb
    using that by (rule pop_signal_item)
  show "push_signal x rb = (False, rb)" if "rb_ok rb" "length (rb_items rb) = 64" for x rb
    using that by (simp add: push_signal_def rb_items_def word_le_nat_alt)
  show "pop_signal rb = None" if "rb_ok rb" "rb_items rb = []" for rb
    using that by (simp add: pop_signal_def rb_items_def unat_eq_0)
qed (simp_all add: rb_ok_def rb_items_def)

end
