(* ===== verification/Portal_Daemon.thy ===== *)
theory Portal_Daemon
  imports Portal_Ring
begin

unbundle bit_operations_syntax

text \<open>
  The portal daemon around its state machine (\<open>software/src/portal-daemon.c\<close>): the clients on its
  local socket, the MQTT messages that come in and go out, the timer, and the loop that first
  handles all queued signals and then one round of input. Texts sent to clients and logging are left out; so
  are the sockets themselves, of which only the closing is recorded. Memory allocation succeeds.
  Whether a message can be published is a parameter.
\<close>

section \<open>Clients\<close>

definition IPC_DISCONNECT_ON_LOCKED :: u32 where "IPC_DISCONNECT_ON_LOCKED = push_bit 0 1"
definition IPC_DISCONNECT_ON_OPEN :: u32 where "IPC_DISCONNECT_ON_OPEN = push_bit 1 1"
definition IPC_DISCONNECT_ON_NO_CHANGE :: u32 where "IPC_DISCONNECT_ON_NO_CHANGE = push_bit 2 1"
definition IPC_DISCONNECT_ON_ERROR :: u32 where "IPC_DISCONNECT_ON_ERROR = push_bit 3 1"

lemmas disconnect_flag_defs = IPC_DISCONNECT_ON_LOCKED_def IPC_DISCONNECT_ON_OPEN_def
  IPC_DISCONNECT_ON_NO_CHANGE_def IPC_DISCONNECT_ON_ERROR_def

definition INVALID_IPC_CLIENT :: u32 where "INVALID_IPC_CLIENT = NOT 0"

definition POLLFD_FIRST_IPC :: nat where "POLLFD_FIRST_IPC = 3"
definition POLLFD_LIMIT :: nat where "POLLFD_LIMIT = 32"

record IpcClientInfo =
  ic_fd :: int
  client_id :: u32
  disconnect_flags :: u32
  forward_logs :: bool
  nick_name :: "string option"
  full_name :: "string option"
  member_id :: int

record DeviceStatus =
  ssh_interface :: bool
  door_control_b2 :: bool
  door_control_c2 :: bool
  busch_interface :: bool

text \<open>
  \<open>d_clients\<close> are the slots from \<open>POLLFD_FIRST_IPC\<close> on. \<open>d_high\<close> counts the slots that have been in
  use: a slot above the clients holds zeros before its first use and bytes 0xAA after it was
  given up. \<open>d_timer\<close> is the time the one-shot timer is armed with.
\<close>

record daemon =
  d_sm :: StateMachine
  d_queue :: signal_ring_buffer
  d_clients :: "IpcClientInfo list"
  d_high :: nat
  d_next_id :: u32
  d_timer :: "u32 option"
  d_status :: DeviceStatus
  d_sent :: "(string \<times> string) list"
  d_closed :: "int list"

definition daemon_init :: daemon where
  "daemon_init = \<lparr>d_sm = sm_init, d_queue = signal_ring_buffer_init, d_clients = [], d_high = 0,
     d_next_id = 0, d_timer = None, d_status = \<lparr>ssh_interface = True, door_control_b2 = False,
     door_control_c2 = False, busch_interface = False\<rparr>, d_sent = [], d_closed = []\<rparr>"

definition stale_id :: "daemon \<Rightarrow> u32" where
  "stale_id d = (if length (d_clients d) < d_high d then 0xAAAAAAAA else 0)"

text \<open>The loop of \<open>fetch_next_client_id\<close>: count on until the number is valid and not in use.\<close>

partial_function (option) increment_id :: "u32 list \<Rightarrow> u32 \<Rightarrow> u32 option" where
  "increment_id ids n =
     (let n1 = n + 1; n2 = (if n1 = INVALID_IPC_CLIENT then n1 + 1 else n1)
      in if n2 \<in> set ids then increment_id ids n2 else Some n2)"

definition fetch_next_client_id :: "u32 list \<Rightarrow> u32 \<Rightarrow> (u32 \<times> u32) option" where
  "fetch_next_client_id ids n = map_option (Pair n) (increment_id ids n)"

text \<open>The slot of the new client already counts when its id is fetched.\<close>

definition add_ipc_client :: "int \<Rightarrow> daemon \<Rightarrow> daemon option" where
  "add_ipc_client fd d =
     (if POLLFD_FIRST_IPC + length (d_clients d) \<ge> POLLFD_LIMIT then Some (d\<lparr>d_closed := d_closed d @ [fd]\<rparr>)
      else
        (case fetch_next_client_id (map client_id (d_clients d) @ [stale_id d]) (d_next_id d) of
           None \<Rightarrow> None
         | Some (i, n) \<Rightarrow>
             Some (d\<lparr>d_next_id := n, d_high := max (d_high d) (Suc (length (d_clients d))),
               d_clients := d_clients d @ [\<lparr>ic_fd = fd, client_id = i, disconnect_flags = 0, forward_logs = False,
                 nick_name = None, full_name = None, member_id = -1\<rparr>]\<rparr>)))"

definition remove_ipc_client :: "nat \<Rightarrow> daemon \<Rightarrow> daemon" where
  "remove_ipc_client i d =
     d\<lparr>d_closed := d_closed d @ [ic_fd (d_clients d ! i)],
       d_clients := butlast ((d_clients d)[i := last (d_clients d)])\<rparr>"

lemma remove_ipc_client_length [simp]:
  "length (d_clients (remove_ipc_client i d)) = length (d_clients d) - 1"
  by (simp add: remove_ipc_client_def)

function remove_clients_from :: "nat \<Rightarrow> u32 \<Rightarrow> daemon \<Rightarrow> daemon" where
  "remove_clients_from i flags d =
     (if i < length (d_clients d)
      then if disconnect_flags (d_clients d ! i) AND flags \<noteq> 0
           then remove_clients_from i flags (remove_ipc_client i d)
           else remove_clients_from (i + 1) flags d
      else d)"
  by pat_completeness auto
termination by (relation "measure (\<lambda>(i, _, d). length (d_clients d) - i)") auto

declare remove_clients_from.simps [simp del]

definition remove_all_ipc_clients :: "u32 \<Rightarrow> daemon \<Rightarrow> daemon" where
  "remove_all_ipc_clients flags d = remove_clients_from 0 flags d"

fun find_client_from :: "nat \<Rightarrow> u32 \<Rightarrow> IpcClientInfo list \<Rightarrow> nat option" where
  "find_client_from i cid [] = None"
| "find_client_from i cid (c # cs) = (if client_id c = cid then Some i else find_client_from (Suc i) cid cs)"

definition find_ipc_client_by_id :: "u32 \<Rightarrow> daemon \<Rightarrow> nat option" where
  "find_ipc_client_by_id cid d = find_client_from 0 cid (d_clients d)"

section \<open>Messages\<close>

definition DOOR_NAME :: "string \<Rightarrow> string" where "DOOR_NAME d = ''door.'' @ d"
definition PORTAL300_TOPIC_PREFIX :: string where "PORTAL300_TOPIC_PREFIX = ''shackspace/portal/''"
definition topic :: "string \<Rightarrow> string" where "topic t = PORTAL300_TOPIC_PREFIX @ t"

type_synonym publish = "string \<Rightarrow> string \<Rightarrow> bool"

definition send_mqtt_msg :: "publish \<Rightarrow> string \<Rightarrow> string \<Rightarrow> daemon \<Rightarrow> bool \<times> daemon" where
  "send_mqtt_msg ok t x d = (if ok t x then (True, d\<lparr>d_sent := d_sent d @ [(t, x)]\<rparr>) else (False, d))"

text \<open>One signal of the queue, with the id of the client it belongs to.\<close>

definition STATE_MACHINE_TIMEOUT_MS :: u32 where "STATE_MACHINE_TIMEOUT_MS = 120000"

definition open_unsafe :: "publish \<Rightarrow> string \<Rightarrow> daemon \<Rightarrow> daemon" where
  "open_unsafe ok door d = snd (send_mqtt_msg ok (topic ''action/door/open-unsafe'') (DOOR_NAME door) d)"

definition open_safe :: "publish \<Rightarrow> string \<Rightarrow> daemon \<Rightarrow> daemon" where
  "open_safe ok door d = snd (send_mqtt_msg ok (topic ''action/door/open-safe'') (DOOR_NAME door) d)"

definition lock_all :: "publish \<Rightarrow> daemon \<Rightarrow> daemon" where
  "lock_all ok d =
     (case send_mqtt_msg ok (topic ''action/door/lock'') (DOOR_NAME ''c2'') d of
        (False, d1) \<Rightarrow> d1
      | (True, d1) \<Rightarrow> snd (send_mqtt_msg ok (topic ''action/door/lock'') (DOOR_NAME ''b2'') d1))"

definition handle_signal :: "publish \<Rightarrow> SM_Signal \<times> u32 \<Rightarrow> daemon \<Rightarrow> daemon" where
  "handle_signal ok x d =
     (case fst x of
        SIGNAL_OPEN_DOOR_B \<Rightarrow> open_unsafe ok ''b'' d
      | SIGNAL_OPEN_DOOR_C \<Rightarrow> open_unsafe ok ''c'' d
      | SIGNAL_OPEN_DOOR_B2_SAFE \<Rightarrow> open_safe ok ''b2'' d
      | SIGNAL_OPEN_DOOR_C2_SAFE \<Rightarrow> open_safe ok ''c2'' d
      | SIGNAL_OPEN_DOOR_B2_UNSAFE \<Rightarrow> open_unsafe ok ''b2'' d
      | SIGNAL_OPEN_DOOR_C2_UNSAFE \<Rightarrow> open_unsafe ok ''c2'' d
      | SIGNAL_LOCK_ALL \<Rightarrow> lock_all ok d
      | SIGNAL_UNLOCK_SUCCESSFUL \<Rightarrow> d
      | SIGNAL_LOCK_SUCCESSFUL \<Rightarrow> remove_all_ipc_clients IPC_DISCONNECT_ON_LOCKED d
      | SIGNAL_OPEN_SUCCESSFUL \<Rightarrow> remove_all_ipc_clients IPC_DISCONNECT_ON_OPEN d
      | SIGNAL_CHANGE_KEYHOLDER \<Rightarrow> remove_all_ipc_clients IPC_DISCONNECT_ON_OPEN d
      | SIGNAL_CANNOT_HANDLE_REQUEST \<Rightarrow>
          (case find_ipc_client_by_id (snd x) d of None \<Rightarrow> d | Some i \<Rightarrow> remove_ipc_client i d)
      | SIGNAL_UNLOCK_TIMEOUT \<Rightarrow> d
      | SIGNAL_STATE_CHANGE \<Rightarrow> d
      | SIGNAL_NO_STATE_CHANGE \<Rightarrow> remove_all_ipc_clients IPC_DISCONNECT_ON_NO_CHANGE d
      | SIGNAL_START_TIMEOUT \<Rightarrow> d\<lparr>d_timer := Some STATE_MACHINE_TIMEOUT_MS\<rparr>
      | SIGNAL_CANCEL_TIMEOUT \<Rightarrow> d\<lparr>d_timer := None\<rparr>
      | SIGNAL_USER_REQUESTED_TIMED_OUT \<Rightarrow> remove_all_ipc_clients IPC_DISCONNECT_ON_ERROR d)"

text \<open>\<open>state_machine_signal_handler\<close> puts a signal in the queue; what does not fit is lost.\<close>

definition apply_event :: "SM_Event \<Rightarrow> u32 \<Rightarrow> daemon \<Rightarrow> daemon" where
  "apply_event e cid d =
     (let (sigs, sm) = sm_apply_event (d_sm d) e
      in d\<lparr>d_sm := sm, d_queue := fold (\<lambda>s q. snd (push_signal (s, cid) q)) sigs (d_queue d)\<rparr>)"

section \<open>Input\<close>

datatype ipc_message =
  IPC_MSG_OPEN_FRONT int string string | IPC_MSG_OPEN_BACK int string string | IPC_MSG_CLOSE
| IPC_MSG_FORCE_OPEN | IPC_MSG_SYSTEM_RESET | IPC_MSG_SHUTDOWN | IPC_MSG_QUERY_STATUS
| IPC_MSG_SIMPLE_STATUS | IPC_MSG_INVALID

text \<open>\<open>strnlen\<close>: names fill at most 256 bytes and end at the first zero.\<close>

definition c_name :: "string \<Rightarrow> string" where
  "c_name s = takeWhile (\<lambda>c. c \<noteq> CHR 0x00) (take 256 s)"

definition upd_client :: "nat \<Rightarrow> (IpcClientInfo \<Rightarrow> IpcClientInfo) \<Rightarrow> daemon \<Rightarrow> daemon" where
  "upd_client i f d = d\<lparr>d_clients := (d_clients d)[i := f (d_clients d ! i)]\<rparr>"

definition ipc_open :: "SM_Event \<Rightarrow> nat \<Rightarrow> int \<Rightarrow> string \<Rightarrow> string \<Rightarrow> daemon \<Rightarrow> daemon" where
  "ipc_open e i mid nick name d =
     (let d1 = upd_client i (\<lambda>c. c\<lparr>forward_logs := True, disconnect_flags := disconnect_flags c OR
                 (IPC_DISCONNECT_ON_OPEN OR IPC_DISCONNECT_ON_NO_CHANGE OR IPC_DISCONNECT_ON_ERROR)\<rparr>) d
      in if c_name nick = [] \<or> c_name name = [] \<or> mid \<le> 0 then remove_ipc_client i d1
         else apply_event e (client_id (d_clients d1 ! i))
                (upd_client i (\<lambda>c. c\<lparr>nick_name := Some (c_name nick), full_name := Some (c_name name),
                   member_id := mid\<rparr>) d1))"

definition handle_ipc_message :: "publish \<Rightarrow> nat \<Rightarrow> ipc_message \<Rightarrow> daemon \<Rightarrow> daemon" where
  "handle_ipc_message ok i m d =
     (case m of
        IPC_MSG_OPEN_FRONT mid nick name \<Rightarrow> ipc_open EVENT_SSH_OPEN_FRONT_REQUEST i mid nick name d
      | IPC_MSG_OPEN_BACK mid nick name \<Rightarrow> ipc_open EVENT_SSH_OPEN_BACK_REQUEST i mid nick name d
      | IPC_MSG_CLOSE \<Rightarrow>
          (let d1 = upd_client i (\<lambda>c. c\<lparr>forward_logs := True, disconnect_flags := disconnect_flags c OR
                 (IPC_DISCONNECT_ON_LOCKED OR IPC_DISCONNECT_ON_NO_CHANGE OR IPC_DISCONNECT_ON_ERROR)\<rparr>) d
           in apply_event EVENT_SSH_CLOSE_REQUEST (client_id (d_clients d1 ! i)) d1)
      | IPC_MSG_FORCE_OPEN \<Rightarrow>
          remove_ipc_client i (fold (open_unsafe ok) [''b'', ''b2'', ''c'', ''c2''] d)
      | IPC_MSG_SYSTEM_RESET \<Rightarrow>
          remove_ipc_client i (snd (send_mqtt_msg ok (topic ''action/reset'') ''*''
            (upd_client i (\<lambda>c. c\<lparr>forward_logs := True\<rparr>) d)))
      | IPC_MSG_SHUTDOWN \<Rightarrow> remove_ipc_client i (upd_client i (\<lambda>c. c\<lparr>forward_logs := True\<rparr>) d)
      | IPC_MSG_QUERY_STATUS \<Rightarrow> remove_ipc_client i d
      | IPC_MSG_SIMPLE_STATUS \<Rightarrow> remove_ipc_client i d
      | IPC_MSG_INVALID \<Rightarrow> remove_ipc_client i d)"

definition parse_system_status :: "string \<Rightarrow> bool" where
  "parse_system_status s = (s = ''online'')"

text \<open>The event of a door's report; other reports are logged only.\<close>

definition door_event :: "SM_Event \<Rightarrow> SM_Event \<Rightarrow> SM_Event \<Rightarrow> string \<Rightarrow> SM_Event option" where
  "door_event e_locked e_closed e_opened x =
     (if x = ''locked'' then Some e_locked else if x = ''closed'' then Some e_closed
      else if x = ''opened'' then Some e_opened else None)"

text \<open>
  \<open>mqtt_handle_message\<close>. Every topic of the system starts with the prefix, the reset, too, so
  the branch for \<open>PORTAL300_TOPIC_ACTION_RESET\<close> after it is never taken; it would end the process,
  which is the result \<open>None\<close>.
\<close>

definition mqtt_handle_message :: "string \<Rightarrow> string \<Rightarrow> daemon \<Rightarrow> daemon option" where
  "mqtt_handle_message t x d =
     (let event = (\<lambda>e. case e of None \<Rightarrow> Some d | Some e \<Rightarrow> Some (apply_event e INVALID_IPC_CLIENT d));
          st = d_status d; on = parse_system_status x
      in if t = topic ''event/doorbell'' then event (Some EVENT_DOORBELL_FRONT)
         else if t = topic ''status/door-b2''
         then event (door_event EVENT_DOOR_B2_LOCKED EVENT_DOOR_B2_CLOSED EVENT_DOOR_B2_OPENED x)
         else if t = topic ''status/door-c2''
         then event (door_event EVENT_DOOR_C2_LOCKED EVENT_DOOR_C2_CLOSED EVENT_DOOR_C2_OPENED x)
         else if t = topic ''status/ssh-interface'' then Some (d\<lparr>d_status := st\<lparr>ssh_interface := on\<rparr>\<rparr>)
         else if t = topic ''status/door-control-b2'' then Some (d\<lparr>d_status := st\<lparr>door_control_b2 := on\<rparr>\<rparr>)
         else if t = topic ''status/door-control-c2'' then Some (d\<lparr>d_status := st\<lparr>door_control_c2 := on\<rparr>\<rparr>)
         else if t = topic ''status/busch-interface'' then Some (d\<lparr>d_status := st\<lparr>busch_interface := on\<rparr>\<rparr>)
         else if t = topic ''event/button''
         then event (if x = DOOR_NAME ''b2'' then Some EVENT_BUTTON_B2
                     else if x = DOOR_NAME ''c2'' then Some EVENT_BUTTON_C2 else None)
         else if t = topic ''action/door/open-safe'' then Some d
         else if t = topic ''action/door/open-unsafe'' then Some d
         else if t = topic ''action/door/lock'' then Some d
         else if take (length PORTAL300_TOPIC_PREFIX) t = PORTAL300_TOPIC_PREFIX then Some d
         else if take (length (topic ''action/reset'')) t = topic ''action/reset'' then None
         else Some d)"

text \<open>
  What the poll reports: a new connection, a message of a client, its hang-up or error, an MQTT
  message, the expired timer. The one-shot timer is off after it expired.
\<close>

datatype input =
  Accept int | Message nat ipc_message | Hang_up nat | Receive_error nat | Mqtt string string | Timer

definition valid_input :: "daemon \<Rightarrow> input \<Rightarrow> bool" where
  "valid_input d i =
     (case i of Message k _ \<Rightarrow> k < length (d_clients d) | Hang_up k \<Rightarrow> k < length (d_clients d)
      | Receive_error k \<Rightarrow> k < length (d_clients d) | Timer \<Rightarrow> d_timer d \<noteq> None | _ \<Rightarrow> True)"

definition handle_input :: "publish \<Rightarrow> input \<Rightarrow> daemon \<Rightarrow> daemon option" where
  "handle_input ok i d =
     (case i of
        Accept fd \<Rightarrow> add_ipc_client fd d
      | Message k m \<Rightarrow> Some (handle_ipc_message ok k m d)
      | Hang_up k \<Rightarrow> Some (remove_ipc_client k d)
      | Receive_error k \<Rightarrow> Some d
      | Mqtt t x \<Rightarrow> mqtt_handle_message t x d
      | Timer \<Rightarrow> Some (apply_event EVENT_TIMEOUT INVALID_IPC_CLIENT (d\<lparr>d_timer := None\<rparr>)))"

section \<open>The loop\<close>

lemma remove_ipc_client_rest [simp]:
  "d_queue (remove_ipc_client i d) = d_queue d" "d_sm (remove_ipc_client i d) = d_sm d"
  "d_timer (remove_ipc_client i d) = d_timer d" "d_next_id (remove_ipc_client i d) = d_next_id d"
  "d_high (remove_ipc_client i d) = d_high d"
  by (simp_all add: remove_ipc_client_def)

lemma remove_clients_rest:
  "d_queue (remove_clients_from i f d) = d_queue d \<and> d_sm (remove_clients_from i f d) = d_sm d \<and>
   d_timer (remove_clients_from i f d) = d_timer d \<and> d_next_id (remove_clients_from i f d) = d_next_id d"
proof (induction i f d rule: remove_clients_from.induct)
  case (1 i f d)
  then show ?case by (subst (1 2 3 4) remove_clients_from.simps) simp
qed

lemma send_mqtt_rest [simp]:
  "d_queue (snd (send_mqtt_msg ok t x d)) = d_queue d" "d_sm (snd (send_mqtt_msg ok t x d)) = d_sm d"
  "d_timer (snd (send_mqtt_msg ok t x d)) = d_timer d" "d_clients (snd (send_mqtt_msg ok t x d)) = d_clients d"
  "d_next_id (snd (send_mqtt_msg ok t x d)) = d_next_id d"
  by (simp_all add: send_mqtt_msg_def)

lemma open_rest [simp]:
  "d_queue (open_safe ok b d) = d_queue d" "d_queue (open_unsafe ok b d) = d_queue d" "d_queue (lock_all ok d) = d_queue d"
  "d_sm (open_safe ok b d) = d_sm d" "d_sm (open_unsafe ok b d) = d_sm d" "d_sm (lock_all ok d) = d_sm d"
  "d_timer (open_safe ok b d) = d_timer d" "d_timer (open_unsafe ok b d) = d_timer d" "d_timer (lock_all ok d) = d_timer d"
  "d_clients (open_safe ok b d) = d_clients d" "d_clients (open_unsafe ok b d) = d_clients d" "d_clients (lock_all ok d) = d_clients d"
  "d_next_id (open_safe ok b d) = d_next_id d" "d_next_id (open_unsafe ok b d) = d_next_id d" "d_next_id (lock_all ok d) = d_next_id d"
  by (simp_all add: open_safe_def open_unsafe_def lock_all_def send_mqtt_msg_def)

lemma handle_signal_rest [simp]:
  "d_queue (handle_signal ok x d) = d_queue d" "d_sm (handle_signal ok x d) = d_sm d"
  "d_next_id (handle_signal ok x d) = d_next_id d"
  by (simp_all add: handle_signal_def remove_all_ipc_clients_def remove_clients_rest
      split: SM_Signal.split option.split)

lemma pop_signal_size: "pop_signal rb = Some (x, q) \<Longrightarrow> unat (rb_size q) < unat (rb_size rb)"
  by (auto simp: pop_signal_def Let_def unat_minus_one unat_gt_0 split: if_splits)

function handle_signals :: "publish \<Rightarrow> daemon \<Rightarrow> daemon" where
  "handle_signals ok d =
     (case pop_signal (d_queue d) of
        None \<Rightarrow> d
      | Some (x, q) \<Rightarrow> handle_signals ok (handle_signal ok x (d\<lparr>d_queue := q\<rparr>)))"
  by pat_completeness auto
termination
  by (relation "measure (\<lambda>(ok, d). unat (rb_size (d_queue d)))") (auto dest: pop_signal_size)

declare handle_signals.simps [simp del]

fun handle_inputs :: "publish \<Rightarrow> input list \<Rightarrow> daemon \<Rightarrow> daemon option" where
  "handle_inputs ok [] d = Some d"
| "handle_inputs ok (i # is) d = Option.bind (handle_input ok i d) (handle_inputs ok is)"

text \<open>One round of \<open>main\<close>'s loop: the queued signals, then what the poll has found.\<close>

definition main_loop :: "publish \<Rightarrow> input list \<Rightarrow> daemon \<Rightarrow> daemon option" where
  "main_loop ok is d = handle_inputs ok is (handle_signals ok d)"

end
