(* ===== verification/Portal_Daemon_Facts.thy ===== *)
theory Portal_Daemon_Facts
  imports Portal_Daemon Portal_SM_Facts "HOL-Library.Multiset"
begin

text \<open>
  The daemon keeps its clients apart, handles its signals in order, and never waits for an operation
  without a timeout.
\<close>

section \<open>Fresh ids\<close>

lemma unat_minus_Suc: "x \<noteq> 0 \<Longrightarrow> unat (x - 1 :: u32) = unat x - 1"
  by (rule unat_minus_one)

lemma unat_add_le: "unat (a + b :: u32) \<le> unat a + unat b"
  by (simp add: unat_word_ariths)

lemma increment_id_free:
  assumes "y \<notin> set ids" "y \<noteq> INVALID_IPC_CLIENT"
  shows "\<exists>z. increment_id ids n = Some z \<and> z \<notin> set ids \<and> z \<noteq> INVALID_IPC_CLIENT \<and>
     unat (z - (n + 1)) \<le> unat (y - (n + 1))"
proof (induction "unat (y - (n + 1))" arbitrary: n rule: less_induct)
  case less
  define n2 where "n2 = (if n + 1 = INVALID_IPC_CLIENT then n + 1 + 1 else n + 1)"
  have unfold: "increment_id ids n = (if n2 \<in> set ids then increment_id ids n2 else Some n2)"
    by (subst increment_id.simps) (simp add: Let_def n2_def)
  have valid: "n2 \<noteq> INVALID_IPC_CLIENT"
    by (auto simp: n2_def INVALID_IPC_CLIENT_def)
  have far: "n + 1 \<noteq> y \<Longrightarrow> unat (y - (n + 1)) > 0"
    by (simp add: unat_gt_0)
  have near: "unat (n2 - (n + 1)) \<le> unat (y - (n + 1))"
    using far assms(2) by (auto simp: n2_def Suc_le_eq)
  show ?case
  proof (cases "n2 \<in> set ids")
    case False
    then show ?thesis using unfold valid near by simp
  next
    case True
    then have "n2 \<noteq> y" using assms(1) by auto
    then have pos: "y - n2 \<noteq> 0" by simp
    have one: "unat (y - (n2 + 1)) = unat (y - n2) - 1"
      using unat_minus_Suc [OF pos] by (simp add: algebra_simps)
    have two: "n + 1 = INVALID_IPC_CLIENT \<Longrightarrow> unat (y - n2) = unat (y - (n + 1)) - 1 \<and> unat (y - (n + 1)) > 0"
      using far assms(2) unat_minus_Suc [of "y - (n + 1)"] by (auto simp: n2_def algebra_simps)
    have gt: "unat (y - n2) > 0" using pos by (simp add: unat_gt_0)
    have step: "unat (y - n2) \<le> unat (y - (n + 1))"
      using two by (cases "n + 1 = INVALID_IPC_CLIENT") (simp_all add: n2_def)
    then have "unat (y - (n2 + 1)) < unat (y - (n + 1))" using one gt by simp
    from less [OF this] obtain z where z: "increment_id ids n2 = Some z" "z \<notin> set ids" "z \<noteq> INVALID_IPC_CLIENT"
      "unat (z - (n2 + 1)) \<le> unat (y - (n2 + 1))" by blast
    have "unat (z - (n + 1)) \<le> unat (y - (n + 1))"
    proof -
      have "unat (y - (n2 + 1)) + unat (n2 - n) = unat (y - (n + 1))"
      proof (cases "n + 1 = INVALID_IPC_CLIENT")
        case True
        moreover have "n2 - n = 2" unfolding n2_def if_P [OF True] by simp
        ultimately show ?thesis using one gt two by simp
      next
        case False
        then show ?thesis using one gt by (simp add: n2_def)
      qed
      moreover have "unat (z - (n + 1)) \<le> unat (z - (n2 + 1)) + unat (n2 - n)"
      proof -
        have "(z - (n2 + 1)) + (n2 - n) = z - (n + 1)" by (simp add: algebra_simps)
        then show ?thesis using unat_add_le [of "z - (n2 + 1)" "n2 - n"] by argo
      qed
      ultimately show ?thesis using z(4) by linarith
    qed
    then show ?thesis using unfold True z by auto
  qed
qed


lemma id_left:
  assumes "length ids < 2 ^ 32 - 2"
  shows "\<exists>y :: u32. y \<notin> set ids \<and> y \<noteq> INVALID_IPC_CLIENT \<and> y \<noteq> n"
proof -
  let ?S = "insert n (insert INVALID_IPC_CLIENT (set ids))"
  have "card ?S \<le> Suc (Suc (card (set ids)))"
    by (simp add: card_insert_if)
  also have "\<dots> \<le> length ids + 2" using card_length [of ids] by simp
  also have "\<dots> < CARD(u32)" using assms by (simp add: card_word)
  finally have "?S \<noteq> UNIV" by (metis less_irrefl)
  then show ?thesis by blast
qed

lemma fetch_next_client_id_fresh:
  assumes "length ids < 2 ^ 32 - 2"
  shows "\<exists>z. fetch_next_client_id ids n = Some (n, z) \<and> z \<notin> set ids \<and> z \<noteq> INVALID_IPC_CLIENT \<and> z \<noteq> n"
proof -
  obtain y where y: "y \<notin> set ids" "y \<noteq> INVALID_IPC_CLIENT" "y \<noteq> n" using id_left [OF assms] by blast
  obtain z where z: "increment_id ids n = Some z" "z \<notin> set ids" "z \<noteq> INVALID_IPC_CLIENT"
    "unat (z - (n + 1)) \<le> unat (y - (n + 1))" using increment_id_free [OF y(1,2)] by blast
  have "z \<noteq> n"
  proof
    assume "z = n"
    have "n - (n + 1) = - 1" by simp
    then have "(- 1 :: u32) \<le> y - (n + 1)" using z(4) \<open>z = n\<close> by (simp only: word_le_nat_alt)
    then have "y - (n + 1) = - 1" using word_order.extremum [of "y - (n + 1)"] by (rule antisym [rotated])
    then have "y = n" by (simp add: algebra_simps)
    with y(3) show False by simp
  qed
  with z show ?thesis by (simp add: fetch_next_client_id_def)
qed

section \<open>Clients\<close>

definition clients_ok :: "daemon \<Rightarrow> bool" where
  "clients_ok d \<longleftrightarrow>
     (let ids = map client_id (d_clients d)
      in distinct ids \<and> INVALID_IPC_CLIENT \<notin> set ids \<and> d_next_id d \<notin> set ids \<and>
         d_next_id d \<noteq> INVALID_IPC_CLIENT \<and> POLLFD_FIRST_IPC + length ids \<le> POLLFD_LIMIT)"

lemma swap_remove_mset:
  "i < length xs \<Longrightarrow> mset (butlast (xs[i := last xs])) = mset xs - {#xs ! i#}"
proof (cases xs rule: rev_cases)
  case (snoc ys y)
  assume "i < length xs"
  then show ?thesis
    using snoc by (cases "i < length ys") (auto simp: list_update_append mset_update butlast_append nth_append)
qed simp

lemma distinct_mset_sub:
  assumes "mset xs \<subseteq># mset ys" "distinct ys"
  shows "distinct xs"
proof -
  obtain zs where "mset zs = mset ys - mset xs" using ex_mset by blast
  then have "mset (xs @ zs) = mset ys" using assms(1) by simp
  then have "distinct (xs @ zs)" using assms(2) by (metis mset_eq_imp_distinct_iff)
  then show ?thesis by simp
qed

lemma clients_ok_subset:
  assumes "clients_ok d" "mset (map client_id (d_clients d')) \<subseteq># mset (map client_id (d_clients d))"
    "d_next_id d' = d_next_id d"
  shows "clients_ok d'"
proof -
  have "length (d_clients d') \<le> length (d_clients d)" using size_mset_mono [OF assms(2)] by simp
  moreover have "set (map client_id (d_clients d')) \<subseteq> set (map client_id (d_clients d))"
    using set_mset_mono [OF assms(2)] by simp
  moreover have "distinct (map client_id (d_clients d'))"
    using assms(1) distinct_mset_sub [OF assms(2)] by (simp add: clients_ok_def Let_def)
  ultimately show ?thesis using assms(1,3) by (auto simp: clients_ok_def Let_def)
qed

lemma remove_ipc_client_mset:
  "i < length (d_clients d) \<Longrightarrow> mset (d_clients (remove_ipc_client i d)) = mset (d_clients d) - {#d_clients d ! i#}"
  by (simp add: remove_ipc_client_def swap_remove_mset)

lemma remove_ipc_client_ok:
  assumes "clients_ok d" "i < length (d_clients d)"
  shows "clients_ok (remove_ipc_client i d)"
proof (rule clients_ok_subset [OF assms(1)])
  have "mset (d_clients (remove_ipc_client i d)) \<subseteq># mset (d_clients d)"
    by (simp add: remove_ipc_client_mset [OF assms(2)])
  then show "mset (map client_id (d_clients (remove_ipc_client i d))) \<subseteq># mset (map client_id (d_clients d))"
    by (simp add: image_mset_subseteq_mono)
qed simp

lemma swap_remove_split:
  assumes "i < length xs"
  shows "take i (butlast (xs[i := last xs])) = take i xs"
    "mset (drop i (butlast (xs[i := last xs]))) + {#xs ! i#} = mset (drop i xs)"
proof -
  let ?ys = "butlast (xs[i := last xs])"
  show take: "take i ?ys = take i xs"
    using assms by (simp add: butlast_conv_take)
  have "mset ?ys + {#xs ! i#} = mset xs" using swap_remove_mset [OF assms] assms by simp
  moreover have "mset ?ys = mset (take i xs) + mset (drop i ?ys)"
    by (metis take append_take_drop_id mset_append)
  moreover have "mset xs = mset (take i xs) + mset (drop i xs)"
    by (metis append_take_drop_id mset_append)
  ultimately show "mset (drop i ?ys) + {#xs ! i#} = mset (drop i xs)"
    by (simp add: union_assoc)
qed

lemma remove_clients_from_mset:
  "mset (d_clients (remove_clients_from i f d)) =
     mset (take i (d_clients d)) + filter_mset (\<lambda>c. disconnect_flags c AND f = 0) (mset (drop i (d_clients d)))"
proof (induction i f d rule: remove_clients_from.induct)
  case (1 i f d)
  let ?cs = "d_clients d"
  show ?case
  proof (cases "i < length ?cs")
    case False
    then show ?thesis by (subst remove_clients_from.simps) simp
  next
    case True
    show ?thesis
    proof (cases "disconnect_flags (?cs ! i) AND f = 0")
      case False
      note sw = swap_remove_split [OF True]
      have "d_clients (remove_ipc_client i d) = butlast (?cs[i := last ?cs])"
        by (simp add: remove_ipc_client_def)
      moreover have "filter_mset (\<lambda>c. disconnect_flags c AND f = 0) (mset (drop i ?cs)) =
          filter_mset (\<lambda>c. disconnect_flags c AND f = 0) (mset (drop i (butlast (?cs[i := last ?cs]))))"
        using False by (simp flip: sw(2))
      ultimately show ?thesis
        using 1(1) [OF True False] True False sw(1) by (subst remove_clients_from.simps) simp
    next
      case keep: True
      have "take (i + 1) ?cs = take i ?cs @ [?cs ! i]" "drop i ?cs = ?cs ! i # drop (i + 1) ?cs"
        using True by (simp_all add: take_Suc_conv_app_nth Cons_nth_drop_Suc)
      then show ?thesis
        using 1(2) [OF True] keep True by (subst remove_clients_from.simps) simp
    qed
  qed
qed

lemma remove_all_mset:
  "mset (d_clients (remove_all_ipc_clients f d)) = filter_mset (\<lambda>c. disconnect_flags c AND f = 0) (mset (d_clients d))"
  by (simp add: remove_all_ipc_clients_def remove_clients_from_mset)

lemma remove_all_ok:
  assumes "clients_ok d"
  shows "clients_ok (remove_all_ipc_clients f d)"
proof (rule clients_ok_subset [OF assms])
  have "mset (d_clients (remove_all_ipc_clients f d)) \<subseteq># mset (d_clients d)"
    by (simp add: remove_all_mset)
  then show "mset (map client_id (d_clients (remove_all_ipc_clients f d))) \<subseteq># mset (map client_id (d_clients d))"
    by (simp add: image_mset_subseteq_mono)
qed (simp add: remove_all_ipc_clients_def remove_clients_rest)

lemma find_client_bound: "find_client_from i cid cs = Some k \<Longrightarrow> i \<le> k \<and> k < i + length cs"
  by (induction i cid cs rule: find_client_from.induct) (auto split: if_splits)

lemma clients_ok_same:
  "map client_id (d_clients d') = map client_id (d_clients d) \<Longrightarrow> d_next_id d' = d_next_id d \<Longrightarrow>
     clients_ok d' = clients_ok d"
  by (metis clients_ok_def length_map)

lemma handle_signal_clients:
  obtains (same) "d_clients (handle_signal ok x d) = d_clients d"
    | (all) f where "d_clients (handle_signal ok x d) = d_clients (remove_all_ipc_clients f d)"
    | (one) i where "i < length (d_clients d)" "d_clients (handle_signal ok x d) = d_clients (remove_ipc_client i d)"
proof -
  have bound: "i < length (d_clients d)" if "find_ipc_client_by_id c d = Some i" for i c
    using find_client_bound that unfolding find_ipc_client_by_id_def by fastforce
  have "d_clients (handle_signal ok x d) = d_clients d \<or>
      (\<exists>f. handle_signal ok x d = remove_all_ipc_clients f d) \<or> fst x = SIGNAL_CANNOT_HANDLE_REQUEST"
    by (cases "fst x"; simp add: handle_signal_def; blast)
  then consider (1) "d_clients (handle_signal ok x d) = d_clients d"
    | (2) f where "handle_signal ok x d = remove_all_ipc_clients f d" | (3) "fst x = SIGNAL_CANNOT_HANDLE_REQUEST"
    by blast
  then show thesis
  proof cases
    case 3
    show thesis
    proof (cases "find_ipc_client_by_id (snd x) d")
      case None
      then show thesis using 3 by (intro same) (simp add: handle_signal_def)
    next
      case (Some i)
      then show thesis using 3 bound by (intro one [of i]) (simp_all add: handle_signal_def)
    qed
  qed (use same all in simp_all)
qed

lemma handle_signal_clients_ok:
  assumes "clients_ok d"
  shows "clients_ok (handle_signal ok x d)"
proof (cases rule: handle_signal_clients [of ok x d])
  case same
  then show ?thesis using assms by (simp add: clients_ok_def)
next
  case (all f)
  then show ?thesis using remove_all_ok [OF assms, of f]
    by (simp add: clients_ok_def remove_all_ipc_clients_def remove_clients_rest)
next
  case (one i)
  then show ?thesis using remove_ipc_client_ok [OF assms one(1)] by (simp add: clients_ok_def)
qed

lemma add_ipc_client_ok:
  assumes "clients_ok d"
  obtains d' where "add_ipc_client fd d = Some d'" "clients_ok d'"
    "d_sm d' = d_sm d" "d_queue d' = d_queue d" "d_timer d' = d_timer d"
proof (cases "POLLFD_FIRST_IPC + length (d_clients d) \<ge> POLLFD_LIMIT")
  case True
  then show thesis using assms
    by (intro that [of "d\<lparr>d_closed := d_closed d @ [fd]\<rparr>"]) (simp_all add: add_ipc_client_def clients_ok_def)
next
  case False
  let ?ids = "map client_id (d_clients d) @ [stale_id d]"
  have "length ?ids < 2 ^ 32 - 2" using False by (simp add: POLLFD_LIMIT_def POLLFD_FIRST_IPC_def)
  from fetch_next_client_id_fresh [OF this] obtain z where z:
    "fetch_next_client_id ?ids (d_next_id d) = Some (d_next_id d, z)" "z \<notin> set ?ids" "z \<noteq> INVALID_IPC_CLIENT"
    "z \<noteq> d_next_id d" by blast
  obtain d' where d': "add_ipc_client fd d = Some d'" "d_next_id d' = z"
    "map client_id (d_clients d') = map client_id (d_clients d) @ [d_next_id d]"
    "d_sm d' = d_sm d" "d_queue d' = d_queue d" "d_timer d' = d_timer d"
    using z(1) False by (simp add: add_ipc_client_def)
  have "clients_ok d'"
    using assms z(2-4) False d'(2,3) unfolding clients_ok_def Let_def d'(2,3) by auto
  then show thesis using that d' by blast
qed

section \<open>The timer\<close>

text \<open>The timer as it will be when the queued signals are handled.\<close>

definition timer_after :: "(SM_Signal \<times> u32) list \<Rightarrow> u32 option \<Rightarrow> u32 option" where
  "timer_after xs t = fold (\<lambda>(s, _) t. if s = SIGNAL_START_TIMEOUT then Some STATE_MACHINE_TIMEOUT_MS
     else if s = SIGNAL_CANCEL_TIMEOUT then None else t) xs t"

definition guarded :: "daemon \<Rightarrow> bool" where
  "guarded d \<longleftrightarrow> (sm_state (d_sm d) \<noteq> STATE_IDLE \<longrightarrow> timer_after (rb_items (d_queue d)) (d_timer d) \<noteq> None)"

lemma timer_after_simps [simp]:
  "timer_after [] t = t"
  "timer_after ((s, c) # xs) t = timer_after xs (if s = SIGNAL_START_TIMEOUT then Some STATE_MACHINE_TIMEOUT_MS
     else if s = SIGNAL_CANCEL_TIMEOUT then None else t)"
  "timer_after (xs @ ys) t = timer_after ys (timer_after xs t)"
  by (simp_all add: timer_after_def)

lemma timer_after_other:
  "set sigs \<inter> {SIGNAL_START_TIMEOUT, SIGNAL_CANCEL_TIMEOUT} = {} \<Longrightarrow>
     timer_after (map (\<lambda>s. (s, c)) sigs) t = t"
  by (induction sigs) auto

lemma sm_move_timer:
  assumes "sm_move st sigs st'" "st' \<noteq> STATE_IDLE" "st = STATE_IDLE \<or> t \<noteq> None"
  shows "timer_after (map (\<lambda>s. (s, c)) sigs) t \<noteq> None"
  using assms(1)
proof (cases rule: sm_move.cases)
  case stay
  then have "set sigs \<inter> {SIGNAL_START_TIMEOUT, SIGNAL_CANCEL_TIMEOUT} = {}" by blast
  then show ?thesis using assms(2,3) stay by (simp add: timer_after_other)
qed (use assms in \<open>auto split: if_splits\<close>)

lemma sm_apply_event_timer:
  assumes "sm_apply_event sm e = (sigs, sm')" "sm_state sm' \<noteq> STATE_IDLE" "sm_state sm = STATE_IDLE \<or> t \<noteq> None"
  shows "timer_after (map (\<lambda>s. (s, c)) sigs) t \<noteq> None"
  using assms(1)
proof (rule sm_apply_eventE)
  fix out
  assume s: "sigs = (if sm_get_shack_state sm' \<noteq> last_shack_state sm then [SIGNAL_STATE_CHANGE] else []) @ out"
    and r: "sm_rules (door_b2 sm) (door_c2 sm) (sm_get_shack_state sm') (sm_state sm) e = (out, sm_state sm')"
  show ?thesis using sm_move_timer [OF sm_rules_move [OF r] assms(2,3)] s by simp
qed

lemma sm_timeout_idle: "sm_state (snd (sm_apply_event sm EVENT_TIMEOUT)) = STATE_IDLE"
proof (cases "sm_apply_event sm EVENT_TIMEOUT")
  case (Pair sigs sm')
  then obtain out where "sm_rules (door_b2 sm) (door_c2 sm) (sm_get_shack_state sm') (sm_state sm) EVENT_TIMEOUT =
      (out, sm_state sm')"
    by (elim sm_apply_eventE)
  then have "sm_state sm' = STATE_IDLE"
    by (cases "sm_state sm") (simp_all add: sm_rules_def sm_tests)
  then show ?thesis using Pair by simp
qed

text \<open>An event with room for its signals.\<close>

lemma apply_event_queue:
  assumes "rb_ok (d_queue d)" "length (rb_items (d_queue d)) \<le> 60" "sm_apply_event (d_sm d) e = (sigs, sm')"
  shows "rb_ok (d_queue (apply_event e c d))"
    "rb_items (d_queue (apply_event e c d)) = rb_items (d_queue d) @ map (\<lambda>s. (s, c)) sigs"
proof -
  have q: "d_queue (apply_event e c d) = ring.push_list (map (\<lambda>s. (s, c)) sigs) (d_queue d)"
    by (simp add: apply_event_def assms(3) ring.push_list_def fold_map o_def)
  have "length sigs \<le> 4" using assms(3) by (rule sm_apply_event_length)
  then show "rb_ok (d_queue (apply_event e c d))"
    "rb_items (d_queue (apply_event e c d)) = rb_items (d_queue d) @ map (\<lambda>s. (s, c)) sigs"
    using ring.push_list_items [OF assms(1), of "map (\<lambda>s. (s, c)) sigs"] assms(2) q by simp_all
qed

lemma apply_event_rest [simp]:
  "d_timer (apply_event e c d) = d_timer d" "d_clients (apply_event e c d) = d_clients d"
  "d_next_id (apply_event e c d) = d_next_id d" "d_sm (apply_event e c d) = snd (sm_apply_event (d_sm d) e)"
  by (simp_all add: apply_event_def split: prod.split)

text \<open>What a round keeps: with \<open>n\<close> signals queued at most.\<close>

definition daemon_ok :: "nat \<Rightarrow> daemon \<Rightarrow> bool" where
  "daemon_ok n d \<longleftrightarrow> rb_ok (d_queue d) \<and> length (rb_items (d_queue d)) \<le> n \<and> clients_ok d \<and> guarded d"

lemma daemon_ok_same:
  assumes "daemon_ok n d" "d_queue d' = d_queue d" "d_sm d' = d_sm d" "d_timer d' = d_timer d" "clients_ok d'"
  shows "daemon_ok n d'"
  using assms by (simp add: daemon_ok_def guarded_def)

lemma apply_event_ok:
  assumes "rb_ok (d_queue d)" "length (rb_items (d_queue d)) \<le> n" "clients_ok d" "n \<le> 60"
    and "guarded d \<or> e = EVENT_TIMEOUT"
  shows "daemon_ok (n + 4) (apply_event e c d)"
proof -
  obtain sigs sm' where ap: "sm_apply_event (d_sm d) e = (sigs, sm')" by fastforce
  have room: "length (rb_items (d_queue d)) \<le> 60" using assms by simp
  note q = apply_event_queue [OF assms(1) room ap, of c]
  have "guarded (apply_event e c d)"
  proof (cases "sm_state sm' = STATE_IDLE")
    case True
    then show ?thesis by (simp add: guarded_def ap)
  next
    case False
    then have "e \<noteq> EVENT_TIMEOUT" using sm_timeout_idle [of "d_sm d"] ap by auto
    then have "sm_state (d_sm d) = STATE_IDLE \<or> timer_after (rb_items (d_queue d)) (d_timer d) \<noteq> None"
      using assms(5) by (auto simp: guarded_def)
    from sm_apply_event_timer [OF ap False this, of c] show ?thesis by (simp add: guarded_def q)
  qed
  moreover have "clients_ok (apply_event e c d)" using assms(3) by (simp add: clients_ok_def)
  ultimately show ?thesis using q assms(2) sm_apply_event_length [OF ap] by (simp add: daemon_ok_def)
qed

section \<open>Handling the queue\<close>

lemma remove_ipc_client_queue: "remove_ipc_client i (d\<lparr>d_queue := q\<rparr>) = (remove_ipc_client i d)\<lparr>d_queue := q\<rparr>"
  by (simp add: remove_ipc_client_def)

lemma remove_clients_queue:
  "remove_clients_from i f (d\<lparr>d_queue := q\<rparr>) = (remove_clients_from i f d)\<lparr>d_queue := q\<rparr>"
proof (induction i f d rule: remove_clients_from.induct)
  case (1 i f d)
  then show ?case
    by (subst (1 2) remove_clients_from.simps) (simp add: remove_ipc_client_queue)
qed

lemma handle_signal_queue: "handle_signal ok x (d\<lparr>d_queue := q\<rparr>) = (handle_signal ok x d)\<lparr>d_queue := q\<rparr>"
  by (simp add: handle_signal_def remove_all_ipc_clients_def remove_clients_queue open_safe_def open_unsafe_def
      lock_all_def send_mqtt_msg_def find_ipc_client_by_id_def remove_ipc_client_queue
      split: SM_Signal.split option.split)

lemma handle_signal_timer: "d_timer (handle_signal ok x d) = timer_after [x] (d_timer d)"
  by (cases x) (auto simp: handle_signal_def remove_all_ipc_clients_def remove_clients_rest
      split: SM_Signal.split option.split)

text \<open>The loop handles exactly the items of the queue, in order, and leaves it empty.\<close>

lemma handle_signals_fold:
  assumes "rb_ok (d_queue d)"
  shows "\<exists>q. rb_ok q \<and> rb_items q = [] \<and>
     handle_signals ok d = (fold (handle_signal ok) (rb_items (d_queue d)) d)\<lparr>d_queue := q\<rparr>"
  using assms
proof (induction "rb_items (d_queue d)" arbitrary: d)
  case Nil
  then have "pop_signal (d_queue d) = None" using ring.pop_empty by simp
  then have "handle_signals ok d = d" by (subst handle_signals.simps) simp
  then show ?case using Nil by (intro exI [of _ "d_queue d"]) (simp flip: Nil(1))
next
  case (Cons x xs)
  obtain q where q: "pop_signal (d_queue d) = Some (x, q)" "rb_ok q" "rb_items q = xs"
    using ring.pop_item [OF Cons.prems Cons.hyps(2) [symmetric]] by blast
  let ?d1 = "handle_signal ok x (d\<lparr>d_queue := q\<rparr>)"
  have one: "handle_signals ok d = handle_signals ok ?d1" by (subst handle_signals.simps) (simp add: q(1))
  obtain q' where q': "rb_ok q'" "rb_items q' = []"
    "handle_signals ok ?d1 = (fold (handle_signal ok) xs ?d1)\<lparr>d_queue := q'\<rparr>"
    using Cons.hyps(1) [of ?d1] q by auto
  have "fold (handle_signal ok) ys (d\<lparr>d_queue := q\<rparr>) = (fold (handle_signal ok) ys d)\<lparr>d_queue := q\<rparr>" for ys d
    by (induction ys arbitrary: d) (simp_all add: handle_signal_queue)
  then have "(fold (handle_signal ok) xs ?d1)\<lparr>d_queue := q'\<rparr> =
      (fold (handle_signal ok) (rb_items (d_queue d)) d)\<lparr>d_queue := q'\<rparr>"
    by (simp flip: Cons.hyps(2) add: handle_signal_queue)
  then show ?case using one q' by auto
qed

lemma fold_signals:
  "d_timer (fold (handle_signal ok) xs d) = timer_after xs (d_timer d)"
  "d_sm (fold (handle_signal ok) xs d) = d_sm d"
  "clients_ok d \<Longrightarrow> clients_ok (fold (handle_signal ok) xs d)"
  by (induction xs arbitrary: d) (simp_all add: handle_signal_timer handle_signal_clients_ok timer_after_def)

lemma handle_signals_ok:
  assumes "daemon_ok n d"
  shows "daemon_ok 0 (handle_signals ok d)"
    "sm_state (d_sm (handle_signals ok d)) \<noteq> STATE_IDLE \<longrightarrow> d_timer (handle_signals ok d) \<noteq> None"
proof -
  obtain q where q: "rb_ok q" "rb_items q = []"
    "handle_signals ok d = (fold (handle_signal ok) (rb_items (d_queue d)) d)\<lparr>d_queue := q\<rparr>"
    using handle_signals_fold assms unfolding daemon_ok_def by blast
  let ?f = "fold (handle_signal ok) (rb_items (d_queue d)) d"
  have f: "d_timer ?f = timer_after (rb_items (d_queue d)) (d_timer d)" "d_sm ?f = d_sm d" "clients_ok ?f"
    using fold_signals assms by (simp_all add: daemon_ok_def)
  show t: "sm_state (d_sm (handle_signals ok d)) \<noteq> STATE_IDLE \<longrightarrow> d_timer (handle_signals ok d) \<noteq> None"
    using assms f q(3) by (simp add: daemon_ok_def guarded_def)
  show "daemon_ok 0 (handle_signals ok d)"
    using t q f by (simp add: daemon_ok_def guarded_def clients_ok_def)
qed

section \<open>Rounds of the loop\<close>

lemma upd_client_ids: "(\<And>c. client_id (f c) = client_id c) \<Longrightarrow> map client_id (d_clients (upd_client i f d)) = map client_id (d_clients d)"
  by (cases "i < length (d_clients d)") (simp_all add: upd_client_def map_update list_update_same_conv list_update_beyond)

lemma upd_client_rest [simp]:
  "d_queue (upd_client i f d) = d_queue d" "d_sm (upd_client i f d) = d_sm d" "d_timer (upd_client i f d) = d_timer d"
  "d_next_id (upd_client i f d) = d_next_id d" "length (d_clients (upd_client i f d)) = length (d_clients d)"
  by (simp_all add: upd_client_def)

lemma upd_client_ok:
  "clients_ok d \<Longrightarrow> (\<And>c. client_id (f c) = client_id c) \<Longrightarrow> clients_ok (upd_client i f d)"
  using clients_ok_same [of "upd_client i f d" d] upd_client_ids [of f i d] by simp

lemma daemon_ok_mono: "daemon_ok n d \<Longrightarrow> n \<le> m \<Longrightarrow> daemon_ok m d"
  by (simp add: daemon_ok_def)

lemma apply_event_keeps:
  "daemon_ok n d \<Longrightarrow> n \<le> 60 \<Longrightarrow> daemon_ok (n + 4) (apply_event e c d)"
  by (rule apply_event_ok) (simp_all add: daemon_ok_def)

lemma upd_client_keeps:
  assumes "daemon_ok n d" "\<And>c. client_id (f c) = client_id c"
  shows "daemon_ok n (upd_client i f d)"
  by (rule daemon_ok_same [OF assms(1)]) (use assms in \<open>simp_all add: daemon_ok_def upd_client_ok\<close>)

lemma remove_client_keeps:
  assumes "daemon_ok n d" "i < length (d_clients d)"
  shows "daemon_ok n (remove_ipc_client i d)"
  by (rule daemon_ok_same [OF assms(1)]) (use assms in \<open>simp_all add: daemon_ok_def remove_ipc_client_ok\<close>)

lemma send_keeps:
  assumes "daemon_ok n d"
  shows "daemon_ok n (snd (send_mqtt_msg ok t x d))" "daemon_ok n (open_unsafe ok b d)"
  by (rule daemon_ok_same [OF assms]; use assms in \<open>simp add: daemon_ok_def clients_ok_def\<close>)+

lemma ipc_open_keeps:
  assumes "daemon_ok n d" "i < length (d_clients d)" "n \<le> 60"
  shows "daemon_ok (n + 4) (ipc_open e i mid nick name d)"
  using assms(2,3) daemon_ok_mono [of n _ "n + 4"]
  by (auto simp: ipc_open_def Let_def intro!: apply_event_keeps upd_client_keeps assms(1)
      intro: daemon_ok_mono [OF remove_client_keeps [OF upd_client_keeps [OF assms(1)]]])

lemma handle_ipc_message_keeps:
  assumes "daemon_ok n d" "i < length (d_clients d)" "n \<le> 60"
  shows "daemon_ok (n + 4) (handle_ipc_message ok i m d)"
proof -
  have rm: "daemon_ok (n + 4) (remove_ipc_client i d')" if "daemon_ok n d'" "length (d_clients d') = length (d_clients d)" for d'
    using daemon_ok_mono [OF remove_client_keeps [OF that(1)], of i "n + 4"] that(2) assms(2) by simp
  show ?thesis
  proof (cases m)
    case IPC_MSG_CLOSE
    then show ?thesis
      using assms(3) by (auto simp: handle_ipc_message_def Let_def intro!: apply_event_keeps upd_client_keeps assms(1))
  qed (auto simp: handle_ipc_message_def intro!: ipc_open_keeps assms rm send_keeps upd_client_keeps)
qed

lemma topic_prefix: "take (length PORTAL300_TOPIC_PREFIX) (topic t @ s) = PORTAL300_TOPIC_PREFIX"
  by (simp add: topic_def)

text \<open>No MQTT message ends the daemon: a topic that starts with the one of the reset starts with the prefix.\<close>

lemma mqtt_handle_message_keeps:
  assumes "daemon_ok n d" "n \<le> 60"
  shows "\<exists>d'. mqtt_handle_message t x d = Some d' \<and> daemon_ok (n + 4) d'"
proof -
  define good where "good r \<longleftrightarrow> (\<exists>d'. r = Some d' \<and> daemon_ok (n + 4) d')" for r
  have same: "good (Some (d\<lparr>d_status := s\<rparr>))" "good (Some d)" for s
    using daemon_ok_mono [OF assms(1), of "n + 4"] by (simp_all add: good_def daemon_ok_def guarded_def clients_ok_def)
  have reset: "take (length PORTAL300_TOPIC_PREFIX) t = PORTAL300_TOPIC_PREFIX"
    if "take (length (topic ''action/reset'')) t = topic ''action/reset''"
    using topic_prefix [of "''action/reset''" "drop (length (topic ''action/reset'')) t"] that
    by (metis append_take_drop_id)
  have ev: "good (case e of None \<Rightarrow> Some d | Some e \<Rightarrow> Some (apply_event e INVALID_IPC_CLIENT d))" for e
    using same(2) apply_event_keeps [OF assms] by (cases e) (simp_all add: good_def)
  have if_good: "good (if b then r else r')" if "b \<Longrightarrow> good r" "\<not> b \<Longrightarrow> good r'" for b r r'
    using that by simp
  have "good (mqtt_handle_message t x d)"
    unfolding mqtt_handle_message_def Let_def
    by (intro if_good ev same) (erule notE, erule reset)
  then show ?thesis by (simp add: good_def)
qed

lemma handle_input_keeps:
  assumes "daemon_ok n d" "n \<le> 60" "valid_input d i"
  shows "\<exists>d'. handle_input ok i d = Some d' \<and> daemon_ok (n + 4) d'"
proof (cases i)
  case (Accept fd)
  obtain d' where "add_ipc_client fd d = Some d'" "clients_ok d'" "d_sm d' = d_sm d" "d_queue d' = d_queue d"
    "d_timer d' = d_timer d" using add_ipc_client_ok assms(1) unfolding daemon_ok_def by blast
  then show ?thesis using daemon_ok_mono [OF daemon_ok_same [OF assms(1)]] Accept by (simp add: handle_input_def)
next
  case (Message k m)
  then show ?thesis using handle_ipc_message_keeps [OF assms(1) _ assms(2)] assms(3)
    by (simp add: handle_input_def valid_input_def)
next
  case (Hang_up k)
  then show ?thesis using daemon_ok_mono [OF remove_client_keeps [OF assms(1)]] assms(3)
    by (simp add: handle_input_def valid_input_def)
next
  case (Receive_error k)
  then show ?thesis using daemon_ok_mono [OF assms(1), of "n + 4"] by (simp add: handle_input_def)
next
  case (Mqtt t x)
  then show ?thesis using mqtt_handle_message_keeps [OF assms(1,2)] by (simp add: handle_input_def)
next
  case Timer
  have "daemon_ok (n + 4) (apply_event EVENT_TIMEOUT INVALID_IPC_CLIENT (d\<lparr>d_timer := None\<rparr>))"
    using assms by (intro apply_event_ok) (simp_all add: daemon_ok_def clients_ok_def)
  then show ?thesis using Timer by (simp add: handle_input_def)
qed

fun valid_inputs :: "publish \<Rightarrow> input list \<Rightarrow> daemon \<Rightarrow> bool" where
  "valid_inputs ok [] d \<longleftrightarrow> True"
| "valid_inputs ok (i # is) d \<longleftrightarrow> valid_input d i \<and>
     (case handle_input ok i d of None \<Rightarrow> True | Some d1 \<Rightarrow> valid_inputs ok is d1)"

lemma handle_inputs_keeps:
  "daemon_ok n d \<Longrightarrow> n + 4 * length is \<le> 64 \<Longrightarrow> valid_inputs ok is d \<Longrightarrow>
     \<exists>d'. handle_inputs ok is d = Some d' \<and> daemon_ok (n + 4 * length is) d'"
proof (induction "is" arbitrary: n d)
  case (Cons i "is")
  then obtain d1 where d1: "handle_input ok i d = Some d1" "daemon_ok (n + 4) d1"
    using handle_input_keeps [of n d i ok] by auto
  then show ?case using Cons.IH [OF d1(2)] Cons.prems by (simp add: algebra_simps)
qed simp

text \<open>The states of the daemon between two rounds of at most 16 inputs.\<close>

inductive running :: "publish \<Rightarrow> daemon \<Rightarrow> bool" for ok where
  running_init: "running ok daemon_init"
| running_round: "running ok d \<Longrightarrow> length is \<le> 16 \<Longrightarrow> valid_inputs ok is (handle_signals ok d) \<Longrightarrow>
    main_loop ok is d = Some d' \<Longrightarrow> running ok d'"

lemma daemon_init_ok: "daemon_ok 0 daemon_init"
  by (simp add: daemon_ok_def daemon_init_def rb_ok_init clients_ok_def guarded_def sm_init_def
      POLLFD_FIRST_IPC_def POLLFD_LIMIT_def INVALID_IPC_CLIENT_def)

lemma main_loop_keeps:
  assumes "daemon_ok 64 d" "length is \<le> 16" "valid_inputs ok is (handle_signals ok d)"
  shows "\<exists>d'. main_loop ok is d = Some d' \<and> daemon_ok 64 d'"
proof -
  have "0 + 4 * length is \<le> 64" using assms(2) by simp
  from handle_inputs_keeps [OF handle_signals_ok(1) [OF assms(1)] this assms(3)] obtain d' where
    "handle_inputs ok is (handle_signals ok d) = Some d'" "daemon_ok (0 + 4 * length is) d'" by blast
  then show ?thesis using daemon_ok_mono assms(2) by (auto simp: main_loop_def)
qed

lemma running_ok: "running ok d \<Longrightarrow> daemon_ok 64 d"
proof (induction rule: running.induct)
  case running_init
  then show ?case using daemon_ok_mono [OF daemon_init_ok] by simp
next
  case (running_round d "is" d')
  then show ?case using main_loop_keeps [of d "is" ok] by auto
qed

lemma client_found:
  "distinct (map client_id cs) \<Longrightarrow> j < length cs \<Longrightarrow> find_client_from i (client_id (cs ! j)) cs = Some (i + j)"
proof (induction cs arbitrary: i j)
  case (Cons c cs)
  show ?case
  proof (cases j)
    case (Suc k)
    then have k: "k < length cs" using Cons.prems by simp
    then have "client_id c \<noteq> client_id (cs ! k)" using Cons.prems(1) nth_mem [OF k] by auto
    then show ?thesis using Cons.IH [OF _ k, of "Suc i"] Cons.prems Suc by simp
  qed simp
qed simp

end
