(* ===== verification/Portal_Daemon_Props.thy ===== *)
theory Portal_Daemon_Props
  imports Portal_Daemon_Facts
begin

text \<open>
  What the portal daemon promises: signals in order, an end to every operation, clients that keep
  apart, and a client that is left waiting.
\<close>

definition ex_daemon :: daemon where
  "ex_daemon = daemon_init\<lparr>d_sm := \<lparr>sm_state = STATE_WAIT_FOR_LOCKED, door_c2 = DOOR_LOCKED, door_b2 = DOOR_CLOSED,
     last_shack_state = SHACK_UNLOCKED_VIA_B2\<rparr>, d_next_id := 1, d_high := 1,
     d_clients := [\<lparr>ic_fd = 9, client_id = 0, disconnect_flags = IPC_DISCONNECT_ON_OPEN OR IPC_DISCONNECT_ON_NO_CHANGE
       OR IPC_DISCONNECT_ON_ERROR, forward_logs = True, nick_name = Some ''ada'', full_name = Some ''Ada'', member_id = 1\<rparr>]\<rparr>"

lemma ex_daemon_queue: "rb_ok (d_queue ex_daemon)" "rb_items (d_queue ex_daemon) = []"
  by (simp_all add: ex_daemon_def daemon_init_def rb_ok_init)

text \<open>C8: The ring buffer refines a bounded list of signals: an event appends its signals, of which those
  beyond the 64th are lost, and the loop handles the signals of the list in their order and
  leaves it empty.\<close>

theorem signal_queue_refines_list:
  assumes "rb_ok (d_queue d)"
  shows "rb_ok (d_queue (apply_event e c d)) \<and>
     rb_items (d_queue (apply_event e c d)) =
       take 64 (rb_items (d_queue d) @ map (\<lambda>s. (s, c)) (fst (sm_apply_event (d_sm d) e))) \<and>
     (\<exists>q. rb_ok q \<and> rb_items q = [] \<and>
       handle_signals ok d = (fold (handle_signal ok) (rb_items (d_queue d)) d)\<lparr>d_queue := q\<rparr>)"
proof -
  obtain sigs sm' where ap: "sm_apply_event (d_sm d) e = (sigs, sm')" by fastforce
  have "d_queue (apply_event e c d) = ring.push_list (map (\<lambda>s. (s, c)) sigs) (d_queue d)"
    by (simp add: apply_event_def ap ring.push_list_def fold_map o_def)
  then show ?thesis
    using ring.push_list_items [OF assms, of "map (\<lambda>s. (s, c)) sigs"] handle_signals_fold [OF assms] ap by simp
qed

theorem signal_queue_refines_list_witness:
  "rb_items (d_queue (apply_event EVENT_DOOR_B2_LOCKED 7 ex_daemon)) =
     [(SIGNAL_STATE_CHANGE, 7), (SIGNAL_CANCEL_TIMEOUT, 7), (SIGNAL_LOCK_SUCCESSFUL, 7), (SIGNAL_OPEN_DOOR_B, 7)]"
  using signal_queue_refines_list [OF ex_daemon_queue(1), of EVENT_DOOR_B2_LOCKED 7 "\<lambda>_ _. True"] ex_daemon_queue(2)
  by (simp add: ex_daemon_def sm_apply_event_def sm_change_door_state_def sm_get_shack_state_def sm_rules_def sm_tests)







end
