(* ===== verification/Door_Control.thy ===== *)
theory Door_Control
  imports PCV_Prelude "HOL-Library.Word"
begin

text \<open>
  The controller of one motorised door (\<open>firmware/door-control/main/state-machine.c\<close> and the
  sensor smoothing and loop of \<open>door-control.c\<close>). The callbacks of the state machine are a list of
  actions in the order of the calls; \<open>run_actions\<close> carries them out on the motor's two button
  pins and the timer. Names that also occur in the daemon have the suffix \<open>_dc\<close>.
\<close>

section \<open>Types\<close>

datatype DoorState_dc = DOOR_CLOSED_dc | DOOR_LOCKED_dc | DOOR_OPEN_dc | DOOR_FAULT

datatype PortalEvent = EVENT_OPEN_SAFE | EVENT_OPEN_UNSAFE | EVENT_CLOSE | EVENT_TIMEOUT_dc

datatype PortalSignal =
  SIGNAL_OPENING | SIGNAL_LOCKING | SIGNAL_UNLOCKED | SIGNAL_OPENED | SIGNAL_NO_ENTRY | SIGNAL_LOCKED
| SIGNAL_ERROR_LOCKING | SIGNAL_ERROR_OPENING | SIGNAL_CLOSE_TIMEOUT | SIGNAL_WAIT_FOR_DOOR_CLOSED
| SIGNAL_DOOR_MANUALLY_UNLOCKED | SIGNAL_DOOR_MANUALLY_LOCKED

datatype PortalError = SM_SUCCESS | SM_ERR_IN_PROGRESS | SM_ERR_UNEXPECTED

datatype PortalIo = IO_TRIGGER_OPEN | IO_TRIGGER_CLOSE

datatype State_dc =
  STATE_IDLE_dc | STATE_INIT_OPEN | STATE_WAIT_FOR_UNLOCKED | STATE_WAIT_FOR_OPEN
| STATE_WAIT_FOR_CLOSED | STATE_INIT_LOCK | STATE_WAIT_FOR_LOCKED_dc

datatype action = Signal PortalSignal | SetTimeout "32 word" | SetIo PortalIo bool

record StateMachine_dc =
  door_state :: DoorState_dc
  logic_state :: State_dc
  unsafe_action :: bool

definition TIMEOUT_BUTTON_PRESS :: "32 word" where "TIMEOUT_BUTTON_PRESS = 100"
definition TIMEOUT_ENGAGE_BOLT :: "32 word" where "TIMEOUT_ENGAGE_BOLT = 20000"
definition TIMEOUT_DISENGAGE_BOLT :: "32 word" where "TIMEOUT_DISENGAGE_BOLT = 20000"
definition TIMEOUT_USER_OPEN :: "32 word" where "TIMEOUT_USER_OPEN = 60000"
definition TIMEOUT_USER_CLOSE :: "32 word" where "TIMEOUT_USER_CLOSE = 30000"

section \<open>The state machine\<close>

definition set_state :: "State_dc \<Rightarrow> StateMachine_dc \<Rightarrow> action list \<times> StateMachine_dc" where
  "set_state st sm0 =
     (let sm = sm0\<lparr>logic_state := st\<rparr>
      in case st of
           STATE_IDLE_dc \<Rightarrow>
             ([SetIo IO_TRIGGER_CLOSE False, SetIo IO_TRIGGER_OPEN False, SetTimeout 0], sm\<lparr>unsafe_action := False\<rparr>)
         | STATE_INIT_OPEN \<Rightarrow>
             ([SetIo IO_TRIGGER_OPEN True, SetTimeout TIMEOUT_BUTTON_PRESS, Signal SIGNAL_OPENING], sm)
         | STATE_WAIT_FOR_UNLOCKED \<Rightarrow> ([SetIo IO_TRIGGER_OPEN False, SetTimeout TIMEOUT_DISENGAGE_BOLT], sm)
         | STATE_WAIT_FOR_OPEN \<Rightarrow> ([SetTimeout TIMEOUT_USER_OPEN], sm)
         | STATE_WAIT_FOR_CLOSED \<Rightarrow> ([SetTimeout TIMEOUT_USER_CLOSE, Signal SIGNAL_WAIT_FOR_DOOR_CLOSED], sm)
         | STATE_INIT_LOCK \<Rightarrow> ([SetIo IO_TRIGGER_CLOSE True, SetTimeout TIMEOUT_BUTTON_PRESS], sm)
         | STATE_WAIT_FOR_LOCKED_dc \<Rightarrow> ([SetIo IO_TRIGGER_CLOSE False, SetTimeout TIMEOUT_ENGAGE_BOLT], sm))"

text \<open>Signals first, then the new state; and the other way round.\<close>

definition signal_then :: "PortalSignal list \<Rightarrow> State_dc \<Rightarrow> StateMachine_dc \<Rightarrow> action list \<times> StateMachine_dc" where
  "signal_then ss st sm = (let (as, sm1) = set_state st sm in (map Signal ss @ as, sm1))"

definition sm_init_dc :: "DoorState_dc \<Rightarrow> StateMachine_dc" where
  "sm_init_dc d = \<lparr>door_state = d, logic_state = STATE_IDLE_dc, unsafe_action = False\<rparr>"

definition sm_change_door_state_dc :: "DoorState_dc \<Rightarrow> StateMachine_dc \<Rightarrow> action list \<times> StateMachine_dc" where
  "sm_change_door_state_dc new sm0 =
     (if door_state sm0 = new then ([], sm0)
      else
        (let old = door_state sm0; sm = sm0\<lparr>door_state := new\<rparr>
         in case logic_state sm of
              STATE_INIT_OPEN \<Rightarrow> ([], sm)
            | STATE_INIT_LOCK \<Rightarrow> ([], sm)
            | STATE_IDLE_dc \<Rightarrow>
                ((if new = DOOR_LOCKED_dc then [Signal SIGNAL_DOOR_MANUALLY_LOCKED] else []) @
                 (if old = DOOR_LOCKED_dc then [Signal SIGNAL_DOOR_MANUALLY_UNLOCKED] else []), sm)
            | STATE_WAIT_FOR_UNLOCKED \<Rightarrow>
                (if new = DOOR_CLOSED_dc \<or> new = DOOR_OPEN_dc
                 then if unsafe_action sm then signal_then [SIGNAL_UNLOCKED] STATE_IDLE_dc sm
                      else if new = DOOR_CLOSED_dc then signal_then [SIGNAL_UNLOCKED] STATE_WAIT_FOR_OPEN sm
                      else signal_then [SIGNAL_UNLOCKED, SIGNAL_OPENED] STATE_IDLE_dc sm
                 else ([], sm))
            | STATE_WAIT_FOR_OPEN \<Rightarrow>
                (if new = DOOR_OPEN_dc then signal_then [SIGNAL_OPENED] STATE_IDLE_dc sm else ([], sm))
            | STATE_WAIT_FOR_CLOSED \<Rightarrow>
                (if new = DOOR_CLOSED_dc then signal_then [SIGNAL_LOCKING] STATE_INIT_LOCK sm else ([], sm))
            | STATE_WAIT_FOR_LOCKED_dc \<Rightarrow>
                (if new = DOOR_LOCKED_dc then signal_then [SIGNAL_LOCKED] STATE_IDLE_dc sm else ([], sm))))"

definition sm_send_event :: "PortalEvent \<Rightarrow> StateMachine_dc \<Rightarrow> PortalError \<times> action list \<times> StateMachine_dc" where
  "sm_send_event e sm =
     (case e of
        EVENT_CLOSE \<Rightarrow>
          (if logic_state sm \<noteq> STATE_IDLE_dc then (SM_ERR_IN_PROGRESS, [], sm)
           else case door_state sm of
                  DOOR_OPEN_dc \<Rightarrow> (SM_SUCCESS, set_state STATE_WAIT_FOR_CLOSED sm)
                | DOOR_CLOSED_dc \<Rightarrow> (SM_SUCCESS, set_state STATE_INIT_LOCK sm)
                | DOOR_LOCKED_dc \<Rightarrow> (SM_SUCCESS, [], sm)
                | DOOR_FAULT \<Rightarrow> (SM_ERR_UNEXPECTED, [], sm))
      | EVENT_TIMEOUT_dc \<Rightarrow>
          (SM_SUCCESS,
           case logic_state sm of
             STATE_IDLE_dc \<Rightarrow> ([], sm)
           | STATE_INIT_OPEN \<Rightarrow> set_state STATE_WAIT_FOR_UNLOCKED sm
           | STATE_WAIT_FOR_UNLOCKED \<Rightarrow> signal_then [SIGNAL_ERROR_OPENING] STATE_IDLE_dc sm
           | STATE_WAIT_FOR_OPEN \<Rightarrow> signal_then [SIGNAL_NO_ENTRY] STATE_INIT_LOCK sm
           | STATE_WAIT_FOR_CLOSED \<Rightarrow> signal_then [SIGNAL_CLOSE_TIMEOUT] STATE_IDLE_dc sm
           | STATE_INIT_LOCK \<Rightarrow> set_state STATE_WAIT_FOR_LOCKED_dc sm
           | STATE_WAIT_FOR_LOCKED_dc \<Rightarrow>
               (let (as, sm1) = set_state STATE_IDLE_dc sm in (as @ [Signal SIGNAL_ERROR_LOCKING], sm1)))
      | _ \<Rightarrow>
          (if logic_state sm \<noteq> STATE_IDLE_dc then (SM_ERR_IN_PROGRESS, [], sm)
           else
             (let sm1 = sm\<lparr>unsafe_action := (e = EVENT_OPEN_UNSAFE)\<rparr>
              in case door_state sm of
                   DOOR_LOCKED_dc \<Rightarrow> (SM_SUCCESS, set_state STATE_INIT_OPEN sm1)
                 | DOOR_OPEN_dc \<Rightarrow> (SM_SUCCESS, [], sm1)
                 | DOOR_CLOSED_dc \<Rightarrow> (SM_SUCCESS, [], sm1)
                 | DOOR_FAULT \<Rightarrow> (SM_ERR_UNEXPECTED, [], sm1))))"

definition door_state_code :: "DoorState_dc \<Rightarrow> nat" where
  "door_state_code d = (case d of DOOR_CLOSED_dc \<Rightarrow> 0 | DOOR_LOCKED_dc \<Rightarrow> 1 | DOOR_OPEN_dc \<Rightarrow> 2 | DOOR_FAULT \<Rightarrow> 3)"

definition sm_compute_state :: "bool \<Rightarrow> bool \<Rightarrow> nat" where
  "sm_compute_state is_locked is_open = or (push_bit 1 (of_bool is_open)) (push_bit 0 (of_bool is_locked))"

section \<open>The hardware\<close>

text \<open>The pins of the motor's buttons, the running timeout in milliseconds (0 for none), the signals sent.\<close>

record door_io =
  open_pin :: bool
  close_pin :: bool
  timeout_task :: "32 word"
  sent :: "PortalSignal list"

definition run_action :: "action \<Rightarrow> door_io \<Rightarrow> door_io" where
  "run_action a io =
     (case a of
        Signal s \<Rightarrow> io\<lparr>sent := sent io @ [s]\<rparr>
      | SetTimeout ms \<Rightarrow> io\<lparr>timeout_task := ms\<rparr>
      | SetIo IO_TRIGGER_OPEN b \<Rightarrow> io\<lparr>open_pin := b\<rparr>
      | SetIo IO_TRIGGER_CLOSE b \<Rightarrow> io\<lparr>close_pin := b\<rparr>)"

definition run_actions :: "action list \<Rightarrow> door_io \<Rightarrow> door_io" where
  "run_actions as io = fold run_action as io"

section \<open>Sensors\<close>

definition SMOOTH_DOOR_STATE_SIZE :: nat where "SMOOTH_DOOR_STATE_SIZE = 8"

definition classify_sensor_data :: "bool \<Rightarrow> bool \<Rightarrow> DoorState_dc" where
  "classify_sensor_data is_closed is_locked =
     (if is_closed then if is_locked then DOOR_LOCKED_dc else DOOR_CLOSED_dc else DOOR_OPEN_dc)"

text \<open>The ring of samples and the index written next. C fills the rest of an array with zeros.\<close>

type_synonym smooth = "DoorState_dc list \<times> nat"

definition smooth_init :: smooth where
  "smooth_init = ([DOOR_OPEN_dc, DOOR_CLOSED_dc, DOOR_LOCKED_dc, DOOR_FAULT] @ replicate 4 DOOR_CLOSED_dc, 0)"

definition push_door_state :: "DoorState_dc \<Rightarrow> smooth \<Rightarrow> smooth" where
  "push_door_state d s =
     (case s of (xs, i) \<Rightarrow> (xs[i := d], if i + 1 \<ge> SMOOTH_DOOR_STATE_SIZE then 0 else i + 1))"

definition get_smoothed_door_state :: "smooth \<Rightarrow> bool \<times> DoorState_dc" where
  "get_smoothed_door_state s =
     (let xs = fst s; filt = xs ! 0
      in if \<exists>i\<in>set [1..<SMOOTH_DOOR_STATE_SIZE]. xs ! i \<noteq> filt then (False, DOOR_FAULT) else (True, filt))"

definition get_door_state :: "bool \<Rightarrow> bool \<Rightarrow> smooth \<Rightarrow> (bool \<times> DoorState_dc) \<times> smooth" where
  "get_door_state is_closed is_locked s =
     (let s1 = push_door_state (classify_sensor_data is_closed is_locked) s in (get_smoothed_door_state s1, s1))"

section \<open>The loop of the controller\<close>

record controller =
  co_sm :: StateMachine_dc
  co_io :: door_io
  co_smooth :: smooth
  co_door_state :: DoorState_dc
  co_force_refresh :: int
  co_published :: "DoorState_dc list"

definition FORCED_STATUS_UPDATE_PERIOD :: int where "FORCED_STATUS_UPDATE_PERIOD = 100"

definition forward_event :: "PortalEvent \<Rightarrow> controller \<Rightarrow> controller" where
  "forward_event e c =
     (let (_, as, sm) = sm_send_event e (co_sm c) in c\<lparr>co_sm := sm, co_io := run_actions as (co_io c)\<rparr>)"

text \<open>
  One round of \<open>app_main\<close>'s loop after the wait: which of the event bits were set, and what the two
  door sensors say. The button of the door, which only publishes a message, is in \<open>Door_Button\<close>.
\<close>

record event_bits =
  sm_timeout_bit :: bool
  close_request :: bool
  safe_open_request :: bool
  unsafe_open_request :: bool

definition forward_events :: "event_bits \<Rightarrow> controller \<Rightarrow> controller" where
  "forward_events b c0 =
     (let c1 = (if sm_timeout_bit b then forward_event EVENT_TIMEOUT_dc c0 else c0);
          c2 = (if close_request b then forward_event EVENT_CLOSE c1 else c1);
          c3 = (if safe_open_request b then forward_event EVENT_OPEN_SAFE c2 else c2)
      in if unsafe_open_request b then forward_event EVENT_OPEN_UNSAFE c3 else c3)"

definition measure_door :: "bool \<Rightarrow> bool \<Rightarrow> controller \<Rightarrow> controller" where
  "measure_door is_closed is_locked c =
     (let ((system_stable, new), s) = get_door_state is_closed is_locked (co_smooth c);
          force_update = (co_force_refresh c \<le> 0);
          c1 = c\<lparr>co_smooth := s, co_force_refresh := co_force_refresh c - (if force_update then 0 else 1)\<rparr>
      in if system_stable \<and> (new \<noteq> co_door_state c1 \<or> force_update)
         then (let (as, sm) = sm_change_door_state_dc new (co_sm c1)
               in c1\<lparr>co_door_state := new, co_published := co_published c1 @ [new], co_sm := sm,
                     co_io := run_actions as (co_io c1), co_force_refresh := FORCED_STATUS_UPDATE_PERIOD\<rparr>)
         else c1)"

definition app_main_loop :: "event_bits \<Rightarrow> bool \<Rightarrow> bool \<Rightarrow> controller \<Rightarrow> controller" where
  "app_main_loop b is_closed is_locked c = measure_door is_closed is_locked (forward_events b c)"

text \<open>
  A round is one pass of the loop with the event bits and sensors it finds. The timer's task may
  have expired before, which sets the bit; a bit may also be left from a timer that was cancelled.
\<close>

type_synonym round = "bool \<times> event_bits \<times> bool \<times> bool"

definition controller_round :: "round \<Rightarrow> controller \<Rightarrow> controller" where
  "controller_round r c =
     (case r of (expired, b, is_closed, is_locked) \<Rightarrow>
        app_main_loop b is_closed is_locked
          (if expired \<and> sm_timeout_bit b then c\<lparr>co_io := (co_io c)\<lparr>timeout_task := 0\<rparr>\<rparr> else c))"

definition controller_start :: "DoorState_dc \<Rightarrow> smooth \<Rightarrow> controller" where
  "controller_start d s = \<lparr>co_sm = sm_init_dc d, co_io = \<lparr>open_pin = False, close_pin = False, timeout_task = 0, sent = []\<rparr>,
     co_smooth = s, co_door_state = d, co_force_refresh = 0, co_published = []\<rparr>"

end
