(* ===== verification/Portal_System.thy ===== *)
theory Portal_System
  imports Portal_Daemon Door_Control
begin

text \<open>
  The portal as a whole: the daemon and the controllers of the doors B2 and C2, which talk by MQTT.
  This theory adds the controller's side of the messages (\<open>door-control.c\<close>) and composes the
  parts. The network hands any message that the daemon has published to a controller, any number
  of times and in any order; the input of the daemon is arbitrary, so it covers the reports of the
  doors, too.
\<close>

section \<open>The messages of a door controller\<close>

text \<open>\<open>CURRENT_DOOR\<close> is chosen when the firmware is built.\<close>

datatype motor_door = Door_B2 | Door_C2

definition CURRENT_DOOR :: "motor_door \<Rightarrow> string" where
  "CURRENT_DOOR m = (case m of Door_B2 \<Rightarrow> ''b2'' | Door_C2 \<Rightarrow> ''c2'')"

text \<open>The bytes of a message against a C string.\<close>

fun mqtt_event_has :: "string \<Rightarrow> string \<Rightarrow> bool" where
  "mqtt_event_has [] s \<longleftrightarrow> s = []"
| "mqtt_event_has (e # es) [] \<longleftrightarrow> False"
| "mqtt_event_has (e # es) (c # cs) \<longleftrightarrow> e = c \<and> mqtt_event_has es cs"

lemma mqtt_event_has_iff [simp]: "mqtt_event_has e s \<longleftrightarrow> e = s"
  by (induction e s rule: mqtt_event_has.induct) auto

definition no_bits :: event_bits where
  "no_bits = \<lparr>sm_timeout_bit = False, close_request = False, safe_open_request = False, unsafe_open_request = False\<rparr>"

text \<open>The event bits after a message; \<open>None\<close> when the controller restarts.\<close>

definition on_mqtt_data_received :: "motor_door \<Rightarrow> string \<Rightarrow> string \<Rightarrow> event_bits \<Rightarrow> event_bits option" where
  "on_mqtt_data_received m t x b =
     (let mine = mqtt_event_has x (DOOR_NAME (CURRENT_DOOR m));
          b1 = (if mqtt_event_has t (topic ''action/door/open-safe'') \<and> mine then b\<lparr>safe_open_request := True\<rparr> else b)
      in if mqtt_event_has t (topic ''action/door/open-unsafe'')
         then Some (if mine then b1\<lparr>unsafe_open_request := True\<rparr> else b1)
         else if mqtt_event_has t (topic ''action/door/lock'')
         then Some (if mine then b1\<lparr>close_request := True\<rparr> else b1)
         else if mqtt_event_has t (topic ''action/reset'')
         then (if mqtt_event_has x ''*'' \<or> mine then None else Some b1)
         else Some b1)"

definition publish_door_status :: "motor_door \<Rightarrow> DoorState_dc \<Rightarrow> string \<times> string" where
  "publish_door_status m d =
     (topic (''status/door-'' @ CURRENT_DOOR m),
      case d of DOOR_OPEN_dc \<Rightarrow> ''opened'' | DOOR_LOCKED_dc \<Rightarrow> ''locked'' | DOOR_CLOSED_dc \<Rightarrow> ''closed'' | DOOR_FAULT \<Rightarrow> ''fault'')"

section \<open>The composition\<close>

record door_node =
  dn_controller :: controller
  dn_bits :: event_bits

record portal =
  p_daemon :: daemon
  p_doors :: "motor_door \<Rightarrow> door_node"

definition portal_start :: "(motor_door \<Rightarrow> DoorState_dc) \<Rightarrow> smooth \<Rightarrow> portal" where
  "portal_start ds s = \<lparr>p_daemon = daemon_init, p_doors = (\<lambda>m. \<lparr>dn_controller = controller_start (ds m) s, dn_bits = no_bits\<rparr>)\<rparr>"

text \<open>
  A round of the daemon; the delivery of a message that it has published, with the state a restarted
  controller finds its door in; a round of a controller, with whether the timer has expired or
  its bit is set, and the sensors.
\<close>

datatype portal_step =
  Daemon_round "input list"
| Deliver motor_door nat DoorState_dc smooth
| Door_round motor_door bool bool bool bool

definition receive :: "motor_door \<Rightarrow> DoorState_dc \<Rightarrow> smooth \<Rightarrow> string \<times> string \<Rightarrow> door_node \<Rightarrow> door_node" where
  "receive m d s msg n =
     (case on_mqtt_data_received m (fst msg) (snd msg) (dn_bits n) of
        None \<Rightarrow> \<lparr>dn_controller = controller_start d s, dn_bits = no_bits\<rparr>
      | Some b \<Rightarrow> n\<lparr>dn_bits := b\<rparr>)"

definition door_round :: "bool \<Rightarrow> bool \<Rightarrow> bool \<Rightarrow> bool \<Rightarrow> door_node \<Rightarrow> door_node" where
  "door_round expired timeout is_closed is_locked n =
     \<lparr>dn_controller = controller_round (expired, (dn_bits n)\<lparr>sm_timeout_bit := timeout\<rparr>, is_closed, is_locked) (dn_controller n),
      dn_bits = no_bits\<rparr>"

definition portal_step :: "publish \<Rightarrow> portal_step \<Rightarrow> portal \<Rightarrow> portal" where
  "portal_step ok x p =
     (case x of
        Daemon_round is \<Rightarrow> (case main_loop ok is (p_daemon p) of None \<Rightarrow> p | Some d \<Rightarrow> p\<lparr>p_daemon := d\<rparr>)
      | Deliver m k d s \<Rightarrow>
          (if k < length (d_sent (p_daemon p))
           then p\<lparr>p_doors := (p_doors p)(m := receive m d s (d_sent (p_daemon p) ! k) (p_doors p m))\<rparr> else p)
      | Door_round m expired timeout is_closed is_locked \<Rightarrow>
          p\<lparr>p_doors := (p_doors p)(m := door_round expired timeout is_closed is_locked (p_doors p m))\<rparr>)"

end
