(* ===== verification/Door_Control_Facts.thy ===== *)
theory Door_Control_Facts
  imports Door_Control
begin

text \<open>
  The door controller keeps its motor safe, ends every operation, follows the contract of its signals
  and trusts only steady sensors.
\<close>

section \<open>The motor\<close>

definition duration :: "State_dc \<Rightarrow> 32 word" where
  "duration st =
     (case st of
        STATE_IDLE_dc \<Rightarrow> 0 | STATE_INIT_OPEN \<Rightarrow> TIMEOUT_BUTTON_PRESS | STATE_WAIT_FOR_UNLOCKED \<Rightarrow> TIMEOUT_DISENGAGE_BOLT
      | STATE_WAIT_FOR_OPEN \<Rightarrow> TIMEOUT_USER_OPEN | STATE_WAIT_FOR_CLOSED \<Rightarrow> TIMEOUT_USER_CLOSE
      | STATE_INIT_LOCK \<Rightarrow> TIMEOUT_BUTTON_PRESS | STATE_WAIT_FOR_LOCKED_dc \<Rightarrow> TIMEOUT_ENGAGE_BOLT)"

lemmas timeout_defs = TIMEOUT_BUTTON_PRESS_def TIMEOUT_ENGAGE_BOLT_def TIMEOUT_DISENGAGE_BOLT_def
  TIMEOUT_USER_OPEN_def TIMEOUT_USER_CLOSE_def

text \<open>The pins fit the state; \<open>armed\<close> says whether the timer is the state's one or has just expired.\<close>

definition motor_ok :: "bool \<Rightarrow> StateMachine_dc \<Rightarrow> door_io \<Rightarrow> bool" where
  "motor_ok armed sm io \<longleftrightarrow>
     open_pin io = (logic_state sm = STATE_INIT_OPEN) \<and> close_pin io = (logic_state sm = STATE_INIT_LOCK) \<and>
     (timeout_task io = duration (logic_state sm) \<or> \<not> armed \<and> timeout_task io = 0)"

lemmas machine_defs = sm_send_event_def sm_change_door_state_dc_def set_state_def signal_then_def Let_def

lemma run_actions_append [simp]: "run_actions (as @ bs) io = run_actions bs (run_actions as io)"
  by (simp add: run_actions_def)

lemma run_actions_signals: "motor_ok b sm (run_actions (map Signal ss) io) = motor_ok b sm io"
proof -
  have "open_pin (run_actions (map Signal ss) io) = open_pin io \<and> close_pin (run_actions (map Signal ss) io) = close_pin io \<and>
      timeout_task (run_actions (map Signal ss) io) = timeout_task io"
    by (induction ss arbitrary: io) (simp_all add: run_actions_def run_action_def)
  then show ?thesis by (simp add: motor_ok_def)
qed

text \<open>Which state may be entered from which: the new state's actions then leave the motor in order.\<close>

definition may_enter :: "State_dc \<Rightarrow> State_dc \<Rightarrow> bool" where
  "may_enter st st' \<longleftrightarrow> (st = STATE_INIT_OPEN \<longrightarrow> st' \<in> {STATE_WAIT_FOR_UNLOCKED, STATE_IDLE_dc}) \<and>
     (st = STATE_INIT_LOCK \<longrightarrow> st' \<in> {STATE_WAIT_FOR_LOCKED_dc, STATE_IDLE_dc})"

lemma set_state_motor:
  assumes "motor_ok b sm io" "may_enter (logic_state sm) st" "set_state st sm = (as, sm')"
  shows "motor_ok True sm' (run_actions as io)"
  using assms
  by (cases st) (auto simp: motor_ok_def may_enter_def set_state_def run_actions_def run_action_def duration_def)

lemma signal_then_motor:
  assumes "motor_ok b sm io" "may_enter (logic_state sm) st" "signal_then ss st sm = (as, sm')"
  shows "motor_ok True sm' (run_actions as io)"
proof -
  obtain bs where "set_state st sm = (bs, sm')" "as = map Signal ss @ bs"
    using assms(3) by (auto simp: signal_then_def Let_def split: prod.splits)
  then show ?thesis
    using set_state_motor [of b sm "run_actions (map Signal ss) io" st bs sm'] assms(1,2)
    by (simp add: run_actions_signals)
qed

lemma motor_ok_door [simp]:
  "motor_ok b (sm\<lparr>door_state := d\<rparr>) io = motor_ok b sm io" "motor_ok b (sm\<lparr>unsafe_action := u\<rparr>) io = motor_ok b sm io"
  by (simp_all add: motor_ok_def)

lemma change_door_motor:
  assumes "motor_ok b sm io" "sm_change_door_state_dc new sm = (as, sm')"
  shows "motor_ok b sm' (run_actions as io)"
proof -
  have weak: "motor_ok True sm1 io1 \<Longrightarrow> motor_ok b sm1 io1" for sm1 io1 by (auto simp: motor_ok_def)
  have none: "run_actions [] io = io" by (simp add: run_actions_def)
  have m: "motor_ok b (sm\<lparr>door_state := new\<rparr>) io" using assms(1) by simp
  show ?thesis
    using assms signal_then_motor [OF m] run_actions_signals [of b sm "[SIGNAL_DOOR_MANUALLY_LOCKED]" io]
      run_actions_signals [of b sm "[SIGNAL_DOOR_MANUALLY_UNLOCKED]" io]
    by (cases "logic_state sm")
      (auto simp: sm_change_door_state_dc_def Let_def none may_enter_def run_actions_def run_action_def motor_ok_def
        intro!: weak split: if_splits)
qed

lemma send_event_motor:
  assumes "motor_ok b sm io" "sm_send_event e sm = (err, as, sm')" "e \<noteq> EVENT_TIMEOUT_dc \<longrightarrow> b"
  shows "motor_ok True sm' (run_actions as io)"
  using assms
  by (cases e; cases "logic_state sm"; cases "door_state sm")
    (auto simp: machine_defs motor_ok_def run_actions_def run_action_def duration_def split: if_splits)

section \<open>Rounds of the controller\<close>

definition controller_ok :: "bool \<Rightarrow> controller \<Rightarrow> bool" where
  "controller_ok armed c \<longleftrightarrow> motor_ok armed (co_sm c) (co_io c)"

lemma forward_event_ok:
  "controller_ok b c \<Longrightarrow> e \<noteq> EVENT_TIMEOUT_dc \<longrightarrow> b \<Longrightarrow> controller_ok True (forward_event e c)"
  by (auto simp: forward_event_def controller_ok_def Let_def dest: send_event_motor split: prod.splits)

lemma forward_events_ok:
  assumes "controller_ok (\<not> sm_timeout_bit b) c"
  shows "controller_ok True (forward_events b c)"
proof -
  define c1 where "c1 = (if sm_timeout_bit b then forward_event EVENT_TIMEOUT_dc c else c)"
  have 1: "controller_ok True c1" using assms by (auto simp: c1_def intro: forward_event_ok)
  define c2 where "c2 = (if close_request b then forward_event EVENT_CLOSE c1 else c1)"
  have 2: "controller_ok True c2" using 1 by (auto simp: c2_def intro: forward_event_ok)
  define c3 where "c3 = (if safe_open_request b then forward_event EVENT_OPEN_SAFE c2 else c2)"
  have 3: "controller_ok True c3" using 2 by (auto simp: c3_def intro: forward_event_ok)
  have "controller_ok True (if unsafe_open_request b then forward_event EVENT_OPEN_UNSAFE c3 else c3)"
    using 3 by (auto intro: forward_event_ok)
  then show ?thesis unfolding forward_events_def Let_def c1_def c2_def c3_def .
qed

lemma measure_door_ok:
  assumes "controller_ok True c"
  shows "controller_ok True (measure_door is_closed is_locked c)"
proof -
  obtain st new s where g: "get_door_state is_closed is_locked (co_smooth c) = ((st, new), s)"
    by (metis prod.exhaust)
  obtain as sm where d: "sm_change_door_state_dc new (co_sm c) = (as, sm)" by fastforce
  have "motor_ok True sm (run_actions as (co_io c))"
    using change_door_motor d assms unfolding controller_ok_def by blast
  with assms show ?thesis by (simp add: measure_door_def g d controller_ok_def Let_def)
qed

lemma app_main_loop_ok:
  "controller_ok (\<not> sm_timeout_bit b) c \<Longrightarrow> controller_ok True (app_main_loop b is_closed is_locked c)"
  unfolding app_main_loop_def by (intro measure_door_ok forward_events_ok)

lemma controller_round_ok:
  assumes "controller_ok True c"
  shows "controller_ok True (controller_round r c)"
proof -
  obtain x b cl lo where r: "r = (x, b, cl, lo)" by (cases r)
  have "controller_ok (\<not> sm_timeout_bit b)
      (if x \<and> sm_timeout_bit b then c\<lparr>co_io := (co_io c)\<lparr>timeout_task := 0\<rparr>\<rparr> else c)"
    using assms by (auto simp: controller_ok_def motor_ok_def)
  then show ?thesis unfolding r controller_round_def prod.case by (rule app_main_loop_ok)
qed

interpretation controller: transition_invariant "controller_start d s" controller_round "controller_ok True"
proof
  show "controller_ok True (controller_start d s)"
    by (simp add: controller_ok_def controller_start_def motor_ok_def sm_init_dc_def duration_def)
qed (rule controller_round_ok)

section \<open>The end of an operation\<close>

datatype door_step = Timeout | Report DoorState_dc

definition door_machine :: "door_step \<Rightarrow> StateMachine_dc \<Rightarrow> StateMachine_dc" where
  "door_machine x sm = (case x of Timeout \<Rightarrow> snd (snd (sm_send_event EVENT_TIMEOUT_dc sm))
     | Report d \<Rightarrow> snd (sm_change_door_state_dc d sm))"

definition rank :: "State_dc \<Rightarrow> nat" where
  "rank st = (case st of STATE_IDLE_dc \<Rightarrow> 0 | STATE_WAIT_FOR_LOCKED_dc \<Rightarrow> 1 | STATE_INIT_LOCK \<Rightarrow> 2
     | STATE_WAIT_FOR_CLOSED \<Rightarrow> 2 | STATE_WAIT_FOR_OPEN \<Rightarrow> 3 | STATE_WAIT_FOR_UNLOCKED \<Rightarrow> 3 | STATE_INIT_OPEN \<Rightarrow> 4)"

lemma timeout_rank: "rank (logic_state (door_machine Timeout sm)) \<le> rank (logic_state sm) - 1"
  by (cases "logic_state sm") (simp_all add: door_machine_def machine_defs rank_def)

lemma report_rank: "rank (logic_state (door_machine (Report d) sm)) \<le> rank (logic_state sm)"
  by (cases "logic_state sm") (auto simp: door_machine_def machine_defs rank_def)

lemma steps_rank:
  "rank (logic_state (fold door_machine xs sm)) \<le> rank (logic_state sm) - count_list xs Timeout"
proof (induction xs arbitrary: sm)
  case (Cons x xs)
  show ?case
  proof (cases x)
    case Timeout
    then show ?thesis using timeout_rank [of sm] Cons.IH [of "door_machine x sm"] by simp
  next
    case (Report d)
    then show ?thesis using report_rank [of d sm] Cons.IH [of "door_machine x sm"] by simp
  qed
qed simp

section \<open>The contract\<close>

text \<open>What the signals tell a user: the phases of an operation and the signals between them.\<close>

datatype phase = Resting | Opening | Entering | Closing | Locking

inductive contract :: "phase \<Rightarrow> PortalSignal list \<Rightarrow> phase \<Rightarrow> bool" where
  ct_silent: "contract p [] p"
| ct_manual: "set ss \<subseteq> {SIGNAL_DOOR_MANUALLY_LOCKED, SIGNAL_DOOR_MANUALLY_UNLOCKED} \<Longrightarrow> contract Resting ss Resting"
| ct_opening: "contract Resting [SIGNAL_OPENING] Opening"
| ct_unlocked: "contract Opening [SIGNAL_UNLOCKED] Resting"
| ct_unlocked_wait: "contract Opening [SIGNAL_UNLOCKED] Entering"
| ct_unlocked_opened: "contract Opening [SIGNAL_UNLOCKED, SIGNAL_OPENED] Resting"
| ct_opening_failed: "contract Opening [SIGNAL_ERROR_OPENING] Resting"
| ct_entered: "contract Entering [SIGNAL_OPENED] Resting"
| ct_no_entry: "contract Entering [SIGNAL_NO_ENTRY] Locking"
| ct_closing: "contract Resting [SIGNAL_WAIT_FOR_DOOR_CLOSED] Closing"
| ct_closed: "contract Closing [SIGNAL_LOCKING] Locking"
| ct_close_timeout: "contract Closing [SIGNAL_CLOSE_TIMEOUT] Resting"
| ct_lock: "contract Resting [] Locking"
| ct_locked: "contract Locking [SIGNAL_LOCKED] Resting"
| ct_locking_failed: "contract Locking [SIGNAL_ERROR_LOCKING] Resting"

inductive_simps contract_Locking: "contract Locking ss p"
inductive_cases contract_RestingE: "contract Resting ss p"

definition phase_of :: "State_dc \<Rightarrow> phase" where
  "phase_of st = (case st of STATE_IDLE_dc \<Rightarrow> Resting | STATE_INIT_OPEN \<Rightarrow> Opening | STATE_WAIT_FOR_UNLOCKED \<Rightarrow> Opening
     | STATE_WAIT_FOR_OPEN \<Rightarrow> Entering | STATE_WAIT_FOR_CLOSED \<Rightarrow> Closing | STATE_INIT_LOCK \<Rightarrow> Locking
     | STATE_WAIT_FOR_LOCKED_dc \<Rightarrow> Locking)"

definition signals :: "action list \<Rightarrow> PortalSignal list" where
  "signals as = List.map_filter (\<lambda>a. case a of Signal s \<Rightarrow> Some s | _ \<Rightarrow> None) as"

lemma signals_simps [simp]:
  "signals [] = []" "signals (Signal s # as) = s # signals as" "signals (SetTimeout t # as) = signals as"
  "signals (SetIo io b # as) = signals as" "signals (as @ bs) = signals as @ signals bs"
  by (simp_all add: signals_def map_filter_simps map_filter_def)

lemma send_event_contract:
  assumes "sm_send_event e sm = (err, as, sm')"
  shows "contract (phase_of (logic_state sm)) (signals as) (phase_of (logic_state sm'))"
  using assms
  by (cases e; cases "logic_state sm"; cases "door_state sm")
    (auto simp: machine_defs phase_of_def intro: contract.intros)

lemma change_door_contract:
  assumes "sm_change_door_state_dc d sm = (as, sm')"
  shows "contract (phase_of (logic_state sm)) (signals as) (phase_of (logic_state sm'))"
proof -
  have m: "contract Resting [SIGNAL_DOOR_MANUALLY_LOCKED] Resting" "contract Resting [SIGNAL_DOOR_MANUALLY_UNLOCKED] Resting"
    "contract Resting [SIGNAL_DOOR_MANUALLY_LOCKED, SIGNAL_DOOR_MANUALLY_UNLOCKED] Resting"
    by (simp_all add: ct_manual)
  show ?thesis
    using assms
    by (cases "logic_state sm")
      (auto simp: machine_defs phase_of_def intro: contract.intros m split: if_splits)
qed

section \<open>Smoothing\<close>

text \<open>The samples in the ring, oldest first.\<close>

definition smooth_ok :: "smooth \<Rightarrow> bool" where
  "smooth_ok s \<longleftrightarrow> length (fst s) = 8 \<and> snd s < 8"

definition samples :: "smooth \<Rightarrow> DoorState_dc list" where
  "samples s = drop (snd s) (fst s) @ take (snd s) (fst s)"

lemma push_samples:
  assumes "smooth_ok s"
  shows "smooth_ok (push_door_state d s) \<and> samples (push_door_state d s) = tl (samples s) @ [d]"
proof -
  obtain xs i where s: "s = (xs, i)" by (cases s)
  have i: "length xs = 8" "i < 8" using assms by (simp_all add: smooth_ok_def s)
  have "drop i xs \<noteq> []" using i by simp
  then have tl: "tl (drop i xs @ take i xs) = drop (Suc i) xs @ take i xs"
    by (simp add: drop_Suc tl_drop)
  show ?thesis
  proof (cases "i = 7")
    case True
    then show ?thesis using i tl
      by (simp add: s push_door_state_def samples_def smooth_ok_def SMOOTH_DOOR_STATE_SIZE_def take_Suc_conv_app_nth [of 7] upd_conv_take_nth_drop)
  next
    case False
    then show ?thesis using i tl
      by (simp add: s push_door_state_def samples_def smooth_ok_def SMOOTH_DOOR_STATE_SIZE_def upd_conv_take_nth_drop take_Suc_conv_app_nth)
  qed
qed

lemma push_all_samples:
  "smooth_ok s \<Longrightarrow> smooth_ok (fold push_door_state ds s) \<and>
     samples (fold push_door_state ds s) = drop (length ds) (samples s @ ds)"
proof (induction ds arbitrary: s)
  case (Cons d ds)
  have "samples s \<noteq> []" using Cons.prems by (auto simp: samples_def smooth_ok_def)
  then have "tl (samples s) @ d # ds = drop 1 (samples s @ d # ds)"
    by (cases "samples s") simp_all
  then have "drop (length ds) (tl (samples s) @ d # ds) = drop (length (d # ds)) (samples s @ d # ds)"
    by (simp only: drop_drop list.size One_nat_def)
  then show ?case
    using push_samples [OF Cons.prems, of d] Cons.IH [of "push_door_state d s"] by simp
qed (simp add: samples_def)

lemma smoothed_iff:
  assumes "smooth_ok s"
  shows "get_smoothed_door_state s = (True, d) \<longleftrightarrow> set (samples s) = {d}"
proof -
  obtain xs i where s: "s = (xs, i)" by (cases s)
  have len: "length xs = 8" using assms by (simp add: smooth_ok_def s)
  have set: "set (samples s) = set xs"
    by (metis s samples_def append_take_drop_id fst_conv snd_conv set_append sup_commute)
  have "set xs = {d} \<longleftrightarrow> xs ! 0 = d \<and> (\<forall>i\<in>set [1..<8]. xs ! i = xs ! 0)"
  proof
    assume "set xs = {d}"
    then have "xs ! i = d" if "i < 8" for i using len that nth_mem by fastforce
    then show "xs ! 0 = d \<and> (\<forall>i\<in>set [1..<8]. xs ! i = xs ! 0)" by simp
  next
    assume a: "xs ! 0 = d \<and> (\<forall>i\<in>set [1..<8]. xs ! i = xs ! 0)"
    then have "xs ! i = d" if "i < 8" for i using that by (cases i) auto
    then show "set xs = {d}" using len by (auto simp: in_set_conv_nth intro!: exI [of _ 0])
  qed
  then show ?thesis
    unfolding set by (auto simp: s get_smoothed_door_state_def SMOOTH_DOOR_STATE_SIZE_def Let_def)
qed

end
