(* ===== verification/Portal_System_Props.thy ===== *)
theory Portal_System_Props
  imports Portal_System Portal_Daemon_Facts Door_Control_Facts
begin

text \<open>
  What the parts of the portal promise together: they understand each other's messages, and no
  motor opens a door that nobody asked to open.
\<close>

section \<open>Invariants that hold while the steps keep to a rule\<close>

locale guarded_invariant =
  fixes start :: "'s"
    and step :: "'a \<Rightarrow> 's \<Rightarrow> 's"
    and guard :: "'a \<Rightarrow> bool"
    and inv :: "'s \<Rightarrow> bool"
  assumes inv_start: "inv start"
    and inv_step: "guard a \<Longrightarrow> inv s \<Longrightarrow> inv (step a s)"
begin

lemma inv_fold: "\<forall>a\<in>set as. guard a \<Longrightarrow> inv s \<Longrightarrow> inv (fold step as s)"
  by (induction as arbitrary: s) (auto intro: inv_step)

lemma inv_run: "\<forall>a\<in>set as. guard a \<Longrightarrow> inv (fold step as start)"
  using inv_fold inv_start by blast

end

sublocale transition_invariant \<subseteq> unguarded: guarded_invariant start step "\<lambda>_. True" inv
  by unfold_locales (rule inv_start, rule inv_step)

section \<open>The messages of the daemon\<close>

definition signal_messages :: "SM_Signal \<Rightarrow> (string \<times> string) list" where
  "signal_messages s =
     (case s of
        SIGNAL_OPEN_DOOR_B \<Rightarrow> [(topic ''action/door/open-unsafe'', DOOR_NAME ''b'')]
      | SIGNAL_OPEN_DOOR_C \<Rightarrow> [(topic ''action/door/open-unsafe'', DOOR_NAME ''c'')]
      | SIGNAL_OPEN_DOOR_B2_SAFE \<Rightarrow> [(topic ''action/door/open-safe'', DOOR_NAME ''b2'')]
      | SIGNAL_OPEN_DOOR_C2_SAFE \<Rightarrow> [(topic ''action/door/open-safe'', DOOR_NAME ''c2'')]
      | SIGNAL_OPEN_DOOR_B2_UNSAFE \<Rightarrow> [(topic ''action/door/open-unsafe'', DOOR_NAME ''b2'')]
      | SIGNAL_OPEN_DOOR_C2_UNSAFE \<Rightarrow> [(topic ''action/door/open-unsafe'', DOOR_NAME ''c2'')]
      | SIGNAL_LOCK_ALL \<Rightarrow> [(topic ''action/door/lock'', DOOR_NAME ''c2''), (topic ''action/door/lock'', DOOR_NAME ''b2'')]
      | _ \<Rightarrow> [])"

lemma remove_ipc_client_sent [simp]: "d_sent (remove_ipc_client i d) = d_sent d"
  by (simp add: remove_ipc_client_def)

lemma remove_clients_sent [simp]: "d_sent (remove_clients_from i f d) = d_sent d"
proof (induction i f d rule: remove_clients_from.induct)
  case (1 i f d)
  then show ?case by (subst remove_clients_from.simps) simp
qed

lemma handle_signal_sent:
  "\<exists>k. d_sent (handle_signal ok x d) = d_sent d @ take k (signal_messages (fst x))"
proof -
  have "take 0 xs = []" "take 1 [a] = [a]" "take 1 [a, b] = [a]" "take 2 [a, b] = [a, b]" for xs and a b :: "string \<times> string"
    by simp_all
  then show ?thesis
    by (cases "fst x")
      (auto simp: handle_signal_def signal_messages_def open_unsafe_def open_safe_def lock_all_def send_mqtt_msg_def
        remove_all_ipc_clients_def take_Cons' split: option.split intro: exI [of _ "0 :: nat"] exI [of _ "1 :: nat"] exI [of _ "2 :: nat"])
qed

lemma handle_signal_quiet_state [simp]: "d_sm (handle_signal ok x d) = d_sm d"
  by simp

text \<open>Published messages that open no motor door.\<close>

definition opens_motor :: "string \<times> string \<Rightarrow> bool" where
  "opens_motor m \<longleftrightarrow> fst m \<in> {topic ''action/door/open-safe'', topic ''action/door/open-unsafe''} \<and>
     snd m \<in> {DOOR_NAME ''b2'', DOOR_NAME ''c2''}"

lemma signal_messages_quiet: "s \<notin> inner_open \<Longrightarrow> m \<in> set (signal_messages s) \<Longrightarrow> \<not> opens_motor m"
  by (cases s) (auto simp: inner_open_def signal_messages_def opens_motor_def topic_def PORTAL300_TOPIC_PREFIX_def DOOR_NAME_def)

definition daemon_quiet :: "daemon \<Rightarrow> bool" where
  "daemon_quiet d \<longleftrightarrow> rb_ok (d_queue d) \<and> \<not> is_state_wait_for_open (sm_state (d_sm d)) \<and>
     (\<forall>x\<in>set (rb_items (d_queue d)). fst x \<notin> inner_open) \<and> (\<forall>m\<in>set (d_sent d). \<not> opens_motor m)"

lemma daemon_quiet_same:
  "daemon_quiet d \<Longrightarrow> d_queue d' = d_queue d \<Longrightarrow> d_sm d' = d_sm d \<Longrightarrow> d_sent d' = d_sent d \<Longrightarrow> daemon_quiet d'"
  by (simp add: daemon_quiet_def)

lemma quiet_event:
  assumes "\<not> is_open_request e" "\<not> is_state_wait_for_open (sm_state sm)" "sm_apply_event sm e = (sigs, sm')"
  shows "\<not> is_state_wait_for_open (sm_state sm') \<and> set sigs \<inter> inner_open = {}"
  using assms(3)
proof (rule sm_apply_eventE)
  fix out
  assume sigs: "sigs = (if sm_get_shack_state sm' \<noteq> last_shack_state sm then [SIGNAL_STATE_CHANGE] else []) @ out"
    and out: "sm_rules (door_b2 sm) (door_c2 sm) (sm_get_shack_state sm') (sm_state sm) e = (out, sm_state sm')"
  from out have "\<not> is_state_wait_for_open (sm_state sm')" using sm_rules_enters assms(1,2) by blast
  then show ?thesis using sm_rules_inner_open [OF out] sigs by (auto simp: inner_open_def)
qed

lemma apply_event_quiet:
  assumes "daemon_quiet d" "\<not> is_open_request e"
  shows "daemon_quiet (apply_event e c d)"
proof -
  obtain sigs sm' where ap: "sm_apply_event (d_sm d) e = (sigs, sm')" by fastforce
  have q: "rb_ok (d_queue d)" "\<not> is_state_wait_for_open (sm_state (d_sm d))" using assms(1) by (simp_all add: daemon_quiet_def)
  have "d_queue (apply_event e c d) = ring.push_list (map (\<lambda>s. (s, c)) sigs) (d_queue d)"
    by (simp add: apply_event_def ap ring.push_list_def fold_map o_def)
  then have "rb_ok (d_queue (apply_event e c d))"
    "set (rb_items (d_queue (apply_event e c d))) \<subseteq> set (rb_items (d_queue d)) \<union> (\<lambda>s. (s, c)) ` set sigs"
    using ring.push_list_items [OF q(1), of "map (\<lambda>s. (s, c)) sigs"] set_take_subset [of 64 "rb_items (d_queue d) @ map (\<lambda>s. (s, c)) sigs"]
    by auto
  moreover have "d_sent (apply_event e c d) = d_sent d" by (simp add: apply_event_def ap)
  ultimately show ?thesis
    using assms(1) quiet_event [OF assms(2) q(2) ap] ap unfolding daemon_quiet_def by fastforce
qed

lemma handle_signals_quiet:
  assumes "daemon_quiet d"
  shows "daemon_quiet (handle_signals ok d)"
proof -
  obtain q where q: "rb_ok q" "rb_items q = []"
    "handle_signals ok d = (fold (handle_signal ok) (rb_items (d_queue d)) d)\<lparr>d_queue := q\<rparr>"
    using handle_signals_fold assms by (metis daemon_quiet_def)
  have sent: "\<forall>m\<in>set (d_sent (fold (handle_signal ok) xs d1)). \<not> opens_motor m"
    if "\<forall>x\<in>set xs. fst x \<notin> inner_open" "\<forall>m\<in>set (d_sent d1). \<not> opens_motor m" for xs d1
    using that
  proof (induction xs arbitrary: d1)
    case (Cons x xs)
    obtain k where k: "d_sent (handle_signal ok x d1) = d_sent d1 @ take k (signal_messages (fst x))"
      using handle_signal_sent by blast
    then have "\<forall>m\<in>set (d_sent (handle_signal ok x d1)). \<not> opens_motor m"
      using Cons.prems signal_messages_quiet [of "fst x"] by (auto dest: in_set_takeD)
    with Cons show ?case by simp
  qed simp
  have "d_sm (fold (handle_signal ok) xs d1) = d_sm d1" for xs d1
    by (induction xs arbitrary: d1) simp_all
  then show ?thesis
    using assms q sent [of "rb_items (d_queue d)" d] unfolding daemon_quiet_def by simp
qed

text \<open>The messages of a client that ask for an opening.\<close>

definition asks_opening :: "input \<Rightarrow> bool" where
  "asks_opening i = (case i of
     Message _ (IPC_MSG_OPEN_FRONT _ _ _) \<Rightarrow> True | Message _ (IPC_MSG_OPEN_BACK _ _ _) \<Rightarrow> True
   | Message _ IPC_MSG_FORCE_OPEN \<Rightarrow> True | _ \<Rightarrow> False)"

lemma mqtt_effect:
  assumes "mqtt_handle_message t x d = Some d'"
  shows "d' = d \<or> (\<exists>st. d' = d\<lparr>d_status := st\<rparr>) \<or> (\<exists>e. \<not> is_open_request e \<and> d' = apply_event e INVALID_IPC_CLIENT d)"
  using assms unfolding mqtt_handle_message_def Let_def door_event_def
  by (auto simp: is_open_request_def split: if_splits)

lemma mqtt_quiet:
  assumes "daemon_quiet d" "mqtt_handle_message t x d = Some d'"
  shows "daemon_quiet d'"
proof -
  have "daemon_quiet (d\<lparr>d_status := st\<rparr>)" for st by (rule daemon_quiet_same [OF assms(1)]) simp_all
  then show ?thesis using mqtt_effect [OF assms(2)] apply_event_quiet [OF assms(1)] assms(1) by blast
qed

lemma handle_input_quiet:
  assumes "daemon_quiet d" "\<not> asks_opening i" "handle_input ok i d = Some d'"
  shows "daemon_quiet d'"
proof (cases i)
  case (Accept fd)
  then show ?thesis
    using assms by (auto simp: handle_input_def add_ipc_client_def intro: daemon_quiet_same split: if_splits option.splits)
next
  case (Message k m)
  have up: "daemon_quiet (upd_client k f d)" for f
    by (rule daemon_quiet_same [OF assms(1)]) (simp_all add: upd_client_def)
  have rm: "daemon_quiet (remove_ipc_client k d1)" if "daemon_quiet d1" for d1
    by (rule daemon_quiet_same [OF that]) simp_all
  have reset: "daemon_quiet (snd (send_mqtt_msg ok (topic ''action/reset'') ''*'' d1))" if "daemon_quiet d1" for d1
    using that by (auto simp: daemon_quiet_def send_mqtt_msg_def opens_motor_def topic_def)
  show ?thesis
    using assms Message rm [OF up] rm [OF assms(1)] rm [OF reset [OF up]] apply_event_quiet [OF up]
    by (cases m) (auto simp: handle_input_def handle_ipc_message_def asks_opening_def Let_def is_open_request_def)
next
  case (Mqtt t x)
  then show ?thesis using assms mqtt_quiet by (simp add: handle_input_def)
next
  case Timer
  have "daemon_quiet (d\<lparr>d_timer := None\<rparr>)" by (rule daemon_quiet_same [OF assms(1)]) simp_all
  then show ?thesis using assms Timer apply_event_quiet [of "d\<lparr>d_timer := None\<rparr>" EVENT_TIMEOUT]
    by (auto simp: handle_input_def is_open_request_def)
qed (use assms in \<open>auto simp: handle_input_def intro: daemon_quiet_same\<close>)

lemma main_loop_quiet:
  assumes "daemon_quiet d" "\<forall>i\<in>set is. \<not> asks_opening i" "main_loop ok is d = Some d'"
  shows "daemon_quiet d'"
proof -
  have "daemon_quiet d2" if "handle_inputs ok is d1 = Some d2" "daemon_quiet d1" "\<forall>i\<in>set is. \<not> asks_opening i" for d1 d2 "is"
    using that
  proof (induction "is" arbitrary: d1)
    case (Cons i "is")
    then obtain d3 where "handle_input ok i d1 = Some d3" "handle_inputs ok is d3 = Some d2"
      by (auto simp: bind_eq_Some_conv)
    with Cons handle_input_quiet show ?case by (metis list.set_intros)
  qed simp
  then show ?thesis using assms handle_signals_quiet unfolding main_loop_def by blast
qed

section \<open>The doors\<close>

definition opening_states :: "State_dc set" where
  "opening_states = {STATE_INIT_OPEN, STATE_WAIT_FOR_UNLOCKED, STATE_WAIT_FOR_OPEN}"

lemma send_event_not_opening:
  assumes "sm_send_event e sm = (err, as, sm')" "e = EVENT_TIMEOUT_dc \<or> e = EVENT_CLOSE" "logic_state sm \<notin> opening_states"
  shows "logic_state sm' \<notin> opening_states"
  using assms by (cases "logic_state sm"; cases "door_state sm") (auto simp: machine_defs opening_states_def)

lemma change_door_not_opening:
  assumes "sm_change_door_state_dc d sm = (as, sm')" "logic_state sm \<notin> opening_states"
  shows "logic_state sm' \<notin> opening_states"
  using assms by (cases "logic_state sm") (auto simp: machine_defs opening_states_def split: if_splits)

lemma forward_not_opening:
  "e = EVENT_TIMEOUT_dc \<or> e = EVENT_CLOSE \<Longrightarrow> logic_state (co_sm c) \<notin> opening_states \<Longrightarrow>
     logic_state (co_sm (forward_event e c)) \<notin> opening_states"
  by (auto simp: forward_event_def Let_def dest: send_event_not_opening split: prod.splits)

lemma measure_not_opening:
  assumes "logic_state (co_sm c) \<notin> opening_states"
  shows "logic_state (co_sm (measure_door is_closed is_locked c)) \<notin> opening_states"
proof -
  obtain st new s where g: "get_door_state is_closed is_locked (co_smooth c) = ((st, new), s)"
    by (metis prod.exhaust)
  obtain as sm where d: "sm_change_door_state_dc new (co_sm c) = (as, sm)" by fastforce
  show ?thesis using change_door_not_opening [OF d assms] assms by (simp add: measure_door_def g d Let_def)
qed

lemma forward_events_not_opening:
  "logic_state (co_sm c) \<notin> opening_states \<Longrightarrow> \<not> safe_open_request b \<Longrightarrow> \<not> unsafe_open_request b \<Longrightarrow>
     logic_state (co_sm (forward_events b c)) \<notin> opening_states"
  by (simp add: forward_events_def Let_def forward_not_opening)

lemma round_not_opening:
  assumes "logic_state (co_sm c) \<notin> opening_states" "\<not> safe_open_request b" "\<not> unsafe_open_request b"
  shows "logic_state (co_sm (controller_round (x, b, is_closed, is_locked) c)) \<notin> opening_states"
proof -
  let ?c = "if x \<and> sm_timeout_bit b then c\<lparr>co_io := (co_io c)\<lparr>timeout_task := 0\<rparr>\<rparr> else c"
  have "logic_state (co_sm ?c) \<notin> opening_states" using assms(1) by simp
  then have "logic_state (co_sm (forward_events b ?c)) \<notin> opening_states"
    using forward_events_not_opening assms(2,3) by blast
  then show ?thesis by (simp only: controller_round_def app_main_loop_def prod.case measure_not_opening not_False_eq_True)
qed

definition node_quiet :: "door_node \<Rightarrow> bool" where
  "node_quiet n \<longleftrightarrow> controller_ok True (dn_controller n) \<and> logic_state (co_sm (dn_controller n)) \<notin> opening_states \<and>
     \<not> safe_open_request (dn_bits n) \<and> \<not> unsafe_open_request (dn_bits n)"

lemma node_quiet_start: "node_quiet \<lparr>dn_controller = controller_start d s, dn_bits = no_bits\<rparr>"
  using controller.inv_start [of d s]
  by (simp add: node_quiet_def no_bits_def controller_start_def sm_init_dc_def opening_states_def)

lemma node_quiet_pin: "node_quiet n \<Longrightarrow> \<not> open_pin (co_io (dn_controller n))"
  by (auto simp: node_quiet_def controller_ok_def motor_ok_def opening_states_def)

lemma receive_quiet:
  assumes "node_quiet n" "\<not> opens_motor msg"
  shows "node_quiet (receive m d s msg n)"
proof -
  have "DOOR_NAME (CURRENT_DOOR m) \<in> {DOOR_NAME ''b2'', DOOR_NAME ''c2''}" by (cases m) (simp_all add: CURRENT_DOOR_def)
  then have "\<not> (fst msg \<in> {topic ''action/door/open-safe'', topic ''action/door/open-unsafe''} \<and> snd msg = DOOR_NAME (CURRENT_DOOR m))"
    using assms(2) by (auto simp: opens_motor_def)
  then have "b' = dn_bits n \<or> b' = (dn_bits n)\<lparr>close_request := True\<rparr>"
    if "on_mqtt_data_received m (fst msg) (snd msg) (dn_bits n) = Some b'" for b'
    using that by (auto simp: on_mqtt_data_received_def Let_def split: if_splits)
  then show ?thesis
    using assms(1) node_quiet_start by (fastforce simp: receive_def node_quiet_def split: option.split)
qed

lemma door_round_quiet: "node_quiet n \<Longrightarrow> node_quiet (door_round x t is_closed is_locked n)"
  using controller_round_ok [of "dn_controller n"] round_not_opening [of "dn_controller n"]
  by (simp add: node_quiet_def door_round_def no_bits_def)

section \<open>The portal\<close>

definition quiet_step :: "portal_step \<Rightarrow> bool" where
  "quiet_step x = (case x of Daemon_round is \<Rightarrow> list_all (\<lambda>i. \<not> asks_opening i) is | _ \<Rightarrow> True)"

definition portal_quiet :: "portal \<Rightarrow> bool" where
  "portal_quiet p \<longleftrightarrow> daemon_quiet (p_daemon p) \<and> (\<forall>m. node_quiet (p_doors p m))"

lemma portal_step_quiet:
  assumes "quiet_step x" "portal_quiet p"
  shows "portal_quiet (portal_step ok x p)"
proof (cases x)
  case (Daemon_round "is")
  then show ?thesis
    using assms main_loop_quiet [of "p_daemon p" "is" ok]
    by (auto simp: portal_step_def portal_quiet_def quiet_step_def list_all_iff split: option.split)
next
  case (Deliver m k d s)
  have "\<not> opens_motor (d_sent (p_daemon p) ! k)" if "k < length (d_sent (p_daemon p))"
    using assms(2) nth_mem [OF that] by (simp add: portal_quiet_def daemon_quiet_def)
  then show ?thesis
    using assms(2) receive_quiet by (simp add: Deliver portal_step_def portal_quiet_def)
next
  case (Door_round m x t c l)
  then show ?thesis
    using assms(2) door_round_quiet by (simp add: portal_step_def portal_quiet_def)
qed

interpretation portal: guarded_invariant "portal_start ds s" "portal_step ok" quiet_step portal_quiet
proof
  show "portal_quiet (portal_start ds s)"
    using node_quiet_start rb_ok_init
    by (simp add: portal_quiet_def portal_start_def daemon_quiet_def daemon_init_def sm_init_def is_state_wait_for_open_def)
qed (rule portal_step_quiet)

text \<open>C1: No motor opens a door that nobody asked to open: in every run of the portal in which no client
  asks for an opening, whatever MQTT messages reach the daemon, however the network delivers those
  it sends, and whatever the doors, timers and sensors do, no open button is ever pressed.\<close>

theorem doors_stay_closed_unasked:
  assumes "\<forall>x\<in>set xs. quiet_step x"
  shows "\<not> open_pin (co_io (dn_controller (p_doors (fold (portal_step ok) xs (portal_start ds s)) m)))"
  using portal.inv_run [OF assms, of ok ds s] node_quiet_pin by (simp add: portal_quiet_def)

definition ex_quiet_run :: "portal_step list" where
  "ex_quiet_run = [Daemon_round [Mqtt (topic ''event/button'') (DOOR_NAME ''b2'')], Daemon_round [],
     Deliver Door_B2 1 DOOR_CLOSED_dc smooth_init, Door_round Door_B2 False False True False]"

theorem doors_stay_closed_unasked_witness:
  "\<not> open_pin (co_io (dn_controller (p_doors (fold (portal_step (\<lambda>_ _. True)) ex_quiet_run
     (portal_start (\<lambda>_. DOOR_CLOSED_dc) smooth_init)) Door_B2)))"
proof -
  have "\<forall>x\<in>set ex_quiet_run. quiet_step x"
    by (simp add: ex_quiet_run_def quiet_step_def asks_opening_def)
  then show ?thesis by (rule doors_stay_closed_unasked)
qed

text \<open>C9: Daemon and doors understand each other: what the daemon publishes for a signal sets at a door
  exactly the request that the signal is about and restarts nobody; the daemon ignores the echo of its own
  commands; and a door's report gives the daemon the event of the state reported, a fault none.\<close>

theorem messages_understood:
  "fold (\<lambda>msg b. Option.bind b (on_mqtt_data_received m (fst msg) (snd msg)))
       (drop (length (d_sent d)) (d_sent (handle_signal (\<lambda>_ _. True) (sig, i) d))) (Some no_bits) =
     Some \<lparr>sm_timeout_bit = False, close_request = (sig = SIGNAL_LOCK_ALL),
           safe_open_request = (sig = (case m of Door_B2 \<Rightarrow> SIGNAL_OPEN_DOOR_B2_SAFE | Door_C2 \<Rightarrow> SIGNAL_OPEN_DOOR_C2_SAFE)),
           unsafe_open_request = (sig = (case m of Door_B2 \<Rightarrow> SIGNAL_OPEN_DOOR_B2_UNSAFE | Door_C2 \<Rightarrow> SIGNAL_OPEN_DOOR_C2_UNSAFE))\<rparr> \<and>
   list_all (\<lambda>(t, x). mqtt_handle_message t x d = Some d) (drop (length (d_sent d)) (d_sent (handle_signal (\<lambda>_ _. True) (sig, i) d))) \<and>
   (case publish_door_status m st of (t, x) \<Rightarrow> mqtt_handle_message t x d) =
     Some (case (m, st) of
         (_, DOOR_FAULT) \<Rightarrow> d
       | (Door_B2, DOOR_OPEN_dc) \<Rightarrow> apply_event EVENT_DOOR_B2_OPENED INVALID_IPC_CLIENT d
       | (Door_B2, DOOR_CLOSED_dc) \<Rightarrow> apply_event EVENT_DOOR_B2_CLOSED INVALID_IPC_CLIENT d
       | (Door_B2, DOOR_LOCKED_dc) \<Rightarrow> apply_event EVENT_DOOR_B2_LOCKED INVALID_IPC_CLIENT d
       | (Door_C2, DOOR_OPEN_dc) \<Rightarrow> apply_event EVENT_DOOR_C2_OPENED INVALID_IPC_CLIENT d
       | (Door_C2, DOOR_CLOSED_dc) \<Rightarrow> apply_event EVENT_DOOR_C2_CLOSED INVALID_IPC_CLIENT d
       | (Door_C2, DOOR_LOCKED_dc) \<Rightarrow> apply_event EVENT_DOOR_C2_LOCKED INVALID_IPC_CLIENT d)"
proof -
  have "drop (length (d_sent d)) (d_sent (handle_signal (\<lambda>_ _. True) (sig, i) d)) = signal_messages sig"
    by (cases sig) (simp_all add: handle_signal_def signal_messages_def open_unsafe_def open_safe_def lock_all_def
        send_mqtt_msg_def remove_all_ipc_clients_def split: option.split)
  moreover have "fold (\<lambda>msg b. Option.bind b (on_mqtt_data_received m (fst msg) (snd msg))) (signal_messages sig) (Some no_bits) =
     Some \<lparr>sm_timeout_bit = False, close_request = (sig = SIGNAL_LOCK_ALL),
           safe_open_request = (sig = (case m of Door_B2 \<Rightarrow> SIGNAL_OPEN_DOOR_B2_SAFE | Door_C2 \<Rightarrow> SIGNAL_OPEN_DOOR_C2_SAFE)),
           unsafe_open_request = (sig = (case m of Door_B2 \<Rightarrow> SIGNAL_OPEN_DOOR_B2_UNSAFE | Door_C2 \<Rightarrow> SIGNAL_OPEN_DOOR_C2_UNSAFE))\<rparr>"
    by (cases sig; cases m)
      (simp_all add: signal_messages_def on_mqtt_data_received_def no_bits_def topic_def CURRENT_DOOR_def DOOR_NAME_def)
  moreover have "list_all (\<lambda>(t, x). mqtt_handle_message t x d = Some d) (signal_messages sig)"
    by (cases sig) (simp_all add: signal_messages_def mqtt_handle_message_def topic_def Let_def)
  moreover have "(case publish_door_status m st of (t, x) \<Rightarrow> mqtt_handle_message t x d) =
     Some (case (m, st) of
         (_, DOOR_FAULT) \<Rightarrow> d
       | (Door_B2, DOOR_OPEN_dc) \<Rightarrow> apply_event EVENT_DOOR_B2_OPENED INVALID_IPC_CLIENT d
       | (Door_B2, DOOR_CLOSED_dc) \<Rightarrow> apply_event EVENT_DOOR_B2_CLOSED INVALID_IPC_CLIENT d
       | (Door_B2, DOOR_LOCKED_dc) \<Rightarrow> apply_event EVENT_DOOR_B2_LOCKED INVALID_IPC_CLIENT d
       | (Door_C2, DOOR_OPEN_dc) \<Rightarrow> apply_event EVENT_DOOR_C2_OPENED INVALID_IPC_CLIENT d
       | (Door_C2, DOOR_CLOSED_dc) \<Rightarrow> apply_event EVENT_DOOR_C2_CLOSED INVALID_IPC_CLIENT d
       | (Door_C2, DOOR_LOCKED_dc) \<Rightarrow> apply_event EVENT_DOOR_C2_LOCKED INVALID_IPC_CLIENT d)"
    by (cases m; cases st)
      (simp_all add: publish_door_status_def mqtt_handle_message_def topic_def CURRENT_DOOR_def door_event_def Let_def)
  ultimately show ?thesis by simp
qed

end
