(* ===== verification/Portal_Trigger.thy ===== *)
theory Portal_Trigger
  imports Portal_Daemon
begin

text \<open>
  The program with which a member asks for the door (\<open>portal-trigger.c\<close>): its command line and the message it sends to
  the daemon. What \<open>getopt\<close> finds is a list of options, each with its argument, and the number that \<open>strtol\<close> reads
  is an argument, none when it refuses the text. Printing what the daemon answers is left out.
\<close>

datatype PortalAction =
  PA_OPEN_FRONT | PA_OPEN_BACK | PA_CLOSE | PA_SHUTDOWN | PA_STATUS | PA_SIMPLE_STATUS | PA_SYSTEM_RESET | PA_FORCE_OPEN

record PortalArgs =
  pa_help :: bool
  pa_member_id :: int
  pa_member_nick :: "string option"
  pa_member_name :: "string option"
  pa_action :: "PortalAction option"

datatype option_found = Opt_n string | Opt_f string | Opt_i string | Opt_h | Opt_unknown

definition IPC_MAX_NICK_LEN :: nat where "IPC_MAX_NICK_LEN = 256"
definition IPC_MAX_NAME_LEN :: nat where "IPC_MAX_NAME_LEN = 256"

definition parse_action :: "string \<Rightarrow> PortalAction option" where
  "parse_action s =
     (if s = ''open-front'' then Some PA_OPEN_FRONT
      else if s = ''open-back'' then Some PA_OPEN_BACK
      else if s = ''close'' then Some PA_CLOSE
      else if s = ''shutdown'' then Some PA_SHUTDOWN
      else if s = ''status'' then Some PA_STATUS
      else if s = ''simple-status'' then Some PA_SIMPLE_STATUS
      else if s = ''system-reset'' then Some PA_SYSTEM_RESET
      else if s = ''force-open'' then Some PA_FORCE_OPEN
      else None)"

definition no_args :: PortalArgs where
  "no_args = \<lparr>pa_help = False, pa_member_id = 0, pa_member_nick = None, pa_member_name = None, pa_action = None\<rparr>"

text \<open>The options in their order: the arguments so far, and whether the program goes on, prints its help or fails.\<close>

datatype 'a parsed = Go_on 'a | Print_help | Fail

fun parse_options :: "(string \<Rightarrow> int option) \<Rightarrow> option_found list \<Rightarrow> PortalArgs \<Rightarrow> PortalArgs parsed" where
  "parse_options strtol [] args = Go_on args"
| "parse_options strtol (Opt_n s # os) args = parse_options strtol os (args\<lparr>pa_member_nick := Some s\<rparr>)"
| "parse_options strtol (Opt_f s # os) args = parse_options strtol os (args\<lparr>pa_member_name := Some s\<rparr>)"
| "parse_options strtol (Opt_i s # os) args =
     (case strtol s of
        None \<Rightarrow> Fail
      | Some v \<Rightarrow> (let i = sint (word_of_int v :: 32 word)
                   in if i < 0 then Fail else parse_options strtol os (args\<lparr>pa_member_id := i\<rparr>)))"
| "parse_options strtol (Opt_h # os) args = Print_help"
| "parse_options strtol (Opt_unknown # os) args = Fail"

text \<open>A name that is missing is reported, but only a missing nick name makes the parameters bad.\<close>

definition user_info_ok :: "PortalArgs \<Rightarrow> bool" where
  "user_info_ok args \<longleftrightarrow>
     pa_member_id args > 0 \<and>
     (case pa_member_nick args of None \<Rightarrow> False | Some s \<Rightarrow> length s \<le> IPC_MAX_NICK_LEN) \<and>
     (case pa_member_name args of None \<Rightarrow> True | Some s \<Rightarrow> length s \<le> IPC_MAX_NAME_LEN)"

definition parse_cli ::
    "(string \<Rightarrow> int option) \<Rightarrow> string option \<Rightarrow> option_found list \<Rightarrow> string list \<Rightarrow> PortalArgs parsed" where
  "parse_cli strtol ssh_original_command os rest =
     (case parse_options strtol os no_args of
        Fail \<Rightarrow> Fail
      | Print_help \<Rightarrow> Print_help
      | Go_on args \<Rightarrow>
          (let ssh = (case ssh_original_command of None \<Rightarrow> '''' | Some s \<Rightarrow> s);
               action = (case parse_action ssh of
                   Some a \<Rightarrow> Some a
                 | None \<Rightarrow> if ssh \<noteq> '''' \<or> rest = [] then None else parse_action (hd rest))
           in case action of
                None \<Rightarrow> Fail
              | Some a \<Rightarrow>
                  if (a = PA_OPEN_FRONT \<or> a = PA_OPEN_BACK) \<and> \<not> user_info_ok args then Fail
                  else Go_on (args\<lparr>pa_action := Some a\<rparr>)))"

text \<open>The message to the daemon; \<open>None\<close> where \<open>strncpy\<close> would read from a name that is not there.\<close>

definition trigger_message :: "PortalArgs \<Rightarrow> ipc_message option" where
  "trigger_message args =
     (case pa_action args of
        None \<Rightarrow> None
      | Some PA_OPEN_FRONT \<Rightarrow>
          (case (pa_member_nick args, pa_member_name args) of
             (Some nick, Some name) \<Rightarrow> Some (IPC_MSG_OPEN_FRONT (pa_member_id args) nick name) | _ \<Rightarrow> None)
      | Some PA_OPEN_BACK \<Rightarrow>
          (case (pa_member_nick args, pa_member_name args) of
             (Some nick, Some name) \<Rightarrow> Some (IPC_MSG_OPEN_BACK (pa_member_id args) nick name) | _ \<Rightarrow> None)
      | Some PA_CLOSE \<Rightarrow> Some IPC_MSG_CLOSE
      | Some PA_SHUTDOWN \<Rightarrow> Some IPC_MSG_SHUTDOWN
      | Some PA_STATUS \<Rightarrow> Some IPC_MSG_QUERY_STATUS
      | Some PA_SIMPLE_STATUS \<Rightarrow> Some IPC_MSG_SIMPLE_STATUS
      | Some PA_FORCE_OPEN \<Rightarrow> Some IPC_MSG_FORCE_OPEN
      | Some PA_SYSTEM_RESET \<Rightarrow> Some IPC_MSG_SYSTEM_RESET)"

section \<open>Facts\<close>

text \<open>What the program accepts for an opening, and the message of it.\<close>

lemma parse_cli_open:
  assumes "parse_cli strtol ssh os rest = Go_on args" "pa_action args = Some a" "a = PA_OPEN_FRONT \<or> a = PA_OPEN_BACK"
  shows "pa_member_id args > 0 \<and> (\<exists>nick. pa_member_nick args = Some nick \<and> length nick \<le> 256)"
  using assms
  by (auto simp: parse_cli_def Let_def user_info_ok_def IPC_MAX_NICK_LEN_def split: parsed.splits option.splits if_splits)

text \<open>Without the option for the name the program goes on, to copy from nowhere.\<close>

lemma missing_name_accepted:
  assumes "strtol ''7'' = Some 7"
  shows "\<exists>args. parse_cli strtol None [Opt_i ''7'', Opt_n ''nick''] [''open-back''] = Go_on args \<and> trigger_message args = None"
  using assms
  by (simp add: parse_cli_def parse_action_def no_args_def Let_def user_info_ok_def IPC_MAX_NICK_LEN_def trigger_message_def)

end
