(* ===== verification/Door_Button.thy ===== *)
theory Door_Button
  imports "HOL-Library.Word"
begin

text \<open>
  The button and the beeper of a door controller (\<open>door-control.c\<close>, \<open>io.c\<close>): a press of the button is
  published unless the last one was less than the debounce time ago, which is counted in ticks of 32 bits that
  wrap around.
\<close>

unbundle bit_operations_syntax

section \<open>The button\<close>

definition BUTTON_DEBOUNCE_TIME :: "32 word" where "BUTTON_DEBOUNCE_TIME = 1000"

record button =
  button_pressed :: bool
  last_button_press_time :: "32 word"

definition button_start :: "32 word \<Rightarrow> button" where
  "button_start now = \<lparr>button_pressed = False, last_button_press_time = now\<rparr>"

text \<open>One round of the loop: whether an input has changed, the button's level, and the ticks. A press is published or not.\<close>

definition button_round :: "32 word \<Rightarrow> bool \<Rightarrow> bool \<Rightarrow> 32 word \<Rightarrow> button \<Rightarrow> bool \<times> button" where
  "button_round tick_ms io_changed btn_state current_time s =
     (if io_changed \<and> btn_state \<noteq> button_pressed s
      then (let s1 = s\<lparr>button_pressed := btn_state\<rparr>
            in if btn_state \<and> BUTTON_DEBOUNCE_TIME div tick_ms \<le> current_time - last_button_press_time s1
               then (True, s1\<lparr>last_button_press_time := current_time\<rparr>) else (False, s1))
      else (False, s))"

text \<open>Rounds at given times, of which the controller sees the last 32 bits; the times of the published presses.\<close>

fun button_run :: "32 word \<Rightarrow> (bool \<times> bool \<times> nat) list \<Rightarrow> button \<Rightarrow> nat list" where
  "button_run tick_ms [] s = []"
| "button_run tick_ms ((io_changed, btn_state, t) # rs) s =
     (case button_round tick_ms io_changed btn_state (of_nat t) s of
        (p, s1) \<Rightarrow> (if p then [t] else []) @ button_run tick_ms rs s1)"

lemma word_diff_of_nat_le: "t0 \<le> t \<Longrightarrow> unat (of_nat t - of_nat t0 :: 32 word) \<le> t - t0"
proof -
  assume "t0 \<le> t"
  then have "(of_nat t - of_nat t0 :: 32 word) = of_nat (t - t0)" by simp
  then show ?thesis by (simp only: unat_of_nat) simp
qed

lemma button_run_apart:
  assumes "sorted_wrt (\<le>) (t0 # map (snd \<circ> snd) rs)" "last_button_press_time s = of_nat l" "l \<le> t0"
  shows "sorted_wrt (\<lambda>a b. a + unat (BUTTON_DEBOUNCE_TIME div tick_ms) \<le> b) (l # button_run tick_ms rs s)"
  using assms
proof (induction rs arbitrary: s l t0)
  case (Cons r rs)
  obtain x b t where r: "r = (x, b, t)" by (cases r)
  obtain p s1 where one: "button_round tick_ms x b (of_nat t) s = (p, s1)" by fastforce
  have t: "l \<le> t" "sorted_wrt (\<le>) (t # map (snd \<circ> snd) rs)" using Cons.prems(1,3) by (auto simp: r o_def)
  show ?case
  proof (cases p)
    case False
    then have "last_button_press_time s1 = of_nat l"
      using one Cons.prems(2) by (auto simp: button_round_def Let_def split: if_splits)
    from Cons.IH [OF t(2) this t(1)] show ?thesis by (simp add: r one False)
  next
    case True
    then have s1: "last_button_press_time s1 = of_nat t"
      and "BUTTON_DEBOUNCE_TIME div tick_ms \<le> of_nat t - of_nat l"
      using one Cons.prems(2) by (auto simp: button_round_def Let_def split: if_splits)
    then have "unat (BUTTON_DEBOUNCE_TIME div tick_ms) \<le> unat (of_nat t - of_nat l :: 32 word)"
      by (simp only: word_le_nat_alt)
    then have d: "l + unat (BUTTON_DEBOUNCE_TIME div tick_ms) \<le> t" using word_diff_of_nat_le [OF t(1)] t(1) by linarith
    have "sorted_wrt (\<lambda>a b. a + unat (BUTTON_DEBOUNCE_TIME div tick_ms) \<le> b) (t # button_run tick_ms rs s1)"
      by (rule Cons.IH [OF t(2) s1]) simp
    then show ?thesis using d by (auto simp: r one True)
  qed
qed simp

section \<open>The beeper\<close>

lemma unat_shift: "unat (drop_bit 1 (p :: 32 word)) = unat p div 2"
  by (simp only: unat_drop_bit_eq) (simp add: drop_bit_eq_div)

text \<open>The levels of the pin: the bits of the pattern from the lowest to the highest one that is set, then low.\<close>

function io_beep :: "32 word \<Rightarrow> bool list" where
  "io_beep p = (if p \<noteq> 0 then odd p # io_beep (drop_bit 1 p) else [False])"
  by pat_completeness auto
termination
proof (relation "measure unat")
  fix p :: "32 word"
  assume "p \<noteq> 0"
  then have "0 < unat p" by (simp add: unat_gt_0)
  then show "(drop_bit 1 p, p) \<in> measure unat" unfolding in_measure unat_shift by linarith
qed simp

declare io_beep.simps [simp del]

text \<open>The beeper always ends, after at most 33 levels, and is off then.\<close>

lemma io_beep_ends: "unat p < 2 ^ n \<Longrightarrow> length (io_beep p) \<le> n + 1 \<and> last (io_beep p) = False"
proof (induction n arbitrary: p)
  case 0
  then show ?case by (subst (1 2) io_beep.simps) (simp add: unat_eq_zero)
next
  case (Suc n)
  have "unat (drop_bit 1 p) < 2 ^ n" using Suc.prems by (simp only: unat_shift) simp
  from Suc.IH [OF this] have "length (io_beep (drop_bit 1 p)) \<le> n + 1" "\<not> last (io_beep (drop_bit 1 p))" by simp_all
  moreover have "io_beep q \<noteq> []" for q by (subst io_beep.simps) simp
  ultimately show ?case by (subst (1 2) io_beep.simps) simp
qed

lemma io_beep_total: "length (io_beep p) \<le> 33 \<and> last (io_beep p) = False"
  using io_beep_ends [of p 32] unsigned_less [of p] by simp

end
