(* ===== verification/Portal_Request_Props.thy ===== *)
theory Portal_Request_Props
  imports Portal_Trigger Portal_System_Props Door_Button
begin

text \<open>
  From the command line of a member to the motor of the door, and the button of a door.
\<close>

section \<open>The daemon\<close>

lemma handle_signals_none:
  assumes "rb_ok (d_queue d)" "rb_items (d_queue d) = []"
  shows "handle_signals ok d = d"
proof -
  have "pop_signal (d_queue d) = None" using ring.pop_empty [OF assms(1)] assms(2) by simp
  then show ?thesis by (subst handle_signals.simps) simp
qed

definition requested :: "motor_door \<Rightarrow> SM_Event" where
  "requested m = (case m of Door_B2 \<Rightarrow> EVENT_SSH_OPEN_FRONT_REQUEST | Door_C2 \<Rightarrow> EVENT_SSH_OPEN_BACK_REQUEST)"

lemma request_signals:
  assumes "sm_state sm = STATE_IDLE" "sm_get_shack_state sm \<noteq> SHACK_OPEN"
  shows "fst (sm_apply_event sm (requested m)) =
    (if sm_get_shack_state sm \<noteq> last_shack_state sm then [SIGNAL_STATE_CHANGE] else []) @
    [SIGNAL_START_TIMEOUT, case m of Door_B2 \<Rightarrow> SIGNAL_OPEN_DOOR_B2_SAFE | Door_C2 \<Rightarrow> SIGNAL_OPEN_DOOR_C2_SAFE,
     case m of Door_B2 \<Rightarrow> SIGNAL_OPEN_DOOR_B | Door_C2 \<Rightarrow> SIGNAL_OPEN_DOOR_C]"
  using assms
  by (cases m)
     (simp_all add: requested_def sm_apply_event_def sm_change_door_state_def sm_rules_def is_door_unlock_event_def
       is_door_lock_event_def Let_def is_state_wait_for_open_def)

text \<open>What one round puts into the queue, the next one publishes.\<close>

lemma request_published:
  assumes "rb_ok (d_queue d)" "rb_items (d_queue d) = []" "sm_state (d_sm d) = STATE_IDLE"
    and "sm_get_shack_state (d_sm d) \<noteq> SHACK_OPEN"
  shows "\<exists>d' rest. handle_signals (\<lambda>_ _. True) (apply_event (requested m) c d) = d' \<and>
     d_sent d' = d_sent d @ (topic ''action/door/open-safe'', DOOR_NAME (CURRENT_DOOR m)) # rest"
proof -
  let ?d1 = "apply_event (requested m) c d"
  obtain sigs sm' where ap: "sm_apply_event (d_sm d) (requested m) = (sigs, sm')" by fastforce
  have sigs: "sigs = (if sm_get_shack_state (d_sm d) \<noteq> last_shack_state (d_sm d) then [SIGNAL_STATE_CHANGE] else []) @
    [SIGNAL_START_TIMEOUT, case m of Door_B2 \<Rightarrow> SIGNAL_OPEN_DOOR_B2_SAFE | Door_C2 \<Rightarrow> SIGNAL_OPEN_DOOR_C2_SAFE,
     case m of Door_B2 \<Rightarrow> SIGNAL_OPEN_DOOR_B | Door_C2 \<Rightarrow> SIGNAL_OPEN_DOOR_C]"
    using request_signals [OF assms(3,4), of m] ap by simp
  have q: "rb_ok (d_queue ?d1)" "rb_items (d_queue ?d1) = map (\<lambda>s. (s, c)) sigs"
    using apply_event_queue [OF assms(1) _ ap, of c] assms(2) by simp_all
  obtain q' where h: "handle_signals (\<lambda>_ _. True) ?d1 = (fold (handle_signal (\<lambda>_ _. True)) (map (\<lambda>s. (s, c)) sigs) ?d1)\<lparr>d_queue := q'\<rparr>"
    using handle_signals_fold [OF q(1), where ok = "\<lambda>_ _. True"] q(2) by auto
  have "d_sent ?d1 = d_sent d" by (simp add: apply_event_def split: prod.split)
  then have "d_sent (fold (handle_signal (\<lambda>_ _. True)) (map (\<lambda>s. (s, c)) sigs) ?d1) =
      d_sent d @ [(topic ''action/door/open-safe'', DOOR_NAME (CURRENT_DOOR m)),
        (topic ''action/door/open-unsafe'', DOOR_NAME (case m of Door_B2 \<Rightarrow> ''b'' | Door_C2 \<Rightarrow> ''c''))]"
    by (cases m) (simp_all add: sigs handle_signal_def open_safe_def open_unsafe_def send_mqtt_msg_def CURRENT_DOOR_def)
  then show ?thesis unfolding h by simp
qed

section \<open>The door\<close>

lemma safe_open_presses:
  assumes "logic_state (co_sm c) = STATE_IDLE_dc" "door_state (co_sm c) = DOOR_LOCKED_dc"
  shows "open_pin (co_io (controller_round (x, no_bits\<lparr>safe_open_request := True\<rparr>, is_closed, is_locked) c))"
proof -
  have "logic_state (co_sm (forward_events (no_bits\<lparr>safe_open_request := True\<rparr>) c)) = STATE_INIT_OPEN \<and>
      open_pin (co_io (forward_events (no_bits\<lparr>safe_open_request := True\<rparr>) c))"
    using assms by (simp add: forward_events_def forward_event_def no_bits_def sm_send_event_def set_state_def run_actions_def
        run_action_def Let_def)
  then show ?thesis
    by (auto simp: controller_round_def app_main_loop_def measure_door_def sm_change_door_state_dc_def run_actions_def no_bits_def
        Let_def split: prod.split)
qed

lemma deliver_safe_open:
  "dn_bits n = no_bits \<Longrightarrow>
   receive m ds s (topic ''action/door/open-safe'', DOOR_NAME (CURRENT_DOOR m)) n = n\<lparr>dn_bits := no_bits\<lparr>safe_open_request := True\<rparr>\<rparr>"
  by (simp add: receive_def on_mqtt_data_received_def topic_def Let_def)

section \<open>From the command line to the motor\<close>

definition request_run :: "nat \<Rightarrow> ipc_message \<Rightarrow> motor_door \<Rightarrow> nat \<Rightarrow> DoorState_dc \<Rightarrow> smooth \<Rightarrow> bool \<Rightarrow> bool \<Rightarrow> bool \<Rightarrow> portal_step list" where
  "request_run k msg m i ds s x is_closed is_locked =
     [Daemon_round [Message k msg], Daemon_round [], Deliver m i ds s, Door_round m x False is_closed is_locked]"

text \<open>C3: A member gets in: when the command line of the trigger is accepted and asks for the front or the back, with both
  names, and the daemon is idle while the shack is not open, and the door on that side is locked and at rest, then a
  round of the daemon that reads the message, the next round, the delivery of what it has published, and a round of the
  door controller end with the motor's open button pressed.\<close>

theorem open_request_reaches_motor:
  assumes "parse_cli strtol ssh os rest = Go_on args" "pa_action args = Some (case m of Door_B2 \<Rightarrow> PA_OPEN_FRONT | Door_C2 \<Rightarrow> PA_OPEN_BACK)"
    and "pa_member_nick args = Some nick" "pa_member_name args = Some name" "c_name nick \<noteq> []" "c_name name \<noteq> []"
    and "rb_ok (d_queue (p_daemon p))" "rb_items (d_queue (p_daemon p)) = []" "k < length (d_clients (p_daemon p))"
    and "sm_state (d_sm (p_daemon p)) = STATE_IDLE" "sm_get_shack_state (d_sm (p_daemon p)) \<noteq> SHACK_OPEN"
    and "dn_bits (p_doors p m) = no_bits" "logic_state (co_sm (dn_controller (p_doors p m))) = STATE_IDLE_dc"
    and "door_state (co_sm (dn_controller (p_doors p m))) = DOOR_LOCKED_dc"
  shows "\<exists>msg. trigger_message args = Some msg \<and>
     open_pin (co_io (dn_controller (p_doors (fold (portal_step (\<lambda>_ _. True))
       (request_run k msg m (length (d_sent (p_daemon p))) ds s x is_closed is_locked) p) m)))"
proof -
  let ?ok = "\<lambda>_ _. True" and ?d = "p_daemon p" and ?n = "p_doors p m"
  define msg where "msg = (case m of Door_B2 \<Rightarrow> IPC_MSG_OPEN_FRONT (pa_member_id args) nick name
     | Door_C2 \<Rightarrow> IPC_MSG_OPEN_BACK (pa_member_id args) nick name)"
  have id: "0 < pa_member_id args" using parse_cli_open [OF assms(1,2)] by (cases m) simp_all
  have "trigger_message args = Some msg" using assms(2,3,4) by (cases m) (simp_all add: trigger_message_def msg_def)
  moreover obtain d1 c where d1: "handle_ipc_message ?ok k msg ?d = apply_event (requested m) c d1" "d_queue d1 = d_queue ?d"
      "d_sm d1 = d_sm ?d" "d_sent d1 = d_sent ?d"
    using id assms(5,6)
    by (cases m) (simp_all add: msg_def handle_ipc_message_def ipc_open_def Let_def requested_def upd_client_def)
  obtain d2 ms where d2: "handle_signals ?ok (apply_event (requested m) c d1) = d2"
      "d_sent d2 = d_sent ?d @ (topic ''action/door/open-safe'', DOOR_NAME (CURRENT_DOOR m)) # ms"
    using request_published [of d1 m c] assms(7,8,10,11) d1(2-4) by auto
  have m1: "main_loop ?ok [Message k msg] ?d = Some (apply_event (requested m) c d1)"
    using handle_signals_none [OF assms(7,8)] by (simp add: main_loop_def handle_input_def d1(1))
  have m2: "main_loop ?ok [] (apply_event (requested m) c d1) = Some d2" by (simp add: main_loop_def d2(1))
  have del: "portal_step ?ok (Deliver m (length (d_sent ?d)) ds s) (p\<lparr>p_daemon := d2\<rparr>) =
      p\<lparr>p_daemon := d2, p_doors := (p_doors p)(m := ?n\<lparr>dn_bits := no_bits\<lparr>safe_open_request := True\<rparr>\<rparr>)\<rparr>"
    using deliver_safe_open [OF assms(12), of m ds s] by (simp add: portal_step_def d2(2) nth_append)
  have bits: "no_bits\<lparr>safe_open_request := True, sm_timeout_bit := False\<rparr> = no_bits\<lparr>safe_open_request := True\<rparr>"
    by (simp add: no_bits_def)
  have "fold (portal_step ?ok) (request_run k msg m (length (d_sent ?d)) ds s x is_closed is_locked) p =
      portal_step ?ok (Door_round m x False is_closed is_locked) (portal_step ?ok (Deliver m (length (d_sent ?d)) ds s) (p\<lparr>p_daemon := d2\<rparr>))"
    by (simp add: request_run_def portal_step_def [of _ "Daemon_round _"] m1 m2)
  then have "dn_controller (p_doors (fold (portal_step ?ok) (request_run k msg m (length (d_sent ?d)) ds s x is_closed is_locked) p) m) =
      controller_round (x, no_bits\<lparr>safe_open_request := True\<rparr>, is_closed, is_locked) (dn_controller ?n)"
    unfolding del by (simp add: portal_step_def door_round_def bits)
  then have "open_pin (co_io (dn_controller (p_doors (fold (portal_step ?ok)
      (request_run k msg m (length (d_sent ?d)) ds s x is_closed is_locked) p) m)))"
    using safe_open_presses [OF assms(13,14)] by simp
  ultimately show ?thesis by blast
qed

text \<open>A portal whose doors have reported that they are locked, and one client.\<close>

definition ex_locked_portal :: portal where
  "ex_locked_portal =
     \<lparr>p_daemon = daemon_init\<lparr>d_sm := sm_init\<lparr>door_b2 := DOOR_LOCKED, door_c2 := DOOR_LOCKED\<rparr>,
        d_clients := [\<lparr>ic_fd = 5, client_id = 0, disconnect_flags = 0, forward_logs = False, nick_name = None, full_name = None,
          member_id = 0\<rparr>]\<rparr>,
      p_doors = (\<lambda>m. \<lparr>dn_controller = controller_start DOOR_LOCKED_dc smooth_init, dn_bits = no_bits\<rparr>)\<rparr>"

definition ex_args :: PortalArgs where
  "ex_args = \<lparr>pa_help = False, pa_member_id = 7, pa_member_nick = Some ''nick'', pa_member_name = Some ''name'',
     pa_action = Some PA_OPEN_BACK\<rparr>"

theorem open_request_reaches_motor_witness:
  "\<exists>msg. trigger_message ex_args = Some msg \<and>
     open_pin (co_io (dn_controller (p_doors (fold (portal_step (\<lambda>_ _. True))
       (request_run 0 msg Door_C2 0 DOOR_LOCKED_dc smooth_init False True True) ex_locked_portal) Door_C2)))"
proof -
  have cli: "parse_cli (\<lambda>_. Some 7) None [Opt_i ''7'', Opt_n ''nick'', Opt_f ''name''] [''open-back''] = Go_on ex_args"
    by (simp add: parse_cli_def parse_action_def no_args_def ex_args_def Let_def user_info_ok_def IPC_MAX_NICK_LEN_def IPC_MAX_NAME_LEN_def)
  have "d_sent (p_daemon ex_locked_portal) = []" by (simp add: ex_locked_portal_def daemon_init_def)
  moreover have "rb_ok (d_queue (p_daemon ex_locked_portal))" "rb_items (d_queue (p_daemon ex_locked_portal)) = []"
    using rb_ok_init by (simp_all add: ex_locked_portal_def daemon_init_def)
  moreover have "sm_state (d_sm (p_daemon ex_locked_portal)) = STATE_IDLE" "sm_get_shack_state (d_sm (p_daemon ex_locked_portal)) \<noteq> SHACK_OPEN"
    "0 < length (d_clients (p_daemon ex_locked_portal))"
    by (simp_all add: ex_locked_portal_def sm_init_def sm_get_shack_state_def Let_def)
  moreover have "dn_bits (p_doors ex_locked_portal Door_C2) = no_bits"
    "logic_state (co_sm (dn_controller (p_doors ex_locked_portal Door_C2))) = STATE_IDLE_dc"
    "door_state (co_sm (dn_controller (p_doors ex_locked_portal Door_C2))) = DOOR_LOCKED_dc"
    by (simp_all add: ex_locked_portal_def controller_start_def sm_init_dc_def)
  ultimately show ?thesis
    using open_request_reaches_motor [OF cli, of Door_C2 "''nick''" "''name''" ex_locked_portal 0 DOOR_LOCKED_dc smooth_init False True True]
    by (simp add: ex_args_def c_name_def)
qed

text \<open>C25: The button cannot be mashed: in every run of a controller whose ticks do not go back, the published presses
  are at least the debounce time apart, and the first one from the start, although the ticks wrap around.\<close>

theorem presses_debounced:
  assumes "sorted_wrt (\<le>) (t0 # map (snd \<circ> snd) rs)"
  shows "sorted_wrt (\<lambda>a b. a + unat (BUTTON_DEBOUNCE_TIME div tick_ms) \<le> b)
     (t0 # button_run tick_ms rs (button_start (of_nat t0)))"
  using button_run_apart [OF assms, of "button_start (of_nat t0)" t0 tick_ms] by (simp add: button_start_def)

theorem presses_debounced_witness:
  "sorted_wrt (\<lambda>a b. a + unat (BUTTON_DEBOUNCE_TIME div 10) \<le> b)
     (0 # button_run 10 [(True, True, 150), (True, False, 160), (True, True, 170)] (button_start (of_nat 0)))"
  by (rule presses_debounced) simp

end
