(* ===== verification/Door_Props.thy ===== *)
theory Door_Props
  imports Door_Control_Facts
begin

text \<open>What the controller of a door promises.\<close>

text \<open>C10: The motor is safe: after any rounds of the loop, at most one of the two buttons is pressed, a
  pressed button has the short timeout running, and the timeout runs exactly while an operation is
  in progress.\<close>

theorem motor_buttons_safe:
  "let c = fold controller_round rs (controller_start d s); io = co_io c
   in \<not> (open_pin io \<and> close_pin io) \<and>
      (open_pin io \<or> close_pin io \<longrightarrow> timeout_task io = TIMEOUT_BUTTON_PRESS) \<and>
      (timeout_task io \<noteq> 0 \<longleftrightarrow> logic_state (co_sm c) \<noteq> STATE_IDLE_dc)"
proof -
  have "controller_ok True (fold controller_round rs (controller_start d s))" by (rule controller.inv_run)
  then show ?thesis
    by (cases "logic_state (co_sm (fold controller_round rs (controller_start d s)))")
      (simp_all add: Let_def controller_ok_def motor_ok_def duration_def timeout_defs)
qed

theorem motor_buttons_safe_witness:
  "\<not> (open_pin (co_io (controller_start DOOR_OPEN_dc smooth_init)) \<and>
      close_pin (co_io (controller_start DOOR_OPEN_dc smooth_init)))"
  using motor_buttons_safe [of "[]" DOOR_OPEN_dc smooth_init] by (simp add: Let_def)

text \<open>C24: Every operation ends: whatever the door reports in between, after four timeouts without a new
  request the controller is idle.\<close>

theorem operation_ends:
  assumes "4 \<le> count_list xs Timeout"
  shows "logic_state (fold door_machine xs sm) = STATE_IDLE_dc"
proof -
  have "rank (logic_state sm) \<le> 4" by (simp add: rank_def split: State_dc.split)
  with steps_rank [of xs sm] assms have "rank (logic_state (fold door_machine xs sm)) = 0" by simp
  then show ?thesis by (simp add: rank_def split: State_dc.splits)
qed

theorem operation_ends_witness:
  "logic_state (fold door_machine [Timeout, Report DOOR_CLOSED_dc, Timeout, Timeout, Timeout]
     \<lparr>door_state = DOOR_LOCKED_dc, logic_state = STATE_INIT_OPEN, unsafe_action = False\<rparr>) = STATE_IDLE_dc"
  by (rule operation_ends) simp



text \<open>Only a steady door is believed: after at least eight samples, the smoothed state is stable
  exactly when the last eight samples agree, and then it is their value.\<close>

theorem door_state_is_steady:
  assumes "smooth_ok s" "8 \<le> length ds"
  shows "get_smoothed_door_state (fold push_door_state ds s) = (True, d) \<longleftrightarrow>
     drop (length ds - 8) ds = replicate 8 d"
proof -
  note p = push_all_samples [OF assms(1), of ds]
  have len: "length (samples s) = 8" using assms(1) by (simp add: samples_def smooth_ok_def)
  have last: "samples (fold push_door_state ds s) = drop (length ds - 8) ds"
    using p len assms(2) by simp
  have "length (drop (length ds - 8) ds) = 8" using assms(2) by simp
  then have "set (drop (length ds - 8) ds) = {d} \<longleftrightarrow> drop (length ds - 8) ds = replicate 8 d"
    by (metis replicate_length_same set_replicate singletonD zero_neq_numeral)
  then show ?thesis using smoothed_iff p last by simp
qed

theorem door_state_is_steady_witness:
  "get_smoothed_door_state (fold push_door_state (DOOR_OPEN_dc # replicate 8 DOOR_LOCKED_dc) smooth_init) =
     (True, DOOR_LOCKED_dc)"
proof -
  have "smooth_ok smooth_init" by (simp add: smooth_ok_def smooth_init_def)
  from door_state_is_steady [OF this, of "DOOR_OPEN_dc # replicate 8 DOOR_LOCKED_dc" DOOR_LOCKED_dc]
  show ?thesis by simp
qed

text \<open>
  A bolt that moves while the button is still pressed is missed: the report of the lock finds no
  change to wait for, and the operation ends with an error though the door is locked.
\<close>

lemma quick_lock_reported_as_error:
  assumes "logic_state sm = STATE_INIT_LOCK" "door_state sm \<noteq> DOOR_LOCKED_dc"
    and "sm1 = door_machine Timeout (door_machine (Report DOOR_LOCKED_dc) sm)"
  shows "sm1 = sm\<lparr>door_state := DOOR_LOCKED_dc, logic_state := STATE_WAIT_FOR_LOCKED_dc\<rparr>"
    "sm_change_door_state_dc DOOR_LOCKED_dc sm1 = ([], sm1)"
    "SIGNAL_ERROR_LOCKING \<in> set (signals (fst (snd (sm_send_event EVENT_TIMEOUT_dc sm1))))"
  using assms by (simp_all add: door_machine_def machine_defs)

end
