(* ===== verification/Busch_Interface.thy ===== *)
theory Busch_Interface
  imports Portal_System
begin

text \<open>
  The interface to the intercom of the front door (\<open>firmware/busch-interface/main\<close>): its doorbell becomes a message, and
  a message that opens door B becomes a pulse of the intercom's button. Two words carry the signals between
  the tasks; FreeRTOS's compare and swap on them is an argument, \<open>cas\<close>, which gives its result and the new value.
\<close>

type_synonym compare_and_swap = "u32 \<Rightarrow> u32 \<Rightarrow> u32 \<Rightarrow> u32 \<times> u32"

text \<open>\<open>b_levels\<close> are the levels written to the button's pin, \<open>b_sent\<close> the published messages.\<close>

record busch =
  atomic_door_signal :: u32
  atomic_doorbell_signal :: u32
  b_levels :: "bool list"
  b_sent :: "(string \<times> string) list"

definition button_active_high :: bool where "button_active_high = True"

definition busch_init :: "busch \<Rightarrow> busch" where
  "busch_init b = b\<lparr>atomic_door_signal := 0, atomic_doorbell_signal := 0, b_levels := b_levels b @ [\<not> button_active_high]\<rparr>"

definition signal_door_open :: "compare_and_swap \<Rightarrow> busch \<Rightarrow> busch" where
  "signal_door_open cas b = b\<lparr>atomic_door_signal := snd (cas (atomic_door_signal b) 1 0)\<rparr>"

definition was_door_signalled :: "compare_and_swap \<Rightarrow> busch \<Rightarrow> bool \<times> busch" where
  "was_door_signalled cas b =
     (case cas (atomic_door_signal b) 0 1 of (r, v) \<Rightarrow> (r \<noteq> 0, b\<lparr>atomic_door_signal := v\<rparr>))"

definition handle_gpio_interrupt :: "compare_and_swap \<Rightarrow> bool \<Rightarrow> busch \<Rightarrow> busch" where
  "handle_gpio_interrupt cas level b =
     (if level = False then b\<lparr>atomic_doorbell_signal := snd (cas (atomic_doorbell_signal b) 1 0)\<rparr> else b)"

definition io_was_doorbell_triggered :: "compare_and_swap \<Rightarrow> busch \<Rightarrow> bool \<times> busch" where
  "io_was_doorbell_triggered cas b =
     (case cas (atomic_doorbell_signal b) 0 1 of (r, v) \<Rightarrow> (r \<noteq> 0, b\<lparr>atomic_doorbell_signal := v\<rparr>))"

definition io_trigger_door_unlock :: "busch \<Rightarrow> busch" where
  "io_trigger_door_unlock b = b\<lparr>b_levels := b_levels b @ [button_active_high, \<not> button_active_high]\<rparr>"

text \<open>A message; after a reset the program starts again.\<close>

definition on_busch_data_received :: "compare_and_swap \<Rightarrow> string \<Rightarrow> string \<Rightarrow> busch \<Rightarrow> busch" where
  "on_busch_data_received cas t x b =
     (if mqtt_event_has t (topic ''action/door/open-safe'') \<or> mqtt_event_has t (topic ''action/door/open-unsafe'')
      then if mqtt_event_has x (DOOR_NAME ''b'') then signal_door_open cas b else b
      else if mqtt_event_has t (topic ''action/reset'')
      then if mqtt_event_has x ''*'' \<or> mqtt_event_has x (DOOR_NAME ''b'') then busch_init b else b
      else b)"

text \<open>One round of \<open>app_main\<close>'s loop, connected to the broker or not.\<close>

definition busch_round :: "compare_and_swap \<Rightarrow> bool \<Rightarrow> busch \<Rightarrow> busch" where
  "busch_round cas is_mqtt_connected b =
     (let (rung, b1) = io_was_doorbell_triggered cas b;
          b2 = (if rung \<and> is_mqtt_connected
                then b1\<lparr>b_sent := b_sent b1 @ [(topic ''event/doorbell'', DOOR_NAME ''b'')]\<rparr> else b1);
          (signalled, b3) = was_door_signalled cas b2
      in if signalled then io_trigger_door_unlock b3 else b3)"

datatype busch_step = Doorbell_edge bool | Busch_message string string | Busch_round bool

definition busch_step :: "compare_and_swap \<Rightarrow> busch_step \<Rightarrow> busch \<Rightarrow> busch" where
  "busch_step cas x b =
     (case x of
        Doorbell_edge level \<Rightarrow> handle_gpio_interrupt cas level b
      | Busch_message t y \<Rightarrow> on_busch_data_received cas t y b
      | Busch_round c \<Rightarrow> busch_round cas c b)"

definition busch_start :: busch where
  "busch_start = busch_init \<lparr>atomic_door_signal = 0, atomic_doorbell_signal = 0, b_levels = [], b_sent = []\<rparr>"

section \<open>Pulses and rings\<close>

text \<open>What the compare and swap does.\<close>

definition swaps :: "compare_and_swap \<Rightarrow> bool" where
  "swaps cas \<longleftrightarrow> (\<forall>v x c. cas v x c = (if v = c then (1, x) else (0, v)))"

definition opens_b :: "busch_step \<Rightarrow> bool" where
  "opens_b x = (case x of
      Busch_message t y \<Rightarrow> (t = topic ''action/door/open-safe'' \<or> t = topic ''action/door/open-unsafe'') \<and> y = DOOR_NAME ''b''
    | _ \<Rightarrow> False)"

definition rings :: "busch_step \<Rightarrow> bool" where
  "rings x = (case x of Doorbell_edge level \<Rightarrow> \<not> level | _ \<Rightarrow> False)"

text \<open>The pulses so far and the one to come are at most as many as the openings, the same for the bell; the pin is low.\<close>

definition pulses_ok :: "nat \<Rightarrow> nat \<Rightarrow> busch \<Rightarrow> bool" where
  "pulses_ok n m b \<longleftrightarrow>
     atomic_door_signal b \<in> {0, 1} \<and> atomic_doorbell_signal b \<in> {0, 1} \<and>
     length (filter id (b_levels b)) + unat (atomic_door_signal b) \<le> n \<and>
     length (b_sent b) + unat (atomic_doorbell_signal b) \<le> m \<and>
     b_levels b \<noteq> [] \<and> last (b_levels b) = False \<and>
     set (b_sent b) \<subseteq> {(topic ''event/doorbell'', DOOR_NAME ''b'')}"

lemma busch_round_pulses:
  assumes "swaps cas" "pulses_ok n m b"
  shows "pulses_ok n m (busch_round cas c b)"
  using assms
  by (auto simp: pulses_ok_def busch_round_def swaps_def was_door_signalled_def io_was_doorbell_triggered_def
      io_trigger_door_unlock_def button_active_high_def Let_def)

lemma busch_step_pulses:
  assumes "swaps cas" "pulses_ok n m b"
  shows "pulses_ok (n + of_bool (opens_b x)) (m + of_bool (rings x)) (busch_step cas x b)"
proof (cases x)
  case (Doorbell_edge l)
  then show ?thesis using assms
    by (auto simp: pulses_ok_def busch_step_def handle_gpio_interrupt_def swaps_def opens_b_def rings_def)
next
  case (Busch_message t y)
  have "topic ''action/reset'' \<noteq> topic ''action/door/open-safe''" "topic ''action/reset'' \<noteq> topic ''action/door/open-unsafe''"
    by (simp_all add: topic_def)
  then show ?thesis using assms Busch_message
    by (auto simp: pulses_ok_def busch_step_def on_busch_data_received_def signal_door_open_def swaps_def opens_b_def rings_def
        busch_init_def button_active_high_def)
next
  case (Busch_round c)
  then show ?thesis using busch_round_pulses [OF assms] by (simp add: busch_step_def opens_b_def rings_def)
qed

text \<open>The intercom's button is pressed at most once for every opening of door B, and released after each round; every
  published ring has a falling edge of its own.\<close>

lemma front_door_pulses:
  assumes "swaps cas"
  shows "pulses_ok (length (filter opens_b xs)) (length (filter rings xs)) (fold (busch_step cas) xs busch_start)"
proof (induction xs rule: rev_induct)
  case Nil
  then show ?case by (simp add: pulses_ok_def busch_start_def busch_init_def button_active_high_def)
next
  case (snoc x xs)
  from busch_step_pulses [OF assms snoc, of x] show ?case by (cases "opens_b x"; cases "rings x") simp_all
qed

text \<open>An opening that is received is pulsed in the next round.\<close>

lemma front_door_opened:
  assumes "swaps cas" "pulses_ok n m b" "opens_b (Busch_message t y)"
  shows "b_levels (busch_step cas (Busch_round c) (busch_step cas (Busch_message t y) b)) = b_levels b @ [True, False]"
  using assms
  by (auto simp: pulses_ok_def busch_step_def on_busch_data_received_def signal_door_open_def swaps_def opens_b_def
      busch_round_def was_door_signalled_def io_was_doorbell_triggered_def io_trigger_door_unlock_def button_active_high_def Let_def)

end
