(* ===== verification/Api_Endpoint.thy ===== *)
theory Api_Endpoint
  imports Portal_Daemon
begin

text \<open>
  The status of the space on the web: the daemon writes a byte to a serial line in every round
  (\<open>update_api_status\<close>), and the program at its other end (\<open>firmware/api-endpoint\<close>) sends a ping when the space opens and
  then periodically. Serial line, WLAN, clock and HTTP are left out: what the line hands over, the ticks of the
  clock and the update period in ticks are arguments.
\<close>

definition PORTAL_SIGNAL_OPEN :: "8 word" where "PORTAL_SIGNAL_OPEN = 0x12"
definition PORTAL_SIGNAL_CLOSED :: "8 word" where "PORTAL_SIGNAL_CLOSED = 0x14"

text \<open>The byte that the daemon writes, if the line can be opened and configured.\<close>

definition update_api_status :: "bool \<Rightarrow> daemon \<Rightarrow> 8 word list" where
  "update_api_status line_ok d =
     (if line_ok then [if sm_get_shack_state (d_sm d) = SHACK_OPEN then PORTAL_SIGNAL_OPEN else PORTAL_SIGNAL_CLOSED] else [])"

record endpoint =
  is_open :: bool
  next_update_msg :: u32

definition endpoint_start :: endpoint where "endpoint_start = \<lparr>is_open = False, next_update_msg = 0\<rparr>"

text \<open>The bytes read in a round; the flag forces a notification.\<close>

fun read_signals :: "8 word list \<Rightarrow> bool \<times> bool \<Rightarrow> bool \<times> bool" where
  "read_signals [] (force, opn) = (force, opn)"
| "read_signals (c # cs) (force, opn) =
     (if c = PORTAL_SIGNAL_OPEN then read_signals cs (force \<or> \<not> opn, True)
      else if c = PORTAL_SIGNAL_CLOSED then read_signals cs (force \<or> opn, False)
      else read_signals cs (force, opn))"

text \<open>One round: whether a ping is sent, and the new state.\<close>

definition endpoint_round :: "u32 \<Rightarrow> u32 \<Rightarrow> 8 word list \<Rightarrow> endpoint \<Rightarrow> bool \<times> endpoint" where
  "endpoint_round update_period now cs e =
     (let (force, opn) = read_signals cs (False, is_open e); e1 = e\<lparr>is_open := opn\<rparr>
      in if force \<or> next_update_msg e1 \<le> now
         then (opn, e1\<lparr>next_update_msg := (if force then now else next_update_msg e1) + update_period\<rparr>)
         else (False, e1))"

section \<open>Facts\<close>

definition is_signal :: "8 word \<Rightarrow> bool" where
  "is_signal c \<longleftrightarrow> c = PORTAL_SIGNAL_OPEN \<or> c = PORTAL_SIGNAL_CLOSED"

lemma signals_differ [simp]: "PORTAL_SIGNAL_OPEN \<noteq> PORTAL_SIGNAL_CLOSED" "PORTAL_SIGNAL_CLOSED \<noteq> PORTAL_SIGNAL_OPEN"
  by (simp_all add: PORTAL_SIGNAL_OPEN_def PORTAL_SIGNAL_CLOSED_def)

text \<open>The last signal counts, and a round in which the state has changed forces a notification.\<close>

lemma read_signals_last:
  "snd (read_signals cs (force, opn)) = (if filter is_signal cs = [] then opn else last (filter is_signal cs) = PORTAL_SIGNAL_OPEN)"
  by (induction cs arbitrary: force opn) (auto simp: is_signal_def)

lemma read_signals_forced: "force \<Longrightarrow> fst (read_signals cs (force, opn))"
  by (induction cs arbitrary: force opn) auto

lemma read_signals_change: "snd (read_signals cs (force, opn)) \<noteq> opn \<Longrightarrow> fst (read_signals cs (force, opn))"
  by (induction cs arbitrary: force opn) (auto simp: read_signals_forced)

lemma endpoint_open: "is_open (snd (endpoint_round up now cs e)) = snd (read_signals cs (False, is_open e))"
  by (simp add: endpoint_round_def Let_def split: prod.split)

text \<open>From the daemon's round to the web: the endpoint knows what the daemon knows, never pings for a space that is not open,
  and pings at once when it has opened.\<close>

lemma endpoint_follows_daemon:
  assumes "endpoint_round up now (cs @ update_api_status True d) e = (ping, e1)"
  shows "is_open e1 \<longleftrightarrow> sm_get_shack_state (d_sm d) = SHACK_OPEN"
    and "ping \<Longrightarrow> sm_get_shack_state (d_sm d) = SHACK_OPEN"
    and "sm_get_shack_state (d_sm d) = SHACK_OPEN \<Longrightarrow> \<not> is_open e \<Longrightarrow> ping"
proof -
  let ?cs = "cs @ update_api_status True d"
  have o: "snd (read_signals ?cs (False, is_open e)) \<longleftrightarrow> sm_get_shack_state (d_sm d) = SHACK_OPEN"
    by (simp add: read_signals_last update_api_status_def is_signal_def)
  show "is_open e1 \<longleftrightarrow> sm_get_shack_state (d_sm d) = SHACK_OPEN" using endpoint_open [of up now ?cs e] o by (simp add: assms)
  show "sm_get_shack_state (d_sm d) = SHACK_OPEN" if ping
    using assms o that by (auto simp: endpoint_round_def Let_def split: prod.splits if_splits)
  show ping if "sm_get_shack_state (d_sm d) = SHACK_OPEN" "\<not> is_open e"
    using assms o that read_signals_change [of ?cs False "is_open e"]
    by (auto simp: endpoint_round_def Let_def split: prod.splits if_splits)
qed

text \<open>The time of the next ping is compared with the ticks as a number: when it has wrapped around and the ticks have not, every
  round sends a ping.\<close>

lemma pings_in_a_row:
  "fst (endpoint_round 6000 0xFFFFFF00 [] \<lparr>is_open = True, next_update_msg = 0xFFFFF000\<rparr>)"
  "fst (endpoint_round 6000 0xFFFFFF05 [] (snd (endpoint_round 6000 0xFFFFFF00 [] \<lparr>is_open = True, next_update_msg = 0xFFFFF000\<rparr>)))"
  by (simp_all add: endpoint_round_def)

end
