(* ===== verification/Make_Cheader.thy ===== *)
theory Make_Cheader
  imports PCV_Prelude
begin

text \<open>
  \<open>firmware/make-cheader.py\<close>: every file given becomes a C header with its text as string
  literals, one per line. A Python string is the list of its code points; how bytes decode to
  text is a parameter. Beside the script stands what C makes of such literals, to state that the
  header means the file.
\<close>

section \<open>The script\<close>

type_synonym pytext = "nat list"
type_synonym disk = "string \<Rightarrow> string option"

text \<open>Text mode: every line end becomes a newline.\<close>

fun universal_newlines :: "pytext \<Rightarrow> pytext" where
  "universal_newlines [] = []"
| "universal_newlines (c # cs) =
     (if c = 0x0D
      then 0x0A # (case cs of [] \<Rightarrow> []
                   | d # ds \<Rightarrow> if d = 0x0A then universal_newlines ds else universal_newlines cs)
      else c # universal_newlines cs)"

fun readlines :: "pytext \<Rightarrow> pytext list" where
  "readlines [] = []"
| "readlines (c # cs) =
     (if c = 0x0A then [c] # readlines cs
      else (case readlines cs of [] \<Rightarrow> [[c]] | l # ls \<Rightarrow> (c # l) # ls))"

definition hex_digit :: "nat \<Rightarrow> char" where
  "hex_digit d = ''0123456789abcdef'' ! d"

fun hex_show :: "nat \<Rightarrow> string" where
  "hex_show n = (if n < 16 then [hex_digit n] else hex_show (n div 16) @ [hex_digit (n mod 16)])"

declare hex_show.simps [simp del]

definition format_02x :: "nat \<Rightarrow> string" where
  "format_02x n = (let s = hex_show n in replicate (2 - length s) (CHR ''0'') @ s)"

definition backslash :: char where "backslash = CHR 0x5C"
definition quote :: char where "quote = CHR 0x22"

definition escape_char :: "nat \<Rightarrow> string" where
  "escape_char c =
     (if c = 0x0A then [backslash, CHR ''n'']
      else if c = 0x0D then [backslash, CHR ''r'']
      else if c < 0x20 then [backslash, CHR ''x''] @ format_02x c
      else if c < 0x7F then [char_of c]
      else [backslash, CHR ''x''] @ format_02x c)"

definition write_line :: "pytext \<Rightarrow> string" where
  "write_line line = [quote] @ concat (map escape_char line) @ [quote, CHR 0x0A]"

definition cheader_text :: "pytext \<Rightarrow> string" where
  "cheader_text t = concat (map write_line (readlines (universal_newlines t)))"

text \<open>The files after each argument; a file that cannot be read ends the script.\<close>

definition make_cheader :: "(string \<Rightarrow> py_error + pytext) \<Rightarrow> string \<Rightarrow> disk \<Rightarrow> (py_error + unit) \<times> disk" where
  "make_cheader decode arg fs =
     (case fs arg of
        None \<Rightarrow> (Inl (OSError ''No such file or directory''), fs)
      | Some bytes \<Rightarrow>
          (case decode bytes of
             Inl e \<Rightarrow> (Inl e, fs)
           | Inr t \<Rightarrow> (Inr (), fs(arg @ ''.h'' \<mapsto> cheader_text t))))"

fun make_cheader_main :: "(string \<Rightarrow> py_error + pytext) \<Rightarrow> string list \<Rightarrow> disk \<Rightarrow> (py_error + unit) \<times> disk" where
  "make_cheader_main decode [] fs = (Inr (), fs)"
| "make_cheader_main decode (arg # args) fs =
     (case make_cheader decode arg fs of (Inl e, fs1) \<Rightarrow> (Inl e, fs1) | (Inr _, fs1) \<Rightarrow> make_cheader_main decode args fs1)"

section \<open>String literals in C\<close>

definition hex_value :: "char \<Rightarrow> nat option" where
  "hex_value c =
     (let n = of_char c :: nat
      in if 48 \<le> n \<and> n \<le> 57 then Some (n - 48) else if 97 \<le> n \<and> n \<le> 102 then Some (n - 87)
         else if 65 \<le> n \<and> n \<le> 70 then Some (n - 55) else None)"

definition is_hex :: "char \<Rightarrow> bool" where "is_hex c \<longleftrightarrow> hex_value c \<noteq> None"

definition hex_number :: "string \<Rightarrow> nat" where
  "hex_number s = foldl (\<lambda>n c. 16 * n + the (hex_value c)) 0 s"

text \<open>
  The characters up to the closing quote. A hexadecimal escape takes all the hexadecimal digits that follow
  and has to fit a byte; a raw newline does not belong into a literal.
\<close>

function c_chars :: "string \<Rightarrow> (nat list \<times> string) option" where
  "c_chars [] = None"
| "c_chars (c # cs) =
     (if c = quote then Some ([], cs)
      else if c = CHR 0x0A then None
      else if c \<noteq> backslash then map_option (apfst (Cons (of_char c))) (c_chars cs)
      else (case cs of
              [] \<Rightarrow> None
            | d # ds \<Rightarrow>
                if d = CHR ''n'' then map_option (apfst (Cons 0x0A)) (c_chars ds)
                else if d = CHR ''r'' then map_option (apfst (Cons 0x0D)) (c_chars ds)
                else if d = quote \<or> d = backslash then map_option (apfst (Cons (of_char d))) (c_chars ds)
                else if d = CHR ''x''
                then (let h = takeWhile is_hex ds
                      in if h = [] \<or> hex_number h > 255 then None
                         else map_option (apfst (Cons (hex_number h))) (c_chars (dropWhile is_hex ds)))
                else None))"
  by pat_completeness auto
termination
  by (relation "measure length") (auto simp: length_dropWhile_le le_imp_less_Suc intro: le_less_trans [OF length_dropWhile_le])

declare c_chars.simps(2) [simp del]

lemma c_chars_length: "c_chars s = Some (x, r) \<Longrightarrow> length r < length s"
proof (induction s arbitrary: x r rule: c_chars.induct)
  case (2 c cs)
  have mapped: "length r < n" if "map_option (apfst (Cons k)) (c_chars t) = Some (x, r)"
      "\<And>x r. c_chars t = Some (x, r) \<Longrightarrow> length r < length t" "length t \<le> n" for k t n
    using that by fastforce
  show ?case
  proof (cases "c = quote \<or> c = CHR 0x0A \<or> c \<noteq> backslash")
    case True
    then show ?thesis
      using 2(6) 2(1) mapped [where t = cs and n = "length (c # cs)"] by (auto simp: c_chars.simps(2) split: if_splits)
  next
    case False
    then obtain d ds where cs: "cs = d # ds" using 2(6) by (cases cs) (auto simp: c_chars.simps(2))
    have plain: "length r < length (c # cs)" if "map_option (apfst (Cons k)) (c_chars ds) = Some (x, r)"
        "\<And>x r. c_chars ds = Some (x, r) \<Longrightarrow> length r < length ds" for k
      using mapped [OF that] cs by simp
    let ?t = "dropWhile is_hex ds"
    have hex: "length r < length (c # cs)" if "map_option (apfst (Cons k)) (c_chars ?t) = Some (x, r)"
        "\<And>x r. c_chars ?t = Some (x, r) \<Longrightarrow> length r < length ?t" for k
      using mapped [OF that, where n = "length (c # cs)"] length_dropWhile_le [of is_hex ds] cs by simp
    show ?thesis
      using 2(6) False unfolding c_chars.simps(2) cs list.case
      using plain [OF _ 2(2)] plain [OF _ 2(3)] plain [OF _ 2(4)] hex [OF _ 2(5)] cs
      by (simp add: Let_def split: if_splits)
  qed
qed simp

text \<open>Literals one after the other, between line ends, are one string.\<close>

function c_literal :: "string \<Rightarrow> nat list option" where
  "c_literal [] = Some []"
| "c_literal (c # cs) =
     (if c = CHR 0x0A then c_literal cs
      else if c = quote
      then (case c_chars cs of None \<Rightarrow> None | Some (x, r) \<Rightarrow> map_option (append x) (c_literal r))
      else None)"
  by pat_completeness auto
termination by (relation "measure length") (auto dest: c_chars_length)

declare c_literal.simps(2) [simp del]

end
