(* ===== verification/Cheader_Props.thy ===== *)
theory Cheader_Props
  imports Make_Cheader
begin

text \<open>
  When a generated header means the file it was made from, and when it does not.
\<close>

lemma hex_number_append: "hex_number (s @ [c]) = 16 * hex_number s + the (hex_value c)"
  by (simp add: hex_number_def)

lemma hex_digit_value:
  assumes "d < 16"
  shows "hex_value (hex_digit d) = Some d"
proof -
  have "\<forall>d\<in>set [0..<16]. hex_value (hex_digit d) = Some d" by code_simp
  then show ?thesis using assms by simp
qed

lemma hex_show_number: "hex_number (hex_show n) = n \<and> (\<forall>c\<in>set (hex_show n). is_hex c) \<and> hex_show n \<noteq> []"
proof (induction n rule: hex_show.induct)
  case (1 n)
  show ?case
  proof (cases "n < 16")
    case True
    then show ?thesis
      by (subst (1 2 3) hex_show.simps) (simp add: hex_number_def hex_digit_value is_hex_def)
  next
    case False
    then have "n mod 16 < 16" by simp
    from hex_digit_value [OF this] show ?thesis
      using False 1 by (subst (1 2 3) hex_show.simps) (simp add: hex_number_append is_hex_def ball_Un)
  qed
qed

lemma hex_number_zeros: "hex_number (replicate k (CHR ''0'') @ s) = hex_number s"
proof (induction k)
  case (Suc k)
  have "hex_number (CHR ''0'' # t) = hex_number t" for t by (simp add: hex_number_def hex_value_def)
  then show ?case using Suc by simp
qed simp

lemma format_02x_number:
  "hex_number (format_02x n) = n" "\<forall>c\<in>set (format_02x n). is_hex c" "format_02x n \<noteq> []"
proof -
  have z: "is_hex (CHR ''0'')" by (simp add: is_hex_def hex_value_def)
  then have "\<forall>c\<in>set (replicate k (CHR ''0'')). is_hex c" for k by simp
  then show "hex_number (format_02x n) = n" "\<forall>c\<in>set (format_02x n). is_hex c" "format_02x n \<noteq> []"
    using z hex_show_number [of n] by (simp_all add: format_02x_def Let_def hex_number_zeros ball_Un)
qed

text \<open>
  Which lines survive: every character fits a byte, there is no quote and no backslash, and after a
  character that is written as a hexadecimal escape comes no hexadecimal digit.
\<close>

definition escaped :: "nat \<Rightarrow> bool" where
  "escaped c \<longleftrightarrow> (c < 0x20 \<and> c \<noteq> 0x0A \<and> c \<noteq> 0x0D) \<or> 0x7F \<le> c"

fun plain_text :: "pytext \<Rightarrow> bool" where
  "plain_text [] \<longleftrightarrow> True"
| "plain_text (c # cs) \<longleftrightarrow> c < 256 \<and> c \<noteq> 0x22 \<and> c \<noteq> 0x5C \<and>
     (escaped c \<longrightarrow> (case cs of [] \<Rightarrow> True | d # _ \<Rightarrow> escaped d \<or> d = 0x0A \<or> d = 0x0D \<or> \<not> is_hex (char_of d))) \<and>
     plain_text cs"

lemma is_hex_special: "\<not> is_hex quote" "\<not> is_hex backslash"
  by (simp_all add: is_hex_def hex_value_def quote_def backslash_def)

lemma escape_head:
  assumes "escaped d \<or> d = 0x0A \<or> d = 0x0D \<or> \<not> is_hex (char_of d)" 
  shows "\<exists>h t. escape_char d = h # t \<and> \<not> is_hex h"
  using assms is_hex_special(2) by (auto simp: escape_char_def escaped_def)

lemma c_chars_line:
  "plain_text l \<Longrightarrow> c_chars (concat (map escape_char l) @ quote # r) = Some (l, r)"
proof (induction l)
  case Nil
  then show ?case by (simp add: c_chars.simps(2))
next
  case (Cons c l)
  let ?rest = "concat (map escape_char l) @ quote # r"
  have IH: "c_chars ?rest = Some (l, r)" using Cons by simp
  have c: "c < 256" "c \<noteq> 0x22" "c \<noteq> 0x5C" using Cons.prems by simp_all
  have nb: "backslash \<noteq> quote" "backslash \<noteq> CHR 0x0A" by (simp_all add: backslash_def quote_def)
  show ?case
  proof (cases "escaped c")
    case True
    have "\<exists>h t. ?rest = h # t \<and> \<not> is_hex h"
    proof (cases l)
      case (Cons d l')
      then have "escaped d \<or> d = 0x0A \<or> d = 0x0D \<or> \<not> is_hex (char_of d)"
        using Cons.prems True by simp
      from escape_head [OF this] Cons show ?thesis by auto
    qed (simp add: is_hex_special)
    then obtain h t where rest: "?rest = h # t" "\<not> is_hex h" by blast
    have tw: "takeWhile is_hex (format_02x c @ ?rest) = format_02x c" "dropWhile is_hex (format_02x c @ ?rest) = ?rest"
      using format_02x_number(2) [of c] rest by simp_all
    have esc: "escape_char c = backslash # CHR ''x'' # format_02x c"
      using True by (auto simp: escape_char_def escaped_def)
    have "c_chars (backslash # CHR ''x'' # (format_02x c @ ?rest)) = map_option (apfst (Cons c)) (c_chars ?rest)"
      using tw format_02x_number [of c] c(1) nb
      by (subst c_chars.simps) (simp add: Let_def quote_def backslash_def)
    then show ?thesis by (simp add: esc IH)
  next
    case False
    consider "c = 0x0A" | "c = 0x0D" | "0x20 \<le> c" "c < 0x7F" using False by (auto simp: escaped_def)
    then show ?thesis
    proof cases
      case 3
      have oc: "of_char (char_of c :: char) = c" using c(1) by (simp add: of_char_of)
      have "char_of c \<noteq> d" if "of_char d \<noteq> c" for d using that oc by metis
      then have "char_of c \<noteq> quote" "char_of c \<noteq> backslash" "char_of c \<noteq> CHR 0x0A"
        using c 3 by (simp_all add: quote_def backslash_def)
      moreover have "escape_char c = [char_of c]" using 3 by (simp add: escape_char_def)
      ultimately show ?thesis using IH oc by (simp add: c_chars.simps(2))
    next
      case 1
      then have "escape_char c = [backslash, CHR ''n'']" by (simp add: escape_char_def)
      then show ?thesis using 1 IH nb by (simp add: c_chars.simps(2))
    next
      case 2
      then have "escape_char c = [backslash, CHR ''r'']" by (simp add: escape_char_def)
      then show ?thesis using 2 IH nb by (simp add: c_chars.simps(2))
    qed
  qed
qed

lemma c_literal_lines:
  "\<forall>l\<in>set ls. plain_text l \<Longrightarrow> c_literal (concat (map write_line ls)) = Some (concat ls)"
proof (induction ls)
  case (Cons l ls)
  let ?rest = "concat (map write_line ls)"
  have q: "quote \<noteq> CHR 0x0A" by (simp add: quote_def)
  have line: "c_chars (concat (map escape_char l) @ quote # CHR 0x0A # ?rest) = Some (l, CHR 0x0A # ?rest)"
    using c_chars_line [of l "CHR 0x0A # ?rest"] Cons.prems by simp
  have nl: "c_literal (CHR 0x0A # ?rest) = c_literal ?rest" by (subst c_literal.simps(2)) simp
  have "c_literal (quote # (concat (map escape_char l) @ quote # CHR 0x0A # ?rest)) =
      map_option (append l) (c_literal ?rest)"
    by (subst c_literal.simps(2)) (simp add: q line nl)
  moreover have "write_line l @ ?rest = quote # (concat (map escape_char l) @ quote # CHR 0x0A # ?rest)"
    by (simp add: write_line_def)
  ultimately show ?case using Cons by simp
qed simp

lemma concat_readlines: "concat (readlines t) = t"
  by (induction t) (auto split: list.splits)

lemma readlines_plain: "plain_text t \<Longrightarrow> \<forall>l\<in>set (readlines t). plain_text l"
proof (induction t)
  case (Cons c t)
  have "readlines t \<noteq> [] \<Longrightarrow> \<exists>l ls. readlines t = l # ls \<and> (\<exists>d l' t'. l = d # l' \<and> t = d # t')"
    by (cases t) (auto split: list.splits)
  then show ?case
    using Cons by (cases "readlines t") (auto split: list.splits)
qed simp

text \<open>C26: The header means the file: for a text without quotes and backslashes in which no hexadecimal digit
  follows a character that is written as an escape, the string literals that the script writes
  are, in C, the characters of the text with its line ends as newlines.\<close>

theorem header_means_file:
  assumes "fs arg = Some bytes" "decode bytes = Inr t" "plain_text (universal_newlines t)"
  shows "\<exists>h. make_cheader decode arg fs = (Inr (), fs(arg @ ''.h'' \<mapsto> h)) \<and> c_literal h = Some (universal_newlines t)"
proof (intro exI conjI)
  show "make_cheader decode arg fs = (Inr (), fs(arg @ ''.h'' \<mapsto> cheader_text t))"
    using assms by (simp add: make_cheader_def)
  show "c_literal (cheader_text t) = Some (universal_newlines t)"
    using c_literal_lines [OF readlines_plain [OF assms(3)]] by (simp add: cheader_text_def concat_readlines)
qed

definition ex_ascii :: "string \<Rightarrow> py_error + pytext" where
  "ex_ascii s = Inr (map of_char s)"

theorem header_means_file_witness:
  "\<exists>h. make_cheader ex_ascii ''a'' [''a'' \<mapsto> ''Hi'' @ [CHR 0x09, CHR 0x0D, CHR 0x0A]] =
       (Inr (), [''a'' \<mapsto> ''Hi'' @ [CHR 0x09, CHR 0x0D, CHR 0x0A], ''a.h'' \<mapsto> h]) \<and>
     c_literal h = Some [72, 105, 9, 10]"
proof -
  have "plain_text (universal_newlines [72, 105, 9, 13, 10])"
    by (simp add: escaped_def is_hex_def hex_value_def)
  from header_means_file [of "[''a'' \<mapsto> ''Hi'' @ [CHR 0x09, CHR 0x0D, CHR 0x0A]]" "''a''" _ ex_ascii, OF _ _ this]
  show ?thesis by (simp add: ex_ascii_def)
qed

text \<open>Otherwise it need not: a quote ends the literal early, and an escape swallows a digit.\<close>

lemma quote_breaks_header: "c_literal (cheader_text [0x22]) = None"
  by code_simp

lemma escape_swallows_digit: "c_literal (cheader_text [0x1B, 0x41]) = None"
  by code_simp

end
