(* ===== verification/Spec2Isabelle.thy ===== *)
theory Spec2Isabelle
  imports PCV_Props_Files PCV_Props_Cache PCV_Props_Filters PCV_Props_Edit PCV_Props_Render PCV_Props_Shaders PCV_Props_Panels PCV_Props_GLSL PCV_Render_Uniforms PCV_Props_Mesh
    PCV_Props_Convert PCV_Props_Generate Portal_Props Portal_Daemon_Props Portal_System_Props Portal_Request_Props Door_Props
    Busch_Interface Api_Endpoint Cheader_Props
begin

text \<open>
  Portal300 opens and locks the doors of a hackerspace. This library models the programs
  of the repository, and what they promise.

  \<^item> The point cloud visualizer, an add-on of Blender with which the positions of the door sensors are
    calibrated: \<open>src/scripts/calibration/space_view3d_point_cloud_visualizer.py\<close> (theories \<open>PCV_...\<close>).
  \<^item> The portal: the daemon (\<open>src/software/src\<close>, theories \<open>Portal_...\<close>) and the controllers of the
    motorised doors B2 and C2 (\<open>src/firmware/door-control/main\<close>, theories \<open>Door_...\<close>), which talk
    by MQTT; \<open>Portal_System\<close> composes them. Around them: the members' command line (\<open>Portal_Trigger\<close>), the intercom of
    the front door (\<open>Busch_Interface\<close>) and the status on the web (\<open>Api_Endpoint\<close>).
  \<^item> The generator of C headers with the certificates of the devices,
    \<open>src/firmware/make-cheader.py\<close> (\<open>Make_Cheader\<close>).

  Names are those of the sources. Where two programs use one name, the door controller's has the suffix \<open>_dc\<close>.

  \<^bold>\<open>The visualizer.\<close> Its state is the record \<open>world\<close> of \<open>PCV_State\<close>: the objects of the scene with their
  properties (\<open>PCV_properties\<close>), the cache of loaded clouds (\<open>PCVManager.cache\<close>, a dict in insertion
  order, one \<open>cache_item\<close> per cloud), the class attributes, the preferences and the reports to the user.
  An operator of the add-on is a function from the state to a status (finished, cancelled or the exception
  that was raised) and a state.

  \<^item> \<open>PCV_Prelude\<close>, \<open>PCV_Path\<close>: Python's and numpy's lists, strings, numbers and paths.
  \<^item> \<open>PCV_Ply\<close>, \<open>PCV_Bin_Ply\<close>: the two readers and the writer of PLY files. \<open>PCV_Ply_Facts\<close> shows that what is
    written is read back, by both readers.
  \<^item> \<open>PCV_Manager\<close>, \<open>PCV_Extra\<close>, \<open>PCV_Uniforms\<close>: \<open>PCVManager\<close> with its draw handler, the batches of all
    shaders, and what the shaders declare and are given. \<open>item_ok\<close> is the invariant of a cache item; the facts show that
    every operation keeps it, that the handler does not raise, and that the collector removes the marked items.
  \<^item> \<open>PCV_GLSL\<close>: the code of the shaders for one point. \<open>PCV_GLSL_Facts\<close>, \<open>PCV_Color_Facts\<close> and \<open>PCV_Clip_Facts\<close> relate it to the
    operators: the preview of a colour adjustment shows what applying it stores, the clip planes show the inside of a box.
  \<^item> \<open>PCV_Declarations\<close>, \<open>PCV_Panels\<close>: the declared properties, preferences and operators with their registration, and the
    panels of the sidebar as lists of widgets. \<open>PCV_Panel_Facts\<close> shows that every widget refers to something declared.
  \<^item> \<open>PCV_Load\<close>, \<open>PCV_Control\<close>, \<open>PCV_Filters\<close>, \<open>PCV_Resample\<close>, \<open>PCV_Edit\<close>, \<open>PCV_Shaders\<close>, \<open>PCV_Sequence\<close>: the operators that
    load, draw, filter, edit, colour and play clouds, and the interface for scripts. The facts say
    which points are in the cloud afterwards, in terms of those before.
  \<^item> \<open>PCV_Mesh\<close>, \<open>PCV_Convert\<close>, \<open>PCV_Render\<close>, \<open>PCV_Render_Uniforms\<close>, \<open>PCV_Samplers\<close>: meshes from points and points from
    meshes, export, images and what their shaders are given.
  \<^item> \<open>PCV_Props_...\<close>: the properties, each applied to the concrete state of \<open>PCV_Examples\<close>.

  \<^bold>\<open>The portal.\<close> \<open>Portal_SM\<close> is the daemon's state machine; the signals it emits are a list. \<open>Portal_Ring\<close> is the queue of
  these signals, a ring buffer with 32-bit offset and size, shown to be a bounded list of 64. \<open>Portal_Daemon\<close> adds the
  clients on the local socket, the MQTT messages, the timer and the main loop (\<open>main_loop\<close>:
  all queued signals, then one round of input). \<open>Door_Control\<close> is the controller of one door: the state machine
  with its calls of the motor buttons and the timer as a list of actions, the smoothing of the sensors over eight
  samples, and the loop of \<open>app_main\<close>; \<open>Door_Button\<close> has its debounced button and the beeper. In \<open>Portal_System\<close> a step is a round of the
  daemon, the delivery of a published message to a door, or a round of a door. \<open>Portal_Trigger\<close> turns a command line into the message to the
  daemon, and \<open>Portal_Request_Props\<close> follows it to the motor. \<open>Busch_Interface\<close> has one pulse of the front door for each
  opening at most, and \<open>Api_Endpoint\<close> follows the daemon's state to the web.

  The state machines are invariants of transition systems: the locale \<open>transition_invariant\<close> (\<open>PCV_Prelude\<close>) proves once
  that what every step keeps holds in every run; it is interpreted for the door controller, the shader switches,
  the sequence player and the registration of the draw handler. \<open>guarded_invariant\<close> is the same for runs whose steps keep to a
  rule, interpreted for the whole portal. \<open>bounded_queue\<close> is what the daemon relies on of its queue.

  \<^bold>\<open>Bounds.\<close> The loops of the sources are recursive functions with a termination proof. A loop that may run for
  ever is a \<open>partial_function\<close> with the value \<open>None\<close> when it does: the search for a free client id and Poisson disk
  sampling, both shown to end, and the counting of rays and the sampling of a volume, which need not. There is no
  fuel. Floating point numbers of the visualizer are exact reals. Integers of the daemon
  are words where they can wrap. A round of the daemon has at most 16 inputs with one event each, so the 64 slots
  of its queue never overflow. A door controller is idle again after at most four timeouts.

  \<^bold>\<open>Parameters.\<close> What is not in the repository is an argument of the definitions that use it: Blender's matrices,
  ray casting, meshes and images, \<open>numpy.genfromtxt\<close>, the random numbers, the decoding of bytes to text, whether
  a message can be published, the readings of the sensors. What is relied on stands as a hypothesis, with an instance in the witness.

  \<^bold>\<open>Not modelled.\<close> Of the visualizer: rounding of floating point numbers, the interpolation inside a triangle (all
  vertices of a point carry the same values), icons and descriptions of the panels, unregistering, console output, and
  code that is commented out or never called. Of the portal: start-up, reconnecting, the MQTT
  client itself, log and its forwarding, the texts sent to clients and their printing, WLAN, clock, HTTP and the set-up
  of pins and serial lines, which are I/O around libraries.
\<close>

end
